(* ===== verification/Prelude.thy ===== *)
theory Prelude
  imports Main "HOL-Library.Sublist" "HOL-Library.Char_ord" "HOL-Library.Word"
    "HOL-Library.Code_Target_Nat"
begin

section \<open>Shared vocabulary of the development\<close>

text \<open>
  This theory holds what the component theories share: results as sums, the part of
  Rust's string library the crates call, decimal rendering and parsing, and the
  development's collections of facts.

  A Rust \<open>String\<close> or \<open>&str\<close> is modelled by the list of its UTF-8 bytes
  (\<^typ>\<open>string\<close>, since \<^typ>\<open>char\<close> is a byte), so \<^const>\<open>length\<close> is Rust's
  \<open>len()\<close>. Searching, splitting and case folding on ASCII characters work on bytes
  exactly as Rust's functions do, because every byte of a multi-byte character is at
  least 128. Unicode white space matters to \<open>trim\<close> only and is spelled out there.
\<close>

named_theorems result_simps \<open>evaluation of results, options and monadic steps\<close>
named_theorems str_simps \<open>equations of the string functions\<close>
named_theorems model_defs \<open>definitions to unfold when a concrete input is evaluated\<close>

subsection \<open>Results\<close>

text \<open>\<open>Result<T, E>\<close> is \<^typ>\<open>'e + 'a\<close>, with \<^const>\<open>Inl\<close> for \<open>Err\<close>;
  \<open>res_bind\<close> is the \<open>?\<close> operator.\<close>

definition res_bind :: "'e + 'a \<Rightarrow> ('a \<Rightarrow> 'e + 'b) \<Rightarrow> 'e + 'b" where
  "res_bind r f = (case r of Inl e \<Rightarrow> Inl e | Inr a \<Rightarrow> f a)"

definition is_ok :: "'e + 'a \<Rightarrow> bool" where
  "is_ok r = (case r of Inl _ \<Rightarrow> False | Inr _ \<Rightarrow> True)"

definition ok_or :: "'a option \<Rightarrow> 'e \<Rightarrow> 'e + 'a" where
  "ok_or x e = (case x of None \<Rightarrow> Inl e | Some a \<Rightarrow> Inr a)"

definition opt_or :: "'a option \<Rightarrow> 'a option \<Rightarrow> 'a option" where
  "opt_or x y = (case x of None \<Rightarrow> y | Some a \<Rightarrow> Some a)"

definition opt_filter :: "('a \<Rightarrow> bool) \<Rightarrow> 'a option \<Rightarrow> 'a option" where
  "opt_filter P x = (case x of None \<Rightarrow> None | Some a \<Rightarrow> if P a then Some a else None)"

lemma res_bind_simps [simp, result_simps]:
  "res_bind (Inl e) f = Inl e"
  "res_bind (Inr a) f = f a"
  by (simp_all add: res_bind_def)

lemma is_ok_simps [simp, result_simps]:
  "is_ok (Inl e) = False"
  "is_ok (Inr a) = True"
  by (simp_all add: is_ok_def)

lemma ok_or_simps [simp, result_simps]:
  "ok_or None e = Inl e"
  "ok_or (Some a) e = Inr a"
  by (simp_all add: ok_or_def)

lemma ok_or_eq:
  "ok_or x e = Inr a \<longleftrightarrow> x = Some a"
  "ok_or x e = Inl e' \<longleftrightarrow> x = None \<and> e' = e"
  by (cases x; auto)+

lemma opt_or_simps [simp, result_simps]:
  "opt_or None y = y"
  "opt_or (Some a) y = Some a"
  by (simp_all add: opt_or_def)

lemma opt_filter_simps [simp, result_simps]:
  "opt_filter P None = None"
  "opt_filter P (Some a) = (if P a then Some a else None)"
  by (simp_all add: opt_filter_def)

lemma res_bind_eq_Inr: "res_bind r f = Inr b \<longleftrightarrow> (\<exists>a. r = Inr a \<and> f a = Inr b)"
  by (cases r) auto

lemma res_bind_eq_Inl:
  "res_bind r f = Inl e \<longleftrightarrow> r = Inl e \<or> (\<exists>a. r = Inr a \<and> f a = Inl e)"
  by (cases r) auto

lemma is_ok_iff: "is_ok r \<longleftrightarrow> (\<exists>a. r = Inr a)"
  by (cases r) auto

lemma is_ok_unit: "is_ok (r :: 'e + unit) \<longleftrightarrow> r = Inr ()"
  by (cases r) auto

text \<open>\<open>map_err\<close> of a result.\<close>

definition map_err :: "('e \<Rightarrow> 'f) \<Rightarrow> 'e + 'a \<Rightarrow> 'f + 'a" where
  "map_err f r = (case r of Inl e \<Rightarrow> Inl (f e) | Inr a \<Rightarrow> Inr a)"

lemma map_err_Inr [simp]: "map_err f r = Inr a \<longleftrightarrow> r = Inr a"
  by (cases r) (auto simp: map_err_def)

text \<open>A \<open>for\<close> loop that stops at the first \<open>Err\<close>.\<close>

fun res_forall :: "('a \<Rightarrow> 'e + unit) \<Rightarrow> 'a list \<Rightarrow> 'e + unit" where
  "res_forall f [] = Inr ()"
| "res_forall f (x # xs) = res_bind (f x) (\<lambda>_. res_forall f xs)"

lemma res_forall_ok: "res_forall f xs = Inr () \<longleftrightarrow> (\<forall>x \<in> set xs. f x = Inr ())"
  by (induction xs) (auto simp: res_bind_eq_Inr)

lemma res_forall_is_ok: "is_ok (res_forall f xs) \<longleftrightarrow> (\<forall>x \<in> set xs. is_ok (f x))"
  by (simp add: is_ok_unit res_forall_ok)

text \<open>\<open>map(..).collect::<Result<Vec<_>, _>>()\<close>.\<close>

fun res_map :: "('a \<Rightarrow> 'e + 'b) \<Rightarrow> 'a list \<Rightarrow> 'e + 'b list" where
  "res_map f [] = Inr []"
| "res_map f (x # xs) = res_bind (f x) (\<lambda>y. res_bind (res_map f xs) (\<lambda>ys. Inr (y # ys)))"

lemma res_map_set: "res_map f xs = Inr ys \<Longrightarrow> y \<in> set ys \<Longrightarrow> \<exists>x \<in> set xs. f x = Inr y"
  by (induction xs arbitrary: ys) (auto simp: res_bind_eq_Inr)

lemma find_Some_split:
  "find P xs = Some x \<longleftrightarrow> (\<exists>pre post. xs = pre @ x # post \<and> P x \<and> (\<forall>y \<in> set pre. \<not> P y))"
    (is "_ \<longleftrightarrow> ?R xs")
proof
  assume "find P xs = Some x"
  then obtain i where i: "i < length xs" "P (xs ! i)" "x = xs ! i" "\<forall>j < i. \<not> P (xs ! j)"
    by (auto simp: find_Some_iff)
  then have "xs = take i xs @ x # drop (Suc i) xs" by (simp add: id_take_nth_drop)
  moreover have "\<forall>y \<in> set (take i xs). \<not> P y" using i(1,4) by (auto simp: in_set_conv_nth)
  ultimately show "?R xs" using i(2,3) by blast
next
  assume "?R xs"
  then obtain pre post where "xs = pre @ x # post" "P x" "\<forall>y \<in> set pre. \<not> P y" by blast
  moreover from this(2,3) have "find P (pre @ x # post) = Some x" by (induction pre) auto
  ultimately show "find P xs = Some x" by simp
qed

lemma find_SomeD: "find P xs = Some x \<Longrightarrow> x \<in> set xs \<and> P x"
  by (auto simp: find_Some_split)

lemma find_None_all: "find P xs = None \<longleftrightarrow> (\<forall>x \<in> set xs. \<not> P x)"
  by (auto simp: find_None_iff)

subsection \<open>Bytes and ASCII case\<close>

abbreviation code :: "char \<Rightarrow> nat" where
  "code c \<equiv> of_char c"

definition is_ascii_upper :: "char \<Rightarrow> bool" where
  "is_ascii_upper c = (65 \<le> code c \<and> code c \<le> 90)"

definition is_ascii_lower :: "char \<Rightarrow> bool" where
  "is_ascii_lower c = (97 \<le> code c \<and> code c \<le> 122)"

definition is_ascii_digit :: "char \<Rightarrow> bool" where
  "is_ascii_digit c = (48 \<le> code c \<and> code c \<le> 57)"

definition is_ascii_hexdigit :: "char \<Rightarrow> bool" where
  "is_ascii_hexdigit c =
     (is_ascii_digit c \<or> 97 \<le> code c \<and> code c \<le> 102 \<or> 65 \<le> code c \<and> code c \<le> 70)"

definition lower_char :: "char \<Rightarrow> char" where
  "lower_char c = (if is_ascii_upper c then char_of (code c + 32) else c)"

definition upper_char :: "char \<Rightarrow> char" where
  "upper_char c = (if is_ascii_lower c then char_of (code c - 32) else c)"

definition to_lower :: "string \<Rightarrow> string" where
  "to_lower s = map lower_char s"

definition to_upper :: "string \<Rightarrow> string" where
  "to_upper s = map upper_char s"

definition eq_ignore_case :: "string \<Rightarrow> string \<Rightarrow> bool" where
  "eq_ignore_case a b = (to_lower a = to_lower b)"


lemma lower_char_idem [simp]: "lower_char (lower_char c) = lower_char c"
proof (cases "is_ascii_upper c")
  case True
  then have "code c + 32 < 256" by (simp add: is_ascii_upper_def)
  then have "code (char_of (code c + 32) :: char) = code c + 32" by simp
  with True show ?thesis by (simp add: lower_char_def is_ascii_upper_def)
qed (simp add: lower_char_def)

lemma to_lower_idem [simp]: "to_lower (to_lower s) = to_lower s"
  by (simp add: to_lower_def)

lemma to_lower_simps [simp]:
  "to_lower [] = []"
  "to_lower (c # s) = lower_char c # to_lower s"
  "to_lower (s @ t) = to_lower s @ to_lower t"
  by (simp_all add: to_lower_def)

lemma length_to_lower [simp]: "length (to_lower s) = length s"
  by (simp add: to_lower_def)

lemma to_lower_eq_Nil [simp]: "to_lower s = [] \<longleftrightarrow> s = []"
  by (simp add: to_lower_def)

subsection \<open>Searching, splitting, joining\<close>

definition starts_with :: "string \<Rightarrow> string \<Rightarrow> bool" where
  "starts_with s p = prefix p s"

definition ends_with :: "string \<Rightarrow> string \<Rightarrow> bool" where
  "ends_with s p = suffix p s"

fun str_contains :: "string \<Rightarrow> string \<Rightarrow> bool" where
  "str_contains [] p = (p = [])"
| "str_contains (c # s) p = (prefix p (c # s) \<or> str_contains s p)"

definition strip_prefix :: "string \<Rightarrow> string \<Rightarrow> string option" where
  "strip_prefix s p = (if prefix p s then Some (drop (length p) s) else None)"

definition strip_suffix :: "string \<Rightarrow> string \<Rightarrow> string option" where
  "strip_suffix s p = (if suffix p s then Some (take (length s - length p) s) else None)"

text \<open>\<open>split_on c s\<close> is \<open>s.split(c)\<close>: there is one more piece than separators, and
  pieces may be empty.\<close>

fun split_on :: "char \<Rightarrow> string \<Rightarrow> string list" where
  "split_on c [] = [[]]"
| "split_on c (x # s) =
     (if x = c then [] # split_on c s
      else case split_on c s of [] \<Rightarrow> [[x]] | w # ws \<Rightarrow> (x # w) # ws)"

text \<open>\<open>split_once c s\<close> is \<open>s.split_once(c)\<close>.\<close>

fun split_once :: "char \<Rightarrow> string \<Rightarrow> (string \<times> string) option" where
  "split_once c [] = None"
| "split_once c (x # s) =
     (if x = c then Some ([], s)
      else map_option (\<lambda>(a, b). (x # a, b)) (split_once c s))"

fun str_join :: "string \<Rightarrow> string list \<Rightarrow> string" where
  "str_join sep [] = []"
| "str_join sep [x] = x"
| "str_join sep (x # y # xs) = x @ sep @ str_join sep (y # xs)"

text \<open>\<open>find_char c s\<close> is \<open>s.find(c)\<close>, the byte offset of the first \<open>c\<close>.\<close>

fun find_char :: "char \<Rightarrow> string \<Rightarrow> nat option" where
  "find_char c [] = None"
| "find_char c (x # s) = (if x = c then Some 0 else map_option Suc (find_char c s))"

lemma str_contains_iff_sublist: "str_contains s p \<longleftrightarrow> sublist p s"
  by (induction s) (auto simp: sublist_Cons_right)

lemma strip_prefix_Some: "strip_prefix s p = Some r \<longleftrightarrow> s = p @ r"
  by (auto simp: strip_prefix_def prefix_def)

lemma strip_suffix_Some: "strip_suffix s p = Some r \<longleftrightarrow> s = r @ p"
  by (auto simp: strip_suffix_def suffix_def)

lemma find_char_append: "c \<notin> set a \<Longrightarrow> find_char c (a @ c # b) = Some (length a)"
  by (induction a) auto

lemma find_char_None: "find_char c s = None \<longleftrightarrow> c \<notin> set s"
  by (induction s) auto

lemma split_on_not_Nil [simp]: "split_on c s \<noteq> []"
  by (induction s) (auto split: list.splits)

lemma split_on_no_sep: "c \<notin> set s \<Longrightarrow> split_on c s = [s]"
  by (induction s) auto

lemma split_on_pieces: "w \<in> set (split_on c s) \<Longrightarrow> c \<notin> set w"
proof (induction s arbitrary: w)
  case Nil
  then show ?case by simp
next
  case (Cons x s)
  then show ?case by (cases "split_on c s") (auto split: if_splits)
qed

lemma split_on_append_sep: "c \<notin> set a \<Longrightarrow> split_on c (a @ c # b) = a # split_on c b"
  by (induction a) auto

lemma str_join_split_on: "str_join [c] (split_on c s) = s"
proof (induction s)
  case Nil
  show ?case by simp
next
  case (Cons x s)
  then show ?case
    by (cases "split_on c s"; cases "tl (split_on c s)") auto
qed

lemma split_on_join:
  "ws \<noteq> [] \<Longrightarrow> (\<And>w. w \<in> set ws \<Longrightarrow> c \<notin> set w) \<Longrightarrow> split_on c (str_join [c] ws) = ws"
proof (induction "[c]" ws rule: str_join.induct)
  case (3 x y xs)
  then show ?case by (simp add: split_on_append_sep)
qed (auto simp: split_on_no_sep)

lemma split_on_prefix_iff:
  "prefix (split_on c p) (split_on c r) \<longleftrightarrow> r = p \<or> prefix (p @ [c]) r"
proof (induction p arbitrary: r)
  case Nil
  show ?case by (cases r; cases "split_on c (tl r)") (auto split: list.splits)
next
  case (Cons x p)
  show ?case
  proof (cases r)
    case Nil
    then show ?thesis
      by (cases "split_on c p") auto
  next
    case (Cons y s)
    with Cons.IH [of s] show ?thesis
      by (cases "split_on c p"; cases "split_on c s") auto
  qed
qed

lemma suffix_last_str_join: "ws \<noteq> [] \<Longrightarrow> suffix (last ws) (str_join sep ws)"
  by (induction sep ws rule: str_join.induct) (auto simp: suffix_append suffix_def)

lemma suffix_last_split_on: "suffix (last (split_on c s)) s"
  using suffix_last_str_join [of "split_on c s" "[c]"] by (simp add: str_join_split_on)

lemma sep_append_inj:
  "c \<notin> set a \<Longrightarrow> c \<notin> set a' \<Longrightarrow> a @ c # b = a' @ c # b' \<longleftrightarrow> a = a' \<and> b = b'"
  by (auto simp: append_eq_append_conv2 append_eq_Cons_conv Cons_eq_append_conv)

subsection \<open>Trimming\<close>

text \<open>
  \<open>str::trim\<close> removes the Unicode characters with the property \<open>White_Space\<close>. In
  UTF-8 they are the ASCII characters 9 to 13 and 32, the two-byte characters U+0085
  and U+00A0 (lead byte C2), and the three-byte characters U+1680, U+2000 to U+200A,
  U+2028, U+2029, U+202F, U+205F and U+3000. \<open>ws_front\<close> removes one of them from the
  front of a string, \<open>ws_back\<close> from the front of a reversed string.
\<close>

definition ascii_ws :: "char \<Rightarrow> bool" where
  "ascii_ws c = (9 \<le> code c \<and> code c \<le> 13 \<or> code c = 32)"

definition ws2 :: "char \<Rightarrow> char \<Rightarrow> bool" where
  "ws2 a b = (code a = 194 \<and> (code b = 133 \<or> code b = 160))"

definition ws3 :: "char \<Rightarrow> char \<Rightarrow> char \<Rightarrow> bool" where
  "ws3 a b c =
     (code a = 225 \<and> code b = 154 \<and> code c = 128 \<or>
      code a = 226 \<and> code b = 128 \<and>
        (128 \<le> code c \<and> code c \<le> 138 \<or> code c = 168 \<or> code c = 169 \<or> code c = 175) \<or>
      code a = 226 \<and> code b = 129 \<and> code c = 159 \<or>
      code a = 227 \<and> code b = 128 \<and> code c = 128)"

fun ws_front :: "string \<Rightarrow> string option" where
  "ws_front [] = None"
| "ws_front [a] = (if ascii_ws a then Some [] else None)"
| "ws_front [a, b] =
     (if ascii_ws a then Some [b] else if ws2 a b then Some [] else None)"
| "ws_front (a # b # c # s) =
     (if ascii_ws a then Some (b # c # s)
      else if ws2 a b then Some (c # s)
      else if ws3 a b c then Some s else None)"

fun ws_back :: "string \<Rightarrow> string option" where
  "ws_back [] = None"
| "ws_back [a] = (if ascii_ws a then Some [] else None)"
| "ws_back [b, a] =
     (if ascii_ws b then Some [a] else if ws2 a b then Some [] else None)"
| "ws_back (c # b # a # s) =
     (if ascii_ws c then Some (b # a # s)
      else if ws2 b c then Some (a # s)
      else if ws3 a b c then Some s else None)"

lemma ws_front_length: "ws_front s = Some t \<Longrightarrow> length t < length s"
  by (induction s rule: ws_front.induct) (auto split: if_splits)

lemma ws_back_length: "ws_back s = Some t \<Longrightarrow> length t < length s"
  by (induction s rule: ws_back.induct) (auto split: if_splits)

function trim_start :: "string \<Rightarrow> string" where
  "trim_start s = (case ws_front s of None \<Rightarrow> s | Some t \<Rightarrow> trim_start t)"
  by pat_completeness auto
termination
  by (relation "measure length") (auto dest: ws_front_length)

function trim_rev :: "string \<Rightarrow> string" where
  "trim_rev s = (case ws_back s of None \<Rightarrow> s | Some t \<Rightarrow> trim_rev t)"
  by pat_completeness auto
termination
  by (relation "measure length") (auto dest: ws_back_length)

declare trim_start.simps [simp del] trim_rev.simps [simp del]

definition trim :: "string \<Rightarrow> string" where
  "trim s = rev (trim_rev (rev (trim_start s)))"

lemma ws_front_mono: "ws_front p = Some u \<Longrightarrow> prefix p t \<Longrightarrow> ws_front t \<noteq> None"
  by (induction p rule: ws_front.induct; cases t rule: ws_front.cases) (auto split: if_splits)

lemma ws_front_trim_start: "ws_front (trim_start s) = None"
proof (induction s rule: trim_start.induct)
  case (1 s)
  then show ?case by (subst trim_start.simps) (auto split: option.splits simp: trim_start.simps)
qed

lemma ws_back_trim_rev: "ws_back (trim_rev s) = None"
proof (induction s rule: trim_rev.induct)
  case (1 s)
  then show ?case by (subst trim_rev.simps) (auto split: option.splits simp: trim_rev.simps)
qed

lemma ws_back_suffix: "ws_back s = Some t \<Longrightarrow> suffix t s"
  by (induction s rule: ws_back.induct) (auto simp: suffix_def split: if_splits)

lemma trim_rev_suffix: "suffix (trim_rev s) s"
proof (induction s rule: trim_rev.induct)
  case (1 s)
  then show ?case
    by (cases "ws_back s") (auto simp: trim_rev.simps [of s] dest: ws_back_suffix intro: suffix_order.trans)
qed

lemma trim_trim [simp]: "trim (trim s) = trim s"
proof -
  let ?t = "trim_start s"
  have "prefix (trim s) ?t"
    using trim_rev_suffix [of "rev ?t"] by (simp add: trim_def suffix_to_prefix)
  then have "ws_front (trim s) = None"
    using ws_front_mono ws_front_trim_start by (metis not_None_eq)
  then have "trim_start (trim s) = trim s" by (simp add: trim_start.simps)
  moreover have "ws_back (rev (trim s)) = None"
    by (simp add: trim_def ws_back_trim_rev)
  then have "trim_rev (rev (trim s)) = rev (trim s)" by (simp add: trim_rev.simps)
  ultimately show ?thesis by (subst (1) trim_def) simp
qed

text \<open>\<open>s.trim_matches(c)\<close>, \<open>s.trim_start_matches(c)\<close> and
  \<open>s.trim_end_matches(c)\<close> for one ASCII character.\<close>

definition trim_start_char :: "char \<Rightarrow> string \<Rightarrow> string" where
  "trim_start_char c s = dropWhile (\<lambda>x. x = c) s"

definition trim_end_char :: "char \<Rightarrow> string \<Rightarrow> string" where
  "trim_end_char c s = rev (dropWhile (\<lambda>x. x = c) (rev s))"

definition trim_char :: "char \<Rightarrow> string \<Rightarrow> string" where
  "trim_char c s = trim_end_char c (trim_start_char c s)"

text \<open>A byte that is no white space on its own and no lead or last byte of a white-space
  character; all printable ASCII characters are such bytes.\<close>

definition plain_byte :: "char \<Rightarrow> bool" where
  "plain_byte c = (\<not> ascii_ws c \<and> code c < 128)"

lemma ws_front_plain: "plain_byte a \<Longrightarrow> ws_front (a # s) = None"
  by (cases s rule: ws_front.cases; cases "tl s")
    (auto simp: plain_byte_def ws2_def ws3_def neq_Nil_conv split: list.splits)

lemma ws_back_plain: "plain_byte a \<Longrightarrow> ws_back (a # s) = None"
  by (cases s rule: ws_back.cases; cases "tl s")
    (auto simp: plain_byte_def ws2_def ws3_def neq_Nil_conv split: list.splits)

lemma trim_start_plain: "plain_byte a \<Longrightarrow> trim_start (a # s) = a # s"
  by (subst trim_start.simps) (simp add: ws_front_plain)

lemma trim_rev_plain: "plain_byte a \<Longrightarrow> trim_rev (a # s) = a # s"
  by (subst trim_rev.simps) (simp add: ws_back_plain)

lemma trim_Nil [simp]: "trim [] = []"
  by (simp add: trim_def trim_start.simps trim_rev.simps)

lemma trim_plain_edges:
  assumes "s \<noteq> []" and "plain_byte (hd s)" and "plain_byte (last s)"
  shows "trim s = s"
proof -
  have "trim_start s = s"
    using assms(1,2) by (cases s) (simp_all add: trim_start_plain)
  moreover have "rev s = last s # rev (butlast s)"
    using assms(1) by (metis append_butlast_last_id rev_eq_Cons_iff rev_rev_ident)
  then have "trim_rev (rev s) = rev s"
    using assms(3) trim_rev_plain [of "last s" "rev (butlast s)"] by metis
  ultimately show ?thesis by (simp add: trim_def)
qed

text \<open>What is trimmed holds no plain byte.\<close>

lemma ws_front_removes:
  "ws_front s = Some t \<Longrightarrow> \<exists>l. s = l @ t \<and> (\<forall>c \<in> set l. \<not> plain_byte c)"
  by (induction s rule: ws_front.induct)
    (auto simp: plain_byte_def ws2_def ws3_def split: if_splits)

lemma ws_back_removes:
  "ws_back s = Some t \<Longrightarrow> \<exists>l. s = l @ t \<and> (\<forall>c \<in> set l. \<not> plain_byte c)"
  by (induction s rule: ws_back.induct)
    (auto simp: plain_byte_def ws2_def ws3_def split: if_splits)

lemma trim_start_removes: "\<exists>l. s = l @ trim_start s \<and> (\<forall>c \<in> set l. \<not> plain_byte c)"
proof (induction s rule: trim_start.induct)
  case (1 s)
  show ?case
  proof (cases "ws_front s")
    case (Some t)
    from ws_front_removes [OF Some] obtain l where "s = l @ t" "\<forall>c \<in> set l. \<not> plain_byte c" by blast
    moreover from 1 [OF Some] obtain l' where "t = l' @ trim_start t" "\<forall>c \<in> set l'. \<not> plain_byte c" by blast
    moreover have "trim_start s = trim_start t" using Some by (simp add: trim_start.simps [of s])
    ultimately have "s = (l @ l') @ trim_start s \<and> (\<forall>c \<in> set (l @ l'). \<not> plain_byte c)"
      by (metis append_assoc Un_iff set_append)
    then show ?thesis by blast
  qed (simp add: trim_start.simps)
qed

lemma trim_rev_removes: "\<exists>l. s = l @ trim_rev s \<and> (\<forall>c \<in> set l. \<not> plain_byte c)"
proof (induction s rule: trim_rev.induct)
  case (1 s)
  show ?case
  proof (cases "ws_back s")
    case (Some t)
    from ws_back_removes [OF Some] obtain l where "s = l @ t" "\<forall>c \<in> set l. \<not> plain_byte c" by blast
    moreover from 1 [OF Some] obtain l' where "t = l' @ trim_rev t" "\<forall>c \<in> set l'. \<not> plain_byte c" by blast
    moreover have "trim_rev s = trim_rev t" using Some by (simp add: trim_rev.simps [of s])
    ultimately have "s = (l @ l') @ trim_rev s \<and> (\<forall>c \<in> set (l @ l'). \<not> plain_byte c)"
      by (metis append_assoc Un_iff set_append)
    then show ?thesis by blast
  qed (simp add: trim_rev.simps)
qed

lemma trim_removes:
  "\<exists>l r. s = l @ trim s @ r \<and> (\<forall>c \<in> set l \<union> set r. \<not> plain_byte c)"
proof -
  obtain l where l: "s = l @ trim_start s" "\<forall>c \<in> set l. \<not> plain_byte c"
    using trim_start_removes by blast
  obtain r where r: "rev (trim_start s) = r @ trim_rev (rev (trim_start s))" "\<forall>c \<in> set r. \<not> plain_byte c"
    using trim_rev_removes by blast
  from arg_cong [OF r(1), of rev] have "trim_start s = trim s @ rev r"
    by (simp add: trim_def)
  with l r(2) show ?thesis by (intro exI [of _ l] exI [of _ "rev r"]) auto
qed

lemma trim_char_hd: "trim_char c s \<noteq> [] \<Longrightarrow> hd (trim_char c s) \<noteq> c"
proof -
  assume ne: "trim_char c s \<noteq> []"
  let ?t = "dropWhile (\<lambda>x. x = c) s"
  have "trim_char c s = rev (dropWhile (\<lambda>x. x = c) (rev ?t))"
    by (simp add: trim_char_def trim_start_char_def trim_end_char_def)
  with ne have t: "?t \<noteq> []" by (metis dropWhile.simps(1) rev.simps(1))
  then have hdt: "hd ?t \<noteq> c" by (rule hd_dropWhile)
  have "prefix (trim_char c s) ?t"
    using suffix_dropWhile [of "\<lambda>x. x = c" "rev ?t"]
    by (simp add: trim_char_def trim_start_char_def trim_end_char_def suffix_to_prefix)
  then have "hd (trim_char c s) = hd ?t"
    using ne by (auto simp: prefix_def)
  with hdt show ?thesis by simp
qed

lemma trim_char_last: "trim_char c s \<noteq> [] \<Longrightarrow> last (trim_char c s) \<noteq> c"
  using hd_dropWhile [of "\<lambda>x. x = c" "rev (trim_start_char c s)"]
  by (simp add: trim_char_def trim_end_char_def last_rev)

subsection \<open>Decimal numbers\<close>

definition digit_char :: "nat \<Rightarrow> char" where
  "digit_char d = char_of (48 + d)"

fun show_nat :: "nat \<Rightarrow> string" where
  "show_nat n = (if n < 10 then [digit_char n] else show_nat (n div 10) @ [digit_char (n mod 10)])"

declare show_nat.simps [simp del]

definition show_int :: "int \<Rightarrow> string" where
  "show_int i = (if i < 0 then CHR ''-'' # show_nat (nat (- i)) else show_nat (nat i))"

text \<open>The value of a digit string read after \<open>acc\<close>; \<open>None\<close> at a non-digit.\<close>

fun digits_value :: "nat \<Rightarrow> string \<Rightarrow> nat option" where
  "digits_value acc [] = Some acc"
| "digits_value acc (c # s) =
     (if is_ascii_digit c then digits_value (acc * 10 + (code c - 48)) s else None)"

text \<open>
  \<open>str::parse\<close> at an unsigned type with the given largest value: an optional \<open>+\<close>, at
  least one digit, no overflow. \<open>parse_signed\<close> reads a signed type whose values range
  from \<open>- m - 1\<close> to \<open>m\<close>.
\<close>

definition parse_digits :: "nat \<Rightarrow> string \<Rightarrow> nat option" where
  "parse_digits m s = (if s = [] then None else opt_filter (\<lambda>v. v \<le> m) (digits_value 0 s))"

fun parse_unsigned :: "nat \<Rightarrow> string \<Rightarrow> nat option" where
  "parse_unsigned m [] = None"
| "parse_unsigned m (c # s) =
     (if c = CHR ''+'' then parse_digits m s else parse_digits m (c # s))"

fun parse_signed :: "nat \<Rightarrow> string \<Rightarrow> int option" where
  "parse_signed m [] = None"
| "parse_signed m (c # s) =
     (if c = CHR ''+'' then map_option int (parse_digits m s)
      else if c = CHR ''-'' then map_option (\<lambda>v. - int v) (parse_digits (m + 1) s)
      else map_option int (parse_digits m (c # s)))"

definition u64_max :: nat where "u64_max = 18446744073709551615"
definition u32_max :: nat where "u32_max = 4294967295"
definition i64_max :: nat where "i64_max = 9223372036854775807"

lemma code_digit_char: "d < 10 \<Longrightarrow> code (digit_char d) = 48 + d"
  by (simp add: digit_char_def)

lemma is_ascii_digit_digit_char: "d < 10 \<Longrightarrow> is_ascii_digit (digit_char d)"
  by (simp add: is_ascii_digit_def code_digit_char)

lemma digits_value_append:
  "digits_value acc (s @ t) = Option.bind (digits_value acc s) (\<lambda>v. digits_value v t)"
  by (induction s arbitrary: acc) auto

lemma digits_value_show_nat: "digits_value 0 (show_nat n) = Some n"
proof (induction n rule: show_nat.induct)
  case (1 n)
  show ?case
  proof (cases "n < 10")
    case True
    then show ?thesis
      by (subst show_nat.simps) (simp add: is_ascii_digit_digit_char code_digit_char)
  next
    case False
    then have "digits_value 0 (show_nat (n div 10)) = Some (n div 10)" by (rule "1.IH")
    with False show ?thesis
      by (subst show_nat.simps)
        (simp add: digits_value_append is_ascii_digit_digit_char code_digit_char)
  qed
qed

lemma show_nat_inj [simp]: "show_nat m = show_nat n \<longleftrightarrow> m = n"
  by (metis digits_value_show_nat option.inject)

lemma show_nat_digits: "c \<in> set (show_nat n) \<Longrightarrow> is_ascii_digit c"
proof (induction n rule: show_nat.induct)
  case (1 n)
  show ?case
  proof (cases "n < 10")
    case True
    with "1.prems" show ?thesis
      by (simp add: show_nat.simps [of n] is_ascii_digit_digit_char)
  next
    case False
    with 1 show ?thesis
      by (auto simp: show_nat.simps [of n] is_ascii_digit_digit_char)
  qed
qed

lemma show_nat_not_Nil [simp]: "show_nat n \<noteq> []"
  by (subst show_nat.simps) simp

lemma parse_digits_show_nat: "n \<le> m \<Longrightarrow> parse_digits m (show_nat n) = Some n"
  by (simp add: parse_digits_def digits_value_show_nat)

lemma parse_unsigned_le: "parse_unsigned m s = Some v \<Longrightarrow> v \<le> m"
  by (cases s) (auto simp: parse_digits_def opt_filter_def split: if_splits option.splits)

lemma parse_unsigned_show_nat: "n \<le> m \<Longrightarrow> parse_unsigned m (show_nat n) = Some n"
proof -
  assume le: "n \<le> m"
  obtain c s where cs: "show_nat n = c # s" by (cases "show_nat n") auto
  then have "is_ascii_digit c" using show_nat_digits [of c n] by simp
  then have "c \<noteq> CHR ''+''" by (auto simp: is_ascii_digit_def)
  with le cs show ?thesis
    using parse_digits_show_nat [OF le] by simp
qed

lemma show_int_inj [simp]: "show_int i = show_int j \<longleftrightarrow> i = j"
proof -
  have dash: "CHR ''-'' # s \<noteq> show_nat n" for s n
    using show_nat_digits [of "CHR ''-''" n] by (auto simp: is_ascii_digit_def dest: sym)
  then have dash': "show_nat n \<noteq> CHR ''-'' # s" for s n by metis
  show ?thesis
    by (auto simp: show_int_def dash dash')
qed

lemma show_int_chars: "c \<in> set (show_int i) \<Longrightarrow> is_ascii_digit c \<or> c = CHR ''-''"
  by (auto simp: show_int_def dest: show_nat_digits split: if_splits)

end
