(* ===== verification/Web_Error.thy ===== *)
theory Web_Error
  imports Prelude
begin

section \<open>Framework errors\<close>

text \<open>
  Models \<open>sdkwork-web-core/src/error.rs\<close>: the error kinds, the error value every guard
  and store returns, its constructors, the HTTP status of a kind, its stable reason and
  display labels and its result code. The numbers of the result codes belong to the crate
  \<open>sdkwork_utils_rust\<close> and are a parameter; the axum rejection type is left out.
\<close>

datatype error_kind =
    MissingCredentials
  | ExpiredCredentials
  | InvalidCredentials
  | RevokedCredentials
  | Forbidden
  | BadRequest
  | UnprocessableEntity
  | Conflict
  | PayloadTooLarge
  | RateLimitExceeded
  | DependencyUnavailable
  | RequestTimeout
  | MethodNotAllowed
  | NotFound
  | NotImplemented
  | InternalServerError
  | ContextNotInjected
  | WebSocketRejected

record web_error =
  kind :: error_kind
  message :: string
  retry_after_seconds :: "nat option"
  auth_profile :: "string option"
  failed_stage :: "string option"
  reason :: "string option"

definition err_new :: "error_kind \<Rightarrow> string \<Rightarrow> web_error" where
  "err_new k m = \<lparr>kind = k, message = m, retry_after_seconds = None,
     auth_profile = None, failed_stage = None, reason = None\<rparr>"

definition missing_credentials :: "string \<Rightarrow> web_error" where
  "missing_credentials m = err_new MissingCredentials m"

definition invalid_credentials :: "string \<Rightarrow> web_error" where
  "invalid_credentials m = err_new InvalidCredentials m"

definition expired_credentials :: "string \<Rightarrow> web_error" where
  "expired_credentials m = err_new ExpiredCredentials m"

definition revoked_credentials :: "string \<Rightarrow> web_error" where
  "revoked_credentials m = err_new RevokedCredentials m"

definition forbidden :: "string \<Rightarrow> web_error" where
  "forbidden m = err_new Forbidden m"

definition bad_request :: "string \<Rightarrow> web_error" where
  "bad_request m = err_new BadRequest m"

definition unprocessable_entity :: "string \<Rightarrow> web_error" where
  "unprocessable_entity m = err_new UnprocessableEntity m"

definition conflict :: "string \<Rightarrow> web_error" where
  "conflict m = err_new Conflict m"

definition payload_too_large :: "string \<Rightarrow> web_error" where
  "payload_too_large m = err_new PayloadTooLarge m"

definition rate_limit_exceeded :: "string \<Rightarrow> nat \<Rightarrow> web_error" where
  "rate_limit_exceeded m secs = \<lparr>kind = RateLimitExceeded, message = m,
     retry_after_seconds = Some secs, auth_profile = None, failed_stage = None, reason = None\<rparr>"

definition dependency_unavailable :: "string \<Rightarrow> web_error" where
  "dependency_unavailable m = err_new DependencyUnavailable m"

definition request_timeout :: "string \<Rightarrow> web_error" where
  "request_timeout m = err_new RequestTimeout m"

definition method_not_allowed :: "string \<Rightarrow> web_error" where
  "method_not_allowed m = err_new MethodNotAllowed m"

definition not_found :: "string \<Rightarrow> web_error" where
  "not_found m = err_new NotFound m"

definition not_implemented :: "string \<Rightarrow> web_error" where
  "not_implemented m = err_new NotImplemented m"

definition internal_server_error :: "string \<Rightarrow> web_error" where
  "internal_server_error m = err_new InternalServerError m"

definition context_not_injected :: web_error where
  "context_not_injected = err_new ContextNotInjected
     ''WebRequestContext was not injected by the framework pipeline''"

definition websocket_rejected :: "string \<Rightarrow> web_error" where
  "websocket_rejected m = err_new WebSocketRejected m"

definition with_reason :: "string \<Rightarrow> web_error \<Rightarrow> web_error" where
  "with_reason r e = e\<lparr>reason := Some r\<rparr>"

text \<open>The stable kebab-case label of a kind and its display form.\<close>

fun kind_reason :: "error_kind \<Rightarrow> string" where
  "kind_reason MissingCredentials = ''missing-credentials''"
| "kind_reason ExpiredCredentials = ''expired-credentials''"
| "kind_reason InvalidCredentials = ''invalid-credentials''"
| "kind_reason RevokedCredentials = ''revoked-credentials''"
| "kind_reason Forbidden = ''forbidden''"
| "kind_reason BadRequest = ''bad-request''"
| "kind_reason UnprocessableEntity = ''unprocessable-entity''"
| "kind_reason Conflict = ''conflict''"
| "kind_reason PayloadTooLarge = ''payload-too-large''"
| "kind_reason RateLimitExceeded = ''rate-limit-exceeded''"
| "kind_reason DependencyUnavailable = ''dependency-unavailable''"
| "kind_reason RequestTimeout = ''request-timeout''"
| "kind_reason MethodNotAllowed = ''method-not-allowed''"
| "kind_reason NotFound = ''not-found''"
| "kind_reason NotImplemented = ''not-implemented''"
| "kind_reason InternalServerError = ''internal-server-error''"
| "kind_reason ContextNotInjected = ''context-not-injected''"
| "kind_reason WebSocketRejected = ''websocket-rejected''"

fun kind_display :: "error_kind \<Rightarrow> string" where
  "kind_display MissingCredentials = ''missing_credentials''"
| "kind_display ExpiredCredentials = ''expired_credentials''"
| "kind_display InvalidCredentials = ''invalid_credentials''"
| "kind_display RevokedCredentials = ''revoked_credentials''"
| "kind_display Forbidden = ''forbidden''"
| "kind_display BadRequest = ''bad_request''"
| "kind_display UnprocessableEntity = ''unprocessable_entity''"
| "kind_display Conflict = ''conflict''"
| "kind_display PayloadTooLarge = ''payload_too_large''"
| "kind_display RateLimitExceeded = ''rate_limit_exceeded''"
| "kind_display DependencyUnavailable = ''dependency_unavailable''"
| "kind_display RequestTimeout = ''request_timeout''"
| "kind_display MethodNotAllowed = ''method_not_allowed''"
| "kind_display NotFound = ''not_found''"
| "kind_display NotImplemented = ''not_implemented''"
| "kind_display InternalServerError = ''internal_server_error''"
| "kind_display ContextNotInjected = ''context_not_injected''"
| "kind_display WebSocketRejected = ''websocket_rejected''"

definition error_display :: "web_error \<Rightarrow> string" where
  "error_display e = kind_display (kind e) @ '': '' @ message e"

text \<open>\<open>with_auth_diagnostics\<close> attaches the route's profile and the failing stage, and a
  reason only where the error has none.\<close>

definition with_auth_diagnostics :: "string option \<Rightarrow> string \<Rightarrow> web_error \<Rightarrow> web_error" where
  "with_auth_diagnostics profile stage e =
     e\<lparr>auth_profile := profile, failed_stage := Some stage,
       reason := opt_or (reason e) (Some (kind_reason (kind e)))\<rparr>"

fun kind_status :: "error_kind \<Rightarrow> nat" where
  "kind_status MissingCredentials = 401"
| "kind_status ExpiredCredentials = 401"
| "kind_status InvalidCredentials = 401"
| "kind_status RevokedCredentials = 401"
| "kind_status Forbidden = 403"
| "kind_status BadRequest = 400"
| "kind_status WebSocketRejected = 400"
| "kind_status UnprocessableEntity = 422"
| "kind_status MethodNotAllowed = 405"
| "kind_status NotFound = 404"
| "kind_status NotImplemented = 501"
| "kind_status InternalServerError = 500"
| "kind_status ContextNotInjected = 500"
| "kind_status Conflict = 409"
| "kind_status PayloadTooLarge = 413"
| "kind_status RateLimitExceeded = 429"
| "kind_status DependencyUnavailable = 503"
| "kind_status RequestTimeout = 408"

definition error_status :: "web_error \<Rightarrow> nat" where
  "error_status e = kind_status (kind e)"

datatype sdk_result_code =
    RcAuthenticationRequired | RcTokenExpired | RcInvalidToken | RcSessionRevoked
  | RcPermissionRequired | RcValidationError | RcUnprocessableEntity | RcConflict
  | RcPayloadTooLarge | RcRateLimitExceeded | RcServiceUnavailable | RcRequestTimeout
  | RcMethodNotAllowed | RcNotFound | RcInternalError | RcMalformedRequest
  | RcInsufficientBalance | RcPaymentGatewayRejected | RcGone | RcPreconditionFailed
  | RcUnsupportedMediaType | RcLocked | RcPreconditionRequired | RcBadGateway
  | RcGatewayTimeout

fun kind_result_code :: "error_kind \<Rightarrow> sdk_result_code" where
  "kind_result_code MissingCredentials = RcAuthenticationRequired"
| "kind_result_code ExpiredCredentials = RcTokenExpired"
| "kind_result_code InvalidCredentials = RcInvalidToken"
| "kind_result_code RevokedCredentials = RcSessionRevoked"
| "kind_result_code Forbidden = RcPermissionRequired"
| "kind_result_code BadRequest = RcValidationError"
| "kind_result_code UnprocessableEntity = RcUnprocessableEntity"
| "kind_result_code Conflict = RcConflict"
| "kind_result_code PayloadTooLarge = RcPayloadTooLarge"
| "kind_result_code RateLimitExceeded = RcRateLimitExceeded"
| "kind_result_code DependencyUnavailable = RcServiceUnavailable"
| "kind_result_code RequestTimeout = RcRequestTimeout"
| "kind_result_code MethodNotAllowed = RcMethodNotAllowed"
| "kind_result_code NotFound = RcNotFound"
| "kind_result_code NotImplemented = RcInternalError"
| "kind_result_code InternalServerError = RcInternalError"
| "kind_result_code ContextNotInjected = RcInternalError"
| "kind_result_code WebSocketRejected = RcValidationError"

definition result_code :: "(sdk_result_code \<Rightarrow> int) \<Rightarrow> web_error \<Rightarrow> int" where
  "result_code as_i32 e = as_i32 (kind_result_code (kind e))"

lemmas error_constructor_defs =
  err_new_def missing_credentials_def invalid_credentials_def expired_credentials_def
  revoked_credentials_def forbidden_def bad_request_def unprocessable_entity_def
  conflict_def payload_too_large_def rate_limit_exceeded_def dependency_unavailable_def
  request_timeout_def method_not_allowed_def not_found_def not_implemented_def
  internal_server_error_def context_not_injected_def websocket_rejected_def with_reason_def

lemma kind_constructors [simp]:
  "kind (err_new k m) = k"
  "kind (missing_credentials m) = MissingCredentials"
  "kind (invalid_credentials m) = InvalidCredentials"
  "kind (forbidden m) = Forbidden"
  "kind (bad_request m) = BadRequest"
  "kind (conflict m) = Conflict"
  "kind (payload_too_large m) = PayloadTooLarge"
  "kind (rate_limit_exceeded m secs) = RateLimitExceeded"
  "kind (dependency_unavailable m) = DependencyUnavailable"
  "kind (method_not_allowed m) = MethodNotAllowed"
  "kind (not_found m) = NotFound"
  "kind (internal_server_error m) = InternalServerError"
  "kind (websocket_rejected m) = WebSocketRejected"
  "kind (request_timeout m) = RequestTimeout"
  "kind (with_reason r e) = kind e"
  "kind (with_auth_diagnostics p s e) = kind e"
  by (simp_all add: error_constructor_defs with_auth_diagnostics_def)

text \<open>Every error is reported as a client or server error.\<close>

lemma kind_status_range: "400 \<le> kind_status k \<and> kind_status k < 600"
  by (cases k) simp_all

lemma error_status_not_success [simp]: "\<not> (200 \<le> error_status e \<and> error_status e < 300)"
  using kind_status_range [of "kind e"] by (simp add: error_status_def)

end
