(* ===== verification/Contract.thy ===== *)
theory Contract
  imports Prelude
begin

section \<open>Route contracts\<close>

text \<open>
  Models \<open>sdkwork-web-contract/src/lib.rs\<close>: the API surfaces, rate-limit tiers and
  authentication profiles a route can declare, the declared external authentication of
  vendor-compatibility routes, the route record with its constructors, and the checks a
  route must pass before it is served. The surface inference and the IAM resource test
  of \<open>openapi.rs\<close>, which the runtime guards share, are at the end.

  A check that returns \<open>Result<_, String>\<close> returns a \<open>contract_error\<close> here, one
  constructor per error site; its arguments are the values the message shows. JSON
  parsing belongs to \<open>serde_json\<close> and is a parameter.
\<close>

datatype api_surface = OpenApi | AppApi | BackendApi | InternalApi | GatewayApi | Unknown

datatype rate_limit_tier =
    AuthCritical | OpenApiDefault | Upload | Search | Bulk | Worker | Internal

datatype route_auth =
    Public
  | BootstrapBody
  | CredentialEntryBootstrap
  | DualToken
  | DualTokenOrAnonymous
  | ApiKey
  | IngressToken
  | OAuth
  | OpenApiFlexible
  | ApiKeyOrDualToken
  | OpenApiBearerFlexible
  | RefreshToken
  | AgentToken
  | Compatibility

datatype http_method = Delete | Get | Patch | Post | Put

datatype scheme_kind =
    ApiKeyHeader (header_name: string)
  | HttpBearer (bearer_format: "string option")

record compat_scheme =
  scheme_name :: string
  scheme_kind :: scheme_kind

record compat_requirement =
  req_scheme_names :: "string list"

record compat_auth =
  external_protocol_id :: string
  schemes :: "compat_scheme list"
  requirements :: "compat_requirement list"

datatype contract_error =
    InvalidProtocolId
  | NoSchemesOrRequirements
  | EmptySchemeName
  | EmptyApiKeyHeaderName
  | EmptyRequirement
  | UnknownScheme string
  | UnexpectedCompatibilityMetadata string
  | MissingAuthMetadata string
  | MissingOperationJson string
  | InvalidOperationJson string
  | OperationNotObject string
  | OperationIdMismatch string
  | MissingResponses string
  | InvalidLogRetention string string

subsection \<open>External authentication of compatibility routes\<close>

definition compat_api_key_header :: "string \<Rightarrow> string \<Rightarrow> compat_scheme" where
  "compat_api_key_header n h = \<lparr>scheme_name = n, scheme_kind = ApiKeyHeader h\<rparr>"

definition compat_http_bearer :: "string \<Rightarrow> string option \<Rightarrow> compat_scheme" where
  "compat_http_bearer n f = \<lparr>scheme_name = n, scheme_kind = HttpBearer f\<rparr>"

definition compat_all_of :: "string list \<Rightarrow> compat_requirement" where
  "compat_all_of ns = \<lparr>req_scheme_names = ns\<rparr>"

definition compat_auth_new ::
  "string \<Rightarrow> compat_scheme list \<Rightarrow> compat_requirement list \<Rightarrow> compat_auth" where
  "compat_auth_new p ss rs = \<lparr>external_protocol_id = p, schemes = ss, requirements = rs\<rparr>"

definition compat_scheme_lookup :: "compat_auth \<Rightarrow> string \<Rightarrow> compat_scheme option" where
  "compat_scheme_lookup a n = find (\<lambda>s. scheme_name s = n) (schemes a)"

definition validate_scheme :: "compat_scheme \<Rightarrow> contract_error + unit" where
  "validate_scheme s =
     (if trim (scheme_name s) = [] then Inl EmptySchemeName
      else case scheme_kind s of
        ApiKeyHeader h \<Rightarrow> if trim h = [] then Inl EmptyApiKeyHeaderName else Inr ()
      | HttpBearer _ \<Rightarrow> Inr ())"

definition validate_requirement :: "compat_auth \<Rightarrow> compat_requirement \<Rightarrow> contract_error + unit" where
  "validate_requirement a r =
     (if req_scheme_names r = [] then Inl EmptyRequirement
      else res_forall
        (\<lambda>n. if list_ex (\<lambda>s. scheme_name s = n) (schemes a) then Inr ()
             else Inl (UnknownScheme n))
        (req_scheme_names r))"

definition kebab_byte :: "char \<Rightarrow> bool" where
  "kebab_byte c = (is_ascii_lower c \<or> is_ascii_digit c \<or> c = CHR ''-'')"

definition validate_compat_auth :: "compat_auth \<Rightarrow> contract_error + unit" where
  "validate_compat_auth a =
     (if external_protocol_id a = [] \<or> \<not> list_all kebab_byte (external_protocol_id a)
      then Inl InvalidProtocolId
      else if schemes a = [] \<or> requirements a = [] then Inl NoSchemesOrRequirements
      else res_bind (res_forall validate_scheme (schemes a))
        (\<lambda>_. res_forall (validate_requirement a) (requirements a)))"

subsection \<open>Routes\<close>

record http_route =
  rt_method :: http_method
  rt_path :: string
  rt_tag :: string
  rt_operation_id :: string
  rt_auth :: route_auth
  rt_idempotent :: bool
  rt_rate_limit_tier :: "rate_limit_tier option"
  rt_log_retention :: "string option"
  rt_required_permission :: "string option"
  rt_alternate_permissions :: "string list option"
  rt_forbid_credential_headers :: bool
  rt_compatibility_auth :: "compat_auth option"
  rt_compatibility_openapi_operation :: "string option"
  rt_external_wire_protocol :: "string option"

definition route_new ::
  "http_method \<Rightarrow> string \<Rightarrow> string \<Rightarrow> string \<Rightarrow> route_auth \<Rightarrow> http_route" where
  "route_new m p t op_id a = \<lparr>rt_method = m, rt_path = p, rt_tag = t, rt_operation_id = op_id,
     rt_auth = a, rt_idempotent = False, rt_rate_limit_tier = None, rt_log_retention = None,
     rt_required_permission = None, rt_alternate_permissions = None,
     rt_forbid_credential_headers = False, rt_compatibility_auth = None,
     rt_compatibility_openapi_operation = None, rt_external_wire_protocol = None\<rparr>"

definition with_required_permission :: "string \<Rightarrow> http_route \<Rightarrow> http_route" where
  "with_required_permission p r = r\<lparr>rt_required_permission := Some p\<rparr>"

definition with_alternate_permissions :: "string list \<Rightarrow> http_route \<Rightarrow> http_route" where
  "with_alternate_permissions ps r = r\<lparr>rt_alternate_permissions := Some ps\<rparr>"

definition with_idempotent :: "bool \<Rightarrow> http_route \<Rightarrow> http_route" where
  "with_idempotent b r = r\<lparr>rt_idempotent := b\<rparr>"

definition with_rate_limit_tier :: "rate_limit_tier \<Rightarrow> http_route \<Rightarrow> http_route" where
  "with_rate_limit_tier t r = r\<lparr>rt_rate_limit_tier := Some t\<rparr>"

definition with_log_retention :: "string \<Rightarrow> http_route \<Rightarrow> http_route" where
  "with_log_retention l r = r\<lparr>rt_log_retention := Some l\<rparr>"

definition with_forbid_credential_headers :: "bool \<Rightarrow> http_route \<Rightarrow> http_route" where
  "with_forbid_credential_headers b r = r\<lparr>rt_forbid_credential_headers := b\<rparr>"

definition with_external_wire_protocol :: "string \<Rightarrow> http_route \<Rightarrow> http_route" where
  "with_external_wire_protocol p r = r\<lparr>rt_external_wire_protocol := Some p\<rparr>"

definition route_credential_entry_bootstrap ::
  "http_method \<Rightarrow> string \<Rightarrow> string \<Rightarrow> string \<Rightarrow> http_route" where
  "route_credential_entry_bootstrap m p t op_id =
     with_forbid_credential_headers True (route_new m p t op_id CredentialEntryBootstrap)"

definition route_public :: "http_method \<Rightarrow> string \<Rightarrow> string \<Rightarrow> string \<Rightarrow> http_route" where
  "route_public m p t op_id = route_new m p t op_id Public"

definition route_bootstrap_body ::
  "http_method \<Rightarrow> string \<Rightarrow> string \<Rightarrow> string \<Rightarrow> http_route" where
  "route_bootstrap_body m p t op_id =
     with_forbid_credential_headers True (route_new m p t op_id BootstrapBody)"

definition route_dual_token :: "http_method \<Rightarrow> string \<Rightarrow> string \<Rightarrow> string \<Rightarrow> http_route" where
  "route_dual_token m p t op_id = route_new m p t op_id DualToken"

definition route_dual_token_or_anonymous ::
  "http_method \<Rightarrow> string \<Rightarrow> string \<Rightarrow> string \<Rightarrow> http_route" where
  "route_dual_token_or_anonymous m p t op_id = route_new m p t op_id DualTokenOrAnonymous"

definition route_api_key :: "http_method \<Rightarrow> string \<Rightarrow> string \<Rightarrow> string \<Rightarrow> http_route" where
  "route_api_key m p t op_id = route_new m p t op_id ApiKey"

definition route_ingress_token ::
  "http_method \<Rightarrow> string \<Rightarrow> string \<Rightarrow> string \<Rightarrow> http_route" where
  "route_ingress_token m p t op_id = route_new m p t op_id IngressToken"

definition route_oauth :: "http_method \<Rightarrow> string \<Rightarrow> string \<Rightarrow> string \<Rightarrow> http_route" where
  "route_oauth m p t op_id = route_new m p t op_id OAuth"

definition route_open_api_flexible ::
  "http_method \<Rightarrow> string \<Rightarrow> string \<Rightarrow> string \<Rightarrow> http_route" where
  "route_open_api_flexible m p t op_id = route_new m p t op_id OpenApiFlexible"

definition route_api_key_or_dual_token ::
  "http_method \<Rightarrow> string \<Rightarrow> string \<Rightarrow> string \<Rightarrow> http_route" where
  "route_api_key_or_dual_token m p t op_id = route_new m p t op_id ApiKeyOrDualToken"

definition route_refresh_token ::
  "http_method \<Rightarrow> string \<Rightarrow> string \<Rightarrow> string \<Rightarrow> http_route" where
  "route_refresh_token m p t op_id =
     with_forbid_credential_headers True (route_new m p t op_id RefreshToken)"

definition route_agent_token ::
  "http_method \<Rightarrow> string \<Rightarrow> string \<Rightarrow> string \<Rightarrow> http_route" where
  "route_agent_token m p t op_id = route_new m p t op_id AgentToken"

definition route_compatibility ::
  "http_method \<Rightarrow> string \<Rightarrow> string \<Rightarrow> string \<Rightarrow> compat_auth \<Rightarrow> string \<Rightarrow> http_route" where
  "route_compatibility m p t op_id a json =
     (with_forbid_credential_headers True (route_new m p t op_id Compatibility))
       \<lparr>rt_compatibility_auth := Some a, rt_compatibility_openapi_operation := Some json\<rparr>"

text \<open>What \<open>validate_compatibility_contract\<close> reads of a parsed operation: whether it is an
  object, the string under \<open>operationId\<close>, and whether \<open>responses\<close> is an object.\<close>

record operation_view =
  op_is_object :: bool
  op_operation_id :: "string option"
  op_responses_object :: bool

definition validate_compatibility_contract ::
  "(string \<Rightarrow> operation_view option) \<Rightarrow> http_route \<Rightarrow> contract_error + unit" where
  "validate_compatibility_contract parse_operation r =
     (if rt_auth r \<noteq> Compatibility then
        (if rt_compatibility_auth r \<noteq> None \<or> rt_compatibility_openapi_operation r \<noteq> None
         then Inl (UnexpectedCompatibilityMetadata (rt_operation_id r)) else Inr ())
      else
        res_bind (ok_or (rt_compatibility_auth r) (MissingAuthMetadata (rt_operation_id r))) (\<lambda>auth.
        res_bind (validate_compat_auth auth) (\<lambda>_.
        res_bind (ok_or (rt_compatibility_openapi_operation r)
                        (MissingOperationJson (rt_operation_id r))) (\<lambda>source.
        res_bind (ok_or (parse_operation source) (InvalidOperationJson (rt_operation_id r))) (\<lambda>view.
        if \<not> op_is_object view then Inl (OperationNotObject (rt_operation_id r))
        else if op_operation_id view \<noteq> Some (rt_operation_id r)
        then Inl (OperationIdMismatch (rt_operation_id r))
        else if \<not> op_responses_object view then Inl (MissingResponses (rt_operation_id r))
        else Inr ())))))"

definition valid_log_retention :: "string \<Rightarrow> bool" where
  "valid_log_retention s =
     (s = ''permanent'' \<or>
      2 \<le> length s \<and> ends_with s ''d'' \<and>
      (case parse_signed i64_max (take (length s - 1) s) of
         None \<Rightarrow> False | Some days \<Rightarrow> 0 < days))"

definition validate_log_retention :: "http_route \<Rightarrow> contract_error + unit" where
  "validate_log_retention r =
     (case rt_log_retention r of
        None \<Rightarrow> Inr ()
      | Some s \<Rightarrow> if valid_log_retention s then Inr ()
                  else Inl (InvalidLogRetention (rt_operation_id r) s))"

subsection \<open>Authentication profiles\<close>

fun skips_credential_resolution :: "route_auth \<Rightarrow> bool" where
  "skips_credential_resolution Public = True"
| "skips_credential_resolution BootstrapBody = True"
| "skips_credential_resolution RefreshToken = True"
| "skips_credential_resolution _ = False"

definition is_anonymous :: "route_auth \<Rightarrow> bool" where
  "is_anonymous a = (a = Public)"

definition is_optional_credential :: "route_auth \<Rightarrow> bool" where
  "is_optional_credential a = (a = DualTokenOrAnonymous)"

definition requires_bootstrap_access_token :: "route_auth \<Rightarrow> bool" where
  "requires_bootstrap_access_token a = (a = CredentialEntryBootstrap)"

definition requires_access_token_only :: "route_auth \<Rightarrow> bool" where
  "requires_access_token_only a = (a = CredentialEntryBootstrap)"

definition is_bootstrap_body_credential_mode :: "route_auth \<Rightarrow> bool" where
  "is_bootstrap_body_credential_mode a = (a = BootstrapBody)"

definition requires_dual_token_headers :: "route_auth \<Rightarrow> bool" where
  "requires_dual_token_headers a = (a = DualToken)"

fun is_open_api_credential_mode :: "route_auth \<Rightarrow> bool" where
  "is_open_api_credential_mode ApiKey = True"
| "is_open_api_credential_mode OAuth = True"
| "is_open_api_credential_mode OpenApiFlexible = True"
| "is_open_api_credential_mode ApiKeyOrDualToken = True"
| "is_open_api_credential_mode _ = False"

definition is_agent_token_credential_mode :: "route_auth \<Rightarrow> bool" where
  "is_agent_token_credential_mode a = (a = AgentToken)"

definition is_ingress_token_credential_mode :: "route_auth \<Rightarrow> bool" where
  "is_ingress_token_credential_mode a = (a = IngressToken)"

fun auth_profile_label :: "route_auth \<Rightarrow> string" where
  "auth_profile_label Public = ''anonymous''"
| "auth_profile_label BootstrapBody = ''bootstrap-body''"
| "auth_profile_label CredentialEntryBootstrap = ''credential-entry-bootstrap''"
| "auth_profile_label RefreshToken = ''refresh-token''"
| "auth_profile_label DualToken = ''dual-token''"
| "auth_profile_label DualTokenOrAnonymous = ''dual-token-or-anonymous''"
| "auth_profile_label ApiKey = ''api-key''"
| "auth_profile_label IngressToken = ''ingress-token''"
| "auth_profile_label OAuth = ''oauth''"
| "auth_profile_label OpenApiFlexible = ''open-api-flexible''"
| "auth_profile_label OpenApiBearerFlexible = ''open-api-bearer-flexible''"
| "auth_profile_label ApiKeyOrDualToken = ''api-key-or-dual-token''"
| "auth_profile_label AgentToken = ''agent-token''"
| "auth_profile_label Compatibility = ''compatibility''"

fun non_open_api_surface_requires_access_token :: "api_surface \<Rightarrow> bool" where
  "non_open_api_surface_requires_access_token AppApi = True"
| "non_open_api_surface_requires_access_token BackendApi = True"
| "non_open_api_surface_requires_access_token InternalApi = True"
| "non_open_api_surface_requires_access_token GatewayApi = True"
| "non_open_api_surface_requires_access_token _ = False"

subsection \<open>Surfaces and canonical resources of the OpenAPI contract\<close>

definition iam_canonical_prefixes :: "string list" where
  "iam_canonical_prefixes = [''/iam/organizations'', ''/iam/tenants'']"

text \<open>Some occurrence of the prefix is followed by the end of the path or by a slash. The
  prefixes do not overlap themselves, so all occurrences are those \<open>match_indices\<close> visits.\<close>

fun occurs_before_boundary :: "string \<Rightarrow> string \<Rightarrow> bool" where
  "occurs_before_boundary p [] = (p = [])"
| "occurs_before_boundary p (c # s) =
     ((case strip_prefix (c # s) p of
         None \<Rightarrow> False
       | Some rest \<Rightarrow> rest = [] \<or> hd rest = CHR ''/'')
      \<or> occurs_before_boundary p s)"

definition is_canonical_iam_context_resource_path :: "string \<Rightarrow> bool" where
  "is_canonical_iam_context_resource_path path =
     (let normalized = to_lower (hd (split_on (CHR ''?'') path))
      in list_ex (\<lambda>p. occurs_before_boundary p normalized) iam_canonical_prefixes)"

definition infer_api_surface_from_path :: "string \<Rightarrow> api_surface" where
  "infer_api_surface_from_path path =
     (if starts_with path ''/app/v3/api'' then AppApi
      else if starts_with path ''/backend/v3/api'' then BackendApi
      else if starts_with path ''/internal/v3/api'' then InternalApi
      else if starts_with path ''/v1'' then GatewayApi
      else if starts_with path ''/'' then OpenApi
      else Unknown)"

subsection \<open>Facts\<close>

lemma compat_scheme_lookup_present:
  "list_ex (\<lambda>s. scheme_name s = n) (schemes a) \<Longrightarrow> \<exists>s. compat_scheme_lookup a n = Some s"
  unfolding compat_scheme_lookup_def
  by (metis (mono_tags, lifting) find_None_iff list_ex_iff not_None_eq)

lemma validate_compat_auth_ok:
  assumes "validate_compat_auth a = Inr ()"
  shows "schemes a \<noteq> []" and "requirements a \<noteq> []"
    and "r \<in> set (requirements a) \<Longrightarrow> n \<in> set (req_scheme_names r) \<Longrightarrow>
           \<exists>s. compat_scheme_lookup a n = Some s"
    and "r \<in> set (requirements a) \<Longrightarrow> req_scheme_names r \<noteq> []"
proof -
  have reqs: "\<forall>r \<in> set (requirements a). validate_requirement a r = Inr ()"
    and ne: "schemes a \<noteq> []" "requirements a \<noteq> []"
    using assms
    by (auto simp: validate_compat_auth_def res_bind_eq_Inr res_forall_ok split: if_splits)
  show "schemes a \<noteq> []" "requirements a \<noteq> []" by (fact ne)+
  show "\<exists>s. compat_scheme_lookup a n = Some s"
    if "r \<in> set (requirements a)" "n \<in> set (req_scheme_names r)"
    using reqs that
    by (intro compat_scheme_lookup_present)
      (fastforce simp: validate_requirement_def res_forall_ok split: if_splits)
  show "req_scheme_names r \<noteq> []" if "r \<in> set (requirements a)"
    using reqs that by (auto simp: validate_requirement_def split: if_splits)
qed

lemma route_constructors_forbid_credentials:
  "rt_forbid_credential_headers (route_credential_entry_bootstrap m p t op_id)"
  "rt_forbid_credential_headers (route_bootstrap_body m p t op_id)"
  "rt_forbid_credential_headers (route_refresh_token m p t op_id)"
  "rt_forbid_credential_headers (route_compatibility m p t op_id a json)"
  by (simp_all add: route_credential_entry_bootstrap_def route_bootstrap_body_def
      route_refresh_token_def route_compatibility_def with_forbid_credential_headers_def)

lemma rt_simps [simp]:
  "rt_path (route_new m p t op_id a) = p"
  "rt_method (route_new m p t op_id a) = m"
  "rt_auth (route_new m p t op_id a) = a"
  "rt_operation_id (route_new m p t op_id a) = op_id"
  "rt_compatibility_auth (route_new m p t op_id a) = None"
  "rt_compatibility_openapi_operation (route_new m p t op_id a) = None"
  "rt_log_retention (route_new m p t op_id a) = None"
  by (simp_all add: route_new_def)

end
