(* ===== verification/Request_Context.thy ===== *)
theory Request_Context
  imports Web_Error Contract
begin

section \<open>The request context and its principal\<close>

text \<open>
  Models \<open>sdkwork-web-core/src/request_context.rs\<close>: the enums of a request context, the
  principal and its builder, the normalisation of the organization scope, the context
  value and its accessors, and the permission-code matcher. Enum constructors that
  would clash with those of other enums carry a prefix (\<open>Mode\<close>, \<open>Level\<close>, \<open>Subject\<close>,
  \<open>Kind\<close>).
\<close>

datatype auth_mode =
    ModePublic
  | ModeBootstrapBody
  | ModeCredentialEntryBootstrap
  | ModeRefreshToken
  | ModeApiKey
  | ModeIngressToken
  | ModeAgentToken
  | ModeOAuth
  | ModeDualToken
  | ModeCompatibility

datatype login_scope = ScopeTenant | ScopeOrganization

datatype environment = Dev | Test | Prod

datatype deployment_mode = Saas | Private | LocalDeployment

datatype auth_level = LevelAnonymous | LevelPassword | LevelMfa | LevelSystem | LevelApiKey

datatype subject_type = SubjectUser | SubjectService | SubjectApiKey | SubjectSystem

datatype client_kind = KindBrowser | KindMobile | KindDesktop | KindServer | KindUnknown

record transport_facts =
  tf_path :: string
  tf_method :: string
  tf_auth_token_present :: bool
  tf_access_token_present :: bool
  tf_api_key_present :: bool
  tf_ingress_token_present :: bool
  tf_oauth_bearer_present :: bool
  tf_agent_token_present :: bool

record operation_binding =
  ob_operation_id :: string
  ob_route_template :: string
  ob_rate_limit_tier :: "rate_limit_tier option"
  ob_idempotent :: bool

subsection \<open>Organization scope\<close>

definition tenant_level_organization_id :: string where
  "tenant_level_organization_id = ''0''"

definition normalize_organization_scope :: "string option \<Rightarrow> string" where
  "normalize_organization_scope v =
     (case map_option trim v of
        None \<Rightarrow> tenant_level_organization_id
      | Some s \<Rightarrow> if s \<noteq> [] \<and> s \<noteq> tenant_level_organization_id then s
                  else tenant_level_organization_id)"

definition is_tenant_level_organization_scope :: "string \<Rightarrow> bool" where
  "is_tenant_level_organization_scope v = (trim v = tenant_level_organization_id)"

definition login_scope_from_organization_id :: "string option \<Rightarrow> login_scope" where
  "login_scope_from_organization_id v =
     (case map_option trim v of
        None \<Rightarrow> ScopeTenant
      | Some s \<Rightarrow> if s \<noteq> [] \<and> s \<noteq> ''0'' then ScopeOrganization else ScopeTenant)"

record tenancy_context =
  tn_tenant_id :: string
  tn_organization_id :: "string option"
  tn_login_scope :: login_scope

definition organization_scope :: "tenancy_context \<Rightarrow> string" where
  "organization_scope t = normalize_organization_scope (tn_organization_id t)"

definition is_tenant_level :: "tenancy_context \<Rightarrow> bool" where
  "is_tenant_level t = is_tenant_level_organization_scope (organization_scope t)"

record app_context =
  ac_app_id :: string
  ac_environment :: environment
  ac_deployment_mode :: deployment_mode
  ac_workspace_id :: "string option"
  ac_composition_id :: "string option"

record subject_context =
  sc_user_id :: string
  sc_session_id :: "string option"
  sc_subject_type :: subject_type
  sc_display_name :: "string option"

record auth_context =
  au_auth_level :: auth_level
  au_api_key_id :: "string option"

record scope_context =
  so_data_scope :: "string list"
  so_permission_scope :: "string list"

record principal =
  pr_tenancy :: tenancy_context
  pr_app :: app_context
  pr_subject :: subject_context
  pr_auth :: auth_context
  pr_scopes :: scope_context

abbreviation principal_tenant_id :: "principal \<Rightarrow> string" where
  "principal_tenant_id p \<equiv> tn_tenant_id (pr_tenancy p)"

abbreviation principal_app_id :: "principal \<Rightarrow> string" where
  "principal_app_id p \<equiv> ac_app_id (pr_app p)"

abbreviation principal_user_id :: "principal \<Rightarrow> string" where
  "principal_user_id p \<equiv> sc_user_id (pr_subject p)"

subsection \<open>The principal builder\<close>

record principal_builder =
  pb_tenant_id :: "string option"
  pb_organization_id :: "string option"
  pb_login_scope :: "login_scope option"
  pb_user_id :: "string option"
  pb_session_id :: "string option"
  pb_app_id :: "string option"
  pb_environment :: "environment option"
  pb_deployment_mode :: "deployment_mode option"
  pb_auth_level :: "auth_level option"
  pb_data_scope :: "string list"
  pb_permission_scope :: "string list"
  pb_api_key_id :: "string option"
  pb_subject_type :: "subject_type option"
  pb_display_name :: "string option"
  pb_workspace_id :: "string option"
  pb_composition_id :: "string option"

definition builder_default :: principal_builder where
  "builder_default = \<lparr>pb_tenant_id = None, pb_organization_id = None, pb_login_scope = None,
     pb_user_id = None, pb_session_id = None, pb_app_id = None, pb_environment = None,
     pb_deployment_mode = None, pb_auth_level = None, pb_data_scope = [],
     pb_permission_scope = [], pb_api_key_id = None, pb_subject_type = None,
     pb_display_name = None, pb_workspace_id = None, pb_composition_id = None\<rparr>"

definition unwrap_or :: "'a option \<Rightarrow> 'a \<Rightarrow> 'a" where
  "unwrap_or x d = (case x of None \<Rightarrow> d | Some a \<Rightarrow> a)"

definition build_principal :: "principal_builder \<Rightarrow> principal" where
  "build_principal b =
     (let organization_id = normalize_organization_scope (pb_organization_id b);
          login_scope = unwrap_or (pb_login_scope b)
            (login_scope_from_organization_id (Some organization_id))
      in \<lparr>pr_tenancy = \<lparr>tn_tenant_id = unwrap_or (pb_tenant_id b) [],
            tn_organization_id = Some organization_id, tn_login_scope = login_scope\<rparr>,
          pr_app = \<lparr>ac_app_id = unwrap_or (pb_app_id b) [],
            ac_environment = unwrap_or (pb_environment b) Dev,
            ac_deployment_mode = unwrap_or (pb_deployment_mode b) LocalDeployment,
            ac_workspace_id = pb_workspace_id b, ac_composition_id = pb_composition_id b\<rparr>,
          pr_subject = \<lparr>sc_user_id = unwrap_or (pb_user_id b) [],
            sc_session_id = pb_session_id b,
            sc_subject_type = unwrap_or (pb_subject_type b) SubjectUser,
            sc_display_name = pb_display_name b\<rparr>,
          pr_auth = \<lparr>au_auth_level = unwrap_or (pb_auth_level b) LevelAnonymous,
            au_api_key_id = pb_api_key_id b\<rparr>,
          pr_scopes = \<lparr>so_data_scope = pb_data_scope b,
            so_permission_scope = pb_permission_scope b\<rparr>\<rparr>)"

subsection \<open>The context\<close>

record request_context =
  rc_request_id :: string
  rc_api_surface :: api_surface
  rc_auth_mode :: auth_mode
  rc_transport :: transport_facts
  rc_principal :: "principal option"
  rc_locale :: "string option"
  rc_client_kind :: "client_kind option"
  rc_operation :: "operation_binding option"
  rc_trace_id :: "string option"
  rc_idempotency_key :: "string option"

definition ctx_is_public :: "request_context \<Rightarrow> bool" where
  "ctx_is_public c = (rc_auth_mode c = ModePublic)"

definition require_principal :: "request_context \<Rightarrow> web_error + principal" where
  "require_principal c = ok_or (rc_principal c)
     (missing_credentials ''authenticated principal is required'')"

definition require_tenant_id :: "request_context \<Rightarrow> web_error + string" where
  "require_tenant_id c = res_bind (require_principal c) (\<lambda>p. Inr (principal_tenant_id p))"

definition require_app_id :: "request_context \<Rightarrow> web_error + string" where
  "require_app_id c = res_bind (require_principal c) (\<lambda>p. Inr (principal_app_id p))"

subsection \<open>Permission codes\<close>

text \<open>\<open>permission_code_matches\<close> works on trimmed, lower-case codes: the star alone, an
  equal code, a trailing \<open>.*\<close> (a subtree), a leading \<open>*.\<close> (a last segment).\<close>

definition permission_matches_normalized :: "string \<Rightarrow> string \<Rightarrow> bool" where
  "permission_matches_normalized granted required =
     (if granted = [] \<or> required = [] then False
      else if granted = ''*'' \<or> granted = required then True
      else if ends_with granted ''.*'' then
        (let p = trim_end_char (CHR ''.'') (take (length granted - 2) granted)
          in required = p \<or> starts_with required (p @ ''.''))
      else case strip_prefix granted ''*.'' of
        Some a \<Rightarrow>
          (let action = trim_start_char (CHR ''.'') a
            in ends_with required action \<and> last (split_on (CHR ''.'') required) = action)
      | None \<Rightarrow> False)"

definition permission_code_matches :: "string \<Rightarrow> string \<Rightarrow> bool" where
  "permission_code_matches granted required =
     permission_matches_normalized (to_lower (trim granted)) (to_lower (trim required))"

definition permission_scope_matches_any :: "string list \<Rightarrow> string \<Rightarrow> bool" where
  "permission_scope_matches_any granted_codes required =
     list_ex (\<lambda>g. permission_code_matches g required) granted_codes"

definition has_permission :: "request_context \<Rightarrow> string \<Rightarrow> bool" where
  "has_permission c grant =
     (case rc_principal c of
        None \<Rightarrow> False
      | Some p \<Rightarrow> permission_scope_matches_any (so_permission_scope (pr_scopes p)) grant)"

subsection \<open>Client kinds\<close>

text \<open>\<open>client_kind.rs\<close>: the kind a client declares, else what its user agent shows.\<close>

definition parse_explicit_client_kind :: "string \<Rightarrow> client_kind" where
  "parse_explicit_client_kind k =
     (let v = to_lower k in
      if v = ''browser'' then KindBrowser
      else if v = ''mobile'' then KindMobile
      else if v = ''desktop'' then KindDesktop
      else if v = ''server'' then KindServer
      else KindUnknown)"

definition infer_client_kind :: "string option \<Rightarrow> string option \<Rightarrow> client_kind" where
  "infer_client_kind user_agent explicit_kind =
     (case opt_filter (\<lambda>v. v \<noteq> []) (map_option trim explicit_kind) of
        Some k \<Rightarrow> parse_explicit_client_kind k
      | None \<Rightarrow>
          (let ua = to_lower (unwrap_or user_agent []);
               has = (\<lambda>ps. list_ex (str_contains ua) ps)
           in if ua = [] then KindUnknown
              else if has [''curl/'', ''httpie'', ''postman'', ''insomnia'', ''okhttp'',
                ''reqwest'', ''python-requests'', ''go-http-client'', ''axios/'', ''node-fetch'']
              then KindServer
              else if has [''mobile'', ''android'', ''iphone'', ''ipad'', ''harmonyos'']
              then KindMobile
              else if has [''electron'', ''windows'', ''macintosh''] then KindDesktop
              else if has [''mozilla/'', ''chrome/'', ''safari/'', ''firefox/'', ''edg/'']
              then KindBrowser
              else KindUnknown))"

subsection \<open>Facts\<close>

lemma unwrap_or_simps [simp]: "unwrap_or None d = d" "unwrap_or (Some a) d = a"
  by (simp_all add: unwrap_or_def)

lemma normalize_organization_scope_not_blank:
  "normalize_organization_scope v \<noteq> []"
  by (auto simp: normalize_organization_scope_def tenant_level_organization_id_def
      split: option.splits)

text \<open>The reading over dot-separated segments that the matcher implements: a code grants
  itself, \<open>p.*\<close> grants every code whose segments extend those of \<open>p\<close>, and \<open>*.a\<close> every
  code whose last segment is \<open>a\<close>.\<close>

definition permission_authorizes :: "string \<Rightarrow> string \<Rightarrow> bool" where
  "permission_authorizes g r =
     (g \<noteq> [] \<and> r \<noteq> [] \<and>
      (g = ''*'' \<or> g = r \<or>
       (case strip_suffix g ''.*'' of
          Some p \<Rightarrow> prefix (split_on (CHR ''.'') (trim_end_char (CHR ''.'') p)) (split_on (CHR ''.'') r)
        | None \<Rightarrow>
            (case strip_prefix g ''*.'' of
               Some a \<Rightarrow> last (split_on (CHR ''.'') r) = trim_start_char (CHR ''.'') a
             | None \<Rightarrow> False))))"

lemma permission_matches_normalized_spec:
  "permission_matches_normalized g r = permission_authorizes g r"
proof (cases "strip_suffix g ''.*''")
  case None
  then have ns: "\<not> ends_with g ''.*''" by (simp add: strip_suffix_def ends_with_def split: if_splits)
  show ?thesis
  proof (cases "strip_prefix g ''*.''")
    case None': None
    with None ns show ?thesis
      by (simp add: permission_matches_normalized_def permission_authorizes_def)
  next
    case (Some a)
    have "ends_with r (last (split_on (CHR ''.'') r))"
      by (simp add: ends_with_def suffix_last_split_on)
    with Some None ns show ?thesis
      by (auto simp: permission_matches_normalized_def permission_authorizes_def Let_def)
  qed
next
  case (Some p)
  then have "ends_with g ''.*''" "take (length g - 2) g = p"
    by (auto simp: strip_suffix_def ends_with_def numeral_2_eq_2 split: if_splits)
  with Some show ?thesis
    by (simp add: permission_matches_normalized_def permission_authorizes_def
        split_on_prefix_iff starts_with_def Let_def)
qed

lemma permission_authorizes_no_star:
  assumes "CHR ''*'' \<notin> set g"
  shows "permission_authorizes g r \<longleftrightarrow> g \<noteq> [] \<and> g = r"
proof -
  have "strip_suffix g ''.*'' = None" "strip_prefix g ''*.'' = None" 
    using assms by (auto simp: strip_suffix_def strip_prefix_def suffix_def prefix_def)
  with assms show ?thesis by (auto simp: permission_authorizes_def)
qed

text \<open>C30: A granted permission code authorises a required one exactly when the reading over
  dot-separated segments says so (after trimming and folding case on both sides), so
  \<open>iam.*\<close> never reaches \<open>iamx.read\<close>; and a code without a star authorises only itself.\<close>

theorem permission_code_matches_spec:
  "permission_code_matches g r = permission_authorizes (to_lower (trim g)) (to_lower (trim r))
   \<and> (CHR ''*'' \<notin> set (to_lower (trim g)) \<longrightarrow>
        permission_code_matches g r \<longrightarrow> eq_ignore_case (trim g) (trim r))"
  by (simp add: permission_code_matches_def permission_matches_normalized_spec
      permission_authorizes_no_star eq_ignore_case_def)

theorem permission_code_matches_spec_witness:
  "permission_code_matches ''iam.*'' '' IAM.users.read''
   \<and> \<not> permission_code_matches ''iam.*'' ''iamx.read''
   \<and> permission_code_matches ''Users.Read'' ''users.read''
   \<and> eq_ignore_case (trim ''Users.Read'') (trim ''users.read'')"
proof -
  have a: "CHR ''*'' \<notin> set (to_lower (trim ''Users.Read''))" by code_simp
  have b: "permission_code_matches ''Users.Read'' ''users.read''" by code_simp
  have "eq_ignore_case (trim ''Users.Read'') (trim ''users.read'')"
    using permission_code_matches_spec [of "''Users.Read''" "''users.read''"] a b by blast
  moreover have "permission_code_matches ''iam.*'' '' IAM.users.read''"
    "\<not> permission_code_matches ''iam.*'' ''iamx.read''" by code_simp+
  ultimately show ?thesis using b by blast
qed

text \<open>A built principal carries its organization scope in its one normal form, never
  absent and never blank, and a login scope that was not set explicitly is the tenant
  scope exactly when that organization scope is the tenant-level sentinel.\<close>

theorem build_principal_organization_scope:
  "tn_organization_id (pr_tenancy (build_principal b))
     = Some (organization_scope (pr_tenancy (build_principal b)))
   \<and> organization_scope (pr_tenancy (build_principal b)) \<noteq> []
   \<and> (pb_login_scope b = None \<longrightarrow>
       (tn_login_scope (pr_tenancy (build_principal b)) = ScopeTenant
        \<longleftrightarrow> is_tenant_level (pr_tenancy (build_principal b))))"
proof -
  let ?n = "normalize_organization_scope (pb_organization_id b)"
  have t: "trim ?n = ?n" 
     by (auto simp: normalize_organization_scope_def tenant_level_organization_id_def option.case_eq_if trim_plain_edges plain_byte_def ascii_ws_def)
  have i: "normalize_organization_scope (Some ?n) = ?n"
    using normalize_organization_scope_not_blank [of "pb_organization_id b"]
    by (auto simp: normalize_organization_scope_def [of "Some _"] t)
  show ?thesis
    using normalize_organization_scope_not_blank [of "pb_organization_id b"]
    by (auto simp: build_principal_def Let_def organization_scope_def i is_tenant_level_def t
        is_tenant_level_organization_scope_def login_scope_from_organization_id_def
        tenant_level_organization_id_def)
qed
theorem build_principal_organization_scope_witness:
  "organization_scope (pr_tenancy (build_principal (builder_default\<lparr>pb_organization_id := Some '' org-7 ''\<rparr>)))
     = ''org-7''
   \<and> \<not> is_tenant_level (pr_tenancy (build_principal (builder_default\<lparr>pb_organization_id := Some '' org-7 ''\<rparr>)))
   \<and> tn_login_scope (pr_tenancy (build_principal (builder_default\<lparr>pb_organization_id := Some '' org-7 ''\<rparr>)))
     = ScopeOrganization"
proof -
  let ?b = "builder_default\<lparr>pb_organization_id := Some '' org-7 ''\<rparr>"
  have l: "\<not> is_tenant_level (pr_tenancy (build_principal ?b))"
    and s: "organization_scope (pr_tenancy (build_principal ?b)) = ''org-7''"
    and n: "pb_login_scope ?b = None"
    by code_simp+
  with build_principal_organization_scope [of ?b]
  have "tn_login_scope (pr_tenancy (build_principal ?b)) \<noteq> ScopeTenant" by blast
  then show ?thesis using l s by (cases "tn_login_scope (pr_tenancy (build_principal ?b))") simp_all
qed

end
