(* ===== verification/Surface.thy ===== *)
theory Surface
  imports Request_Context
begin

section \<open>API surfaces\<close>

text \<open>
  Models \<open>sdkwork-web-core/src/surface.rs\<close> with the context profile of
  \<open>request_context.rs\<close>: path normalisation, prefix matching, the classification of a
  path into an API surface, the infrastructure paths that are public, and which surfaces
  are subject to the client-context guard (\<open>client_context_guard.rs\<close>).
\<close>

record context_profile =
  pf_app_api_prefix :: string
  pf_backend_api_prefix :: string
  pf_open_api_prefixes :: "string list"
  pf_public_path_prefixes :: "string list"
  pf_gateway_api_prefixes :: "string list"
  pf_external_protocol_prefixes :: "string list"
  pf_environment :: environment

definition app_api_prefix :: string where "app_api_prefix = ''/app/v3/api''"
definition backend_api_prefix :: string where "backend_api_prefix = ''/backend/v3/api''"
definition internal_api_prefix :: string where "internal_api_prefix = ''/internal/v3/api''"
definition open_api_prefix :: string where "open_api_prefix = ''/open/v3/api''"
definition gateway_api_prefix :: string where "gateway_api_prefix = ''/v1''"

definition profile_default :: context_profile where
  "profile_default = \<lparr>pf_app_api_prefix = app_api_prefix,
     pf_backend_api_prefix = backend_api_prefix,
     pf_open_api_prefixes = [open_api_prefix],
     pf_public_path_prefixes = [''/healthz'', ''/readyz'', ''/livez'', ''/metrics''],
     pf_gateway_api_prefixes = [gateway_api_prefix],
     pf_external_protocol_prefixes = [],
     pf_environment = Dev\<rparr>"

definition normalize_path :: "string \<Rightarrow> string" where
  "normalize_path path =
     (let v = trim path in
      if v = [] then ''/'' else CHR ''/'' # trim_char (CHR ''/'') v)"

definition matches_prefix :: "string \<Rightarrow> string \<Rightarrow> bool" where
  "matches_prefix path p =
     (let np = normalize_path p in path = np \<or> starts_with path (np @ ''/''))"

definition classify_api_surface :: "string \<Rightarrow> context_profile \<Rightarrow> api_surface" where
  "classify_api_surface path profile =
     (let normalized = normalize_path path in
      if matches_prefix normalized (pf_app_api_prefix profile) then AppApi
      else if matches_prefix normalized (pf_backend_api_prefix profile) then BackendApi
      else if matches_prefix normalized internal_api_prefix then InternalApi
      else if list_ex (matches_prefix normalized) (pf_gateway_api_prefixes profile) then GatewayApi
      else if list_ex (matches_prefix normalized) (pf_open_api_prefixes profile) then OpenApi
      else Unknown)"

definition is_public_path :: "string \<Rightarrow> context_profile \<Rightarrow> bool" where
  "is_public_path path profile =
     (let normalized = normalize_path path
      in list_ex (matches_prefix normalized) (pf_public_path_prefixes profile))"

definition is_external_protocol_path :: "context_profile \<Rightarrow> string \<Rightarrow> bool" where
  "is_external_protocol_path profile path =
     (if pf_external_protocol_prefixes profile = [] then False
      else (let normalized = normalize_path path
            in list_ex (matches_prefix normalized) (pf_external_protocol_prefixes profile)))"

fun api_surface_metric_label :: "api_surface \<Rightarrow> string" where
  "api_surface_metric_label OpenApi = ''openApi''"
| "api_surface_metric_label AppApi = ''appApi''"
| "api_surface_metric_label BackendApi = ''backendApi''"
| "api_surface_metric_label InternalApi = ''internalApi''"
| "api_surface_metric_label GatewayApi = ''gatewayApi''"
| "api_surface_metric_label Unknown = ''unknown''"

fun api_surface_contract_label :: "api_surface \<Rightarrow> string" where
  "api_surface_contract_label OpenApi = ''open-api''"
| "api_surface_contract_label AppApi = ''app-api''"
| "api_surface_contract_label BackendApi = ''backend-api''"
| "api_surface_contract_label InternalApi = ''internal-api''"
| "api_surface_contract_label GatewayApi = ''gateway-api''"
| "api_surface_contract_label Unknown = ''unknown''"

fun requires_client_context_selector_guard :: "api_surface \<Rightarrow> bool" where
  "requires_client_context_selector_guard AppApi = True"
| "requires_client_context_selector_guard OpenApi = True"
| "requires_client_context_selector_guard InternalApi = True"
| "requires_client_context_selector_guard GatewayApi = True"
| "requires_client_context_selector_guard _ = False"

subsection \<open>Facts\<close>

lemma normalize_path_slash: "\<exists>s. normalize_path p = CHR ''/'' # s"
  by (simp add: normalize_path_def Let_def)

lemma normalize_path_not_Nil [simp]: "normalize_path p \<noteq> []"
  using normalize_path_slash [of p] by auto

lemma normalize_path_no_trailing_slash:
  "normalize_path p = ''/'' \<or> last (normalize_path p) \<noteq> CHR ''/''"
  by (auto simp: normalize_path_def Let_def dest: trim_char_last)

text \<open>The segments of a prefix: a path matches a prefix exactly when its slash-separated
  segments extend those of the prefix.\<close>

lemma matches_prefix_segments:
  "matches_prefix path p \<longleftrightarrow>
     prefix (split_on (CHR ''/'') (normalize_path p)) (split_on (CHR ''/'') path)"
  by (simp add: matches_prefix_def Let_def split_on_prefix_iff starts_with_def)

lemma prefix_comparable_segments:
  "matches_prefix path p \<Longrightarrow> matches_prefix path q \<Longrightarrow>
     matches_prefix (normalize_path p) q \<or> matches_prefix (normalize_path q) p"
  unfolding matches_prefix_segments by (meson prefix_same_cases)

text \<open>The prefixes that stand for a surface, and a profile in which no prefix of one
  surface covers a prefix of another.\<close>

definition surface_prefixes :: "context_profile \<Rightarrow> api_surface \<Rightarrow> string list" where
  "surface_prefixes pf s = (case s of
       AppApi \<Rightarrow> [pf_app_api_prefix pf]
     | BackendApi \<Rightarrow> [pf_backend_api_prefix pf]
     | InternalApi \<Rightarrow> [internal_api_prefix]
     | GatewayApi \<Rightarrow> pf_gateway_api_prefixes pf
     | OpenApi \<Rightarrow> pf_open_api_prefixes pf
     | Unknown \<Rightarrow> [])"

definition surface_covers :: "context_profile \<Rightarrow> string \<Rightarrow> api_surface \<Rightarrow> bool" where
  "surface_covers pf path s =
     list_ex (matches_prefix (normalize_path path)) (surface_prefixes pf s)"

definition surfaces :: "api_surface list" where
  "surfaces = [AppApi, BackendApi, InternalApi, GatewayApi, OpenApi]"

definition surface_prefixes_disjoint :: "context_profile \<Rightarrow> bool" where
  "surface_prefixes_disjoint pf =
     list_all (\<lambda>s. list_all (\<lambda>u. s = u \<or>
       list_all (\<lambda>p. list_all (\<lambda>q. \<not> matches_prefix (normalize_path p) q)
         (surface_prefixes pf u)) (surface_prefixes pf s)) surfaces) surfaces"

lemma surface_covers_unique:
  assumes "surface_prefixes_disjoint pf" and "surface_covers pf path s" "surface_covers pf path u"
  shows "s = u"
proof (rule ccontr)
  assume ne: "s \<noteq> u"
  obtain p q where p: "p \<in> set (surface_prefixes pf s)" "matches_prefix (normalize_path path) p"
    and q: "q \<in> set (surface_prefixes pf u)" "matches_prefix (normalize_path path) q"
    using assms(2,3) by (auto simp: surface_covers_def list_ex_iff)
  have "s \<in> set surfaces" "u \<in> set surfaces"
    using p(1) q(1) by (cases s; cases u; simp add: surfaces_def surface_prefixes_def)+
  then have "\<not> matches_prefix (normalize_path p) q" "\<not> matches_prefix (normalize_path q) p"
    using assms(1) p(1) q(1) ne unfolding surface_prefixes_disjoint_def list_all_iff by metis+
  then show False using prefix_comparable_segments [OF p(2) q(2)] by simp
qed

lemma classify_covers:
  "classify_api_surface path pf \<noteq> Unknown \<Longrightarrow> surface_covers pf path (classify_api_surface path pf)"
  by (simp add: classify_api_surface_def Let_def surface_covers_def surface_prefixes_def
      split: if_splits)

lemma covers_not_unknown:
  "surface_covers pf path s \<Longrightarrow> classify_api_surface path pf \<noteq> Unknown"
  by (cases s) (simp_all add: classify_api_surface_def Let_def surface_covers_def
      surface_prefixes_def)

text \<open>When no prefix of one surface covers a prefix of another, a path is classified
  as a surface exactly when its slash-separated segments extend those of a prefix of that
  surface, whatever the order of the tests, and it is unknown exactly when no surface's
  prefix covers it.\<close>

theorem classify_api_surface_exact:
  assumes "surface_prefixes_disjoint pf"
  shows "(s \<noteq> Unknown \<longrightarrow> (classify_api_surface path pf = s \<longleftrightarrow>
            (\<exists>p \<in> set (surface_prefixes pf s).
               prefix (split_on (CHR ''/'') (normalize_path p))
                      (split_on (CHR ''/'') (normalize_path path)))))
       \<and> (classify_api_surface path pf = Unknown \<longleftrightarrow> (\<forall>u. \<not> surface_covers pf path u))"
proof -
  have "classify_api_surface path pf = s \<longleftrightarrow> surface_covers pf path s" if "s \<noteq> Unknown" for s
    using that classify_covers covers_not_unknown surface_covers_unique [OF assms] by metis
  moreover have "surface_covers pf path s \<longleftrightarrow> (\<exists>p \<in> set (surface_prefixes pf s).
      prefix (split_on (CHR ''/'') (normalize_path p))
             (split_on (CHR ''/'') (normalize_path path)))" for s
    by (simp add: surface_covers_def list_ex_iff matches_prefix_segments)
  ultimately show ?thesis using classify_covers covers_not_unknown by metis
qed

lemma profile_default_disjoint: "surface_prefixes_disjoint profile_default"
  by code_simp

theorem classify_api_surface_exact_witness:
  "classify_api_surface ''/v1/chat'' profile_default = GatewayApi
   \<and> classify_api_surface ''/v1beta/chat'' profile_default = Unknown
   \<and> (\<forall>u. \<not> surface_covers profile_default ''/v1beta/chat'' u)"
proof -
  have "classify_api_surface ''/v1beta/chat'' profile_default = Unknown"
    and "classify_api_surface ''/v1/chat'' profile_default = GatewayApi" by code_simp+
  then show ?thesis
    using classify_api_surface_exact
      [OF profile_default_disjoint, of Unknown "''/v1beta/chat''"] by blast
qed

end
