(* ===== verification/Route_Manifest.thy ===== *)
theory Route_Manifest
  imports Surface
begin

section \<open>Route manifests\<close>

text \<open>
  Models \<open>sdkwork-web-core/src/route_manifest.rs\<close> and \<open>resolve_public_path\<close> of
  \<open>surface.rs\<close>: matching a request against the route templates of a manifest, the
  checks a manifest passes before it is served, and the composition of a host's manifest
  with those of its dependencies. A manifest is the list of its routes.
\<close>

type_synonym manifest = "http_route list"

record manifest_mount =
  mm_owner :: string
  mm_routes :: manifest

datatype manifest_error =
    PublicPrefixCoversProtected string string string
  | RouteContract contract_error
  | SurfaceAuthMismatch api_surface string string string
  | AmbientPathMarker string string string
  | BaseCollision "string \<times> string" string string
  | EmptyMountOwner
  | ComposedCollision "string \<times> string" string string "string \<times> string"
  | MissingDependencyRoute string string string string
  | DependencyAuthMismatch string string string string route_auth route_auth

subsection \<open>Templates\<close>

definition path_segments :: "string \<Rightarrow> string list" where
  "path_segments path =
     filter (\<lambda>s. s \<noteq> []) (split_on (CHR ''/'') (trim_char (CHR ''/'') (normalize_path path)))"

definition segment_has_parameter :: "string \<Rightarrow> bool" where
  "segment_has_parameter s =
     (case (find_char (CHR ''{'') s, find_char (CHR ''}'') s) of
        (Some start, Some fin) \<Rightarrow> start + 1 < fin
      | _ \<Rightarrow> False)"

definition template_has_parameters :: "string \<Rightarrow> bool" where
  "template_has_parameters p = list_ex segment_has_parameter (path_segments p)"

definition template_segment_matches :: "string \<Rightarrow> string \<Rightarrow> bool" where
  "template_segment_matches template actual =
     (if starts_with template ''{'' \<and> ends_with template ''}'' then actual \<noteq> []
      else case find_char (CHR ''{'') template of
        None \<Rightarrow> template = actual
      | Some brace_start \<Rightarrow>
          (case find_char (CHR ''}'') (drop brace_start template) of
             None \<Rightarrow> template = actual
           | Some brace_rel \<Rightarrow>
               (let brace_end = brace_start + brace_rel;
                    pre = take brace_start template;
                    suf = drop (brace_end + 1) template
                in if CHR ''{'' \<in> set suf then template = actual
                   else length pre + length suf < length actual \<and>
                        starts_with actual pre \<and> ends_with actual suf)))"

definition route_path_matches :: "string \<Rightarrow> string \<Rightarrow> bool" where
  "route_path_matches manifest_path request_path =
     (let ts = path_segments manifest_path; rs = path_segments request_path in
      length ts = length rs \<and>
      list_all (\<lambda>(t, r). template_segment_matches t r) (zip ts rs))"

fun http_method_label :: "http_method \<Rightarrow> string" where
  "http_method_label Get = ''GET''"
| "http_method_label Post = ''POST''"
| "http_method_label Put = ''PUT''"
| "http_method_label Patch = ''PATCH''"
| "http_method_label Delete = ''DELETE''"

definition http_method_matches :: "http_method \<Rightarrow> string \<Rightarrow> bool" where
  "http_method_matches route_method method =
     (let upper = to_upper method in
      route_method = Get \<and> upper = ''GET'' \<or> route_method = Post \<and> upper = ''POST'' \<or>
      route_method = Put \<and> upper = ''PUT'' \<or> route_method = Patch \<and> upper = ''PATCH'' \<or>
      route_method = Delete \<and> upper = ''DELETE'')"

fun route_auth_label :: "route_auth \<Rightarrow> string" where
  "route_auth_label Public = ''public''"
| "route_auth_label BootstrapBody = ''bootstrapBody''"
| "route_auth_label CredentialEntryBootstrap = ''credentialEntryBootstrap''"
| "route_auth_label RefreshToken = ''refresh-token''"
| "route_auth_label DualToken = ''dualToken''"
| "route_auth_label DualTokenOrAnonymous = ''dualTokenOrAnonymous''"
| "route_auth_label ApiKey = ''apiKey''"
| "route_auth_label IngressToken = ''ingressToken''"
| "route_auth_label OAuth = ''oauth''"
| "route_auth_label OpenApiFlexible = ''openApiFlexible''"
| "route_auth_label OpenApiBearerFlexible = ''openApiBearerFlexible''"
| "route_auth_label ApiKeyOrDualToken = ''apiKeyOrDualToken''"
| "route_auth_label AgentToken = ''agentToken''"
| "route_auth_label Compatibility = ''compatibility''"

subsection \<open>Matching\<close>

definition route_is_candidate :: "string \<Rightarrow> string \<Rightarrow> http_route \<Rightarrow> bool" where
  "route_is_candidate method normalized r =
     (http_method_matches (rt_method r) method \<and> route_path_matches (rt_path r) normalized)"

definition match_route :: "manifest \<Rightarrow> string \<Rightarrow> string \<Rightarrow> http_route option" where
  "match_route routes method path =
     (let normalized = normalize_path path in
      opt_or (find (\<lambda>r. route_is_candidate method normalized r \<and>
                        \<not> template_has_parameters (rt_path r)) routes)
             (find (route_is_candidate method normalized) routes))"

definition rate_limit_tier_for :: "manifest \<Rightarrow> string \<Rightarrow> string \<Rightarrow> rate_limit_tier option" where
  "rate_limit_tier_for routes method path =
     Option.bind (match_route routes method path) rt_rate_limit_tier"

definition is_public_route :: "manifest \<Rightarrow> string \<Rightarrow> string \<Rightarrow> bool" where
  "is_public_route routes method path =
     (case match_route routes method path of None \<Rightarrow> False | Some r \<Rightarrow> is_anonymous (rt_auth r))"

definition public_routes :: "manifest \<Rightarrow> manifest" where
  "public_routes routes = filter (\<lambda>r. is_anonymous (rt_auth r)) routes"

definition resolve_public_path ::
  "string \<Rightarrow> string \<Rightarrow> context_profile \<Rightarrow> manifest option \<Rightarrow> bool" where
  "resolve_public_path method path profile manifest =
     (case Option.bind manifest (\<lambda>m. match_route m method path) of
        Some r \<Rightarrow> skips_credential_resolution (rt_auth r)
      | None \<Rightarrow> is_public_path path profile)"

subsection \<open>Checks\<close>

definition validate_public_path_prefixes :: "manifest \<Rightarrow> string list \<Rightarrow> manifest_error + unit" where
  "validate_public_path_prefixes routes pfxs =
     res_forall (\<lambda>r.
       if skips_credential_resolution (rt_auth r) then Inr ()
       else (let normalized = normalize_path (rt_path r) in
         res_forall (\<lambda>p.
           if matches_prefix normalized p
           then Inl (PublicPrefixCoversProtected (http_method_label (rt_method r)) (rt_path r) p)
           else Inr ()) pfxs)) routes"

definition surface_auth_error :: "api_surface \<Rightarrow> http_route \<Rightarrow> manifest_error" where
  "surface_auth_error s r =
     SurfaceAuthMismatch s (http_method_label (rt_method r)) (rt_path r) (route_auth_label (rt_auth r))"

definition check_surface_auth :: "api_surface \<Rightarrow> http_route \<Rightarrow> manifest_error + unit" where
  "check_surface_auth s r =
     (let a = rt_auth r; err = Inl (surface_auth_error s r) in
      case s of
        AppApi \<Rightarrow>
          (if is_anonymous a \<or> a = RefreshToken \<or> is_optional_credential a then Inr ()
           else if \<not> requires_dual_token_headers a \<and> \<not> requires_access_token_only a then err
           else Inr ())
      | GatewayApi \<Rightarrow>
          (if \<not> requires_dual_token_headers a \<and> \<not> requires_access_token_only a then err
           else Inr ())
      | BackendApi \<Rightarrow>
          (if \<not> is_anonymous a \<and> \<not> requires_dual_token_headers a \<and>
              \<not> requires_access_token_only a \<and> \<not> is_bootstrap_body_credential_mode a \<and>
              \<not> is_agent_token_credential_mode a then err
           else Inr ())
      | InternalApi \<Rightarrow> (if \<not> is_ingress_token_credential_mode a then err else Inr ())
      | OpenApi \<Rightarrow>
          (if is_anonymous a then Inr ()
           else if a = Compatibility then Inr ()
           else if requires_dual_token_headers a \<or> a = RefreshToken then err
           else if \<not> is_open_api_credential_mode a then err
           else Inr ())
      | Unknown \<Rightarrow> Inr ())"

definition lift_contract :: "contract_error + unit \<Rightarrow> manifest_error + unit" where
  "lift_contract r = (case r of Inl e \<Rightarrow> Inl (RouteContract e) | Inr u \<Rightarrow> Inr u)"

definition validate_route_auth_for_surfaces ::
  "(string \<Rightarrow> operation_view option) \<Rightarrow> manifest \<Rightarrow> context_profile \<Rightarrow> manifest_error + unit" where
  "validate_route_auth_for_surfaces parse_operation routes profile =
     res_forall (\<lambda>r.
       res_bind (lift_contract (validate_compatibility_contract parse_operation r)) (\<lambda>_.
       res_bind (lift_contract (validate_log_retention r)) (\<lambda>_.
       check_surface_auth (classify_api_surface (rt_path r) profile) r))) routes"

definition forbidden_ambient_context_path_markers :: "string list" where
  "forbidden_ambient_context_path_markers = [''/tenants/'', ''/organizations/'']"

definition validate_no_ambient_context_path_markers ::
  "manifest \<Rightarrow> context_profile \<Rightarrow> manifest_error + unit" where
  "validate_no_ambient_context_path_markers routes profile =
     res_forall (\<lambda>r.
       if \<not> requires_client_context_selector_guard (classify_api_surface (rt_path r) profile)
       then Inr ()
       else (let normalized = to_lower (normalize_path (rt_path r)) in
         if is_canonical_iam_context_resource_path normalized then Inr ()
         else res_forall (\<lambda>marker.
           if str_contains normalized marker
           then Inl (AmbientPathMarker (http_method_label (rt_method r)) (rt_path r) marker)
           else Inr ()) forbidden_ambient_context_path_markers)) routes"

subsection \<open>Composition\<close>

definition normalize_template_segment :: "string \<Rightarrow> string" where
  "normalize_template_segment s =
     (if starts_with s ''{'' \<and> ends_with s ''}'' \<or> starts_with s '':'' \<or>
         starts_with s ''<'' \<and> ends_with s ''>''
      then ''{}'' else s)"

definition normalized_template_path :: "string \<Rightarrow> string" where
  "normalized_template_path path =
     str_join ''/'' (map normalize_template_segment (split_on (CHR ''/'') (normalize_path path)))"

definition manifest_route_identity :: "http_route \<Rightarrow> string \<times> string" where
  "manifest_route_identity r =
     (http_method_label (rt_method r), normalized_template_path (rt_path r))"

text \<open>The map of identities seen so far holds the owner and the operation of each.\<close>

type_synonym seen_routes = "string \<times> string \<Rightarrow> (string \<times> string) option"

fun merge_base :: "string \<Rightarrow> seen_routes \<Rightarrow> manifest \<Rightarrow> manifest_error + seen_routes" where
  "merge_base owner seen [] = Inr seen"
| "merge_base owner seen (r # rs) =
     (let key = manifest_route_identity r in
      case seen key of
        Some (existing_owner, existing_operation) \<Rightarrow>
          Inl (BaseCollision key existing_operation (rt_operation_id r))
      | None \<Rightarrow> merge_base owner (seen(key \<mapsto> (owner, rt_operation_id r))) rs)"

fun merge_mount_routes ::
  "string \<Rightarrow> seen_routes \<Rightarrow> manifest \<Rightarrow> manifest \<Rightarrow> manifest_error + (seen_routes \<times> manifest)" where
  "merge_mount_routes owner seen acc [] = Inr (seen, acc)"
| "merge_mount_routes owner seen acc (r # rs) =
     (let key = manifest_route_identity r in
      case seen key of
        Some existing \<Rightarrow> Inl (ComposedCollision key owner (rt_operation_id r) existing)
      | None \<Rightarrow> merge_mount_routes owner (seen(key \<mapsto> (owner, rt_operation_id r))) (acc @ [r]) rs)"

fun merge_mounts ::
  "seen_routes \<Rightarrow> manifest \<Rightarrow> manifest_mount list \<Rightarrow> manifest_error + manifest" where
  "merge_mounts seen acc [] = Inr acc"
| "merge_mounts seen acc (m # ms) =
     (if trim (mm_owner m) = [] then Inl EmptyMountOwner
      else res_bind (merge_mount_routes (mm_owner m) seen acc (mm_routes m))
        (\<lambda>(seen', acc'). merge_mounts seen' acc' ms))"

definition try_merge_mounts ::
  "string \<Rightarrow> manifest \<Rightarrow> manifest_mount list \<Rightarrow> manifest_error + manifest" where
  "try_merge_mounts owner base mounts =
     res_bind (merge_base owner Map.empty base) (\<lambda>seen. merge_mounts seen base mounts)"

definition validate_includes_dependency_manifests ::
  "manifest \<Rightarrow> manifest_mount list \<Rightarrow> manifest_error + unit" where
  "validate_includes_dependency_manifests routes mounts =
     res_forall (\<lambda>m. res_forall (\<lambda>r.
       (let method = http_method_label (rt_method r) in
        case match_route routes method (rt_path r) of
          None \<Rightarrow> Inl (MissingDependencyRoute (mm_owner m) method (rt_path r) (rt_operation_id r))
        | Some composed \<Rightarrow>
            if rt_auth composed \<noteq> rt_auth r
            then Inl (DependencyAuthMismatch (mm_owner m) method (rt_path r) (rt_operation_id r)
                        (rt_auth r) (rt_auth composed))
            else Inr ())) (mm_routes m)) mounts"

subsection \<open>Template segments\<close>

text \<open>A template segment with one placeholder span matches exactly the segments obtained by
  putting a non-empty value in its place, whether the placeholder fills the segment or is
  embedded between literal parts; and a segment without a brace matches only itself.\<close>

theorem template_segment_matches_exact:
  assumes "CHR ''{'' \<notin> set pre" "CHR ''}'' \<notin> set nm" "CHR ''{'' \<notin> set suf" "CHR ''}'' \<notin> set suf"
  shows "(template_segment_matches (pre @ CHR ''{'' # nm @ CHR ''}'' # suf) a
            \<longleftrightarrow> (\<exists>v. v \<noteq> [] \<and> a = pre @ v @ suf))
       \<and> (template_segment_matches pre a \<longleftrightarrow> a = pre)"
proof
  let ?t = "pre @ CHR ''{'' # nm @ CHR ''}'' # suf"
  have literal: "find_char (CHR ''{'') pre = None" using assms(1) by (simp add: find_char_None)
  show "template_segment_matches pre a \<longleftrightarrow> a = pre"
    using assms(1) literal
    by (auto simp: template_segment_matches_def starts_with_def prefix_def)
  have "find_char (CHR ''{'') ?t = Some (length pre)" by (rule find_char_append [OF assms(1)])
  moreover have "find_char (CHR ''}'') (drop (length pre) ?t) = Some (Suc (length nm))"
    using find_char_append [of "CHR ''}''" "CHR ''{'' # nm" suf] assms(2) by simp
  moreover have "take (length pre) ?t = pre" "drop (length pre + Suc (length nm) + 1) ?t = suf"
    by simp_all
  moreover have "starts_with ?t ''{'' \<and> ends_with ?t ''}'' \<longleftrightarrow> pre = [] \<and> suf = []"
  proof -
    have "starts_with ?t ''{'' \<longleftrightarrow> pre = []"
      using assms(1) by (cases pre) (auto simp: starts_with_def)
    moreover have "ends_with ?t ''}'' \<longleftrightarrow> suf = []"
      using assms(4)
      by (cases suf rule: rev_cases) (auto simp: ends_with_def suffix_def append_eq_append_conv2 append_eq_Cons_conv Cons_eq_append_conv)
    ultimately show ?thesis by simp
  qed
  moreover have "length pre + length suf < length a \<and> starts_with a pre \<and> ends_with a suf
      \<longleftrightarrow> (\<exists>v. v \<noteq> [] \<and> a = pre @ v @ suf)"
  proof
    assume h: "length pre + length suf < length a \<and> starts_with a pre \<and> ends_with a suf"
    then obtain b where b: "a = pre @ b" by (auto simp: starts_with_def prefix_def)
    with h have "suffix suf b" 
      by (auto simp: ends_with_def suffix_append dest: suffix_length_le)
    then obtain v where "b = v @ suf" by (auto simp: suffix_def)
    with b h show "\<exists>v. v \<noteq> [] \<and> a = pre @ v @ suf" by auto
  qed (auto simp: starts_with_def ends_with_def suffix_def)
  ultimately show "template_segment_matches ?t a \<longleftrightarrow> (\<exists>v. v \<noteq> [] \<and> a = pre @ v @ suf)"
    using assms(3) by (simp add: template_segment_matches_def Let_def)
qed

theorem template_segment_matches_exact_witness:
  "template_segment_matches ''{model}:generateImages'' ''imagen:generateImages''
   \<and> \<not> template_segment_matches ''{model}:generateImages'' '':generateImages''"
  using template_segment_matches_exact [of "[]" "''model''" "'':generateImages''" "''imagen:generateImages''"]
    template_segment_matches_exact [of "[]" "''model''" "'':generateImages''" "'':generateImages''"]
  by (auto intro: exI [of _ "''imagen''"])

text \<open>C5: A request is matched exactly when some route is a candidate for it, the matched route
  is one, a literal template wins over every parameterised one whatever the registration
  order, and within its class the first registered route wins.\<close>

theorem match_route_correct:
  "(match_route routes m p = None
      \<longleftrightarrow> (\<forall>r \<in> set routes. \<not> route_is_candidate m (normalize_path p) r))
   \<and> (match_route routes m p = Some r \<longrightarrow>
        route_is_candidate m (normalize_path p) r
        \<and> ((\<exists>q \<in> set routes. route_is_candidate m (normalize_path p) q
              \<and> \<not> template_has_parameters (rt_path q)) \<longrightarrow> \<not> template_has_parameters (rt_path r))
        \<and> (\<exists>pre post. routes = pre @ r # post \<and>
             (\<forall>q \<in> set pre. route_is_candidate m (normalize_path p) q \<longrightarrow>
                template_has_parameters (rt_path q) \<and> \<not> template_has_parameters (rt_path r))))"
proof -
  let ?c = "route_is_candidate m (normalize_path p)"
  let ?lit = "\<lambda>r. ?c r \<and> \<not> template_has_parameters (rt_path r)"
  have eq: "match_route routes m p = opt_or (find ?lit routes) (find ?c routes)"
    by (simp add: match_route_def Let_def)
  show ?thesis
  proof (cases "find ?lit routes")
    case None
    then have nl: "\<forall>q \<in> set routes. \<not> ?lit q" by (auto simp: find_None_iff)
    have "match_route routes m p = find ?c routes" using None by (simp add: eq)
    then show ?thesis
      using nl by (auto simp: find_None_iff find_Some_split)
  next
    case (Some r')
    then have "match_route routes m p = Some r'" by (simp add: eq)
    then show ?thesis using Some by (auto simp: find_Some_split)
  qed
qed

text \<open>A path in the form every configured one has: normalised and without empty segments.\<close>

definition slashed :: "string list \<Rightarrow> string" where
  "slashed segs = concat (map (\<lambda>s. CHR ''/'' # s) segs)"

definition canonical_path :: "string \<Rightarrow> bool" where
  "canonical_path p \<longleftrightarrow> normalize_path p = p
     \<and> p = (if path_segments p = [] then ''/'' else slashed (path_segments p))"

lemma path_segments_plain:
  assumes "s \<in> set (path_segments p)"
  shows "s \<noteq> []" and "CHR ''/'' \<notin> set s"
  using assms by (auto simp: path_segments_def dest: split_on_pieces)

lemma slashed_prefix:
  assumes "\<forall>s \<in> set Q \<union> set P. CHR ''/'' \<notin> set s" and "slashed Q @ y = slashed P"
    and "y = [] \<or> hd y = CHR ''/''"
  shows "\<exists>R. P = Q @ R"
  using assms
proof (induction Q arbitrary: P)
  case (Cons q Q)
  then obtain a P' where P: "P = a # P'" by (cases P) (auto simp: slashed_def)
  have hd: "slashed Q @ y = [] \<or> hd (slashed Q @ y) = CHR ''/''"
    using Cons.prems(3) by (cases Q) (auto simp: slashed_def)
  have tl: "slashed P' = [] \<or> hd (slashed P') = CHR ''/''" by (cases P') (auto simp: slashed_def)
  have e: "q @ (slashed Q @ y) = a @ slashed P'" using Cons.prems(2) P by (simp add: slashed_def)
  have w: "takeWhile (\<lambda>c. c \<noteq> CHR ''/'') (s @ z) = s"
    if "CHR ''/'' \<notin> set s" "z = [] \<or> hd z = CHR ''/''" for s z
    using that by (cases z) (auto simp: takeWhile_append)
  have "q = a" using w [OF _ hd, of q] w [OF _ tl, of a] Cons.prems(1) P e by auto
  with e have "slashed Q @ y = slashed P'" by simp
  with Cons.IH [of P'] Cons.prems(1,3) P \<open>q = a\<close> show ?case by auto
qed simp

lemma prefix_segments:
  assumes "canonical_path path" and "canonical_path p" and "matches_prefix path p"
  shows "\<exists>R. path_segments path = path_segments p @ R"
    and "path_segments p = [] \<Longrightarrow> path_segments path = []"
proof -
  let ?P = "path_segments path" and ?Q = "path_segments p"
  have m: "path = p \<or> (\<exists>x. path = p @ CHR ''/'' # x)"
    using assms unfolding matches_prefix_def canonical_path_def
    by (auto simp: Let_def starts_with_def prefix_def)
  have plain: "\<forall>s \<in> set ?Q \<union> set ?P. CHR ''/'' \<notin> set s" using path_segments_plain(2) by blast
  show "?Q = [] \<Longrightarrow> ?P = []"
  proof (rule ccontr)
    assume q: "?Q = []" and n: "?P \<noteq> []"
    then obtain a R where P: "?P = a # R" by (cases ?P) auto
    have "a \<noteq> []" "CHR ''/'' \<notin> set a" using path_segments_plain [of a path] P by auto
    moreover have "p = ''/''" "path = slashed ?P"
      using assms(1,2) q n by (auto simp: canonical_path_def)
    ultimately show False using m q n P by (cases a) (auto simp: slashed_def)
  qed
  show "\<exists>R. ?P = ?Q @ R"
  proof (cases "path = p \<or> ?Q = []")
    case False
    with m obtain x where x: "path = p @ CHR ''/'' # x" by blast
    have p: "p = slashed ?Q" using assms(2) False by (simp add: canonical_path_def)
    with False have "p \<noteq> []" by (cases ?Q) (simp_all add: slashed_def)
    with x have "path \<noteq> ''/''" by (cases p) simp_all
    then have "path = slashed ?P" using assms(1) by (simp add: canonical_path_def split: if_splits)
    with x p have "slashed ?Q @ CHR ''/'' # x = slashed ?P" by simp
    from slashed_prefix [OF plain this] show ?thesis by simp
  qed auto
qed

lemma template_segment_with_braces:
  assumes "template_segment_matches t a" and "t \<noteq> a"
  shows "CHR ''{'' \<in> set t"
proof (rule ccontr)
  assume n: "CHR ''{'' \<notin> set t"
  then have "find_char (CHR ''{'') t = None" by (simp add: find_char_None)
  moreover have "\<not> starts_with t ''{''" using n by (auto simp: starts_with_def prefix_def)
  ultimately show False using assms by (simp add: template_segment_matches_def)
qed

lemma literal_segment: "template_segment_matches t a \<Longrightarrow> CHR ''{'' \<notin> set t \<Longrightarrow> t = a"
  using template_segment_with_braces [of t a] by blast

lemma uncovered_prefix:
  assumes "canonical_path path" and "canonical_path p" and "canonical_path t"
    and "matches_prefix path p" and "\<not> matches_prefix t p" and "route_path_matches t path"
  shows "\<exists>i < length (path_segments p). CHR ''{'' \<in> set (path_segments t ! i)
    \<and> path_segments t ! i \<noteq> path_segments p ! i"
proof -
  let ?P = "path_segments path" and ?Q = "path_segments p" and ?T = "path_segments t"
  from prefix_segments(1) [OF assms(1,2,4)] obtain R where R: "?P = ?Q @ R" by blast
  have l: "length ?T = length ?P"
    and all: "\<And>i. i < length ?P \<Longrightarrow> template_segment_matches (?T ! i) (?P ! i)"
    using assms(6) by (auto simp: route_path_matches_def Let_def list_all_length)
  have "\<exists>i < length ?Q. ?T ! i \<noteq> ?Q ! i"
  proof (rule ccontr)
    assume "\<not> ?thesis"
    then have "take (length ?Q) ?T = ?Q"
      using l R by (intro nth_equalityI) auto
    then obtain S where T: "?T = ?Q @ S" by (metis append_take_drop_id)
    have "matches_prefix t p"
    proof (cases "?Q = []")
      case True
      then have "?T = []" using prefix_segments(2) [OF assms(1,2,4)] l by simp
      with True assms(2,3) show ?thesis by (auto simp: canonical_path_def matches_prefix_def Let_def)
    next
      case False
      with T assms(2,3) show ?thesis
        by (cases S) (auto simp: canonical_path_def matches_prefix_def Let_def starts_with_def
            prefix_def slashed_def)
    qed
    with assms(5) show False ..
  qed
  then obtain i where i: "i < length ?Q" "?T ! i \<noteq> ?Q ! i" by blast
  with all [of i] R have "template_segment_matches (?T ! i) (?Q ! i)" by (simp add: nth_append)
  with i literal_segment show ?thesis by blast
qed

text \<open>C25: Once the public path prefixes are validated against a manifest, all of them and the
  template and the path being normalised and without empty segments, a request whose path is an
  instance of the template of a protected route is public only in two cases: the manifest
  matches the request to a route that declares so; or it matches it to none, because of its
  method, and a configured prefix covers the path that itself puts a value in the place of a
  placeholder of the protected template. So no prefix opens the instances of a protected
  template that is literal as far as the prefix goes.\<close>

theorem protected_path_not_public:
  assumes "validate_public_path_prefixes routes (pf_public_path_prefixes pf) = Inr ()"
    and "\<forall>p \<in> set (pf_public_path_prefixes pf). canonical_path p"
    and "canonical_path path" and "canonical_path (rt_path r)"
    and "r \<in> set routes" and "\<not> skips_credential_resolution (rt_auth r)"
    and "route_path_matches (rt_path r) path"
    and "resolve_public_path m path pf (Some routes)"
  shows "case match_route routes m path of
      Some q \<Rightarrow> q \<in> set routes \<and> skips_credential_resolution (rt_auth q)
    | None \<Rightarrow> (\<exists>p \<in> set (pf_public_path_prefixes pf). matches_prefix path p
        \<and> (\<exists>i < length (path_segments p). CHR ''{'' \<in> set (path_segments (rt_path r) ! i)
            \<and> path_segments (rt_path r) ! i \<noteq> path_segments p ! i))"
proof (cases "match_route routes m path")
  case None
  have n: "normalize_path path = path" "normalize_path (rt_path r) = rt_path r"
    using assms(3,4) by (simp_all add: canonical_path_def)
  from None assms(8) have "is_public_path path pf" by (simp add: resolve_public_path_def)
  then obtain p where p: "p \<in> set (pf_public_path_prefixes pf)" "matches_prefix path p"
    by (auto simp: is_public_path_def Let_def list_ex_iff n)
  moreover have "\<not> matches_prefix (rt_path r) p"
    using assms(1,5,6) p(1)
    by (auto simp: validate_public_path_prefixes_def res_forall_ok Let_def n split: if_splits)
  ultimately show ?thesis
    using None uncovered_prefix [OF assms(3) _ assms(4) _ _ assms(7)] assms(2) by auto
next
  case (Some q)
  then have "q \<in> set routes"
    by (auto simp: match_route_def Let_def opt_or_def find_Some_split split: option.splits)
  with Some assms(8) show ?thesis by (auto simp: resolve_public_path_def)
qed

text \<open>A public route of another method opens an instance of a protected template; a method without
  a route does not.\<close>

theorem protected_path_not_public_witness:
  "skips_credential_resolution (rt_auth (the (match_route
        [route_dual_token Get ''/app/v3/api/users/{id}'' ''U'' ''users.get'',
         route_public Post ''/app/v3/api/users/{id}'' ''U'' ''users.ping''] ''POST'' ''/app/v3/api/users/42'')))
   \<and> \<not> resolve_public_path ''DELETE'' ''/app/v3/api/users/42'' profile_default
       (Some [route_dual_token Get ''/app/v3/api/users/{id}'' ''U'' ''users.get''])"
proof
  let ?r = "route_dual_token Get ''/app/v3/api/users/{id}'' ''U'' ''users.get''"
  let ?q = "route_public Post ''/app/v3/api/users/{id}'' ''U'' ''users.ping''"
  have v: "validate_public_path_prefixes [?r, ?q] (pf_public_path_prefixes profile_default) = Inr ()"
    and s: "\<not> skips_credential_resolution (rt_auth ?r)"
    and c: "canonical_path ''/app/v3/api/users/42''" "canonical_path (rt_path ?r)"
    and n: "route_path_matches (rt_path ?r) ''/app/v3/api/users/42''"
    and pub: "resolve_public_path ''POST'' ''/app/v3/api/users/42'' profile_default (Some [?r, ?q])"
    and m: "match_route [?r, ?q] ''POST'' ''/app/v3/api/users/42'' = Some ?q"
    by code_simp+
  have p: "\<forall>p \<in> set (pf_public_path_prefixes profile_default). canonical_path p" by code_simp
  from protected_path_not_public [OF v p c _ s n pub] m
  show "skips_credential_resolution (rt_auth (the (match_route [?r, ?q] ''POST'' ''/app/v3/api/users/42'')))"
    by simp
  show "\<not> resolve_public_path ''DELETE'' ''/app/v3/api/users/42'' profile_default (Some [?r])"
    by code_simp
qed

theorem match_route_correct_witness:
  "match_route [route_dual_token Get ''/c/{id}'' ''C'' ''c.get'', route_public Get ''/c/wallet'' ''C'' ''c.wallet'']
      ''GET'' ''/c/wallet'' = Some (route_public Get ''/c/wallet'' ''C'' ''c.wallet'')
   \<and> \<not> template_has_parameters (rt_path (route_public Get ''/c/wallet'' ''C'' ''c.wallet''))"
proof -
  let ?p = "route_dual_token Get ''/c/{id}'' ''C'' ''c.get''"
  let ?l = "route_public Get ''/c/wallet'' ''C'' ''c.wallet''"
  have m: "match_route [?p, ?l] ''GET'' ''/c/wallet'' = Some ?l" by code_simp
  have c: "route_is_candidate ''GET'' (normalize_path ''/c/wallet'') ?l"
      "\<not> template_has_parameters (rt_path ?l)" by code_simp+
  have "\<exists>q \<in> set [?p, ?l]. route_is_candidate ''GET'' (normalize_path ''/c/wallet'') q
              \<and> \<not> template_has_parameters (rt_path q)"
    using c by (intro bexI [of _ ?l]) simp_all
  then have "\<not> template_has_parameters (rt_path ?l)"
    using match_route_correct [of "[?p, ?l]" "''GET''" "''/c/wallet''" ?l] m by blast
  with m show ?thesis by simp
qed

subsection \<open>Authentication profiles per surface\<close>

definition allowed_route_auth :: "api_surface \<Rightarrow> route_auth list" where
  "allowed_route_auth s = (case s of
       AppApi \<Rightarrow> [Public, RefreshToken, DualTokenOrAnonymous, DualToken, CredentialEntryBootstrap]
     | GatewayApi \<Rightarrow> [DualToken, CredentialEntryBootstrap]
     | BackendApi \<Rightarrow> [Public, DualToken, CredentialEntryBootstrap, BootstrapBody, AgentToken]
     | InternalApi \<Rightarrow> [IngressToken]
     | OpenApi \<Rightarrow> [Public, Compatibility, ApiKey, OAuth, OpenApiFlexible, ApiKeyOrDualToken]
     | Unknown \<Rightarrow> [])"

lemma check_surface_auth_iff:
  "check_surface_auth s r = Inr () \<longleftrightarrow> s = Unknown \<or> rt_auth r \<in> set (allowed_route_auth s)"
  by (cases s; cases "rt_auth r")
    (simp_all add: check_surface_auth_def Let_def allowed_route_auth_def is_anonymous_def
      is_optional_credential_def requires_dual_token_headers_def requires_access_token_only_def
      is_bootstrap_body_credential_mode_def is_agent_token_credential_mode_def
      is_ingress_token_credential_mode_def)

lemma lift_contract_ok: "lift_contract r = Inr () \<longleftrightarrow> r = Inr ()"
  by (cases r) (simp_all add: lift_contract_def)

text \<open>A manifest passes the surface check exactly when every route's own contract holds and
  its authentication profile is one of those its surface allows; in particular the profile
  \<open>OpenApiBearerFlexible\<close> is rejected on every classified surface, the open surface
  included.\<close>

theorem validate_route_auth_for_surfaces_exact:
  "(validate_route_auth_for_surfaces parse routes pf = Inr ()
      \<longleftrightarrow> (\<forall>r \<in> set routes. validate_compatibility_contract parse r = Inr ()
             \<and> validate_log_retention r = Inr ()
             \<and> (classify_api_surface (rt_path r) pf = Unknown \<or>
                rt_auth r \<in> set (allowed_route_auth (classify_api_surface (rt_path r) pf)))))
   \<and> (r \<in> set routes \<and> rt_auth r = OpenApiBearerFlexible
       \<and> classify_api_surface (rt_path r) pf \<noteq> Unknown
       \<longrightarrow> \<not> is_ok (validate_route_auth_for_surfaces parse routes pf))"
proof
  show exact: "validate_route_auth_for_surfaces parse routes pf = Inr ()
      \<longleftrightarrow> (\<forall>r \<in> set routes. validate_compatibility_contract parse r = Inr ()
             \<and> validate_log_retention r = Inr ()
             \<and> (classify_api_surface (rt_path r) pf = Unknown \<or>
                rt_auth r \<in> set (allowed_route_auth (classify_api_surface (rt_path r) pf))))"
    by (auto simp: validate_route_auth_for_surfaces_def res_forall_ok res_bind_eq_Inr
        lift_contract_ok check_surface_auth_iff)
  have "OpenApiBearerFlexible \<notin> set (allowed_route_auth s)" for s
    by (cases s) (simp_all add: allowed_route_auth_def)
  then show "r \<in> set routes \<and> rt_auth r = OpenApiBearerFlexible
       \<and> classify_api_surface (rt_path r) pf \<noteq> Unknown
       \<longrightarrow> \<not> is_ok (validate_route_auth_for_surfaces parse routes pf)"
    using exact unfolding is_ok_unit by metis
qed

theorem validate_route_auth_for_surfaces_exact_witness:
  "\<not> is_ok (validate_route_auth_for_surfaces (\<lambda>_. None)
      [route_new Get ''/open/v3/api/m'' ''M'' ''m.list'' OpenApiBearerFlexible] profile_default)"
proof -
  let ?r = "route_new Get ''/open/v3/api/m'' ''M'' ''m.list'' OpenApiBearerFlexible"
  have "rt_auth ?r = OpenApiBearerFlexible" and "classify_api_surface (rt_path ?r) profile_default \<noteq> Unknown"
    by code_simp+
  then show ?thesis
    using validate_route_auth_for_surfaces_exact [of "\<lambda>_. None" "[?r]" profile_default ?r] by simp
qed

subsection \<open>Merging\<close>

text \<open>The identities a \<open>seen\<close> map records are exactly those of the routes merged so far.\<close>

lemma merge_base_ok:
  "(\<exists>seen'. merge_base owner seen rs = Inr seen')
     \<longleftrightarrow> distinct (map manifest_route_identity rs) \<and> dom seen \<inter> manifest_route_identity ` set rs = {}"
  by (induction rs arbitrary: seen) (auto simp: Let_def split: option.splits)

lemma merge_base_dom:
  "merge_base owner seen rs = Inr seen' \<Longrightarrow> dom seen' = dom seen \<union> manifest_route_identity ` set rs"
  by (induction rs arbitrary: seen) (auto simp: Let_def split: option.splits)

lemma merge_mount_routes_ok:
  "(\<exists>res. merge_mount_routes owner seen acc rs = Inr res)
     \<longleftrightarrow> distinct (map manifest_route_identity rs) \<and> dom seen \<inter> manifest_route_identity ` set rs = {}"
  by (induction rs arbitrary: seen acc) (auto simp: Let_def split: option.splits)

lemma merge_mount_routes_acc:
  "merge_mount_routes owner seen acc rs = Inr (seen', acc') \<Longrightarrow> acc' = acc @ rs"
proof (induction rs arbitrary: seen acc)
  case (Cons r rs)
  then have "merge_mount_routes owner (seen(manifest_route_identity r \<mapsto> (owner, rt_operation_id r)))
      (acc @ [r]) rs = Inr (seen', acc')"
    by (simp add: Let_def split: option.splits)
  from Cons.IH [OF this] show ?case by simp
qed simp

lemma merge_mount_routes_dom:
  "merge_mount_routes owner seen acc rs = Inr (seen', acc') \<Longrightarrow>
     dom seen' = dom seen \<union> manifest_route_identity ` set rs"
  by (induction rs arbitrary: seen acc) (auto simp: Let_def split: option.splits)

definition mounts_routes :: "manifest_mount list \<Rightarrow> manifest" where
  "mounts_routes ms = concat (map mm_routes ms)"

lemma merge_mounts_ok:
  "merge_mounts seen acc ms = Inr res
     \<longleftrightarrow> res = acc @ mounts_routes ms \<and> (\<forall>m \<in> set ms. trim (mm_owner m) \<noteq> [])
         \<and> distinct (map manifest_route_identity (mounts_routes ms))
         \<and> dom seen \<inter> manifest_route_identity ` set (mounts_routes ms) = {}"
proof (induction ms arbitrary: seen acc)
  case Nil
  show ?case by (auto simp: mounts_routes_def)
next
  case (Cons m ms)
  let ?id = manifest_route_identity
  show ?case
  proof (cases "merge_mount_routes (mm_owner m) seen acc (mm_routes m)")
    case (Inl e)
    then have "\<not> (distinct (map ?id (mm_routes m)) \<and> dom seen \<inter> ?id ` set (mm_routes m) = {})"
      using merge_mount_routes_ok [of "mm_owner m" seen acc "mm_routes m"] by simp
    with Inl show ?thesis by (auto simp: mounts_routes_def)
  next
    case (Inr sa)
    obtain seen' acc' where sa: "sa = (seen', acc')" by (cases sa)
    have ok: "distinct (map ?id (mm_routes m)) \<and> dom seen \<inter> ?id ` set (mm_routes m) = {}"
      using merge_mount_routes_ok [of "mm_owner m" seen acc "mm_routes m"] Inr by blast
    have acc': "acc' = acc @ mm_routes m"
      and dom': "dom seen' = dom seen \<union> ?id ` set (mm_routes m)"
      using merge_mount_routes_acc merge_mount_routes_dom Inr sa by blast+
    have routes: "mounts_routes (m # ms) = mm_routes m @ mounts_routes ms"
      by (simp add: mounts_routes_def)
    have disj: "dom seen' \<inter> ?id ` set (mounts_routes ms) = {}
        \<longleftrightarrow> ?id ` set (mm_routes m) \<inter> ?id ` set (mounts_routes ms) = {}
          \<and> dom seen \<inter> (?id ` set (mm_routes m) \<union> ?id ` set (mounts_routes ms)) = {}"
      unfolding dom' Int_Un_distrib Int_Un_distrib2 Un_empty using ok by (simp add: conj_commute)
    have "merge_mounts seen acc (m # ms)
        = (if trim (mm_owner m) = [] then Inl EmptyMountOwner else merge_mounts seen' acc' ms)"
      by (simp add: Inr sa)
    then have "merge_mounts seen acc (m # ms) = Inr res
        \<longleftrightarrow> trim (mm_owner m) \<noteq> [] \<and> merge_mounts seen' acc' ms = Inr res"
      by simp
    also have "\<dots> \<longleftrightarrow> trim (mm_owner m) \<noteq> [] \<and> res = acc @ mm_routes m @ mounts_routes ms
        \<and> (\<forall>m \<in> set ms. trim (mm_owner m) \<noteq> [])
        \<and> distinct (map ?id (mounts_routes ms))
        \<and> ?id ` set (mm_routes m) \<inter> ?id ` set (mounts_routes ms) = {}
        \<and> dom seen \<inter> (?id ` set (mm_routes m) \<union> ?id ` set (mounts_routes ms)) = {}"
      by (simp only: Cons.IH acc' disj append_assoc)
    also have "\<dots> \<longleftrightarrow> res = acc @ mounts_routes (m # ms)
        \<and> (\<forall>m \<in> set (m # ms). trim (mm_owner m) \<noteq> [])
        \<and> distinct (map ?id (mounts_routes (m # ms)))
        \<and> dom seen \<inter> ?id ` set (mounts_routes (m # ms)) = {}"
      using ok by (simp only: routes map_append distinct_append set_append set_map image_Un
          list.set ball_simps) blast
    finally show ?thesis .
  qed
qed

text \<open>C26: Composing manifests succeeds exactly when every mount names its owner and no two
  routes of the host and its dependencies share a method and a normalised template; the
  result is then the host's routes followed by those of the mounts, in order, so no
  declaration is lost or changed.\<close>

theorem try_merge_mounts_exact:
  "try_merge_mounts owner base mounts = Inr composed
     \<longleftrightarrow> composed = base @ concat (map mm_routes mounts)
         \<and> (\<forall>m \<in> set mounts. trim (mm_owner m) \<noteq> [])
         \<and> distinct (map manifest_route_identity (base @ concat (map mm_routes mounts)))"
proof (cases "merge_base owner Map.empty base")
  case (Inl e)
  then have "\<not> distinct (map manifest_route_identity base)"
    using merge_base_ok [of owner Map.empty base] by simp
  with Inl show ?thesis by (simp add: try_merge_mounts_def)
next
  case (Inr seen)
  then have "distinct (map manifest_route_identity base)"
      "dom seen = manifest_route_identity ` set base"
    using merge_base_ok [of owner Map.empty base] merge_base_dom [OF Inr] by auto
  with Inr show ?thesis
    by (auto simp: try_merge_mounts_def merge_mounts_ok mounts_routes_def)
qed

theorem try_merge_mounts_exact_witness:
  "try_merge_mounts ''host'' [route_public Get ''/a'' ''A'' ''a.get'']
      [\<lparr>mm_owner = ''iam'', mm_routes = [route_dual_token Get ''/b/{id}'' ''B'' ''b.get'']\<rparr>]
    = Inr [route_public Get ''/a'' ''A'' ''a.get'', route_dual_token Get ''/b/{id}'' ''B'' ''b.get'']
   \<and> \<not> is_ok (try_merge_mounts ''host'' [route_public Get ''/b/{x}'' ''A'' ''a.get'']
      [\<lparr>mm_owner = ''iam'', mm_routes = [route_dual_token Get ''/b/{id}'' ''B'' ''b.get'']\<rparr>])"
proof -
  let ?b = "route_dual_token Get ''/b/{id}'' ''B'' ''b.get''"
  let ?m = "\<lparr>mm_owner = ''iam'', mm_routes = [?b]\<rparr>"
  have o: "trim ''iam'' \<noteq> []" by code_simp
  have d: "distinct (map manifest_route_identity [route_public Get ''/a'' ''A'' ''a.get'', ?b])"
    and nd: "\<not> distinct (map manifest_route_identity [route_public Get ''/b/{x}'' ''A'' ''a.get'', ?b])"
    by code_simp+
  have "try_merge_mounts ''host'' [route_public Get ''/a'' ''A'' ''a.get''] [?m]
      = Inr [route_public Get ''/a'' ''A'' ''a.get'', ?b]"
    using o d try_merge_mounts_exact [of "''host''" "[route_public Get ''/a'' ''A'' ''a.get'']" "[?m]"
        "[route_public Get ''/a'' ''A'' ''a.get'', ?b]"] by simp
  moreover have "\<not> is_ok (try_merge_mounts ''host'' [route_public Get ''/b/{x}'' ''A'' ''a.get''] [?m])"
    using nd try_merge_mounts_exact [of "''host''" "[route_public Get ''/b/{x}'' ''A'' ''a.get'']" "[?m]"]
    by (auto simp: is_ok_iff)
  ultimately show ?thesis by blast
qed

end
