(* ===== verification/Http.thy ===== *)
theory Http
  imports Route_Manifest
begin

section \<open>Requests, responses and headers\<close>

text \<open>
  What the crates use of \<open>http\<close> and \<open>axum\<close>. A header map is a partial map from
  lower-case names to values (the first value of a name, which is what \<open>get\<close> returns); a
  value is text when \<open>to_str\<close> accepts it and opaque bytes otherwise. Methods are their
  names. Parsing a URI, a method or a header value belongs to \<open>http\<close> and is a parameter of
  the definitions that need it; \<open>uri_view\<close> is what they read of a parsed URI.
\<close>

datatype header_value = TextValue string | OpaqueValue string

fun hv_to_str :: "header_value \<Rightarrow> string option" where
  "hv_to_str (TextValue s) = Some s"
| "hv_to_str (OpaqueValue b) = None"

type_synonym headers = "string \<Rightarrow> header_value option"

definition hdr_get :: "headers \<Rightarrow> string \<Rightarrow> header_value option" where
  "hdr_get hs n = hs (to_lower n)"

definition hdr_has :: "headers \<Rightarrow> string \<Rightarrow> bool" where
  "hdr_has hs n = (hdr_get hs n \<noteq> None)"

definition hdr_text :: "headers \<Rightarrow> string \<Rightarrow> string option" where
  "hdr_text hs n = Option.bind (hdr_get hs n) hv_to_str"

definition hdr_insert :: "string \<Rightarrow> header_value \<Rightarrow> headers \<Rightarrow> headers" where
  "hdr_insert n v hs = hs(to_lower n \<mapsto> v)"

text \<open>The text of a header, trimmed, where it is not blank; \<open>extractors.rs\<close> and several
  guards read headers this way.\<close>

definition hdr_trimmed :: "headers \<Rightarrow> string \<Rightarrow> string option" where
  "hdr_trimmed hs n = opt_filter (\<lambda>v. v \<noteq> []) (map_option trim (hdr_text hs n))"

definition hdr_u64 :: "headers \<Rightarrow> string \<Rightarrow> nat option" where
  "hdr_u64 hs n = Option.bind (hdr_text hs n) (parse_unsigned u64_max)"

record request =
  rq_method :: string
  rq_path :: string
  rq_query :: "string option"
  rq_headers :: headers
  rq_body :: string

record response =
  rs_status :: nat
  rs_headers :: headers
  rs_body :: string

record uri_view =
  uri_scheme :: "string option"
  uri_authority :: "string option"
  uri_host :: "string option"
  uri_port_present :: bool
  uri_path :: string
  uri_query :: "string option"

text \<open>The MIME type a \<open>content-type\<close> header declares, without its parameters.\<close>

definition content_mime :: "headers \<Rightarrow> string" where
  "content_mime hs =
     to_lower (trim (hd (split_on (CHR '';'') (unwrap_or (hdr_text hs ''content-type'') []))))"

lemma hdr_text_Some: "hdr_text hs n = Some v \<longleftrightarrow> hdr_get hs n = Some (TextValue v)"
  by (cases "hdr_get hs n") (auto simp: hdr_text_def elim: hv_to_str.elims)

lemma hdr_trimmed_Some:
  "hdr_trimmed hs n = Some v \<longleftrightarrow> (\<exists>t. hdr_text hs n = Some t \<and> v = trim t \<and> v \<noteq> [])"
  by (cases "hdr_text hs n") (auto simp: hdr_trimmed_def)

lemma hdr_trimmed_has: "hdr_trimmed hs n = Some v \<Longrightarrow> hdr_has hs n"
  by (auto simp: hdr_trimmed_Some hdr_text_Some hdr_has_def)

lemma hdr_insert_get [simp]:
  "hdr_get (hdr_insert n v hs) m = (if to_lower n = to_lower m then Some v else hdr_get hs m)"
  by (simp add: hdr_get_def hdr_insert_def)

end
