(* ===== verification/Net_Addr.thy ===== *)
theory Net_Addr
  imports Prelude
begin

section \<open>IP addresses of the standard library\<close>

text \<open>
  What the crates use of \<open>std::net\<close>: \<open>IpAddr\<close> and its \<open>FromStr\<close> (a descent parser that
  reads an IPv4 address first and an IPv6 address otherwise, and must consume the whole
  string), the classification of private, unique-local and loopback addresses, and
  IPv4-mapped IPv6 addresses. An IPv4 address is its four octets, an IPv6 address its eight
  16-bit groups.
\<close>

datatype ip_addr =
    V4 (octets: "8 word list")
  | V6 (groups: "16 word list")

definition hex_value :: "char \<Rightarrow> nat option" where
  "hex_value c =
     (if is_ascii_digit c then Some (code c - 48)
      else if 97 \<le> code c \<and> code c \<le> 102 then Some (code c - 87)
      else if 65 \<le> code c \<and> code c \<le> 70 then Some (code c - 55)
      else None)"

definition dec_value :: "char \<Rightarrow> nat option" where
  "dec_value c = (if is_ascii_digit c then Some (code c - 48) else None)"

text \<open>\<open>read_number\<close>: the value and the number of the digits read so far, and the rest. The
  reader gives up when more than \<open>max_digits\<close> digits follow, when there is none, when the
  value overflows, or at a leading zero where none is allowed.\<close>

fun read_digits :: "(char \<Rightarrow> nat option) \<Rightarrow> nat \<Rightarrow> nat \<Rightarrow> nat \<Rightarrow> string \<Rightarrow> nat \<times> nat \<times> string" where
  "read_digits dv radix n v [] = (v, n, [])"
| "read_digits dv radix n v (c # s) =
     (case dv c of
        None \<Rightarrow> (v, n, c # s)
      | Some d \<Rightarrow> read_digits dv radix (n + 1) (v * radix + d) s)"

definition read_number ::
  "(char \<Rightarrow> nat option) \<Rightarrow> nat \<Rightarrow> nat \<Rightarrow> nat \<Rightarrow> bool \<Rightarrow> string \<Rightarrow> (nat \<times> string) option" where
  "read_number dv radix max_digits max_value allow_zero_prefix s =
     (case read_digits dv radix 0 0 s of (v, n, rest) \<Rightarrow>
        if n = 0 \<or> max_digits < n \<or> max_value < v then None
        else if \<not> allow_zero_prefix \<and> 1 < n \<and> starts_with s ''0'' then None
        else Some (v, rest))"

definition read_sep :: "char \<Rightarrow> nat \<Rightarrow> string \<Rightarrow> string option" where
  "read_sep c i s = (if i = 0 then Some s else strip_prefix s [c])"

definition read_octet :: "nat \<Rightarrow> string \<Rightarrow> (8 word \<times> string) option" where
  "read_octet i s =
     Option.bind (read_sep (CHR ''.'') i s) (\<lambda>t.
     map_option (\<lambda>(v, rest). (of_nat v, rest)) (read_number dec_value 10 3 255 False t))"

definition read_ipv4 :: "string \<Rightarrow> (8 word list \<times> string) option" where
  "read_ipv4 s =
     Option.bind (read_octet 0 s) (\<lambda>(a, s1).
     Option.bind (read_octet 1 s1) (\<lambda>(b, s2).
     Option.bind (read_octet 2 s2) (\<lambda>(c, s3).
     Option.bind (read_octet 3 s3) (\<lambda>(d, s4). Some ([a, b, c, d], s4)))))"

definition join_octets :: "8 word \<Rightarrow> 8 word \<Rightarrow> 16 word" where
  "join_octets a b = ucast a * 256 + ucast b"

text \<open>\<open>read_groups\<close> reads colon-separated groups, at most \<open>left\<close> more, the next one being
  group \<open>i\<close>; the flag says that an embedded IPv4 address ended the list.\<close>

fun read_groups :: "nat \<Rightarrow> nat \<Rightarrow> string \<Rightarrow> 16 word list \<times> bool \<times> string" where
  "read_groups i 0 s = ([], False, s)"
| "read_groups i (Suc left) s =
     (case (if 0 < left then Option.bind (read_sep (CHR '':'') i s) read_ipv4 else None) of
        Some (v4, rest) \<Rightarrow>
          ([join_octets (v4 ! 0) (v4 ! 1), join_octets (v4 ! 2) (v4 ! 3)], True, rest)
      | None \<Rightarrow>
          (case Option.bind (read_sep (CHR '':'') i s) (read_number hex_value 16 4 65535 True) of
             None \<Rightarrow> ([], False, s)
           | Some (v, rest) \<Rightarrow>
               (case read_groups (i + 1) left rest of
                  (gs, flag, rest') \<Rightarrow> (of_nat v # gs, flag, rest'))))"

definition read_ipv6 :: "string \<Rightarrow> (16 word list \<times> string) option" where
  "read_ipv6 s =
     (case read_groups 0 8 s of (head, head_ipv4, s1) \<Rightarrow>
        if length head = 8 then Some (head, s1)
        else if head_ipv4 then None
        else Option.bind (strip_prefix s1 ''::'') (\<lambda>s2.
          case read_groups 0 (8 - (length head + 1)) s2 of (tail, _, s3) \<Rightarrow>
            Some (head @ replicate (8 - length head - length tail) 0 @ tail, s3)))"

definition parse_ip :: "string \<Rightarrow> ip_addr option" where
  "parse_ip s =
     (case read_ipv4 s of
        Some (v4, rest) \<Rightarrow> if rest = [] then Some (V4 v4) else None
      | None \<Rightarrow>
          (case read_ipv6 s of
             Some (v6, rest) \<Rightarrow> if rest = [] then Some (V6 v6) else None
           | None \<Rightarrow> None))"

definition v4_is_private :: "8 word list \<Rightarrow> bool" where
  "v4_is_private o4 =
     (o4 ! 0 = 10 \<or> o4 ! 0 = 172 \<and> 16 \<le> o4 ! 1 \<and> o4 ! 1 \<le> 31 \<or> o4 ! 0 = 192 \<and> o4 ! 1 = 168)"

definition v4_is_loopback :: "8 word list \<Rightarrow> bool" where
  "v4_is_loopback o4 = (o4 ! 0 = 127)"

definition v6_is_unique_local :: "16 word list \<Rightarrow> bool" where
  "v6_is_unique_local gs = (and (gs ! 0) 0xfe00 = 0xfc00)"

definition v6_is_loopback :: "16 word list \<Rightarrow> bool" where
  "v6_is_loopback gs = (gs = [0, 0, 0, 0, 0, 0, 0, 1])"

text \<open>\<open>Ipv6Addr::to_ipv4_mapped\<close>: the last four octets of an address \<open>::ffff:a.b.c.d\<close>.\<close>

definition to_ipv4_mapped :: "16 word list \<Rightarrow> 8 word list option" where
  "to_ipv4_mapped gs =
     (if take 6 gs = [0, 0, 0, 0, 0, 0xffff]
      then Some [ucast (drop_bit 8 (gs ! 6)), ucast (gs ! 6),
                 ucast (drop_bit 8 (gs ! 7)), ucast (gs ! 7)]
      else None)"

lemma read_ipv4_length: "read_ipv4 s = Some (v4, rest) \<Longrightarrow> length v4 = 4"
  by (auto simp: read_ipv4_def bind_eq_Some_conv)

lemma read_groups_length: "read_groups i left s = (gs, flag, rest) \<Longrightarrow> length gs \<le> left"
proof (induction left arbitrary: i s gs flag rest)
  case (Suc left)
  show ?case
  proof (cases "if 0 < left then Option.bind (read_sep (CHR '':'') i s) read_ipv4 else None")
    case None
    with Suc show ?thesis
      by (auto split: option.splits prod.splits)
  next
    case (Some v)
    then have "0 < left" by (cases "0 < left") simp_all
    with Some Suc.prems show ?thesis by (auto split: prod.splits)
  qed
qed simp

text \<open>A parsed address has four octets or eight groups.\<close>

definition ip_wf :: "ip_addr \<Rightarrow> bool" where
  "ip_wf a = (case a of V4 o4 \<Rightarrow> length o4 = 4 | V6 gs \<Rightarrow> length gs = 8)"

lemma parse_ip_wf: "parse_ip s = Some a \<Longrightarrow> ip_wf a"
proof -
  assume p: "parse_ip s = Some a"
  have v6: "length gs = 8" if "read_ipv6 s = Some (gs, rest)" for gs rest
  proof -
    obtain head flag s1 where h: "read_groups 0 8 s = (head, flag, s1)"
      by (cases "read_groups 0 8 s") auto
    show ?thesis
    proof (cases "length head = 8")
      case True
      with h that show ?thesis by (simp add: read_ipv6_def)
    next
      case False
      with h that obtain s2 where s2: "strip_prefix s1 ''::'' = Some s2"
        by (auto simp: read_ipv6_def bind_eq_Some_conv split: if_splits)
      obtain tail f s3 where t: "read_groups 0 (8 - (length head + 1)) s2 = (tail, f, s3)"
        by (cases "read_groups 0 (8 - (length head + 1)) s2") auto
      have "length tail \<le> 8 - (length head + 1)" by (rule read_groups_length [OF t])
      moreover have "length head \<le> 8" by (rule read_groups_length [OF h])
      ultimately show ?thesis using False h s2 t that
        by (auto simp: read_ipv6_def split: if_splits)
    qed
  qed
  from p show ?thesis
    using v6 read_ipv4_length
    by (fastforce simp: parse_ip_def ip_wf_def split: option.splits if_splits prod.splits)
qed

end
