(* ===== verification/Cors.thy ===== *)
theory Cors
  imports Http Net_Addr
begin

section \<open>Cross-origin policy\<close>

text \<open>
  Models the cross-origin part of \<open>sdkwork-web-core/src/security.rs\<close> with
  \<open>registered_console_hosts.rs\<close> and \<open>registered_client_origins.rs\<close>: the origin
  allowlist with its development markers, the closed pattern of console hosts, preflight
  validation, the production check and the response headers. Parsing a URI
  (\<open>http::Uri\<close>), a method (\<open>http::Method\<close>) and a header value are parameters.
\<close>

subsection \<open>Registered console hosts\<close>

record console_hosts =
  ch_labels :: "string list"
  ch_environment_suffix :: string
  ch_schemes :: "string list"
  ch_base_domains :: "string list"

datatype console_error =
    NoLabels | NoSchemes | NoBaseDomains
  | UnsupportedScheme string
  | InvalidSuffix string
  | InvalidLabel string
  | UnregisteredBaseDomain string
  | LabelsMissing
  | SuffixMissing
  | SchemesMissing

definition registered_service_base_domains :: "string list" where
  "registered_service_base_domains =
     [''sdkwork.com'', ''birdcoder.com'', ''dtupay.com'', ''noaper.com'', ''sdkwork.cn'',
      ''birdcoder.cn'', ''dtupay.cn'', ''noaper.cn'', ''skubc.com'', ''skubc.cn'',
      ''zowalk.com'', ''zowalk.cn'', ''offer86.com'', ''offer86.cn'', ''86offer.com'',
      ''86offer.cn'']"

definition is_registered_service_base_domain :: "string \<Rightarrow> bool" where
  "is_registered_service_base_domain d =
     list_ex (\<lambda>r. eq_ignore_case r d) registered_service_base_domains"

definition dns_byte :: "char \<Rightarrow> bool" where
  "dns_byte c = (is_ascii_lower c \<or> is_ascii_digit c \<or> c = CHR ''-'')"

definition is_valid_dns_label :: "string \<Rightarrow> bool" where
  "is_valid_dns_label v =
     (v \<noteq> [] \<and> \<not> starts_with v ''-'' \<and> \<not> ends_with v ''-'' \<and> list_all dns_byte v)"

definition is_valid_suffix :: "string \<Rightarrow> bool" where
  "is_valid_suffix v = (v = [] \<or> starts_with v ''-'' \<and> is_valid_dns_label (drop 1 v))"

definition validate_console_hosts :: "console_hosts \<Rightarrow> console_error + unit" where
  "validate_console_hosts h =
     (if ch_labels h = [] then Inl NoLabels
      else if ch_schemes h = [] then Inl NoSchemes
      else if ch_base_domains h = [] then Inl NoBaseDomains
      else case find (\<lambda>s. \<not> list_ex (\<lambda>a. eq_ignore_case a s) [''http'', ''https'']) (ch_schemes h) of
        Some s \<Rightarrow> Inl (UnsupportedScheme s)
      | None \<Rightarrow>
          (if \<not> is_valid_suffix (ch_environment_suffix h)
           then Inl (InvalidSuffix (ch_environment_suffix h))
           else case find (\<lambda>l. \<not> is_valid_dns_label l) (ch_labels h) of
             Some l \<Rightarrow> Inl (InvalidLabel l)
           | None \<Rightarrow>
               (case find (\<lambda>d. \<not> is_registered_service_base_domain d) (ch_base_domains h) of
                  Some d \<Rightarrow> Inl (UnregisteredBaseDomain d)
                | None \<Rightarrow> Inr ())))"

definition console_host_matches :: "console_hosts \<Rightarrow> string \<Rightarrow> bool" where
  "console_host_matches h host =
     list_ex (\<lambda>base_domain.
       case strip_suffix host (CHR ''.'' # base_domain) of
         None \<Rightarrow> False
       | Some label_with_suffix \<Rightarrow>
           label_with_suffix \<noteq> [] \<and> CHR ''.'' \<notin> set label_with_suffix \<and>
           list_ex (\<lambda>l. label_with_suffix = l @ ch_environment_suffix h) (ch_labels h))
       (ch_base_domains h)"

definition console_hosts_match :: "(string \<Rightarrow> uri_view option) \<Rightarrow> console_hosts \<Rightarrow> string \<Rightarrow> bool" where
  "console_hosts_match parse_uri h origin =
     (if ch_labels h = [] \<or> ch_schemes h = [] \<or> ch_base_domains h = [] then False
      else case parse_uri origin of
        None \<Rightarrow> False
      | Some uri \<Rightarrow>
          (case uri_scheme uri of
             None \<Rightarrow> False
           | Some scheme \<Rightarrow>
               if \<not> list_ex (\<lambda>a. eq_ignore_case a scheme) (ch_schemes h) then False
               else case uri_authority uri of
                 None \<Rightarrow> False
               | Some authority \<Rightarrow>
                   if CHR ''@'' \<in> set authority then False
                   else if \<not> (uri_path uri = [] \<or> uri_path uri = ''/'') \<or> uri_query uri \<noteq> None
                   then False
                   else if uri_port_present uri then False
                   else console_host_matches h (to_lower (unwrap_or (uri_host uri) []))))"

text \<open>\<open>registered_console_hosts_from_lookup\<close>, with \<open>lookup\<close> the environment.\<close>

definition read_env_list :: "(string \<Rightarrow> string option) \<Rightarrow> string \<Rightarrow> string list option" where
  "read_env_list lookup key =
     map_option (\<lambda>v. filter (\<lambda>e. e \<noteq> []) (map trim (split_on (CHR '','') v))) (lookup key)"

definition labels_env_key :: string where
  "labels_env_key = ''SDKWORK_CORS_CONSOLE_HOST_LABELS''"
definition suffix_env_key :: string where
  "suffix_env_key = ''SDKWORK_CORS_CONSOLE_HOST_SUFFIX''"
definition schemes_env_key :: string where
  "schemes_env_key = ''SDKWORK_CORS_CONSOLE_HOST_SCHEMES''"
definition base_domains_env_key :: string where
  "base_domains_env_key = ''SDKWORK_CORS_CONSOLE_HOST_BASE_DOMAINS''"

definition console_hosts_from_lookup ::
  "(string \<Rightarrow> string option) \<Rightarrow> console_error + console_hosts option" where
  "console_hosts_from_lookup lookup =
     (let labels = unwrap_or (read_env_list lookup labels_env_key) [];
          suffix = map_option trim (lookup suffix_env_key);
          schemes = unwrap_or (read_env_list lookup schemes_env_key) [];
          base_domains = unwrap_or (read_env_list lookup base_domains_env_key)
            registered_service_base_domains
      in if labels = [] then
           (if suffix \<noteq> None \<or> schemes \<noteq> [] then Inl LabelsMissing else Inr None)
         else res_bind (ok_or suffix SuffixMissing) (\<lambda>suffix.
           if schemes = [] then Inl SchemesMissing
           else (let hosts = \<lparr>ch_labels = labels, ch_environment_suffix = suffix,
                       ch_schemes = schemes, ch_base_domains = base_domains\<rparr>
                 in res_bind (validate_console_hosts hosts) (\<lambda>_. Inr (Some hosts)))))"

subsection \<open>Registered client origins\<close>

definition registered_client_origins :: "string list" where
  "registered_client_origins =
     [''app://dsh'', ''app://birdcoder'', ''app://sdkwork'', ''app://dtupay'', ''dsh-app://app'',
      ''tauri://localhost''] @ [''https://servicewechat.com'']"

fun merge_origins :: "string list \<Rightarrow> string list \<Rightarrow> string list" where
  "merge_origins allowed [] = allowed"
| "merge_origins allowed (x # xs) =
     merge_origins (if x \<in> set allowed then allowed else allowed @ [x]) xs"

definition merge_registered_client_origins :: "string list \<Rightarrow> string list" where
  "merge_registered_client_origins allowed = merge_origins allowed registered_client_origins"

definition is_registered_client_origin :: "string \<Rightarrow> bool" where
  "is_registered_client_origin origin = (origin \<in> set registered_client_origins)"

subsection \<open>The policy\<close>

record cors_policy =
  co_allow_all_origins :: bool
  co_allowed_origins :: "string list"
  co_registered_console_hosts :: "console_hosts option"
  co_allowed_methods :: "string list"
  co_allowed_headers :: "string list"
  co_expose_headers :: "string list"
  co_allow_credentials :: bool

definition default_methods :: "string list" where
  "default_methods = [''GET'', ''POST'', ''PUT'', ''PATCH'', ''DELETE'', ''OPTIONS'']"

definition cors_default :: cors_policy where
  "cors_default = \<lparr>co_allow_all_origins = False, co_allowed_origins = [],
     co_registered_console_hosts = None,
     co_allowed_methods = default_methods,
     co_allowed_headers = [''authorization'', ''access-token'', ''content-type'',
       ''idempotency-key'', ''x-content-sha256'', ''x-idempotency-fingerprint'', ''x-api-key'',
       ''x-sdkwork-access-token'', ''accept'', ''accept-language'', ''content-language'',
       ''x-requested-with'', ''x-request-id'', ''x-correlation-id'', ''x-tenant-id'',
       ''x-device-id'', ''x-client-version'', ''x-app-version'', ''x-platform'',
       ''traceparent'', ''tracestate''],
     co_expose_headers = [''x-request-id'', ''x-sdkwork-trace-id''],
     co_allow_credentials = True\<rparr>"

datatype cors_error =
    AllowAllOrigins
  | InvalidConsoleHosts console_error
  | PortWildcard
  | HeaderWildcard

definition cors_validate_for_production :: "cors_policy \<Rightarrow> cors_error + unit" where
  "cors_validate_for_production c =
     (if co_allow_all_origins c then Inl AllowAllOrigins
      else res_bind
        (case co_registered_console_hosts c of
           None \<Rightarrow> Inr ()
         | Some h \<Rightarrow> (case validate_console_hosts h of
                       Inl e \<Rightarrow> Inl (InvalidConsoleHosts e) | Inr _ \<Rightarrow> Inr ()))
        (\<lambda>_. if list_ex (\<lambda>o1. ends_with o1 '':*'') (co_allowed_origins c) then Inl PortWildcard
             else if list_ex (\<lambda>h. h = ''*'') (co_allowed_headers c) then Inl HeaderWildcard
             else Inr ()))"

definition private_network_http :: string where
  "private_network_http = ''http://private-network:*''"
definition private_network_https :: string where
  "private_network_https = ''https://private-network:*''"

definition development_loopback :: cors_policy where
  "development_loopback = cors_default
     \<lparr>co_allowed_origins := [''http://localhost:*'', ''http://127.0.0.1:*'', ''http://[::1]:*'',
        ''https://localhost:*'', ''https://127.0.0.1:*'', ''https://[::1]:*''],
      co_allowed_headers := [''*'']\<rparr>"

definition development_private_network :: cors_policy where
  "development_private_network = development_loopback
     \<lparr>co_allowed_origins := co_allowed_origins development_loopback
        @ [private_network_http, private_network_https]\<rparr>"

definition with_registered_client_origins :: "cors_policy \<Rightarrow> cors_policy" where
  "with_registered_client_origins c =
     c\<lparr>co_allowed_origins := merge_registered_client_origins (co_allowed_origins c)\<rparr>"

definition with_registered_console_hosts ::
  "console_hosts \<Rightarrow> cors_policy \<Rightarrow> console_error + cors_policy" where
  "with_registered_console_hosts h c =
     res_bind (validate_console_hosts h)
       (\<lambda>_. Inr (c\<lparr>co_registered_console_hosts := Some h\<rparr>))"

definition has_origin_configuration :: "cors_policy \<Rightarrow> bool" where
  "has_origin_configuration c =
     (co_allowed_origins c \<noteq> [] \<or> co_registered_console_hosts c \<noteq> None)"

subsection \<open>Origins\<close>

definition is_private_network_origin ::
  "(string \<Rightarrow> uri_view option) \<Rightarrow> string \<Rightarrow> string \<Rightarrow> bool" where
  "is_private_network_origin parse_uri origin scheme =
     (case parse_uri origin of
        None \<Rightarrow> False
      | Some uri \<Rightarrow>
          if uri_scheme uri \<noteq> Some scheme \<or> uri_authority uri = None \<or> uri_path uri \<noteq> ''/'' \<or>
             uri_query uri \<noteq> None
          then False
          else case uri_host uri of
            None \<Rightarrow> False
          | Some host \<Rightarrow>
              (case parse_ip (trim_end_char (CHR '']'') (trim_start_char (CHR ''['') host)) of
                 None \<Rightarrow> False
               | Some (V4 a) \<Rightarrow> v4_is_private a \<or> v4_is_loopback a
               | Some (V6 a) \<Rightarrow> v6_is_unique_local a \<or> v6_is_loopback a))"

definition is_development_private_network_origin ::
  "(string \<Rightarrow> uri_view option) \<Rightarrow> string \<Rightarrow> bool" where
  "is_development_private_network_origin parse_uri origin =
     (is_private_network_origin parse_uri origin ''http''
      \<or> is_private_network_origin parse_uri origin ''https'')"

definition custom_scheme_matches :: "string \<Rightarrow> string \<Rightarrow> bool" where
  "custom_scheme_matches required_prefix origin =
     (case strip_prefix origin required_prefix of
        None \<Rightarrow> False
      | Some authority \<Rightarrow>
          \<not> (authority = [] \<or> (\<exists>c \<in> set authority. c \<in> set ''/?#'') \<or>
             CHR ''@'' \<in> set authority \<or> origin \<noteq> trim origin))"

definition loopback_bases :: "string list" where
  "loopback_bases = [''http://localhost'', ''http://127.0.0.1'', ''http://[::1]'',
     ''https://localhost'', ''https://127.0.0.1'', ''https://[::1]'']"

definition origin_matches_allowed ::
  "(string \<Rightarrow> uri_view option) \<Rightarrow> string \<Rightarrow> string \<Rightarrow> bool" where
  "origin_matches_allowed parse_uri allowed origin =
     (if allowed = origin then True
      else if allowed = private_network_http then is_private_network_origin parse_uri origin ''http''
      else if allowed = private_network_https then is_private_network_origin parse_uri origin ''https''
      else if allowed = ''app://*'' then custom_scheme_matches ''app://'' origin
      else if allowed = ''tauri://*'' then custom_scheme_matches ''tauri://'' origin
      else case strip_suffix allowed '':*'' of
        None \<Rightarrow> False
      | Some base \<Rightarrow>
          if base \<notin> set loopback_bases then False
          else case Option.bind (strip_prefix origin base) (\<lambda>s. strip_prefix s '':'') of
            None \<Rightarrow> origin = base
          | Some port \<Rightarrow> port \<noteq> [] \<and> list_all is_ascii_digit port)"

definition allows_origin :: "(string \<Rightarrow> uri_view option) \<Rightarrow> cors_policy \<Rightarrow> string \<Rightarrow> bool" where
  "allows_origin parse_uri c origin =
     (co_allow_all_origins c
      \<or> list_ex (\<lambda>a. origin_matches_allowed parse_uri a origin) (co_allowed_origins c)
      \<or> (case co_registered_console_hosts c of
           None \<Rightarrow> False | Some h \<Rightarrow> console_hosts_match parse_uri h origin))"

definition validate_origin_value ::
  "(string \<Rightarrow> uri_view option) \<Rightarrow> cors_policy \<Rightarrow> string \<Rightarrow> web_error + unit" where
  "validate_origin_value parse_uri c origin =
     (if allows_origin parse_uri c origin then Inr ()
      else Inl (forbidden ''CORS origin is not allowed by API policy''))"

definition validate_origin ::
  "(string \<Rightarrow> uri_view option) \<Rightarrow> cors_policy \<Rightarrow> request \<Rightarrow> web_error + unit" where
  "validate_origin parse_uri c rq =
     (case hdr_trimmed (rq_headers rq) ''origin'' of
        None \<Rightarrow> Inr ()
      | Some origin \<Rightarrow> validate_origin_value parse_uri c origin)"

definition validate_preflight ::
  "(string \<Rightarrow> string option) \<Rightarrow> cors_policy \<Rightarrow> request \<Rightarrow> web_error + unit" where
  "validate_preflight parse_method c rq =
     res_bind (ok_or
       (Option.bind (hdr_text (rq_headers rq) ''access-control-request-method'')
          (\<lambda>v. parse_method (trim v)))
       (forbidden ''CORS preflight request method is invalid or missing''))
     (\<lambda>m.
       if m \<notin> set (co_allowed_methods c)
       then Inl (forbidden ''CORS preflight request method is not allowed by API policy'')
       else if list_ex (\<lambda>h. h = ''*'') (co_allowed_headers c) then Inr ()
       else case hdr_get (rq_headers rq) ''access-control-request-headers'' of
         None \<Rightarrow> Inr ()
       | Some v \<Rightarrow>
           res_bind (ok_or (hv_to_str v) (forbidden ''CORS preflight request headers are invalid''))
             (\<lambda>s. res_forall
               (\<lambda>r. if list_ex (\<lambda>a. eq_ignore_case a r) (co_allowed_headers c) then Inr ()
                    else Inl (forbidden ''CORS preflight request header is not allowed by API policy''))
               (filter (\<lambda>r. r \<noteq> []) (map trim (split_on (CHR '','') s)))))"

subsection \<open>Response headers\<close>

definition insert_from_str ::
  "(string \<Rightarrow> header_value option) \<Rightarrow> string \<Rightarrow> string \<Rightarrow> headers \<Rightarrow> headers" where
  "insert_from_str from_str n v hs =
     (case from_str v of None \<Rightarrow> hs | Some hv \<Rightarrow> hdr_insert n hv hs)"

definition merge_vary_origin :: "(string \<Rightarrow> header_value option) \<Rightarrow> headers \<Rightarrow> headers" where
  "merge_vary_origin from_str hs =
     (case hdr_get hs ''vary'' of
        None \<Rightarrow> hdr_insert ''vary'' (TextValue ''Origin'') hs
      | Some existing \<Rightarrow>
          (case hv_to_str existing of
             None \<Rightarrow> hdr_insert ''vary'' (TextValue ''Origin'') hs
           | Some text \<Rightarrow>
               if list_ex (\<lambda>v. eq_ignore_case (trim v) ''origin'') (split_on (CHR '','') text) then hs
               else insert_from_str from_str ''vary'' (text @ '', Origin'') hs))"

definition apply_headers_from_origin ::
  "(string \<Rightarrow> uri_view option) \<Rightarrow> (string \<Rightarrow> header_value option) \<Rightarrow> cors_policy \<Rightarrow>
     string option \<Rightarrow> headers \<Rightarrow> headers" where
  "apply_headers_from_origin parse_uri from_str c origin hs =
     (case opt_filter (\<lambda>v. v \<noteq> []) (map_option trim origin) of
        None \<Rightarrow> hs
      | Some origin \<Rightarrow>
          if \<not> allows_origin parse_uri c origin then hs
          else
            (let hs = (case from_str origin of
                         None \<Rightarrow> hs
                       | Some v \<Rightarrow> merge_vary_origin from_str
                           (hdr_insert ''access-control-allow-origin'' v hs));
                 hs = (if co_allow_credentials c
                       then hdr_insert ''access-control-allow-credentials'' (TextValue ''true'') hs
                       else hs);
                 allow_headers = (if list_ex (\<lambda>h. h = ''*'') (co_allowed_headers c) then ''*''
                                  else str_join '', '' (co_allowed_headers c));
                 hs = insert_from_str from_str ''access-control-allow-headers'' allow_headers hs;
                 hs = insert_from_str from_str ''access-control-allow-methods''
                        (str_join '', '' (co_allowed_methods c)) hs
             in if co_expose_headers c \<noteq> []
                then insert_from_str from_str ''access-control-expose-headers''
                       (str_join '', '' (co_expose_headers c)) hs
                else hs))"

subsection \<open>What a production policy admits\<close>

lemma validate_console_hosts_ok:
  "validate_console_hosts h = Inr () \<longleftrightarrow>
     ch_labels h \<noteq> [] \<and> ch_schemes h \<noteq> [] \<and> ch_base_domains h \<noteq> []
     \<and> (\<forall>s \<in> set (ch_schemes h). eq_ignore_case ''http'' s \<or> eq_ignore_case ''https'' s)
     \<and> is_valid_suffix (ch_environment_suffix h)
     \<and> (\<forall>l \<in> set (ch_labels h). is_valid_dns_label l)
     \<and> (\<forall>d \<in> set (ch_base_domains h). is_registered_service_base_domain d)"
  by (auto simp: validate_console_hosts_def find_None_all split: option.splits dest: find_SomeD)

text \<open>The hosts the pattern stands for: a registered label, the environment suffix and a
  registered base domain, joined exactly.\<close>

definition console_host_denoted :: "console_hosts \<Rightarrow> string \<Rightarrow> bool" where
  "console_host_denoted h host =
     list_ex (\<lambda>l. list_ex (\<lambda>d. host = l @ ch_environment_suffix h @ CHR ''.'' # d
        \<and> is_registered_service_base_domain d) (ch_base_domains h)) (ch_labels h)"

lemma console_host_matches_denoted:
  "validate_console_hosts h = Inr () \<Longrightarrow> console_host_matches h host \<Longrightarrow> console_host_denoted h host"
  by (fastforce simp: console_host_matches_def console_host_denoted_def list_ex_iff
      validate_console_hosts_ok strip_suffix_Some split: option.splits)

lemma console_hosts_match_uri:
  "console_hosts_match parse_uri h origin \<Longrightarrow> \<exists>uri. parse_uri origin = Some uri
     \<and> \<not> uri_port_present uri \<and> uri_query uri = None
     \<and> console_host_matches h (to_lower (unwrap_or (uri_host uri) []))"
  by (auto simp: console_hosts_match_def split: option.splits if_splits)

lemma origin_matches_no_port_wildcard:
  assumes "origin_matches_allowed parse_uri allowed origin" and "\<not> ends_with allowed '':*''"
  shows "allowed = origin
     \<or> allowed = ''app://*'' \<and> custom_scheme_matches ''app://'' origin
     \<or> allowed = ''tauri://*'' \<and> custom_scheme_matches ''tauri://'' origin"
proof -
  have "ends_with private_network_http '':*''" "ends_with private_network_https '':*''" by code_simp+
  then show ?thesis
    using assms
    by (auto simp: origin_matches_allowed_def strip_suffix_def ends_with_def split: if_splits)
qed

text \<open>C28: A policy that passes the production check admits only a closed set of origins: those it
  lists exactly, single-authority \<open>app\<close> and \<open>tauri\<close> origins where the matching marker is
  listed, and origins without port and query whose host is one of the registered console
  hosts, label, environment suffix and registered base domain joined exactly. No loopback
  or private-network origin enters through a wildcard.\<close>

theorem production_origins_closed:
  assumes "cors_validate_for_production c = Inr ()" and "allows_origin parse_uri c origin"
  shows "origin \<in> set (co_allowed_origins c)
     \<or> ''app://*'' \<in> set (co_allowed_origins c) \<and> custom_scheme_matches ''app://'' origin
     \<or> ''tauri://*'' \<in> set (co_allowed_origins c) \<and> custom_scheme_matches ''tauri://'' origin
     \<or> (\<exists>h uri. co_registered_console_hosts c = Some h \<and> parse_uri origin = Some uri
          \<and> \<not> uri_port_present uri \<and> uri_query uri = None
          \<and> console_host_denoted h (to_lower (unwrap_or (uri_host uri) [])))"
proof -
  have nw: "\<not> co_allow_all_origins c" "\<forall>a \<in> set (co_allowed_origins c). \<not> ends_with a '':*''"
    and hosts: "\<And>h. co_registered_console_hosts c = Some h \<Longrightarrow> validate_console_hosts h = Inr ()"
    using assms(1)
    by (auto simp: cors_validate_for_production_def res_bind_eq_Inr list_ex_iff
        split: if_splits option.splits sum.splits)
  from assms(2) nw(1) consider
      (listed) a where "a \<in> set (co_allowed_origins c)" "origin_matches_allowed parse_uri a origin"
    | (console) h where "co_registered_console_hosts c = Some h" "console_hosts_match parse_uri h origin"
    by (auto simp: allows_origin_def list_ex_iff split: option.splits)
  then show ?thesis
  proof cases
    case listed
    then show ?thesis using origin_matches_no_port_wildcard nw(2) by blast
  next
    case console
    then show ?thesis using console_hosts_match_uri console_host_matches_denoted hosts by blast
  qed
qed

definition example_uri :: "string \<Rightarrow> uri_view option" where
  "example_uri s =
     (if s = ''https://im.sdkwork.com'' then Some \<lparr>uri_scheme = Some ''https'',
        uri_authority = Some ''im.sdkwork.com'', uri_host = Some ''im.sdkwork.com'',
        uri_port_present = False, uri_path = ''/'', uri_query = None\<rparr> else None)"

definition example_hosts :: console_hosts where
  "example_hosts = \<lparr>ch_labels = [''im''], ch_environment_suffix = [],
     ch_schemes = [''https''], ch_base_domains = registered_service_base_domains\<rparr>"

theorem production_origins_closed_witness:
  "console_host_denoted example_hosts ''im.sdkwork.com''"
proof -
  let ?c = "cors_default\<lparr>co_registered_console_hosts := Some example_hosts\<rparr>"
  have v: "cors_validate_for_production ?c = Inr ()"
    and a: "allows_origin example_uri ?c ''https://im.sdkwork.com''"
    and l: "co_allowed_origins ?c = []" "co_registered_console_hosts ?c = Some example_hosts"
    by code_simp+
  have u: "\<And>uri. example_uri ''https://im.sdkwork.com'' = Some uri \<Longrightarrow> uri_host uri = Some ''im.sdkwork.com''"
    by (auto simp: example_uri_def)
  have low: "to_lower ''im.sdkwork.com'' = ''im.sdkwork.com''" by code_simp
  from production_origins_closed [OF v a] show ?thesis
    using u low by (auto simp: l)
qed

lemma merge_origins_facts:
  "prefix allowed (merge_origins allowed xs)"
  "set (merge_origins allowed xs) = set allowed \<union> set xs"
  "distinct allowed \<Longrightarrow> distinct (merge_origins allowed xs)"
  by (induction xs arbitrary: allowed) (auto intro: append_prefixD)

lemma merge_origins_present: "set xs \<subseteq> set allowed \<Longrightarrow> merge_origins allowed xs = allowed"
  by (induction xs) auto

text \<open>Merging the registered client origins keeps the configured ones in order, adds the missing
  ones and is idempotent.\<close>

lemma merge_registered_client_origins_correct:
  "prefix allowed (merge_registered_client_origins allowed)
   \<and> set (merge_registered_client_origins allowed) = set allowed \<union> set registered_client_origins
   \<and> merge_registered_client_origins (merge_registered_client_origins allowed)
       = merge_registered_client_origins allowed"
  unfolding merge_registered_client_origins_def
  using merge_origins_facts [of allowed registered_client_origins]
    merge_origins_present [of registered_client_origins "merge_origins allowed registered_client_origins"]
  by blast
end
