(* ===== verification/Security.thy ===== *)
theory Security
  imports Cors
begin

section \<open>Request security policies\<close>

text \<open>
  Models \<open>sdkwork-web-core/src/security.rs\<close> apart from its cross-origin policy (theory
  \<open>Cors\<close>): the policy records with their defaults, the credential headers a route's
  profile admits, the method, size, cross-site, content-type and SQL-injection guards, and
  the security headers of a response. Percent-decoding (\<open>percent_encoding\<close>) is a
  parameter.
\<close>

subsection \<open>Policies\<close>

record cross_site_policy =
  xs_reject_untrusted_state_changing_origins :: bool
  xs_reject_cookie_auth_without_origin :: bool

record header_security_policy =
  hs_content_type_options :: bool
  hs_frame_options_deny :: bool
  hs_referrer_policy :: "string option"
  hs_permissions_policy :: "string option"
  hs_strict_transport_security :: "string option"

record method_guard_policy =
  mg_allowed_methods :: "string list"

record request_size_limit_policy =
  sz_max_content_length :: "nat option"

record rate_limit_policy =
  rl_enabled :: bool
  rl_max_requests_per_window :: nat
  rl_window_secs :: nat
  rl_pre_auth_rate_limit :: bool
  rl_tenant_limit_after_auth :: bool
  rl_pre_auth_aggregate_multiplier :: "nat option"

record idempotency_policy =
  ip_require_for_retryable_commands :: bool
  ip_retention_secs :: nat
  ip_max_cached_response_bytes :: nat
  ip_require_body_hash_for_payload :: bool

record sql_injection_guard_policy =
  sq_enabled :: bool
  sq_inspected_headers :: "string list"

record json_content_type_policy =
  jc_enabled :: bool

record websocket_policy =
  wp_max_message_bytes :: "nat option"
  wp_message_rate_limit_enabled :: bool
  wp_max_messages_per_window :: nat
  wp_message_window_secs :: nat

record security_policy =
  sp_cors :: cors_policy
  sp_cross_site :: cross_site_policy
  sp_header_security :: header_security_policy
  sp_method_guard :: method_guard_policy
  sp_request_size_limit :: request_size_limit_policy
  sp_rate_limit :: rate_limit_policy
  sp_idempotency :: idempotency_policy
  sp_sql_injection_guard :: sql_injection_guard_policy
  sp_json_content_type :: json_content_type_policy
  sp_websocket :: websocket_policy

definition websocket_default :: websocket_policy where
  "websocket_default = \<lparr>wp_max_message_bytes = Some (1024 * 1024),
     wp_message_rate_limit_enabled = True, wp_max_messages_per_window = 120,
     wp_message_window_secs = 60\<rparr>"

definition cross_site_default :: cross_site_policy where
  "cross_site_default = \<lparr>xs_reject_untrusted_state_changing_origins = True,
     xs_reject_cookie_auth_without_origin = True\<rparr>"

definition header_security_default :: header_security_policy where
  "header_security_default = \<lparr>hs_content_type_options = True, hs_frame_options_deny = True,
     hs_referrer_policy = Some ''no-referrer'',
     hs_permissions_policy = Some ''geolocation=(), microphone=(), camera=()'',
     hs_strict_transport_security = None\<rparr>"

definition method_guard_default :: method_guard_policy where
  "method_guard_default = \<lparr>mg_allowed_methods = default_methods\<rparr>"

definition request_size_limit_default :: request_size_limit_policy where
  "request_size_limit_default = \<lparr>sz_max_content_length = Some (16 * 1024 * 1024)\<rparr>"

definition rate_limit_default :: rate_limit_policy where
  "rate_limit_default = \<lparr>rl_enabled = False, rl_max_requests_per_window = 120,
     rl_window_secs = 60, rl_pre_auth_rate_limit = True, rl_tenant_limit_after_auth = True,
     rl_pre_auth_aggregate_multiplier = None\<rparr>"

definition idempotency_default :: idempotency_policy where
  "idempotency_default = \<lparr>ip_require_for_retryable_commands = False,
     ip_retention_secs = 86400, ip_max_cached_response_bytes = 1024 * 1024,
     ip_require_body_hash_for_payload = True\<rparr>"

definition sql_injection_guard_default :: sql_injection_guard_policy where
  "sql_injection_guard_default = \<lparr>sq_enabled = True,
     sq_inspected_headers = [''x-api-key'', ''x-sdkwork-access-token'', ''authorization'',
       ''access-token'', ''idempotency-key'', ''x-idempotency-fingerprint'',
       ''x-content-sha256'', ''x-sdkwork-agent-token'', ''cookie'', ''referer'',
       ''x-forwarded-for'', ''x-real-ip'', ''user-agent'']\<rparr>"

definition security_default :: security_policy where
  "security_default = \<lparr>sp_cors = cors_default, sp_cross_site = cross_site_default,
     sp_header_security = header_security_default, sp_method_guard = method_guard_default,
     sp_request_size_limit = request_size_limit_default, sp_rate_limit = rate_limit_default,
     sp_idempotency = idempotency_default,
     sp_sql_injection_guard = sql_injection_guard_default,
     sp_json_content_type = \<lparr>jc_enabled = False\<rparr>, sp_websocket = websocket_default\<rparr>"

definition security_production :: security_policy where
  "security_production = security_default
     \<lparr>sp_cors := cors_default\<lparr>co_allow_all_origins := False\<rparr>,
      sp_cross_site := cross_site_default,
      sp_header_security := header_security_default
        \<lparr>hs_strict_transport_security := Some ''max-age=31536000; includeSubDomains''\<rparr>,
      sp_rate_limit := \<lparr>rl_enabled = True, rl_max_requests_per_window = 120,
        rl_window_secs = 60, rl_pre_auth_rate_limit = True, rl_tenant_limit_after_auth = True,
        rl_pre_auth_aggregate_multiplier = None\<rparr>,
      sp_json_content_type := \<lparr>jc_enabled = True\<rparr>\<rparr>"

subsection \<open>Credential headers\<close>

definition forbidden_client_identity_headers :: "string list" where
  "forbidden_client_identity_headers =
     [''x-sdkwork-tenant-id'', ''x-sdkwork-app-id'', ''x-sdkwork-user-id'',
      ''x-sdkwork-organization-id'', ''x-sdkwork-actor-id'', ''x-sdkwork-actor-kind'',
      ''x-sdkwork-session-id'', ''x-sdkwork-environment'', ''x-sdkwork-deployment-profile'',
      ''x-sdkwork-deployment-mode'', ''x-sdkwork-runtime-target'', ''x-sdkwork-auth-level'',
      ''x-sdkwork-data-scope'', ''x-sdkwork-permission-scope'', ''x-sdkwork-device-id'',
      ''x-sdkwork-context-signature'', ''x-sdkwork-operation-id'', ''x-tenant-id'',
      ''x-app-id'', ''x-user-id'', ''x-organization-id'']"

definition standard_credential_headers :: "string list" where
  "standard_credential_headers =
     [''authorization'', ''access-token'', ''x-api-key'', ''x-sdkwork-ingress-token'',
      ''x-sdkwork-access-token'', ''x-sdkwork-agent-token'']"

fun allowed_credential_headers :: "route_auth \<Rightarrow> string list" where
  "allowed_credential_headers Public = []"
| "allowed_credential_headers BootstrapBody = []"
| "allowed_credential_headers RefreshToken = []"
| "allowed_credential_headers CredentialEntryBootstrap = [''access-token'']"
| "allowed_credential_headers DualToken = [''authorization'', ''access-token'']"
| "allowed_credential_headers DualTokenOrAnonymous = [''authorization'', ''access-token'']"
| "allowed_credential_headers ApiKey = [''x-api-key'']"
| "allowed_credential_headers OAuth = [''authorization'']"
| "allowed_credential_headers OpenApiFlexible = [''authorization'', ''x-api-key'']"
| "allowed_credential_headers OpenApiBearerFlexible = [''authorization'', ''x-api-key'']"
| "allowed_credential_headers ApiKeyOrDualToken =
     [''authorization'', ''access-token'', ''x-api-key'']"
| "allowed_credential_headers IngressToken = [''x-sdkwork-ingress-token'', ''access-token'']"
| "allowed_credential_headers AgentToken = [''x-sdkwork-agent-token'', ''access-token'']"
| "allowed_credential_headers Compatibility = []"

text \<open>The last equation is never used: compatibility routes are handled before
  \<open>validate_standard_route_auth_credentials\<close> is called, where the code is unreachable.\<close>

definition validate_standard_route_auth_credentials ::
  "route_auth \<Rightarrow> headers \<Rightarrow> web_error + unit" where
  "validate_standard_route_auth_credentials a hs =
     res_bind (res_forall
       (\<lambda>n. if hdr_has hs n \<and> n \<notin> set (allowed_credential_headers a)
            then Inl (with_reason ''credential-profile-contamination''
              (bad_request (auth_profile_label a @ '' routes must not receive credential header '' @ n)))
            else Inr ()) standard_credential_headers)
     (\<lambda>_. if a = ApiKeyOrDualToken then
            (let has_api_key = hdr_has hs ''x-api-key'';
                 has_auth_token = hdr_has hs ''authorization'';
                 has_access_token = hdr_has hs ''access-token''
             in if has_api_key \<and> (has_auth_token \<or> has_access_token)
                then Inl (with_reason ''credential-profile-contamination'' (bad_request
                  ''api-key-or-dual-token routes require either X-API-Key or the dual-token pair, never both''))
                else if has_auth_token \<noteq> has_access_token
                then Inl (with_reason ''incomplete-credential-profile'' (bad_request
                  ''the dual-token branch requires both Authorization and Access-Token''))
                else Inr ())
          else Inr ())"

definition scheme_declares_header :: "string \<Rightarrow> compat_scheme \<Rightarrow> bool" where
  "scheme_declares_header n s =
     (case scheme_kind s of
        ApiKeyHeader h \<Rightarrow> eq_ignore_case h n
      | HttpBearer _ \<Rightarrow> n = ''authorization'')"

definition validate_route_auth_credentials ::
  "(contract_error \<Rightarrow> string) \<Rightarrow> http_route \<Rightarrow> headers \<Rightarrow> web_error + unit" where
  "validate_route_auth_credentials show_error r hs =
     (if rt_auth r = Compatibility then
        res_bind (ok_or (rt_compatibility_auth r)
          (with_reason ''invalid-compatibility-auth-contract''
            (bad_request ''compatibility route is missing external authentication metadata'')))
        (\<lambda>compatibility.
          res_bind (case validate_compat_auth compatibility of
              Inl m \<Rightarrow> Inl (with_reason ''invalid-compatibility-auth-contract''
                         (bad_request (show_error m)))
            | Inr _ \<Rightarrow> Inr ())
          (\<lambda>_. res_forall
            (\<lambda>n. if hdr_has hs n \<and> \<not> list_ex (scheme_declares_header n) (schemes compatibility)
                 then Inl (with_reason ''credential-profile-contamination'' (bad_request
                   (''compatibility routes must not receive undeclared credential header '' @ n)))
                 else Inr ()) standard_credential_headers))
      else validate_standard_route_auth_credentials (rt_auth r) hs)"

definition reject_client_identity_projection :: "headers \<Rightarrow> web_error + unit" where
  "reject_client_identity_projection hs =
     res_forall (\<lambda>n. if hdr_has hs n
       then Inl (bad_request (''client must not send identity projection header '' @ n))
       else Inr ()) forbidden_client_identity_headers"

definition reject_credential_entry_headers :: "headers \<Rightarrow> web_error + unit" where
  "reject_credential_entry_headers hs =
     res_bind (validate_standard_route_auth_credentials CredentialEntryBootstrap hs)
     (\<lambda>_. res_forall (\<lambda>n. if hdr_has hs n
       then Inl (bad_request
         (''credential-entry routes must not receive identity projection header '' @ n))
       else Inr ()) forbidden_client_identity_headers)"

subsection \<open>Request guards\<close>

definition validate_method :: "security_policy \<Rightarrow> request \<Rightarrow> web_error + unit" where
  "validate_method p rq =
     (if rq_method rq \<in> set (mg_allowed_methods (sp_method_guard p)) then Inr ()
      else Inl (method_not_allowed (''HTTP method '' @ rq_method rq @ '' is not allowed'')))"

definition validate_content_length_with_limit :: "request \<Rightarrow> nat option \<Rightarrow> web_error + unit" where
  "validate_content_length_with_limit rq limit =
     (case limit of
        None \<Rightarrow> Inr ()
      | Some limit \<Rightarrow>
          (case hdr_u64 (rq_headers rq) ''content-length'' of
             None \<Rightarrow>
               if (rq_method rq = ''POST'' \<or> rq_method rq = ''PUT'' \<or> rq_method rq = ''PATCH'') \<and>
                  hdr_has (rq_headers rq) ''transfer-encoding''
               then Inl (bad_request
                 ''requests with transfer-encoding must include content-length for API size policy enforcement'')
               else Inr ()
           | Some v \<Rightarrow> if v \<le> limit then Inr ()
                       else Inl (payload_too_large ''request content length exceeds API policy'')))"

definition validate_content_length :: "security_policy \<Rightarrow> request \<Rightarrow> web_error + unit" where
  "validate_content_length p rq =
     validate_content_length_with_limit rq (sz_max_content_length (sp_request_size_limit p))"

definition is_state_changing_method :: "string \<Rightarrow> bool" where
  "is_state_changing_method m = (m \<in> set [''POST'', ''PUT'', ''PATCH'', ''DELETE''])"

text \<open>\<open>str::split_once\<close> on the substring \<open>://\<close>.\<close>

fun split_scheme :: "string \<Rightarrow> (string \<times> string) option" where
  "split_scheme [] = None"
| "split_scheme (c # s) =
     (if starts_with (c # s) ''://'' then Some ([], drop 3 (c # s))
      else map_option (\<lambda>(a, b). (c # a, b)) (split_scheme s))"

definition extract_origin_from_referer :: "string \<Rightarrow> string option" where
  "extract_origin_from_referer referer =
     (let trimmed = trim referer in
      if trimmed = [] then None
      else case split_scheme (hd (split_on (CHR ''#'') trimmed)) of
        None \<Rightarrow> None
      | Some (scheme, rest) \<Rightarrow>
          if scheme \<noteq> ''http'' \<and> scheme \<noteq> ''https'' then None
          else (let authority = takeWhile (\<lambda>c. c \<noteq> CHR ''/'' \<and> c \<noteq> CHR ''?'') rest in
                if authority = [] then None else Some (scheme @ ''://'' @ authority)))"

definition validate_cookie_authenticated_source ::
  "(string \<Rightarrow> uri_view option) \<Rightarrow> cors_policy \<Rightarrow> request \<Rightarrow> web_error + unit" where
  "validate_cookie_authenticated_source parse_uri c rq =
     res_bind (ok_or
       (opt_or (hdr_trimmed (rq_headers rq) ''origin'')
          (Option.bind (hdr_text (rq_headers rq) ''referer'') extract_origin_from_referer))
       (forbidden
         ''state-changing cookie-authenticated requests require Origin or Referer''))
     (\<lambda>origin. validate_origin_value parse_uri c origin)"

definition validate_cross_site_request_with_cors ::
  "(string \<Rightarrow> uri_view option) \<Rightarrow> cross_site_policy \<Rightarrow> cors_policy \<Rightarrow> request \<Rightarrow> bool \<Rightarrow>
     web_error + unit" where
  "validate_cross_site_request_with_cors parse_uri xs c rq skip_origin_rejection =
     (if \<not> xs_reject_untrusted_state_changing_origins xs \<and>
         \<not> xs_reject_cookie_auth_without_origin xs then Inr ()
      else if \<not> is_state_changing_method (rq_method rq) then Inr ()
      else (let has_cookie = hdr_has (rq_headers rq) ''cookie'';
                enforce_cors_origin = (xs_reject_untrusted_state_changing_origins xs \<and>
                  (\<not> skip_origin_rejection \<or> has_cookie))
            in res_bind (if enforce_cors_origin then validate_origin parse_uri c rq else Inr ())
               (\<lambda>_. if xs_reject_cookie_auth_without_origin xs \<and> has_cookie
                    then validate_cookie_authenticated_source parse_uri c rq
                    else Inr ())))"

definition validate_cross_site_request ::
  "(string \<Rightarrow> uri_view option) \<Rightarrow> security_policy \<Rightarrow> request \<Rightarrow> web_error + unit" where
  "validate_cross_site_request parse_uri p rq =
     validate_cross_site_request_with_cors parse_uri (sp_cross_site p) (sp_cors p) rq False"

definition validate_json_content_type :: "json_content_type_policy \<Rightarrow> request \<Rightarrow> web_error + unit" where
  "validate_json_content_type p rq =
     (if \<not> jc_enabled p then Inr ()
      else if \<not> is_state_changing_method (rq_method rq) then Inr ()
      else (let has_body =
              (case hdr_u64 (rq_headers rq) ''content-length'' of None \<Rightarrow> False | Some l \<Rightarrow> 0 < l)
              \<or> hdr_has (rq_headers rq) ''transfer-encoding''
            in if \<not> has_body then Inr ()
               else if content_mime (rq_headers rq) = ''application/json'' then Inr ()
               else Inl (bad_request
                 ''state-changing JSON API requests require Content-Type: application/json'')))"

definition sql_core_patterns :: "string list" where
  "sql_core_patterns =
     [CHR 0x27 # '' or '', CHR 0x22 # '' or '', '' union select '', '' union all select '',
      '' drop table '', '' truncate table '', '' information_schema'', '' sleep('',
      '' benchmark('', '' xp_'']"

definition sql_comment_patterns :: "string list" where
  "sql_comment_patterns =
     [CHR 0x27 # ''--'', CHR 0x22 # ''--'', '' --'', '';--'', ''#--'', ''/*'', ''*/'']"

definition contains_sql_comment_signal :: "string \<Rightarrow> bool" where
  "contains_sql_comment_signal lowered = list_ex (str_contains lowered) sql_comment_patterns"

definition contains_sql_injection_signal :: "string \<Rightarrow> bool" where
  "contains_sql_injection_signal v =
     (let lowered = to_lower v in
      if list_ex (str_contains lowered) sql_core_patterns then True
      else contains_sql_comment_signal lowered)"

definition sql_inspected_texts ::
  "(string \<Rightarrow> string) \<Rightarrow> sql_injection_guard_policy \<Rightarrow> request \<Rightarrow> string list" where
  "sql_inspected_texts percent_decode p rq =
     [percent_decode (rq_path rq), percent_decode (unwrap_or (rq_query rq) [])]
     @ List.map_filter (hdr_text (rq_headers rq)) (sq_inspected_headers p)"

definition validate_sql_injection ::
  "(string \<Rightarrow> string) \<Rightarrow> sql_injection_guard_policy \<Rightarrow> request \<Rightarrow> web_error + unit" where
  "validate_sql_injection percent_decode p rq =
     (if \<not> sq_enabled p then Inr ()
      else if list_ex contains_sql_injection_signal (sql_inspected_texts percent_decode p rq)
      then Inl (bad_request ''request contains blocked SQL injection pattern'')
      else Inr ())"

text \<open>\<open>RequestSecurityPolicy::validate_request\<close>: the guards in their order.\<close>

definition validate_request ::
  "(string \<Rightarrow> uri_view option) \<Rightarrow> (string \<Rightarrow> string) \<Rightarrow> security_policy \<Rightarrow> request \<Rightarrow>
     web_error + unit" where
  "validate_request parse_uri percent_decode p rq =
     res_bind (validate_method p rq) (\<lambda>_.
     res_bind (validate_content_length p rq) (\<lambda>_.
     res_bind (validate_origin parse_uri (sp_cors p) rq) (\<lambda>_.
     res_bind (validate_cross_site_request parse_uri p rq) (\<lambda>_.
     validate_sql_injection percent_decode (sp_sql_injection_guard p) rq))))"

subsection \<open>Response headers\<close>

definition insert_optional ::
  "(string \<Rightarrow> header_value option) \<Rightarrow> string \<Rightarrow> string option \<Rightarrow> headers \<Rightarrow> headers" where
  "insert_optional from_str n v hs =
     (case v of None \<Rightarrow> hs | Some s \<Rightarrow> insert_from_str from_str n s hs)"

definition apply_response_headers ::
  "(string \<Rightarrow> header_value option) \<Rightarrow> header_security_policy \<Rightarrow> headers \<Rightarrow> headers" where
  "apply_response_headers from_str p hs =
     (let hs = (if hs_content_type_options p
                then hdr_insert ''x-content-type-options'' (TextValue ''nosniff'') hs else hs);
          hs = (if hs_frame_options_deny p
                then hdr_insert ''x-frame-options'' (TextValue ''DENY'') hs else hs);
          hs = insert_optional from_str ''referrer-policy'' (hs_referrer_policy p) hs;
          hs = insert_optional from_str ''permissions-policy'' (hs_permissions_policy p) hs
      in insert_optional from_str ''strict-transport-security'' (hs_strict_transport_security p) hs)"

definition apply_cors_policy_headers_from_origin ::
  "(string \<Rightarrow> uri_view option) \<Rightarrow> (string \<Rightarrow> header_value option) \<Rightarrow> cors_policy \<Rightarrow>
     string option \<Rightarrow> headers \<Rightarrow> headers" where
  "apply_cors_policy_headers_from_origin parse_uri from_str c origin hs =
     insert_from_str from_str ''access-control-allow-methods''
       (str_join '', '' (co_allowed_methods c))
       (apply_headers_from_origin parse_uri from_str c origin hs)"

definition apply_cors_headers ::
  "(string \<Rightarrow> uri_view option) \<Rightarrow> (string \<Rightarrow> header_value option) \<Rightarrow> security_policy \<Rightarrow>
     request \<Rightarrow> headers \<Rightarrow> headers" where
  "apply_cors_headers parse_uri from_str p rq hs =
     apply_cors_policy_headers_from_origin parse_uri from_str (sp_cors p)
       (hdr_trimmed (rq_headers rq) ''origin'') hs"

subsection \<open>What an accepted request satisfies\<close>

lemma validate_standard_route_auth_credentials_iff:
  "validate_standard_route_auth_credentials a hs = Inr ()
     \<longleftrightarrow> (\<forall>n \<in> set standard_credential_headers. hdr_has hs n \<longrightarrow> n \<in> set (allowed_credential_headers a))
       \<and> (a = ApiKeyOrDualToken \<longrightarrow>
            hdr_has hs ''authorization'' = hdr_has hs ''access-token''
            \<and> \<not> (hdr_has hs ''x-api-key'' \<and> hdr_has hs ''authorization''))"
  by (auto simp: validate_standard_route_auth_credentials_def res_bind_eq_Inr res_forall_ok Let_def
      split: if_splits)

text \<open>A request passes the credential check of its route exactly when every standard
  credential header it carries is one the route's profile admits (for a compatibility
  route, one its validated external schemes declare), and on a route that takes an API key
  or the token pair, the pair is complete and never mixed with the key.\<close>

theorem validate_route_auth_credentials_exact:
  "validate_route_auth_credentials show_error r hs = Inr ()
     \<longleftrightarrow> (if rt_auth r = Compatibility
         then \<exists>c. rt_compatibility_auth r = Some c \<and> validate_compat_auth c = Inr ()
                \<and> (\<forall>n \<in> set standard_credential_headers. hdr_has hs n \<longrightarrow>
                     (\<exists>s \<in> set (schemes c). scheme_declares_header n s))
         else (\<forall>n \<in> set standard_credential_headers. hdr_has hs n \<longrightarrow>
                 n \<in> set (allowed_credential_headers (rt_auth r)))
              \<and> (rt_auth r = ApiKeyOrDualToken \<longrightarrow>
                   hdr_has hs ''authorization'' = hdr_has hs ''access-token''
                   \<and> \<not> (hdr_has hs ''x-api-key'' \<and> hdr_has hs ''authorization'')))"
  by (cases "rt_compatibility_auth r"; cases "validate_compat_auth (the (rt_compatibility_auth r))")
    (auto simp: validate_route_auth_credentials_def validate_standard_route_auth_credentials_iff
      res_forall_ok list_ex_iff split: if_splits)

theorem validate_route_auth_credentials_exact_witness:
  "validate_route_auth_credentials (\<lambda>_. []) (route_api_key Get ''/a'' ''A'' ''a.get'')
      (hdr_insert ''X-Api-Key'' (TextValue ''k'') Map.empty) = Inr ()
   \<and> validate_route_auth_credentials (\<lambda>_. []) (route_api_key Get ''/a'' ''A'' ''a.get'')
      (hdr_insert ''Authorization'' (TextValue ''Bearer t'') Map.empty) \<noteq> Inr ()"
proof -
  let ?r = "route_api_key Get ''/a'' ''A'' ''a.get''"
  let ?hs = "hdr_insert ''Authorization'' (TextValue ''Bearer t'') Map.empty"
  have a: "validate_route_auth_credentials (\<lambda>_. []) ?r
      (hdr_insert ''X-Api-Key'' (TextValue ''k'') Map.empty) = Inr ()" by code_simp
  have h: "hdr_has ?hs ''authorization''" "''authorization'' \<in> set standard_credential_headers"
    "''authorization'' \<notin> set (allowed_credential_headers (rt_auth ?r))" "rt_auth ?r \<noteq> Compatibility"
    by code_simp+
  have "validate_route_auth_credentials (\<lambda>_. []) ?r ?hs \<noteq> Inr ()"
    using validate_route_auth_credentials_exact [of "\<lambda>_. []" ?r ?hs] h by auto
  with a show ?thesis by blast
qed

definition request_source :: "request \<Rightarrow> string option" where
  "request_source rq = opt_or (hdr_trimmed (rq_headers rq) ''origin'')
     (Option.bind (hdr_text (rq_headers rq) ''referer'') extract_origin_from_referer)"

lemma validate_origin_value_ok [simp]:
  "validate_origin_value parse_uri c o1 = Inr () \<longleftrightarrow> allows_origin parse_uri c o1"
  by (simp add: validate_origin_value_def)

lemma cross_site_cookie_source:
  assumes "validate_cross_site_request_with_cors parse_uri xs c rq skip = Inr ()"
    and "xs_reject_cookie_auth_without_origin xs"
    and "is_state_changing_method (rq_method rq)" and "hdr_has (rq_headers rq) ''cookie''"
  shows "\<exists>source. request_source rq = Some source \<and> allows_origin parse_uri c source"
  using assms
  by (cases "request_source rq")
    (auto simp: validate_cross_site_request_with_cors_def Let_def res_bind_eq_Inr
      validate_cookie_authenticated_source_def request_source_def split: if_splits)

text \<open>C31: When the policy rejects cookie authentication without an origin (the default sets
  \<open>reject_cookie_auth_without_origin\<close>), and whatever the caller decides about the general origin
  check, a state-changing request that carries a cookie passes the cross-site guard only if it
  names its source, in its \<open>Origin\<close> header or else by its \<open>Referer\<close>, and the cross-origin policy
  allows that source.\<close>

theorem cookie_requests_have_allowed_source:
  assumes "validate_cross_site_request_with_cors parse_uri xs c rq skip = Inr ()"
    and "xs_reject_cookie_auth_without_origin xs"
    and "is_state_changing_method (rq_method rq)" and "hdr_has (rq_headers rq) ''cookie''"
  shows "\<exists>source. request_source rq = Some source \<and> allows_origin parse_uri c source"
  using assms by (rule cross_site_cookie_source)

definition cookie_request :: "(string \<times> string) list \<Rightarrow> request" where
  "cookie_request hs = \<lparr>rq_method = ''POST'', rq_path = ''/app/v3/api/orders'', rq_query = None,
     rq_headers = foldr (\<lambda>(n, v) m. hdr_insert n (TextValue v) m) hs Map.empty, rq_body = []\<rparr>"

theorem cookie_requests_have_allowed_source_witness:
  "(\<exists>source. request_source (cookie_request [(''Cookie'', ''sid=1''),
        (''Referer'', ''https://shop.example/cart?x=1'')]) = Some source
      \<and> allows_origin (\<lambda>_. None) (cors_default\<lparr>co_allowed_origins := [''https://shop.example'']\<rparr>) source)
   \<and> validate_cross_site_request_with_cors (\<lambda>_. None) cross_site_default cors_default
       (cookie_request [(''Cookie'', ''sid=1'')]) True \<noteq> Inr ()"
proof -
  let ?c = "cors_default\<lparr>co_allowed_origins := [''https://shop.example'']\<rparr>"
  let ?rq = "cookie_request [(''Cookie'', ''sid=1''), (''Referer'', ''https://shop.example/cart?x=1'')]"
  have "validate_cross_site_request_with_cors (\<lambda>_. None) cross_site_default ?c ?rq True = Inr ()"
    and "xs_reject_cookie_auth_without_origin cross_site_default"
    and "is_state_changing_method (rq_method ?rq)" and "hdr_has (rq_headers ?rq) ''cookie''"
    by code_simp+
  from cookie_requests_have_allowed_source [OF this]
  have "\<exists>source. request_source ?rq = Some source \<and> allows_origin (\<lambda>_. None) ?c source" .
  moreover have "validate_cross_site_request_with_cors (\<lambda>_. None) cross_site_default cors_default
       (cookie_request [(''Cookie'', ''sid=1'')]) True \<noteq> Inr ()" by code_simp
  ultimately show ?thesis by blast
qed

text \<open>A request that passes the security policy uses an allowed method, declares no more than
  the allowed length, names only an allowed origin, has an allowed source if it is a
  state-changing cookie request, and shows no SQL signal in its decoded path or in any
  inspected header.\<close>

theorem validate_request_sound:
  assumes "validate_request parse_uri percent_decode p rq = Inr ()"
  shows "rq_method rq \<in> set (mg_allowed_methods (sp_method_guard p))
    \<and> (\<forall>limit len. sz_max_content_length (sp_request_size_limit p) = Some limit
         \<and> hdr_u64 (rq_headers rq) ''content-length'' = Some len \<longrightarrow> len \<le> limit)
    \<and> (\<forall>o1. hdr_trimmed (rq_headers rq) ''origin'' = Some o1 \<longrightarrow> allows_origin parse_uri (sp_cors p) o1)
    \<and> (xs_reject_cookie_auth_without_origin (sp_cross_site p)
         \<and> is_state_changing_method (rq_method rq) \<and> hdr_has (rq_headers rq) ''cookie'' \<longrightarrow>
         (\<exists>source. request_source rq = Some source \<and> allows_origin parse_uri (sp_cors p) source))
    \<and> (sq_enabled (sp_sql_injection_guard p) \<longrightarrow>
         \<not> contains_sql_injection_signal (percent_decode (rq_path rq))
         \<and> (\<forall>n t. n \<in> set (sq_inspected_headers (sp_sql_injection_guard p))
              \<and> hdr_text (rq_headers rq) n = Some t \<longrightarrow> \<not> contains_sql_injection_signal t))"
proof -
  have m: "validate_method p rq = Inr ()" and l: "validate_content_length p rq = Inr ()"
    and o1: "validate_origin parse_uri (sp_cors p) rq = Inr ()"
    and x: "validate_cross_site_request parse_uri p rq = Inr ()"
    and q: "validate_sql_injection percent_decode (sp_sql_injection_guard p) rq = Inr ()"
    using assms by (auto simp: validate_request_def res_bind_eq_Inr)
  have "rq_method rq \<in> set (mg_allowed_methods (sp_method_guard p))"
    using m by (simp add: validate_method_def split: if_splits)
  moreover have "\<forall>limit len. sz_max_content_length (sp_request_size_limit p) = Some limit
         \<and> hdr_u64 (rq_headers rq) ''content-length'' = Some len \<longrightarrow> len \<le> limit"
    using l by (auto simp: validate_content_length_def validate_content_length_with_limit_def
        split: if_splits)
  moreover have "\<forall>o1. hdr_trimmed (rq_headers rq) ''origin'' = Some o1 \<longrightarrow>
      allows_origin parse_uri (sp_cors p) o1"
    using o1 by (auto simp: validate_origin_def)
  moreover have "xs_reject_cookie_auth_without_origin (sp_cross_site p)
         \<and> is_state_changing_method (rq_method rq) \<and> hdr_has (rq_headers rq) ''cookie'' \<longrightarrow>
         (\<exists>source. request_source rq = Some source \<and> allows_origin parse_uri (sp_cors p) source)"
    using x unfolding validate_cross_site_request_def by (blast intro: cross_site_cookie_source)
  moreover have "sq_enabled (sp_sql_injection_guard p) \<longrightarrow>
         \<not> contains_sql_injection_signal (percent_decode (rq_path rq))
         \<and> (\<forall>n t. n \<in> set (sq_inspected_headers (sp_sql_injection_guard p))
              \<and> hdr_text (rq_headers rq) n = Some t \<longrightarrow> \<not> contains_sql_injection_signal t)"
    using q by (auto simp: validate_sql_injection_def sql_inspected_texts_def list_ex_iff
        List.map_filter_def split: if_splits)
  ultimately show ?thesis by blast
qed
theorem validate_request_sound_witness:
  "\<not> contains_sql_injection_signal ''/app/v3/api/orders''
   \<and> allows_origin (\<lambda>_. None) (cors_default\<lparr>co_allowed_origins := [''https://shop.example'']\<rparr>)
       ''https://shop.example''"
proof -
  let ?p = "security_default\<lparr>sp_cors := cors_default\<lparr>co_allowed_origins := [''https://shop.example'']\<rparr>\<rparr>"
  let ?rq = "cookie_request [(''Cookie'', ''sid=1''), (''Origin'', ''https://shop.example'')]"
  have v: "validate_request (\<lambda>_. None) (\<lambda>s. s) ?p ?rq = Inr ()" by code_simp
  have o1: "hdr_trimmed (rq_headers ?rq) ''origin'' = Some ''https://shop.example''" by code_simp
  have q: "sq_enabled (sp_sql_injection_guard ?p)" "rq_path ?rq = ''/app/v3/api/orders''"
    "sp_cors ?p = cors_default\<lparr>co_allowed_origins := [''https://shop.example'']\<rparr>" by code_simp+
  show ?thesis using validate_request_sound [OF v] o1 q by metis
qed

end
