(* ===== verification/Context_Guard.thy ===== *)
theory Context_Guard
  imports Http
begin

section \<open>Guards on client-selected context\<close>

text \<open>
  Models \<open>client_context_guard.rs\<close> and \<open>path_resource_guard.rs\<close> of
  \<open>sdkwork-web-core\<close>: a client may not select its tenant, organization, application, user
  or session by a query parameter, a top-level JSON field or an ambient path segment, and
  a tenant or organization named in the path must be the authenticated one. Reading a body
  (\<open>axum::body::to_bytes\<close>) and parsing JSON (\<open>serde_json\<close>) are parameters.
\<close>

subsection \<open>Selector keys\<close>

definition forbidden_client_context_query_keys :: "string list" where
  "forbidden_client_context_query_keys =
     [''tenant_id'', ''tenantid'', ''tenant'', ''tenant-id'', ''app_id'', ''appid'', ''app-id'',
      ''organization_id'', ''organizationid'', ''organization-id'', ''org_id'', ''orgid'',
      ''user_id'', ''userid'', ''user-id'', ''session_id'', ''sessionid'', ''session-id'']"

definition normalize_selector_key :: "string \<Rightarrow> string" where
  "normalize_selector_key key = to_lower (filter (\<lambda>c. c \<noteq> CHR ''_'' \<and> c \<noteq> CHR ''-'') key)"

definition is_forbidden_context_selector_key :: "string \<Rightarrow> bool" where
  "is_forbidden_context_selector_key key =
     list_ex (\<lambda>k. normalize_selector_key k = normalize_selector_key key)
       forbidden_client_context_query_keys"

definition allows_login_context_organization_selector :: "string \<Rightarrow> string \<Rightarrow> bool" where
  "allows_login_context_organization_selector path key =
     (to_lower (hd (split_on (CHR ''?'') path))
        = ''/app/v3/api/auth/sessions/login_context_selection''
      \<and> normalize_selector_key key = ''organizationid'')"

subsection \<open>Query, path and body\<close>

definition query_pair_key :: "string \<Rightarrow> string" where
  "query_pair_key p = (case split_once (CHR ''='') p of None \<Rightarrow> p | Some (k, _) \<Rightarrow> k)"

definition reject_forbidden_context_query :: "string option \<Rightarrow> web_error + unit" where
  "reject_forbidden_context_query query =
     (case query of
        None \<Rightarrow> Inr ()
      | Some q \<Rightarrow> res_forall (\<lambda>p.
          if p = [] then Inr ()
          else if is_forbidden_context_selector_key (trim (query_pair_key p))
          then Inl (bad_request
            (''client must not supply context selector query parameter `'' @ query_pair_key p @ ''`''))
          else Inr ()) (split_on (CHR ''&'') q))"

definition reject_forbidden_ambient_context_path :: "string \<Rightarrow> web_error + unit" where
  "reject_forbidden_ambient_context_path path =
     (if is_canonical_iam_context_resource_path path then Inr ()
      else (let lowered = to_lower path in
        res_forall (\<lambda>marker.
          if str_contains lowered marker
          then Inl (bad_request
            (''API paths must not use ambient tenant/org scoping marker `'' @ marker @ ''`''))
          else Inr ()) forbidden_ambient_context_path_markers))"

definition reject_client_context_selectors ::
  "string \<Rightarrow> string option \<Rightarrow> api_surface \<Rightarrow> web_error + unit" where
  "reject_client_context_selectors path query s =
     (if \<not> requires_client_context_selector_guard s then Inr ()
      else res_bind (reject_forbidden_ambient_context_path path)
        (\<lambda>_. reject_forbidden_context_query query))"

text \<open>\<open>object_keys\<close> is the parameter that parses a body: the keys of the top-level object, or
  none where the body is no JSON or no object.\<close>

definition body_field_error :: "string \<Rightarrow> web_error" where
  "body_field_error key = bad_request
     (''client must not supply context selector body field `'' @ key @ ''`'')"

definition ascii_whitespace_byte :: "char \<Rightarrow> bool" where
  "ascii_whitespace_byte c = (c \<in> set [CHR 0x20, CHR 0x09, CHR 0x0A, CHR 0x0C, CHR 0x0D])"

definition reject_forbidden_context_body_json ::
  "(string \<Rightarrow> string list option) \<Rightarrow> string \<Rightarrow> web_error + unit" where
  "reject_forbidden_context_body_json object_keys body =
     (if body = [] \<or> list_all ascii_whitespace_byte body then Inr ()
      else case object_keys body of
        None \<Rightarrow> Inr ()
      | Some keys \<Rightarrow> res_forall
          (\<lambda>k. if is_forbidden_context_selector_key k then Inl (body_field_error k) else Inr ()) keys)"

definition request_has_json_payload :: "request \<Rightarrow> bool" where
  "request_has_json_payload rq =
     (if rq_method rq \<notin> set [''POST'', ''PUT'', ''PATCH''] then False
      else (let has_body = 0 < unwrap_or (hdr_u64 (rq_headers rq) ''content-length'') 0
                  \<or> hdr_has (rq_headers rq) ''transfer-encoding''
            in if \<not> has_body then False
               else content_mime (rq_headers rq) = ''application/json''))"

text \<open>The request a handler is left with when the guard takes its body and then fails.\<close>

definition emptied_request :: request where
  "emptied_request = \<lparr>rq_method = ''GET'', rq_path = ''/'', rq_query = None,
     rq_headers = Map.empty, rq_body = []\<rparr>"

definition inspect_json_body_context_selectors ::
  "(nat \<Rightarrow> string \<Rightarrow> string + string) \<Rightarrow> (string \<Rightarrow> string list option) \<Rightarrow>
     request \<Rightarrow> nat \<Rightarrow> api_surface \<Rightarrow> request \<times> (web_error + unit)" where
  "inspect_json_body_context_selectors to_bytes object_keys rq max_bytes s =
     (if \<not> requires_client_context_selector_guard s \<or> \<not> request_has_json_payload rq
      then (rq, Inr ())
      else
        (let limit = max max_bytes 1 in
         case to_bytes (min (limit + 1) u64_max) (rq_body rq) of
           Inl m \<Rightarrow> (emptied_request, Inl (bad_request (''failed to read request body: '' @ m)))
         | Inr bytes \<Rightarrow>
             if limit < length bytes
             then (emptied_request, Inl (payload_too_large
               (''request body exceeds '' @ show_nat limit @ '' byte limit'')))
             else
               (let path = rq_path rq;
                    checked =
                      (if allows_login_context_organization_selector path ''organizationId''
                       then (case object_keys bytes of
                               None \<Rightarrow> Inr ()
                             | Some keys \<Rightarrow> res_forall (\<lambda>k.
                                 if is_forbidden_context_selector_key k \<and>
                                    \<not> allows_login_context_organization_selector path k
                                 then Inl (body_field_error k) else Inr ()) keys)
                       else reject_forbidden_context_body_json object_keys bytes)
                in case checked of
                     Inl e \<Rightarrow> (emptied_request, Inl e)
                   | Inr _ \<Rightarrow> (rq\<lparr>rq_body := bytes\<rparr>, Inr ()))))"

subsection \<open>Tenant and organization identifiers of the path\<close>

record path_resource_ids =
  pi_tenant_id :: "string option"
  pi_organization_id :: "string option"

definition is_tenant_path_param :: "string \<Rightarrow> bool" where
  "is_tenant_path_param n = (normalize_selector_key n \<in> set [''tenantid'', ''tenant''])"

definition is_organization_path_param :: "string \<Rightarrow> bool" where
  "is_organization_path_param n =
     (normalize_selector_key n \<in> set [''organizationid'', ''organization'', ''orgid'', ''org''])"

definition guard_path_segments :: "string \<Rightarrow> string list" where
  "guard_path_segments path =
     filter (\<lambda>s. s \<noteq> []) (split_on (CHR ''/'') (trim_char (CHR ''/'') (trim path)))"

definition param_name :: "string \<Rightarrow> string option" where
  "param_name template = Option.bind (strip_prefix template ''{'') (\<lambda>v. strip_suffix v ''}'')"

fun collect_ids :: "(string \<times> string) list \<Rightarrow> path_resource_ids \<Rightarrow> path_resource_ids" where
  "collect_ids [] ids = ids"
| "collect_ids ((template, actual) # rest) ids =
     (case param_name template of
        None \<Rightarrow> collect_ids rest ids
      | Some n \<Rightarrow>
          (let ids = (if is_tenant_path_param n then ids\<lparr>pi_tenant_id := Some actual\<rparr> else ids);
               ids = (if is_organization_path_param n
                      then ids\<lparr>pi_organization_id := Some actual\<rparr> else ids)
           in collect_ids rest ids))"

definition extract_path_resource_ids :: "string \<Rightarrow> string \<Rightarrow> path_resource_ids" where
  "extract_path_resource_ids manifest_path request_path =
     (if \<not> route_path_matches manifest_path request_path
      then \<lparr>pi_tenant_id = None, pi_organization_id = None\<rparr>
      else collect_ids (zip (guard_path_segments manifest_path) (guard_path_segments request_path))
             \<lparr>pi_tenant_id = None, pi_organization_id = None\<rparr>)"

definition allows_cross_tenant_resource_access :: "request_context \<Rightarrow> string option \<Rightarrow> bool" where
  "allows_cross_tenant_resource_access ctx required_permission =
     (if rc_api_surface ctx \<noteq> BackendApi then False
      else case required_permission of None \<Rightarrow> False | Some p \<Rightarrow> has_permission ctx p)"

definition verify_path_resource_ids_match_principal ::
  "request_context \<Rightarrow> string \<Rightarrow> string option \<Rightarrow> web_error + unit" where
  "verify_path_resource_ids_match_principal ctx manifest_path required_permission =
     (case rc_principal ctx of
        None \<Rightarrow> Inr ()
      | Some p \<Rightarrow>
          (let ids = extract_path_resource_ids manifest_path (tf_path (rc_transport ctx));
               check_org =
                 (case pi_organization_id ids of
                    None \<Rightarrow> Inr ()
                  | Some path_org \<Rightarrow>
                      (let principal_org = unwrap_or (tn_organization_id (pr_tenancy p)) ''0'' in
                       if path_org \<noteq> principal_org \<and> path_org \<noteq> ''0'' then
                         (if allows_cross_tenant_resource_access ctx required_permission then Inr ()
                          else Inl (forbidden (''path organization resource id `'' @ path_org
                            @ ''` does not match authenticated organization `'' @ principal_org @ ''`'')))
                       else Inr ()))
           in if pi_tenant_id ids = None \<and> pi_organization_id ids = None then Inr ()
              else case pi_tenant_id ids of
                Some path_tenant \<Rightarrow>
                  if path_tenant \<noteq> principal_tenant_id p then
                    (if allows_cross_tenant_resource_access ctx required_permission then Inr ()
                     else Inl (forbidden (''path tenant resource id `'' @ path_tenant
                       @ ''` does not match authenticated tenant `'' @ principal_tenant_id p @ ''`'')))
                  else check_org
              | None \<Rightarrow> check_org))"

subsection \<open>Facts\<close>

lemma reject_forbidden_context_query_ok:
  "reject_forbidden_context_query (Some q) = Inr () \<longleftrightarrow>
     (\<forall>p \<in> set (split_on (CHR ''&'') q). p = [] \<or>
        \<not> is_forbidden_context_selector_key (trim (query_pair_key p)))"
  by (auto simp: reject_forbidden_context_query_def res_forall_ok)

lemma reject_forbidden_ambient_context_path_ok:
  "reject_forbidden_ambient_context_path path = Inr () \<longleftrightarrow>
     is_canonical_iam_context_resource_path path \<or>
     (\<forall>m \<in> set forbidden_ambient_context_path_markers. \<not> sublist m (to_lower path))"
  by (auto simp: reject_forbidden_ambient_context_path_def res_forall_ok Let_def
      str_contains_iff_sublist)

text \<open>The tenant identifier extracted is that of the last tenant placeholder.\<close>

lemma collect_ids_tenant_none:
  assumes "\<And>t a n. (t, a) \<in> set zs \<Longrightarrow> param_name t = Some n \<Longrightarrow> \<not> is_tenant_path_param n"
  shows "pi_tenant_id (collect_ids zs ids) = pi_tenant_id ids"
  using assms
proof (induction zs arbitrary: ids)
  case (Cons z zs)
  obtain t a where z: "z = (t, a)" by (cases z)
  have ih: "pi_tenant_id (collect_ids zs ids) = pi_tenant_id ids" for ids
    by (rule Cons.IH) (meson Cons.prems list.set_intros(2))
  have "\<not> is_tenant_path_param n" if "param_name t = Some n" for n
    using Cons.prems that z by (meson list.set_intros(1))
  then show ?case by (cases "param_name t") (simp_all add: z ih Let_def)
qed simp

lemma collect_ids_organization_none:
  assumes "\<And>t a n. (t, a) \<in> set zs \<Longrightarrow> param_name t = Some n \<Longrightarrow> \<not> is_organization_path_param n"
  shows "pi_organization_id (collect_ids zs ids) = pi_organization_id ids"
  using assms
proof (induction zs arbitrary: ids)
  case (Cons z zs)
  obtain t a where z: "z = (t, a)" by (cases z)
  have ih: "pi_organization_id (collect_ids zs ids) = pi_organization_id ids" for ids
    by (rule Cons.IH) (meson Cons.prems list.set_intros(2))
  have "\<not> is_organization_path_param n" if "param_name t = Some n" for n
    using Cons.prems that z by (meson list.set_intros(1))
  then show ?case by (cases "param_name t") (simp_all add: z ih Let_def)
qed simp

lemma collect_ids_append: "collect_ids (xs @ ys) ids = collect_ids ys (collect_ids xs ids)"
  by (induction xs ids rule: collect_ids.induct) (auto simp: Let_def split: option.splits)

lemma collect_ids_tenant:
  assumes "zs = xs @ (t, a) # ys" "param_name t = Some n" "is_tenant_path_param n"
    and "\<And>t a n. (t, a) \<in> set ys \<Longrightarrow> param_name t = Some n \<Longrightarrow> \<not> is_tenant_path_param n"
  shows "pi_tenant_id (collect_ids zs ids) = Some a"
  using assms collect_ids_tenant_none [of ys]
  by (auto simp: collect_ids_append Let_def)

lemma collect_ids_organization:
  assumes "zs = xs @ (t, a) # ys" "param_name t = Some n" "is_organization_path_param n"
    and "\<And>t a n. (t, a) \<in> set ys \<Longrightarrow> param_name t = Some n \<Longrightarrow> \<not> is_organization_path_param n"
  shows "pi_organization_id (collect_ids zs ids) = Some a"
  using assms collect_ids_organization_none [of ys]
  by (auto simp: collect_ids_append Let_def)

text \<open>On a guarded surface a request passes the selector guard exactly when its path is a
  canonical IAM resource or contains no ambient tenant or organization marker, and no query
  parameter spells a context selector in any case and with any dashes or underscores; the
  keys are read as sent, so a percent-encoded spelling is not one of them.\<close>

theorem reject_client_context_selectors_exact:
  "(reject_client_context_selectors path (Some q) s = Inr () \<longleftrightarrow>
     (if requires_client_context_selector_guard s
      then (is_canonical_iam_context_resource_path path \<or>
            (\<forall>m \<in> set forbidden_ambient_context_path_markers. \<not> sublist m (to_lower path)))
         \<and> (\<forall>p \<in> set (split_on (CHR ''&'') q). p \<noteq> [] \<longrightarrow>
              normalize_selector_key (trim (query_pair_key p)) \<notin>
                set [''tenantid'', ''tenant'', ''appid'', ''organizationid'', ''orgid'', ''userid'',
                     ''sessionid''])
      else True))
   \<and> reject_client_context_selectors ''/app/v3/api/orders'' (Some ''tenant%5Fid=1'') AppApi = Inr ()
   \<and> reject_client_context_selectors ''/app/v3/api/orders'' (Some ''Tenant-Id=1'') AppApi \<noteq> Inr ()"
proof (intro conjI)
  have keys: "is_forbidden_context_selector_key k \<longleftrightarrow> normalize_selector_key k \<in>
      set [''tenantid'', ''tenant'', ''appid'', ''organizationid'', ''orgid'', ''userid'', ''sessionid'']" for k
  proof -
    have "map normalize_selector_key forbidden_client_context_query_keys =
      [''tenantid'', ''tenantid'', ''tenant'', ''tenantid'', ''appid'', ''appid'', ''appid'',
       ''organizationid'', ''organizationid'', ''organizationid'', ''orgid'', ''orgid'',
       ''userid'', ''userid'', ''userid'', ''sessionid'', ''sessionid'', ''sessionid'']"
      by code_simp
    then have "set (map normalize_selector_key forbidden_client_context_query_keys) =
      set [''tenantid'', ''tenant'', ''appid'', ''organizationid'', ''orgid'', ''userid'', ''sessionid'']"
      by auto
    then show ?thesis
      unfolding is_forbidden_context_selector_key_def list_ex_iff
      by (metis (no_types, lifting) image_iff set_map)
  qed
  show "reject_client_context_selectors path (Some q) s = Inr () \<longleftrightarrow>
     (if requires_client_context_selector_guard s
      then (is_canonical_iam_context_resource_path path \<or>
            (\<forall>m \<in> set forbidden_ambient_context_path_markers. \<not> sublist m (to_lower path)))
         \<and> (\<forall>p \<in> set (split_on (CHR ''&'') q). p \<noteq> [] \<longrightarrow>
              normalize_selector_key (trim (query_pair_key p)) \<notin>
                set [''tenantid'', ''tenant'', ''appid'', ''organizationid'', ''orgid'', ''userid'',
                     ''sessionid''])
      else True)"
    unfolding keys [symmetric]
    by (auto simp: reject_client_context_selectors_def res_bind_eq_Inr
        reject_forbidden_ambient_context_path_ok reject_forbidden_context_query_ok)
  show "reject_client_context_selectors ''/app/v3/api/orders'' (Some ''tenant%5Fid=1'') AppApi = Inr ()"
    by code_simp
  show "reject_client_context_selectors ''/app/v3/api/orders'' (Some ''Tenant-Id=1'') AppApi \<noteq> Inr ()"
    by code_simp
qed

theorem reject_client_context_selectors_exact_witness:
  "reject_client_context_selectors ''/app/v3/api/orders'' (Some ''page=2'') GatewayApi = Inr ()"
proof -
  have "requires_client_context_selector_guard GatewayApi"
    "\<not> list_ex (\<lambda>m. str_contains (to_lower ''/app/v3/api/orders'') m)
        forbidden_ambient_context_path_markers"
    "list_all (\<lambda>p. normalize_selector_key (trim (query_pair_key p)) \<notin>
        set [''tenantid'', ''tenant'', ''appid'', ''organizationid'', ''orgid'', ''userid'', ''sessionid''])
      (split_on (CHR ''&'') ''page=2'')" by code_simp+
  then show ?thesis
    using reject_client_context_selectors_exact [of "''/app/v3/api/orders''" "''page=2''" GatewayApi]
    by (auto simp: list_all_iff list_ex_iff str_contains_iff_sublist)
qed

text \<open>C29: An authenticated request that passes the path guard addresses its own tenant: the
  segment at the last tenant placeholder of the matched template is the principal's tenant,
  unless the request is on the backend surface and holds the required permission; and
  likewise the organization, where the tenant-level sentinel is always accepted.\<close>

theorem path_resources_match_principal:
  assumes "verify_path_resource_ids_match_principal ctx tpl perm = Inr ()"
    and "rc_principal ctx = Some p"
    and "route_path_matches tpl (tf_path (rc_transport ctx))"
    and "zip (guard_path_segments tpl) (guard_path_segments (tf_path (rc_transport ctx)))
           = xs @ (t, a) # ys"
    and "param_name t = Some n"
  shows "(is_tenant_path_param n
           \<and> (\<forall>(t', a') \<in> set ys. \<forall>n'. param_name t' = Some n' \<longrightarrow> \<not> is_tenant_path_param n') \<longrightarrow>
           a = principal_tenant_id p \<or> allows_cross_tenant_resource_access ctx perm)
       \<and> (is_organization_path_param n
           \<and> (\<forall>(t', a') \<in> set ys. \<forall>n'. param_name t' = Some n' \<longrightarrow> \<not> is_organization_path_param n') \<longrightarrow>
           a = unwrap_or (tn_organization_id (pr_tenancy p)) ''0'' \<or> a = ''0''
             \<or> allows_cross_tenant_resource_access ctx perm)"
proof -
  let ?ids = "extract_path_resource_ids tpl (tf_path (rc_transport ctx))"
  have eq: "?ids = collect_ids (xs @ (t, a) # ys) \<lparr>pi_tenant_id = None, pi_organization_id = None\<rparr>"
    using assms(3,4) by (simp add: extract_path_resource_ids_def)
  have "a = principal_tenant_id p \<or> allows_cross_tenant_resource_access ctx perm"
    if "is_tenant_path_param n"
      "\<forall>(t', a') \<in> set ys. \<forall>n'. param_name t' = Some n' \<longrightarrow> \<not> is_tenant_path_param n'"
  proof -
    have "pi_tenant_id ?ids = Some a"
      unfolding eq using assms(5) that by (intro collect_ids_tenant) auto
    with assms(1,2) show ?thesis
      by (auto simp: verify_path_resource_ids_match_principal_def Let_def split: if_splits)
  qed
  moreover have "a = unwrap_or (tn_organization_id (pr_tenancy p)) ''0'' \<or> a = ''0''
      \<or> allows_cross_tenant_resource_access ctx perm"
    if "is_organization_path_param n"
      "\<forall>(t', a') \<in> set ys. \<forall>n'. param_name t' = Some n' \<longrightarrow> \<not> is_organization_path_param n'"
  proof -
    have "pi_organization_id ?ids = Some a"
      unfolding eq using assms(5) that by (intro collect_ids_organization) auto
    with assms(1,2) show ?thesis
      by (auto simp: verify_path_resource_ids_match_principal_def Let_def split: if_splits option.splits)
  qed
  ultimately show ?thesis by blast
qed

definition example_context :: "string \<Rightarrow> string \<Rightarrow> request_context" where
  "example_context path tenant =
     \<lparr>rc_request_id = ''r1'', rc_api_surface = AppApi, rc_auth_mode = ModeDualToken,
      rc_transport = \<lparr>tf_path = path, tf_method = ''GET'', tf_auth_token_present = True,
        tf_access_token_present = True, tf_api_key_present = False, tf_ingress_token_present = False,
        tf_oauth_bearer_present = False, tf_agent_token_present = False\<rparr>,
      rc_principal = Some (build_principal (builder_default\<lparr>pb_tenant_id := Some tenant\<rparr>)),
      rc_locale = None, rc_client_kind = None, rc_operation = None, rc_trace_id = None,
      rc_idempotency_key = None\<rparr>"

theorem path_resources_match_principal_witness:
  "principal_tenant_id (build_principal (builder_default\<lparr>pb_tenant_id := Some ''t1''\<rparr>)) = ''t1''
   \<and> verify_path_resource_ids_match_principal (example_context ''/app/v3/api/iam/tenants/t1'' ''t2'')
     ''/app/v3/api/iam/tenants/{tenantId}'' None \<noteq> Inr ()"
proof
  let ?ctx = "example_context ''/app/v3/api/iam/tenants/t1'' ''t1''"
  let ?p = "build_principal (builder_default\<lparr>pb_tenant_id := Some ''t1''\<rparr>)"
  have v: "verify_path_resource_ids_match_principal ?ctx ''/app/v3/api/iam/tenants/{tenantId}'' None = Inr ()"
    and p: "rc_principal ?ctx = Some ?p"
    and m: "route_path_matches ''/app/v3/api/iam/tenants/{tenantId}'' (tf_path (rc_transport ?ctx))"
    and z: "zip (guard_path_segments ''/app/v3/api/iam/tenants/{tenantId}'')
        (guard_path_segments (tf_path (rc_transport ?ctx)))
      = [(''app'', ''app''), (''v3'', ''v3''), (''api'', ''api''), (''iam'', ''iam''),
         (''tenants'', ''tenants'')] @ (''{tenantId}'', ''t1'') # []"
    and n: "param_name ''{tenantId}'' = Some ''tenantId''" and t: "is_tenant_path_param ''tenantId''"
    and x: "\<not> allows_cross_tenant_resource_access ?ctx None"
    by code_simp+
  show "principal_tenant_id ?p = ''t1''"
    using path_resources_match_principal [OF v p m z n] t x by simp
  show "verify_path_resource_ids_match_principal (example_context ''/app/v3/api/iam/tenants/t1'' ''t2'')
     ''/app/v3/api/iam/tenants/{tenantId}'' None \<noteq> Inr ()" by code_simp
qed

end
