(* ===== verification/Request_Keys.thy ===== *)
theory Request_Keys
  imports Http
begin

section \<open>Keys and credentials read from a request\<close>

text \<open>
  Models \<open>extractors.rs\<close> (credentials and idempotency keys of the headers), \<open>hashing.rs\<close>
  (the 64-bit FNV-1a hash that keys of rate-limit and idempotency records are made of) and
  the fingerprints and replay response of \<open>idempotency.rs\<close>.
\<close>

subsection \<open>Extractors\<close>

definition header_string :: "headers \<Rightarrow> string \<Rightarrow> string option" where
  "header_string hs n = hdr_trimmed hs n"

definition idempotency_key :: "headers \<Rightarrow> string option" where
  "idempotency_key hs =
     opt_or (header_string hs ''Idempotency-Key'') (header_string hs ''X-Idempotency-Key'')"

definition bearer_token :: "headers \<Rightarrow> string option" where
  "bearer_token hs =
     Option.bind (header_string hs ''Authorization'') (\<lambda>raw.
       opt_filter (\<lambda>v. v \<noteq> []) (map_option trim
         (opt_or (strip_prefix raw ''Bearer '') (strip_prefix raw ''bearer ''))))"

definition api_key :: "headers \<Rightarrow> string option" where
  "api_key hs = header_string hs ''X-Api-Key''"

definition ingress_token :: "headers \<Rightarrow> string option" where
  "ingress_token hs = header_string hs ''X-SDKWork-Ingress-Token''"

definition sdkwork_access_token :: "headers \<Rightarrow> string option" where
  "sdkwork_access_token hs = header_string hs ''X-SDKWork-Access-Token''"

definition agent_token :: "headers \<Rightarrow> string option" where
  "agent_token hs = header_string hs ''X-SDKWork-Agent-Token''"

definition access_token :: "headers \<Rightarrow> string option" where
  "access_token hs = header_string hs ''Access-Token''"

subsection \<open>FNV-1a\<close>

definition fnv_offset_basis :: "64 word" where "fnv_offset_basis = 0xcbf29ce484222325"
definition fnv_prime :: "64 word" where "fnv_prime = 0x00000100000001B3"

definition fnv_step :: "64 word \<Rightarrow> char \<Rightarrow> 64 word" where
  "fnv_step h c = (xor h (of_nat (code c))) * fnv_prime"

definition fnv1a64 :: "string \<Rightarrow> 64 word" where
  "fnv1a64 bytes = foldl fnv_step fnv_offset_basis bytes"

definition hex_digit :: "nat \<Rightarrow> char" where
  "hex_digit d = (if d < 10 then char_of (48 + d) else char_of (87 + d))"

fun hex_digits :: "nat \<Rightarrow> nat \<Rightarrow> string" where
  "hex_digits 0 n = []"
| "hex_digits (Suc w) n = hex_digits w (n div 16) @ [hex_digit (n mod 16)]"

definition hash_key_material :: "string \<Rightarrow> string" where
  "hash_key_material m = hex_digits 16 (unat (fnv1a64 m))"

subsection \<open>Idempotency fingerprints\<close>

definition idempotency_fingerprint :: "string \<Rightarrow> string \<Rightarrow> string option \<Rightarrow> string" where
  "idempotency_fingerprint method path operation_id =
     hash_key_material (method @ '':'' @ path @ '':op='' @ unwrap_or operation_id [])"

definition content_length_from_headers :: "headers \<Rightarrow> nat option" where
  "content_length_from_headers hs = hdr_u64 hs ''content-length''"

definition resolve_idempotency_fingerprint ::
  "string \<Rightarrow> string \<Rightarrow> string option \<Rightarrow> headers \<Rightarrow> bool \<Rightarrow> web_error + string" where
  "resolve_idempotency_fingerprint method path operation_id hs require_body_hash =
     (case opt_or (header_string hs ''X-Idempotency-Fingerprint'')
                  (header_string hs ''X-Content-SHA256'') of
        Some explicit \<Rightarrow>
          Inr (hash_key_material (method @ '':'' @ path @ '':body:'' @ explicit))
      | None \<Rightarrow>
          (let has_chunked_body =
                 (case hdr_text hs ''transfer-encoding'' of
                    None \<Rightarrow> False | Some v \<Rightarrow> eq_ignore_case v ''chunked'');
               has_payload = (0 < unwrap_or (content_length_from_headers hs) 0 \<or> has_chunked_body)
           in if require_body_hash \<and> has_payload
              then Inl (bad_request
                ''requests with a body must include X-Content-SHA256 or X-Idempotency-Fingerprint for idempotent commands'')
              else Inr (idempotency_fingerprint method path operation_id)))"

record idempotency_record =
  ir_status_code :: nat
  ir_body :: string
  ir_content_type :: "string option"

datatype begin_outcome = Leader | Replay idempotency_record

text \<open>The status and header values the record stores are checked by \<open>http\<close>
  (\<open>StatusCode::from_u16\<close>, \<open>HeaderValue::from_str\<close>), which are parameters.\<close>

definition idempotency_replay_response ::
  "(nat \<Rightarrow> nat option) \<Rightarrow> (string \<Rightarrow> header_value option) \<Rightarrow> idempotency_record \<Rightarrow>
     string option \<Rightarrow> web_error + response" where
  "idempotency_replay_response status_from_u16 from_str r request_id =
     (case status_from_u16 (ir_status_code r) of
        None \<Rightarrow> Inl (dependency_unavailable ''cached idempotency response has invalid status'')
      | Some status \<Rightarrow>
          (let hs = Map.empty;
               hs = (case ir_content_type r of
                       None \<Rightarrow> hs
                     | Some ct \<Rightarrow> (case from_str ct of
                         None \<Rightarrow> hs | Some v \<Rightarrow> hdr_insert ''content-type'' v hs));
               hs = (case request_id of
                       None \<Rightarrow> hs
                     | Some rid \<Rightarrow> (case from_str rid of
                         None \<Rightarrow> hs | Some v \<Rightarrow> hdr_insert ''X-Request-Id'' v hs));
               hs = hdr_insert ''idempotent-replayed'' (TextValue ''true'') hs
           in Inr \<lparr>rs_status = status, rs_headers = hs, rs_body = ir_body r\<rparr>))"

subsection \<open>Facts\<close>

lemma length_hex_digits [simp]: "length (hex_digits w n) = w"
  by (induction w arbitrary: n) simp_all

lemma hex_digit_inj: "a < 16 \<Longrightarrow> b < 16 \<Longrightarrow> hex_digit a = hex_digit b \<Longrightarrow> a = b"
proof -
  assume ab: "a < 16" "b < 16" and eq: "hex_digit a = hex_digit b"
  have c: "code (hex_digit d) = (if d < 10 then 48 + d else 87 + d)" if "d < 16" for d
    using that by (simp add: hex_digit_def)
  from eq have "code (hex_digit a) = code (hex_digit b)" by simp
  with ab show "a = b" by (simp add: c split: if_splits)
qed

lemma hex_digits_inj: "m < 16 ^ w \<Longrightarrow> n < 16 ^ w \<Longrightarrow> hex_digits w m = hex_digits w n \<Longrightarrow> m = n"
proof (induction w arbitrary: m n)
  case (Suc w)
  then have "m div 16 = n div 16"
    by (intro Suc.IH) (simp_all add: less_mult_imp_div_less mult.commute)
  moreover have "m mod 16 = n mod 16"
    using Suc.prems(3) hex_digit_inj [of "m mod 16" "n mod 16"] by simp
  ultimately show ?case by (metis div_mult_mod_eq)
qed simp

text \<open>Two materials have the same key exactly when they have the same hash.\<close>

lemma hash_key_material_eq: "hash_key_material a = hash_key_material b \<longleftrightarrow> fnv1a64 a = fnv1a64 b"
proof
  assume "hash_key_material a = hash_key_material b"
  moreover have "unat (fnv1a64 x) < 16 ^ 16" for x
  proof -
    have "unat (fnv1a64 x) < 2 ^ LENGTH(64)" by (rule unsigned_less)
    then show ?thesis by simp
  qed
  ultimately have "unat (fnv1a64 a) = unat (fnv1a64 b)"
    unfolding hash_key_material_def by (intro hex_digits_inj) simp_all
  then show "fnv1a64 a = fnv1a64 b" by (simp only: word_unat_eq_iff)
qed (simp add: hash_key_material_def)

lemma fnv1a64_append: "fnv1a64 (a @ b) = foldl fnv_step (fnv1a64 a) b"
  by (simp add: fnv1a64_def)

end
