(* ===== verification/Admission.thy ===== *)
theory Admission
  imports Request_Keys "HOL-Library.Multiset"
begin

section \<open>Concurrent admission and rate limiting\<close>

text \<open>
  Models \<open>ConcurrentAdmissionStore\<close> and \<open>RateLimitStore\<close> of \<open>stores.rs\<close> with their
  in-memory implementations. The contract a caller relies on is the locale
  \<open>admission_store\<close>: it speaks of the number of slots a key holds, and its client lemmas
  follow requests that acquire a slot, run and give it back. Time (\<open>Instant\<close>) and
  \<open>Duration\<close> are numbers of nanoseconds.
\<close>

definition concurrency_error :: web_error where
  "concurrency_error = rate_limit_exceeded ''tenant concurrent request limit exceeded'' 1"

subsection \<open>The in-memory admission store\<close>

type_synonym admission_state = "string \<Rightarrow> nat option"

definition mem_try_acquire ::
  "string \<Rightarrow> nat \<Rightarrow> admission_state \<Rightarrow> admission_state \<times> (web_error + unit)" where
  "mem_try_acquire key limit active =
     (if limit = 0 then (active, Inr ())
      else (let n = unwrap_or (active key) 0 in
        if limit \<le> n then (active(key \<mapsto> n), Inl concurrency_error)
        else (active(key \<mapsto> n + 1), Inr ())))"

definition mem_release :: "string \<Rightarrow> admission_state \<Rightarrow> admission_state" where
  "mem_release key active =
     (case active key of
        None \<Rightarrow> active
      | Some n \<Rightarrow>
          (let n = n - 1 in
           if n = 0 then active(key := None) else active(key \<mapsto> n)))"

subsection \<open>The contract\<close>

text \<open>\<open>held s k\<close> is the number of slots key \<open>k\<close> holds. A limit of zero stands for no limit and
  takes no slot.\<close>

locale admission_store =
  fixes acquire :: "string \<Rightarrow> nat \<Rightarrow> 's \<Rightarrow> 's \<times> (web_error + unit)"
    and release :: "string \<Rightarrow> 's \<Rightarrow> 's"
    and held :: "'s \<Rightarrow> string \<Rightarrow> nat"
  assumes acquire_ok: "0 < limit \<Longrightarrow> acquire k limit s = (s', Inr ()) \<Longrightarrow>
      held s k < limit \<and> held s' = (held s)(k := held s k + 1)"
    and acquire_err: "acquire k limit s = (s', Inl e) \<Longrightarrow> held s' = held s"
    and acquire_free: "0 < limit \<Longrightarrow> held s k < limit \<Longrightarrow> \<exists>s'. acquire k limit s = (s', Inr ())"
    and acquire_zero: "acquire k 0 s = (s, Inr ())"
    and release_held: "held (release k s) = (held s)(k := held s k - 1)"
begin

text \<open>Requests in flight, as the multiset of the keys whose slot they hold. A request starts by
  acquiring with the limit configured for its key and ends by releasing.\<close>

inductive serves :: "(string \<Rightarrow> nat) \<Rightarrow> 's \<times> string multiset \<Rightarrow> 's \<times> string multiset \<Rightarrow> bool"
  for limit_of :: "string \<Rightarrow> nat"
where
  start: "acquire k (limit_of k) s = (s', Inr ()) \<Longrightarrow> serves limit_of (s, M) (s', add_mset k M)"
| refuse: "acquire k (limit_of k) s = (s', Inl e) \<Longrightarrow> serves limit_of (s, M) (s', M)"
| finish: "k \<in># M \<Longrightarrow> serves limit_of (s, M) (release k s, M - {#k#})"

text \<open>A key without limit holds nothing; any other holds what is in flight for it, within its
  limit.\<close>

definition counted :: "(string \<Rightarrow> nat) \<Rightarrow> 's \<Rightarrow> string multiset \<Rightarrow> string \<Rightarrow> bool" where
  "counted limit_of s M k \<longleftrightarrow>
     (if limit_of k = 0 then held s k = 0 else held s k = count M k \<and> count M k \<le> limit_of k)"

lemma serves_exact:
  assumes "(serves limit_of)\<^sup>*\<^sup>* (s, M) (s', M')" and "\<forall>k. counted limit_of s M k"
  shows "\<forall>k. counted limit_of s' M' k"
  using assms(1)
proof (induction "(s', M')" arbitrary: s' M' rule: rtranclp_induct)
  case base
  with assms(2) show ?case by simp
next
  case (step y s'' M'')
  obtain t N where y: "y = (t, N)" by (cases y)
  with step.hyps(3) have ih: "\<forall>k. counted limit_of t N k" by simp
  from step.hyps(2) [unfolded y] show ?case
  proof cases
    case (start k)
    show ?thesis
    proof (cases "limit_of k = 0")
      case True
      with start ih show ?thesis using acquire_zero [of k t] by (auto simp: counted_def)
    next
      case False
      with start ih acquire_ok [of "limit_of k" k t s''] show ?thesis
        by (auto simp: counted_def Suc_le_eq)
    qed
  next
    case (refuse k e)
    then show ?thesis using ih acquire_err unfolding counted_def by metis
  next
    case (finish k)
    show ?thesis
    proof
      fix x
      from spec [OF ih, of x] show "counted limit_of s'' M'' x"
        by (cases "x = k") (auto simp: finish counted_def release_held split: if_splits)
    qed
  qed
qed

lemma serves_idle:
  assumes "(serves limit_of)\<^sup>*\<^sup>* (s, {#}) (s', M)" and "\<forall>k. held s k = 0"
  shows "counted limit_of s' M k"
  using serves_exact [OF assms(1)] assms(2) by (simp add: counted_def)

end

definition mem_held :: "admission_state \<Rightarrow> string \<Rightarrow> nat" where
  "mem_held s k = unwrap_or (s k) 0"

interpretation mem_admission: admission_store mem_try_acquire mem_release mem_held
proof
  fix k limit and s s' :: admission_state and e
  show "0 < limit \<Longrightarrow> mem_try_acquire k limit s = (s', Inr ()) \<Longrightarrow>
      mem_held s k < limit \<and> mem_held s' = (mem_held s)(k := mem_held s k + 1)"
    by (auto simp: mem_try_acquire_def mem_held_def Let_def split: if_splits intro!: ext)
  show "mem_try_acquire k limit s = (s', Inl e) \<Longrightarrow> mem_held s' = mem_held s"
    by (auto simp: mem_try_acquire_def mem_held_def Let_def split: if_splits intro!: ext)
  show "0 < limit \<Longrightarrow> mem_held s k < limit \<Longrightarrow> \<exists>s'. mem_try_acquire k limit s = (s', Inr ())"
    by (auto simp: mem_try_acquire_def mem_held_def Let_def)
  show "mem_try_acquire k 0 s = (s, Inr ())" by (simp add: mem_try_acquire_def)
  show "mem_held (mem_release k s) = (mem_held s)(k := mem_held s k - 1)"
    by (cases "s k") (auto simp: mem_release_def mem_held_def Let_def fun_eq_iff)
qed

text \<open>C9: Starting from an idle in-memory store, however requests acquire under the limit fixed for
  their key, are refused and release their slots, the store always holds for every key with a
  positive limit exactly the requests in flight for it, never more than that limit and nothing
  once all have finished; for a key with the limit zero, which stands for no limit, it never
  holds anything.\<close>

theorem memory_admission_exact:
  assumes "(mem_admission.serves limit_of)\<^sup>*\<^sup>* (Map.empty, {#}) (s, M)"
  shows "if limit_of k = 0 then mem_held s k = 0
    else mem_held s k = count M k \<and> mem_held s k \<le> limit_of k"
  using mem_admission.serves_idle [OF assms, of k]
  by (auto simp: mem_admission.counted_def mem_held_def [of Map.empty] split: if_splits)

theorem memory_admission_exact_witness:
  "mem_held (Map.empty(''t1'' \<mapsto> 1)) ''t1'' = 1"
proof -
  have "mem_admission.serves (\<lambda>_. 1) (Map.empty, {#}) (Map.empty(''t1'' \<mapsto> 1), {#''t1''#})"
    by (rule mem_admission.serves.start) (simp add: mem_try_acquire_def Let_def)
  then have "(mem_admission.serves (\<lambda>_. 1))\<^sup>*\<^sup>* (Map.empty, {#}) (Map.empty(''t1'' \<mapsto> 1), {#''t1''#})"
    by simp
  from memory_admission_exact [OF this, of "''t1''"] show ?thesis by simp
qed

text \<open>The limit of a key must not change between requests: one admitted under the limit zero takes
  no slot, and its release gives back the slot of another request.\<close>

lemma zero_limit_release_frees_foreign_slot:
  "\<exists>s1 s2. mem_try_acquire k 1 Map.empty = (s1, Inr ()) \<and> mem_try_acquire k 0 s1 = (s2, Inr ())
     \<and> mem_held (mem_release k s2) k = 0
     \<and> snd (mem_try_acquire k 1 (mem_release k s2)) = Inr ()"
  by (simp add: mem_try_acquire_def mem_release_def mem_held_def Let_def)

subsection \<open>Rate limits\<close>

record resolved_rate_limit =
  rr_max_requests :: nat
  rr_window_secs :: nat

fun limits_for_tier :: "rate_limit_tier \<Rightarrow> resolved_rate_limit" where
  "limits_for_tier AuthCritical = \<lparr>rr_max_requests = 10, rr_window_secs = 60\<rparr>"
| "limits_for_tier OpenApiDefault = \<lparr>rr_max_requests = 120, rr_window_secs = 60\<rparr>"
| "limits_for_tier Upload = \<lparr>rr_max_requests = 30, rr_window_secs = 60\<rparr>"
| "limits_for_tier Search = \<lparr>rr_max_requests = 60, rr_window_secs = 60\<rparr>"
| "limits_for_tier Bulk = \<lparr>rr_max_requests = 20, rr_window_secs = 60\<rparr>"
| "limits_for_tier Worker = \<lparr>rr_max_requests = 100, rr_window_secs = 60\<rparr>"
| "limits_for_tier Internal = \<lparr>rr_max_requests = 500, rr_window_secs = 60\<rparr>"

record rate_bucket =
  rb_count :: nat
  rb_window_start :: nat

type_synonym rate_state = "string \<Rightarrow> rate_bucket option"

definition as_secs :: "nat \<Rightarrow> nat" where
  "as_secs d = d div 1000000000"

definition mem_check_and_record ::
  "nat \<Rightarrow> string \<Rightarrow> nat \<Rightarrow> nat \<Rightarrow> rate_state \<Rightarrow> rate_state \<times> (web_error + unit)" where
  "mem_check_and_record now key max_requests window buckets =
     (let bucket = unwrap_or (buckets key) \<lparr>rb_count = 0, rb_window_start = now\<rparr>;
          bucket = (if window \<le> now - rb_window_start bucket
                    then \<lparr>rb_count = 0, rb_window_start = now\<rparr> else bucket)
      in if max_requests \<le> rb_count bucket
         then (buckets(key \<mapsto> bucket),
               Inl (rate_limit_exceeded ''rate limit exceeded'' (max (as_secs window) 1)))
         else (buckets(key \<mapsto> bucket\<lparr>rb_count := rb_count bucket + 1\<rparr>), Inr ()))"

text \<open>The times at which calls for one key are admitted, given the times of the calls.\<close>

fun admitted_times ::
  "string \<Rightarrow> nat \<Rightarrow> nat \<Rightarrow> rate_state \<Rightarrow> nat list \<Rightarrow> nat list" where
  "admitted_times key max_requests window s [] = []"
| "admitted_times key max_requests window s (t # ts) =
     (case mem_check_and_record t key max_requests window s of
        (s', Inr _) \<Rightarrow> t # admitted_times key max_requests window s' ts
      | (s', Inl _) \<Rightarrow> admitted_times key max_requests window s' ts)"

text \<open>The same over the bucket of the key alone: a count and the start of its window.\<close>

fun bucket_times :: "nat \<Rightarrow> nat \<Rightarrow> nat \<Rightarrow> nat \<Rightarrow> nat list \<Rightarrow> nat list" where
  "bucket_times m w c b [] = []"
| "bucket_times m w c b (t # ts) =
     (let c' = (if w \<le> t - b then 0 else c); b' = (if w \<le> t - b then t else b) in
      if m \<le> c' then bucket_times m w c' b' ts else t # bucket_times m w (c' + 1) b' ts)"

lemma admitted_times_bucket:
  "admitted_times key m w s ts =
     (case s key of
        None \<Rightarrow> (case ts of [] \<Rightarrow> [] | t # _ \<Rightarrow> bucket_times m w 0 t ts)
      | Some b \<Rightarrow> bucket_times m w (rb_count b) (rb_window_start b) ts)"
proof (induction ts arbitrary: s)
  case (Cons t ts)
  show ?case
    by (cases "s key") (auto simp: mem_check_and_record_def Let_def Cons.IH)
qed (simp split: option.splits)

text \<open>Within its window a bucket admits what its count leaves; up to the end of a period that
  starts no earlier than the window, it admits at most one further window.\<close>

lemma bucket_times_window:
  "sorted ts \<Longrightarrow> \<forall>t \<in> set ts. b \<le> t \<Longrightarrow> c \<le> m \<Longrightarrow>
     length (filter (\<lambda>t. t < b + w) (bucket_times m w c b ts)) \<le> m - c"
proof (induction ts arbitrary: c)
  case (Cons t ts)
  show ?case
  proof (cases "w \<le> t - b")
    case True
    have "bucket_times m w c' b' us = us' \<Longrightarrow> set us' \<subseteq> set us" for c' b' us us'
      by (induction us arbitrary: c' b' us') (fastforce simp: Let_def split: if_splits)+
    moreover have "\<forall>u \<in> set (t # ts). b + w \<le> u"
      using True Cons.prems(1,2) by fastforce
    ultimately have "filter (\<lambda>t. t < b + w) (bucket_times m w c b (t # ts)) = []"
      by (metis (no_types, lifting) filter_False leD subset_iff)
    then show ?thesis by simp
  next
    case False
    then show ?thesis
      using Cons.IH [of c] Cons.IH [of "c + 1"] Cons.prems by (auto simp: Let_def Suc_le_eq)
  qed
qed simp

lemma bucket_times_reset:
  assumes "sorted (t # ts)" and "w \<le> t - b"
  shows "length (filter (\<lambda>u. u < t + w) (bucket_times m w c b (t # ts))) \<le> m"
  using assms bucket_times_window [of ts t 0 m w] bucket_times_window [of ts t 1 m w]
  by (auto simp: Let_def Suc_le_eq)

lemma length_filter_mono: "(\<And>x. P x \<Longrightarrow> Q x) \<Longrightarrow> length (filter P xs) \<le> length (filter Q xs)"
  by (induction xs) (auto intro: le_SucI)

lemma bucket_times_period:
  "sorted ts \<Longrightarrow> \<forall>t \<in> set ts. b \<le> t \<and> a \<le> t \<Longrightarrow> c \<le> m \<Longrightarrow>
     length (filter (\<lambda>t. t < a + w) (bucket_times m w c b ts)) \<le> (m - c) + m"
proof (induction ts arbitrary: c b)
  case (Cons t ts)
  show ?case
  proof (cases "w \<le> t - b")
    case True
    have "length (filter (\<lambda>u. u < a + w) (bucket_times m w c b (t # ts)))
        \<le> length (filter (\<lambda>u. u < t + w) (bucket_times m w c b (t # ts)))"
      using Cons.prems(2) by (intro length_filter_mono) simp
    also have "\<dots> \<le> m" using Cons.prems(1) True by (rule bucket_times_reset)
    finally show ?thesis by simp
  next
    case False
    then show ?thesis
      using Cons.IH [of b c] Cons.IH [of b "c + 1"] Cons.prems by (auto simp: Let_def Suc_le_eq)
  qed
qed simp

text \<open>Calls before the period only move the bucket forward.\<close>

lemma bucket_times_any_period:
  "sorted ts \<Longrightarrow> \<forall>t \<in> set ts. b \<le> t \<Longrightarrow> c \<le> m \<Longrightarrow>
     length (filter (\<lambda>t. a \<le> t \<and> t < a + w) (bucket_times m w c b ts)) \<le> 2 * m"
proof (induction ts arbitrary: c b)
  case (Cons t ts)
  show ?case
  proof (cases "a \<le> t")
    case True
    then have "\<forall>u \<in> set (t # ts). b \<le> u \<and> a \<le> u" using Cons.prems(1,2) by auto
    then have "length (filter (\<lambda>u. u < a + w) (bucket_times m w c b (t # ts))) \<le> (m - c) + m"
      by (intro bucket_times_period Cons.prems)
    then show ?thesis
      by (rule order_trans [OF length_filter_mono, rotated, OF order_trans]) auto
  next
    case False
    then show ?thesis
      using Cons.IH [of b c] Cons.IH [of b "c + 1"] Cons.IH [of t 0] Cons.IH [of t 1] Cons.prems
      by (auto simp: Let_def Suc_le_eq)
  qed
qed simp

text \<open>C24: With one limit and one window per key, however often a client calls, the fixed-window
  limiter admits at most twice the limit within any period as long as the window, and at
  most the limit within a window that a fresh key opens.\<close>

theorem memory_rate_limit_bound:
  assumes "sorted ts" and "s key = None"
  shows "length (filter (\<lambda>t. a \<le> t \<and> t < a + w) (admitted_times key m w s ts)) \<le> 2 * m
       \<and> (ts \<noteq> [] \<longrightarrow> length (filter (\<lambda>t. t < hd ts + w) (admitted_times key m w s ts)) \<le> m)"
proof (cases ts)
  case (Cons t ts')
  then have "admitted_times key m w s ts = bucket_times m w 0 t ts"
    using assms(2) by (simp add: admitted_times_bucket)
  moreover have "\<forall>u \<in> set ts. t \<le> u" using assms(1) Cons by auto
  ultimately show ?thesis
    using bucket_times_any_period [OF assms(1), of t 0 m a w]
      bucket_times_window [OF assms(1), of t 0 m w] Cons by simp
qed simp

theorem memory_rate_limit_bound_witness:
  "length (filter (\<lambda>t. 5 \<le> t \<and> t < 5 + 10) (admitted_times ''k'' 2 10 Map.empty [0, 9, 9, 10, 10, 11])) \<le> 2 * 2
   \<and> admitted_times ''k'' 2 10 Map.empty [0, 9, 9, 10, 10, 11] = [0, 9, 10, 10]"
proof -
  have "admitted_times ''k'' 2 10 Map.empty [0, 9, 9, 10, 10, 11] = [0, 9, 10, 10]" by code_simp
  moreover have "sorted [0, 9, 9, 10, 10, 11 :: nat]" by simp
  then have "length (filter (\<lambda>t. 5 \<le> t \<and> t < 5 + 10)
      (admitted_times ''k'' 2 10 Map.empty [0, 9, 9, 10, 10, 11])) \<le> 2 * 2"
    using memory_rate_limit_bound [of "[0, 9, 9, 10, 10, 11]" Map.empty "''k''" 5 10 2] by blast
  ultimately show ?thesis by blast
qed

end
