(* ===== verification/Idempotency_Store.thy ===== *)
theory Idempotency_Store
  imports Request_Keys "HOL-Library.AList" "HOL-Library.Multiset"
begin

section \<open>Idempotency reservations\<close>

text \<open>
  Models \<open>IdempotencyStore\<close> and \<open>MemoryIdempotencyStore\<close> of \<open>stores.rs\<close> with the guard
  that releases a reservation when it is dropped. The entries are an association list with
  distinct keys, whose order stands for the iteration order of the hash map. The contract
  the pipeline relies on is the locale \<open>idempotency_store\<close>: the store may forget entries
  (they expire and are evicted) but never invents one. Times are in nanoseconds.
\<close>

record idem_entry =
  ie_fingerprint :: string
  ie_response :: "idempotency_record option"
  ie_payload_bytes :: nat
  ie_created :: nat

type_synonym idem_state = "(string \<times> idem_entry) list"

definition memory_max_entries :: nat where "memory_max_entries = 10000"
definition memory_max_cached_bytes :: nat where "memory_max_cached_bytes = 256 * 1024 * 1024"

definition cached_bytes :: "idem_state \<Rightarrow> nat" where
  "cached_bytes es = sum_list (map (\<lambda>(k, e). ie_payload_bytes e) es)"

subsection \<open>The in-memory store\<close>

text \<open>The eviction loop over the entries in the order of their age. The byte total is kept by
  saturating subtraction, as in the code.\<close>

fun evict_loop :: "nat \<Rightarrow> nat \<Rightarrow> nat \<Rightarrow> (string \<times> idem_entry) list \<Rightarrow> idem_state \<Rightarrow> idem_state" where
  "evict_loop max_entries max_bytes bytes [] es = es"
| "evict_loop max_entries max_bytes bytes ((k, e) # oldest) es =
     (if length es \<le> max_entries \<and> bytes \<le> max_bytes then es
      else evict_loop max_entries max_bytes
        (if map_of es k \<noteq> None then bytes - ie_payload_bytes e else bytes)
        oldest (AList.delete k es))"

definition evict_over_budget :: "nat \<Rightarrow> nat \<Rightarrow> idem_state \<Rightarrow> idem_state" where
  "evict_over_budget max_entries max_bytes es =
     (let bytes = cached_bytes es in
      if \<not> (max_entries < length es \<or> max_bytes < bytes) then es
      else evict_loop max_entries max_bytes bytes (sort_key (\<lambda>(k, e). ie_created e) es) es)"

definition purge_expired :: "nat \<Rightarrow> nat \<Rightarrow> nat \<Rightarrow> nat \<Rightarrow> idem_state \<Rightarrow> idem_state" where
  "purge_expired now ttl max_entries max_bytes es =
     evict_over_budget max_entries max_bytes (filter (\<lambda>(k, e). now - ie_created e < ttl) es)"

definition mem_begin ::
  "nat \<Rightarrow> nat \<Rightarrow> string \<Rightarrow> string \<Rightarrow> idem_state \<Rightarrow> idem_state \<times> (web_error + begin_outcome)" where
  "mem_begin now ttl key fingerprint es =
     (let es = purge_expired now ttl memory_max_entries memory_max_cached_bytes es in
      case map_of es key of
        Some e \<Rightarrow>
          (es, if ie_fingerprint e \<noteq> fingerprint
               then Inl (conflict
                 ''idempotency key was already used with a different request fingerprint'')
               else case ie_response e of
                 Some r \<Rightarrow> Inr (Replay r)
               | None \<Rightarrow> Inl (conflict ''idempotency key is already in progress''))
      | None \<Rightarrow>
          (AList.update key \<lparr>ie_fingerprint = fingerprint, ie_response = None,
             ie_payload_bytes = 0, ie_created = now\<rparr> es, Inr Leader))"

definition mem_complete ::
  "nat \<Rightarrow> nat \<Rightarrow> string \<Rightarrow> string \<Rightarrow> idempotency_record \<Rightarrow> idem_state \<Rightarrow>
     idem_state \<times> (web_error + unit)" where
  "mem_complete now ttl key fingerprint r es =
     (let es = purge_expired now ttl memory_max_entries memory_max_cached_bytes es in
      case map_of es key of
        None \<Rightarrow> (es, Inl (bad_request ''idempotency key was not reserved''))
      | Some e \<Rightarrow>
          if ie_fingerprint e \<noteq> fingerprint
          then (es, Inl (conflict ''idempotency key fingerprint mismatch while completing response''))
          else (evict_over_budget memory_max_entries memory_max_cached_bytes
                  (AList.update key (e\<lparr>ie_payload_bytes := length (ir_body r),
                     ie_response := Some r\<rparr>) es), Inr ()))"

definition mem_idem_release :: "string \<Rightarrow> string \<Rightarrow> idem_state \<Rightarrow> idem_state" where
  "mem_idem_release key fingerprint es =
     (case map_of es key of
        None \<Rightarrow> es
      | Some e \<Rightarrow>
          if ie_fingerprint e \<noteq> fingerprint then es
          else if ie_response e = None then AList.delete key es
          else es)"

text \<open>\<open>IdempotencyGuard\<close>: dropped without having been marked, it releases its key.\<close>

record idem_guard =
  ig_key :: string
  ig_fingerprint :: string
  ig_released :: bool

definition guard_new :: "string \<Rightarrow> string \<Rightarrow> idem_guard" where
  "guard_new k f = \<lparr>ig_key = k, ig_fingerprint = f, ig_released = False\<rparr>"

definition guard_mark_completed :: "idem_guard \<Rightarrow> idem_guard" where
  "guard_mark_completed g = g\<lparr>ig_released := True\<rparr>"

definition guard_drop ::
  "(string \<Rightarrow> string \<Rightarrow> 's \<Rightarrow> 's) \<Rightarrow> idem_guard \<Rightarrow> 's \<Rightarrow> 's" where
  "guard_drop release g s =
     (if \<not> ig_released g then release (ig_key g) (ig_fingerprint g) s else s)"

subsection \<open>The contract\<close>

text \<open>\<open>view s k\<close> is what the store knows of a key: the fingerprint it was reserved with and the
  response it was completed with. Every operation may forget entries first. \<open>stored r\<close> is what
  reading back the record \<open>r\<close> gives; a store may keep the first response of a key when it is
  completed again.\<close>

locale idempotency_store =
  fixes begin_op :: "string \<Rightarrow> string \<Rightarrow> 't \<Rightarrow> 's \<Rightarrow> 's \<times> (web_error + begin_outcome)"
    and complete_op :: "string \<Rightarrow> string \<Rightarrow> idempotency_record \<Rightarrow> 't \<Rightarrow> 's \<Rightarrow> 's \<times> (web_error + unit)"
    and release_op :: "string \<Rightarrow> string \<Rightarrow> 't \<Rightarrow> 's \<Rightarrow> 's"
    and view :: "'s \<Rightarrow> string \<Rightarrow> (string \<times> idempotency_record option) option"
    and inv :: "'s \<Rightarrow> bool"
    and stored :: "idempotency_record \<Rightarrow> idempotency_record"
  assumes begin_inv: "inv s \<Longrightarrow> inv (fst (begin_op k f t s))"
    and complete_inv: "inv s \<Longrightarrow> inv (fst (complete_op k f r t s))"
    and release_inv: "inv s \<Longrightarrow> inv (release_op k f t s)"
    and begin_leader: "inv s \<Longrightarrow> begin_op k f t s = (s', Inr Leader) \<Longrightarrow>
      view s' \<subseteq>\<^sub>m (view s)(k \<mapsto> (f, None)) \<and> view s' k = Some (f, None)"
    and begin_replay: "inv s \<Longrightarrow> begin_op k f t s = (s', Inr (Replay r)) \<Longrightarrow>
      view s' \<subseteq>\<^sub>m view s \<and> view s k = Some (f, Some r)"
    and begin_refused: "inv s \<Longrightarrow> begin_op k f t s = (s', Inl e) \<Longrightarrow>
      view s' \<subseteq>\<^sub>m view s \<and> (\<exists>f' r. view s k = Some (f', r) \<and> (f' \<noteq> f \<or> r = None))"
    and complete_ok: "inv s \<Longrightarrow> complete_op k f r t s = (s', Inr ()) \<Longrightarrow>
      (view s' \<subseteq>\<^sub>m (view s)(k \<mapsto> (f, Some (stored r))) \<or> view s' \<subseteq>\<^sub>m view s)
        \<and> (\<exists>r'. view s k = Some (f, r'))"
    and complete_err: "inv s \<Longrightarrow> complete_op k f r t s = (s', Inl e) \<Longrightarrow> view s' \<subseteq>\<^sub>m view s"
    and release_view: "inv s \<Longrightarrow>
      view (release_op k f t s) \<subseteq>\<^sub>m view s"
    and release_frees: "inv s \<Longrightarrow> view s k = Some (f, None) \<Longrightarrow> view (release_op k f t s) k = None"
begin

text \<open>A run of the store, with the log of the responses it was given.\<close>

inductive runs :: "'s \<times> (string \<times> string \<times> idempotency_record) list \<Rightarrow>
    's \<times> (string \<times> string \<times> idempotency_record) list \<Rightarrow> bool"
where
  begins: "runs (s, log) (fst (begin_op k f t s), log)"
| completes: "complete_op k f r t s = (s', Inr ()) \<Longrightarrow> runs (s, log) (s', (k, f, stored r) # log)"
| fails: "complete_op k f r t s = (s', Inl e) \<Longrightarrow> runs (s, log) (s', log)"
| releases: "runs (s, log) (release_op k f t s, log)"

definition logged :: "'s \<Rightarrow> (string \<times> string \<times> idempotency_record) list \<Rightarrow> bool" where
  "logged s log \<longleftrightarrow> inv s \<and> (\<forall>k f r. view s k = Some (f, Some r) \<longrightarrow> (k, f, r) \<in> set log)"

lemma logged_submap:
  assumes "logged s log" and "inv s'" and "view s' \<subseteq>\<^sub>m (view s)(k \<mapsto> (f, x))"
    and "\<And>r. x = Some r \<Longrightarrow> (k, f, r) \<in> set log'" and "set log \<subseteq> set log'"
  shows "logged s' log'"
  using assms unfolding logged_def map_le_def
  by (metis domI fun_upd_apply option.inject prod.inject subsetD)

lemma logged_forget:
  assumes "logged s log" and "inv s'" and "view s' \<subseteq>\<^sub>m view s" and "set log \<subseteq> set log'"
  shows "logged s' log'"
  using assms unfolding logged_def map_le_def by (metis domI subsetD)

lemma runs_logged: "runs (s, log) (s', log') \<Longrightarrow> logged s log \<Longrightarrow> logged s' log'"
proof (induction "(s, log)" "(s', log')" rule: runs.induct)
  case (begins k f t)
  then have i: "inv s" "inv s'" using begin_inv by (auto simp: logged_def)
  obtain out where out: "begin_op k f t s = (s', out)"
    using begins by (metis prod.collapse)
  consider (err) e where "out = Inl e" | (lead) "out = Inr Leader" | (rep) r where "out = Inr (Replay r)"
    by (metis begin_outcome.exhaust sum.exhaust)
  then show ?case
  proof cases
    case err
    then show ?thesis using begin_refused i(1) out logged_forget [OF begins.prems i(2)] begins
      by blast
  next
    case lead
    then have "view s' \<subseteq>\<^sub>m (view s)(k \<mapsto> (f, None))" using begin_leader i(1) out by blast
    from logged_submap [OF begins.prems i(2) this] show ?thesis using begins by simp
  next
    case rep
    then show ?thesis using begin_replay i(1) out logged_forget [OF begins.prems i(2)] begins
      by blast
  qed
next
  case (completes k f r t)
  then have i: "inv s" "inv s'" using complete_inv [of s k f r t] by (auto simp: logged_def)
  from complete_ok [OF i(1) completes.hyps(1)]
  consider "view s' \<subseteq>\<^sub>m (view s)(k \<mapsto> (f, Some (stored r)))" | "view s' \<subseteq>\<^sub>m view s" by blast
  then have "logged s' ((k, f, stored r) # log)"
  proof cases
    case 1
    then show ?thesis by (intro logged_submap [OF completes.prems i(2)]) auto
  next
    case 2
    then show ?thesis by (intro logged_forget [OF completes.prems i(2)]) auto
  qed
  then show ?case using completes.hyps by simp
next
  case (fails k f r t e)
  then have i: "inv s" "inv s'" using complete_inv [of s k f r t] by (auto simp: logged_def)
  then show ?case using complete_err fails logged_forget by blast
next
  case (releases k f t)
  then have i: "inv s" by (simp add: logged_def)
  have "logged (release_op k f t s) log"
    by (rule logged_forget [OF releases.prems release_inv [OF i] release_view [OF i] order_refl])
  then show ?case using releases.hyps by simp
qed

text \<open>A replayed response was recorded for the same key and fingerprint.\<close>

lemma replay_was_recorded:
  assumes "runs\<^sup>*\<^sup>* (s0, []) (s, log)" and "inv s0" and "\<And>k. view s0 k = None"
    and "begin_op k f t s = (s', Inr (Replay r))"
  shows "(k, f, r) \<in> set log"
proof -
  have "logged s log"
    using assms(1)
  proof (induction "(s, log)" arbitrary: s log rule: rtranclp_induct)
    case base
    with assms(2,3) show ?case by (simp add: logged_def)
  next
    case (step y)
    then show ?case using runs_logged by (cases y) blast
  qed
  moreover then have "view s k = Some (f, Some r)"
    using begin_replay assms(4) by (simp add: logged_def)
  ultimately show ?thesis by (auto simp: logged_def)
qed

text \<open>While a reservation stands, no other request becomes its leader; a later request with the
  same key is refused or, once the response is there, replays it.\<close>

lemma reserved_not_leader:
  assumes "inv s" and "view s k = Some (f, x)"
  shows "begin_op k f' t s = (s', Inr Leader) \<Longrightarrow> view s' k = Some (f', None)"
    and "begin_op k f' t s = (s', Inr (Replay r)) \<Longrightarrow> f' = f \<and> x = Some r"
  using begin_leader begin_replay assms by fastforce+

end

subsection \<open>The in-memory store keeps the contract\<close>

definition idem_inv :: "idem_state \<Rightarrow> bool" where
  "idem_inv es = distinct (map fst es)"

definition idem_view :: "idem_state \<Rightarrow> string \<Rightarrow> (string \<times> idempotency_record option) option" where
  "idem_view es k = map_option (\<lambda>e. (ie_fingerprint e, ie_response e)) (map_of es k)"

lemma idem_view_mono: "map_of es \<subseteq>\<^sub>m map_of es' \<Longrightarrow> idem_view es \<subseteq>\<^sub>m idem_view es'"
  by (auto simp: map_le_def idem_view_def dom_def)

lemma map_of_filter_le: "distinct (map fst es) \<Longrightarrow> map_of (filter P es) \<subseteq>\<^sub>m map_of es"
proof (induction es)
  case (Cons x es)
  obtain k e where x: "x = (k, e)" by (cases x)
  have "map_of (filter P es) \<subseteq>\<^sub>m map_of es" using Cons by simp
  moreover have "map_of es k = None" using Cons.prems x by (simp add: map_of_eq_None_iff)
  ultimately show ?case
    by (auto simp: x map_le_def dom_def split: if_splits)
qed simp

lemma distinct_filter_keys: "distinct (map fst es) \<Longrightarrow> distinct (map fst (filter P es))"
  by (simp add: distinct_map_filter)

lemma evict_loop_filter: "\<exists>D. evict_loop me mb b oldest es = filter (\<lambda>x. fst x \<notin> D) es"
proof (induction me mb b oldest es rule: evict_loop.induct)
  case (1 me mb b es)
  have "es = filter (\<lambda>x. fst x \<notin> {}) es" by simp
  then show ?case by (metis evict_loop.simps(1))
next
  case (2 me mb b k e oldest es)
  show ?case
  proof (cases "length es \<le> me \<and> b \<le> mb")
    case True
    have "es = filter (\<lambda>x. fst x \<notin> {}) es" by simp
    with True show ?thesis by (metis evict_loop.simps(2))
  next
    case False
    with 2 obtain D where
      "evict_loop me mb b ((k, e) # oldest) es = filter (\<lambda>x. fst x \<notin> D) (AList.delete k es)"
      by (auto split: if_splits)
    then have "evict_loop me mb b ((k, e) # oldest) es = filter (\<lambda>x. fst x \<notin> insert k D) es"
      by (simp add: AList.delete_eq case_prod_beta conj_commute eq_commute [of k])
    then show ?thesis by blast
  qed
qed

lemma evict_over_budget_filter: "\<exists>P. evict_over_budget me mb es = filter P es"
proof (cases "me < length es \<or> mb < cached_bytes es")
  case True
  then have "evict_over_budget me mb es
      = evict_loop me mb (cached_bytes es) (sort_key (\<lambda>(k, e). ie_created e) es) es"
    by (auto simp: evict_over_budget_def Let_def)
  then show ?thesis using evict_loop_filter by metis
next
  case False
  then have "evict_over_budget me mb es = filter (\<lambda>_. True) es"
    by (simp add: evict_over_budget_def Let_def)
  then show ?thesis by blast
qed

lemma evict_over_budget_within:
  "length es \<le> me \<Longrightarrow> cached_bytes es \<le> mb \<Longrightarrow> evict_over_budget me mb es = es"
  by (simp add: evict_over_budget_def Let_def)

lemma purge_expired_filter: "\<exists>P. purge_expired now ttl me mb es = filter P es"
  unfolding purge_expired_def
  by (metis evict_over_budget_filter filter_filter)

lemma forget_le:
  assumes "idem_inv es"
  shows "idem_inv (purge_expired now ttl me mb es)" "idem_inv (evict_over_budget me mb es)"
    and "idem_view (purge_expired now ttl me mb es) \<subseteq>\<^sub>m idem_view es"
    and "idem_view (evict_over_budget me mb es) \<subseteq>\<^sub>m idem_view es"
  using assms evict_over_budget_filter [of me mb es] purge_expired_filter [of now ttl me mb es]
    map_of_filter_le [of es] distinct_filter_keys [of es] idem_view_mono
  by (auto simp: idem_inv_def)

lemma idem_view_update:
  "idem_view (AList.update k e es) = (idem_view es)(k \<mapsto> (ie_fingerprint e, ie_response e))"
  by (simp add: fun_eq_iff idem_view_def AList.update_conv')

lemma idem_view_None: "idem_view es k = None \<longleftrightarrow> map_of es k = None"
  by (simp add: idem_view_def)

lemma idem_view_le_Some:
  "map_of p k = Some e \<Longrightarrow> idem_view p \<subseteq>\<^sub>m idem_view es \<Longrightarrow>
     idem_view es k = Some (ie_fingerprint e, ie_response e)"
proof -
  assume "map_of p k = Some e" and le: "idem_view p \<subseteq>\<^sub>m idem_view es"
  then have v: "idem_view p k = Some (ie_fingerprint e, ie_response e)"
    by (simp add: idem_view_def)
  then have "k \<in> dom (idem_view p)" by (rule domI)
  with le v show ?thesis unfolding map_le_def by metis
qed

lemma distinct_update_keys: "distinct (map fst es) \<Longrightarrow> distinct (map fst (AList.update k e es))"
  by (rule AList.distinct_update)

lemma distinct_delete_keys: "distinct (map fst es) \<Longrightarrow> distinct (map fst (AList.delete k es))"
  by (rule AList.distinct_delete)

lemma mem_begin_view:
  assumes "idem_inv es" and "mem_begin now ttl k f es = (es', out)"
  shows "case out of
      Inr Leader \<Rightarrow> idem_view es' \<subseteq>\<^sub>m (idem_view es)(k \<mapsto> (f, None)) \<and> idem_view es' k = Some (f, None)
    | Inr (Replay r) \<Rightarrow> idem_view es' \<subseteq>\<^sub>m idem_view es \<and> idem_view es k = Some (f, Some r)
    | Inl e \<Rightarrow> idem_view es' \<subseteq>\<^sub>m idem_view es \<and>
        (\<exists>f' r. idem_view es k = Some (f', r) \<and> (f' \<noteq> f \<or> r = None))"
    and "idem_inv es'"
proof -
  let ?p = "purge_expired now ttl memory_max_entries memory_max_cached_bytes es"
  have le: "idem_view ?p \<subseteq>\<^sub>m idem_view es" and inv: "idem_inv ?p"
    using forget_le [OF assms(1)] by blast+
  show "idem_inv es'"
    using assms(2) inv distinct_update_keys
    by (auto simp: mem_begin_def Let_def idem_inv_def split: option.splits)
  show "case out of
      Inr Leader \<Rightarrow> idem_view es' \<subseteq>\<^sub>m (idem_view es)(k \<mapsto> (f, None)) \<and> idem_view es' k = Some (f, None)
    | Inr (Replay r) \<Rightarrow> idem_view es' \<subseteq>\<^sub>m idem_view es \<and> idem_view es k = Some (f, Some r)
    | Inl e \<Rightarrow> idem_view es' \<subseteq>\<^sub>m idem_view es \<and>
        (\<exists>f' r. idem_view es k = Some (f', r) \<and> (f' \<noteq> f \<or> r = None))"
  proof (cases "map_of ?p k")
    case None
    then show ?thesis
      using assms(2) le
      by (auto simp: mem_begin_def Let_def idem_view_update intro: map_le_upd)
  next
    case (Some e)
    then have "idem_view es k = Some (ie_fingerprint e, ie_response e)"
      using le by (rule idem_view_le_Some)
    then show ?thesis
      using Some assms(2) le by (auto simp: mem_begin_def Let_def split: if_splits option.splits)
  qed
qed

lemma mem_complete_view:
  assumes "idem_inv es" and "mem_complete now ttl k f r es = (es', out)"
  shows "case out of
      Inr _ \<Rightarrow> idem_view es' \<subseteq>\<^sub>m (idem_view es)(k \<mapsto> (f, Some r)) \<and> (\<exists>r'. idem_view es k = Some (f, r'))
    | Inl e \<Rightarrow> idem_view es' \<subseteq>\<^sub>m idem_view es"
    and "idem_inv es'"
proof -
  let ?p = "purge_expired now ttl memory_max_entries memory_max_cached_bytes es"
  have le: "idem_view ?p \<subseteq>\<^sub>m idem_view es" and inv: "idem_inv ?p"
    using forget_le [OF assms(1)] by blast+
  have upd: "idem_inv (AList.update k e ?p)" for e
    using inv distinct_update_keys by (simp add: idem_inv_def)
  show "idem_inv es'"
    using assms(2) inv forget_le(2) [OF upd]
    by (auto simp: mem_complete_def Let_def split: option.splits if_splits)
  show "case out of
      Inr _ \<Rightarrow> idem_view es' \<subseteq>\<^sub>m (idem_view es)(k \<mapsto> (f, Some r)) \<and> (\<exists>r'. idem_view es k = Some (f, r'))
    | Inl e \<Rightarrow> idem_view es' \<subseteq>\<^sub>m idem_view es"
  proof (cases "map_of ?p k")
    case None
    then show ?thesis using assms(2) le by (auto simp: mem_complete_def Let_def)
  next
    case (Some e)
    then have v: "idem_view es k = Some (ie_fingerprint e, ie_response e)"
      using le by (rule idem_view_le_Some)
    let ?u = "AList.update k (e\<lparr>ie_payload_bytes := length (ir_body r), ie_response := Some r\<rparr>) ?p"
    show ?thesis
    proof (cases "ie_fingerprint e = f")
      case True
      have "idem_view (evict_over_budget memory_max_entries memory_max_cached_bytes ?u) \<subseteq>\<^sub>m idem_view ?u"
        by (rule forget_le(4) [OF upd])
      moreover have "idem_view ?u \<subseteq>\<^sub>m (idem_view es)(k \<mapsto> (f, Some r))"
        using True le by (simp add: idem_view_update map_le_upd)
      ultimately have "idem_view (evict_over_budget memory_max_entries memory_max_cached_bytes ?u)
          \<subseteq>\<^sub>m (idem_view es)(k \<mapsto> (f, Some r))" by (rule map_le_trans)
      then show ?thesis using True Some assms(2) v by (auto simp: mem_complete_def Let_def)
    next
      case False
      then show ?thesis using Some assms(2) le by (auto simp: mem_complete_def Let_def)
    qed
  qed
qed

lemma mem_release_view:
  assumes "idem_inv es"
  shows "idem_view (mem_idem_release k f es)
      = (if idem_view es k = Some (f, None) then (idem_view es)(k := None) else idem_view es)"
    and "idem_inv (mem_idem_release k f es)"
proof -
  have "idem_view (AList.delete k es) = (idem_view es)(k := None)"
    by (simp add: fun_eq_iff idem_view_def AList.delete_conv')
  then show "idem_view (mem_idem_release k f es)
      = (if idem_view es k = Some (f, None) then (idem_view es)(k := None) else idem_view es)"
    by (auto simp: mem_idem_release_def idem_view_def split: option.splits)
  show "idem_inv (mem_idem_release k f es)"
    using assms distinct_delete_keys
    by (auto simp: mem_idem_release_def idem_inv_def split: option.splits)
qed

interpretation mem_idem: idempotency_store
  "\<lambda>k f t. mem_begin (fst t) (snd t) k f" "\<lambda>k f r t. mem_complete (fst t) (snd t) k f r"
  "\<lambda>k f _. mem_idem_release k f" idem_view idem_inv "\<lambda>r. r"
proof
  fix s s' :: idem_state and k f r and t :: "nat \<times> nat" and e
  show "idem_inv s \<Longrightarrow> idem_inv (fst (mem_begin (fst t) (snd t) k f s))"
    using mem_begin_view(2) by (metis prod.collapse)
  show "idem_inv s \<Longrightarrow> idem_inv (fst (mem_complete (fst t) (snd t) k f r s))"
    using mem_complete_view(2) by (metis prod.collapse)
  show "idem_inv s \<Longrightarrow> idem_inv (mem_idem_release k f s)" by (rule mem_release_view(2))
  show "idem_inv s \<Longrightarrow> mem_begin (fst t) (snd t) k f s = (s', Inr Leader) \<Longrightarrow>
      idem_view s' \<subseteq>\<^sub>m (idem_view s)(k \<mapsto> (f, None)) \<and> idem_view s' k = Some (f, None)"
    using mem_begin_view(1) [of s "fst t" "snd t" k f s' "Inr Leader"] by simp
  show "idem_inv s \<Longrightarrow> mem_begin (fst t) (snd t) k f s = (s', Inr (Replay r)) \<Longrightarrow>
      idem_view s' \<subseteq>\<^sub>m idem_view s \<and> idem_view s k = Some (f, Some r)"
    using mem_begin_view(1) [of s "fst t" "snd t" k f s' "Inr (Replay r)"] by simp
  show "idem_inv s \<Longrightarrow> mem_begin (fst t) (snd t) k f s = (s', Inl e) \<Longrightarrow>
      idem_view s' \<subseteq>\<^sub>m idem_view s \<and> (\<exists>f' r. idem_view s k = Some (f', r) \<and> (f' \<noteq> f \<or> r = None))"
    using mem_begin_view(1) [of s "fst t" "snd t" k f s' "Inl e"] by simp
  show "idem_inv s \<Longrightarrow> mem_complete (fst t) (snd t) k f r s = (s', Inr ()) \<Longrightarrow>
      (idem_view s' \<subseteq>\<^sub>m (idem_view s)(k \<mapsto> (f, Some r)) \<or> idem_view s' \<subseteq>\<^sub>m idem_view s)
        \<and> (\<exists>r'. idem_view s k = Some (f, r'))"
    using mem_complete_view(1) [of s "fst t" "snd t" k f r s' "Inr ()"] by simp
  show "idem_inv s \<Longrightarrow> mem_complete (fst t) (snd t) k f r s = (s', Inl e) \<Longrightarrow>
      idem_view s' \<subseteq>\<^sub>m idem_view s"
    using mem_complete_view(1) [of s "fst t" "snd t" k f r s' "Inl e"] by simp
  show "idem_inv s \<Longrightarrow> idem_view (mem_idem_release k f s) \<subseteq>\<^sub>m idem_view s"
    by (simp add: mem_release_view(1) map_le_def)
  show "idem_inv s \<Longrightarrow> idem_view s k = Some (f, None) \<Longrightarrow> idem_view (mem_idem_release k f s) k = None"
    by (simp add: mem_release_view(1))
qed

text \<open>C10: However reservations, completions and releases are interleaved, a response the
  in-memory store replays was recorded by a completion with the same key and the same
  request fingerprint.\<close>

theorem memory_replay_was_recorded:
  assumes "mem_idem.runs\<^sup>*\<^sup>* ([], []) (es, log)"
    and "mem_begin now ttl k f es = (es', Inr (Replay r))"
  shows "(k, f, r) \<in> set log"
  using mem_idem.replay_was_recorded [OF assms(1), where k = k and f = f and t = "(now, ttl)"
      and s' = es' and r = r] assms(2)
  by (simp add: idem_inv_def idem_view_def)

theorem memory_replay_was_recorded_witness:
  "(''k'', ''f'', \<lparr>ir_status_code = 201, ir_body = ''ok'', ir_content_type = None\<rparr>) \<in>
     set [(''k'', ''f'', \<lparr>ir_status_code = 201, ir_body = ''ok'', ir_content_type = None\<rparr>)]"
proof -
  let ?r = "\<lparr>ir_status_code = 201, ir_body = ''ok'', ir_content_type = None\<rparr>"
  let ?s1 = "fst (mem_begin 0 100 ''k'' ''f'' [])"
  have 1: "mem_idem.runs ([], []) (?s1, [])"
    using mem_idem.runs.begins [where s = "[]" and log = "[]" and k = "''k''" and f = "''f''"
        and t = "(0, 100)"] by simp
  have c: "mem_complete 5 100 ''k'' ''f'' ?r ?s1
      = ([(''k'', \<lparr>ie_fingerprint = ''f'', ie_response = Some ?r, ie_payload_bytes = 2, ie_created = 0\<rparr>)], Inr ())"
    by code_simp
  then have 2: "mem_idem.runs (?s1, [])
      ([(''k'', \<lparr>ie_fingerprint = ''f'', ie_response = Some ?r, ie_payload_bytes = 2, ie_created = 0\<rparr>)],
       [(''k'', ''f'', ?r)])"
    using mem_idem.runs.completes [where k = "''k''" and f = "''f''" and r = ?r and t = "(5, 100)"
        and s = ?s1] by simp
  have b: "mem_begin 9 100 ''k'' ''f''
      [(''k'', \<lparr>ie_fingerprint = ''f'', ie_response = Some ?r, ie_payload_bytes = 2, ie_created = 0\<rparr>)]
    = ([(''k'', \<lparr>ie_fingerprint = ''f'', ie_response = Some ?r, ie_payload_bytes = 2, ie_created = 0\<rparr>)],
       Inr (Replay ?r))"
    by code_simp
  show ?thesis
    by (rule memory_replay_was_recorded [OF _ b]) (use 1 2 in \<open>auto intro: rtranclp_trans\<close>)
qed

subsection \<open>Eviction\<close>

definition payload_sum :: "(string \<times> idem_entry) multiset \<Rightarrow> nat" where
  "payload_sum M = (\<Sum>x\<in>#M. ie_payload_bytes (snd x))"

lemma cached_bytes_mset: "cached_bytes es = payload_sum (mset es)"
  by (simp add: cached_bytes_def payload_sum_def case_prod_unfold flip: sum_mset_sum_list)

lemma mset_delete:
  assumes "distinct (map fst es)" and "(k, e) \<in> set es"
  shows "mset (AList.delete k es) = mset es - {#(k, e)#}"
  using assms
proof (induction es)
  case (Cons x es)
  obtain k' e' where x: "x = (k', e')" by (cases x)
  show ?case
  proof (cases "k' = k")
    case True
    with Cons.prems x have "e' = e" "k \<notin> fst ` set es" by (auto simp: rev_image_eqI)
    with True x show ?thesis by (simp add: AList.delete_idem)
  next
    case False
    with Cons x show ?thesis by (auto simp: diff_add_mset_swap)
  qed
qed simp

text \<open>The loop removes a shortest initial segment of the candidates that brings the rest within
  budget.\<close>

lemma evict_loop_spec:
  assumes "distinct (map fst es)" and "mset es = mset oldest" and "b = cached_bytes es"
  shows "\<exists>n \<le> length oldest. mset (evict_loop me mb b oldest es) = mset (drop n oldest)
     \<and> length oldest - n \<le> me \<and> payload_sum (mset (drop n oldest)) \<le> mb
     \<and> (\<forall>i < n. me < length oldest - i \<or> mb < payload_sum (mset (drop i oldest)))"
  using assms
proof (induction oldest arbitrary: es b)
  case Nil
  then show ?case by (simp add: cached_bytes_mset payload_sum_def)
next
  case (Cons x oldest)
  obtain k e where x: "x = (k, e)" by (cases x)
  have len: "length es = Suc (length oldest)" using Cons.prems(2) by (metis length_Cons mset_eq_length)
  show ?case
  proof (cases "length es \<le> me \<and> b \<le> mb")
    case True
    then show ?thesis
      using Cons.prems len by (intro exI [of _ 0]) (simp add: x cached_bytes_mset)
  next
    case False
    have mem: "(k, e) \<in> set es" using Cons.prems(2) x by (metis list.set_intros(1) set_mset_mset)
    then have found: "map_of es k = Some e" using Cons.prems(1) by simp
    let ?d = "AList.delete k es"
    have m: "mset ?d = mset oldest"
      using mset_delete [OF Cons.prems(1) mem] Cons.prems(2) x by simp
    have "b = ie_payload_bytes e + cached_bytes ?d"
      using Cons.prems(2,3) x m by (simp add: cached_bytes_mset payload_sum_def)
    then have b: "b - ie_payload_bytes e = cached_bytes ?d" by simp
    have step: "evict_loop me mb b (x # oldest) es = evict_loop me mb (cached_bytes ?d) oldest ?d"
      unfolding x evict_loop.simps(2) if_not_P [OF False] by (simp add: found b)
    obtain n where n: "n \<le> length oldest"
        "mset (evict_loop me mb (cached_bytes ?d) oldest ?d) = mset (drop n oldest)"
        "length oldest - n \<le> me" "payload_sum (mset (drop n oldest)) \<le> mb"
        "\<forall>i < n. me < length oldest - i \<or> mb < payload_sum (mset (drop i oldest))"
      using Cons.IH [OF distinct_delete_keys [OF Cons.prems(1)] m refl] by blast
    have "me < length (x # oldest) \<or> mb < payload_sum (mset (x # oldest))"
      using False Cons.prems(2,3) len by (auto simp: cached_bytes_mset)
    then have "\<forall>i < Suc n. me < length (x # oldest) - i \<or> mb < payload_sum (mset (drop i (x # oldest)))"
      using n(5) by (auto simp: less_Suc_eq_0_disj)
    then show ?thesis
      using n step by (intro exI [of _ "Suc n"]) simp
  qed
qed



subsection \<open>One flight per key\<close>

text \<open>A sequence of timed calls of the store with its answers.\<close>

datatype idem_call =
    BeginCall string string | CompleteCall string string idempotency_record | ReleaseCall string string

datatype idem_answer = Begun "web_error + begin_outcome" | Completed "web_error + unit" | Released

fun idem_step :: "nat \<Rightarrow> nat \<Rightarrow> idem_call \<Rightarrow> idem_state \<Rightarrow> idem_state \<times> idem_answer" where
  "idem_step ttl now (BeginCall k f) es = (case mem_begin now ttl k f es of (es, a) \<Rightarrow> (es, Begun a))"
| "idem_step ttl now (CompleteCall k f r) es =
     (case mem_complete now ttl k f r es of (es, a) \<Rightarrow> (es, Completed a))"
| "idem_step ttl now (ReleaseCall k f) es = (mem_idem_release k f es, Released)"

fun idem_trace :: "nat \<Rightarrow> (nat \<times> idem_call) list \<Rightarrow> idem_state \<Rightarrow> (idem_call \<times> idem_answer) list" where
  "idem_trace ttl [] es = []"
| "idem_trace ttl ((now, c) # cs) es =
     (case idem_step ttl now c es of (es, a) \<Rightarrow> (c, a) # idem_trace ttl cs es)"

text \<open>What one reservation of \<open>k\<close> with fingerprint \<open>f\<close> promises the callers of its key until its
  leader gives it up, where \<open>resp\<close> is the response it was completed with last. The calls of
  other keys may be answered in any way.\<close>

fun one_flight ::
  "string \<Rightarrow> string \<Rightarrow> idempotency_record option \<Rightarrow> (idem_call \<times> idem_answer) list \<Rightarrow> bool" where
  "one_flight k f resp [] = True"
| "one_flight k f resp ((BeginCall k' f', a) # rest) =
     ((k' = k \<longrightarrow> a = Begun (if f' \<noteq> f
          then Inl (conflict ''idempotency key was already used with a different request fingerprint'')
          else case resp of Some r \<Rightarrow> Inr (Replay r)
            | None \<Rightarrow> Inl (conflict ''idempotency key is already in progress'')))
      \<and> one_flight k f resp rest)"
| "one_flight k f resp ((CompleteCall k' f' r, a) # rest) =
     (if k' \<noteq> k then one_flight k f resp rest
      else if f' = f then a = Completed (Inr ()) \<and> one_flight k f (Some r) rest
      else a = Completed (Inl (conflict ''idempotency key fingerprint mismatch while completing response''))
        \<and> one_flight k f resp rest)"
| "one_flight k f resp ((ReleaseCall k' f', a) # rest) =
     ((k' = k \<and> f' = f \<and> resp = None) \<or> one_flight k f resp rest)"

text \<open>What the calls of a sequence can add to the store.\<close>

fun added_entries :: "idem_call \<Rightarrow> nat" where
  "added_entries (BeginCall k f) = 1" | "added_entries _ = 0"

fun added_bytes :: "idem_call \<Rightarrow> nat" where
  "added_bytes (CompleteCall k f r) = length (ir_body r)" | "added_bytes _ = 0"

definition room_for :: "(nat \<times> idem_call) list \<Rightarrow> idem_state \<Rightarrow> bool" where
  "room_for cs es \<longleftrightarrow> length es + (\<Sum>(t, c)\<leftarrow>cs. added_entries c) \<le> memory_max_entries
     \<and> cached_bytes es + (\<Sum>(t, c)\<leftarrow>cs. added_bytes c) \<le> memory_max_cached_bytes"

lemma cached_bytes_filter: "cached_bytes (filter P es) \<le> cached_bytes es"
  by (induction es) (auto simp: cached_bytes_def)

lemma cached_bytes_update: "cached_bytes (AList.update k e es) \<le> cached_bytes es + ie_payload_bytes e"
  by (induction es) (auto simp: cached_bytes_def)

lemma length_update: "length (AList.update k e es) = length es + (if map_of es k = None then 1 else 0)"
  by (induction es) auto

lemma purge_within:
  assumes "length es \<le> memory_max_entries" "cached_bytes es \<le> memory_max_cached_bytes"
  shows "purge_expired now ttl memory_max_entries memory_max_cached_bytes es
    = filter (\<lambda>(k, e). now - ie_created e < ttl) es"
  unfolding purge_expired_def
  using assms
  by (intro evict_over_budget_within le_trans [OF length_filter_le] le_trans [OF cached_bytes_filter])

lemma map_of_kept:
  assumes "distinct (map fst es)" and "map_of es k = Some e" and "now - ie_created e < ttl"
  shows "map_of (filter (\<lambda>(k, e). now - ie_created e < ttl) es) k = Some e"
proof -
  have "(k, e) \<in> set (filter (\<lambda>(k, e). now - ie_created e < ttl) es)"
    using map_of_SomeD [OF assms(2)] assms(3) by simp
  then show ?thesis using distinct_filter_keys [OF assms(1)] by simp
qed

text \<open>The reservation of a key, as the store keeps it.\<close>

definition flying :: "string \<Rightarrow> string \<Rightarrow> nat \<Rightarrow> idempotency_record option \<Rightarrow> idem_state \<Rightarrow> bool" where
  "flying k f t0 resp es \<longleftrightarrow> distinct (map fst es) \<and>
     (\<exists>e. map_of es k = Some e \<and> ie_fingerprint e = f \<and> ie_response e = resp \<and> ie_created e = t0)"

lemma flying_purged:
  assumes "flying k f t0 resp es" and "room_for cs es" and "now - t0 < ttl"
  defines "p \<equiv> purge_expired now ttl memory_max_entries memory_max_cached_bytes es"
  shows "flying k f t0 resp p" and "room_for cs p"
proof -
  have p: "p = filter (\<lambda>(k, e). now - ie_created e < ttl) es"
    unfolding p_def using assms(2) by (intro purge_within) (auto simp: room_for_def)
  show "flying k f t0 resp p"
    using assms(1,3) map_of_kept [of es k] distinct_filter_keys [of es]
    unfolding p flying_def by blast
  show "room_for cs p"
    using assms(2) cached_bytes_filter [of "\<lambda>(k, e). now - ie_created e < ttl" es]
      length_filter_le [of "\<lambda>(k, e). now - ie_created e < ttl" es]
    unfolding p room_for_def by linarith
qed

lemma flying_update:
  assumes "flying k f t0 resp es"
  shows "k' \<noteq> k \<Longrightarrow> flying k f t0 resp (AList.update k' e es)"
    and "ie_fingerprint e = f \<Longrightarrow> ie_created e = t0 \<Longrightarrow> flying k f t0 (ie_response e) (AList.update k e es)"
  using assms distinct_update_keys by (auto simp: flying_def AList.update_conv')

lemma room_ConsD: "room_for (x # cs) es \<Longrightarrow> room_for cs es"
  by (auto simp: room_for_def split: prod.splits)

lemma flight_begin:
  assumes "flying k f t0 resp es" and "room_for ((now, BeginCall k' f') # cs) es" and "now - t0 < ttl"
    and "mem_begin now ttl k' f' es = (es', out)"
  shows "flying k f t0 resp es'" and "room_for cs es'"
    and "k' = k \<Longrightarrow> out = (if f' \<noteq> f
          then Inl (conflict ''idempotency key was already used with a different request fingerprint'')
          else case resp of Some r \<Rightarrow> Inr (Replay r)
            | None \<Rightarrow> Inl (conflict ''idempotency key is already in progress''))"
proof -
  let ?p = "purge_expired now ttl memory_max_entries memory_max_cached_bytes es"
  note p = flying_purged [OF assms(1-3)]
  obtain e where e: "map_of ?p k = Some e" "ie_fingerprint e = f" "ie_response e = resp"
    using p(1) by (auto simp: flying_def)
  have new: "k' \<noteq> k" "es' = AList.update k' \<lparr>ie_fingerprint = f', ie_response = None,
      ie_payload_bytes = 0, ie_created = now\<rparr> ?p" if "map_of ?p k' = None"
    using that e(1) assms(4) by (auto simp: mem_begin_def Let_def)
  have old: "es' = ?p" if "map_of ?p k' \<noteq> None"
    using that assms(4) by (auto simp: mem_begin_def Let_def)
  show "flying k f t0 resp es'"
    using p(1) new old flying_update(1) by (cases "map_of ?p k' = None") auto
  show "room_for cs es'"
  proof (cases "map_of ?p k' = None")
    case True
    let ?e = "\<lparr>ie_fingerprint = f', ie_response = None, ie_payload_bytes = 0, ie_created = now\<rparr>"
    from p(2) cached_bytes_update [of k' ?e ?p] show ?thesis
      unfolding new(2) [OF True] by (simp add: room_for_def length_update True)
  next
    case False
    with old room_ConsD [OF p(2)] show ?thesis by simp
  qed
  assume "k' = k"
  with e assms(4) show "out = (if f' \<noteq> f
          then Inl (conflict ''idempotency key was already used with a different request fingerprint'')
          else case resp of Some r \<Rightarrow> Inr (Replay r)
            | None \<Rightarrow> Inl (conflict ''idempotency key is already in progress''))"
    by (auto simp: mem_begin_def Let_def)
qed

lemma flight_complete:
  assumes "flying k f t0 resp es" and "room_for ((now, CompleteCall k' f' r) # cs) es" and "now - t0 < ttl"
    and "mem_complete now ttl k' f' r es = (es', out)"
  shows "room_for cs es'" and "flying k f t0 (if k' = k \<and> f' = f then Some r else resp) es'"
    and "k' = k \<Longrightarrow> out = (if f' = f then Inr ()
      else Inl (conflict ''idempotency key fingerprint mismatch while completing response''))"
proof -
  let ?p = "purge_expired now ttl memory_max_entries memory_max_cached_bytes es"
  note p = flying_purged [OF assms(1-3)]
  obtain e where e: "map_of ?p k = Some e" "ie_fingerprint e = f" "ie_response e = resp" "ie_created e = t0"
    using p(1) by (auto simp: flying_def)
  show "k' = k \<Longrightarrow> out = (if f' = f then Inr ()
      else Inl (conflict ''idempotency key fingerprint mismatch while completing response''))"
    using e assms(4) by (auto simp: mem_complete_def Let_def split: if_splits)
  have "room_for cs es' \<and> flying k f t0 (if k' = k \<and> f' = f then Some r else resp) es'"
  proof (cases "\<exists>d. map_of ?p k' = Some d \<and> ie_fingerprint d = f'")
    case False
    with assms(4) have "es' = ?p" by (auto simp: mem_complete_def Let_def split: option.splits if_splits)
    with False e p room_ConsD [OF p(2)] show ?thesis by auto
  next
    case True
    then obtain d where d: "map_of ?p k' = Some d" "ie_fingerprint d = f'" by blast
    let ?d = "d\<lparr>ie_payload_bytes := length (ir_body r), ie_response := Some r\<rparr>"
    let ?u = "AList.update k' ?d ?p"
    have u: "length ?u = length ?p" "cached_bytes ?u \<le> cached_bytes ?p + length (ir_body r)"
      using cached_bytes_update [of k' ?d ?p] by (simp_all add: length_update d)
    with p(2) have w: "room_for cs ?u" by (simp add: room_for_def)
    then have "evict_over_budget memory_max_entries memory_max_cached_bytes ?u = ?u"
      by (intro evict_over_budget_within) (auto simp: room_for_def)
    then have es': "es' = ?u" using d assms(4) by (auto simp: mem_complete_def Let_def)
    show ?thesis
    proof (cases "k' = k")
      case True
      with d e have "d = e" "f' = f" by simp_all
      with flying_update(2) [OF p(1), of ?d] e w True es' show ?thesis by simp
    next
      case False
      with flying_update(1) [OF p(1) False] w es' show ?thesis by simp
    qed
  qed
  then show "room_for cs es'" and "flying k f t0 (if k' = k \<and> f' = f then Some r else resp) es'" by auto
qed

lemma flight_release:
  assumes "flying k f t0 resp es" and "room_for ((now, ReleaseCall k' f') # cs) es"
    and "\<not> (k' = k \<and> f' = f \<and> resp = None)"
  shows "flying k f t0 resp (mem_idem_release k' f' es)" and "room_for cs (mem_idem_release k' f' es)"
proof -
  have "length (AList.delete k' es) \<le> length es" "cached_bytes (AList.delete k' es) \<le> cached_bytes es"
    using cached_bytes_filter by (simp_all add: AList.delete_eq)
  then show "room_for cs (mem_idem_release k' f' es)"
    using assms(2) by (auto simp: mem_idem_release_def room_for_def split: option.split)
  show "flying k f t0 resp (mem_idem_release k' f' es)"
    using assms(1,3) distinct_delete_keys
    by (auto simp: mem_idem_release_def flying_def AList.delete_conv' split: option.split)
qed

lemma flight_trace:
  assumes "flying k f t0 resp es" and "room_for cs es" and "\<forall>(t, c) \<in> set cs. t - t0 < ttl"
  shows "one_flight k f resp (idem_trace ttl cs es)"
  using assms
proof (induction cs arbitrary: es resp)
  case (Cons x cs)
  obtain now c where x: "x = (now, c)" by (cases x)
  obtain es' a where a: "idem_step ttl now c es = (es', a)" by force
  have t: "now - t0 < ttl" "\<forall>(t, c) \<in> set cs. t - t0 < ttl" using Cons.prems(3) x by auto
  note IH = Cons.IH [OF _ _ t(2)]
  show ?case
  proof (cases c)
    case (BeginCall k' f')
    then obtain out where o1: "mem_begin now ttl k' f' es = (es', out)" "a = Begun out"
      using a by (auto split: prod.splits)
    with flight_begin [OF Cons.prems(1) Cons.prems(2) [unfolded x BeginCall] t(1) o1(1)] IH
    show ?thesis by (simp add: x BeginCall)
  next
    case (CompleteCall k' f' r)
    then obtain out where o1: "mem_complete now ttl k' f' r es = (es', out)" "a = Completed out"
      using a by (auto split: prod.splits)
    with flight_complete [OF Cons.prems(1) Cons.prems(2) [unfolded x CompleteCall] t(1) o1(1)] IH
    show ?thesis by (auto simp: x CompleteCall)
  next
    case (ReleaseCall k' f')
    show ?thesis
    proof (cases "k' = k \<and> f' = f \<and> resp = None")
      case False
      from flight_release [OF Cons.prems(1) Cons.prems(2) [unfolded x ReleaseCall] False] IH a ReleaseCall
      show ?thesis by (auto simp: x)
    qed (simp add: x ReleaseCall)
  qed
qed simp

text \<open>C7: From the moment a caller has become the leader of a key in a store whose keys are distinct,
  as those of a hash map are, until the key is released unanswered under the leader's fingerprint,
  within the retention time, which is the same in all calls, and as long as the calls made cannot
  fill the store, however calls of any keys follow one another: no second caller becomes leader of
  the key; one with another fingerprint is refused as a conflict and cannot complete the key; one
  with the same fingerprint is refused as still in progress until the key is completed under it,
  which succeeds, and from then on replays exactly the response of the last completion, which a
  release no longer takes away.\<close>

theorem memory_single_flight:
  assumes "mem_begin t0 ttl k f es = (es1, Inr Leader)" and "distinct (map fst es)"
    and "\<forall>(t, c) \<in> set cs. t - t0 < ttl" and "room_for ((t0, BeginCall k f) # cs) es"
  shows "one_flight k f None (idem_trace ttl cs es1)"
proof (rule flight_trace)
  let ?p = "purge_expired t0 ttl memory_max_entries memory_max_cached_bytes es"
  let ?e = "\<lparr>ie_fingerprint = f, ie_response = None, ie_payload_bytes = 0, ie_created = t0\<rparr>"
  have p: "?p = filter (\<lambda>(k, e). t0 - ie_created e < ttl) es"
    using assms(4) by (intro purge_within) (auto simp: room_for_def)
  have es1: "map_of ?p k = None" "es1 = AList.update k ?e ?p"
    using assms(1) by (auto simp: mem_begin_def Let_def split: option.splits if_splits)
  show "flying k f t0 None es1"
    using distinct_update_keys [OF distinct_filter_keys [OF assms(2)]]
    by (simp add: flying_def es1(2) p AList.update_conv')
  have "length ?p \<le> length es" "cached_bytes ?p \<le> cached_bytes es"
    unfolding p by (rule length_filter_le cached_bytes_filter)+
  then show "room_for cs es1"
    using assms(4) cached_bytes_update [of k ?e ?p] unfolding es1(2)
    by (simp add: room_for_def length_update es1(1))
qed (rule assms(3))

theorem memory_single_flight_witness:
  "\<exists>r. idem_trace 100 [(5, BeginCall ''k'' ''f''), (6, CompleteCall ''k'' ''f'' r), (7, ReleaseCall ''k'' ''f''),
        (9, BeginCall ''k'' ''f''), (9, BeginCall ''k'' ''g'')] (fst (mem_begin 3 100 ''k'' ''f'' []))
     = [(BeginCall ''k'' ''f'', Begun (Inl (conflict ''idempotency key is already in progress''))),
        (CompleteCall ''k'' ''f'' r, Completed (Inr ())), (ReleaseCall ''k'' ''f'', Released),
        (BeginCall ''k'' ''f'', Begun (Inr (Replay r))),
        (BeginCall ''k'' ''g'', Begun (Inl (conflict
           ''idempotency key was already used with a different request fingerprint'')))]"
proof (rule exI)
  let ?r = "\<lparr>ir_status_code = 201, ir_body = ''ok'', ir_content_type = None\<rparr>"
  let ?cs = "[(5, BeginCall ''k'' ''f''), (6, CompleteCall ''k'' ''f'' ?r), (7, ReleaseCall ''k'' ''f''),
        (9, BeginCall ''k'' ''f''), (9, BeginCall ''k'' ''g'')]"
  have b: "mem_begin 3 100 ''k'' ''f'' [] = (fst (mem_begin 3 100 ''k'' ''f'' []), Inr Leader)" by code_simp
  have "one_flight ''k'' ''f'' None (idem_trace 100 ?cs (fst (mem_begin 3 100 ''k'' ''f'' [])))"
    by (rule memory_single_flight [OF b]) (simp_all add: room_for_def memory_max_entries_def
        memory_max_cached_bytes_def cached_bytes_def)
  moreover have "map fst (idem_trace 100 ?cs (fst (mem_begin 3 100 ''k'' ''f'' []))) = map snd ?cs"
    by (simp split: prod.splits)
  ultimately show "idem_trace 100 ?cs (fst (mem_begin 3 100 ''k'' ''f'' []))
     = [(BeginCall ''k'' ''f'', Begun (Inl (conflict ''idempotency key is already in progress''))),
        (CompleteCall ''k'' ''f'' ?r, Completed (Inr ())), (ReleaseCall ''k'' ''f'', Released),
        (BeginCall ''k'' ''f'', Begun (Inr (Replay ?r))),
        (BeginCall ''k'' ''g'', Begun (Inl (conflict
           ''idempotency key was already used with a different request fingerprint'')))]"
    by (auto split: prod.splits)
qed

end
