(* ===== verification/Effects.thy ===== *)
theory Effects
  imports Request_Keys
begin

section \<open>Asynchronous operations as actions on a world\<close>

text \<open>
  The stores, resolvers, emitters and policy sources a runtime is assembled from are trait
  objects with their own state. An \<open>async fn\<close> of such an object is an \<open>action\<close>: it takes the
  state \<^typ>\<open>'w\<close> of everything outside the pipeline and returns the new state with its
  result. Awaiting one operation after the other is \<open>act_bind\<close>, which stops at the first
  \<open>Err\<close> and keeps what was done before it, as the \<open>?\<close> operator does.
\<close>

type_synonym ('w, 'a) action = "'w \<Rightarrow> 'w \<times> (web_error + 'a)"

definition act_return :: "'a \<Rightarrow> ('w, 'a) action" where
  "act_return a w = (w, Inr a)"

definition act_fail :: "web_error \<Rightarrow> ('w, 'a) action" where
  "act_fail e w = (w, Inl e)"

definition act_lift :: "web_error + 'a \<Rightarrow> ('w, 'a) action" where
  "act_lift r w = (w, r)"

definition act_bind :: "('w, 'a) action \<Rightarrow> ('a \<Rightarrow> ('w, 'b) action) \<Rightarrow> ('w, 'b) action" where
  "act_bind m f w = (case m w of (w', Inl e) \<Rightarrow> (w', Inl e) | (w', Inr a) \<Rightarrow> f a w')"

definition act_get :: "('w \<Rightarrow> 'a) \<Rightarrow> ('w, 'a) action" where
  "act_get f w = (w, Inr (f w))"

definition act_modify :: "('w \<Rightarrow> 'w) \<Rightarrow> ('w, unit) action" where
  "act_modify f w = (f w, Inr ())"

text \<open>\<open>act_try m h\<close> is \<open>if let Err(error) = m { h(error)?; return Err(error) }\<close>.\<close>

definition act_on_error :: "('w, 'a) action \<Rightarrow> (web_error \<Rightarrow> ('w, unit) action) \<Rightarrow> ('w, 'a) action"
where
  "act_on_error m h w =
     (case m w of
        (w', Inr a) \<Rightarrow> (w', Inr a)
      | (w', Inl e) \<Rightarrow> act_bind (h e) (\<lambda>_. act_fail e) w')"

text \<open>Steps one after the other, and a step taken only where a condition on the state holds.\<close>

fun act_seq :: "('w, unit) action list \<Rightarrow> ('w, unit) action" where
  "act_seq [] = act_return ()"
| "act_seq (m # ms) = act_bind m (\<lambda>_. act_seq ms)"

definition act_when :: "('w \<Rightarrow> bool) \<Rightarrow> ('w, unit) action \<Rightarrow> ('w, unit) action" where
  "act_when P m w = (if P w then m w else (w, Inr ()))"

text \<open>A check that reads the state, and the same with a computed value for the rest.\<close>

definition act_check :: "('w \<Rightarrow> web_error + 'a) \<Rightarrow> ('w, 'a) action" where
  "act_check f w = (w, f w)"

definition act_with :: "('w \<Rightarrow> ('w, 'a) action) \<Rightarrow> ('w, 'a) action" where
  "act_with f w = f w w"

lemma act_simps [simp, result_simps]:
  "act_return a w = (w, Inr a)"
  "act_fail e w = (w, Inl e)"
  "act_lift r w = (w, r)"
  "act_get f w = (w, Inr (f w))"
  "act_modify g w = (g w, Inr ())"
  "act_check h w = (w, h w)"
  "act_when P m w = (if P w then m w else (w, Inr ()))"
  "act_with k w = k w w"
  by (simp_all add: act_return_def act_fail_def act_lift_def act_get_def act_modify_def
      act_check_def act_when_def act_with_def)

lemma act_bind_step [simp, result_simps]:
  "m w = (w', Inl e) \<Longrightarrow> act_bind m f w = (w', Inl e)"
  "m w = (w', Inr a) \<Longrightarrow> act_bind m f w = f a w'"
  by (simp_all add: act_bind_def)

lemma act_bind_Inr:
  "act_bind m f w = (w', Inr b) \<longleftrightarrow> (\<exists>w'' a. m w = (w'', Inr a) \<and> f a w'' = (w', Inr b))"
  by (auto simp: act_bind_def split: prod.splits sum.splits)

lemma act_bind_Inl:
  "act_bind m f w = (w', Inl e) \<longleftrightarrow>
     m w = (w', Inl e) \<or> (\<exists>w'' a. m w = (w'', Inr a) \<and> f a w'' = (w', Inl e))"
  by (auto simp: act_bind_def split: prod.splits sum.splits)

lemma act_on_error_Inr:
  "act_on_error m h w = (w', Inr a) \<longleftrightarrow> m w = (w', Inr a)"
  by (auto simp: act_on_error_def act_bind_Inr split: prod.splits sum.splits)

lemma act_on_error_fails:
  "m w = (w', Inl e) \<Longrightarrow> \<exists>w'' e'. act_on_error m h w = (w'', Inl e')"
  by (cases "h e w'"; cases "snd (h e w')") (auto simp: act_on_error_def act_bind_def)

subsection \<open>What an action leaves alone\<close>

text \<open>\<open>keeps f m\<close>: whatever \<open>m\<close> returns, it leaves the component \<open>f\<close> of the state as it was.\<close>

definition keeps :: "('w \<Rightarrow> 'c) \<Rightarrow> ('w, 'a) action \<Rightarrow> bool" where
  "keeps f m \<longleftrightarrow> (\<forall>w. f (fst (m w)) = f w)"

named_theorems keeps_intros \<open>composition of framed actions\<close>

lemma keepsD: "keeps f m \<Longrightarrow> m w = (w', r) \<Longrightarrow> f w' = f w"
  by (auto simp: keeps_def dest!: spec [of _ w])

lemma keeps_basic [keeps_intros]:
  "keeps f (act_return a)" "keeps f (act_fail e)" "keeps f (act_lift r)" "keeps f (act_get h)"
  "keeps f (act_check q)"
  by (simp_all add: keeps_def)

lemma keeps_modify [keeps_intros]: "(\<And>w. f (g w) = f w) \<Longrightarrow> keeps f (act_modify g)"
  by (simp add: keeps_def)

lemma keeps_bind [keeps_intros]:
  assumes "keeps f m" and "\<And>a. keeps f (k a)"
  shows "keeps f (act_bind m k)"
  unfolding keeps_def
proof
  fix w
  obtain v r where m: "m w = (v, r)" by (cases "m w")
  with assms(1) have "f v = f w" by (rule keepsD)
  then show "f (fst (act_bind m k w)) = f w"
    using assms(2) by (cases r) (simp_all add: m keeps_def)
qed

lemma keeps_when [keeps_intros]: "keeps f m \<Longrightarrow> keeps f (act_when P m)"
  by (simp add: keeps_def)

lemma keeps_with [keeps_intros]: "(\<And>w. keeps f (k w)) \<Longrightarrow> keeps f (act_with k)"
  by (simp add: keeps_def)

lemma keeps_on_error [keeps_intros]:
  fixes m :: "('w, 'a) action"
  assumes "keeps f m" and "\<And>e. keeps f (h e)"
  shows "keeps f (act_on_error m h)"
  unfolding keeps_def
proof
  fix w
  obtain v r where m: "m w = (v, r)" by (cases "m w")
  with assms(1) have v: "f v = f w" by (rule keepsD)
  show "f (fst (act_on_error m h w)) = f w"
  proof (cases r)
    case (Inl e)
    have "keeps f (act_bind (h e) (\<lambda>_. act_fail e :: ('w, 'a) action))" by (intro keeps_bind keeps_basic assms(2))
    with v Inl show ?thesis by (simp add: act_on_error_def m keeps_def)
  qed (simp add: act_on_error_def m v)
qed

lemma keeps_seq [keeps_intros]: "(\<And>m. m \<in> set ms \<Longrightarrow> keeps f m) \<Longrightarrow> keeps f (act_seq ms)"
  by (induction ms) (auto intro: keeps_basic keeps_bind)

lemma act_seq_Inr:
  "act_seq (m # ms) w = (w', Inr ()) \<longleftrightarrow> (\<exists>v. m w = (v, Inr ()) \<and> act_seq ms v = (w', Inr ()))"
  by (simp add: act_bind_Inr)

lemma act_seq_append_Inr:
  "act_seq (ms @ ns) w = (w', Inr ()) \<longleftrightarrow>
     (\<exists>v. act_seq ms w = (v, Inr ()) \<and> act_seq ns v = (w', Inr ()))"
  by (induction ms arbitrary: w) (auto simp: act_bind_Inr)

text \<open>\<open>preserves I m\<close>: an invariant of the state that \<open>m\<close> establishes again, whatever it returns.\<close>

definition preserves :: "('w \<Rightarrow> bool) \<Rightarrow> ('w, 'a) action \<Rightarrow> bool" where
  "preserves I m \<longleftrightarrow> (\<forall>w. I w \<longrightarrow> I (fst (m w)))"

named_theorems preserves_intros \<open>composition of actions that preserve an invariant\<close>

lemma preservesD: "preserves I m \<Longrightarrow> I w \<Longrightarrow> m w = (w', r) \<Longrightarrow> I w'"
  by (auto simp: preserves_def dest!: spec [of _ w])

lemma preserves_basic [preserves_intros]:
  "preserves I (act_return a)" "preserves I (act_fail e)" "preserves I (act_lift r)"
  "preserves I (act_check q)"
  by (simp_all add: preserves_def)

lemma preserves_modify [preserves_intros]:
  "(\<And>w. I w \<Longrightarrow> I (g w)) \<Longrightarrow> preserves I (act_modify g)"
  by (simp add: preserves_def)

lemma preserves_bind [preserves_intros]:
  assumes "preserves I m" and "\<And>a. preserves I (k a)"
  shows "preserves I (act_bind m k)"
  unfolding preserves_def
proof (intro allI impI)
  fix w assume "I w"
  obtain v r where m: "m w = (v, r)" by force
  with preservesD [OF assms(1) \<open>I w\<close>] have "I v" by blast
  then show "I (fst (act_bind m k w))"
    using assms(2) by (cases r) (simp_all add: m preserves_def)
qed

lemma preserves_when [preserves_intros]: "preserves I m \<Longrightarrow> preserves I (act_when P m)"
  by (simp add: preserves_def)

lemma preserves_with [preserves_intros]: "(\<And>w. preserves I (k w)) \<Longrightarrow> preserves I (act_with k)"
  by (simp add: preserves_def)

lemma preserves_seq [preserves_intros]:
  "(\<And>m. m \<in> set ms \<Longrightarrow> preserves I m) \<Longrightarrow> preserves I (act_seq ms)"
  by (induction ms) (auto intro: preserves_basic preserves_bind)

subsection \<open>Resolvers\<close>

record compat_credential =
  cc_scheme_name :: string
  cc_value :: string

text \<open>The methods of the trait \<open>WebRequestContextResolver\<close> a request can reach, each of which
  turns raw credentials into a principal or refuses them.\<close>

record 'w resolver =
  rv_api_key :: "string \<Rightarrow> ('w, principal) action"
  rv_dual_token :: "string \<Rightarrow> string \<Rightarrow> ('w, principal) action"
  rv_access_token :: "string \<Rightarrow> ('w, principal) action"
  rv_oauth_bearer :: "string \<Rightarrow> ('w, principal) action"
  rv_bearer_auth_token :: "string \<Rightarrow> ('w, principal) action"
  rv_compatibility :: "string \<Rightarrow> compat_credential list \<Rightarrow> ('w, principal) action"

definition default_resolve_oauth_bearer :: "string \<Rightarrow> ('w, principal) action" where
  "default_resolve_oauth_bearer raw = act_fail (dependency_unavailable
     ''oauth bearer resolution is not configured; wire OAuthTokenLookupService or override resolve_oauth_bearer'')"

definition default_resolve_bearer_auth_token :: "string \<Rightarrow> ('w, principal) action" where
  "default_resolve_bearer_auth_token raw = act_fail (dependency_unavailable
     ''auth token bearer resolution is not configured; override resolve_bearer_auth_token'')"

definition default_resolve_compatibility ::
  "string \<Rightarrow> compat_credential list \<Rightarrow> ('w, principal) action" where
  "default_resolve_compatibility protocol credentials = act_fail
     (with_reason ''compatibility-adapter-unavailable'' (dependency_unavailable
       ''compatibility authentication adapter is not configured''))"

end
