(* ===== verification/Open_Api_Auth.thy ===== *)
theory Open_Api_Auth
  imports Effects
begin

section \<open>Authentication of the open API\<close>

text \<open>
  Models \<open>open_api_auth.rs\<close>: which credential scheme the headers of a request show, given the
  profile its route declares, and the resolution of the credential of that scheme. Detector
  and classifier are trait objects; the defaults of the crate are modelled here, and the
  resolution takes any.
\<close>

record call_credentials =
  cr_auth_token :: "string option"
  cr_access_token :: "string option"
  cr_api_key :: "string option"
  cr_ingress_token :: "string option"
  cr_oauth_bearer :: "string option"
  cr_agent_token :: "string option"

datatype auth_scheme = SchemeApiKey | SchemeOAuthBearer | SchemeDualToken

datatype credential_kind = CredentialApiKey | CredentialAuthToken

definition api_key_prefixes :: "string list" where
  "api_key_prefixes = [''sk-'', ''sp-'']"

definition classify_bearer :: "string list \<Rightarrow> string \<Rightarrow> credential_kind" where
  "classify_bearer key_prefixes raw =
     (if list_ex (\<lambda>p. starts_with raw p) key_prefixes then CredentialApiKey else CredentialAuthToken)"

definition resolve_open_api_bearer_flexible ::
  "call_credentials \<Rightarrow> (string \<Rightarrow> credential_kind) \<Rightarrow> 'w resolver \<Rightarrow>
     ('w, auth_mode \<times> principal) action" where
  "resolve_open_api_bearer_flexible c classify rv =
     act_bind (act_lift (ok_or (opt_or (cr_oauth_bearer c) (cr_api_key c))
       (missing_credentials
         ''open-api bearer-flexible routes require Authorization: Bearer or X-Api-Key'')))
     (\<lambda>raw. case classify raw of
        CredentialApiKey \<Rightarrow>
          act_bind (rv_api_key rv raw) (\<lambda>p. act_return (ModeApiKey, p))
      | CredentialAuthToken \<Rightarrow>
          act_bind (rv_bearer_auth_token rv raw) (\<lambda>p. act_return (ModeOAuth, p)))"

subsection \<open>Scheme detection\<close>

definition default_scheme_preference :: "auth_scheme list" where
  "default_scheme_preference = [SchemeApiKey, SchemeOAuthBearer]"

definition contamination_error :: "string \<Rightarrow> web_error" where
  "contamination_error m = with_reason ''credential-profile-contamination'' (invalid_credentials m)"

fun prefer_scheme :: "auth_scheme list \<Rightarrow> auth_scheme list \<Rightarrow> auth_scheme option" where
  "prefer_scheme preference [] = None"
| "prefer_scheme preference [s] = Some s"
| "prefer_scheme preference (s # t # ss) =
     (case find (\<lambda>p. p \<in> set (s # t # ss)) preference of
        Some p \<Rightarrow> Some p | None \<Rightarrow> Some s)"

definition detect_scheme ::
  "auth_scheme list \<Rightarrow> call_credentials \<Rightarrow> headers \<Rightarrow> route_auth option \<Rightarrow>
     web_error + auth_scheme option" where
  "detect_scheme preference c hs route_auth =
     (let api_key_present = cr_api_key c \<noteq> None \<or> api_key hs \<noteq> None;
          auth_token_present = cr_auth_token c \<noteq> None \<or> bearer_token hs \<noteq> None;
          access_token_present = cr_access_token c \<noteq> None;
          oauth_present = cr_oauth_bearer c \<noteq> None \<or> (auth_token_present \<and> \<not> access_token_present);
          by_preference = Inr (prefer_scheme preference
            ((if api_key_present then [SchemeApiKey] else [])
             @ (if oauth_present then [SchemeOAuthBearer] else [])));
          dual_token = (if auth_token_present \<and> access_token_present
                        then Inr (Some SchemeDualToken) else Inr None)
      in case route_auth of
        None \<Rightarrow> by_preference
      | Some ApiKey \<Rightarrow>
          if \<not> api_key_present then Inr None
          else if oauth_present then Inl (invalid_credentials
            ''route requires API key authentication; OAuth bearer is not accepted'')
          else Inr (Some SchemeApiKey)
      | Some OAuth \<Rightarrow>
          if \<not> oauth_present then Inr None
          else if api_key_present then Inl (invalid_credentials
            ''route requires OAuth bearer authentication; API key is not accepted'')
          else Inr (Some SchemeOAuthBearer)
      | Some ApiKeyOrDualToken \<Rightarrow>
          if api_key_present \<and> (auth_token_present \<or> access_token_present)
          then Inl (contamination_error
            ''api-key-or-dual-token routes do not accept mixed credential profiles'')
          else if auth_token_present \<noteq> access_token_present
          then Inl (with_reason ''incomplete-credential-profile'' (missing_credentials
            ''the dual-token branch requires both Authorization and Access-Token''))
          else if api_key_present then Inr (Some SchemeApiKey)
          else if auth_token_present then Inr (Some SchemeDualToken)
          else Inr None
      | Some DualToken \<Rightarrow> dual_token
      | Some DualTokenOrAnonymous \<Rightarrow> dual_token
      | Some OpenApiBearerFlexible \<Rightarrow>
          if access_token_present then Inl (contamination_error
            ''open-api bearer-flexible routes accept a single bearer credential; Access-Token is not allowed'')
          else if api_key_present \<and> auth_token_present then Inl (contamination_error
            ''open-api bearer-flexible routes do not accept mixed credential headers'')
          else if api_key_present \<or> oauth_present then Inr (Some SchemeOAuthBearer)
          else Inr None
      | Some _ \<Rightarrow> by_preference)"

definition resolve_open_api_request_context ::
  "call_credentials \<Rightarrow> headers \<Rightarrow> route_auth option \<Rightarrow>
     (call_credentials \<Rightarrow> headers \<Rightarrow> route_auth option \<Rightarrow> web_error + auth_scheme option) \<Rightarrow>
     'w resolver \<Rightarrow> ('w, auth_mode \<times> principal) action" where
  "resolve_open_api_request_context c hs route_auth detect rv =
     act_bind (act_lift (res_bind (detect c hs route_auth)
       (\<lambda>s. ok_or s (missing_credentials
         ''open-api requests require API key (X-Api-Key) or OAuth bearer (Authorization: Bearer)''))))
     (\<lambda>scheme. case scheme of
        SchemeApiKey \<Rightarrow>
          act_bind (act_lift (ok_or (cr_api_key c)
            (missing_credentials ''open-api API key is required'')))
          (\<lambda>raw. act_bind (rv_api_key rv raw) (\<lambda>p. act_return (ModeApiKey, p)))
      | SchemeOAuthBearer \<Rightarrow>
          act_bind (act_lift (ok_or (cr_oauth_bearer c)
            (missing_credentials ''open-api OAuth bearer token is required'')))
          (\<lambda>raw. act_bind (rv_oauth_bearer rv raw) (\<lambda>p. act_return (ModeOAuth, p)))
      | SchemeDualToken \<Rightarrow>
          act_bind (act_lift (ok_or (cr_auth_token c)
            (missing_credentials ''open-api dual-token authentication requires Authorization'')))
          (\<lambda>auth_token. act_bind (act_lift (ok_or (cr_access_token c)
            (missing_credentials ''open-api dual-token authentication requires Access-Token'')))
          (\<lambda>access_token. act_bind (rv_dual_token rv auth_token access_token)
            (\<lambda>p. act_return (ModeDualToken, p)))))"

fun allowed_open_api_schemes :: "route_auth \<Rightarrow> auth_scheme list" where
  "allowed_open_api_schemes ApiKey = [SchemeApiKey]"
| "allowed_open_api_schemes OAuth = [SchemeOAuthBearer]"
| "allowed_open_api_schemes OpenApiFlexible = [SchemeApiKey, SchemeOAuthBearer]"
| "allowed_open_api_schemes OpenApiBearerFlexible = [SchemeOAuthBearer]"
| "allowed_open_api_schemes ApiKeyOrDualToken = [SchemeApiKey, SchemeDualToken]"
| "allowed_open_api_schemes DualTokenOrAnonymous = [SchemeDualToken]"
| "allowed_open_api_schemes _ = []"

subsection \<open>Facts\<close>

text \<open>The mode under which the principal of a scheme is admitted, and the resolver a scheme
  hands its credential to.\<close>

fun scheme_mode :: "auth_scheme \<Rightarrow> auth_mode" where
  "scheme_mode SchemeApiKey = ModeApiKey"
| "scheme_mode SchemeOAuthBearer = ModeOAuth"
| "scheme_mode SchemeDualToken = ModeDualToken"

definition vouches ::
  "call_credentials \<Rightarrow> 'w resolver \<Rightarrow> auth_scheme \<Rightarrow> 'w \<Rightarrow> 'w \<Rightarrow> principal \<Rightarrow> bool" where
  "vouches c rv s w w' p =
     (case s of
        SchemeApiKey \<Rightarrow> \<exists>k. cr_api_key c = Some k \<and> rv_api_key rv k w = (w', Inr p)
      | SchemeOAuthBearer \<Rightarrow> \<exists>t. cr_oauth_bearer c = Some t \<and> rv_oauth_bearer rv t w = (w', Inr p)
      | SchemeDualToken \<Rightarrow> \<exists>t a. cr_auth_token c = Some t \<and> cr_access_token c = Some a \<and>
          rv_dual_token rv t a w = (w', Inr p))"

lemma resolve_open_api_Inr:
  "resolve_open_api_request_context c hs ra detect rv w = (w', Inr (m, p)) \<longleftrightarrow>
     (\<exists>s. detect c hs ra = Inr (Some s) \<and> m = scheme_mode s \<and> vouches c rv s w w' p)"
  by (auto simp: resolve_open_api_request_context_def act_bind_Inr res_bind_eq_Inr vouches_def ok_or_eq
      split: auth_scheme.splits)

definition credential_presence :: "call_credentials \<Rightarrow> headers \<Rightarrow> auth_scheme \<Rightarrow> bool" where
  "credential_presence c hs s =
     (case s of
        SchemeApiKey \<Rightarrow> cr_api_key c \<noteq> None \<or> api_key hs \<noteq> None
      | SchemeOAuthBearer \<Rightarrow> cr_oauth_bearer c \<noteq> None
          \<or> ((cr_auth_token c \<noteq> None \<or> bearer_token hs \<noteq> None) \<and> cr_access_token c = None)
      | SchemeDualToken \<Rightarrow> (cr_auth_token c \<noteq> None \<or> bearer_token hs \<noteq> None) \<and> cr_access_token c \<noteq> None)"

lemma prefer_scheme_mem: "prefer_scheme pref ss = Some s \<Longrightarrow> s \<in> set ss"
  by (induction pref ss rule: prefer_scheme.induct) (auto dest: find_SomeD split: option.splits)

text \<open>What the default detector finds on a route with an open-API profile: a scheme the profile
  allows, and no second credential beside it where the profile is exclusive.\<close>

lemma detect_scheme_sound:
  assumes "detect_scheme pref c hs (Some a) = Inr (Some s)" and "allowed_open_api_schemes a \<noteq> []"
  shows "s \<in> set (allowed_open_api_schemes a)"
    and "a \<in> {ApiKey, OAuth} \<Longrightarrow>
      \<not> (credential_presence c hs SchemeApiKey \<and> credential_presence c hs SchemeOAuthBearer)"
    and "a = ApiKeyOrDualToken \<Longrightarrow>
      credential_presence c hs SchemeApiKey \<noteq> credential_presence c hs SchemeDualToken"
    and "a = OpenApiBearerFlexible \<Longrightarrow> cr_access_token c = None
      \<and> \<not> (credential_presence c hs SchemeApiKey \<and> (cr_auth_token c \<noteq> None \<or> bearer_token hs \<noteq> None))"
proof -
  show "s \<in> set (allowed_open_api_schemes a)"
    using assms
    by (cases a) (auto simp: detect_scheme_def Let_def dest: find_SomeD split: if_splits option.splits)
  show "a \<in> {ApiKey, OAuth} \<Longrightarrow>
      \<not> (credential_presence c hs SchemeApiKey \<and> credential_presence c hs SchemeOAuthBearer)"
    using assms(1) by (auto simp: detect_scheme_def Let_def credential_presence_def split: if_splits)
  show "a = ApiKeyOrDualToken \<Longrightarrow>
      credential_presence c hs SchemeApiKey \<noteq> credential_presence c hs SchemeDualToken"
    using assms(1) by (auto simp: detect_scheme_def Let_def credential_presence_def split: if_splits)
  show "a = OpenApiBearerFlexible \<Longrightarrow> cr_access_token c = None
      \<and> \<not> (credential_presence c hs SchemeApiKey \<and> (cr_auth_token c \<noteq> None \<or> bearer_token hs \<noteq> None))"
    using assms(1) by (auto simp: detect_scheme_def Let_def credential_presence_def split: if_splits)
qed


definition example_principal :: principal where
  "example_principal = build_principal (builder_default\<lparr>pb_tenant_id := Some ''t1'',
     pb_app_id := Some ''app1'', pb_user_id := Some ''u1''\<rparr>)"

text \<open>A resolver that accepts one API key and one pair of tokens.\<close>

definition example_resolver :: "'w resolver" where
  "example_resolver = \<lparr>
     rv_api_key = (\<lambda>k. if k = ''sk-1'' then act_return example_principal
                       else act_fail (invalid_credentials ''unknown key'')),
     rv_dual_token = (\<lambda>t a. if t = ''auth'' \<and> a = ''access'' then act_return example_principal
                            else act_fail (invalid_credentials ''unknown token'')),
     rv_access_token = (\<lambda>a. if a = ''access'' then act_return example_principal
                           else act_fail (invalid_credentials ''unknown token'')),
     rv_oauth_bearer = default_resolve_oauth_bearer,
     rv_bearer_auth_token = default_resolve_bearer_auth_token,
     rv_compatibility = default_resolve_compatibility\<rparr>"

definition no_credentials :: call_credentials where
  "no_credentials = \<lparr>cr_auth_token = None, cr_access_token = None, cr_api_key = None,
     cr_ingress_token = None, cr_oauth_bearer = None, cr_agent_token = None\<rparr>"


end
