(* ===== verification/Trace.thy ===== *)
theory Trace
  imports Effects
begin

unbundle bit_operations_syntax

section \<open>Request identity and trace context\<close>

text \<open>
  Models \<open>request_identity.rs\<close> (identifiers of requests, from 16 random bytes) and
  \<open>trace.rs\<close> (the W3C trace context: the inbound \<open>traceparent\<close> where it is well formed,
  else one derived from the request identifier).
\<close>

subsection \<open>Request identifiers\<close>

definition hex_byte :: "8 word \<Rightarrow> string" where
  "hex_byte b = hex_digits 2 (unat b)"

definition stamp_uuid :: "8 word list \<Rightarrow> 8 word list" where
  "stamp_uuid bytes =
     (let bytes = bytes[6 := ((bytes ! 6) AND 0x0f) OR 0x40]
      in bytes[8 := ((bytes ! 8) AND 0x3f) OR 0x80])"

text \<open>\<open>new_request_id\<close>, as a function of the 16 bytes \<open>getrandom\<close> fills in.\<close>

definition format_request_id :: "8 word list \<Rightarrow> string" where
  "format_request_id random =
     (let bytes = stamp_uuid random;
          part = (\<lambda>from to. concat (map hex_byte (take (to - from) (drop from bytes))))
      in str_join ''-'' [part 0 4, part 4 6, part 6 8, part 8 10, part 10 16])"

definition is_canonical_uuid :: "string \<Rightarrow> bool" where
  "is_canonical_uuid v =
     (length v = 36 \<and>
      list_all (\<lambda>(i, c). if i \<in> set [8, 13, 18, 23] then c = CHR ''-''
          else is_ascii_digit c \<or> (97 \<le> code c \<and> code c \<le> 102)) (enumerate 0 v))"

subsection \<open>Trace context\<close>

record trace_context =
  tc_traceparent :: string
  tc_tracestate :: "string option"

definition trace_id_from_traceparent :: "string \<Rightarrow> string option" where
  "trace_id_from_traceparent traceparent =
     (case split_on (CHR ''-'') traceparent of
        version # trace_id # _ \<Rightarrow>
          if version \<noteq> ''00'' then None
          else if length trace_id = 32 \<and> list_all is_ascii_hexdigit trace_id then Some trace_id
          else None
      | _ \<Rightarrow> None)"

definition normalize_wire_trace_id :: "string \<Rightarrow> string option" where
  "normalize_wire_trace_id trace_id =
     (let t = trim trace_id in
      if t = [] then None
      else if length t = 32 \<and> list_all is_ascii_hexdigit t
      then (let n = to_lower t;
                part = (\<lambda>from to. take (to - from) (drop from n))
            in Some (str_join ''-'' [part 0 8, part 8 12, part 12 16, part 16 20, part 20 32]))
      else Some t)"

definition is_valid_traceparent :: "string \<Rightarrow> bool" where
  "is_valid_traceparent v =
     (case split_on (CHR ''-'') v of
        [version, trace_id, span_id, flags] \<Rightarrow>
          length version = 2 \<and> length trace_id = 32 \<and> length span_id = 16 \<and> length flags = 2
          \<and> list_all is_ascii_hexdigit trace_id \<and> list_all is_ascii_hexdigit span_id
      | _ \<Rightarrow> False)"

text \<open>\<open>pad_hex\<close> is called with hexadecimal digits only, one byte each.\<close>

definition pad_hex :: "string \<Rightarrow> nat \<Rightarrow> string" where
  "pad_hex v n = (let out = take n v in out @ replicate (n - length out) (CHR ''0''))"

definition synthetic_traceparent :: "string \<Rightarrow> string" where
  "synthetic_traceparent request_id =
     ''00-'' @ pad_hex (filter is_ascii_hexdigit request_id) 32 @ ''-''
       @ pad_hex (hash_key_material (''span:'' @ request_id)) 16 @ ''-01''"

definition resolve_trace_context :: "headers \<Rightarrow> string \<Rightarrow> trace_context" where
  "resolve_trace_context hs request_id =
     (case opt_filter is_valid_traceparent (header_string hs ''traceparent'') of
        Some traceparent \<Rightarrow> \<lparr>tc_traceparent = traceparent,
          tc_tracestate = header_string hs ''tracestate''\<rparr>
      | None \<Rightarrow> \<lparr>tc_traceparent = synthetic_traceparent request_id, tc_tracestate = None\<rparr>)"

definition resolve_problem_trace_id :: "string \<Rightarrow> string option \<Rightarrow> string" where
  "resolve_problem_trace_id request_id trace_id =
     (case Option.bind trace_id normalize_wire_trace_id of
        Some t \<Rightarrow> t
      | None \<Rightarrow>
          unwrap_or (Option.bind (trace_id_from_traceparent (synthetic_traceparent request_id))
                       normalize_wire_trace_id)
            (filter is_ascii_hexdigit request_id))"

subsection \<open>Facts\<close>

definition lower_hex :: "char \<Rightarrow> bool" where
  "lower_hex c = (is_ascii_digit c \<or> (97 \<le> code c \<and> code c \<le> 102))"

lemma lower_hex_facts:
  assumes "lower_hex c"
  shows "is_ascii_hexdigit c" and "lower_char c = c" and "c \<noteq> CHR ''-''" and "\<not> ascii_ws c"
  using assms
  by (auto simp: lower_hex_def is_ascii_hexdigit_def lower_char_def is_ascii_upper_def
      is_ascii_digit_def ascii_ws_def)

lemma lower_hex_hex_digit: "d < 16 \<Longrightarrow> lower_hex (hex_digit d)"
  by (simp add: hex_digit_def is_ascii_digit_def lower_hex_def)

lemma lower_hex_hex_digits: "c \<in> set (hex_digits w n) \<Longrightarrow> lower_hex c"
  by (induction w arbitrary: n) (auto intro: lower_hex_hex_digit)

lemma hexdigit_not_dash: "is_ascii_hexdigit c \<Longrightarrow> c \<noteq> CHR ''-''"
  by (auto simp: is_ascii_hexdigit_def is_ascii_digit_def)

lemma pad_hex_facts:
  "length (pad_hex v n) = n"
  "(\<And>c. c \<in> set v \<Longrightarrow> is_ascii_hexdigit c) \<Longrightarrow> c \<in> set (pad_hex v n) \<Longrightarrow> is_ascii_hexdigit c"
  "length v = n \<Longrightarrow> pad_hex v n = v"
proof -
  show "length (pad_hex v n) = n" by (simp add: pad_hex_def Let_def)
  show "length v = n \<Longrightarrow> pad_hex v n = v" by (simp add: pad_hex_def Let_def)
  have "is_ascii_hexdigit (CHR ''0'')" by (simp add: is_ascii_hexdigit_def is_ascii_digit_def)
  then show "(\<And>c. c \<in> set v \<Longrightarrow> is_ascii_hexdigit c) \<Longrightarrow> c \<in> set (pad_hex v n) \<Longrightarrow> is_ascii_hexdigit c"
    by (auto simp: pad_hex_def Let_def dest: in_set_takeD split: if_splits)
qed

lemma split_synthetic:
  "split_on (CHR ''-'') (synthetic_traceparent rid) =
     [''00'', pad_hex (filter is_ascii_hexdigit rid) 32,
      pad_hex (hash_key_material (''span:'' @ rid)) 16, ''01'']"
proof -
  have a: "CHR ''-'' \<notin> set (pad_hex (filter is_ascii_hexdigit rid) 32)"
    using pad_hex_facts(2) [of "filter is_ascii_hexdigit rid"] hexdigit_not_dash by fastforce
  have b: "CHR ''-'' \<notin> set (pad_hex (hash_key_material (''span:'' @ rid)) 16)"
    using lower_hex_hex_digits lower_hex_facts(3)
    by (fastforce simp: pad_hex_facts(3) hash_key_material_def)
  have "split_on (CHR ''-'') (''00-'' @ p @ ''-'' @ q @ ''-01'') = [''00'', p, q, ''01'']"
    if "CHR ''-'' \<notin> set p" "CHR ''-'' \<notin> set q" for p q
    using split_on_append_sep [OF that(1), of "q @ ''-01''"] split_on_append_sep [OF that(2), of "''01''"]
    by simp
  from this [OF a b] show ?thesis by (simp add: synthetic_traceparent_def)
qed

lemma synthetic_trace_id:
  "is_valid_traceparent (synthetic_traceparent rid)"
  "trace_id_from_traceparent (synthetic_traceparent rid) = Some (pad_hex (filter is_ascii_hexdigit rid) 32)"
proof -
  have a: "list_all is_ascii_hexdigit (pad_hex (filter is_ascii_hexdigit rid) 32)"
    using pad_hex_facts(2) [of "filter is_ascii_hexdigit rid"] by (auto simp: list_all_iff)
  have b: "list_all is_ascii_hexdigit (pad_hex (hash_key_material (''span:'' @ rid)) 16)"
    using lower_hex_hex_digits lower_hex_facts(1)
    by (fastforce simp: pad_hex_facts(3) hash_key_material_def list_all_iff)
  show "is_valid_traceparent (synthetic_traceparent rid)"
    using a b by (simp only: is_valid_traceparent_def split_synthetic list.case) (simp add: pad_hex_facts(1))
  show "trace_id_from_traceparent (synthetic_traceparent rid) = Some (pad_hex (filter is_ascii_hexdigit rid) 32)"
    using a by (simp only: trace_id_from_traceparent_def split_synthetic list.case) (simp add: pad_hex_facts(1))
qed

lemma list_all_enumerate:
  "list_all P (enumerate n xs) \<longleftrightarrow> (\<forall>i < length xs. P (n + i, xs ! i))"
  by (auto simp: list_all_length nth_enumerate_eq)

lemma split_at_nth:
  "n < length v \<Longrightarrow> \<exists>a x r. v = a @ x # r \<and> length a = n \<and> length r = length v - Suc n"
  using id_take_nth_drop [of n v] by fastforce

definition uuid_text :: "string \<Rightarrow> string \<Rightarrow> string \<Rightarrow> string \<Rightarrow> string \<Rightarrow> string" where
  "uuid_text a b c d e =
     a @ CHR ''-'' # b @ CHR ''-'' # c @ CHR ''-'' # d @ CHR ''-'' # e"

definition uuid_pieces :: "string list \<Rightarrow> bool" where
  "uuid_pieces ws = (map length ws = [8, 4, 4, 4, 12] \<and> list_all (list_all lower_hex) ws)"

definition uuid_position :: "nat \<times> char \<Rightarrow> bool" where
  "uuid_position = (\<lambda>(i, c). if i \<in> set [8, 13, 18, 23] then c = CHR ''-'' else lower_hex c)"

lemma uuid_segment:
  "(\<And>i. i < length a \<Longrightarrow> n + i \<notin> {8, 13, 18, 23}) \<Longrightarrow>
     list_all uuid_position (enumerate n a) \<longleftrightarrow> list_all lower_hex a"
  by (auto simp: uuid_position_def list_all_enumerate list_all_length nth_enumerate_eq)

lemma canonical_uuid_iff:
  "is_canonical_uuid v \<longleftrightarrow> (\<exists>a b c d e. v = uuid_text a b c d e \<and> uuid_pieces [a, b, c, d, e])"
proof -
  have q: "is_canonical_uuid v \<longleftrightarrow> length v = 36 \<and> list_all uuid_position (enumerate 0 v)" for v
    by (simp add: is_canonical_uuid_def lower_hex_def uuid_position_def)
  have shape: "is_canonical_uuid (a @ x # b @ y # c @ z # d @ w # e) \<longleftrightarrow>
      x = CHR ''-'' \<and> y = CHR ''-'' \<and> z = CHR ''-'' \<and> w = CHR ''-'' \<and> uuid_pieces [a, b, c, d, e]"
    if "length a = 8" "length b = 4" "length c = 4" "length d = 4" "length e = 12" for a b c d e x y z w
  proof -
    have "list_all uuid_position (enumerate 0 a) = list_all lower_hex a"
      "list_all uuid_position (enumerate 9 b) = list_all lower_hex b"
      "list_all uuid_position (enumerate 14 c) = list_all lower_hex c"
      "list_all uuid_position (enumerate 19 d) = list_all lower_hex d"
      "list_all uuid_position (enumerate 24 e) = list_all lower_hex e"
      by (rule uuid_segment; simp add: that)+
    moreover have "uuid_position (i, x) \<longleftrightarrow> x = CHR ''-''" if "i \<in> {8, 13, 18, 23}" for i x
      using that by (auto simp: uuid_position_def)
    ultimately show ?thesis
      using that by (auto simp: q enumerate_append_eq uuid_pieces_def)
  qed
  show ?thesis
  proof
    assume v: "is_canonical_uuid v"
    then have l: "length v = 36" by (simp add: is_canonical_uuid_def)
    then obtain a x r1 where 1: "v = a @ x # r1" "length a = 8" "length r1 = 27"
      using split_at_nth [of 8 v] by auto
    then obtain b y r2 where 2: "r1 = b @ y # r2" "length b = 4" "length r2 = 22"
      using split_at_nth [of 4 r1] by auto
    then obtain c z r3 where 3: "r2 = c @ z # r3" "length c = 4" "length r3 = 17"
      using split_at_nth [of 4 r2] by auto
    then obtain d w e where 4: "r3 = d @ w # e" "length d = 4" "length e = 12"
      using split_at_nth [of 4 r3] by auto
    have "uuid_text a b c d e = v \<and> uuid_pieces [a, b, c, d, e]"
      using shape [OF 1(2) 2(2) 3(2) 4(2,3), of x y z w] v
      by (simp add: 1(1) 2(1) 3(1) 4(1) uuid_text_def)
    then show "\<exists>a b c d e. v = uuid_text a b c d e \<and> uuid_pieces [a, b, c, d, e]" by blast
  next
    assume "\<exists>a b c d e. v = uuid_text a b c d e \<and> uuid_pieces [a, b, c, d, e]"
    then obtain a b c d e where v: "v = uuid_text a b c d e" and p: "uuid_pieces [a, b, c, d, e]" by blast
    from p have "length a = 8" "length b = 4" "length c = 4" "length d = 4" "length e = 12"
      by (simp_all add: uuid_pieces_def)
    from shape [OF this] p show "is_canonical_uuid v" by (simp add: v uuid_text_def)
  qed
qed

lemma uuid_hex_digits:
  assumes "uuid_pieces [a, b, c, d, e]"
  shows "filter is_ascii_hexdigit (uuid_text a b c d e) = a @ b @ c @ d @ e"
proof -
  have "filter is_ascii_hexdigit x = x" if "list_all lower_hex x" for x
    using that lower_hex_facts(1) by (auto simp: list_all_iff filter_id_conv)
  moreover have "\<not> is_ascii_hexdigit (CHR ''-'')" by (simp add: is_ascii_hexdigit_def is_ascii_digit_def)
  ultimately show ?thesis using assms by (simp add: uuid_text_def uuid_pieces_def)
qed

lemma normalize_uuid:
  assumes "uuid_pieces [a, b, c, d, e]"
  shows "normalize_wire_trace_id (a @ b @ c @ d @ e) = Some (uuid_text a b c d e)"
proof -
  let ?t = "a @ b @ c @ d @ e"
  from assms have l: "length a = 8" "length b = 4" "length c = 4" "length d = 4" "length e = 12"
    and h: "list_all lower_hex ?t" by (simp_all add: uuid_pieces_def)
  from l have n: "?t \<noteq> []" by auto
  have all: "lower_hex x" if "x \<in> set ?t" for x using h that by (simp only: list_all_iff)
  have "plain_byte x \<and> \<not> ascii_ws x" if "x \<in> set ?t" for x
    using all [OF that] by (auto simp: plain_byte_def lower_hex_def is_ascii_digit_def ascii_ws_def)
  then have t: "trim ?t = ?t"
    using n hd_in_set [OF n] last_in_set [OF n] by (intro trim_plain_edges) auto
  have x: "list_all is_ascii_hexdigit ?t"
    using all lower_hex_facts(1) by (simp only: list_all_iff) blast
  have m: "map lower_char ?t = ?t"
    using all lower_hex_facts(2) by (intro map_idI) blast
  have w: "to_lower ?t = ?t" using m by (simp only: to_lower_def)
  have s: "length ?t = 32" using l by simp
  show ?thesis
    unfolding normalize_wire_trace_id_def Let_def t w
    using n x s l by (simp add: uuid_text_def)
qed

text \<open>A request without a usable inbound trace context is reported under its own
  identifier: for every canonical request identifier, the trace id of its problem responses
  is that identifier, and the \<open>traceparent\<close> handed on is well formed in any case.\<close>

theorem problem_trace_id_is_request_id:
  assumes "is_canonical_uuid rid"
  shows "resolve_problem_trace_id rid None = rid
    \<and> is_valid_traceparent (tc_traceparent (resolve_trace_context hs rid))
    \<and> (opt_filter is_valid_traceparent (header_string hs ''traceparent'') = None \<longrightarrow>
        Option.bind (trace_id_from_traceparent (tc_traceparent (resolve_trace_context hs rid)))
          normalize_wire_trace_id = Some rid)"
proof -
  from assms obtain a b c d e where r: "rid = uuid_text a b c d e" and p: "uuid_pieces [a, b, c, d, e]"
    by (auto simp: canonical_uuid_iff)
  have "length (a @ b @ c @ d @ e) = 32" using p by (simp add: uuid_pieces_def)
  then have f: "pad_hex (filter is_ascii_hexdigit rid) 32 = a @ b @ c @ d @ e"
    unfolding r uuid_hex_digits [OF p] by (rule pad_hex_facts(3))
  have i: "Option.bind (trace_id_from_traceparent (synthetic_traceparent rid)) normalize_wire_trace_id
      = Some rid"
    unfolding synthetic_trace_id f bind.bind_lunit normalize_uuid [OF p] by (simp only: r)
  have v: "is_valid_traceparent (tc_traceparent (resolve_trace_context hs rid))"
    by (cases "header_string hs ''traceparent''")
      (simp_all add: resolve_trace_context_def synthetic_trace_id)
  show ?thesis
    using i v by (simp add: resolve_problem_trace_id_def resolve_trace_context_def)
qed

text \<open>The digits of the identifier at a position, from the stamped bytes.\<close>

lemma length_hex_byte [simp]: "length (hex_byte b) = 2"
  by (simp add: hex_byte_def)

lemma request_id_digits:
  assumes "length bytes = 16"
  shows "format_request_id bytes ! 14 = hex_byte (stamp_uuid bytes ! 6) ! 0"
    and "format_request_id bytes ! 19 = hex_byte (stamp_uuid bytes ! 8) ! 0"
proof -
  have "length (stamp_uuid bytes) = 16" by (simp add: stamp_uuid_def Let_def assms)
  then obtain b0 b1 b2 b3 b4 b5 b6 b7 b8 b9 b10 b11 b12 b13 b14 b15
    where b: "stamp_uuid bytes = [b0, b1, b2, b3, b4, b5, b6, b7, b8, b9, b10, b11, b12, b13, b14, b15]"
    by (auto simp: length_Suc_conv eval_nat_numeral)
  show "format_request_id bytes ! 14 = hex_byte (stamp_uuid bytes ! 6) ! 0"
    "format_request_id bytes ! 19 = hex_byte (stamp_uuid bytes ! 8) ! 0"
    by (simp_all add: format_request_id_def b Let_def nth_append nth_Cons')
qed

lemma hex_byte_first: "hex_byte b ! 0 = hex_digit (unat (drop_bit 4 b))"
proof -
  have "unat b < 256" using unsigned_less [of b, where 'a = nat] by simp
  then have "unat b div 16 < 16" by simp
  moreover have "unat (drop_bit 4 b) = unat b div 16"
    by (simp only: unat_drop_bit_eq) (simp add: drop_bit_eq_div)
  ultimately show ?thesis by (simp add: hex_byte_def numeral_2_eq_2 nth_append)
qed

lemma stamped_digits:
  "hex_byte ((b AND 0x0f) OR 0x40) ! 0 = CHR ''4''"
  "hex_byte ((b AND 0x3f) OR 0x80) ! 0 \<in> set ''89ab''"
proof -
  have "drop_bit 4 ((b AND 0x0f) OR 0x40) = (4 :: 8 word)" by simp
  then show "hex_byte ((b AND 0x0f) OR 0x40) ! 0 = CHR ''4''"
    by (simp only: hex_byte_first) code_simp
  have d: "drop_bit 4 ((b AND 0x3f) OR 0x80) = (drop_bit 4 b AND 3) OR (8 :: 8 word)" by simp
  have "unat (drop_bit 4 b AND 3) = unat (drop_bit 4 b) mod 4"
    using take_bit_eq_mask [of 2 "unat (drop_bit 4 b)"] by (simp add: unsigned_and_eq mask_eq_exp_minus_1 take_bit_eq_mod)
  then have "unat (drop_bit 4 b AND 3) \<in> {0, 1, 2, 3}" by auto
  then have "drop_bit 4 b AND 3 \<in> {0, 1, 2, 3}"
    by (auto simp: word_unat_eq_iff)
  moreover have "hex_digit 8 = CHR ''8''" "hex_digit 9 = CHR ''9''" "hex_digit 10 = CHR ''a''"
    "hex_digit 11 = CHR ''b''" by code_simp+
  ultimately show "hex_byte ((b AND 0x3f) OR 0x80) ! 0 \<in> set ''89ab''"
    unfolding hex_byte_first d by auto
qed

lemma hex_bytes_inj:
  "length as = length bs \<Longrightarrow> concat (map hex_byte as) = concat (map hex_byte bs) \<Longrightarrow> as = bs"
proof (induction as bs rule: list_induct2)
  case (Cons a as b bs)
  have "unat a < 16 ^ 2" "unat b < 16 ^ 2"
    using unsigned_less [of a, where 'a = nat] unsigned_less [of b, where 'a = nat] by simp_all
  with Cons show ?case
    using hex_digits_inj [of "unat a" 2 "unat b"] by (simp add: hex_byte_def word_unat_eq_iff)
qed simp

lemma request_id_digits_all:
  assumes "length bytes = 16"
  shows "filter (\<lambda>c. c \<noteq> CHR ''-'') (format_request_id bytes) = concat (map hex_byte (stamp_uuid bytes))"
proof -
  let ?b = "stamp_uuid bytes"
  have l: "length ?b = 16" by (simp add: stamp_uuid_def Let_def assms)
  have f: "filter (\<lambda>c. c \<noteq> CHR ''-'') (concat (map hex_byte bs)) = concat (map hex_byte bs)" for bs
    by (intro filter_True) (auto simp: hex_byte_def dest!: lower_hex_hex_digits simp: lower_hex_def is_ascii_digit_def)
  have "take 4 ?b @ take 2 (drop 4 ?b) @ take 2 (drop 6 ?b) @ take 2 (drop 8 ?b) @ take 6 (drop 10 ?b) = ?b"
    by (rule nth_equalityI) (auto simp: l nth_append)
  then have "concat (map hex_byte (take 4 ?b)) @ concat (map hex_byte (take 2 (drop 4 ?b)))
      @ concat (map hex_byte (take 2 (drop 6 ?b))) @ concat (map hex_byte (take 2 (drop 8 ?b)))
      @ concat (map hex_byte (take 6 (drop 10 ?b))) = concat (map hex_byte ?b)"
    by (metis concat_append map_append)
  then show ?thesis by (simp add: format_request_id_def Let_def f)
qed

definition random_bits :: "8 word list \<Rightarrow> 8 word list" where
  "random_bits bytes = bytes[6 := bytes ! 6 AND 0x0f, 8 := bytes ! 8 AND 0x3f]"

lemma stamp_random_bits:
  assumes "length bytes = 16"
  shows "random_bits (stamp_uuid bytes) = random_bits bytes"
  using assms
  by (simp add: random_bits_def stamp_uuid_def Let_def bit.conj_disj_distrib2 and.assoc list_update_swap)

lemma request_id_inj:
  assumes "length a = 16" "length b = 16" and "format_request_id a = format_request_id b"
  shows "random_bits a = random_bits b"
proof -
  have l: "length (stamp_uuid x) = length x" for x by (simp add: stamp_uuid_def Let_def)
  have "stamp_uuid a = stamp_uuid b"
    using request_id_digits_all [OF assms(1)] request_id_digits_all [OF assms(2)] assms l
    by (intro hex_bytes_inj) simp_all
  then show ?thesis using stamp_random_bits assms(1,2) by metis
qed

text \<open>C33: Every request identifier formatted from 16 random bytes is a canonical lower-case UUID
  whose version digit is 4 and whose variant digit is one of 8, 9, a and b, and the identifiers
  of two byte sequences are the same only if the sequences agree in the 122 bits that are not
  version or variant.\<close>

theorem generated_request_id_canonical:
  assumes "length bytes = 16"
  shows "is_canonical_uuid (format_request_id bytes)
    \<and> format_request_id bytes ! 14 = CHR ''4''
    \<and> format_request_id bytes ! 19 \<in> set ''89ab''
    \<and> (length bytes' = 16 \<and> format_request_id bytes' = format_request_id bytes
        \<longrightarrow> random_bits bytes' = random_bits bytes)"
proof -
  have l: "length (stamp_uuid bytes) = 16" by (simp add: stamp_uuid_def Let_def assms)
  have h: "length (concat (map hex_byte bs)) = 2 * length bs"
    "list_all lower_hex (concat (map hex_byte bs))" for bs
    by (induction bs) (auto simp: hex_byte_def list_all_iff dest: lower_hex_hex_digits)
  have "is_canonical_uuid (format_request_id bytes)"
    unfolding canonical_uuid_iff format_request_id_def Let_def
    by (intro exI conjI) (auto simp: uuid_text_def uuid_pieces_def h l)
  moreover have "stamp_uuid bytes ! 6 = (bytes ! 6 AND 0x0f) OR 0x40"
    "stamp_uuid bytes ! 8 = (bytes ! 8 AND 0x3f) OR 0x80"
    using assms by (simp_all add: stamp_uuid_def Let_def)
  ultimately show ?thesis
    using stamped_digits request_id_inj [of bytes' bytes] assms by (simp add: request_id_digits [OF assms])
qed

definition example_random :: "8 word list" where
  "example_random = [0xde, 0xad, 0xbe, 0xef, 0, 1, 2, 3, 0xff, 5, 6, 7, 8, 9, 10, 11]"

theorem generated_request_id_canonical_witness:
  "is_canonical_uuid (format_request_id example_random)
   \<and> format_request_id example_random = ''deadbeef-0001-4203-bf05-060708090a0b''"
  using generated_request_id_canonical [of example_random example_random]
  by (simp add: example_random_def) code_simp

theorem problem_trace_id_is_request_id_witness:
  "resolve_problem_trace_id ''deadbeef-0001-4203-bf05-060708090a0b'' None
     = ''deadbeef-0001-4203-bf05-060708090a0b''
   \<and> Option.bind (trace_id_from_traceparent (tc_traceparent
         (resolve_trace_context Map.empty ''deadbeef-0001-4203-bf05-060708090a0b'')))
       normalize_wire_trace_id = Some ''deadbeef-0001-4203-bf05-060708090a0b''"
proof -
  let ?r = "''deadbeef-0001-4203-bf05-060708090a0b''"
  have "is_canonical_uuid ?r" by code_simp
  from problem_trace_id_is_request_id [OF this, of Map.empty] show ?thesis
    by (simp add: header_string_def hdr_trimmed_def hdr_text_def hdr_get_def)
qed

end
