(* ===== verification/Json.thy ===== *)
theory Json
  imports Prelude "HOL-Library.AList" "HOL-Library.List_Lexorder" "HOL-Library.Char_ord"
begin

section \<open>JSON values and ordered maps\<close>

text \<open>
  \<open>serde_json::Value\<close> and the \<open>BTreeMap\<close> of the standard library, shared by the theories that
  read or build JSON. A \<open>BTreeMap\<close> keyed by strings is the list of its entries in the order
  of their keys, which is the order of the bytes.
\<close>

subsection \<open>JSON values\<close>

text \<open>The keys of an object are unique, their order does not matter.
  \<open>JInt\<close> holds the numbers \<open>as_i64\<close> reads, \<open>JFloat\<close> the text of all others.
  Assigning to a key of a value that is neither an object nor null panics in the library,
  which is \<^const>\<open>None\<close> here.\<close>

datatype json =
    JNull
  | JBool bool
  | JInt int
  | JFloat string
  | JString string
  | JArray "json list"
  | JObject "(string \<times> json) list"

fun json_get :: "string \<Rightarrow> json \<Rightarrow> json option" where
  "json_get k (JObject kvs) = map_of kvs k"
| "json_get k _ = None"

fun json_set :: "string \<Rightarrow> json \<Rightarrow> json \<Rightarrow> json option" where
  "json_set k v (JObject kvs) = Some (JObject (AList.update k v kvs))"
| "json_set k v JNull = Some (JObject [(k, v)])"
| "json_set k v _ = None"

fun json_set_all :: "(string \<times> json) list \<Rightarrow> json \<Rightarrow> json option" where
  "json_set_all [] j = Some j"
| "json_set_all ((k, v) # kvs) j = Option.bind (json_set k v j) (json_set_all kvs)"

fun as_object :: "json \<Rightarrow> (string \<times> json) list option" where
  "as_object (JObject kvs) = Some kvs"
| "as_object _ = None"

fun as_array :: "json \<Rightarrow> json list option" where
  "as_array (JArray vs) = Some vs"
| "as_array _ = None"

fun as_str :: "json \<Rightarrow> string option" where
  "as_str (JString s) = Some s"
| "as_str _ = None"

definition is_object :: "json \<Rightarrow> bool" where
  "is_object j = (as_object j \<noteq> None)"

text \<open>The value at the end of a path of keys.\<close>

fun json_at :: "string list \<Rightarrow> json \<Rightarrow> json option" where
  "json_at [] j = Some j"
| "json_at (k # ks) j = Option.bind (json_get k j) (json_at ks)"

lemma as_object_Some: "as_object j = Some kvs \<longleftrightarrow> j = JObject kvs"
  by (cases j) auto

lemma as_array_Some: "as_array j = Some vs \<longleftrightarrow> j = JArray vs"
  by (cases j) auto

lemma as_str_Some: "as_str j = Some s \<longleftrightarrow> j = JString s"
  by (cases j) auto

lemma json_get_Some: "json_get k j = Some v \<longleftrightarrow> (\<exists>kvs. j = JObject kvs \<and> map_of kvs k = Some v)"
  by (cases j) auto

subsection \<open>Ordered maps\<close>

type_synonym 'v btree = "(string \<times> 'v) list"

fun bt_insert :: "string \<Rightarrow> 'v \<Rightarrow> 'v btree \<Rightarrow> 'v btree" where
  "bt_insert k v [] = [(k, v)]"
| "bt_insert k v ((k', v') # m) =
     (if k < k' then (k, v) # (k', v') # m
      else if k = k' then (k, v) # m
      else (k', v') # bt_insert k v m)"

abbreviation bt_get :: "'v btree \<Rightarrow> string \<Rightarrow> 'v option" where
  "bt_get m k \<equiv> map_of m k"

definition bt_keys :: "'v btree \<Rightarrow> string list" where
  "bt_keys m = map fst m"

definition bt_ok :: "'v btree \<Rightarrow> bool" where
  "bt_ok m \<longleftrightarrow> sorted (bt_keys m) \<and> distinct (bt_keys m)"

definition bt_of_list :: "(string \<times> 'v) list \<Rightarrow> 'v btree" where
  "bt_of_list kvs = fold (\<lambda>(k, v) m. bt_insert k v m) kvs []"

definition bt_values :: "'v btree \<Rightarrow> 'v list" where
  "bt_values m = map snd m"

definition bt_map :: "('v \<Rightarrow> 'u) \<Rightarrow> 'v btree \<Rightarrow> 'u btree" where
  "bt_map f m = map (\<lambda>(k, v). (k, f v)) m"

lemma bt_insert_keys: "set (bt_keys (bt_insert k v m)) = insert k (set (bt_keys m))"
  by (induction k v m rule: bt_insert.induct) (auto simp: bt_keys_def)

lemma bt_insert_ok:
  assumes "bt_ok m" shows "bt_ok (bt_insert k v m)"
  using assms
proof (induction k v m rule: bt_insert.induct)
  case (2 k v k' v' m)
  have "bt_ok m" using "2.prems" by (simp add: bt_ok_def bt_keys_def)
  moreover have "\<forall>x \<in> set (bt_keys m). k' < x"
    using "2.prems" by (auto simp: bt_ok_def bt_keys_def order.strict_iff_order)
  ultimately show ?case
    using "2.IH" "2.prems" bt_insert_keys [of k v m]
    by (auto simp: bt_ok_def bt_keys_def order.strict_iff_order)
qed (simp add: bt_ok_def bt_keys_def)

lemma bt_insert_get:
  assumes "bt_ok m"
  shows "bt_get (bt_insert k v m) = (bt_get m)(k \<mapsto> v)"
  using assms
proof (induction k v m rule: bt_insert.induct)
  case (2 k v k' v' m)
  have "bt_ok m" using "2.prems" by (simp add: bt_ok_def bt_keys_def)
  then show ?case using "2.IH" by (auto simp: fun_eq_iff)
qed (auto simp: fun_eq_iff)

lemma bt_empty_ok [simp]: "bt_ok []"
  by (simp add: bt_ok_def bt_keys_def)

lemma bt_fold_get:
  "bt_ok m \<Longrightarrow> bt_ok (fold (\<lambda>(k, v) m. bt_insert k v m) kvs m) \<and>
    bt_get (fold (\<lambda>(k, v) m. bt_insert k v m) kvs m) k =
      opt_or (map_of (rev kvs) k) (bt_get m k)"
proof (induction kvs arbitrary: m)
  case (Cons kv kvs)
  obtain a v where kv: "kv = (a, v)" by (cases kv)
  show ?case
    using Cons.IH [OF bt_insert_ok [OF Cons.prems, of a v]]
    by (auto simp: kv bt_insert_get [OF Cons.prems] opt_or_def map_add_def split: option.splits)
qed simp

lemma bt_of_list_ok: "bt_ok (bt_of_list kvs)"
  using bt_fold_get [of "[]" kvs] by (simp add: bt_of_list_def)

lemma bt_of_list_get:
  "distinct (map fst kvs) \<Longrightarrow> bt_get (bt_of_list kvs) k = map_of kvs k"
proof -
  assume d: "distinct (map fst kvs)"
  then have "map_of (rev kvs) = map_of kvs"
    by (subst map_of_inject_set) (simp_all add: rev_map [symmetric])
  then show ?thesis using bt_fold_get [of "[]" kvs k]
    by (simp add: bt_of_list_def opt_or_def split: option.split)
qed

lemma bt_map_get: "bt_get (bt_map f m) k = map_option f (bt_get m k)"
  by (induction m) (auto simp: bt_map_def)

lemma bt_map_keys: "bt_keys (bt_map f m) = bt_keys m"
  by (simp add: bt_map_def bt_keys_def case_prod_unfold)

lemma bt_map_ok: "bt_ok (bt_map f m) = bt_ok m"
  by (simp add: bt_ok_def bt_map_keys)

subsection \<open>Loops that may return an error\<close>

fun res_fold :: "('a \<Rightarrow> 's \<Rightarrow> 'e + 's) \<Rightarrow> 'a list \<Rightarrow> 's \<Rightarrow> 'e + 's" where
  "res_fold f [] s = Inr s"
| "res_fold f (x # xs) s = res_bind (f x s) (res_fold f xs)"

lemma res_fold_append:
  "res_fold f (xs @ ys) s = res_bind (res_fold f xs s) (res_fold f ys)"
  by (induction xs arbitrary: s) (auto simp: res_bind_def split: sum.splits)

lemma res_fold_invariant:
  assumes "res_fold f xs s = Inr s'" and "P s"
    and "\<And>x s s'. x \<in> set xs \<Longrightarrow> P s \<Longrightarrow> f x s = Inr s' \<Longrightarrow> P s'"
  shows "P s'"
  using assms
proof (induction xs arbitrary: s)
  case (Cons x xs)
  then obtain t where "f x s = Inr t" and "res_fold f xs t = Inr s'"
    by (auto simp: res_bind_eq_Inr)
  with Cons show ?case by (metis list.set_intros(1,2))
qed simp

text \<open>A loop over entries with distinct keys, each of which changes a view of the state at its own
  key only: the view afterwards, and what each step has checked of the view before the loop.\<close>

lemma res_fold_keyed:
  assumes "res_fold step kvs s = Inr s'" and "distinct (map fst kvs)" and "ok s"
    and "\<And>k x s s'. (k, x) \<in> set kvs \<Longrightarrow> ok s \<Longrightarrow> step (k, x) s = Inr s' \<Longrightarrow>
      ok s' \<and> view s' = (view s)(k := g k x (view s k)) \<and> checked k x (view s k)"
  shows "ok s' \<and>
    view s' = (\<lambda>k. case map_of kvs k of Some x \<Rightarrow> g k x (view s k) | None \<Rightarrow> view s k) \<and>
    (\<forall>k x. map_of kvs k = Some x \<longrightarrow> checked k x (view s k))"
  using assms
proof (induction kvs arbitrary: s)
  case Nil
  then show ?case by simp
next
  case (Cons kv kvs)
  obtain k x where kv: "kv = (k, x)" by (cases kv)
  from Cons.prems(1) obtain t where t: "step (k, x) s = Inr t" and r: "res_fold step kvs t = Inr s'"
    by (auto simp: kv res_bind_eq_Inr)
  have a: "ok t" "view t = (view s)(k := g k x (view s k))" "checked k x (view s k)"
    using Cons.prems(4) [OF _ Cons.prems(3) t] by (auto simp: kv)
  have d: "distinct (map fst kvs)" "map_of kvs k = None"
    using Cons.prems(2) by (auto simp: kv map_of_eq_None_iff)
  have ih: "ok s' \<and>
    view s' = (\<lambda>k. case map_of kvs k of Some x \<Rightarrow> g k x (view t k) | None \<Rightarrow> view t k) \<and>
    (\<forall>k x. map_of kvs k = Some x \<longrightarrow> checked k x (view t k))"
    by (rule Cons.IH [OF r d(1) a(1)], rule Cons.prems(4)) (simp_all add: kv)
  then have "view s' = (\<lambda>k. case map_of (kv # kvs) k of Some x \<Rightarrow> g k x (view s k) | None \<Rightarrow> view s k)"
    using a(2) d(2) by (auto simp: kv fun_eq_iff split: option.splits)
  moreover have "checked k' x' (view s k')" if "map_of (kv # kvs) k' = Some x'" for k' x'
  proof (cases "k' = k")
    case True
    then show ?thesis using that a(3) by (simp add: kv)
  next
    case False
    then have "map_of kvs k' = Some x'" using that by (simp add: kv)
    with ih have "checked k' x' (view t k')" by blast
    then show ?thesis using False a(2) by simp
  qed
  ultimately show ?case using ih by blast
qed

fun first_some :: "'a option list \<Rightarrow> 'a option" where
  "first_some [] = None"
| "first_some (x # xs) = opt_or x (first_some xs)"

lemma first_some_None: "first_some xs = None \<longleftrightarrow> (\<forall>x \<in> set xs. x = None)"
  by (induction xs) (auto simp: opt_or_def split: option.splits)

lemma first_some_append: "first_some (xs @ ys) = opt_or (first_some xs) (first_some ys)"
  by (induction xs) (auto simp: opt_or_def split: option.splits)

lemma bt_fold_map_get:
  assumes "bt_ok t" and "distinct (map fst m)"
  shows "bt_ok (fold (\<lambda>(k, v). bt_insert k (f v)) m t)"
    and "bt_get (fold (\<lambda>(k, v). bt_insert k (f v)) m t) k =
      opt_or (map_option f (map_of m k)) (bt_get t k)"
  using assms
proof (induction m arbitrary: t)
  case (Cons kv m)
  obtain a v where kv: "kv = (a, v)" by (cases kv)
  { case 1 then show ?case using Cons.IH(1) [OF bt_insert_ok] by (simp add: kv) }
  { case 2
    then have "map_of m a = None" by (auto simp: kv map_of_eq_None_iff)
    then show ?case using 2 Cons.IH(2) [OF bt_insert_ok [OF 2(1), of a "f v"]]
      by (auto simp: kv bt_insert_get opt_or_def split: option.splits) }
qed (simp_all add: opt_or_def)

lemma opt_or_None [simp]: "opt_or x None = x"
  by (simp add: opt_or_def split: option.split)

lemma bind_json_at_Nil [simp]: "Option.bind x (json_at []) = x"
  by (cases x) simp_all

subsection \<open>Canonical order\<close>

text \<open>Sorting the keys of all objects. Where keys are unique it changes no lookup.\<close>

fun canonicalize :: "json \<Rightarrow> json" where
  "canonicalize (JObject kvs) = JObject (bt_of_list (map (\<lambda>(k, v). (k, canonicalize v)) kvs))"
| "canonicalize (JArray vs) = JArray (map canonicalize vs)"
| "canonicalize JNull = JNull"
| "canonicalize (JBool b) = JBool b"
| "canonicalize (JInt i) = JInt i"
| "canonicalize (JFloat f) = JFloat f"
| "canonicalize (JString s) = JString s"

fun unique_keys :: "json \<Rightarrow> bool" where
  "unique_keys (JObject kvs) = (distinct (map fst kvs) \<and> (\<forall>kv \<in> set kvs. unique_keys (snd kv)))"
| "unique_keys (JArray vs) = (\<forall>v \<in> set vs. unique_keys v)"
| "unique_keys _ = True"

lemma bt_of_list_set: "set (bt_of_list kvs) \<subseteq> set kvs"
proof -
  have i: "set (bt_insert k v m) \<subseteq> insert (k, v) (set m)" for k and v :: 'a and m
    by (induction k v m rule: bt_insert.induct) auto
  have "set (fold (\<lambda>(k, v) m. bt_insert k v m) kvs m) \<subseteq> set kvs \<union> set m" for m :: "(string \<times> 'a) list"
  proof (induction kvs arbitrary: m)
    case (Cons kv kvs)
    obtain k v where "kv = (k, v)" by (cases kv)
    with Cons [of "bt_insert k v m"] i [of k v m] show ?case by auto
  qed simp
  from this [of "[]"] show ?thesis by (simp add: bt_of_list_def)
qed

lemma canonicalize_unique: "unique_keys (canonicalize j)"
proof (induction j rule: canonicalize.induct)
  case (1 kvs)
  let ?m = "bt_of_list (map (\<lambda>(k, v). (k, canonicalize v)) kvs)"
  have "distinct (map fst ?m)"
    using bt_of_list_ok [of "map (\<lambda>(k, v). (k, canonicalize v)) kvs"] by (simp add: bt_ok_def bt_keys_def)
  moreover have "unique_keys v" if "(k, v) \<in> set ?m" for k v
    using that bt_of_list_set 1 by fastforce
  ultimately show ?case by auto
qed auto

lemma canonicalize_get:
  assumes "unique_keys j"
  shows "json_get k (canonicalize j) = map_option canonicalize (json_get k j)"
proof (cases j)
  case (JObject kvs)
  have "map_of (map (\<lambda>(k, v). (k, canonicalize v)) kvs) k = map_option canonicalize (map_of kvs k)"
    by (induction kvs) auto
  moreover have "distinct (map fst (map (\<lambda>(k, v). (k, canonicalize v)) kvs))"
    using assms by (simp add: JObject case_prod_unfold comp_def)
  ultimately show ?thesis by (simp add: JObject bt_of_list_get)
qed simp_all

lemma unique_keys_get: "unique_keys j \<Longrightarrow> json_get k j = Some v \<Longrightarrow> unique_keys v"
  by (cases j) (auto dest!: map_of_SomeD)

lemma canonicalize_at:
  "unique_keys j \<Longrightarrow> json_at ks (canonicalize j) = map_option canonicalize (json_at ks j)"
proof (induction ks arbitrary: j)
  case (Cons k ks)
  then show ?case
    by (cases "json_get k j") (auto simp: canonicalize_get dest: unique_keys_get)
qed simp

end
