(* ===== verification/Problem.thy ===== *)
theory Problem
  imports Trace Contract Json
begin

section \<open>Problem responses\<close>

text \<open>
  Models \<open>problem.rs\<close>: the RFC 9457 responses the framework answers errors with, and the
  normalisation of the error responses of handlers. What the framework takes from its
  libraries is collected in the record \<open>libs\<close>.
\<close>

subsection \<open>What the libraries provide\<close>

record problem_routing =
  pg_instance :: "string option"
  pg_operation_id :: "string option"

text \<open>Functions of \<open>http\<close>, \<open>axum\<close>, \<open>serde_json\<close> and the utilities crate:
  \<open>lib_problem_value code detail trace routing status\<close> is the serialised
  \<open>SdkWorkProblemDetail::platform_enriched\<close> with its status set, \<open>lib_problem_routing\<close> is
  \<open>SdkWorkProblemRouting::from_parts\<close> and \<open>lib_show_contract\<close> renders the message of a
  contract error.\<close>

record libs =
  lib_parse_uri :: "string \<Rightarrow> uri_view option"
  lib_parse_method :: "string \<Rightarrow> string option"
  lib_from_str :: "string \<Rightarrow> header_value option"
  lib_percent_decode :: "string \<Rightarrow> string"
  lib_to_bytes :: "nat \<Rightarrow> string \<Rightarrow> string + string"
  lib_object_keys :: "string \<Rightarrow> string list option"
  lib_show_contract :: "contract_error \<Rightarrow> string"
  lib_collapse_prefix :: "string \<Rightarrow> string"
  lib_redact_path :: "string \<Rightarrow> string"
  lib_parse_path_query :: "string \<Rightarrow> (string \<times> string option) option"
  lib_status_from_u16 :: "nat \<Rightarrow> nat option"
  lib_json_parse :: "string \<Rightarrow> string + json"
  lib_json_encode :: "json \<Rightarrow> string"
  lib_problem_value ::
    "sdk_result_code \<Rightarrow> string \<Rightarrow> string \<Rightarrow> problem_routing \<Rightarrow> nat \<Rightarrow> json"
  lib_problem_routing ::
    "string option \<Rightarrow> string option \<Rightarrow> string option \<Rightarrow> string option \<Rightarrow> problem_routing"
  lib_result_title :: "sdk_result_code \<Rightarrow> string"
  lib_result_i32 :: "sdk_result_code \<Rightarrow> int"

subsection \<open>Result codes\<close>

definition map_result_code :: "int \<Rightarrow> sdk_result_code" where
  "map_result_code c =
     (if c = 40001 then RcValidationError
      else if c = 40101 then RcAuthenticationRequired
      else if c = 40102 then RcTokenExpired
      else if c = 40103 then RcInvalidToken
      else if c = 40104 then RcSessionRevoked
      else if c = 40301 then RcPermissionRequired
      else if c = 40401 then RcNotFound
      else if c = 40501 then RcMethodNotAllowed
      else if c = 40801 then RcRequestTimeout
      else if c = 40201 then RcInsufficientBalance
      else if c = 40901 then RcConflict
      else if c = 41101 then RcPaymentGatewayRejected
      else if c = 41301 then RcPayloadTooLarge
      else if c = 42201 then RcUnprocessableEntity
      else if c = 42901 then RcRateLimitExceeded
      else if c = 50301 then RcServiceUnavailable
      else RcInternalError)"

definition result_code_from_status :: "nat \<Rightarrow> sdk_result_code" where
  "result_code_from_status status =
     (if status = 400 then RcMalformedRequest
      else if status = 401 then RcAuthenticationRequired
      else if status = 403 then RcPermissionRequired
      else if status = 404 then RcNotFound
      else if status = 405 then RcMethodNotAllowed
      else if status = 408 then RcRequestTimeout
      else if status = 409 then RcConflict
      else if status = 410 then RcGone
      else if status = 412 then RcPreconditionFailed
      else if status = 413 then RcPayloadTooLarge
      else if status = 415 then RcUnsupportedMediaType
      else if status = 422 then RcUnprocessableEntity
      else if status = 423 then RcLocked
      else if status = 428 then RcPreconditionRequired
      else if status = 429 then RcRateLimitExceeded
      else if status = 402 then RcInsufficientBalance
      else if status = 502 then RcBadGateway
      else if status = 503 then RcServiceUnavailable
      else if status = 504 then RcGatewayTimeout
      else if 400 \<le> status \<and> status < 500 then RcValidationError
      else RcInternalError)"

subsection \<open>Correlation\<close>

record problem_correlation =
  pc_request_id :: "string option"
  pc_trace_id :: "string option"
  pc_method :: "string option"
  pc_route_template :: "string option"
  pc_fallback_path :: "string option"
  pc_operation_id :: "string option"

definition correlation_new :: "string option \<Rightarrow> string option \<Rightarrow> problem_correlation" where
  "correlation_new request_id trace_id = \<lparr>pc_request_id = request_id, pc_trace_id = trace_id,
     pc_method = None, pc_route_template = None, pc_fallback_path = None, pc_operation_id = None\<rparr>"

definition with_routing ::
  "string option \<Rightarrow> string option \<Rightarrow> string option \<Rightarrow> string option \<Rightarrow>
     problem_correlation \<Rightarrow> problem_correlation" where
  "with_routing method route_template fallback_path operation_id c =
     c\<lparr>pc_method := method, pc_route_template := route_template,
       pc_fallback_path := fallback_path, pc_operation_id := operation_id\<rparr>"

definition resolved_trace_id :: "problem_correlation \<Rightarrow> string option" where
  "resolved_trace_id c =
     (case opt_filter (\<lambda>v. v \<noteq> []) (pc_trace_id c) of
        Some t \<Rightarrow> normalize_wire_trace_id t
      | None \<Rightarrow> map_option (\<lambda>rid. resolve_problem_trace_id rid None) (pc_request_id c))"

definition correlation_routing :: "libs \<Rightarrow> problem_correlation \<Rightarrow> problem_routing" where
  "correlation_routing lib c =
     lib_problem_routing lib (pc_method c) (pc_route_template c) (pc_fallback_path c) (pc_operation_id c)"

subsection \<open>Errors as responses\<close>

definition is_problem_json :: "headers \<Rightarrow> bool" where
  "is_problem_json hs =
     (case hdr_text hs ''content-type'' of
        None \<Rightarrow> False
      | Some v \<Rightarrow> starts_with v ''application/problem+json'' \<or> starts_with v ''application/problem+json;'')"

definition client_safe_problem_detail :: "web_error \<Rightarrow> string" where
  "client_safe_problem_detail e =
     (if kind e = InternalServerError \<or> kind e = ContextNotInjected then ''An internal error occurred''
      else if kind e = DependencyUnavailable then ''A required dependency is temporarily unavailable''
      else message e)"

definition insert_text :: "libs \<Rightarrow> string \<Rightarrow> string \<Rightarrow> headers \<Rightarrow> headers" where
  "insert_text lib n v hs = (case lib_from_str lib v of None \<Rightarrow> hs | Some hv \<Rightarrow> hdr_insert n hv hs)"

definition set_if_some :: "string \<Rightarrow> string option \<Rightarrow> (string \<times> json) list" where
  "set_if_some k v = (case v of None \<Rightarrow> [] | Some s \<Rightarrow> [(k, JString s)])"

text \<open>The serialised problem detail is an object, so the assignments to it cannot panic;
  \<open>the_value\<close> takes the value that is there.\<close>

definition the_value :: "json option \<Rightarrow> json" where
  "the_value j = (case j of None \<Rightarrow> JNull | Some v \<Rightarrow> v)"

definition problem_headers :: "libs \<Rightarrow> string \<Rightarrow> headers" where
  "problem_headers lib trace_id =
     insert_text lib ''x-sdkwork-trace-id'' trace_id
       (hdr_insert ''content-type'' (TextValue ''application/problem+json'') Map.empty)"

definition problem_response :: "libs \<Rightarrow> web_error \<Rightarrow> problem_correlation \<Rightarrow> response" where
  "problem_response lib e c =
     (let status = error_status e;
          trace_id = unwrap_or (resolved_trace_id c) ''unknown'';
          code = map_result_code (result_code (lib_result_i32 lib) e);
          payload = the_value (json_set_all
            (set_if_some ''authProfile'' (auth_profile e)
             @ set_if_some ''failedStage'' (failed_stage e)
             @ set_if_some ''reason'' (reason e))
            (lib_problem_value lib code (client_safe_problem_detail e) trace_id
               (correlation_routing lib c) status));
          hs = problem_headers lib trace_id;
          hs = (case retry_after_seconds e of
                  None \<Rightarrow> hs | Some n \<Rightarrow> insert_text lib ''retry-after'' (show_nat n) hs)
      in \<lparr>rs_status = status, rs_headers = hs, rs_body = lib_json_encode lib payload\<rparr>)"

definition context_correlation :: "request_context \<Rightarrow> problem_correlation" where
  "context_correlation ctx =
     with_routing (Some (tf_method (rc_transport ctx)))
       (map_option ob_route_template (rc_operation ctx)) (Some (tf_path (rc_transport ctx)))
       (map_option ob_operation_id (rc_operation ctx))
       (correlation_new (Some (rc_request_id ctx)) (rc_trace_id ctx))"

subsection \<open>Normalising responses of handlers\<close>

definition enrichment_max_bytes :: nat where "enrichment_max_bytes = 64 * 1024"

definition field_missing :: "string \<Rightarrow> json \<Rightarrow> bool" where
  "field_missing k j = (case json_get k j of None \<Rightarrow> True | Some v \<Rightarrow> v = JNull)"

definition set_when_missing :: "string \<Rightarrow> string option \<Rightarrow> json \<Rightarrow> json option" where
  "set_when_missing k v j =
     (if field_missing k j then (case v of None \<Rightarrow> Some j | Some s \<Rightarrow> json_set k (JString s) j)
      else Some j)"

definition i18n_key :: "json \<Rightarrow> string option" where
  "i18n_key j = (case json_get ''code'' j of
     Some (JInt c) \<Rightarrow> Some (''errors.result.'' @ show_int c) | _ \<Rightarrow> None)"

definition enrich_problem_detail_value :: "problem_routing \<Rightarrow> json \<Rightarrow> json option" where
  "enrich_problem_detail_value routing j =
     Option.bind (set_when_missing ''instance'' (pg_instance routing) j) (\<lambda>j.
     Option.bind (set_when_missing ''operationId'' (pg_operation_id routing) j) (\<lambda>j.
     set_when_missing ''i18nKey'' (i18n_key j) j))"

definition empty_response :: response where
  "empty_response = \<lparr>rs_status = 200, rs_headers = Map.empty, rs_body = []\<rparr>"

text \<open>The response is taken out before its body is read, so an error leaves an empty response
  behind. The outer \<^const>\<open>None\<close> is a panic.\<close>

definition enrich_problem_response ::
  "libs \<Rightarrow> problem_correlation \<Rightarrow> response \<Rightarrow> (response \<times> (web_error + unit)) option" where
  "enrich_problem_response lib c rs =
     (if \<not> is_problem_json (rs_headers rs) then Some (rs, Inr ())
      else case lib_to_bytes lib enrichment_max_bytes (rs_body rs) of
        Inl _ \<Rightarrow> Some (empty_response,
          Inl (internal_server_error ''failed to read problem response body''))
      | Inr bytes \<Rightarrow>
          if bytes = [] then Some (rs\<lparr>rs_body := bytes\<rparr>, Inr ())
          else case lib_json_parse lib bytes of
            Inl m \<Rightarrow> Some (empty_response,
              Inl (internal_server_error (''invalid problem response json: '' @ m)))
          | Inr payload \<Rightarrow>
              Option.bind (enrich_problem_detail_value (correlation_routing lib c) payload) (\<lambda>payload.
              Option.bind (case resolved_trace_id c of
                  None \<Rightarrow> Some payload | Some t \<Rightarrow> json_set ''traceId'' (JString t) payload) (\<lambda>payload.
              Some (rs\<lparr>rs_body := lib_json_encode lib payload\<rparr>, Inr ()))))"

definition nonempty_text :: "headers \<Rightarrow> string \<Rightarrow> string option" where
  "nonempty_text hs n = opt_filter (\<lambda>v. v \<noteq> []) (hdr_text hs n)"

text \<open>\<open>content-type\<close>, \<open>content-length\<close> and the trace id are those of the new response; every
  other header is carried over.\<close>

definition carry_headers :: "headers \<Rightarrow> headers \<Rightarrow> headers" where
  "carry_headers original normalized n =
     (if n \<in> {''content-type'', ''content-length'', ''x-sdkwork-trace-id''} then normalized n
      else opt_or (normalized n) (original n))"

definition replace_with_standard_problem ::
  "libs \<Rightarrow> nat \<Rightarrow> problem_correlation \<Rightarrow> response \<Rightarrow> response" where
  "replace_with_standard_problem lib status c rs =
     (let hs = rs_headers rs;
          code = result_code_from_status status;
          trace_id = unwrap_or (resolved_trace_id c) ''unknown'';
          reason = nonempty_text hs ''x-sdkwork-route-reason'';
          payload = the_value (json_set_all
            (set_if_some ''failedStage'' (nonempty_text hs ''x-sdkwork-route-stage'')
             @ set_if_some ''detail'' reason @ set_if_some ''reason'' reason)
            (lib_problem_value lib code (lib_result_title lib code) trace_id
               (correlation_routing lib c) status))
      in \<lparr>rs_status = status, rs_headers = carry_headers hs (problem_headers lib trace_id),
          rs_body = lib_json_encode lib payload\<rparr>)"

definition normalize_problem_response ::
  "libs \<Rightarrow> problem_correlation \<Rightarrow> response \<Rightarrow> (response \<times> (web_error + unit)) option" where
  "normalize_problem_response lib c rs =
     (let status = rs_status rs in
      if \<not> (400 \<le> status \<and> status < 600) then enrich_problem_response lib c rs
      else if is_problem_json (rs_headers rs) then
        (case enrich_problem_response lib c rs of
           None \<Rightarrow> None
         | Some (rs', Inl e) \<Rightarrow> Some (replace_with_standard_problem lib status c rs', Inl e)
         | Some (rs', Inr u) \<Rightarrow> Some (rs', Inr u))
      else Some (replace_with_standard_problem lib status c rs, Inr ()))"

subsection \<open>Facts\<close>

lemma problem_headers_other:
  "n \<notin> {''content-type'', ''x-sdkwork-trace-id''} \<Longrightarrow> problem_headers lib t n = None"
  by (auto simp: problem_headers_def insert_text_def hdr_insert_def lower_char_def is_ascii_upper_def
      split: option.splits)

lemma problem_headers_content_type:
  "problem_headers lib t ''content-type'' = Some (TextValue ''application/problem+json'')"
  by (auto simp: problem_headers_def insert_text_def hdr_insert_def lower_char_def is_ascii_upper_def
      split: option.splits)

lemma is_problem_json_content_type:
  "hs ''content-type'' = Some (TextValue ''application/problem+json'') \<Longrightarrow> is_problem_json hs"
  by (simp add: is_problem_json_def hdr_text_def hdr_get_def starts_with_def lower_char_def
      is_ascii_upper_def)

lemma standard_problem_facts:
  "rs_status (replace_with_standard_problem lib status c rs) = status"
  "is_problem_json (rs_headers (replace_with_standard_problem lib status c rs))"
  "n \<notin> {''content-type'', ''content-length'', ''x-sdkwork-trace-id''} \<Longrightarrow>
     rs_headers (replace_with_standard_problem lib status c rs) n = rs_headers rs n"
  by (auto simp: replace_with_standard_problem_def Let_def carry_headers_def
      problem_headers_content_type problem_headers_other intro!: is_problem_json_content_type)

lemma enrich_ok:
  "enrich_problem_response lib c rs = Some (rs', Inr ()) \<Longrightarrow>
     rs_status rs' = rs_status rs \<and> rs_headers rs' = rs_headers rs"
  by (auto simp: enrich_problem_response_def bind_eq_Some_conv split: if_splits sum.splits)

text \<open>C22: Problem responses for internal failures, missing contexts and failed dependencies
  tell the client nothing of the error's message: two errors of such a kind that agree in
  kind and diagnostics are answered with the same bytes.\<close>

theorem internal_errors_do_not_leak:
  assumes "kind e \<in> {InternalServerError, ContextNotInjected, DependencyUnavailable}"
  shows "problem_response lib (e\<lparr>message := m\<rparr>) c = problem_response lib e c"
  using assms
  by (auto simp: problem_response_def client_safe_problem_detail_def error_status_def
      result_code_def Let_def)

text \<open>Fields can be set in an object and in null, which becomes one.\<close>

definition takes_fields :: "json \<Rightarrow> bool" where
  "takes_fields j \<longleftrightarrow> j = JNull \<or> as_object j \<noteq> None"

lemma json_set_takes_fields: "takes_fields j \<Longrightarrow> \<exists>j'. json_set k v j = Some j' \<and> takes_fields j'"
  by (cases j) (auto simp: takes_fields_def)

lemma set_when_missing_takes_fields:
  "takes_fields j \<Longrightarrow> \<exists>j'. set_when_missing k v j = Some j' \<and> takes_fields j'"
  using json_set_takes_fields by (cases v) (auto simp: set_when_missing_def)

lemma enrich_detail_takes_fields:
  assumes "takes_fields j"
  shows "\<exists>j'. enrich_problem_detail_value routing j = Some j' \<and> takes_fields j'"
proof -
  obtain a where a: "set_when_missing ''instance'' (pg_instance routing) j = Some a" "takes_fields a"
    using set_when_missing_takes_fields [OF assms] by blast
  obtain b where b: "set_when_missing ''operationId'' (pg_operation_id routing) a = Some b" "takes_fields b"
    using set_when_missing_takes_fields [OF a(2)] by blast
  show ?thesis
    using set_when_missing_takes_fields [OF b(2)]
    by (simp only: enrich_problem_detail_value_def a(1) b(1) bind.bind_lunit)
qed

lemma enrich_panic:
  assumes "enrich_problem_response lib c rs = None"
  shows "is_problem_json (rs_headers rs)
    \<and> (\<exists>body v. lib_to_bytes lib enrichment_max_bytes (rs_body rs) = Inr body
         \<and> lib_json_parse lib body = Inr v \<and> \<not> takes_fields v)"
proof -
  have fine: "Option.bind (enrich_problem_detail_value (correlation_routing lib c) v) (\<lambda>payload.
      Option.bind (case resolved_trace_id c of None \<Rightarrow> Some payload
          | Some t \<Rightarrow> json_set ''traceId'' (JString t) payload)
        (\<lambda>payload. Some (rs\<lparr>rs_body := lib_json_encode lib payload\<rparr>, Inr () :: web_error + unit))) \<noteq> None"
    if v: "takes_fields v" for v
  proof -
    obtain v' where v': "enrich_problem_detail_value (correlation_routing lib c) v = Some v'" "takes_fields v'"
      using enrich_detail_takes_fields [OF v] by blast
    show ?thesis
    proof (cases "resolved_trace_id c")
      case (Some x)
      then show ?thesis using json_set_takes_fields [OF v'(2), of "''traceId''" "JString x"] by (auto simp: v'(1))
    qed (simp add: v'(1))
  qed
  show ?thesis
    using assms unfolding enrich_problem_response_def
    by (auto simp del: not_None_eq dest: fine split: if_splits sum.splits)
qed

text \<open>C21: An error response of a handler (status 400 to 599) leaves the normalisation with its
  status and as a problem document; and when the normalisation reports no error, every
  header of the handler survives, except the content type, the content length and the trace
  id. The normalisation panics only on a response that is a problem document already, with a
  body that parses as JSON but as neither an object nor null.\<close>

theorem normalize_problem_response_standard:
  assumes "400 \<le> rs_status rs" and "rs_status rs < 600"
  shows "case normalize_problem_response lib c rs of
      Some (rs', r) \<Rightarrow> rs_status rs' = rs_status rs \<and> is_problem_json (rs_headers rs')
        \<and> (r = Inr () \<and> n \<notin> {''content-type'', ''content-length'', ''x-sdkwork-trace-id''} \<longrightarrow>
            rs_headers rs' n = rs_headers rs n)
    | None \<Rightarrow> is_problem_json (rs_headers rs)
        \<and> (\<exists>body v. lib_to_bytes lib enrichment_max_bytes (rs_body rs) = Inr body
             \<and> lib_json_parse lib body = Inr v \<and> v \<noteq> JNull \<and> as_object v = None)"
proof (cases "is_problem_json (rs_headers rs)")
  case False
  then have "normalize_problem_response lib c rs
      = Some (replace_with_standard_problem lib (rs_status rs) c rs, Inr ())"
    using assms by (simp add: normalize_problem_response_def Let_def)
  then show ?thesis by (simp add: standard_problem_facts)
next
  case True
  show ?thesis
  proof (cases "enrich_problem_response lib c rs")
    case None
    then have "normalize_problem_response lib c rs = None"
      using True assms by (simp add: normalize_problem_response_def Let_def)
    with enrich_panic [OF None] show ?thesis unfolding takes_fields_def by auto
  next
    case (Some vq)
    obtain v q where e: "vq = (v, q)" by (cases vq)
    show ?thesis
    proof (cases q)
      case (Inl err)
      then show ?thesis using True assms Some e
        by (simp add: normalize_problem_response_def Let_def standard_problem_facts)
    next
      case (Inr u)
      then have "rs_status v = rs_status rs \<and> rs_headers v = rs_headers rs"
        using enrich_ok Some e by simp
      then show ?thesis using True assms Some e Inr
        by (simp add: normalize_problem_response_def Let_def)
    qed
  qed
qed

text \<open>A problem document whose body is malformed loses the handler's other headers, and one
  whose body is a JSON array makes the framework panic.\<close>

lemma malformed_problem_loses_headers:
  assumes "is_problem_json (rs_headers rs)" and "400 \<le> rs_status rs" and "rs_status rs < 600"
    and "lib_to_bytes lib enrichment_max_bytes (rs_body rs) = Inr body" and "body \<noteq> []"
    and "lib_json_parse lib body = Inl m"
    and "n \<notin> {''content-type'', ''content-length'', ''x-sdkwork-trace-id''}"
  shows "\<exists>rs' e. normalize_problem_response lib c rs = Some (rs', Inl e) \<and> rs_headers rs' n = None"
  using assms
  by (simp add: normalize_problem_response_def Let_def enrich_problem_response_def
      standard_problem_facts empty_response_def)

lemma array_problem_panics:
  assumes "is_problem_json (rs_headers rs)"
    and "lib_to_bytes lib enrichment_max_bytes (rs_body rs) = Inr body" and "body \<noteq> []"
    and "lib_json_parse lib body = Inr (JArray xs)"
    and "pg_instance (correlation_routing lib c) \<noteq> None"
  shows "normalize_problem_response lib c rs = None"
  using assms
  by (auto simp: normalize_problem_response_def Let_def enrich_problem_response_def
      enrich_problem_detail_value_def set_when_missing_def field_missing_def)

subsection \<open>Concrete inputs\<close>

text \<open>Libraries that treat every text as well formed, for the evaluation of concrete requests.\<close>

fun plain_encode :: "json \<Rightarrow> string" where
  "plain_encode (JString s) = s"
| "plain_encode (JInt i) = show_int i"
| "plain_encode (JObject kvs) = concat (map (\<lambda>(k, v). k @ ''='' @ plain_encode v @ '';'') kvs)"
| "plain_encode _ = ''?''"

definition plain_libs :: libs where
  "plain_libs = \<lparr>lib_parse_uri = (\<lambda>_. None), lib_parse_method = Some,
     lib_from_str = (\<lambda>s. Some (TextValue s)), lib_percent_decode = (\<lambda>s. s),
     lib_to_bytes = (\<lambda>n s. if length s \<le> n then Inr s else Inl ''length limit exceeded''),
     lib_object_keys = (\<lambda>_. None), lib_show_contract = (\<lambda>_. ''invalid contract''),
     lib_collapse_prefix = (\<lambda>p. p), lib_redact_path = (\<lambda>p. p),
     lib_parse_path_query = (\<lambda>p. Some (p, None)),
     lib_status_from_u16 = (\<lambda>n. if 100 \<le> n \<and> n \<le> 999 then Some n else None),
     lib_json_parse = (\<lambda>s. if s = ''[]'' then Inr (JArray []) else Inr (JObject [(''detail'', JString s)])),
     lib_json_encode = plain_encode,
     lib_problem_value = (\<lambda>code detail trace routing status. JObject
       [(''detail'', JString detail), (''traceId'', JString trace), (''status'', JInt (int status))]),
     lib_problem_routing = (\<lambda>method template path op_id.
       \<lparr>pg_instance = path, pg_operation_id = op_id\<rparr>),
     lib_result_title = (\<lambda>_. ''title''), lib_result_i32 = (\<lambda>_. 50001)\<rparr>"

definition plain_correlation :: problem_correlation where
  "plain_correlation = correlation_new (Some ''deadbeef-0001-4203-bf05-060708090a0b'') None"

theorem internal_errors_do_not_leak_witness:
  "problem_response plain_libs ((dependency_unavailable ''redis down'')\<lparr>message := ''sqlx reset''\<rparr>)
     plain_correlation = problem_response plain_libs (dependency_unavailable ''redis down'') plain_correlation"
  by (rule internal_errors_do_not_leak) (simp add: error_constructor_defs)

definition plain_failure :: response where
  "plain_failure = \<lparr>rs_status = 404, rs_headers = [''retry-after'' \<mapsto> TextValue ''7''], rs_body = ''gone''\<rparr>"

theorem normalize_problem_response_standard_witness:
  "\<exists>rs'. normalize_problem_response plain_libs plain_correlation plain_failure = Some (rs', Inr ())
     \<and> rs_status rs' = 404 \<and> is_problem_json (rs_headers rs')
     \<and> rs_headers rs' ''retry-after'' = Some (TextValue ''7'')"
proof -
  have "\<not> is_problem_json (rs_headers plain_failure)"
    by (simp add: is_problem_json_def plain_failure_def hdr_text_def hdr_get_def lower_char_def
        is_ascii_upper_def)
  then obtain rs' where n: "normalize_problem_response plain_libs plain_correlation plain_failure = Some (rs', Inr ())"
    by (simp add: normalize_problem_response_def plain_failure_def Let_def)
  have "400 \<le> rs_status plain_failure" "rs_status plain_failure < 600" by (simp_all add: plain_failure_def)
  from normalize_problem_response_standard [OF this, where lib = plain_libs and c = plain_correlation and n = "''retry-after''"] n
  show ?thesis by (simp add: plain_failure_def)
qed

end
