(* ===== verification/Call_State.thy ===== *)
theory Call_State
  imports Open_Api_Auth Trace Security Admission
begin

section \<open>The state of a call\<close>

text \<open>
  Models the part of \<open>api_chain.rs\<close> that belongs to one request: the stages and their order,
  the call state with its construction from a request, the keys it is rate limited, admitted
  and made idempotent under, and the context it hands to a handler; and the overlay of
  \<open>tenant_runtime.rs\<close>. A \<open>ServerRequestId\<close> is its string, an \<open>Instant\<close> a number of
  nanoseconds. Three fields only the optional request-logging interceptor writes are kept so
  that the record is the struct of the code.
\<close>

datatype call_stage =
    StRequestIdentity
  | StSurfaceClassification
  | StCors
  | StMethodGuard
  | StHeaderSecurity
  | StCrossSiteRequest
  | StSqlInjectionGuard
  | StRequestSizeLimit
  | StRateLimit
  | StIdempotency
  | StRequestContextResolution
  | StAuthentication
  | StAuthorization
  | StTenantIsolation
  | StContextInjection
  | StLogging
  | StAudit
  | StResponseIdentity

definition standard_stage_order :: "call_stage list" where
  "standard_stage_order =
     [StRequestIdentity, StSurfaceClassification, StCors, StMethodGuard, StCrossSiteRequest,
      StSqlInjectionGuard, StRequestSizeLimit, StRateLimit, StIdempotency,
      StRequestContextResolution, StAuthentication, StAuthorization, StTenantIsolation,
      StContextInjection, StLogging, StAudit, StHeaderSecurity, StResponseIdentity]"

record tenant_runtime_profile =
  tr_rate_limit_enabled :: "bool option"
  tr_max_content_length :: "nat option"
  tr_max_concurrent_requests :: "nat option"

record call_state =
  cs_request_id :: "string option"
  cs_api_surface :: api_surface
  cs_auth_mode :: auth_mode
  cs_principal :: "principal option"
  cs_path :: string
  cs_method :: string
  cs_cors_preflight :: bool
  cs_origin :: "string option"
  cs_public_path :: bool
  cs_operation_id :: "string option"
  cs_route_template :: "string option"
  cs_client_kind :: "client_kind option"
  cs_route_auth :: "route_auth option"
  cs_credentials :: call_credentials
  cs_idempotency_key :: "string option"
  cs_idempotency_fingerprint :: "string option"
  cs_idempotency_leader :: bool
  cs_idempotency_replay :: "idempotency_record option"
  cs_traceparent :: "string option"
  cs_tracestate :: "string option"
  cs_rate_limit_tier :: "rate_limit_tier option"
  cs_manifest_idempotent :: bool
  cs_resolved_cors :: "cors_policy option"
  cs_tenant_runtime_profile :: "tenant_runtime_profile option"
  cs_resolved_rate_limit :: "resolved_rate_limit option"
  cs_concurrent_admission_key :: "string option"
  cs_accepted_at :: "nat option"
  cs_redacted_query :: "string option"
  cs_safe_request_headers :: "string option"
  cs_client_ip :: "string option"
  cs_forbid_credential_headers :: bool
  cs_before_failure :: "web_error option"

text \<open>\<open>collapse\<close> is \<open>collapse_duplicate_surface_prefix\<close> of the utilities crate.\<close>

definition credentials_from_headers :: "headers \<Rightarrow> call_credentials" where
  "credentials_from_headers hs =
     \<lparr>cr_auth_token = bearer_token hs, cr_access_token = access_token hs,
      cr_api_key = api_key hs, cr_ingress_token = ingress_token hs,
      cr_oauth_bearer = (if access_token hs \<noteq> None then None else bearer_token hs),
      cr_agent_token = agent_token hs\<rparr>"

definition call_state_from_request :: "(string \<Rightarrow> string) \<Rightarrow> request \<Rightarrow> call_state" where
  "call_state_from_request collapse rq =
     (let hs = rq_headers rq in
      \<lparr>cs_request_id = None, cs_api_surface = Unknown, cs_auth_mode = ModePublic,
       cs_principal = None, cs_path = collapse (rq_path rq), cs_method = rq_method rq,
       cs_cors_preflight = (rq_method rq = ''OPTIONS'' \<and> hdr_has hs ''origin''
         \<and> hdr_has hs ''access-control-request-method''),
       cs_origin = hdr_trimmed hs ''origin'', cs_public_path = False,
       cs_operation_id = header_string hs ''X-Sdkwork-Operation-Id'',
       cs_route_template = None, cs_client_kind = None, cs_route_auth = None,
       cs_credentials = credentials_from_headers hs,
       cs_idempotency_key = idempotency_key hs, cs_idempotency_fingerprint = None,
       cs_idempotency_leader = False, cs_idempotency_replay = None, cs_traceparent = None,
       cs_tracestate = None, cs_rate_limit_tier = None, cs_manifest_idempotent = False,
       cs_resolved_cors = None, cs_tenant_runtime_profile = None,
       cs_resolved_rate_limit = None, cs_concurrent_admission_key = None,
       cs_accepted_at = None, cs_redacted_query = None, cs_safe_request_headers = None,
       cs_client_ip = None, cs_forbid_credential_headers = False, cs_before_failure = None\<rparr>)"

definition to_context :: "call_state \<Rightarrow> web_error + request_context" where
  "to_context s =
     res_bind (ok_or (cs_request_id s) (bad_request ''request id interceptor has not run''))
     (\<lambda>request_id. Inr
       \<lparr>rc_request_id = request_id, rc_api_surface = cs_api_surface s,
        rc_auth_mode = cs_auth_mode s,
        rc_transport = \<lparr>tf_path = cs_path s, tf_method = cs_method s,
          tf_auth_token_present = cr_auth_token (cs_credentials s) \<noteq> None,
          tf_access_token_present = cr_access_token (cs_credentials s) \<noteq> None,
          tf_api_key_present = cr_api_key (cs_credentials s) \<noteq> None,
          tf_ingress_token_present = cr_ingress_token (cs_credentials s) \<noteq> None,
          tf_oauth_bearer_present = cr_oauth_bearer (cs_credentials s) \<noteq> None,
          tf_agent_token_present = cr_agent_token (cs_credentials s) \<noteq> None\<rparr>,
        rc_principal = cs_principal s, rc_locale = None, rc_client_kind = cs_client_kind s,
        rc_operation = Option.bind (cs_operation_id s) (\<lambda>op_id.
          map_option (\<lambda>template. \<lparr>ob_operation_id = op_id, ob_route_template = template,
            ob_rate_limit_tier = cs_rate_limit_tier s, ob_idempotent = cs_manifest_idempotent s\<rparr>)
          (cs_route_template s)),
        rc_trace_id = Option.bind (cs_traceparent s) trace_id_from_traceparent,
        rc_idempotency_key = cs_idempotency_key s\<rparr>)"

subsection \<open>Keys\<close>

fun tier_debug :: "rate_limit_tier \<Rightarrow> string" where
  "tier_debug AuthCritical = ''AuthCritical''"
| "tier_debug OpenApiDefault = ''OpenApiDefault''"
| "tier_debug Upload = ''Upload''"
| "tier_debug Search = ''Search''"
| "tier_debug Bulk = ''Bulk''"
| "tier_debug Worker = ''Worker''"
| "tier_debug Internal = ''Internal''"

definition tier_suffix :: "call_state \<Rightarrow> string" where
  "tier_suffix s =
     (case cs_rate_limit_tier s of None \<Rightarrow> [] | Some t \<Rightarrow> '':tier:'' @ tier_debug t)"

definition credentials_present :: "call_state \<Rightarrow> bool" where
  "credentials_present s =
     (let c = cs_credentials s in
      cr_auth_token c \<noteq> None \<or> cr_access_token c \<noteq> None \<or> cr_api_key c \<noteq> None
      \<or> cr_ingress_token c \<noteq> None \<or> cr_oauth_bearer c \<noteq> None \<or> cr_agent_token c \<noteq> None)"

definition show_bool :: "bool \<Rightarrow> string" where
  "show_bool b = (if b then ''true'' else ''false'')"

definition credentials_fingerprint :: "call_state \<Rightarrow> string" where
  "credentials_fingerprint s =
     (let c = cs_credentials s in
      ''a='' @ show_bool (cr_auth_token c \<noteq> None) @ '':t='' @ show_bool (cr_access_token c \<noteq> None)
      @ '':k='' @ show_bool (cr_api_key c \<noteq> None) @ '':i='' @ show_bool (cr_ingress_token c \<noteq> None)
      @ '':o='' @ show_bool (cr_oauth_bearer c \<noteq> None) @ '':g='' @ show_bool (cr_agent_token c \<noteq> None))"

definition rate_limit_key :: "call_state \<Rightarrow> string" where
  "rate_limit_key s =
     (let path_hash = hash_key_material (cs_path s) in
      case cs_principal s of
        Some p \<Rightarrow> ''tenant:'' @ hash_key_material (principal_tenant_id p) @ '':path:'' @ path_hash
          @ tier_suffix s
      | None \<Rightarrow>
          if credentials_present s
          then ''cred:'' @ hash_key_material (credentials_fingerprint s) @ '':path:'' @ path_hash
            @ tier_suffix s
          else ''anon:path:'' @ path_hash @ tier_suffix s)"

definition idempotency_scope :: "call_state \<Rightarrow> string" where
  "idempotency_scope s =
     (let c = cs_credentials s in
      if cs_public_path s then ''public''
      else case cs_principal s of
        Some p \<Rightarrow> ''tenant='' @ hash_key_material (principal_tenant_id p)
          @ '':app='' @ hash_key_material (principal_app_id p)
          @ '':user='' @ hash_key_material (principal_user_id p)
      | None \<Rightarrow> (case cr_api_key c of
          Some k \<Rightarrow> ''api_key='' @ hash_key_material k
      | None \<Rightarrow> (case cr_ingress_token c of
          Some k \<Rightarrow> ''ingress_token='' @ hash_key_material k
      | None \<Rightarrow> (case cr_agent_token c of
          Some k \<Rightarrow> ''agent_token='' @ hash_key_material k
      | None \<Rightarrow> (case cr_oauth_bearer c of
          Some k \<Rightarrow> ''oauth='' @ hash_key_material k
      | None \<Rightarrow> ''tokens='' @ hash_key_material
          (unwrap_or (cr_auth_token c) [] @ ''|'' @ unwrap_or (cr_access_token c) []))))))"

definition scoped_idempotency_store_key :: "call_state \<Rightarrow> string \<Rightarrow> string" where
  "scoped_idempotency_store_key s client_key =
     hash_key_material (idempotency_scope s) @ '':'' @ client_key"

definition concurrent_admission_scope_key :: "call_state \<Rightarrow> string option" where
  "concurrent_admission_scope_key s =
     (case cs_principal s of
        Some p \<Rightarrow> Some (''tenant:'' @ hash_key_material (principal_tenant_id p) @ '':concurrent'')
      | None \<Rightarrow>
          if cs_public_path s then None
          else if credentials_present s
          then Some (''cred:'' @ hash_key_material (credentials_fingerprint s) @ '':concurrent'')
          else Some ''anon:concurrent'')"

subsection \<open>Facts\<close>

lemma length_hash_key_material [simp]: "length (hash_key_material m) = 16"
  by (simp add: hash_key_material_def)

text \<open>Who a request comes from, as far as its idempotency scope tells: the hashes of what
  identifies it.\<close>

datatype caller =
    AnyPublicCaller
  | PrincipalCaller "64 word" "64 word" "64 word"
  | ApiKeyCaller "64 word"
  | IngressCaller "64 word"
  | AgentCaller "64 word"
  | OAuthCaller "64 word"
  | TokenCaller "64 word"

definition caller_of :: "call_state \<Rightarrow> caller" where
  "caller_of s =
     (let c = cs_credentials s in
      if cs_public_path s then AnyPublicCaller
      else case cs_principal s of
        Some p \<Rightarrow> PrincipalCaller (fnv1a64 (principal_tenant_id p)) (fnv1a64 (principal_app_id p))
          (fnv1a64 (principal_user_id p))
      | None \<Rightarrow> (case cr_api_key c of Some k \<Rightarrow> ApiKeyCaller (fnv1a64 k)
      | None \<Rightarrow> (case cr_ingress_token c of Some k \<Rightarrow> IngressCaller (fnv1a64 k)
      | None \<Rightarrow> (case cr_agent_token c of Some k \<Rightarrow> AgentCaller (fnv1a64 k)
      | None \<Rightarrow> (case cr_oauth_bearer c of Some k \<Rightarrow> OAuthCaller (fnv1a64 k)
      | None \<Rightarrow> TokenCaller (fnv1a64
          (unwrap_or (cr_auth_token c) [] @ ''|'' @ unwrap_or (cr_access_token c) [])))))))"

fun caller_scope :: "caller \<Rightarrow> string" where
  "caller_scope AnyPublicCaller = ''public''"
| "caller_scope (PrincipalCaller t a u) = ''tenant='' @ hex_digits 16 (unat t)
     @ '':app='' @ hex_digits 16 (unat a) @ '':user='' @ hex_digits 16 (unat u)"
| "caller_scope (ApiKeyCaller k) = ''api_key='' @ hex_digits 16 (unat k)"
| "caller_scope (IngressCaller k) = ''ingress_token='' @ hex_digits 16 (unat k)"
| "caller_scope (AgentCaller k) = ''agent_token='' @ hex_digits 16 (unat k)"
| "caller_scope (OAuthCaller k) = ''oauth='' @ hex_digits 16 (unat k)"
| "caller_scope (TokenCaller k) = ''tokens='' @ hex_digits 16 (unat k)"

lemma idempotency_scope_caller: "idempotency_scope s = caller_scope (caller_of s)"
  by (simp add: idempotency_scope_def caller_of_def Let_def hash_key_material_def split: option.splits)

lemma hex_word_eq: "hex_digits 16 (unat a) = hex_digits 16 (unat b) \<longleftrightarrow> a = b" for a b :: "64 word"
proof
  assume "hex_digits 16 (unat a) = hex_digits 16 (unat b)"
  moreover have "unat x < 16 ^ 16" for x :: "64 word"
  proof -
    have "unat x < 2 ^ LENGTH(64)" by (rule unsigned_less)
    then show ?thesis by simp
  qed
  ultimately have "unat a = unat b" by (intro hex_digits_inj) simp_all
  then show "a = b" by (simp only: word_unat_eq_iff)
qed simp

lemma caller_scope_inj: "caller_scope a = caller_scope b \<longleftrightarrow> a = b"
  by (cases a; cases b) (simp_all add: hex_word_eq)

text \<open>Two requests share an idempotency record exactly when they send the same key and their
  scopes have the same hash; the scopes themselves agree exactly when both requests are
  public or come from the same caller (the same hashed tenant, application and user, or the
  same hashed credential of the same kind), so no caller can reach another caller's record
  short of a collision of the hash.\<close>

theorem idempotency_keys_separate_callers:
  "(scoped_idempotency_store_key s k = scoped_idempotency_store_key t l \<longleftrightarrow>
      k = l \<and> fnv1a64 (idempotency_scope s) = fnv1a64 (idempotency_scope t))
   \<and> (idempotency_scope s = idempotency_scope t \<longleftrightarrow> caller_of s = caller_of t)"
proof -
  have "scoped_idempotency_store_key s k = scoped_idempotency_store_key t l \<longleftrightarrow>
      hash_key_material (idempotency_scope s) = hash_key_material (idempotency_scope t) \<and> k = l"
    by (simp add: scoped_idempotency_store_key_def)
  then show ?thesis
    by (auto simp: hash_key_material_eq idempotency_scope_caller caller_scope_inj)
qed

end
