(* ===== verification/Runtime.thy ===== *)
theory Runtime
  imports Call_State Context_Guard Idempotency_Store Problem
begin

section \<open>The runtime a pipeline is assembled from\<close>

text \<open>
  Models \<open>WebCallRuntime\<close> of \<open>api_chain.rs\<close> with the traits it holds: authorization, tenant
  isolation, audit and security events (\<open>policies.rs\<close>), the dynamic policy sources
  (\<open>cors_policy.rs\<close>, \<open>rate_limit_policy.rs\<close>, \<open>tenant_runtime.rs\<close>), the feature switches
  (\<open>runtime_options.rs\<close>) and the stores. Asynchronous operations are actions on the world
  \<^typ>\<open>'w\<close>; synchronous policies are functions. Metrics and log lines have no effect on what
  a request is answered and are left out.
\<close>

subsection \<open>Contexts of the policy sources and facts for the emitters\<close>

record cors_policy_context =
  cx_tenant_id :: "string option"
  cx_environment :: environment
  cx_api_surface :: api_surface
  cx_origin :: "string option"

record rate_limit_policy_context =
  rx_tenant_id :: "string option"
  rx_environment :: environment
  rx_api_surface :: api_surface
  rx_rate_limit_tier :: "rate_limit_tier option"
  rx_operation_id :: "string option"

record tenant_runtime_context =
  tx_tenant_id :: "string option"
  tx_environment :: environment
  tx_api_surface :: api_surface

record audit_fact =
  af_request_id :: string
  af_tenant_id :: "string option"
  af_user_id :: "string option"
  af_api_surface :: api_surface
  af_path :: string
  af_method :: string
  af_operation_id :: "string option"
  af_status_code :: "nat option"
  af_duration_ms :: "nat option"

datatype security_event_kind =
    CorsDenied
  | RateLimitExceededEvent
  | AuthenticationFailed
  | AuthorizationDenied
  | TenantIsolationDenied

record security_event =
  se_kind :: security_event_kind
  se_request_id :: "string option"
  se_tenant_id :: "string option"
  se_path :: string
  se_method :: string
  se_api_surface :: api_surface
  se_origin :: "string option"
  se_detail :: string

record optional_features =
  of_dynamic_cors_policy :: bool
  of_dynamic_rate_limit_policy :: bool
  of_dynamic_tenant_runtime_profile :: bool
  of_json_content_type_guard :: bool
  of_production_security_defaults :: bool
  of_control_plane_standalone :: bool

definition features_default :: optional_features where
  "features_default = \<lparr>of_dynamic_cors_policy = False, of_dynamic_rate_limit_policy = False,
     of_dynamic_tenant_runtime_profile = False, of_json_content_type_guard = False,
     of_production_security_defaults = False, of_control_plane_standalone = False\<rparr>"

definition features_production_sqlx :: optional_features where
  "features_production_sqlx = \<lparr>of_dynamic_cors_policy = True, of_dynamic_rate_limit_policy = True,
     of_dynamic_tenant_runtime_profile = True, of_json_content_type_guard = True,
     of_production_security_defaults = True, of_control_plane_standalone = False\<rparr>"

definition features_control_plane_standalone :: "optional_features \<Rightarrow> optional_features" where
  "features_control_plane_standalone f = f\<lparr>of_control_plane_standalone := True\<rparr>"

subsection \<open>Policies\<close>

definition manifest_authorize ::
  "manifest \<Rightarrow> request_context \<Rightarrow> string option \<Rightarrow> web_error + unit" where
  "manifest_authorize manifest ctx operation_id =
     (let route = match_route manifest (tf_method (rc_transport ctx)) (tf_path (rc_transport ctx));
          is_some_and = (\<lambda>P. case route of None \<Rightarrow> False | Some r \<Rightarrow> P r)
      in if is_some_and (\<lambda>r. skips_credential_resolution (rt_auth r)) then Inr ()
         else if is_some_and (\<lambda>r. is_optional_credential (rt_auth r)) then Inr ()
         else res_bind (require_principal ctx) (\<lambda>_.
           case Option.bind route rt_required_permission of
             None \<Rightarrow> Inr ()
           | Some required \<Rightarrow>
               if rc_api_surface ctx = AppApi then Inr ()
               else if \<not> has_permission ctx required
               then Inl (forbidden (''missing required permission: '' @ required))
               else Inr ()))"

definition deny_all_authorize :: "request_context \<Rightarrow> string option \<Rightarrow> web_error + unit" where
  "deny_all_authorize ctx operation_id =
     Inl (forbidden ''authorization policy is not configured for this deployment'')"

definition allow_all_authorize :: "request_context \<Rightarrow> string option \<Rightarrow> web_error + unit" where
  "allow_all_authorize ctx operation_id = Inr ()"

definition pass_through_isolation :: "request_context \<Rightarrow> string option \<Rightarrow> web_error + unit" where
  "pass_through_isolation ctx operation_id = Inr ()"

definition enforce_principal_isolation ::
  "request_context \<Rightarrow> string option \<Rightarrow> web_error + unit" where
  "enforce_principal_isolation ctx operation_id =
     res_bind (require_principal ctx) (\<lambda>_.
     res_bind (require_tenant_id ctx) (\<lambda>_.
     res_bind (require_app_id ctx) (\<lambda>_. Inr ())))"

definition default_rate_limit_resolve ::
  "call_state \<Rightarrow> rate_limit_policy \<Rightarrow> resolved_rate_limit" where
  "default_rate_limit_resolve s global =
     (case cs_rate_limit_tier s of
        Some t \<Rightarrow> limits_for_tier t
      | None \<Rightarrow> \<lparr>rr_max_requests = rl_max_requests_per_window global,
                 rr_window_secs = rl_window_secs global\<rparr>)"

subsection \<open>Requests in the pipeline\<close>

text \<open>What a call carries through the chain: its state, the request, the two extensions the
  pipeline puts into the request, and the world.\<close>

record 'w env =
  ev_state :: call_state
  ev_request :: request
  ev_ext_request_id :: "string option"
  ev_ext_context :: "request_context option"
  ev_world :: 'w

text \<open>A domain injector may change the request and what it holds in the world; a cleared
  extension or a replaced context is up to it, so it works on the whole environment.\<close>

record 'w runtime =
  rn_resolver :: "'w resolver"
  rn_profile :: context_profile
  rn_security_policy :: security_policy
  rn_domain_injectors :: "(request_context \<Rightarrow> 'w env \<Rightarrow> 'w env) list"
  rn_authorize :: "request_context \<Rightarrow> string option \<Rightarrow> web_error + unit"
  rn_enforce_isolation :: "request_context \<Rightarrow> string option \<Rightarrow> web_error + unit"
  rn_rate_check :: "string \<Rightarrow> nat \<Rightarrow> nat \<Rightarrow> ('w, unit) action"
  rn_idem_begin :: "string \<Rightarrow> string \<Rightarrow> nat \<Rightarrow> ('w, begin_outcome) action"
  rn_idem_complete :: "string \<Rightarrow> string \<Rightarrow> idempotency_record \<Rightarrow> nat \<Rightarrow> ('w, unit) action"
  rn_idem_release :: "string \<Rightarrow> string \<Rightarrow> ('w, unit) action"
  rn_emit_audit :: "audit_fact \<Rightarrow> ('w, unit) action"
  rn_emit_security :: "security_event \<Rightarrow> ('w, unit) action"
  rn_rate_limit_resolve :: "call_state \<Rightarrow> rate_limit_policy \<Rightarrow> resolved_rate_limit"
  rn_cors_source :: "cors_policy_context \<Rightarrow> ('w, cors_policy option) action"
  rn_rate_limit_source :: "rate_limit_policy_context \<Rightarrow> ('w, resolved_rate_limit option) action"
  rn_tenant_source :: "tenant_runtime_context \<Rightarrow> ('w, tenant_runtime_profile option) action"
  rn_admission_acquire :: "string \<Rightarrow> nat \<Rightarrow> ('w, unit) action"
  rn_admission_release :: "string \<Rightarrow> ('w, unit) action"
  rn_features :: optional_features
  rn_manifest :: "manifest option"
  rn_detect_scheme ::
    "call_credentials \<Rightarrow> headers \<Rightarrow> route_auth option \<Rightarrow> web_error + auth_scheme option"
  rn_classify_bearer :: "string \<Rightarrow> credential_kind"
  rn_request_timeout :: "nat option"
  rn_random :: "('w, 8 word list) action"
  rn_now :: "'w \<Rightarrow> nat"

text \<open>The last two are not fields of the struct: the random source and the clock of the
  process.\<close>

definition on_world :: "('w, 'a) action \<Rightarrow> ('w env, 'a) action" where
  "on_world m ev = (case m (ev_world ev) of (w, r) \<Rightarrow> (ev\<lparr>ev_world := w\<rparr>, r))"

definition update_state :: "(call_state \<Rightarrow> call_state) \<Rightarrow> ('w env, unit) action" where
  "update_state f = act_modify (\<lambda>ev. ev\<lparr>ev_state := f (ev_state ev)\<rparr>)"

definition effective_cors :: "'w runtime \<Rightarrow> call_state \<Rightarrow> cors_policy" where
  "effective_cors rn s = unwrap_or (cs_resolved_cors s) (sp_cors (rn_security_policy rn))"

definition effective_max_content_length :: "'w runtime \<Rightarrow> call_state \<Rightarrow> nat option" where
  "effective_max_content_length rn s =
     opt_or (Option.bind (cs_tenant_runtime_profile s) tr_max_content_length)
       (sz_max_content_length (sp_request_size_limit (rn_security_policy rn)))"

definition rate_limit_globally_enabled :: "'w runtime \<Rightarrow> call_state \<Rightarrow> bool" where
  "rate_limit_globally_enabled rn s =
     (if Option.bind (cs_tenant_runtime_profile s) tr_rate_limit_enabled = Some False then False
      else rl_enabled (sp_rate_limit (rn_security_policy rn)))"

definition state_tenant_id :: "call_state \<Rightarrow> string option" where
  "state_tenant_id s = map_option (\<lambda>p. principal_tenant_id p) (cs_principal s)"

definition security_event_of ::
  "libs \<Rightarrow> call_state \<Rightarrow> security_event_kind \<Rightarrow> string \<Rightarrow> security_event" where
  "security_event_of lib s k detail =
     \<lparr>se_kind = k, se_request_id = cs_request_id s, se_tenant_id = state_tenant_id s,
      se_path = lib_redact_path lib (cs_path s), se_method = cs_method s,
      se_api_surface = cs_api_surface s, se_origin = cs_origin s, se_detail = detail\<rparr>"

text \<open>\<open>emit_security_event\<close>: an emitter that fails makes the request fail with its error.\<close>

definition emit_security_event ::
  "libs \<Rightarrow> 'w runtime \<Rightarrow> security_event_kind \<Rightarrow> string \<Rightarrow> ('w env, unit) action" where
  "emit_security_event lib rn k detail =
     act_with (\<lambda>ev. on_world (rn_emit_security rn (security_event_of lib (ev_state ev) k detail)))"

definition deny_with_event ::
  "libs \<Rightarrow> 'w runtime \<Rightarrow> security_event_kind \<Rightarrow> ('w env, 'a) action \<Rightarrow> ('w env, 'a) action" where
  "deny_with_event lib rn k m =
     act_on_error m (\<lambda>e. emit_security_event lib rn k (message e))"

subsection \<open>Framing\<close>

lemma keeps_on_world [keeps_intros]: "(\<And>ev w. f (ev\<lparr>ev_world := w\<rparr>) = f ev) \<Longrightarrow> keeps f (on_world m)"
  by (simp add: keeps_def on_world_def split: prod.splits)

lemma keeps_update_state [keeps_intros]:
  "(\<And>ev. f (ev\<lparr>ev_state := g (ev_state ev)\<rparr>) = f ev) \<Longrightarrow> keeps f (update_state g)"
  by (simp add: update_state_def keeps_modify)

lemma keeps_emit [keeps_intros]:
  "(\<And>ev w. f (ev\<lparr>ev_world := w\<rparr>) = f ev) \<Longrightarrow> keeps f (emit_security_event lib rn k d)"
  by (auto simp: emit_security_event_def intro!: keeps_intros)

lemma keeps_deny [keeps_intros]:
  "keeps f m \<Longrightarrow> (\<And>ev w. f (ev\<lparr>ev_world := w\<rparr>) = f ev) \<Longrightarrow> keeps f (deny_with_event lib rn k m)"
  by (simp add: deny_with_event_def keeps_on_error keeps_emit)

lemma on_world_eq:
  "on_world m ev = (ev', r) \<longleftrightarrow> (\<exists>w. m (ev_world ev) = (w, r) \<and> ev' = ev\<lparr>ev_world := w\<rparr>)"
  by (auto simp: on_world_def split: prod.splits)

lemma update_state_eq [simp]:
  "update_state g ev = (ev\<lparr>ev_state := g (ev_state ev)\<rparr>, Inr ())"
  by (simp add: update_state_def)

lemma deny_with_event_Inr [simp]:
  "deny_with_event lib rn k m ev = (ev', Inr a) \<longleftrightarrow> m ev = (ev', Inr a)"
  by (simp add: deny_with_event_def act_on_error_Inr)

end
