(* ===== verification/Memory_Runtime.thy ===== *)
theory Memory_Runtime
  imports Runtime
begin

section \<open>The runtime with in-memory stores\<close>

text \<open>
  Models \<open>WebCallRuntime::development\<close> and \<open>production\<close> of \<open>api_chain.rs\<close>: the runtimes the
  crate itself assembles, over a world that holds the three in-memory stores of
  \<open>stores.rs\<close>, the clock and the random source.
\<close>

record mem_world =
  mw_admission :: admission_state
  mw_rate :: rate_state
  mw_idem :: idem_state
  mw_clock :: nat
  mw_random :: "8 word list list"

definition mem_world_init :: mem_world where
  "mem_world_init = \<lparr>mw_admission = Map.empty, mw_rate = Map.empty, mw_idem = [],
     mw_clock = 0, mw_random = []\<rparr>"

definition memory_rate_check :: "string \<Rightarrow> nat \<Rightarrow> nat \<Rightarrow> (mem_world, unit) action" where
  "memory_rate_check key max_requests window w =
     (case mem_check_and_record (mw_clock w) key max_requests window (mw_rate w) of
        (rate, r) \<Rightarrow> (w\<lparr>mw_rate := rate\<rparr>, r))"

definition memory_idem_begin :: "string \<Rightarrow> string \<Rightarrow> nat \<Rightarrow> (mem_world, begin_outcome) action" where
  "memory_idem_begin key fingerprint ttl w =
     (case mem_begin (mw_clock w) ttl key fingerprint (mw_idem w) of
        (idem, r) \<Rightarrow> (w\<lparr>mw_idem := idem\<rparr>, r))"

definition memory_idem_complete ::
  "string \<Rightarrow> string \<Rightarrow> idempotency_record \<Rightarrow> nat \<Rightarrow> (mem_world, unit) action" where
  "memory_idem_complete key fingerprint record ttl w =
     (case mem_complete (mw_clock w) ttl key fingerprint record (mw_idem w) of
        (idem, r) \<Rightarrow> (w\<lparr>mw_idem := idem\<rparr>, r))"

definition memory_idem_release :: "string \<Rightarrow> string \<Rightarrow> (mem_world, unit) action" where
  "memory_idem_release key fingerprint w =
     (w\<lparr>mw_idem := mem_idem_release key fingerprint (mw_idem w)\<rparr>, Inr ())"

definition memory_admission_acquire :: "string \<Rightarrow> nat \<Rightarrow> (mem_world, unit) action" where
  "memory_admission_acquire key limit w =
     (case mem_try_acquire key limit (mw_admission w) of
        (admission, r) \<Rightarrow> (w\<lparr>mw_admission := admission\<rparr>, r))"

definition memory_admission_release :: "string \<Rightarrow> (mem_world, unit) action" where
  "memory_admission_release key w =
     (w\<lparr>mw_admission := mem_release key (mw_admission w)\<rparr>, Inr ())"

definition memory_random :: "(mem_world, 8 word list) action" where
  "memory_random w =
     (case mw_random w of
        [] \<Rightarrow> (w, Inr (replicate 16 0))
      | bytes # rest \<Rightarrow> (w\<lparr>mw_random := rest\<rparr>, Inr bytes))"

definition runtime_development :: "mem_world resolver \<Rightarrow> mem_world runtime" where
  "runtime_development resolver =
     \<lparr>rn_resolver = resolver, rn_profile = profile_default, rn_security_policy = security_default,
      rn_domain_injectors = [], rn_authorize = allow_all_authorize,
      rn_enforce_isolation = pass_through_isolation,
      rn_rate_check = memory_rate_check, rn_idem_begin = memory_idem_begin,
      rn_idem_complete = memory_idem_complete, rn_idem_release = memory_idem_release,
      rn_emit_audit = (\<lambda>_. act_return ()), rn_emit_security = (\<lambda>_. act_return ()),
      rn_rate_limit_resolve = default_rate_limit_resolve,
      rn_cors_source = (\<lambda>_. act_return None), rn_rate_limit_source = (\<lambda>_. act_return None),
      rn_tenant_source = (\<lambda>_. act_return None),
      rn_admission_acquire = memory_admission_acquire,
      rn_admission_release = memory_admission_release,
      rn_features = features_default, rn_manifest = None,
      rn_detect_scheme = detect_scheme default_scheme_preference,
      rn_classify_bearer = classify_bearer api_key_prefixes,
      rn_request_timeout = None, rn_random = memory_random, rn_now = mw_clock\<rparr>"

definition runtime_production :: "mem_world resolver \<Rightarrow> mem_world runtime" where
  "runtime_production resolver =
     (let rn = (runtime_development resolver)
        \<lparr>rn_security_policy := security_production, rn_authorize := deny_all_authorize,
         rn_enforce_isolation := enforce_principal_isolation\<rparr>
      in rn\<lparr>rn_features := (rn_features rn)\<lparr>of_json_content_type_guard := True,
           of_production_security_defaults := True\<rparr>\<rparr>)"

subsection \<open>Inputs for evaluation\<close>

definition example_request :: "string \<Rightarrow> string \<Rightarrow> (string \<times> string) list \<Rightarrow> request" where
  "example_request method path hs = \<lparr>rq_method = method, rq_path = path, rq_query = None,
     rq_headers = foldr (\<lambda>(n, v) m. hdr_insert n (TextValue v) m) hs Map.empty, rq_body = []\<rparr>"

definition initial_env :: "libs \<Rightarrow> request \<Rightarrow> 'w \<Rightarrow> 'w env" where
  "initial_env lib rq w = \<lparr>ev_state = call_state_from_request (lib_collapse_prefix lib) rq,
     ev_request = rq, ev_ext_request_id = None, ev_ext_context = None, ev_world = w\<rparr>"

end
