(* ===== verification/Resolution.thy ===== *)
theory Resolution
  imports Memory_Runtime
begin

section \<open>Resolving who calls\<close>

text \<open>
  Models \<open>resolve_request_context\<close> of \<open>interceptors.rs\<close> with its helpers: for every surface
  and every profile of the matched route, which credential is required, which resolver
  vouches for it, and under which mode the request continues.
\<close>

definition set_identity :: "auth_mode \<Rightarrow> principal option \<Rightarrow> ('w env, unit) action" where
  "set_identity m p = update_state (\<lambda>s. s\<lparr>cs_auth_mode := m, cs_principal := p\<rparr>)"

definition matched_route :: "'w runtime \<Rightarrow> call_state \<Rightarrow> http_route option" where
  "matched_route rn s = Option.bind (rn_manifest rn) (\<lambda>m. match_route m (cs_method s) (cs_path s))"

subsection \<open>Compatibility credentials\<close>

definition compat_contract_error :: "string \<Rightarrow> web_error" where
  "compat_contract_error m = with_reason ''invalid-compatibility-auth-contract'' (bad_request m)"

definition compat_value :: "headers \<Rightarrow> string \<Rightarrow> scheme_kind \<Rightarrow> web_error + string option" where
  "compat_value hs n k =
     (case k of
        ApiKeyHeader h \<Rightarrow> (case hdr_get hs h of
            None \<Rightarrow> Inr None
          | Some v \<Rightarrow> (case hv_to_str v of
              Some s \<Rightarrow> Inr (Some s)
            | None \<Rightarrow> Inl (with_reason ''invalid-compatibility-credential'' (invalid_credentials
                (''compatibility credential '' @ n @ '' is not a valid header value'')))))
      | HttpBearer _ \<Rightarrow> Inr (bearer_token hs))"

text \<open>The inner loop over the schemes of a requirement, left at the first one that is missing.\<close>

fun collect_requirement ::
  "compat_auth \<Rightarrow> headers \<Rightarrow> string list \<Rightarrow> web_error + compat_credential list option" where
  "collect_requirement a hs [] = Inr (Some [])"
| "collect_requirement a hs (n # ns) =
     res_bind (ok_or (compat_scheme_lookup a n)
       (compat_contract_error (''compatibility requirement references unknown scheme '' @ n)))
     (\<lambda>scheme. res_bind (compat_value hs n (scheme_kind scheme))
     (\<lambda>value. case value of
        None \<Rightarrow> Inr None
      | Some v \<Rightarrow> res_bind (collect_requirement a hs ns)
          (\<lambda>rest. Inr (map_option (\<lambda>cs. \<lparr>cc_scheme_name = n, cc_value = v\<rparr> # cs) rest))))"

fun collect_matches ::
  "compat_auth \<Rightarrow> headers \<Rightarrow> compat_requirement list \<Rightarrow> web_error + compat_credential list list" where
  "collect_matches a hs [] = Inr []"
| "collect_matches a hs (r # rs) =
     res_bind (collect_requirement a hs (req_scheme_names r))
     (\<lambda>complete. res_bind (collect_matches a hs rs)
     (\<lambda>rest. Inr (case complete of None \<Rightarrow> rest | Some cs \<Rightarrow> cs # rest)))"

definition extract_compatibility_credentials ::
  "(contract_error \<Rightarrow> string) \<Rightarrow> compat_auth \<Rightarrow> headers \<Rightarrow> web_error + compat_credential list" where
  "extract_compatibility_credentials show_error a hs =
     res_bind (case validate_compat_auth a of
         Inl m \<Rightarrow> Inl (compat_contract_error (show_error m)) | Inr _ \<Rightarrow> Inr ())
     (\<lambda>_. res_bind (collect_matches a hs (requirements a))
     (\<lambda>found. case found of
        [] \<Rightarrow> Inl (with_reason ''missing-compatibility-credential'' (missing_credentials
          ''compatibility route requires its declared external protocol credentials''))
      | [cs] \<Rightarrow> Inr cs
      | _ \<Rightarrow> Inl (with_reason ''ambiguous-compatibility-credentials'' (bad_request
          ''compatibility request satisfies multiple credential alternatives''))))"

subsection \<open>The surfaces\<close>

definition required_access_token :: "call_state \<Rightarrow> web_error + string" where
  "required_access_token s = ok_or (cr_access_token (cs_credentials s))
     (with_reason ''missing-access-token'' (missing_credentials
       ''non-open-api requests require Access-Token JWT for tenant isolation''))"

definition finish_access_token_only_context ::
  "'w runtime \<Rightarrow> auth_mode \<Rightarrow> string \<Rightarrow> string \<Rightarrow> ('w env, unit) action" where
  "finish_access_token_only_context rn m missing_message missing_reason =
     act_bind (act_check (\<lambda>ev. ok_or (cr_access_token (cs_credentials (ev_state ev)))
       (with_reason missing_reason (missing_credentials missing_message))))
     (\<lambda>access_token. act_bind (update_state (\<lambda>s. s\<lparr>cs_auth_mode := m\<rparr>))
     (\<lambda>_. act_bind (on_world (rv_access_token (rn_resolver rn) access_token))
     (\<lambda>p. update_state (\<lambda>s. s\<lparr>cs_principal := Some p\<rparr>))))"

definition finish_credential_entry_bootstrap_context :: "'w runtime \<Rightarrow> ('w env, unit) action" where
  "finish_credential_entry_bootstrap_context rn =
     finish_access_token_only_context rn ModeCredentialEntryBootstrap
       ''credential-entry-bootstrap requests require bootstrap Access-Token JWT''
       ''missing-bootstrap-access-token''"

definition resolve_compatibility_route :: "libs \<Rightarrow> 'w runtime \<Rightarrow> headers \<Rightarrow> ('w env, unit) action" where
  "resolve_compatibility_route lib rn hs =
     act_bind (act_check (\<lambda>ev.
       res_bind (ok_or (matched_route rn (ev_state ev)) (compat_contract_error
         ''compatibility authentication requires a matched route manifest''))
       (\<lambda>route. res_bind (ok_or (rt_compatibility_auth route) (compat_contract_error
         ''compatibility route is missing external authentication metadata''))
       (\<lambda>a. res_bind (extract_compatibility_credentials (lib_show_contract lib) a hs)
       (\<lambda>cs. Inr (external_protocol_id a, cs))))))
     (\<lambda>(protocol, cs). act_bind (on_world (rv_compatibility (rn_resolver rn) protocol cs))
     (\<lambda>p. set_identity ModeCompatibility (Some p)))"

definition resolve_open_api :: "libs \<Rightarrow> 'w runtime \<Rightarrow> headers \<Rightarrow> ('w env, unit) action" where
  "resolve_open_api lib rn hs = act_with (\<lambda>ev.
     let s = ev_state ev; finish = (\<lambda>(m, p). set_identity m (Some p)) in
     case cs_route_auth s of
       Some Public \<Rightarrow> set_identity ModePublic None
     | Some RefreshToken \<Rightarrow> act_fail (with_reason ''invalid-refresh-token-surface'' (bad_request
         ''refresh-token authentication is valid only on app-api routes''))
     | Some CredentialEntryBootstrap \<Rightarrow> finish_credential_entry_bootstrap_context rn
     | Some Compatibility \<Rightarrow> resolve_compatibility_route lib rn hs
     | Some OpenApiBearerFlexible \<Rightarrow>
         act_bind (on_world (resolve_open_api_bearer_flexible (cs_credentials s)
           (rn_classify_bearer rn) (rn_resolver rn))) finish
     | route_auth \<Rightarrow>
         act_bind (on_world (resolve_open_api_request_context (cs_credentials s) hs
           (opt_or route_auth (if cr_access_token (cs_credentials s) \<noteq> None
             then Some ApiKeyOrDualToken else Some OpenApiFlexible))
           (rn_detect_scheme rn) (rn_resolver rn))) finish)"

text \<open>Ingress and agent tokens: the access token is resolved first, and its principal dropped.\<close>

definition resolve_with_access_token ::
  "'w runtime \<Rightarrow> auth_mode \<Rightarrow> string \<Rightarrow> ('w env, unit) action" where
  "resolve_with_access_token rn m token =
     act_bind (act_check (\<lambda>ev. required_access_token (ev_state ev)))
     (\<lambda>access_token. act_bind (on_world (rv_access_token (rn_resolver rn) access_token))
     (\<lambda>_. act_bind (on_world (rv_api_key (rn_resolver rn) token))
     (\<lambda>p. set_identity m (Some p))))"

definition resolve_internal_api :: "'w runtime \<Rightarrow> ('w env, unit) action" where
  "resolve_internal_api rn = act_with (\<lambda>ev.
     let s = ev_state ev in
     if cs_route_auth s \<noteq> Some IngressToken
     then act_fail (missing_credentials ''protected internal-api routes require ingress-token auth'')
     else act_bind (act_lift (ok_or (cr_ingress_token (cs_credentials s))
         (with_reason ''missing-ingress-token'' (missing_credentials
           ''internal-api requests require X-SDKWork-Ingress-Token''))))
       (resolve_with_access_token rn ModeIngressToken))"

definition resolve_dual_token_route :: "'w runtime \<Rightarrow> ('w env, unit) action" where
  "resolve_dual_token_route rn = act_with (\<lambda>ev.
     let s = ev_state ev in
     if rn_manifest rn \<noteq> None \<and> cs_route_auth s = None
     then act_fail (with_reason ''route-not-in-manifest''
       (not_found ''route is not registered in the gateway route manifest''))
     else act_bind (act_lift (required_access_token s))
       (\<lambda>access_token. act_bind (act_lift (ok_or (cr_auth_token (cs_credentials s))
         (with_reason ''missing-auth-token'' (missing_credentials
           ''app-api and backend-api requests require Authorization: Bearer <auth_token>''))))
       (\<lambda>auth_token. act_bind (on_world (rv_dual_token (rn_resolver rn) auth_token access_token))
       (\<lambda>p. set_identity ModeDualToken (Some p)))))"

definition resolve_token_surfaces :: "'w runtime \<Rightarrow> ('w env, unit) action" where
  "resolve_token_surfaces rn = act_with (\<lambda>ev.
     let s = ev_state ev; surface = cs_api_surface s; c = cs_credentials s in
     case cs_route_auth s of
       Some Public \<Rightarrow>
         if surface = AppApi \<or> surface = BackendApi then set_identity ModePublic None
         else act_fail (with_reason ''invalid-non-open-api-public-route''
           (missing_credentials ''gateway-api routes must not declare public authentication''))
     | Some DualTokenOrAnonymous \<Rightarrow>
         if surface \<noteq> AppApi then act_fail (with_reason ''invalid-optional-credential-surface''
           (missing_credentials
             ''dual-token-or-anonymous authentication is valid only on app-api routes''))
         else (case (cr_access_token c, cr_auth_token c) of
             (Some acc, Some auth) \<Rightarrow>
               act_bind (on_world (rv_dual_token (rn_resolver rn) auth acc))
               (\<lambda>p. set_identity ModeDualToken (Some p))
           | _ \<Rightarrow> set_identity ModePublic None)
     | Some BootstrapBody \<Rightarrow>
         if surface \<noteq> BackendApi then act_fail (with_reason ''invalid-bootstrap-body-surface''
           (missing_credentials ''bootstrap-body authentication is valid only on backend-api routes''))
         else set_identity ModeBootstrapBody None
     | Some CredentialEntryBootstrap \<Rightarrow> finish_credential_entry_bootstrap_context rn
     | Some RefreshToken \<Rightarrow>
         if surface \<noteq> AppApi then act_fail (with_reason ''invalid-refresh-token-surface'' (bad_request
           ''refresh-token authentication is valid only on app-api routes''))
         else set_identity ModeRefreshToken None
     | Some AgentToken \<Rightarrow>
         act_bind (act_lift (ok_or (cr_agent_token c)
           (missing_credentials ''agent routes require X-SDKWork-Agent-Token header'')))
         (resolve_with_access_token rn ModeAgentToken)
     | _ \<Rightarrow> resolve_dual_token_route rn)"

definition resolve_request_context :: "libs \<Rightarrow> 'w runtime \<Rightarrow> headers \<Rightarrow> ('w env, unit) action" where
  "resolve_request_context lib rn hs = act_with (\<lambda>ev.
     let s = ev_state ev in
     if cs_cors_preflight s then set_identity ModePublic None
     else if cs_api_surface s = Unknown \<and> cs_public_path s then set_identity ModePublic None
     else case cs_api_surface s of
       OpenApi \<Rightarrow> resolve_open_api lib rn hs
     | InternalApi \<Rightarrow> resolve_internal_api rn
     | Unknown \<Rightarrow> act_fail (missing_credentials
         ''requests on unclassified API surfaces require explicit public_path registration'')
     | _ \<Rightarrow> resolve_token_surfaces rn)"

subsection \<open>Facts\<close>

lemma set_identity_eq [simp]:
  "set_identity m p ev = (ev\<lparr>ev_state := (ev_state ev)\<lparr>cs_auth_mode := m, cs_principal := p\<rparr>\<rparr>, Inr ())"
  by (simp add: set_identity_def)

text \<open>What a mode stands for: \<open>vouched rn hs s m p w w'\<close> says that a request with headers \<open>hs\<close> and state \<open>s\<close> may
  continue under mode \<open>m\<close> as \<open>p\<close>, the resolvers having taken the world from \<open>w\<close> to \<open>w'\<close>.\<close>

definition accepts :: "('w, principal) action \<Rightarrow> 'w \<Rightarrow> 'w \<Rightarrow> principal option \<Rightarrow> bool" where
  "accepts m w w' p \<longleftrightarrow> (\<exists>q. m w = (w', Inr q) \<and> p = Some q)"

text \<open>The profile that decides on the open API: the one of the route, or one guessed from the
  credentials where no route matches; and the schemes that a profile lets in. The profiles
  of the last line have no business on that surface (the manifest is refused with them), and
  the detector falls back to its order of preference.\<close>

definition effective_profile :: "call_state \<Rightarrow> route_auth" where
  "effective_profile s = (case cs_route_auth s of
     Some a \<Rightarrow> a
   | None \<Rightarrow> if cr_access_token (cs_credentials s) \<noteq> None then ApiKeyOrDualToken else OpenApiFlexible)"

definition profile_schemes :: "route_auth \<Rightarrow> auth_scheme set" where
  "profile_schemes a = (case a of
     ApiKey \<Rightarrow> {SchemeApiKey}
   | OAuth \<Rightarrow> {SchemeOAuthBearer}
   | OpenApiFlexible \<Rightarrow> {SchemeApiKey, SchemeOAuthBearer}
   | ApiKeyOrDualToken \<Rightarrow> {SchemeApiKey, SchemeDualToken}
   | DualToken \<Rightarrow> {SchemeDualToken}
   | DualTokenOrAnonymous \<Rightarrow> {SchemeDualToken}
   | BootstrapBody \<Rightarrow> {SchemeApiKey, SchemeOAuthBearer}
   | IngressToken \<Rightarrow> {SchemeApiKey, SchemeOAuthBearer}
   | AgentToken \<Rightarrow> {SchemeApiKey, SchemeOAuthBearer}
   | _ \<Rightarrow> {})"

text \<open>A scheme of the open API: the detector finds it in the credentials of the request, and the
  default detector only where the profile lets it in.\<close>

definition open_scheme :: "'w runtime \<Rightarrow> headers \<Rightarrow> call_state \<Rightarrow> auth_scheme \<Rightarrow> bool" where
  "open_scheme rn hs s sch \<longleftrightarrow> cs_api_surface s = OpenApi
     \<and> cs_route_auth s \<notin> Some ` {Public, RefreshToken, CredentialEntryBootstrap, Compatibility,
         OpenApiBearerFlexible}
     \<and> rn_detect_scheme rn (cs_credentials s) hs (Some (effective_profile s)) = Inr (Some sch)
     \<and> ((\<exists>pref. rn_detect_scheme rn = detect_scheme pref) \<longrightarrow> sch \<in> profile_schemes (effective_profile s))"

text \<open>A single bearer credential of a bearer-flexible route, in the header of either kind, which the
  classifier tells apart.\<close>

definition flexible_bearer :: "'w runtime \<Rightarrow> call_state \<Rightarrow> credential_kind \<Rightarrow> string \<Rightarrow> bool" where
  "flexible_bearer rn s k t \<longleftrightarrow> cs_api_surface s = OpenApi
     \<and> cs_route_auth s = Some OpenApiBearerFlexible
     \<and> opt_or (cr_oauth_bearer (cs_credentials s)) (cr_api_key (cs_credentials s)) = Some t
     \<and> rn_classify_bearer rn t = k"

text \<open>The profiles under which the token surfaces take two tokens: all but those with a credential
  of their own; without a profile only where there is no manifest.\<close>

definition dual_token_profile :: "'w runtime \<Rightarrow> call_state \<Rightarrow> bool" where
  "dual_token_profile rn s \<longleftrightarrow>
     cs_route_auth s \<notin> Some ` {Public, BootstrapBody, CredentialEntryBootstrap, RefreshToken, AgentToken}
     \<and> (cs_route_auth s = Some DualTokenOrAnonymous \<longrightarrow> cs_api_surface s = AppApi)
     \<and> (cs_route_auth s = None \<longrightarrow> rn_manifest rn = None)"

text \<open>The credentials of a compatibility route: one alternative of the contract of the matched
  route, complete, each value read from the header that its scheme names, and no other
  alternative complete.\<close>

definition shows_requirement ::
  "compat_auth \<Rightarrow> headers \<Rightarrow> compat_requirement \<Rightarrow> compat_credential list \<Rightarrow> bool" where
  "shows_requirement a hs r cs \<longleftrightarrow> list_all2 (\<lambda>n c. cc_scheme_name c = n
     \<and> (\<exists>sch. compat_scheme_lookup a n = Some sch
          \<and> compat_value hs n (scheme_kind sch) = Inr (Some (cc_value c)))) (req_scheme_names r) cs"

definition shows_contract ::
  "'w runtime \<Rightarrow> headers \<Rightarrow> call_state \<Rightarrow> string \<Rightarrow> compat_credential list \<Rightarrow> bool" where
  "shows_contract rn hs s proto cs \<longleftrightarrow> (\<exists>route a i.
     matched_route rn s = Some route \<and> rt_compatibility_auth route = Some a
     \<and> external_protocol_id a = proto \<and> i < length (requirements a)
     \<and> shows_requirement a hs (requirements a ! i) cs
     \<and> (\<forall>j < length (requirements a). \<forall>ds.
          shows_requirement a hs (requirements a ! j) ds \<longrightarrow> j = i))"

fun vouched ::
  "'w runtime \<Rightarrow> headers \<Rightarrow> call_state \<Rightarrow> auth_mode \<Rightarrow> principal option \<Rightarrow> 'w \<Rightarrow> 'w \<Rightarrow> bool" where
  "vouched rn hs s ModePublic p w w' =
     (p = None \<and> w' = w \<and> (cs_cors_preflight s \<or> (cs_api_surface s = Unknown \<and> cs_public_path s)
       \<or> (cs_route_auth s = Some Public \<and> cs_api_surface s \<in> {OpenApi, AppApi, BackendApi})
       \<or> (cs_route_auth s = Some DualTokenOrAnonymous \<and> cs_api_surface s = AppApi
          \<and> (cr_access_token (cs_credentials s) = None \<or> cr_auth_token (cs_credentials s) = None))))"
| "vouched rn hs s ModeBootstrapBody p w w' =
     (p = None \<and> w' = w \<and> cs_route_auth s = Some BootstrapBody \<and> cs_api_surface s = BackendApi)"
| "vouched rn hs s ModeRefreshToken p w w' =
     (p = None \<and> w' = w \<and> cs_route_auth s = Some RefreshToken \<and> cs_api_surface s = AppApi)"
| "vouched rn hs s ModeCredentialEntryBootstrap p w w' =
     (cs_route_auth s = Some CredentialEntryBootstrap
      \<and> cs_api_surface s \<in> {OpenApi, AppApi, BackendApi, GatewayApi} \<and>
      (\<exists>a. cr_access_token (cs_credentials s) = Some a \<and>
        accepts (rv_access_token (rn_resolver rn) a) w w' p))"
| "vouched rn hs s ModeDualToken p w w' =
     ((open_scheme rn hs s SchemeDualToken
       \<or> cs_api_surface s \<in> {AppApi, BackendApi, GatewayApi} \<and> dual_token_profile rn s) \<and>
      (\<exists>t a. cr_auth_token (cs_credentials s) = Some t \<and> cr_access_token (cs_credentials s) = Some a \<and>
        accepts (rv_dual_token (rn_resolver rn) t a) w w' p))"
| "vouched rn hs s ModeApiKey p w w' =
     (\<exists>k. (open_scheme rn hs s SchemeApiKey \<and> cr_api_key (cs_credentials s) = Some k
            \<or> flexible_bearer rn s CredentialApiKey k)
        \<and> accepts (rv_api_key (rn_resolver rn) k) w w' p)"
| "vouched rn hs s ModeOAuth p w w' =
     (\<exists>t. open_scheme rn hs s SchemeOAuthBearer \<and> cr_oauth_bearer (cs_credentials s) = Some t
            \<and> accepts (rv_oauth_bearer (rn_resolver rn) t) w w' p
          \<or> flexible_bearer rn s CredentialAuthToken t
            \<and> accepts (rv_bearer_auth_token (rn_resolver rn) t) w w' p)"
| "vouched rn hs s ModeIngressToken p w w' =
     (cs_api_surface s = InternalApi \<and> cs_route_auth s = Some IngressToken \<and>
      (\<exists>t a q v. cr_ingress_token (cs_credentials s) = Some t \<and> cr_access_token (cs_credentials s) = Some a \<and>
        accepts (rv_access_token (rn_resolver rn) a) w v q \<and> accepts (rv_api_key (rn_resolver rn) t) v w' p))"
| "vouched rn hs s ModeAgentToken p w w' =
     (cs_api_surface s \<in> {AppApi, BackendApi, GatewayApi} \<and> cs_route_auth s = Some AgentToken \<and>
      (\<exists>t a q v. cr_agent_token (cs_credentials s) = Some t \<and> cr_access_token (cs_credentials s) = Some a \<and>
        accepts (rv_access_token (rn_resolver rn) a) w v q \<and> accepts (rv_api_key (rn_resolver rn) t) v w' p))"
| "vouched rn hs s ModeCompatibility p w w' =
     (cs_api_surface s = OpenApi \<and> cs_route_auth s = Some Compatibility \<and>
      (\<exists>proto cs. shows_contract rn hs s proto cs
        \<and> accepts (rv_compatibility (rn_resolver rn) proto cs) w w' p))"

text \<open>The outcome of a successful resolution step: only the identity and the world change.\<close>

definition resolves_to :: "'w runtime \<Rightarrow> headers \<Rightarrow> 'w env \<Rightarrow> 'w env \<Rightarrow> bool" where
  "resolves_to rn hs ev ev' \<longleftrightarrow> (\<exists>m p w.
     ev' = ev\<lparr>ev_state := (ev_state ev)\<lparr>cs_auth_mode := m, cs_principal := p\<rparr>, ev_world := w\<rparr>
     \<and> vouched rn hs (ev_state ev) m p (ev_world ev) w)"

lemma resolves_toI:
  assumes "vouched rn hs (ev_state ev) m p (ev_world ev) w"
    and "ev' = ev\<lparr>ev_state := (ev_state ev)\<lparr>cs_auth_mode := m, cs_principal := p\<rparr>, ev_world := w\<rparr>"
  shows "resolves_to rn hs ev ev'"
  using assms by (auto simp: resolves_to_def)

lemma collect_requirement_iff:
  "collect_requirement a hs (req_scheme_names r) = Inr (Some cs) \<longleftrightarrow> shows_requirement a hs r cs"
proof -
  have "collect_requirement a hs ns = Inr (Some cs) \<longleftrightarrow> list_all2 (\<lambda>n c. cc_scheme_name c = n
     \<and> (\<exists>sch. compat_scheme_lookup a n = Some sch
          \<and> compat_value hs n (scheme_kind sch) = Inr (Some (cc_value c)))) ns cs" for ns
  proof (induction ns arbitrary: cs)
    case (Cons n ns)
    have "collect_requirement a hs (n # ns) = Inr (Some cs) \<longleftrightarrow> (\<exists>sch v rest.
        compat_scheme_lookup a n = Some sch \<and> compat_value hs n (scheme_kind sch) = Inr (Some v)
        \<and> collect_requirement a hs ns = Inr (Some rest) \<and> cs = \<lparr>cc_scheme_name = n, cc_value = v\<rparr> # rest)"
      by (auto simp: res_bind_def ok_or_def split: option.splits sum.splits)
    moreover have "c = \<lparr>cc_scheme_name = n, cc_value = v\<rparr> \<longleftrightarrow> cc_scheme_name c = n \<and> cc_value c = v"
      for c :: compat_credential and v by (cases c) auto
    ultimately show ?case by (auto simp: Cons.IH list_all2_Cons1)
  qed auto
  then show ?thesis by (simp add: shows_requirement_def)
qed

lemma collect_matches_none:
  "collect_matches a hs rs = Inr [] \<Longrightarrow> j < length rs \<Longrightarrow> \<not> shows_requirement a hs (rs ! j) ds"
proof (induction rs arbitrary: j)
  case (Cons r rs)
  from Cons.prems(1) have "collect_requirement a hs (req_scheme_names r) = Inr None"
    and "collect_matches a hs rs = Inr []"
    by (auto simp: res_bind_eq_Inr split: option.splits)
  with Cons.IH [of "j - 1"] Cons.prems(2) show ?case
    by (cases j) (auto simp flip: collect_requirement_iff)
qed simp

lemma collect_matches_one:
  "collect_matches a hs rs = Inr [cs] \<Longrightarrow> \<exists>i < length rs. shows_requirement a hs (rs ! i) cs
     \<and> (\<forall>j < length rs. \<forall>ds. shows_requirement a hs (rs ! j) ds \<longrightarrow> j = i)"
proof (induction rs)
  case (Cons r rs)
  from Cons.prems obtain complete rest where
    c: "collect_requirement a hs (req_scheme_names r) = Inr complete"
    and m: "collect_matches a hs rs = Inr rest"
    and e: "[cs] = (case complete of None \<Rightarrow> rest | Some cs \<Rightarrow> cs # rest)"
    by (auto simp: res_bind_eq_Inr)
  show ?case
  proof (cases complete)
    case None
    with e m Cons.IH obtain i where "i < length rs" "shows_requirement a hs (rs ! i) cs"
      "\<forall>j < length rs. \<forall>ds. shows_requirement a hs (rs ! j) ds \<longrightarrow> j = i" by auto
    moreover have "\<not> shows_requirement a hs r ds" for ds
      using c None by (simp flip: collect_requirement_iff)
    ultimately show ?thesis
      by (intro exI [of _ "Suc i"]) (auto simp: less_Suc_eq_0_disj)
  next
    case (Some cs')
    with e have "cs' = cs" "rest = []" by simp_all
    then show ?thesis
      using c m Some collect_matches_none [of a hs rs]
      by (intro exI [of _ 0]) (auto simp: less_Suc_eq_0_disj simp flip: collect_requirement_iff)
  qed
qed simp

lemma extract_compatibility_shows:
  assumes "extract_compatibility_credentials show_error a hs = Inr cs"
    and "matched_route rn s = Some route" and "rt_compatibility_auth route = Some a"
  shows "shows_contract rn hs s (external_protocol_id a) cs"
proof -
  from assms(1) obtain found where "collect_matches a hs (requirements a) = Inr found"
    and "(case found of [] \<Rightarrow> False | [c] \<Rightarrow> c = cs | _ \<Rightarrow> False)"
    by (auto simp: extract_compatibility_credentials_def res_bind_def split: sum.splits list.splits)
  then have "collect_matches a hs (requirements a) = Inr [cs]" by (simp split: list.splits)
  from collect_matches_one [OF this] assms(2,3) show ?thesis
    by (auto simp: shows_contract_def)
qed

lemma finish_bootstrap_resolves:
  assumes "finish_credential_entry_bootstrap_context rn ev = (ev', Inr ())"
    and "cs_route_auth (ev_state ev) = Some CredentialEntryBootstrap"
    and "cs_api_surface (ev_state ev) \<in> {OpenApi, AppApi, BackendApi, GatewayApi}"
  shows "resolves_to rn hs ev ev'"
proof -
  from assms(1) obtain a w p where a: "cr_access_token (cs_credentials (ev_state ev)) = Some a"
    and r: "rv_access_token (rn_resolver rn) a (ev_world ev) = (w, Inr p)"
    and e: "ev' = ev\<lparr>ev_state := (ev_state ev)\<lparr>cs_auth_mode := ModeCredentialEntryBootstrap,
      cs_principal := Some p\<rparr>, ev_world := w\<rparr>"
    by (auto simp: finish_credential_entry_bootstrap_context_def finish_access_token_only_context_def
        act_bind_Inr ok_or_eq on_world_eq)
  show ?thesis by (rule resolves_toI [OF _ e]) (use a r assms(2,3) in \<open>auto simp: accepts_def\<close>)
qed

lemma with_access_token_resolves:
  assumes "resolve_with_access_token rn m t ev = (ev', Inr ())"
  obtains a q v p w where "cr_access_token (cs_credentials (ev_state ev)) = Some a"
    and "rv_access_token (rn_resolver rn) a (ev_world ev) = (v, Inr q)"
    and "rv_api_key (rn_resolver rn) t v = (w, Inr p)"
    and "ev' = ev\<lparr>ev_state := (ev_state ev)\<lparr>cs_auth_mode := m, cs_principal := Some p\<rparr>, ev_world := w\<rparr>"
  using assms
  by (auto simp: resolve_with_access_token_def required_access_token_def act_bind_Inr ok_or_eq on_world_eq)

lemma internal_api_resolves:
  assumes "resolve_internal_api rn ev = (ev', Inr ())" and "cs_api_surface (ev_state ev) = InternalApi"
  shows "resolves_to rn hs ev ev'"
proof -
  from assms(1) obtain t where r: "cs_route_auth (ev_state ev) = Some IngressToken"
    and t: "cr_ingress_token (cs_credentials (ev_state ev)) = Some t"
    and k: "resolve_with_access_token rn ModeIngressToken t ev = (ev', Inr ())"
    by (auto simp: resolve_internal_api_def Let_def act_bind_Inr ok_or_eq split: if_splits)
  from k show ?thesis
    by (rule with_access_token_resolves)
      (rule resolves_toI, insert t r assms(2), auto simp: accepts_def)
qed

lemma dual_token_resolves:
  assumes "resolve_dual_token_route rn ev = (ev', Inr ())"
    and "cs_api_surface (ev_state ev) \<in> {AppApi, BackendApi, GatewayApi}"
    and "\<forall>a. cs_route_auth (ev_state ev) = Some a \<longrightarrow>
      a \<notin> {Public, DualTokenOrAnonymous, BootstrapBody, CredentialEntryBootstrap, RefreshToken, AgentToken}"
  shows "resolves_to rn hs ev ev'"
proof -
  from assms(1) obtain t a w p where "cr_auth_token (cs_credentials (ev_state ev)) = Some t"
    and "cr_access_token (cs_credentials (ev_state ev)) = Some a"
    and "rv_dual_token (rn_resolver rn) t a (ev_world ev) = (w, Inr p)"
    and e: "ev' = ev\<lparr>ev_state := (ev_state ev)\<lparr>cs_auth_mode := ModeDualToken,
      cs_principal := Some p\<rparr>, ev_world := w\<rparr>"
    and r: "cs_route_auth (ev_state ev) = None \<longrightarrow> rn_manifest rn = None"
    by (auto simp: resolve_dual_token_route_def required_access_token_def Let_def act_bind_Inr
        ok_or_eq on_world_eq split: if_splits)
  moreover have "dual_token_profile rn (ev_state ev)"
    using r assms(3) by (auto simp: dual_token_profile_def)
  ultimately show ?thesis using assms(2) by (intro resolves_toI [OF _ e]) (auto simp: accepts_def)
qed

lemma set_identity_resolves:
  assumes "set_identity m None ev = (ev', Inr ())"
    and "vouched rn hs (ev_state ev) m None (ev_world ev) (ev_world ev)"
  shows "resolves_to rn hs ev ev'"
  by (rule resolves_toI [OF assms(2)]) (use assms(1) in auto)

lemma dual_or_anonymous_resolves:
  assumes "(case (cr_access_token (cs_credentials (ev_state ev)), cr_auth_token (cs_credentials (ev_state ev))) of
      (Some acc, Some auth) \<Rightarrow>
        act_bind (on_world (rv_dual_token (rn_resolver rn) auth acc)) (\<lambda>p. set_identity ModeDualToken (Some p))
    | _ \<Rightarrow> set_identity ModePublic None) ev = (ev', Inr ())"
    and "cs_api_surface (ev_state ev) = AppApi" and "cs_route_auth (ev_state ev) = Some DualTokenOrAnonymous"
  shows "resolves_to rn hs ev ev'"
proof (cases "cr_access_token (cs_credentials (ev_state ev)) = None
    \<or> cr_auth_token (cs_credentials (ev_state ev)) = None")
  case True
  then have "set_identity ModePublic None ev = (ev', Inr ())"
    using assms(1) by (auto split: option.splits)
  then show ?thesis by (rule set_identity_resolves) (use True assms(2,3) in auto)
next
  case False
  then obtain a t where at: "cr_access_token (cs_credentials (ev_state ev)) = Some a"
    "cr_auth_token (cs_credentials (ev_state ev)) = Some t" by auto
  with assms(1) obtain w p where "rv_dual_token (rn_resolver rn) t a (ev_world ev) = (w, Inr p)"
    and e: "ev' = ev\<lparr>ev_state := (ev_state ev)\<lparr>cs_auth_mode := ModeDualToken,
      cs_principal := Some p\<rparr>, ev_world := w\<rparr>"
    by (auto simp: act_bind_Inr on_world_eq)
  moreover have "dual_token_profile rn (ev_state ev)"
    using assms(2,3) by (auto simp: dual_token_profile_def)
  ultimately show ?thesis using assms(2) at by (intro resolves_toI [OF _ e]) (auto simp: accepts_def)
qed

lemma token_surfaces_resolve:
  assumes "resolve_token_surfaces rn ev = (ev', Inr ())"
    and "cs_api_surface (ev_state ev) \<in> {AppApi, BackendApi, GatewayApi}"
  shows "resolves_to rn hs ev ev'"
proof (cases "cs_route_auth (ev_state ev)")
  case None
  with assms show ?thesis by (simp add: resolve_token_surfaces_def Let_def dual_token_resolves)
next
  case (Some a)
  note simps = resolve_token_surfaces_def Let_def Some
  show ?thesis
  proof (cases a)
    case Public
    with assms Some show ?thesis
      by (intro set_identity_resolves [where m = ModePublic]) (auto simp: simps split: if_splits)
  next
    case BootstrapBody
    with assms Some show ?thesis
      by (intro set_identity_resolves [where m = ModeBootstrapBody]) (auto simp: simps split: if_splits)
  next
    case RefreshToken
    with assms Some show ?thesis
      by (intro set_identity_resolves [where m = ModeRefreshToken]) (auto simp: simps split: if_splits)
  next
    case CredentialEntryBootstrap
    with assms Some show ?thesis by (intro finish_bootstrap_resolves) (auto simp: simps)
  next
    case DualTokenOrAnonymous
    with assms Some show ?thesis
      by (intro dual_or_anonymous_resolves) (auto simp: simps split: if_splits)
  next
    case AgentToken
    with assms(1) obtain t where t: "cr_agent_token (cs_credentials (ev_state ev)) = Some t"
      and k: "resolve_with_access_token rn ModeAgentToken t ev = (ev', Inr ())"
      by (auto simp: simps act_bind_Inr ok_or_eq)
    from k show ?thesis
      by (rule with_access_token_resolves)
        (rule resolves_toI, insert t AgentToken Some assms(2), auto simp: accepts_def)
  qed (use assms Some in \<open>auto simp: simps intro!: dual_token_resolves\<close>)
qed

lemma bearer_flexible_resolves:
  assumes "act_bind (on_world (resolve_open_api_bearer_flexible (cs_credentials (ev_state ev))
      (rn_classify_bearer rn) (rn_resolver rn))) (\<lambda>(m, p). set_identity m (Some p)) ev = (ev', Inr ())"
    and "cs_api_surface (ev_state ev) = OpenApi"
    and "cs_route_auth (ev_state ev) = Some OpenApiBearerFlexible"
  shows "resolves_to rn hs ev ev'"
proof -
  let ?c = "cs_credentials (ev_state ev)"
  from assms(1) obtain m p w where
    r: "resolve_open_api_bearer_flexible ?c (rn_classify_bearer rn) (rn_resolver rn) (ev_world ev) = (w, Inr (m, p))"
    and e: "ev' = ev\<lparr>ev_state := (ev_state ev)\<lparr>cs_auth_mode := m, cs_principal := Some p\<rparr>, ev_world := w\<rparr>"
    by (auto simp: act_bind_Inr on_world_eq)
  from r obtain k where k: "opt_or (cr_oauth_bearer ?c) (cr_api_key ?c) = Some k"
    and "rn_classify_bearer rn k = CredentialApiKey \<and> m = ModeApiKey
         \<and> rv_api_key (rn_resolver rn) k (ev_world ev) = (w, Inr p)
       \<or> rn_classify_bearer rn k = CredentialAuthToken \<and> m = ModeOAuth
         \<and> rv_bearer_auth_token (rn_resolver rn) k (ev_world ev) = (w, Inr p)"
    by (cases "rn_classify_bearer rn (the (opt_or (cr_oauth_bearer ?c) (cr_api_key ?c)))")
      (auto simp: resolve_open_api_bearer_flexible_def act_bind_Inr ok_or_eq)
  then show ?thesis
    using assms(2,3) by (intro resolves_toI [OF _ e]) (auto simp: accepts_def flexible_bearer_def)
qed

lemma default_detector_profile:
  assumes "detect_scheme pref c hs (Some a) = Inr (Some sch)"
    and "a \<notin> {Public, RefreshToken, CredentialEntryBootstrap, Compatibility, OpenApiBearerFlexible}"
  shows "sch \<in> profile_schemes a"
  using assms
  by (cases a) (auto simp: detect_scheme_def Let_def profile_schemes_def simp del: prefer_scheme.simps
      dest!: prefer_scheme_mem split: if_splits)

lemma scheme_resolves:
  assumes "act_bind (on_world (resolve_open_api_request_context (cs_credentials (ev_state ev)) hs
      (Some (effective_profile (ev_state ev))) (rn_detect_scheme rn) (rn_resolver rn)))
      (\<lambda>(m, p). set_identity m (Some p)) ev = (ev', Inr ())"
    and "cs_api_surface (ev_state ev) = OpenApi"
    and "cs_route_auth (ev_state ev) \<notin> Some ` {Public, RefreshToken, CredentialEntryBootstrap,
      Compatibility, OpenApiBearerFlexible}"
  shows "resolves_to rn hs ev ev'"
proof -
  let ?c = "cs_credentials (ev_state ev)"
  from assms(1) obtain m p w s where m: "m = scheme_mode s"
    and d: "rn_detect_scheme rn ?c hs (Some (effective_profile (ev_state ev))) = Inr (Some s)"
    and v: "vouches ?c (rn_resolver rn) s (ev_world ev) w p"
    and e: "ev' = ev\<lparr>ev_state := (ev_state ev)\<lparr>cs_auth_mode := m, cs_principal := Some p\<rparr>, ev_world := w\<rparr>"
    by (auto simp: act_bind_Inr on_world_eq resolve_open_api_Inr)
  have "effective_profile (ev_state ev) \<notin> {Public, RefreshToken, CredentialEntryBootstrap, Compatibility,
      OpenApiBearerFlexible}"
    using assms(3) by (auto simp: effective_profile_def split: option.splits)
  with d have "s \<in> profile_schemes (effective_profile (ev_state ev))" if "rn_detect_scheme rn = detect_scheme pref" for pref
    using default_detector_profile that by simp
  then have o: "open_scheme rn hs (ev_state ev) s" using d assms(2,3) by (auto simp: open_scheme_def)
  show ?thesis
    by (rule resolves_toI [OF _ e], insert m v o, cases s) (auto simp: vouches_def accepts_def)
qed

lemma compatibility_resolves:
  assumes "resolve_compatibility_route lib rn hs ev = (ev', Inr ())"
    and "cs_api_surface (ev_state ev) = OpenApi" and "cs_route_auth (ev_state ev) = Some Compatibility"
  shows "resolves_to rn hs ev ev'"
proof -
  from assms(1) obtain route a cs w p where
    "matched_route rn (ev_state ev) = Some route" "rt_compatibility_auth route = Some a"
    "extract_compatibility_credentials (lib_show_contract lib) a hs = Inr cs"
    and r: "rv_compatibility (rn_resolver rn) (external_protocol_id a) cs (ev_world ev) = (w, Inr p)"
    and e: "ev' = ev\<lparr>ev_state := (ev_state ev)\<lparr>cs_auth_mode := ModeCompatibility,
      cs_principal := Some p\<rparr>, ev_world := w\<rparr>"
    by (auto simp: resolve_compatibility_route_def act_bind_Inr on_world_eq res_bind_eq_Inr ok_or_eq)
  then have "shows_contract rn hs (ev_state ev) (external_protocol_id a) cs"
    by (intro extract_compatibility_shows)
  then show ?thesis using assms(2,3) r by (intro resolves_toI [OF _ e]) (auto simp: accepts_def)
qed

lemma open_api_resolves:
  assumes "resolve_open_api lib rn hs ev = (ev', Inr ())" and "cs_api_surface (ev_state ev) = OpenApi"
  shows "resolves_to rn hs ev ev'"
proof (cases "cs_route_auth (ev_state ev)")
  case None
  show ?thesis
    by (rule scheme_resolves [OF _ assms(2)])
      (use assms(1) None in \<open>auto simp: resolve_open_api_def Let_def effective_profile_def split: if_splits\<close>)
next
  case (Some a)
  note simps = resolve_open_api_def Let_def Some
  show ?thesis
  proof (cases a)
    case Public
    with assms Some show ?thesis by (intro set_identity_resolves [where m = ModePublic]) (auto simp: simps)
  next
    case CredentialEntryBootstrap
    with assms Some show ?thesis by (intro finish_bootstrap_resolves) (auto simp: simps)
  next
    case Compatibility
    with assms Some show ?thesis by (intro compatibility_resolves) (auto simp: simps)
  next
    case OpenApiBearerFlexible
    show ?thesis
      by (rule bearer_flexible_resolves [OF _ assms(2)])
        (use assms(1) Some OpenApiBearerFlexible in \<open>simp_all add: simps\<close>)
  next
    case RefreshToken
    with assms(1) show ?thesis by (simp add: simps)
  qed (rule scheme_resolves [OF _ assms(2)], use assms(1) in \<open>simp_all add: simps effective_profile_def\<close>)+
qed

lemma resolve_request_context_sound_lemma:
  assumes "resolve_request_context lib rn hs ev = (ev', Inr ())"
  shows "\<exists>m p w. ev' = ev\<lparr>ev_state := (ev_state ev)\<lparr>cs_auth_mode := m, cs_principal := p\<rparr>, ev_world := w\<rparr>
    \<and> vouched rn hs (ev_state ev) m p (ev_world ev) w
    \<and> (cs_api_surface (ev_state ev) = Unknown \<longrightarrow>
        cs_public_path (ev_state ev) \<or> cs_cors_preflight (ev_state ev))"
proof -
  let ?s = "ev_state ev"
  have "resolves_to rn hs ev ev'"
  proof (cases "cs_cors_preflight ?s \<or> cs_api_surface ?s = Unknown \<and> cs_public_path ?s")
    case True
    then show ?thesis
      using assms by (intro set_identity_resolves [where m = ModePublic])
        (auto simp: resolve_request_context_def Let_def split: if_splits)
  next
    case False
    with assms show ?thesis
      by (cases "cs_api_surface ?s")
        (auto simp: resolve_request_context_def Let_def
          intro: open_api_resolves internal_api_resolves token_surfaces_resolve)
  qed
  moreover have "cs_api_surface ?s = Unknown \<longrightarrow> cs_public_path ?s \<or> cs_cors_preflight ?s"
    using assms by (auto simp: resolve_request_context_def Let_def split: if_splits)
  ultimately show ?thesis by (auto simp: resolves_to_def)
qed


definition dual_token_env :: "mem_world env" where
  "dual_token_env = (let ev = initial_env plain_libs (example_request ''GET'' ''/app/v3/api/orders''
       [(''authorization'', ''Bearer auth''), (''access-token'', ''access'')]) mem_world_init
     in ev\<lparr>ev_state := (ev_state ev)\<lparr>cs_api_surface := AppApi, cs_route_auth := Some DualToken\<rparr>\<rparr>)"


end
