(* ===== verification/Stages.thy ===== *)
theory Stages
  imports Resolution
begin

section \<open>The stages of the pipeline\<close>

text \<open>
  Models the standard interceptors of \<open>interceptors.rs\<close>: \<open>before\<close>, which runs ahead of the
  handler and may change the call state, the request and the world, and \<open>after\<close>, which
  works on the response.
\<close>

definition seconds :: "nat \<Rightarrow> nat" where
  "seconds n = n * 1000000000"

subsection \<open>Helpers\<close>

definition is_idempotent_command :: "string \<Rightarrow> bool" where
  "is_idempotent_command m = (m \<in> set [''POST'', ''PUT'', ''PATCH'', ''DELETE''])"

definition max_idempotency_key_bytes :: nat where "max_idempotency_key_bytes = 128"

definition validate_idempotency_key :: "string \<Rightarrow> web_error + unit" where
  "validate_idempotency_key v =
     (if max_idempotency_key_bytes < length v
      then Inl (with_reason ''invalid-idempotency-key''
        (bad_request ''Idempotency-Key header must not exceed 128 bytes''))
      else Inr ())"

definition require_authenticated_context :: "call_state \<Rightarrow> web_error + unit" where
  "require_authenticated_context s =
     (if cs_public_path s \<or> cs_cors_preflight s then Inr ()
      else if cs_route_auth s = Some DualTokenOrAnonymous \<and> cs_auth_mode s = ModePublic
           \<and> \<not> credentials_present s then Inr ()
      else if cs_principal s = None
      then Inl (missing_credentials ''protected routes require authenticated credentials'')
      else Inr ())"

definition refresh_tenant_runtime_profile :: "'w runtime \<Rightarrow> ('w env, unit) action" where
  "refresh_tenant_runtime_profile rn = act_with (\<lambda>ev.
     act_bind (on_world (rn_tenant_source rn
       \<lparr>tx_tenant_id = state_tenant_id (ev_state ev),
        tx_environment = pf_environment (rn_profile rn),
        tx_api_surface = cs_api_surface (ev_state ev)\<rparr>))
     (\<lambda>profile. case profile of
        None \<Rightarrow> act_return ()
      | Some p \<Rightarrow> update_state (\<lambda>s. s\<lparr>cs_tenant_runtime_profile := Some p\<rparr>)))"

definition resolve_dynamic_rate_limit :: "'w runtime \<Rightarrow> ('w env, unit) action" where
  "resolve_dynamic_rate_limit rn = act_with (\<lambda>ev.
     if \<not> of_dynamic_rate_limit_policy (rn_features rn) then act_return ()
     else act_bind (on_world (rn_rate_limit_source rn
       \<lparr>rx_tenant_id = state_tenant_id (ev_state ev),
        rx_environment = pf_environment (rn_profile rn),
        rx_api_surface = cs_api_surface (ev_state ev),
        rx_rate_limit_tier = cs_rate_limit_tier (ev_state ev),
        rx_operation_id = cs_operation_id (ev_state ev)\<rparr>))
     (\<lambda>overlay. case overlay of
        None \<Rightarrow> act_return ()
      | Some o' \<Rightarrow> update_state (\<lambda>s. s\<lparr>cs_resolved_rate_limit := Some o'\<rparr>)))"

text \<open>An event is emitted only where the store refuses because the limit is reached, not where
  it fails.\<close>

definition record_rate :: "libs \<Rightarrow> 'w runtime \<Rightarrow> string \<Rightarrow> nat \<Rightarrow> nat \<Rightarrow> ('w env, unit) action" where
  "record_rate lib rn key limit window =
     act_on_error (on_world (rn_rate_check rn key limit window))
       (\<lambda>e. if kind e = RateLimitExceeded
            then emit_security_event lib rn RateLimitExceededEvent (message e) else act_return ())"

definition preauth_aggregate_key :: "call_state \<Rightarrow> string" where
  "preauth_aggregate_key s = ''preauth:path:'' @ hash_key_material (cs_path s) @ tier_suffix s"

definition saturating_mul_u32 :: "nat \<Rightarrow> nat \<Rightarrow> nat" where
  "saturating_mul_u32 a b = min (a * b) (2 ^ 32 - 1)"

definition apply_rate_limit :: "libs \<Rightarrow> 'w runtime \<Rightarrow> ('w env, unit) action" where
  "apply_rate_limit lib rn = act_with (\<lambda>ev.
     let s = ev_state ev; policy = sp_rate_limit (rn_security_policy rn) in
     if \<not> rate_limit_globally_enabled rn s then act_return ()
     else
       let resolved = unwrap_or (cs_resolved_rate_limit s) (rn_rate_limit_resolve rn s policy);
           window = seconds (max (rr_window_secs resolved) 1)
       in if rr_max_requests resolved = 0 then act_return ()
       else act_bind (record_rate lib rn (rate_limit_key s) (rr_max_requests resolved) window)
         (\<lambda>_. case rl_pre_auth_aggregate_multiplier policy of
            None \<Rightarrow> act_return ()
          | Some multiplier \<Rightarrow>
              if cs_principal s = None \<and> credentials_present s \<and> 0 < multiplier
              then record_rate lib rn (preauth_aggregate_key s)
                (max (saturating_mul_u32 (rr_max_requests resolved) multiplier) 1) window
              else act_return ()))"

definition try_acquire_tenant_concurrency :: "'w runtime \<Rightarrow> ('w env, unit) action" where
  "try_acquire_tenant_concurrency rn = act_with (\<lambda>ev.
     let s = ev_state ev in
     case Option.bind (cs_tenant_runtime_profile s) tr_max_concurrent_requests of
       None \<Rightarrow> act_return ()
     | Some limit \<Rightarrow> (case concurrent_admission_scope_key s of
         None \<Rightarrow> act_return ()
       | Some key \<Rightarrow> act_bind (on_world (rn_admission_acquire rn key limit))
           (\<lambda>_. update_state (\<lambda>s. s\<lparr>cs_concurrent_admission_key := Some key\<rparr>))))"

subsection \<open>Before the handler\<close>

definition before_request_identity :: "'w runtime \<Rightarrow> ('w env, unit) action" where
  "before_request_identity rn =
     act_bind (on_world (rn_random rn)) (\<lambda>bytes.
       let request_id = format_request_id bytes in
       act_seq
         [act_modify (\<lambda>ev. ev\<lparr>ev_request := (ev_request ev)
            \<lparr>rq_headers := hdr_insert ''X-Request-Id'' (TextValue request_id)
               (rq_headers (ev_request ev))\<rparr>\<rparr>),
          act_with (\<lambda>ev.
            let trace = resolve_trace_context (rq_headers (ev_request ev)) request_id in
            update_state (\<lambda>s. s\<lparr>cs_request_id := Some request_id,
              cs_traceparent := Some (tc_traceparent trace),
              cs_tracestate := tc_tracestate trace\<rparr>))])"

definition bind_route :: "http_route \<Rightarrow> call_state \<Rightarrow> call_state" where
  "bind_route r s = s\<lparr>
     cs_operation_id := opt_or (cs_operation_id s) (Some (rt_operation_id r)),
     cs_route_template := Some (rt_path r), cs_rate_limit_tier := rt_rate_limit_tier r,
     cs_manifest_idempotent := rt_idempotent r, cs_route_auth := Some (rt_auth r),
     cs_forbid_credential_headers := rt_forbid_credential_headers r\<rparr>"

definition classify_state :: "'w runtime \<Rightarrow> call_state \<Rightarrow> call_state" where
  "classify_state rn s =
     (let s = s\<lparr>cs_api_surface := classify_api_surface (cs_path s) (rn_profile rn),
                cs_public_path := resolve_public_path (cs_method s) (cs_path s) (rn_profile rn)
                  (rn_manifest rn)\<rparr>
      in case matched_route rn s of None \<Rightarrow> s | Some r \<Rightarrow> bind_route r s)"

definition before_surface_classification :: "libs \<Rightarrow> 'w runtime \<Rightarrow> ('w env, unit) action" where
  "before_surface_classification lib rn = act_seq
     [update_state (classify_state rn),
      act_check (\<lambda>ev. case matched_route rn (ev_state ev) of
          None \<Rightarrow> Inr ()
        | Some r \<Rightarrow> validate_route_auth_credentials (lib_show_contract lib) r
            (rq_headers (ev_request ev))),
      act_check (\<lambda>ev. let s = ev_state ev in
        if cs_api_surface s \<in> {Unknown, GatewayApi} then Inr ()
        else res_bind (reject_client_identity_projection (rq_headers (ev_request ev)))
          (\<lambda>_. if is_external_protocol_path (rn_profile rn) (cs_path s) then Inr ()
               else reject_client_context_selectors (cs_path s) (rq_query (ev_request ev))
                 (cs_api_surface s))),
      act_when (\<lambda>_. of_dynamic_tenant_runtime_profile (rn_features rn))
        (refresh_tenant_runtime_profile rn),
      act_with (\<lambda>ev. let hs = rq_headers (ev_request ev) in
        update_state (\<lambda>s. s\<lparr>cs_client_kind := Some (infer_client_kind (hdr_text hs ''user-agent'')
          (hdr_text hs ''x-sdkwork-client-kind''))\<rparr>))]"

definition resolve_dynamic_cors :: "'w runtime \<Rightarrow> ('w env, unit) action" where
  "resolve_dynamic_cors rn = act_with (\<lambda>ev.
     act_bind (on_world (rn_cors_source rn
       \<lparr>cx_tenant_id = state_tenant_id (ev_state ev),
        cx_environment = pf_environment (rn_profile rn),
        cx_api_surface = cs_api_surface (ev_state ev), cx_origin = cs_origin (ev_state ev)\<rparr>))
     (\<lambda>overlay. case overlay of
        None \<Rightarrow> act_return ()
      | Some c \<Rightarrow> update_state (\<lambda>s. s\<lparr>cs_resolved_cors := Some c\<rparr>)))"

definition before_cors :: "libs \<Rightarrow> 'w runtime \<Rightarrow> ('w env, unit) action" where
  "before_cors lib rn = act_when (\<lambda>ev. cs_api_surface (ev_state ev) \<noteq> OpenApi) (act_seq
     [act_when (\<lambda>_. of_dynamic_cors_policy (rn_features rn)) (resolve_dynamic_cors rn),
      act_when (\<lambda>ev. \<not> cs_public_path (ev_state ev) \<or> cs_cors_preflight (ev_state ev)) (act_seq
        [deny_with_event lib rn CorsDenied (act_check (\<lambda>ev.
           validate_origin (lib_parse_uri lib) (effective_cors rn (ev_state ev)) (ev_request ev))),
         act_when (\<lambda>ev. cs_cors_preflight (ev_state ev))
           (deny_with_event lib rn CorsDenied (act_check (\<lambda>ev.
             validate_preflight (lib_parse_method lib) (effective_cors rn (ev_state ev))
               (ev_request ev))))])])"

definition before_method_guard :: "'w runtime \<Rightarrow> ('w env, unit) action" where
  "before_method_guard rn =
     act_check (\<lambda>ev. validate_method (rn_security_policy rn) (ev_request ev))"

definition before_cross_site :: "libs \<Rightarrow> 'w runtime \<Rightarrow> ('w env, unit) action" where
  "before_cross_site lib rn =
     act_when (\<lambda>ev. \<not> cs_cors_preflight (ev_state ev) \<and> cs_api_surface (ev_state ev) \<noteq> OpenApi)
       (deny_with_event lib rn CorsDenied (act_check (\<lambda>ev.
         validate_cross_site_request_with_cors (lib_parse_uri lib)
           (sp_cross_site (rn_security_policy rn)) (effective_cors rn (ev_state ev))
           (ev_request ev) (cs_public_path (ev_state ev)))))"

definition before_sql_injection :: "libs \<Rightarrow> 'w runtime \<Rightarrow> ('w env, unit) action" where
  "before_sql_injection lib rn =
     act_check (\<lambda>ev. validate_sql_injection (lib_percent_decode lib)
       (sp_sql_injection_guard (rn_security_policy rn)) (ev_request ev))"

definition json_inspect_limit :: "'w runtime \<Rightarrow> call_state \<Rightarrow> nat" where
  "json_inspect_limit rn s =
     unwrap_or (opt_or (effective_max_content_length rn s)
       (sz_max_content_length (sp_request_size_limit (rn_security_policy rn)))) (16 * 1024 * 1024)"

definition inspect_body :: "libs \<Rightarrow> 'w runtime \<Rightarrow> ('w env, unit) action" where
  "inspect_body lib rn ev =
     (case inspect_json_body_context_selectors (lib_to_bytes lib) (lib_object_keys lib)
        (ev_request ev) (json_inspect_limit rn (ev_state ev)) (cs_api_surface (ev_state ev)) of
        (rq, r) \<Rightarrow> (ev\<lparr>ev_request := rq\<rparr>, r))"

definition before_request_size :: "libs \<Rightarrow> 'w runtime \<Rightarrow> ('w env, unit) action" where
  "before_request_size lib rn = act_seq
     [act_check (\<lambda>ev. validate_content_length_with_limit (ev_request ev)
        (effective_max_content_length rn (ev_state ev))),
      act_when (\<lambda>_. of_json_content_type_guard (rn_features rn)) (act_check (\<lambda>ev.
        validate_json_content_type (sp_json_content_type (rn_security_policy rn)) (ev_request ev))),
      act_when (\<lambda>ev. \<not> is_external_protocol_path (rn_profile rn) (cs_path (ev_state ev)))
        (inspect_body lib rn)]"

definition health_paths :: "string list" where
  "health_paths = [''/healthz'', ''/readyz'', ''/livez'', ''/metrics'', ''/favicon.ico'']"

definition before_rate_limit :: "libs \<Rightarrow> 'w runtime \<Rightarrow> ('w env, unit) action" where
  "before_rate_limit lib rn =
     act_when (\<lambda>ev. let s = ev_state ev in
         cs_path s \<notin> set health_paths \<and> \<not> cs_cors_preflight s
         \<and> rate_limit_globally_enabled rn s
         \<and> rl_pre_auth_rate_limit (sp_rate_limit (rn_security_policy rn)))
       (act_seq [resolve_dynamic_rate_limit rn, apply_rate_limit lib rn])"

definition before_idempotency :: "libs \<Rightarrow> 'w runtime \<Rightarrow> ('w env, unit) action" where
  "before_idempotency lib rn = act_with (\<lambda>ev.
     let s = ev_state ev; policy = sp_idempotency (rn_security_policy rn);
         hs = rq_headers (ev_request ev);
         required = (ip_require_for_retryable_commands policy \<or> cs_manifest_idempotent s)
     in if \<not> (required \<and> is_idempotent_command (cs_method s) \<and> \<not> cs_cors_preflight s)
        then act_return ()
        else if \<not> cs_public_path s \<and> \<not> credentials_present s then act_return ()
        else act_bind (act_lift (
            res_bind (ok_or (opt_or (cs_idempotency_key s) (header_string hs ''Idempotency-Key''))
              (bad_request ''Idempotency-Key header is required for this command''))
            (\<lambda>client_key. res_bind (validate_idempotency_key client_key)
            (\<lambda>_. res_bind (resolve_idempotency_fingerprint (cs_method s) (cs_path s) (cs_operation_id s)
                hs (ip_require_body_hash_for_payload policy))
            (\<lambda>fingerprint. Inr (scoped_idempotency_store_key s client_key, fingerprint))))))
          (\<lambda>(store_key, fingerprint).
            act_bind (on_world (rn_idem_begin rn store_key fingerprint
              (seconds (max (ip_retention_secs policy) 1))))
            (\<lambda>outcome. case outcome of
               Leader \<Rightarrow> update_state (\<lambda>s. s\<lparr>cs_idempotency_key := Some store_key,
                 cs_idempotency_fingerprint := Some fingerprint, cs_idempotency_leader := True\<rparr>)
             | Replay record \<Rightarrow> update_state (\<lambda>s. s\<lparr>cs_idempotency_replay := Some record\<rparr>))))"

definition before_resolution :: "libs \<Rightarrow> 'w runtime \<Rightarrow> ('w env, unit) action" where
  "before_resolution lib rn =
     act_with (\<lambda>ev. resolve_request_context lib rn (rq_headers (ev_request ev)))"

definition before_authentication :: "libs \<Rightarrow> 'w runtime \<Rightarrow> ('w env, unit) action" where
  "before_authentication lib rn = act_seq
     [deny_with_event lib rn AuthenticationFailed
        (act_check (\<lambda>ev. require_authenticated_context (ev_state ev))),
      act_when (\<lambda>_. of_dynamic_tenant_runtime_profile (rn_features rn))
        (act_seq [refresh_tenant_runtime_profile rn, try_acquire_tenant_concurrency rn])]"

text \<open>The guard of the stages that concern protected routes only.\<close>

definition is_protected :: "'w env \<Rightarrow> bool" where
  "is_protected ev = (\<not> cs_public_path (ev_state ev) \<and> \<not> cs_cors_preflight (ev_state ev))"

definition before_authorization :: "libs \<Rightarrow> 'w runtime \<Rightarrow> ('w env, unit) action" where
  "before_authorization lib rn = act_when is_protected
     (act_bind (act_check (\<lambda>ev. to_context (ev_state ev))) (\<lambda>ctx. act_seq
       [deny_with_event lib rn AuthorizationDenied
          (act_check (\<lambda>ev. rn_authorize rn ctx (cs_operation_id (ev_state ev)))),
        act_when (\<lambda>ev. rate_limit_globally_enabled rn (ev_state ev)
            \<and> rl_tenant_limit_after_auth (sp_rate_limit (rn_security_policy rn)))
          (act_seq [resolve_dynamic_rate_limit rn, apply_rate_limit lib rn])]))"

definition check_path_resources :: "'w runtime \<Rightarrow> request_context \<Rightarrow> call_state \<Rightarrow> web_error + unit" where
  "check_path_resources rn ctx s =
     (case matched_route rn s of
        None \<Rightarrow> Inr ()
      | Some route \<Rightarrow>
          if rt_external_wire_protocol route = None
          then verify_path_resource_ids_match_principal ctx (rt_path route) (rt_required_permission route)
          else Inr ())"

definition before_tenant_isolation :: "libs \<Rightarrow> 'w runtime \<Rightarrow> ('w env, unit) action" where
  "before_tenant_isolation lib rn = act_when is_protected
     (act_bind (act_check (\<lambda>ev. to_context (ev_state ev))) (\<lambda>ctx. act_seq
       [deny_with_event lib rn TenantIsolationDenied
          (act_check (\<lambda>ev. check_path_resources rn ctx (ev_state ev))),
        deny_with_event lib rn TenantIsolationDenied
          (act_check (\<lambda>ev. rn_enforce_isolation rn ctx (cs_operation_id (ev_state ev))))]))"

definition inject_web_request_context ::
  "(request_context \<Rightarrow> 'w env \<Rightarrow> 'w env) list \<Rightarrow> request_context \<Rightarrow> 'w env \<Rightarrow> 'w env" where
  "inject_web_request_context injectors ctx ev =
     foldl (\<lambda>ev inject. (inject ctx ev)\<lparr>ev_state := ev_state ev\<rparr>)
       (ev\<lparr>ev_ext_request_id := Some (rc_request_id ctx), ev_ext_context := Some ctx\<rparr>) injectors"

text \<open>An injector has the request and no access to the call state, which is why the state is
  put back after each one.\<close>

definition before_context_injection :: "'w runtime \<Rightarrow> ('w env, unit) action" where
  "before_context_injection rn =
     act_bind (act_check (\<lambda>ev. to_context (ev_state ev)))
       (\<lambda>ctx. act_modify (inject_web_request_context (rn_domain_injectors rn) ctx))"

definition before_logging :: "'w runtime \<Rightarrow> ('w env, unit) action" where
  "before_logging rn = act_with (\<lambda>ev. update_state (\<lambda>s. s\<lparr>cs_accepted_at := Some (rn_now rn (ev_world ev))\<rparr>))"

fun standard_before :: "libs \<Rightarrow> 'w runtime \<Rightarrow> call_stage \<Rightarrow> ('w env, unit) action" where
  "standard_before lib rn StRequestIdentity = before_request_identity rn"
| "standard_before lib rn StSurfaceClassification = before_surface_classification lib rn"
| "standard_before lib rn StCors = before_cors lib rn"
| "standard_before lib rn StMethodGuard = before_method_guard rn"
| "standard_before lib rn StCrossSiteRequest = before_cross_site lib rn"
| "standard_before lib rn StSqlInjectionGuard = before_sql_injection lib rn"
| "standard_before lib rn StRequestSizeLimit = before_request_size lib rn"
| "standard_before lib rn StRateLimit = before_rate_limit lib rn"
| "standard_before lib rn StIdempotency = before_idempotency lib rn"
| "standard_before lib rn StRequestContextResolution = before_resolution lib rn"
| "standard_before lib rn StAuthentication = before_authentication lib rn"
| "standard_before lib rn StAuthorization = before_authorization lib rn"
| "standard_before lib rn StTenantIsolation = before_tenant_isolation lib rn"
| "standard_before lib rn StContextInjection = before_context_injection rn"
| "standard_before lib rn StLogging = before_logging rn"
| "standard_before lib rn StAudit = act_return ()"
| "standard_before lib rn StHeaderSecurity = act_return ()"
| "standard_before lib rn StResponseIdentity = act_return ()"

fun stage_name :: "call_stage \<Rightarrow> string" where
  "stage_name StRequestIdentity = ''request_identity''"
| "stage_name StSurfaceClassification = ''surface_classification''"
| "stage_name StCors = ''cors''"
| "stage_name StMethodGuard = ''method_guard''"
| "stage_name StHeaderSecurity = ''header_security''"
| "stage_name StCrossSiteRequest = ''cross_site_request''"
| "stage_name StSqlInjectionGuard = ''sql_injection_guard''"
| "stage_name StRequestSizeLimit = ''request_size_limit''"
| "stage_name StRateLimit = ''rate_limit''"
| "stage_name StIdempotency = ''idempotency''"
| "stage_name StRequestContextResolution = ''request_context_resolution''"
| "stage_name StAuthentication = ''authentication''"
| "stage_name StAuthorization = ''authorization''"
| "stage_name StTenantIsolation = ''tenant_isolation''"
| "stage_name StContextInjection = ''context_injection''"
| "stage_name StLogging = ''logging''"
| "stage_name StAudit = ''audit''"
| "stage_name StResponseIdentity = ''response_identity''"

end
