(* ===== verification/Chain.thy ===== *)
theory Chain
  imports Stages
begin

section \<open>The interceptor chain\<close>

text \<open>
  Models the \<open>after\<close> halves of the standard interceptors (\<open>interceptors.rs\<close>) and
  \<open>WebCallInterceptorChain\<close> of \<open>api_chain.rs\<close>: \<open>before\<close> runs the stages in order and stops at
  the first error, which it records in the call state; \<open>after\<close> runs them in reverse on the
  response, also for requests that failed before the handler.
\<close>

subsection \<open>After the handler\<close>

text \<open>The response under way and the world. An \<open>after\<close> that panics is \<^const>\<open>None\<close>: nothing
  catches it, so the request gets no response.\<close>

record 'w reply =
  rp_response :: response
  rp_world :: 'w

type_synonym 'w after = "'w reply \<Rightarrow> ('w reply \<times> (web_error + unit)) option"

definition after_ok :: "'w reply \<Rightarrow> ('w reply \<times> (web_error + unit)) option" where
  "after_ok rp = Some (rp, Inr ())"

definition update_headers :: "(headers \<Rightarrow> headers) \<Rightarrow> 'w reply \<Rightarrow> 'w reply" where
  "update_headers f rp = rp\<lparr>rp_response := (rp_response rp)
     \<lparr>rs_headers := f (rs_headers (rp_response rp))\<rparr>\<rparr>"

definition state_correlation :: "call_state \<Rightarrow> problem_correlation" where
  "state_correlation s =
     with_routing (Some (cs_method s)) (cs_route_template s) (Some (cs_path s)) (cs_operation_id s)
       (correlation_new (cs_request_id s) (Option.bind (cs_traceparent s) trace_id_from_traceparent))"

definition is_event_stream_response :: "response \<Rightarrow> bool" where
  "is_event_stream_response rs =
     (case hdr_text (rs_headers rs) ''content-type'' of
        None \<Rightarrow> False | Some v \<Rightarrow> starts_with (to_lower v) ''text/event-stream'')"

text \<open>The stored record, or the release of the reservation; a store that fails is only logged.\<close>

definition after_idempotency :: "libs \<Rightarrow> 'w runtime \<Rightarrow> call_state \<Rightarrow> 'w after" where
  "after_idempotency lib rn s rp =
     (case (cs_idempotency_leader s, cs_idempotency_key s, cs_idempotency_fingerprint s) of
        (True, Some key, Some fingerprint) \<Rightarrow>
          (let rs = rp_response rp; w = rp_world rp; policy = sp_idempotency (rn_security_policy rn) in
           if is_event_stream_response rs
           then after_ok (rp\<lparr>rp_world := fst (rn_idem_release rn key fingerprint w)\<rparr>)
           else case lib_to_bytes lib (ip_max_cached_response_bytes policy) (rs_body rs) of
             Inl _ \<Rightarrow> Some (rp\<lparr>rp_response := empty_response\<rparr>,
               Inl (payload_too_large ''idempotency response exceeds cache limit''))
           | Inr bytes \<Rightarrow>
               (let status = rs_status rs;
                    update = (if 500 \<le> status \<or> \<not> (200 \<le> status \<and> status < 300)
                      then rn_idem_release rn key fingerprint
                      else rn_idem_complete rn key fingerprint
                        \<lparr>ir_status_code = status, ir_body = bytes,
                         ir_content_type = hdr_text (rs_headers rs) ''content-type''\<rparr>
                        (seconds (max (ip_retention_secs policy) 1)))
                in after_ok \<lparr>rp_response = rs\<lparr>rs_body := bytes\<rparr>, rp_world = fst (update w)\<rparr>))
      | _ \<Rightarrow> after_ok rp)"

definition after_response_identity :: "libs \<Rightarrow> call_state \<Rightarrow> 'w after" where
  "after_response_identity lib s rp =
     (let trace_id = opt_or (Option.bind (cs_traceparent s) trace_id_from_traceparent) (cs_request_id s);
          insert = (\<lambda>n v hs. case v of None \<Rightarrow> hs | Some t \<Rightarrow> insert_text lib n t hs);
          rp = update_headers (\<lambda>hs. insert ''tracestate'' (cs_tracestate s)
            (insert ''traceparent'' (cs_traceparent s)
              (insert ''x-sdkwork-trace-id'' trace_id hs))) rp
      in if cs_route_auth s = Some Compatibility then after_ok rp
         else map_option (\<lambda>(rs, _). (rp\<lparr>rp_response := rs\<rparr>, Inr ()))
           (normalize_problem_response lib (state_correlation s) (rp_response rp)))"

definition audit_fact_of :: "libs \<Rightarrow> 'w runtime \<Rightarrow> call_state \<Rightarrow> 'w reply \<Rightarrow> audit_fact" where
  "audit_fact_of lib rn s rp =
     \<lparr>af_request_id = unwrap_or (cs_request_id s) ''unknown'',
      af_tenant_id = state_tenant_id s,
      af_user_id = map_option (\<lambda>p. principal_user_id p) (cs_principal s),
      af_api_surface = cs_api_surface s, af_path = lib_redact_path lib (cs_path s),
      af_method = cs_method s, af_operation_id = cs_operation_id s,
      af_status_code = Some (rs_status (rp_response rp)),
      af_duration_ms = map_option (\<lambda>t. (rn_now rn (rp_world rp) - t) div 1000000) (cs_accepted_at s)\<rparr>"

definition after_audit :: "libs \<Rightarrow> 'w runtime \<Rightarrow> call_state \<Rightarrow> 'w after" where
  "after_audit lib rn s rp =
     (case rn_emit_audit rn (audit_fact_of lib rn s rp) (rp_world rp) of
        (w, r) \<Rightarrow> Some (rp\<lparr>rp_world := w\<rparr>, r))"

definition after_header_security :: "libs \<Rightarrow> 'w runtime \<Rightarrow> 'w after" where
  "after_header_security lib rn rp = after_ok (update_headers
     (apply_response_headers (lib_from_str lib) (sp_header_security (rn_security_policy rn))) rp)"

definition after_cors :: "libs \<Rightarrow> 'w runtime \<Rightarrow> call_state \<Rightarrow> 'w after" where
  "after_cors lib rn s rp = after_ok (update_headers
     (apply_cors_policy_headers_from_origin (lib_parse_uri lib) (lib_from_str lib)
       (effective_cors rn s) (cs_origin s)) rp)"

fun standard_after :: "libs \<Rightarrow> 'w runtime \<Rightarrow> call_stage \<Rightarrow> call_state \<Rightarrow> 'w after" where
  "standard_after lib rn StIdempotency s = after_idempotency lib rn s"
| "standard_after lib rn StResponseIdentity s = after_response_identity lib s"
| "standard_after lib rn StHeaderSecurity s = after_header_security lib rn"
| "standard_after lib rn StCors s = after_cors lib rn s"
| "standard_after lib rn StAudit s = after_audit lib rn s"
| "standard_after lib rn _ s = after_ok"

subsection \<open>The chain\<close>

text \<open>An interceptor: its stage and name, and its two halves.\<close>

record 'w interceptor =
  ic_name :: string
  ic_stage :: call_stage
  ic_before :: "('w env, unit) action"
  ic_after :: "call_state \<Rightarrow> 'w after"

definition standard_interceptor :: "libs \<Rightarrow> 'w runtime \<Rightarrow> call_stage \<Rightarrow> 'w interceptor" where
  "standard_interceptor lib rn st = \<lparr>ic_name = stage_name st, ic_stage = st,
     ic_before = standard_before lib rn st, ic_after = standard_after lib rn st\<rparr>"

definition standard_chain :: "libs \<Rightarrow> 'w runtime \<Rightarrow> 'w interceptor list" where
  "standard_chain lib rn = map (standard_interceptor lib rn) standard_stage_order"

definition stage_order :: "'w interceptor list \<Rightarrow> call_stage list" where
  "stage_order ics = map ic_stage ics"

definition kebab :: "string \<Rightarrow> string" where
  "kebab n = map (\<lambda>c. if c = CHR ''_'' then CHR ''-'' else c) n"

definition failed_before :: "'w interceptor \<Rightarrow> call_state \<Rightarrow> web_error \<Rightarrow> web_error" where
  "failed_before ic s e =
     with_auth_diagnostics (map_option auth_profile_label (cs_route_auth s)) (kebab (ic_name ic)) e"

fun chain_before :: "'w interceptor list \<Rightarrow> ('w env, unit) action" where
  "chain_before [] ev = (ev, Inr ())"
| "chain_before (ic # ics) ev =
     (case ic_before ic ev of
        (ev', Inr _) \<Rightarrow> chain_before ics ev'
      | (ev', Inl e) \<Rightarrow>
          (let e = failed_before ic (ev_state ev') e
           in (ev'\<lparr>ev_state := (ev_state ev')\<lparr>cs_before_failure := Some e\<rparr>\<rparr>, Inl e)))"

fun run_after :: "'w interceptor list \<Rightarrow> call_state \<Rightarrow> 'w after" where
  "run_after [] s rp = after_ok rp"
| "run_after (ic # ics) s rp =
     (case ic_after ic s rp of
        None \<Rightarrow> None
      | Some (rp', Inl e) \<Rightarrow> Some (rp', Inl e)
      | Some (rp', Inr _) \<Rightarrow> run_after ics s rp')"

definition chain_after :: "'w interceptor list \<Rightarrow> call_state \<Rightarrow> 'w after" where
  "chain_after ics s = run_after (rev ics) s"

subsection \<open>Facts\<close>

lemma chain_before_Inr:
  "chain_before ics ev = (ev', Inr u) \<longleftrightarrow> act_seq (map ic_before ics) ev = (ev', Inr u)"
  by (induction ics arbitrary: ev) (auto simp: act_bind_def Let_def split: prod.splits sum.splits)

lemma chain_before_append:
  "chain_before (xs @ ys) ev = (case chain_before xs ev of
     (ev', Inr _) \<Rightarrow> chain_before ys ev' | (ev', Inl e) \<Rightarrow> (ev', Inl e))"
  by (induction xs arbitrary: ev) (auto simp: Let_def split: prod.splits sum.splits)

lemma chain_before_standard_Inr:
  "chain_before (standard_chain lib rn) ev = (ev', Inr u) \<longleftrightarrow>
     act_seq (map (standard_before lib rn) standard_stage_order) ev = (ev', Inr u)"
  by (simp add: chain_before_Inr standard_chain_def standard_interceptor_def comp_def)

definition guard_stages :: "call_stage list" where
  "guard_stages = [StRequestIdentity, StSurfaceClassification, StCors, StMethodGuard,
     StCrossSiteRequest, StSqlInjectionGuard, StRequestSizeLimit, StRateLimit, StIdempotency]"

definition closing_stages :: "call_stage list" where
  "closing_stages = [StLogging, StAudit, StHeaderSecurity, StResponseIdentity]"

lemma standard_stage_order_split:
  "standard_stage_order = guard_stages @ [StRequestContextResolution, StAuthentication,
     StAuthorization, StTenantIsolation, StContextInjection] @ closing_stages"
  by (simp add: standard_stage_order_def guard_stages_def closing_stages_def)

text \<open>A successful run of the chain, taken apart at the stages that decide who may call.\<close>

lemma chain_before_stages:
  assumes "chain_before (standard_chain lib rn) ev = (ev', Inr u)"
  obtains a b c d e f where
    "act_seq (map (standard_before lib rn) guard_stages) ev = (a, Inr ())"
    "before_resolution lib rn a = (b, Inr ())"
    "before_authentication lib rn b = (c, Inr ())"
    "before_authorization lib rn c = (d, Inr ())"
    "before_tenant_isolation lib rn d = (e, Inr ())"
    "before_context_injection rn e = (f, Inr ())"
    "act_seq (map (standard_before lib rn) closing_stages) f = (ev', Inr ())"
  using assms
  unfolding chain_before_standard_Inr standard_stage_order_split
  by (auto simp: act_bind_Inr act_seq_append_Inr)

text \<open>What the stages from authentication on leave alone: the whole call state but the overlay
  of the tenant, the resolved limit, the admission slot and the acceptance time.\<close>

definition identity_view :: "call_state \<Rightarrow> call_state" where
  "identity_view s = s\<lparr>cs_tenant_runtime_profile := None, cs_resolved_rate_limit := None,
     cs_concurrent_admission_key := None, cs_accepted_at := None\<rparr>"

lemma identity_view_fields:
  "cs_public_path (identity_view s) = cs_public_path s"
  "cs_cors_preflight (identity_view s) = cs_cors_preflight s"
  "cs_principal (identity_view s) = cs_principal s"
  "cs_auth_mode (identity_view s) = cs_auth_mode s"
  "cs_route_auth (identity_view s) = cs_route_auth s"
  "cs_api_surface (identity_view s) = cs_api_surface s"
  "cs_credentials (identity_view s) = cs_credentials s"
  "cs_operation_id (identity_view s) = cs_operation_id s"
  "cs_idempotency_replay (identity_view s) = cs_idempotency_replay s"
  "to_context (identity_view s) = to_context s"
  "matched_route rn (identity_view s) = matched_route rn s"
  "credentials_present (identity_view s) = credentials_present s"
  by (simp_all add: identity_view_def to_context_def matched_route_def credentials_present_def)

lemma identity_view_eqD:
  assumes "identity_view s = identity_view t"
  shows "cs_public_path s = cs_public_path t" "cs_cors_preflight s = cs_cors_preflight t"
    "cs_principal s = cs_principal t" "cs_auth_mode s = cs_auth_mode t"
    "cs_route_auth s = cs_route_auth t" "cs_api_surface s = cs_api_surface t"
    "cs_credentials s = cs_credentials t" "cs_operation_id s = cs_operation_id t"
    "cs_idempotency_replay s = cs_idempotency_replay t"
    "to_context s = to_context t" "matched_route rn s = matched_route rn t"
    "credentials_present s = credentials_present t"
  by (metis assms identity_view_fields)+

abbreviation ev_identity :: "'w env \<Rightarrow> call_state" where
  "ev_identity ev \<equiv> identity_view (ev_state ev)"

lemma keeps_refresh [keeps_intros]:
  "(\<And>ev w. f (ev\<lparr>ev_world := w\<rparr>) = f ev) \<Longrightarrow>
   (\<And>ev p. f (ev\<lparr>ev_state := (ev_state ev)\<lparr>cs_tenant_runtime_profile := p\<rparr>\<rparr>) = f ev) \<Longrightarrow>
     keeps f (refresh_tenant_runtime_profile rn)"
  unfolding refresh_tenant_runtime_profile_def
  by (auto intro!: keeps_intros split: option.splits)

lemma keeps_dynamic_rate_limit [keeps_intros]:
  "(\<And>ev w. f (ev\<lparr>ev_world := w\<rparr>) = f ev) \<Longrightarrow>
   (\<And>ev p. f (ev\<lparr>ev_state := (ev_state ev)\<lparr>cs_resolved_rate_limit := p\<rparr>\<rparr>) = f ev) \<Longrightarrow>
     keeps f (resolve_dynamic_rate_limit rn)"
  unfolding resolve_dynamic_rate_limit_def
  by (auto intro!: keeps_intros split: option.splits)

lemma keeps_record_rate [keeps_intros]:
  "(\<And>ev w. f (ev\<lparr>ev_world := w\<rparr>) = f ev) \<Longrightarrow> keeps f (record_rate lib rn k l w)"
  unfolding record_rate_def by (auto intro!: keeps_intros)

lemma keeps_apply_rate_limit [keeps_intros]:
  "(\<And>ev w. f (ev\<lparr>ev_world := w\<rparr>) = f ev) \<Longrightarrow> keeps f (apply_rate_limit lib rn)"
  unfolding apply_rate_limit_def Let_def
  by (auto intro!: keeps_intros split: option.splits)

lemma keeps_acquire [keeps_intros]:
  "(\<And>ev w. f (ev\<lparr>ev_world := w\<rparr>) = f ev) \<Longrightarrow>
   (\<And>ev p. f (ev\<lparr>ev_state := (ev_state ev)\<lparr>cs_concurrent_admission_key := p\<rparr>\<rparr>) = f ev) \<Longrightarrow>
     keeps f (try_acquire_tenant_concurrency rn)"
  unfolding try_acquire_tenant_concurrency_def Let_def
  by (auto intro!: keeps_intros split: option.splits)

lemma identity_stages:
  "keeps ev_identity (before_authentication lib rn)"
  "keeps ev_identity (before_authorization lib rn)"
  "keeps ev_identity (before_tenant_isolation lib rn)"
  by (auto simp: before_authentication_def before_authorization_def before_tenant_isolation_def
      identity_view_def intro!: keeps_intros)

lemma inject_state: "ev_state (inject_web_request_context injectors ctx ev) = ev_state ev"
proof -
  have "ev_state (foldl (\<lambda>ev inject. (inject ctx ev)\<lparr>ev_state := ev_state ev\<rparr>) ev injectors) = ev_state ev"
    for ev :: "'a env"
    by (induction injectors arbitrary: ev) simp_all
  from this [of "ev\<lparr>ev_ext_request_id := Some (rc_request_id ctx), ev_ext_context := Some ctx\<rparr>"]
  show ?thesis by (simp add: inject_web_request_context_def)
qed

lemma injection_keeps_state: "keeps ev_state (before_context_injection rn)"
  unfolding before_context_injection_def
  by (intro keeps_bind keeps_basic keeps_modify inject_state)

lemma closing_stages_keep:
  assumes "act_seq (map (standard_before lib rn) closing_stages) ev = (ev', Inr u)"
  shows "ev_identity ev' = ev_identity ev" "ev_ext_context ev' = ev_ext_context ev"
    "ev_request ev' = ev_request ev"
  using assms
  by (auto simp: closing_stages_def before_logging_def act_bind_Inr identity_view_def)

subsection \<open>What a request that reaches the handler has passed\<close>

lemma authentication_passed:
  assumes "before_authentication lib rn b = (c, Inr u)"
  shows "require_authenticated_context (ev_state b) = Inr ()"
  using assms by (auto simp: before_authentication_def act_bind_Inr)

lemma authorization_passed:
  assumes "before_authorization lib rn c = (d, Inr u)" and "is_protected c"
  obtains ctx where "to_context (ev_state c) = Inr ctx"
    and "rn_authorize rn ctx (cs_operation_id (ev_state c)) = Inr ()"
  using assms by (auto simp: before_authorization_def act_bind_Inr)

lemma isolation_passed:
  assumes "before_tenant_isolation lib rn d = (e, Inr u)" and "is_protected d"
  obtains ctx where "to_context (ev_state d) = Inr ctx"
    and "check_path_resources rn ctx (ev_state d) = Inr ()"
    and "rn_enforce_isolation rn ctx (cs_operation_id (ev_state d)) = Inr ()"
  using assms by (auto simp: before_tenant_isolation_def act_bind_Inr)

lemma vouched_cong:
  assumes "cs_cors_preflight s = cs_cors_preflight t" and "cs_api_surface s = cs_api_surface t"
    and "cs_public_path s = cs_public_path t" and "cs_route_auth s = cs_route_auth t"
    and "cs_credentials s = cs_credentials t" and "matched_route rn s = matched_route rn t"
  shows "vouched rn hs s m p w w' = vouched rn hs t m p w w'"
proof -
  have "open_scheme rn hs s = open_scheme rn hs t"
    by (intro ext) (simp only: open_scheme_def effective_profile_def assms)
  moreover have "flexible_bearer rn s = flexible_bearer rn t"
    by (intro ext) (simp only: flexible_bearer_def assms)
  moreover have "dual_token_profile rn s = dual_token_profile rn t"
    by (simp only: dual_token_profile_def assms)
  moreover have "shows_contract rn hs s = shows_contract rn hs t"
    by (intro ext) (simp only: shows_contract_def assms)
  ultimately show ?thesis by (cases m) (simp_all only: vouched.simps assms)
qed

lemma identity_vouched:
  assumes "before_resolution lib rn a = (b, Inr u)"
  shows "\<exists>w w'. vouched rn (rq_headers (ev_request a)) (ev_state b) (cs_auth_mode (ev_state b)) (cs_principal (ev_state b)) w w'"
    and "cs_api_surface (ev_state b) = Unknown \<Longrightarrow>
      cs_public_path (ev_state b) \<or> cs_cors_preflight (ev_state b)"
proof -
  from assms obtain m p w where
    b: "b = a\<lparr>ev_state := (ev_state a)\<lparr>cs_auth_mode := m, cs_principal := p\<rparr>, ev_world := w\<rparr>"
    and v: "vouched rn (rq_headers (ev_request a)) (ev_state a) m p (ev_world a) w"
    and k: "cs_api_surface (ev_state a) = Unknown \<longrightarrow>
      cs_public_path (ev_state a) \<or> cs_cors_preflight (ev_state a)"
    using resolve_request_context_sound_lemma [of lib rn "rq_headers (ev_request a)" a b]
    by (auto simp: before_resolution_def)
  have "vouched rn (rq_headers (ev_request a)) (ev_state b) m p (ev_world a) w"
    using v by (subst vouched_cong [where t = "ev_state a"]) (simp_all add: b matched_route_def)
  then show "\<exists>w w'. vouched rn (rq_headers (ev_request a)) (ev_state b) (cs_auth_mode (ev_state b)) (cs_principal (ev_state b)) w w'"
    by (auto simp: b)
  show "cs_api_surface (ev_state b) = Unknown \<Longrightarrow>
      cs_public_path (ev_state b) \<or> cs_cors_preflight (ev_state b)"
    using k by (simp add: b)
qed

text \<open>The promise of the chain about the headers and the call state of a request: who calls is vouched for, and a protected call
  was authenticated, authorised and kept inside its tenant, as the very context the handler
  is given.\<close>

definition admitted :: "'w runtime \<Rightarrow> headers \<Rightarrow> call_state \<Rightarrow> bool" where
  "admitted rn hs s \<longleftrightarrow>
     (\<exists>w w'. vouched rn hs s (cs_auth_mode s) (cs_principal s) w w')
     \<and> (\<not> cs_public_path s \<and> \<not> cs_cors_preflight s \<longrightarrow>
         cs_api_surface s \<noteq> Unknown
         \<and> (cs_principal s \<noteq> None \<or> (cs_route_auth s = Some DualTokenOrAnonymous
             \<and> cs_auth_mode s = ModePublic \<and> \<not> credentials_present s))
         \<and> (\<exists>ctx. to_context s = Inr ctx
             \<and> rn_authorize rn ctx (cs_operation_id s) = Inr ()
             \<and> check_path_resources rn ctx s = Inr ()
             \<and> rn_enforce_isolation rn ctx (cs_operation_id s) = Inr ()))"

text \<open>Of the headers, the stages before the resolution change the request identifier only.\<close>

abbreviation ev_headers :: "'w env \<Rightarrow> headers" where
  "ev_headers ev \<equiv> rq_headers (ev_request ev)"

lemma inspect_body_headers:
  "inspect_body lib rn ev = (ev', Inr u) \<Longrightarrow> ev_headers ev' = ev_headers ev"
  by (auto simp: inspect_body_def inspect_json_body_context_selectors_def Let_def
      split: prod.splits option.splits sum.splits if_splits)

lemma guard_stages_keep_headers:
  assumes "st \<in> set (tl guard_stages)" and "standard_before lib rn st ev = (ev', Inr u)"
  shows "ev_headers ev' = ev_headers ev"
proof (cases "st = StRequestSizeLimit")
  case True
  with assms(2) show ?thesis
    by (auto simp: before_request_size_def act_bind_Inr dest: inspect_body_headers split: if_splits)
next
  case False
  with assms(1) have "keeps ev_headers (standard_before lib rn st)"
    by (auto simp: guard_stages_def before_surface_classification_def before_cors_def before_method_guard_def
        before_cross_site_def before_sql_injection_def before_rate_limit_def
        before_idempotency_def resolve_dynamic_cors_def deny_with_event_def Let_def
        intro!: keeps_intros split: option.splits begin_outcome.splits)
  from keepsD [OF this assms(2)] show ?thesis .
qed

lemma act_seq_keeps:
  assumes "act_seq (map f xs) w = (w', Inr ())"
    and "\<And>x v v'. x \<in> set xs \<Longrightarrow> f x v = (v', Inr ()) \<Longrightarrow> g v' = g v"
  shows "g w' = g w"
  using assms by (induction xs arbitrary: w) (fastforce simp: act_bind_Inr)+

lemma guard_stages_headers:
  assumes "act_seq (map (standard_before lib rn) guard_stages) ev = (a, Inr ())"
  obtains rid where
    "rq_headers (ev_request a) = hdr_insert ''X-Request-Id'' (TextValue rid) (rq_headers (ev_request ev))"
proof -
  have g: "guard_stages = StRequestIdentity # tl guard_stages" by (simp add: guard_stages_def)
  from assms obtain b where i: "before_request_identity rn ev = (b, Inr ())"
    and t: "act_seq (map (standard_before lib rn) (tl guard_stages)) b = (a, Inr ())"
    by (subst (asm) g) (auto simp: act_bind_Inr)
  from i obtain rid where "ev_headers b = hdr_insert ''X-Request-Id'' (TextValue rid) (ev_headers ev)"
    by (auto simp: before_request_identity_def act_bind_Inr on_world_eq Let_def)
  moreover have "ev_headers a = ev_headers b"
    by (rule act_seq_keeps [OF t]) (rule guard_stages_keep_headers)
  ultimately show thesis by (intro that) simp
qed

lemma chain_before_admits:
  assumes "chain_before (standard_chain lib rn) ev = (ev', Inr u)"
  obtains rid where
    "admitted rn (hdr_insert ''X-Request-Id'' (TextValue rid) (rq_headers (ev_request ev))) (ev_state ev')"
proof -
  from assms obtain a b c d e f where
    g: "act_seq (map (standard_before lib rn) guard_stages) ev = (a, Inr ())" and
    r: "before_resolution lib rn a = (b, Inr ())" and
    n: "before_authentication lib rn b = (c, Inr ())" and
    z: "before_authorization lib rn c = (d, Inr ())" and
    i: "before_tenant_isolation lib rn d = (e, Inr ())" and
    j: "before_context_injection rn e = (f, Inr ())" and
    k: "act_seq (map (standard_before lib rn) closing_stages) f = (ev', Inr ())"
    by (rule chain_before_stages)
  have fe: "ev_identity ev' = ev_identity e"
    using closing_stages_keep(1) [OF k] keepsD [OF injection_keeps_state j] by simp
  have ed: "ev_identity e = ev_identity d" by (rule keepsD [OF identity_stages(3) i])
  have dc: "ev_identity d = ev_identity c" by (rule keepsD [OF identity_stages(2) z])
  have cb: "ev_identity c = ev_identity b" by (rule keepsD [OF identity_stages(1) n])
  note B = identity_view_eqD [OF trans [OF trans [OF trans [OF fe ed] dc] cb]]
  note C = identity_view_eqD [OF trans [OF trans [OF fe ed] dc]]
  note D = identity_view_eqD [OF trans [OF fe ed]]
  from guard_stages_headers [OF g] obtain rid where
    h: "rq_headers (ev_request a) = hdr_insert ''X-Request-Id'' (TextValue rid) (rq_headers (ev_request ev))" .
  have v: "\<exists>w w'. vouched rn (rq_headers (ev_request a)) (ev_state ev') (cs_auth_mode (ev_state ev')) (cs_principal (ev_state ev')) w w'"
    using identity_vouched(1) [OF r] B B(11) [of rn]
    by (subst vouched_cong [where t = "ev_state b"]) simp_all
  have "admitted rn (rq_headers (ev_request a)) (ev_state ev')"
  proof (cases "\<not> cs_public_path (ev_state ev') \<and> \<not> cs_cors_preflight (ev_state ev')")
    case False
    with v show ?thesis by (auto simp: admitted_def)
  next
    case True
    have pc: "is_protected c" and pd: "is_protected d"
      using True C(1,2) D(1,2) by (simp_all add: is_protected_def)
    from authorization_passed [OF z pc] obtain ctx where
      x: "to_context (ev_state c) = Inr ctx" "rn_authorize rn ctx (cs_operation_id (ev_state c)) = Inr ()" .
    from isolation_passed [OF i pd] obtain ctx' where
      y: "to_context (ev_state d) = Inr ctx'" "check_path_resources rn ctx' (ev_state d) = Inr ()"
        "rn_enforce_isolation rn ctx' (cs_operation_id (ev_state d)) = Inr ()" .
    have same: "ctx' = ctx" using x(1) y(1) C(10) D(10) by simp
    have "check_path_resources rn ctx (ev_state ev') = Inr ()"
      using y(2) same by (simp add: check_path_resources_def D(11))
    moreover have "cs_api_surface (ev_state ev') \<noteq> Unknown"
      using identity_vouched(2) [OF r] True B(1,2,6) by auto
    moreover have "cs_principal (ev_state ev') \<noteq> None \<or>
        (cs_route_auth (ev_state ev') = Some DualTokenOrAnonymous
          \<and> cs_auth_mode (ev_state ev') = ModePublic \<and> \<not> credentials_present (ev_state ev'))"
      using authentication_passed [OF n] True B
      by (auto simp: require_authenticated_context_def split: if_splits)
    ultimately show ?thesis
      using v True x(1,2) y(3) same C(8,10) D(8) by (auto simp: admitted_def)
  qed
  then show ?thesis unfolding h by (rule that)
qed

lemma chain_after_standard:
  "chain_after (standard_chain lib rn) s rp =
     Option.bind (after_response_identity lib s rp) (\<lambda>(rp1, _).
     Option.bind (after_audit lib rn s (fst (the (after_header_security lib rn rp1)))) (\<lambda>(rp3, r).
     case r of Inl e \<Rightarrow> Some (rp3, Inl e)
     | Inr _ \<Rightarrow> Option.bind (after_idempotency lib rn s rp3) (\<lambda>(rp4, r).
         case r of Inl e \<Rightarrow> Some (rp4, Inl e) | Inr _ \<Rightarrow> after_cors lib rn s rp4)))"
proof -
  have r: "rev (standard_chain lib rn) = map (standard_interceptor lib rn) (rev standard_stage_order)"
    by (simp add: standard_chain_def rev_map)
  have i: "after_response_identity lib s rp = Some (rp1, q) \<Longrightarrow> q = Inr ()" for rp1 q
    by (auto simp: after_response_identity_def after_ok_def Let_def split: if_splits)
  show ?thesis
    unfolding chain_after_def r
    by (cases "after_response_identity lib s rp")
      (auto simp: standard_stage_order_def standard_interceptor_def after_ok_def
        after_header_security_def after_cors_def dest!: i split: option.splits sum.splits prod.splits)
qed

lemma after_worlds:
  "after_response_identity lib s rp = Some (rp1, q) \<Longrightarrow> rp_world rp1 = rp_world rp"
  "rp_world (fst (the (after_header_security lib rn rp))) = rp_world rp"
  "after_cors lib rn s rp = Some (rp1, q) \<Longrightarrow> rp_world rp1 = rp_world rp \<and> q = Inr ()"
  by (auto simp: after_response_identity_def after_header_security_def after_cors_def after_ok_def
      update_headers_def Let_def split: if_splits)

text \<open>What the stages after the audit do to the response the audit saw.\<close>

lemma after_statuses:
  "rs_status (rp_response (fst (the (after_header_security lib rn rp)))) = rs_status (rp_response rp)"
  "rs_body (rp_response (fst (the (after_header_security lib rn rp)))) = rs_body (rp_response rp)"
  "after_cors lib rn s rp = Some (rp1, q) \<Longrightarrow> rs_status (rp_response rp1) = rs_status (rp_response rp)"
  by (auto simp: after_header_security_def after_cors_def after_ok_def update_headers_def)

lemma after_idempotency_result:
  assumes "after_idempotency lib rn s rp = Some (rp', r)"
  shows "r = Inr () \<Longrightarrow> rs_status (rp_response rp') = rs_status (rp_response rp)"
    and "r = Inl e \<Longrightarrow> e = payload_too_large ''idempotency response exceeds cache limit''"
  using assms
  by (auto simp: after_idempotency_def after_ok_def Let_def split: bool.splits option.splits if_splits sum.splits)


definition audit_down_runtime :: "mem_world runtime" where
  "audit_down_runtime = (runtime_development example_resolver)
     \<lparr>rn_emit_audit := \<lambda>_. act_fail (dependency_unavailable ''audit sink is down'')\<rparr>"

definition example_state :: call_state where
  "example_state = call_state_from_request (\<lambda>p. p) (example_request ''GET'' ''/app/v3/api/orders'' [])"


end
