(* ===== verification/Middleware.thy ===== *)
theory Middleware
  imports Chain
begin

section \<open>The HTTP middleware\<close>

text \<open>
  Models \<open>middleware.rs\<close> of the axum crate, with the correlation of \<open>correlation.rs\<close>: the
  function that takes an inbound request through the chain, the handler and back. The
  handler (the rest of the router) is a parameter; it may respond, panic, be cut off by the
  timeout, or never be polled again because the client is gone.
\<close>

record 'w inbound =
  ib_request :: request
  ib_ext_request_id :: "string option"
  ib_ext_context :: "request_context option"
  ib_world :: 'w

datatype handler_end = Responded response | HandlerPanicked | Abandoned

text \<open>\<open>hd_run_until t\<close> is the handler under a timeout; \<^const>\<open>None\<close> is the elapsed timeout.\<close>

record 'w handler =
  hd_run :: "'w inbound \<Rightarrow> 'w \<times> handler_end"
  hd_run_until :: "nat \<Rightarrow> 'w inbound \<Rightarrow> 'w \<times> handler_end option"

text \<open>How a request ends: answered, dropped while its handler was running, or aborted by a panic
  that nothing in the middleware catches.\<close>

datatype 'w outcome = Answered 'w response | Dropped 'w | Aborted

definition owned_correlation :: "'w inbound \<Rightarrow> problem_correlation option" where
  "owned_correlation ib =
     (case ib_ext_context ib of
        Some ctx \<Rightarrow> Some (context_correlation ctx)
      | None \<Rightarrow> map_option (\<lambda>request_id.
          with_routing (Some (rq_method (ib_request ib))) None (Some (rq_path (ib_request ib))) None
            (correlation_new (Some request_id)
              (Option.bind (hdr_trimmed (rq_headers (ib_request ib)) ''traceparent'')
                trace_id_from_traceparent)))
          (hdr_trimmed (rq_headers (ib_request ib)) ''X-Request-Id''))"

text \<open>\<^const>\<open>None\<close> stands for a request without identifier, for which the code makes a new one.\<close>

definition random_request_id :: "'w runtime \<Rightarrow> 'w \<Rightarrow> 'w \<times> string" where
  "random_request_id rn w =
     (case rn_random rn w of (w, Inr bytes) \<Rightarrow> (w, format_request_id bytes) | (w, Inl _) \<Rightarrow> (w, []))"

definition correlation_from_request :: "'w runtime \<Rightarrow> 'w inbound \<Rightarrow> 'w \<times> problem_correlation" where
  "correlation_from_request rn ib =
     (case owned_correlation ib of
        Some c \<Rightarrow> (ib_world ib, c)
      | None \<Rightarrow> (case random_request_id rn (ib_world ib) of (w, request_id) \<Rightarrow>
          (w, with_routing (Some (rq_method (ib_request ib))) None (Some (rq_path (ib_request ib))) None
            (correlation_new (Some request_id)
              (Option.bind (hdr_trimmed (rq_headers (ib_request ib)) ''traceparent'')
                trace_id_from_traceparent)))))"

definition run_handler_with_timeout ::
  "libs \<Rightarrow> 'w runtime \<Rightarrow> 'w handler \<Rightarrow> 'w inbound \<Rightarrow> 'w \<times> handler_end" where
  "run_handler_with_timeout lib rn h ib =
     (case rn_request_timeout rn of
        None \<Rightarrow> hd_run h ib
      | Some t \<Rightarrow>
          (case correlation_from_request rn ib of (w, c) \<Rightarrow>
           case hd_run_until h t (ib\<lparr>ib_world := w\<rparr>) of
             (w, Some e) \<Rightarrow> (w, e)
           | (w, None) \<Rightarrow>
               (w, Responded (problem_response lib (request_timeout ''request timed out'') c))))"

definition normalize_inbound_request_uri :: "libs \<Rightarrow> request \<Rightarrow> request" where
  "normalize_inbound_request_uri lib rq =
     (let original = rq_path rq @ (case rq_query rq of None \<Rightarrow> [] | Some q \<Rightarrow> CHR ''?'' # q);
          normalized = lib_collapse_prefix lib original
      in if normalized = original then rq
         else case lib_parse_path_query lib normalized of
           None \<Rightarrow> rq
         | Some (path, query) \<Rightarrow> rq\<lparr>rq_path := path, rq_query := query\<rparr>)"

definition release_idempotency_leader :: "'w runtime \<Rightarrow> call_state \<Rightarrow> 'w \<Rightarrow> 'w" where
  "release_idempotency_leader rn s w =
     (case (cs_idempotency_leader s, cs_idempotency_key s, cs_idempotency_fingerprint s) of
        (True, Some key, Some fingerprint) \<Rightarrow> fst (rn_idem_release rn key fingerprint w)
      | _ \<Rightarrow> w)"

definition release_concurrent_admission :: "'w runtime \<Rightarrow> call_state \<Rightarrow> 'w \<Rightarrow> 'w" where
  "release_concurrent_admission rn s w =
     (case cs_concurrent_admission_key s of
        None \<Rightarrow> w | Some key \<Rightarrow> fst (rn_admission_release rn key w))"

definition finalize_response ::
  "libs \<Rightarrow> 'w runtime \<Rightarrow> 'w interceptor list \<Rightarrow> call_state \<Rightarrow> response \<Rightarrow> 'w \<Rightarrow> 'w outcome" where
  "finalize_response lib rn ics s rs w =
     (case chain_after ics s \<lparr>rp_response = rs, rp_world = w\<rparr> of
        None \<Rightarrow> Aborted
      | Some (rp, r) \<Rightarrow>
          Answered (release_concurrent_admission rn s (rp_world rp))
            (case r of
               Inl e \<Rightarrow> problem_response lib e (state_correlation s)
             | Inr _ \<Rightarrow> rp_response rp))"

definition no_content :: response where
  "no_content = \<lparr>rs_status = 204, rs_headers = Map.empty, rs_body = []\<rparr>"

definition start_env :: "libs \<Rightarrow> 'w inbound \<Rightarrow> 'w env" where
  "start_env lib ib =
     (let rq = normalize_inbound_request_uri lib (ib_request ib)
      in \<lparr>ev_state = call_state_from_request (lib_collapse_prefix lib) rq, ev_request = rq,
          ev_ext_request_id = ib_ext_request_id ib, ev_ext_context = ib_ext_context ib,
          ev_world = ib_world ib\<rparr>)"

definition inbound_of :: "'w env \<Rightarrow> 'w inbound" where
  "inbound_of ev = \<lparr>ib_request = ev_request ev, ib_ext_request_id = ev_ext_request_id ev,
     ib_ext_context = ev_ext_context ev, ib_world = ev_world ev\<rparr>"

definition replay_response :: "libs \<Rightarrow> 'w runtime \<Rightarrow> call_state \<Rightarrow> idempotency_record \<Rightarrow> 'w \<Rightarrow> 'w \<times> response"
where
  "replay_response lib rn s record w =
     (case (case cs_request_id s of Some rid \<Rightarrow> (w, rid) | None \<Rightarrow> random_request_id rn w) of
        (w, request_id) \<Rightarrow>
          (w, case idempotency_replay_response (lib_status_from_u16 lib) (lib_from_str lib) record
                (Some request_id) of
             Inr rs \<Rightarrow> rs
           | Inl e \<Rightarrow> problem_response lib e (state_correlation s)))"

text \<open>The run of the handler and what follows. A dropped request runs the drop handler of
  \<open>IdempotencyReleaseGuard\<close>, which releases the reservation, and nothing else.\<close>

definition handle_request ::
  "libs \<Rightarrow> 'w runtime \<Rightarrow> 'w interceptor list \<Rightarrow> 'w handler \<Rightarrow> 'w env \<Rightarrow> 'w outcome" where
  "handle_request lib rn ics h ev =
     (let s = ev_state ev in
      case run_handler_with_timeout lib rn h (inbound_of ev) of
        (w, Responded rs) \<Rightarrow> finalize_response lib rn ics s rs w
      | (w, HandlerPanicked) \<Rightarrow>
          finalize_response lib rn ics s
            (problem_response lib (dependency_unavailable ''request handler panicked'')
              (state_correlation s))
            (release_idempotency_leader rn s w)
      | (w, Abandoned) \<Rightarrow> Dropped (release_idempotency_leader rn s w))"

definition web_request_context_middleware ::
  "libs \<Rightarrow> 'w runtime \<Rightarrow> 'w interceptor list \<Rightarrow> 'w handler \<Rightarrow> 'w inbound \<Rightarrow> 'w outcome" where
  "web_request_context_middleware lib rn ics h ib =
     (if (case ib_ext_context ib of None \<Rightarrow> False | Some ctx \<Rightarrow> rc_api_surface ctx \<noteq> Unknown)
      then (case hd_run h ib of
              (w, Responded rs) \<Rightarrow> Answered w rs
            | (w, HandlerPanicked) \<Rightarrow> Aborted
            | (w, Abandoned) \<Rightarrow> Dropped w)
      else
        (case chain_before ics (start_env lib ib) of
           (ev, Inl e) \<Rightarrow>
             (let s = ev_state ev;
                  w = release_idempotency_leader rn s (release_concurrent_admission rn s (ev_world ev))
              in finalize_response lib rn ics s (problem_response lib e (state_correlation s)) w)
         | (ev, Inr _) \<Rightarrow>
             (let s = ev_state ev in
              if cs_cors_preflight s then finalize_response lib rn ics s no_content (ev_world ev)
              else case cs_idempotency_replay s of
                Some record \<Rightarrow>
                  (case replay_response lib rn s record (ev_world ev) of
                     (w, rs) \<Rightarrow> finalize_response lib rn ics s rs w)
              | None \<Rightarrow> handle_request lib rn ics h ev)))"

subsection \<open>Request identity without the pipeline\<close>

definition anonymous_context :: "request \<Rightarrow> string \<Rightarrow> request_context" where
  "anonymous_context rq request_id =
     \<lparr>rc_request_id = request_id, rc_api_surface = Unknown, rc_auth_mode = ModePublic,
      rc_transport = \<lparr>tf_path = rq_path rq, tf_method = rq_method rq,
        tf_auth_token_present = False, tf_access_token_present = False,
        tf_api_key_present = False, tf_ingress_token_present = False,
        tf_oauth_bearer_present = False, tf_agent_token_present = False\<rparr>,
      rc_principal = None, rc_locale = None,
      rc_client_kind = Some (infer_client_kind (hdr_text (rq_headers rq) ''user-agent'')
        (hdr_text (rq_headers rq) ''x-sdkwork-client-kind'')),
      rc_operation = None,
      rc_trace_id = trace_id_from_traceparent
        (tc_traceparent (resolve_trace_context (rq_headers rq) request_id)),
      rc_idempotency_key = None\<rparr>"

definition server_request_identity_middleware ::
  "libs \<Rightarrow> 'w runtime \<Rightarrow> 'w handler \<Rightarrow> 'w inbound \<Rightarrow> 'w outcome" where
  "server_request_identity_middleware lib rn h ib =
     (let finish = (\<lambda>f e. case e of
            (w, Responded rs) \<Rightarrow> Answered w (f rs)
          | (w, HandlerPanicked) \<Rightarrow> Aborted
          | (w, Abandoned) \<Rightarrow> Dropped w);
          rq = normalize_inbound_request_uri lib (ib_request ib);
          ib = ib\<lparr>ib_request := rq\<rparr>
      in if ib_ext_context ib \<noteq> None then finish (\<lambda>rs. rs) (hd_run h ib)
         else case random_request_id rn (ib_world ib) of (w, request_id) \<Rightarrow>
           (let hs = hdr_insert ''X-Request-Id'' (TextValue request_id) (rq_headers rq);
                rq = rq\<lparr>rq_headers := hs\<rparr>;
                ib = \<lparr>ib_request = rq, ib_ext_request_id = Some request_id,
                  ib_ext_context = Some (anonymous_context rq request_id), ib_world = w\<rparr>
            in finish (\<lambda>rs. rs\<lparr>rs_headers := hdr_insert ''X-Request-Id'' (TextValue request_id)
                 (rs_headers rs)\<rparr>) (hd_run h ib)))"

subsection \<open>Facts\<close>

definition unclassified :: "'w inbound \<Rightarrow> bool" where
  "unclassified ib = (case ib_ext_context ib of None \<Rightarrow> True | Some ctx \<Rightarrow> rc_api_surface ctx = Unknown)"

lemma middleware_unclassified:
  assumes "unclassified ib"
  shows "web_request_context_middleware lib rn ics h ib =
    (case chain_before ics (start_env lib ib) of
       (ev, Inl e) \<Rightarrow>
         (let s = ev_state ev;
              w = release_idempotency_leader rn s (release_concurrent_admission rn s (ev_world ev))
          in finalize_response lib rn ics s (problem_response lib e (state_correlation s)) w)
     | (ev, Inr _) \<Rightarrow>
         (let s = ev_state ev in
          if cs_cors_preflight s then finalize_response lib rn ics s no_content (ev_world ev)
          else case cs_idempotency_replay s of
            Some record \<Rightarrow>
              (case replay_response lib rn s record (ev_world ev) of
                 (w, rs) \<Rightarrow> finalize_response lib rn ics s rs w)
          | None \<Rightarrow> handle_request lib rn ics h ev))"
  using assms by (simp add: web_request_context_middleware_def unclassified_def split: option.splits)

lemma handler_reached:
  assumes "unclassified ib"
    and "web_request_context_middleware lib rn ics h ib \<noteq> web_request_context_middleware lib rn ics h' ib"
  obtains ev where "chain_before ics (start_env lib ib) = (ev, Inr ())"
    and "\<not> cs_cors_preflight (ev_state ev)" and "cs_idempotency_replay (ev_state ev) = None"
    and "run_handler_with_timeout lib rn h (inbound_of ev) \<noteq> run_handler_with_timeout lib rn h' (inbound_of ev)"
proof (cases "chain_before ics (start_env lib ib)")
  case (Pair ev r)
  with assms show ?thesis
    using that [of ev]
    by (cases r; cases "run_handler_with_timeout lib rn h (inbound_of ev)
          = run_handler_with_timeout lib rn h' (inbound_of ev)")
      (auto simp: middleware_unclassified Let_def handle_request_def split: if_splits option.splits)
qed

lemma start_headers: "ev_headers (start_env lib ib) = rq_headers (ib_request ib)"
  by (auto simp: start_env_def normalize_inbound_request_uri_def Let_def split: option.splits)

lemma injected_context:
  assumes "before_context_injection rn e = (f, Inr u)"
    and "\<forall>inject \<in> set (rn_domain_injectors rn). \<forall>ctx ev. ev_ext_context (inject ctx ev) = ev_ext_context ev"
  obtains ctx where "to_context (ev_state f) = Inr ctx" and "ev_ext_context f = Some ctx"
proof -
  from assms(1) obtain ctx where c: "to_context (ev_state e) = Inr ctx"
    and f: "f = inject_web_request_context (rn_domain_injectors rn) ctx e"
    by (auto simp: before_context_injection_def act_bind_Inr)
  have "ev_ext_context (foldl (\<lambda>ev inject. (inject ctx ev)\<lparr>ev_state := ev_state ev\<rparr>) ev injectors)
      = ev_ext_context ev"
    if "\<forall>inject \<in> set injectors. \<forall>ctx ev. ev_ext_context (inject ctx ev) = ev_ext_context ev"
    for ev :: "'a env" and injectors
    using that by (induction injectors arbitrary: ev) simp_all
  from this [OF assms(2)] have "ev_ext_context f = Some ctx"
    by (simp add: f inject_web_request_context_def)
  moreover have "to_context (ev_state f) = Inr ctx" by (simp add: f inject_state c)
  ultimately show thesis by (rule that [rotated])
qed

text \<open>C1: A request on which the choice of the handler makes any difference to the outcome, so
  that a handler runs at all, is of one of two kinds. Either it came in with a context that a
  composed host has already classified; then this layer stands aside and the handler gets
  the request as it is. Or it has passed the whole chain: who calls is vouched for by a
  resolver from the headers it came with, a protected call is authenticated, authorised and
  kept inside its tenant, it is no CORS preflight and no idempotent replay; and the handler
  receives the request that left the chain, with exactly the context that was authorised
  unless a domain injector replaces it.\<close>

theorem handler_runs_only_admitted:
  assumes "web_request_context_middleware lib rn (standard_chain lib rn) h ib
       \<noteq> web_request_context_middleware lib rn (standard_chain lib rn) h' ib"
  shows "if unclassified ib
    then \<exists>ev rid. chain_before (standard_chain lib rn) (start_env lib ib) = (ev, Inr ())
      \<and> admitted rn (hdr_insert ''X-Request-Id'' (TextValue rid) (rq_headers (ib_request ib))) (ev_state ev)
      \<and> \<not> cs_cors_preflight (ev_state ev) \<and> cs_idempotency_replay (ev_state ev) = None
      \<and> run_handler_with_timeout lib rn h (inbound_of ev) \<noteq> run_handler_with_timeout lib rn h' (inbound_of ev)
      \<and> ((\<forall>inject \<in> set (rn_domain_injectors rn). \<forall>ctx ev. ev_ext_context (inject ctx ev) = ev_ext_context ev)
          \<longrightarrow> (\<exists>ctx. to_context (ev_state ev) = Inr ctx \<and> ib_ext_context (inbound_of ev) = Some ctx))
    else hd_run h ib \<noteq> hd_run h' ib"
proof (cases "unclassified ib")
  case True
  from handler_reached [OF True assms] obtain ev
    where c: "chain_before (standard_chain lib rn) (start_env lib ib) = (ev, Inr ())"
    and n: "\<not> cs_cors_preflight (ev_state ev)" "cs_idempotency_replay (ev_state ev) = None"
      "run_handler_with_timeout lib rn h (inbound_of ev) \<noteq> run_handler_with_timeout lib rn h' (inbound_of ev)" .
  have "\<exists>ctx. to_context (ev_state ev) = Inr ctx \<and> ib_ext_context (inbound_of ev) = Some ctx"
    if i: "\<forall>inject \<in> set (rn_domain_injectors rn). \<forall>ctx ev. ev_ext_context (inject ctx ev) = ev_ext_context ev"
  proof -
    from c obtain e f where j: "before_context_injection rn e = (f, Inr ())"
      and k: "act_seq (map (standard_before lib rn) closing_stages) f = (ev, Inr ())"
      by (rule chain_before_stages)
    from injected_context [OF j i] obtain ctx where
      "to_context (ev_state f) = Inr ctx" "ev_ext_context f = Some ctx" .
    with closing_stages_keep(1,2) [OF k] show ?thesis
      using identity_view_eqD(10) [OF closing_stages_keep(1) [OF k]] by (simp add: inbound_of_def)
  qed
  moreover from chain_before_admits [OF c] obtain rid where
    "admitted rn (hdr_insert ''X-Request-Id'' (TextValue rid) (rq_headers (ib_request ib))) (ev_state ev)"
    unfolding start_headers .
  ultimately show ?thesis using True c n by auto
next
  case False
  with assms show ?thesis
    by (auto simp: unclassified_def web_request_context_middleware_def split: option.splits)
qed

subsection \<open>Probes of the infrastructure\<close>

text \<open>The paths the default profile serves to load balancers, and the libraries treating them
  as they are documented to treat text without escapes or doubled prefixes.\<close>

definition probe_paths :: "string list" where
  "probe_paths = [''/healthz'', ''/readyz'', ''/livez'', ''/metrics'']"

definition probe_libs :: "libs \<Rightarrow> bool" where
  "probe_libs lib \<longleftrightarrow> (\<forall>p \<in> set ([] # probe_paths).
     lib_collapse_prefix lib p = p \<and> lib_percent_decode lib p = p)"

lemma probe_libsD:
  assumes "probe_libs lib"
  shows "lib_percent_decode lib [] = []" "p \<in> set probe_paths \<Longrightarrow> lib_percent_decode lib p = p"
    "p \<in> set probe_paths \<Longrightarrow> lib_collapse_prefix lib p = p"
  using assms by (simp_all add: probe_libs_def)

text \<open>A bare probe, as the stages after the first see it.\<close>

definition probing :: "'w env \<Rightarrow> bool" where
  "probing ev \<longleftrightarrow> rq_method (ev_request ev) = ''GET'' \<and> rq_path (ev_request ev) \<in> set probe_paths
     \<and> rq_query (ev_request ev) = None
     \<and> (\<exists>v. rq_headers (ev_request ev) = [''x-request-id'' \<mapsto> v])
     \<and> cs_method (ev_state ev) = ''GET'' \<and> cs_path (ev_state ev) = rq_path (ev_request ev)
     \<and> cs_api_surface (ev_state ev) = Unknown \<and> cs_public_path (ev_state ev)
     \<and> \<not> cs_cors_preflight (ev_state ev) \<and> cs_idempotency_replay (ev_state ev) = None
     \<and> cs_request_id (ev_state ev) \<noteq> None"

lemma probe_surface:
  assumes "p \<in> set probe_paths"
  shows "classify_api_surface p profile_default = Unknown" "is_public_path p profile_default"
proof -
  have "list_all (\<lambda>p. classify_api_surface p profile_default = Unknown \<and> is_public_path p profile_default)
      probe_paths" by code_simp
  with assms show "classify_api_surface p profile_default = Unknown" "is_public_path p profile_default"
    by (auto simp: list_all_iff)
qed

lemma probe_text: "p \<in> set probe_paths \<Longrightarrow> \<not> contains_sql_injection_signal p"
proof -
  have "list_all (\<lambda>p. \<not> contains_sql_injection_signal p) probe_paths" by code_simp
  then show "p \<in> set probe_paths \<Longrightarrow> \<not> contains_sql_injection_signal p" by (auto simp: list_all_iff)
qed

lemma probe_health: "p \<in> set probe_paths \<Longrightarrow> p \<in> set health_paths"
  by (auto simp: probe_paths_def health_paths_def)

definition standard_runtime :: "mem_world resolver \<Rightarrow> mem_world runtime \<Rightarrow> bool" where
  "standard_runtime rv rn \<longleftrightarrow> rn = runtime_development rv \<or> rn = runtime_production rv"

lemma standard_runtime_facts:
  assumes "standard_runtime rv rn"
  shows "rn_profile rn = profile_default" "rn_manifest rn = None" "rn_domain_injectors rn = []"
    "\<not> of_dynamic_cors_policy (rn_features rn)" "\<not> of_dynamic_rate_limit_policy (rn_features rn)"
    "\<not> of_dynamic_tenant_runtime_profile (rn_features rn)"
    "sp_method_guard (rn_security_policy rn) = method_guard_default"
    "sp_sql_injection_guard (rn_security_policy rn) = sql_injection_guard_default"
    "sz_max_content_length (sp_request_size_limit (rn_security_policy rn)) = Some (16 * 1024 * 1024)"
    "rn_random rn = memory_random"
  using assms
  by (auto simp: standard_runtime_def runtime_production_def runtime_development_def Let_def
      features_default_def security_production_def security_default_def
      request_size_limit_default_def)

lemma probing_headers:
  assumes "probing ev"
  shows "hdr_get (rq_headers (ev_request ev)) n = (if to_lower n = ''x-request-id'' then
      hdr_get (rq_headers (ev_request ev)) ''x-request-id'' else None)"
proof -
  obtain v where "rq_headers (ev_request ev) = [''x-request-id'' \<mapsto> v]" using assms by (auto simp: probing_def)
  moreover have "to_lower ''x-request-id'' = ''x-request-id''" by code_simp
  ultimately show ?thesis by (simp add: hdr_get_def)
qed

lemma probing_no_text:
  assumes "probing ev" and "n \<in> set (sq_inspected_headers sql_injection_guard_default)"
  shows "hdr_text (rq_headers (ev_request ev)) n = None"
proof -
  have "list_all (\<lambda>n. to_lower n \<noteq> ''x-request-id'') (sq_inspected_headers sql_injection_guard_default)"
    by code_simp
  with assms show ?thesis by (auto simp: list_all_iff hdr_text_def probing_headers)
qed

lemma probing_names: "to_lower ''content-length'' \<noteq> ''x-request-id''" by code_simp

lemma probe_stages:
  assumes lib: "probe_libs lib" and rn: "standard_runtime rv rn" and p: "probing ev"
  shows "before_cors lib rn ev = (ev, Inr ())"
    "before_method_guard rn ev = (ev, Inr ())"
    "before_cross_site lib rn ev = (ev, Inr ())"
    "before_sql_injection lib rn ev = (ev, Inr ())"
    "before_request_size lib rn ev = (ev, Inr ())"
    "before_rate_limit lib rn ev = (ev, Inr ())"
    "before_idempotency lib rn ev = (ev, Inr ())"
proof -
  note F = standard_runtime_facts [OF rn]
  have q: "rq_method (ev_request ev) = ''GET''" "rq_query (ev_request ev) = None"
    "rq_path (ev_request ev) \<in> set probe_paths"
    "cs_method (ev_state ev) = ''GET''" "cs_path (ev_state ev) = rq_path (ev_request ev)"
    "cs_api_surface (ev_state ev) = Unknown" "cs_public_path (ev_state ev)"
    "\<not> cs_cors_preflight (ev_state ev)"
    using p by (simp_all add: probing_def)
  show "before_cors lib rn ev = (ev, Inr ())"
    using q by (simp add: before_cors_def F)
  show "before_method_guard rn ev = (ev, Inr ())"
    using q by (simp add: before_method_guard_def validate_method_def F method_guard_default_def default_methods_def)
  show "before_cross_site lib rn ev = (ev, Inr ())"
    using q by (auto simp: before_cross_site_def deny_with_event_def act_on_error_def
        validate_cross_site_request_with_cors_def is_state_changing_method_def)
  have m: "List.map_filter (hdr_text (rq_headers (ev_request ev))) ns = []"
    if "set ns \<subseteq> set (sq_inspected_headers sql_injection_guard_default)" for ns
    using that probing_no_text [OF p] by (induction ns) (auto simp: List.map_filter_simps)
  have e: "\<not> contains_sql_injection_signal []" by code_simp
  show "before_sql_injection lib rn ev = (ev, Inr ())"
    using q e by (simp add: before_sql_injection_def validate_sql_injection_def F
        sql_inspected_texts_def m probe_text probe_libsD [OF lib])
  have "hdr_u64 (rq_headers (ev_request ev)) ''content-length'' = None"
    using probing_headers [OF p, of "''content-length''"] probing_names by (simp add: hdr_u64_def hdr_text_def)
  then show "before_request_size lib rn ev = (ev, Inr ())"
    using q by (auto simp: before_request_size_def validate_content_length_with_limit_def
        validate_json_content_type_def is_state_changing_method_def inspect_body_def
        inspect_json_body_context_selectors_def request_has_json_payload_def
        act_bind_def split: option.splits)
  show "before_rate_limit lib rn ev = (ev, Inr ())"
    using q probe_health by (auto simp: before_rate_limit_def Let_def)
  show "before_idempotency lib rn ev = (ev, Inr ())"
    using q by (simp add: before_idempotency_def is_idempotent_command_def Let_def)
qed

lemma probe_identity:
  assumes lib: "probe_libs lib" and rn: "standard_runtime rv rn" and p: "p \<in> set probe_paths"
    and ib: "ib_request ib = example_request ''GET'' p []"
  shows "\<exists>ev a. before_request_identity rn (start_env lib ib) = (ev, Inr ())
    \<and> before_surface_classification lib rn ev = (a, Inr ()) \<and> probing a
    \<and> ev_world a = fst (memory_random (ib_world ib)) \<and> rq_path (ev_request a) = p"
proof -
  note F = standard_runtime_facts [OF rn]
  obtain w bytes where w: "memory_random (ib_world ib) = (w, Inr bytes)"
    by (cases "mw_random (ib_world ib)") (auto simp: memory_random_def)
  let ?rid = "format_request_id bytes"
  have "to_lower ''X-Request-Id'' = ''x-request-id''" by code_simp
  then have low: "hdr_insert ''X-Request-Id'' v Map.empty = [''x-request-id'' \<mapsto> v]" for v
    by (simp only: hdr_insert_def)
  have env: "start_env lib ib = \<lparr>ev_state = call_state_from_request (lib_collapse_prefix lib) (example_request ''GET'' p []),
      ev_request = example_request ''GET'' p [], ev_ext_request_id = ib_ext_request_id ib,
      ev_ext_context = ib_ext_context ib, ev_world = ib_world ib\<rparr>"
    by (simp add: start_env_def ib normalize_inbound_request_uri_def probe_libsD [OF lib] p
        example_request_def Let_def)
  obtain ev where ev: "before_request_identity rn (start_env lib ib) = (ev, Inr ())"
    "rq_headers (ev_request ev) = [''x-request-id'' \<mapsto> TextValue ?rid]"
    "rq_method (ev_request ev) = ''GET''" "rq_path (ev_request ev) = p" "rq_query (ev_request ev) = None"
    "cs_method (ev_state ev) = ''GET''" "cs_path (ev_state ev) = p"
    "\<not> cs_cors_preflight (ev_state ev)" "cs_idempotency_replay (ev_state ev) = None"
    "cs_request_id (ev_state ev) = Some ?rid" "ev_world ev = w"
    by (auto simp: before_request_identity_def act_bind_def on_world_def env w F Let_def
        example_request_def low call_state_from_request_def
        probe_libsD [OF lib] p)
  have "classify_api_surface p profile_default = Unknown" "is_public_path p profile_default"
    using probe_surface [OF p] by simp_all
  with ev F have "\<exists>a. before_surface_classification lib rn ev = (a, Inr ()) \<and> probing a
      \<and> ev_world a = w \<and> rq_path (ev_request a) = p"
    by (auto simp: before_surface_classification_def act_bind_def classify_state_def Let_def
        matched_route_def resolve_public_path_def probing_def p)
  with ev(1) w show ?thesis by auto
qed

lemma probe_decisions:
  assumes rn: "standard_runtime rv rn" and p: "probing ev"
  obtains b f where "before_resolution lib rn ev = (b, Inr ())"
    and "before_authentication lib rn b = (b, Inr ())"
    and "before_authorization lib rn b = (b, Inr ())"
    and "before_tenant_isolation lib rn b = (b, Inr ())"
    and "before_context_injection rn b = (f, Inr ())"
    and "act_seq (map (standard_before lib rn) closing_stages) f =
      (f\<lparr>ev_state := (ev_state f)\<lparr>cs_accepted_at := Some (rn_now rn (ev_world f))\<rparr>\<rparr>, Inr ())"
    and "\<not> cs_cors_preflight (ev_state f)" and "cs_idempotency_replay (ev_state f) = None"
    and "ev_world f = ev_world ev" and "ev_request f = ev_request ev"
    and "\<exists>ctx. ev_ext_context f = Some ctx \<and> rc_principal ctx = None \<and> rc_auth_mode ctx = ModePublic"
proof -
  note F = standard_runtime_facts [OF rn]
  let ?b = "ev\<lparr>ev_state := (ev_state ev)\<lparr>cs_auth_mode := ModePublic, cs_principal := None\<rparr>\<rparr>"
  have q: "cs_api_surface (ev_state ev) = Unknown" "cs_public_path (ev_state ev)"
    "\<not> cs_cors_preflight (ev_state ev)" "cs_idempotency_replay (ev_state ev) = None"
    using p by (simp_all add: probing_def)
  obtain rid where rid: "cs_request_id (ev_state ev) = Some rid" using p by (auto simp: probing_def)
  then obtain ctx where ctx: "to_context (ev_state ?b) = Inr ctx" by (simp add: to_context_def)
  let ?f = "inject_web_request_context [] ctx ?b"
  show thesis
  proof (rule that [of ?b ?f])
    show "before_resolution lib rn ev = (?b, Inr ())"
      using q by (simp add: before_resolution_def resolve_request_context_def Let_def)
    show "before_authentication lib rn ?b = (?b, Inr ())"
      using q by (simp add: before_authentication_def deny_with_event_def act_on_error_def
          require_authenticated_context_def F act_bind_def)
    show "before_authorization lib rn ?b = (?b, Inr ())"
      using q by (simp add: before_authorization_def is_protected_def)
    show "before_tenant_isolation lib rn ?b = (?b, Inr ())"
      using q by (simp add: before_tenant_isolation_def is_protected_def)
    show "before_context_injection rn ?b = (?f, Inr ())"
      using ctx by (simp add: before_context_injection_def act_bind_def F)
    show "act_seq (map (standard_before lib rn) closing_stages) ?f =
        (?f\<lparr>ev_state := (ev_state ?f)\<lparr>cs_accepted_at := Some (rn_now rn (ev_world ?f))\<rparr>\<rparr>, Inr ())"
      by (simp add: closing_stages_def act_bind_def before_logging_def)
    show "\<not> cs_cors_preflight (ev_state ?f)" "cs_idempotency_replay (ev_state ?f) = None"
      using q by (simp_all add: inject_state)
    show "ev_world ?f = ev_world ev" "ev_request ?f = ev_request ev"
      by (simp_all add: inject_web_request_context_def)
    show "\<exists>ctx. ev_ext_context ?f = Some ctx \<and> rc_principal ctx = None \<and> rc_auth_mode ctx = ModePublic"
      using ctx rid by (auto simp: inject_web_request_context_def to_context_def)
  qed
qed

lemma probe_passes:
  assumes lib: "probe_libs lib" and rn: "standard_runtime rv rn" and p: "p \<in> set probe_paths"
    and ib: "ib_request ib = example_request ''GET'' p []"
  obtains ev where "chain_before (standard_chain lib rn) (start_env lib ib) = (ev, Inr ())"
    and "\<not> cs_cors_preflight (ev_state ev)" and "cs_idempotency_replay (ev_state ev) = None"
    and "ev_world ev = fst (memory_random (ib_world ib))" and "rq_path (ev_request ev) = p"
    and "\<exists>ctx. ev_ext_context ev = Some ctx \<and> rc_principal ctx = None \<and> rc_auth_mode ctx = ModePublic"
proof -
  from probe_identity [OF lib rn p ib] obtain a0 a where
    a: "before_request_identity rn (start_env lib ib) = (a0, Inr ())"
    "before_surface_classification lib rn a0 = (a, Inr ())" "probing a"
    "ev_world a = fst (memory_random (ib_world ib))" "rq_path (ev_request a) = p" by blast
  note G = probe_stages [OF lib rn a(3)]
  from probe_decisions [OF rn a(3)] obtain b f where
    d: "before_resolution lib rn a = (b, Inr ())"
    "before_authentication lib rn b = (b, Inr ())"
    "before_authorization lib rn b = (b, Inr ())"
    "before_tenant_isolation lib rn b = (b, Inr ())"
    "before_context_injection rn b = (f, Inr ())"
    "act_seq (map (standard_before lib rn) closing_stages) f =
      (f\<lparr>ev_state := (ev_state f)\<lparr>cs_accepted_at := Some (rn_now rn (ev_world f))\<rparr>\<rparr>, Inr ())"
    "\<not> cs_cors_preflight (ev_state f)" "cs_idempotency_replay (ev_state f) = None"
    "ev_world f = ev_world a" "ev_request f = ev_request a"
    "\<exists>ctx. ev_ext_context f = Some ctx \<and> rc_principal ctx = None \<and> rc_auth_mode ctx = ModePublic" .
  have "act_seq (map (standard_before lib rn) guard_stages) (start_env lib ib) = (a, Inr ())"
    using a(1,2) G by (simp add: guard_stages_def act_bind_def)
  then have "chain_before (standard_chain lib rn) (start_env lib ib) =
      (f\<lparr>ev_state := (ev_state f)\<lparr>cs_accepted_at := Some (rn_now rn (ev_world f))\<rparr>\<rparr>, Inr ())"
    unfolding chain_before_standard_Inr standard_stage_order_split
    using d by (auto simp: act_seq_append_Inr act_bind_Inr)
  then show thesis by (rule that) (simp_all add: d a)
qed

text \<open>C19: A bare GET of an infrastructure path reaches the handler in the runtimes the crate
  assembles, development and production alike, without credentials, whatever resolver is
  installed and however exhausted the rate limiter and the admission slots are; the handler
  gets the path and an anonymous public context, and the world has only lost the random
  bytes of the request identifier.\<close>

theorem health_probe_reaches_handler:
  assumes "probe_libs lib" and "standard_runtime rv rn" and "p \<in> set probe_paths"
    and "ib_request ib = example_request ''GET'' p []" and "unclassified ib"
  shows "\<exists>ev ctx. web_request_context_middleware lib rn (standard_chain lib rn) h ib
      = handle_request lib rn (standard_chain lib rn) h ev
    \<and> rq_path (ib_request (inbound_of ev)) = p
    \<and> ib_ext_context (inbound_of ev) = Some ctx \<and> rc_principal ctx = None \<and> rc_auth_mode ctx = ModePublic
    \<and> ib_world (inbound_of ev) = fst (memory_random (ib_world ib))"
proof -
  from probe_passes [OF assms(1-4)] obtain ev where
    e: "chain_before (standard_chain lib rn) (start_env lib ib) = (ev, Inr ())"
    "\<not> cs_cors_preflight (ev_state ev)" "cs_idempotency_replay (ev_state ev) = None"
    "ev_world ev = fst (memory_random (ib_world ib))" "rq_path (ev_request ev) = p"
    "\<exists>ctx. ev_ext_context ev = Some ctx \<and> rc_principal ctx = None \<and> rc_auth_mode ctx = ModePublic" .
  moreover have "web_request_context_middleware lib rn (standard_chain lib rn) h ib
      = handle_request lib rn (standard_chain lib rn) h ev"
    using e by (simp add: middleware_unclassified [OF assms(5)] Let_def)
  ultimately show ?thesis by (auto simp: inbound_of_def)
qed

definition probe_inbound :: "string \<Rightarrow> mem_world inbound" where
  "probe_inbound p = \<lparr>ib_request = example_request ''GET'' p [], ib_ext_request_id = None,
     ib_ext_context = None, ib_world = mem_world_init\<rparr>"

definition constant_handler :: "handler_end \<Rightarrow> 'w handler" where
  "constant_handler e = \<lparr>hd_run = \<lambda>ib. (ib_world ib, e), hd_run_until = \<lambda>t ib. (ib_world ib, Some e)\<rparr>"

lemma probe_libs_plain: "probe_libs plain_libs" by (simp add: probe_libs_def plain_libs_def)

lemma probe_inbound_facts:
  "ib_request (probe_inbound p) = example_request ''GET'' p []" "unclassified (probe_inbound p)"
  by (simp_all add: probe_inbound_def unclassified_def)

theorem health_probe_reaches_handler_witness:
  "\<exists>w. web_request_context_middleware plain_libs (runtime_production example_resolver)
     (standard_chain plain_libs (runtime_production example_resolver)) (constant_handler Abandoned)
     (probe_inbound ''/healthz'') = Dropped w"
proof -
  have s: "standard_runtime example_resolver (runtime_production example_resolver)"
    by (simp add: standard_runtime_def)
  have p: "''/healthz'' \<in> set probe_paths" by (simp add: probe_paths_def)
  have t: "rn_request_timeout (runtime_production example_resolver) = None"
    by (simp add: runtime_production_def runtime_development_def Let_def)
  show ?thesis
    using health_probe_reaches_handler [OF probe_libs_plain s p probe_inbound_facts,
        where h = "constant_handler Abandoned"]
    by (auto simp: handle_request_def run_handler_with_timeout_def t constant_handler_def Let_def)
qed

theorem handler_runs_only_admitted_witness:
  "\<exists>ev rid. chain_before (standard_chain plain_libs (runtime_development example_resolver))
       (start_env plain_libs (probe_inbound ''/healthz'')) = (ev, Inr ())
     \<and> admitted (runtime_development example_resolver)
         (hdr_insert ''X-Request-Id'' (TextValue rid) (rq_headers (ib_request (probe_inbound ''/healthz''))))
         (ev_state ev)"
proof -
  let ?rn = "runtime_development example_resolver"
  let ?c = "standard_chain plain_libs ?rn"
  have s: "standard_runtime example_resolver ?rn" by (simp add: standard_runtime_def)
  have p: "''/healthz'' \<in> set probe_paths" by (simp add: probe_paths_def)
  have t: "rn_request_timeout ?rn = None" by (simp add: runtime_development_def)
  from probe_passes [OF probe_libs_plain s p probe_inbound_facts(1)] obtain ev where
    e: "chain_before ?c (start_env plain_libs (probe_inbound ''/healthz'')) = (ev, Inr ())"
    "\<not> cs_cors_preflight (ev_state ev)" "cs_idempotency_replay (ev_state ev) = None" .
  have "web_request_context_middleware plain_libs ?rn ?c (constant_handler x) (probe_inbound ''/healthz'')
      = handle_request plain_libs ?rn ?c (constant_handler x) ev" for x
    using e by (simp add: middleware_unclassified [OF probe_inbound_facts(2)] Let_def)
  moreover have "\<exists>w. handle_request plain_libs ?rn ?c (constant_handler Abandoned) ev = Dropped w"
    by (simp add: handle_request_def run_handler_with_timeout_def t constant_handler_def Let_def)
  moreover have "handle_request plain_libs ?rn ?c (constant_handler HandlerPanicked) ev \<noteq> Dropped w" for w
    by (auto simp: handle_request_def run_handler_with_timeout_def t constant_handler_def Let_def
        finalize_response_def split: option.splits sum.splits)
  ultimately have "web_request_context_middleware plain_libs ?rn ?c (constant_handler Abandoned) (probe_inbound ''/healthz'')
      \<noteq> web_request_context_middleware plain_libs ?rn ?c (constant_handler HandlerPanicked) (probe_inbound ''/healthz'')"
    by metis
  from handler_runs_only_admitted [OF this] show ?thesis using probe_inbound_facts(2) by auto
qed

end
