(* ===== verification/Admission_Slots.thy ===== *)
theory Admission_Slots
  imports Middleware
begin

section \<open>Concurrency slots across a whole request\<close>

text \<open>
  Who holds the concurrency slots of \<open>try_acquire_tenant_concurrency\<close> (\<open>interceptors.rs\<close>)
  over the run of a request through the middleware (\<open>middleware.rs\<close>). The locale
  \<open>slot_accounting\<close> says what is asked of a runtime: its admission store counts, and nothing
  else it calls touches the count. It is interpreted on the runtimes the crate assembles over
  its in-memory stores with a tenant profile source.
\<close>

text \<open>Actions that leave the slots alone.\<close>

lemmas calm_intros = keeps_basic keeps_modify keeps_bind keeps_when keeps_with keeps_on_error
  keeps_seq keeps_update_state

definition slot_view :: "('w \<Rightarrow> 'c) \<Rightarrow> 'w env \<Rightarrow> 'c \<times> string option \<times> tenant_runtime_profile option" where
  "slot_view slots ev = (slots (ev_world ev), cs_concurrent_admission_key (ev_state ev),
     cs_tenant_runtime_profile (ev_state ev))"

lemma calm_on_world: "keeps slots m \<Longrightarrow> keeps (slot_view slots) (on_world m)"
  by (auto simp: keeps_def slot_view_def on_world_def split: prod.splits)
    (metis fst_conv)

lemma slot_view_update [simp]:
  "slot_view slots (ev\<lparr>ev_state := s\<rparr>) = (slots (ev_world ev), cs_concurrent_admission_key s,
     cs_tenant_runtime_profile s)"
  "slot_view slots (ev\<lparr>ev_request := rq\<rparr>) = slot_view slots ev"
  by (simp_all add: slot_view_def)

text \<open>A handler that leaves the slots alone, however it ends.\<close>

definition quiet_handler :: "('w \<Rightarrow> 'c) \<Rightarrow> 'w handler \<Rightarrow> bool" where
  "quiet_handler slots h \<longleftrightarrow> (\<forall>ib. slots (fst (hd_run h ib)) = slots (ib_world ib))
     \<and> (\<forall>t ib. slots (fst (hd_run_until h t ib)) = slots (ib_world ib))"

text \<open>How many slots the request of a state took when its key was recorded: none under the
  limit zero, which admits without counting.\<close>

definition taken :: "call_state \<Rightarrow> nat" where
  "taken s = (if Option.bind (cs_tenant_runtime_profile s) tr_max_concurrent_requests = Some 0 then 0 else 1)"

lemma taken_le: "taken s \<le> 1"
  by (simp add: taken_def)

text \<open>The account of one request that goes through the chain.\<close>

definition account ::
  "('w \<Rightarrow> string \<Rightarrow> nat) \<Rightarrow> 'w env \<times> (web_error + unit) \<Rightarrow> (string \<Rightarrow> nat) \<Rightarrow> 'w outcome \<Rightarrow> bool" where
  "account slots before S out =
     (let s = ev_state (fst before);
          add = (\<lambda>d. case cs_concurrent_admission_key s of None \<Rightarrow> S | Some k \<Rightarrow> S(k := d (S k))) in
      case out of
        Answered w rs \<Rightarrow> slots w = (case snd before of
            Inl _ \<Rightarrow> add (\<lambda>n. n + taken s - 2)
          | Inr _ \<Rightarrow> add (\<lambda>n. n + taken s - 1))
      | Dropped w \<Rightarrow> slots w = add (\<lambda>n. n + taken s)
      | Aborted \<Rightarrow> True)"

text \<open>The account of one that goes past it.\<close>

definition untouched :: "('w \<Rightarrow> 'c) \<Rightarrow> 'c \<Rightarrow> 'w outcome \<Rightarrow> bool" where
  "untouched slots S out =
     (case out of Answered w rs \<Rightarrow> slots w = S | Dropped w \<Rightarrow> slots w = S | Aborted \<Rightarrow> True)"

locale slot_accounting =
  fixes rn :: "'w runtime" and slots :: "'w \<Rightarrow> string \<Rightarrow> nat"
  assumes acquired: "0 < limit \<Longrightarrow> rn_admission_acquire rn k limit w = (w', Inr ()) \<Longrightarrow>
      slots w' = (slots w)(k := slots w k + 1)"
    and refused: "rn_admission_acquire rn k limit w = (w', Inl e) \<Longrightarrow> slots w' = slots w"
    and released: "slots (fst (rn_admission_release rn k w)) = (slots w)(k := slots w k - 1)"
    and uncounted: "rn_admission_acquire rn k 0 w = (w', Inr ()) \<Longrightarrow> slots w' = slots w"
    and calm_sources: "keeps slots (rn_tenant_source rn c)" "keeps slots (rn_cors_source rn x)"
      "keeps slots (rn_rate_limit_source rn r)"
    and calm_stores: "keeps slots (rn_rate_check rn k limit window)"
      "keeps slots (rn_idem_begin rn k f ttl)" "keeps slots (rn_idem_complete rn k f rec ttl)"
      "keeps slots (rn_idem_release rn k f)"
    and calm_emitters: "keeps slots (rn_emit_audit rn a)" "keeps slots (rn_emit_security rn ev)"
      "keeps slots (rn_random rn)"
    and calm_resolver: "keeps slots (rv_api_key (rn_resolver rn) t)"
      "keeps slots (rv_dual_token (rn_resolver rn) t u)"
      "keeps slots (rv_access_token (rn_resolver rn) t)"
      "keeps slots (rv_oauth_bearer (rn_resolver rn) t)"
      "keeps slots (rv_bearer_auth_token (rn_resolver rn) t)"
      "keeps slots (rv_compatibility (rn_resolver rn) t cs)"
    and calm_injectors: "inject \<in> set (rn_domain_injectors rn) \<Longrightarrow>
      slots (ev_world (inject ctx env)) = slots (ev_world env)"
begin

lemmas calm = calm_sources calm_stores calm_emitters calm_resolver

abbreviation view :: "'w env \<Rightarrow> (string \<Rightarrow> nat) \<times> string option \<times> tenant_runtime_profile option" where
  "view \<equiv> slot_view slots"

lemma calm_emit: "keeps view (emit_security_event lib rn k d)"
  unfolding emit_security_event_def by (intro calm_intros calm_on_world calm)

lemma calm_deny: "keeps view m \<Longrightarrow> keeps view (deny_with_event lib rn k m)"
  unfolding deny_with_event_def by (intro keeps_on_error calm_emit)

lemma calm_record: "keeps view (record_rate lib rn k l t)"
  unfolding record_rate_def by (auto intro!: calm_intros calm_on_world calm calm_emit)

lemma calm_rate_limit:
  "keeps view (resolve_dynamic_rate_limit rn)" "keeps view (apply_rate_limit lib rn)"
  unfolding resolve_dynamic_rate_limit_def apply_rate_limit_def Let_def
  by (auto intro!: calm_intros calm_on_world calm calm_record simp: slot_view_def split: option.splits)

text \<open>The one stage that refreshes the profile and takes a slot under its limit.\<close>

lemma acquire_effect:
  assumes "try_acquire_tenant_concurrency rn ev = (ev', r)"
    and "cs_concurrent_admission_key (ev_state ev) = None"
  shows "slots (ev_world ev') = (case cs_concurrent_admission_key (ev_state ev') of
      None \<Rightarrow> slots (ev_world ev)
    | Some k \<Rightarrow> (slots (ev_world ev))(k := slots (ev_world ev) k + taken (ev_state ev')))"
proof (cases "Option.bind (cs_tenant_runtime_profile (ev_state ev)) tr_max_concurrent_requests")
  case None
  with assms show ?thesis by (auto simp: try_acquire_tenant_concurrency_def Let_def)
next
  case (Some limit)
  show ?thesis
  proof (cases "concurrent_admission_scope_key (ev_state ev)")
    case None
    with Some assms show ?thesis by (auto simp: try_acquire_tenant_concurrency_def Let_def)
  next
    case (Some k)
    obtain w q where q: "rn_admission_acquire rn k limit (ev_world ev) = (w, q)" by force
    show ?thesis
    proof (cases q)
      case (Inl e)
      with q Some \<open>_ = Some limit\<close> assms refused [of k limit "ev_world ev" w] show ?thesis
        by (auto simp: try_acquire_tenant_concurrency_def act_bind_def on_world_def Let_def)
    next
      case (Inr u)
      have "slots w = (slots (ev_world ev))(k := slots (ev_world ev) k + (if limit = 0 then 0 else 1))"
        using q Inr acquired [of limit k "ev_world ev" w] uncounted [of k "ev_world ev" w] by auto
      with q Inr Some \<open>_ = Some limit\<close> assms show ?thesis
        by (auto simp: try_acquire_tenant_concurrency_def act_bind_def on_world_def taken_def Let_def)
    qed
  qed
qed

text \<open>The stages.\<close>

lemma calm_open_api:
  "keeps slots (resolve_open_api_bearer_flexible c cl (rn_resolver rn))"
  "keeps slots (resolve_open_api_request_context c hs ra d (rn_resolver rn))"
  unfolding resolve_open_api_bearer_flexible_def resolve_open_api_request_context_def Let_def
  by (auto intro!: calm_intros calm split: option.splits auth_scheme.splits credential_kind.splits)

lemma calm_identity: "keeps view (set_identity m p)"
  unfolding set_identity_def by (intro keeps_update_state) (simp add: slot_view_def)

lemma calm_token_only: "keeps view (finish_credential_entry_bootstrap_context rn)"
  unfolding finish_credential_entry_bootstrap_context_def finish_access_token_only_context_def
  by (intro calm_intros calm_on_world calm) (simp_all add: slot_view_def)

lemma calm_with_access: "keeps view (resolve_with_access_token rn m t)"
  unfolding resolve_with_access_token_def by (intro calm_intros calm_on_world calm calm_identity)

lemma calm_resolve_open_api: "keeps view (resolve_open_api lib rn hs)"
  unfolding resolve_open_api_def resolve_compatibility_route_def Let_def
  by (auto intro!: calm_intros calm_on_world calm calm_open_api calm_identity calm_token_only
      split: option.splits route_auth.splits)

lemma calm_dual_token: "keeps view (resolve_dual_token_route rn)"
  unfolding resolve_dual_token_route_def Let_def
  by (auto intro!: calm_intros calm_on_world calm calm_identity)

lemma calm_resolve_tokens: "keeps view (resolve_token_surfaces rn)"
  unfolding resolve_token_surfaces_def Let_def
proof (rule keeps_with, goal_cases)
  case (1 ev)
  note I = calm_intros calm_on_world calm calm_identity calm_token_only calm_with_access calm_dual_token
  show ?case
  proof (cases "cs_route_auth (ev_state ev)")
    case (Some a)
    then show ?thesis by (cases a) (auto intro!: I split: option.split)
  qed (auto intro!: I)
qed

lemma calm_resolution: "keeps view (before_resolution lib rn)"
  unfolding before_resolution_def resolve_request_context_def resolve_internal_api_def Let_def
  by (auto intro!: calm_intros calm_identity calm_resolve_open_api calm_resolve_tokens
      calm_with_access split: api_surface.splits)

lemma calm_request_identity: "keeps view (before_request_identity rn)"
  unfolding before_request_identity_def Let_def
  by (auto intro!: calm_intros calm_on_world calm simp: slot_view_def)

lemma calm_cors: "keeps view (before_cors lib rn)"
  unfolding before_cors_def resolve_dynamic_cors_def
  by (auto intro!: calm_intros calm_on_world calm calm_deny simp: slot_view_def split: option.splits)

lemma calm_checks: "keeps view (before_method_guard rn)" "keeps view (before_sql_injection lib rn)"
  "keeps view (before_cross_site lib rn)"
  unfolding before_method_guard_def before_sql_injection_def before_cross_site_def
  by (intro calm_intros calm_deny)+

lemma calm_request_size: "keeps view (before_request_size lib rn)"
proof -
  have "keeps view (inspect_body lib rn)"
    by (simp add: keeps_def inspect_body_def slot_view_def split: prod.splits)
  then show ?thesis unfolding before_request_size_def by (auto intro!: calm_intros)
qed

lemma calm_rate: "keeps view (before_rate_limit lib rn)"
  unfolding before_rate_limit_def by (auto intro!: calm_intros calm_rate_limit)

lemma calm_idempotency: "keeps view (before_idempotency lib rn)"
  unfolding before_idempotency_def Let_def
  by (auto intro!: calm_intros calm_on_world calm simp: slot_view_def split: begin_outcome.splits)

lemma calm_authorization: "keeps view (before_authorization lib rn)"
  unfolding before_authorization_def by (auto intro!: calm_intros calm_deny calm_rate_limit)

lemma calm_isolation: "keeps view (before_tenant_isolation lib rn)"
  unfolding before_tenant_isolation_def by (auto intro!: calm_intros calm_deny)

lemma injected_slots:
  "slots (ev_world (inject_web_request_context (rn_domain_injectors rn) ctx ev)) = slots (ev_world ev)"
proof -
  have "slots (ev_world (foldl (\<lambda>ev inject. (inject ctx ev)\<lparr>ev_state := ev_state ev\<rparr>) ev injectors))
      = slots (ev_world ev)"
    if "set injectors \<subseteq> set (rn_domain_injectors rn)" for ev injectors
    using that by (induction injectors arbitrary: ev) (auto simp: calm_injectors)
  then show ?thesis by (simp add: inject_web_request_context_def)
qed

lemma calm_injection: "keeps view (before_context_injection rn)"
  unfolding before_context_injection_def
  by (intro calm_intros) (simp add: slot_view_def inject_state injected_slots)

lemma calm_stage:
  assumes "st \<noteq> StSurfaceClassification" and "st \<noteq> StAuthentication"
  shows "keeps view (standard_before lib rn st)"
  using assms
  by (cases st) (auto simp: before_logging_def slot_view_def intro!: calm_intros calm_request_identity calm_cors
      calm_checks calm_request_size calm_rate calm_idempotency calm_resolution calm_authorization
      calm_isolation calm_injection)

text \<open>The whole chain: \<open>opened S ev\<close> is what holds before authentication, \<open>entered S ev\<close> from
  there on, where \<open>S\<close> are the slots when the request arrived.\<close>

definition opened :: "(string \<Rightarrow> nat) \<Rightarrow> 'w env \<Rightarrow> bool" where
  "opened S ev \<longleftrightarrow> slots (ev_world ev) = S
     \<and> cs_concurrent_admission_key (ev_state ev) = None"

definition entered :: "(string \<Rightarrow> nat) \<Rightarrow> 'w env \<Rightarrow> bool" where
  "entered S ev \<longleftrightarrow> slots (ev_world ev) = (case cs_concurrent_admission_key (ev_state ev) of
     None \<Rightarrow> S | Some k \<Rightarrow> S(k := S k + taken (ev_state ev)))"

lemma view_invariant:
  "keeps view m \<Longrightarrow> preserves (opened S) m" "keeps view m \<Longrightarrow> preserves (entered S) m"
  by (auto simp: preserves_def keeps_def slot_view_def opened_def entered_def taken_def split: option.split)

lemma opened_entered: "opened S ev \<Longrightarrow> entered S ev"
  by (simp add: opened_def entered_def)

lemma refresh_opened: "preserves (opened S) (refresh_tenant_runtime_profile rn)"
  unfolding preserves_def
proof (intro allI impI)
  fix e assume "opened S e"
  moreover obtain w q where "rn_tenant_source rn \<lparr>tx_tenant_id = state_tenant_id (ev_state e),
      tx_environment = pf_environment (rn_profile rn),
      tx_api_surface = cs_api_surface (ev_state e)\<rparr> (ev_world e) = (w, q)" by force
  ultimately show "opened S (fst (refresh_tenant_runtime_profile rn e))"
    using keepsD [OF calm(1)]
    by (auto simp: opened_def refresh_tenant_runtime_profile_def act_bind_def on_world_def
        split: sum.splits option.splits)
qed

lemma classification_opened: "preserves (opened S) (before_surface_classification lib rn)"
  unfolding before_surface_classification_def Let_def
  by (auto intro!: preserves_intros refresh_opened simp: update_state_def opened_def
      classify_state_def bind_route_def Let_def split: option.splits)

lemma authentication_entered:
  assumes "opened S ev"
  shows "entered S (fst (before_authentication lib rn ev))"
proof -
  let ?check = "deny_with_event lib rn AuthenticationFailed
    (act_check (\<lambda>ev. require_authenticated_context (ev_state ev)))"
  obtain e1 r1 where e1: "?check ev = (e1, r1)" by force
  obtain e2 r2 where e2: "refresh_tenant_runtime_profile rn e1 = (e2, r2)" by force
  obtain e3 r3 where e3: "try_acquire_tenant_concurrency rn e2 = (e3, r3)" by force
  have "preserves (opened S) ?check" by (intro view_invariant(1) calm_deny keeps_basic)
  from preservesD [OF this assms e1] have 1: "opened S e1" .
  from preservesD [OF refresh_opened 1 e2] have 2: "opened S e2" .
  with acquire_effect [OF e3] have 3: "entered S e3"
    unfolding opened_def entered_def by (auto split: option.splits)
  from opened_entered [OF 1] opened_entered [OF 2] 3 show ?thesis
    by (auto simp: before_authentication_def act_bind_def e1 e2 e3 split: sum.splits)
qed

lemma chain_invariant:
  assumes "\<And>ic. ic \<in> set ics \<Longrightarrow> preserves I (ic_before ic)"
    and "\<And>ev e. I (ev\<lparr>ev_state := (ev_state ev)\<lparr>cs_before_failure := e\<rparr>\<rparr>) = I ev"
  shows "I ev \<Longrightarrow> I (fst (chain_before ics ev))"
  using assms(1)
proof (induction ics arbitrary: ev)
  case (Cons ic ics)
  obtain ev' r where e: "ic_before ic ev = (ev', r)" by force
  have "preserves I (ic_before ic)" using Cons.prems(2) by simp
  from preservesD [OF this Cons.prems(1) e] have "I ev'" .
  with Cons.IH [of ev'] Cons.prems(2) show ?case
    by (cases r) (auto simp: e assms(2) Let_def)
qed simp

lemma failure_irrelevant:
  "opened S (ev\<lparr>ev_state := (ev_state ev)\<lparr>cs_before_failure := e\<rparr>\<rparr>) = opened S ev"
  "entered S (ev\<lparr>ev_state := (ev_state ev)\<lparr>cs_before_failure := e\<rparr>\<rparr>) = entered S ev"
  by (auto simp: opened_def entered_def taken_def split: option.split)

lemma chain_entered:
  assumes "opened S ev"
  shows "entered S (fst (chain_before (standard_chain lib rn) ev))"
proof -
  let ?ics = "map (standard_interceptor lib rn)"
  let ?first = "?ics (guard_stages @ [StRequestContextResolution])"
  let ?rest = "?ics (StAuthorization # StTenantIsolation # StContextInjection # closing_stages)"
  have split: "standard_chain lib rn = ?first @ standard_interceptor lib rn StAuthentication # ?rest"
    by (simp add: standard_chain_def standard_stage_order_split)
  have first: "opened S (fst (chain_before ?first ev))"
  proof (rule chain_invariant [OF _ failure_irrelevant(1) assms])
    fix ic assume "ic \<in> set ?first"
    then obtain st where st: "ic = standard_interceptor lib rn st" "st \<noteq> StAuthentication"
      by (auto simp: guard_stages_def)
    then show "preserves (opened S) (ic_before ic)"
      by (cases "st = StSurfaceClassification")
        (simp_all add: standard_interceptor_def classification_opened view_invariant(1) calm_stage)
  qed
  have rest: "entered S (fst (chain_before ?rest e))" if "entered S e" for e
  proof (rule chain_invariant [OF _ failure_irrelevant(2) that])
    fix ic assume "ic \<in> set ?rest"
    then obtain st where "ic = standard_interceptor lib rn st" "st \<noteq> StAuthentication"
      "st \<noteq> StSurfaceClassification" by (auto simp: closing_stages_def)
    then show "preserves (entered S) (ic_before ic)"
      by (simp add: standard_interceptor_def view_invariant(2) calm_stage)
  qed
  obtain e1 r1 where e1: "chain_before ?first ev = (e1, r1)" by force
  obtain e2 r2 where e2: "before_authentication lib rn e1 = (e2, r2)" by force
  have 1: "opened S e1" using first e1 by simp
  have 2: "entered S e2" using authentication_entered [OF 1, of lib] e2 by simp
  show ?thesis
  proof (cases r1)
    case (Inl e)
    then show ?thesis using opened_entered [OF 1] by (simp only: split chain_before_append e1) simp
  next
    case (Inr u)
    then show ?thesis
      using rest [OF 2] 2
      unfolding split chain_before_append e1
      by (cases r2) (simp_all add: e2 standard_interceptor_def failure_irrelevant Let_def)
  qed
qed

text \<open>From the handler to the response.\<close>

lemma calmD: "keeps slots m \<Longrightarrow> slots (fst (m w)) = slots w"
  by (simp add: keeps_def)

lemma after_slots:
  assumes "chain_after (standard_chain lib rn) s rp = Some (rp', r)"
  shows "slots (rp_world rp') = slots (rp_world rp)"
proof -
  have i: "slots (rp_world b) = slots (rp_world a)"
    if "after_idempotency lib rn s a = Some (b, q)" for a b q
    using that calmD [OF calm_stores(3)] calmD [OF calm_stores(4)]
    by (auto simp: after_idempotency_def after_ok_def Let_def split: if_splits option.splits
        sum.splits bool.splits)
  have a: "slots (rp_world b) = slots (rp_world a)" if "after_audit lib rn s a = Some (b, q)" for a b q
    using that calmD [OF calm_emitters(1)] by (auto simp: after_audit_def split: prod.splits) (metis fst_conv)
  from assms obtain rp1 q1 where 1: "after_response_identity lib s rp = Some (rp1, q1)"
    by (auto simp: chain_after_standard bind_eq_Some_conv)
  let ?h = "fst (the (after_header_security lib rn rp1))"
  from assms 1 obtain rp3 q3 where 3: "after_audit lib rn s ?h = Some (rp3, q3)"
    by (auto simp: chain_after_standard bind_eq_Some_conv)
  have s3: "slots (rp_world rp3) = slots (rp_world rp)"
    using a [OF 3] after_worlds(1) [OF 1] by (simp add: after_worlds(2))
  show ?thesis
  proof (cases q3)
    case (Inl e)
    with assms 1 3 s3 show ?thesis by (simp add: chain_after_standard)
  next
    case (Inr u)
    with assms 1 3 obtain rp4 q4 where 4: "after_idempotency lib rn s rp3 = Some (rp4, q4)"
      by (auto simp: chain_after_standard bind_eq_Some_conv)
    with i have s4: "slots (rp_world rp4) = slots (rp_world rp)" using s3 by simp
    from assms 1 3 4 Inr s4 show ?thesis
      by (cases q4) (auto simp: chain_after_standard dest: after_worlds(3))
  qed
qed

lemma finalize_slots:
  assumes "finalize_response lib rn (standard_chain lib rn) s rs w = out"
  shows "out = Aborted \<or> (\<exists>w' rs'. out = Answered w' rs' \<and>
    slots w' = (case cs_concurrent_admission_key s of
      None \<Rightarrow> slots w | Some k \<Rightarrow> (slots w)(k := slots w k - 1)))"
  using assms released
  by (auto simp: finalize_response_def release_concurrent_admission_def dest!: after_slots
      split: option.splits)

lemma release_leader_slots: "slots (release_idempotency_leader rn s w) = slots w"
  by (auto simp: release_idempotency_leader_def calmD [OF calm_stores(4)] split: bool.split option.split)

lemma random_slots: "slots (fst (random_request_id rn w)) = slots w"
  using calmD [OF calm_emitters(3), of w]
  by (auto simp: random_request_id_def split: prod.split sum.split)

lemma handler_slots:
  assumes "quiet_handler slots h"
  shows "slots (fst (run_handler_with_timeout lib rn h ib)) = slots (ib_world ib)"
proof (cases "rn_request_timeout rn")
  case None
  with assms show ?thesis by (simp add: run_handler_with_timeout_def quiet_handler_def)
next
  case (Some t)
  obtain w c where c: "correlation_from_request rn ib = (w, c)" by force
  have "slots w = slots (ib_world ib)"
    using c random_slots [of "ib_world ib"]
    by (auto simp: correlation_from_request_def split: option.splits prod.splits)
  moreover obtain v e where v: "hd_run_until h t (ib\<lparr>ib_world := w\<rparr>) = (v, e)" by force
  moreover have "slots v = slots w" using assms v unfolding quiet_handler_def
    by (metis fst_conv inbound.select_convs(4) inbound.surjective inbound.update_convs(4))
  ultimately show ?thesis by (simp add: run_handler_with_timeout_def Some c split: option.split)
qed

lemma replay_slots: "slots (fst (replay_response lib rn s record w)) = slots w"
  using random_slots [of w] by (auto simp: replay_response_def split: option.split prod.split)

lemma finalized_account:
  assumes "entered S ev" and "slots v = slots (ev_world ev)"
  shows "account slots (ev, Inr ()) S (finalize_response lib rn (standard_chain lib rn) (ev_state ev) rs v)"
  using finalize_slots [OF refl, of lib "ev_state ev" rs v] assms
  by (auto simp: account_def entered_def Let_def split: option.splits)

lemma handle_slots:
  assumes "quiet_handler slots h" and "entered S ev"
    and "handle_request lib rn (standard_chain lib rn) h ev = out"
  shows "account slots (ev, Inr ()) S out"
proof -
  obtain w e where r: "run_handler_with_timeout lib rn h (inbound_of ev) = (w, e)" by force
  have w: "slots w = slots (ev_world ev)"
    using handler_slots [OF assms(1), of lib "inbound_of ev"] r by (simp add: inbound_of_def)
  have f: "account slots (ev, Inr ()) S (finalize_response lib rn (standard_chain lib rn) (ev_state ev) rs v)"
    if "slots v = slots (ev_world ev)" for rs v
    using assms(2) that by (rule finalized_account)
  have d: "account slots (ev, Inr ()) S (Dropped v)" if "slots v = slots (ev_world ev)" for v
    using assms(2) that by (auto simp: account_def entered_def Let_def split: option.splits)
  show ?thesis
    using assms(3) r w release_leader_slots [of "ev_state ev" w]
    by (cases e) (auto simp: handle_request_def Let_def intro!: f d)
qed

lemma request_account:
  assumes "unclassified ib" and "quiet_handler slots h"
  shows "account slots (chain_before (standard_chain lib rn) (start_env lib ib)) (slots (ib_world ib))
    (web_request_context_middleware lib rn (standard_chain lib rn) h ib)"
proof -
  let ?S = "slots (ib_world ib)"
  obtain ev r where b: "chain_before (standard_chain lib rn) (start_env lib ib) = (ev, r)" by force
  have "opened ?S (start_env lib ib)"
    by (simp add: opened_def start_env_def call_state_from_request_def Let_def)
  from chain_entered [OF this, of lib] b have e: "entered ?S ev" by simp
  note f = finalize_slots [OF refl, of lib "ev_state ev"]
  show ?thesis
  proof (cases r)
    case (Inl x)
    let ?w = "release_idempotency_leader rn (ev_state ev) (release_concurrent_admission rn (ev_state ev) (ev_world ev))"
    have "slots ?w = (case cs_concurrent_admission_key (ev_state ev) of
        None \<Rightarrow> ?S | Some k \<Rightarrow> ?S(k := ?S k + taken (ev_state ev) - 1))"
      using e released by (auto simp: release_leader_slots release_concurrent_admission_def entered_def
          split: option.splits)
    with f [of "problem_response lib x (state_correlation (ev_state ev))" ?w] Inl show ?thesis
      by (auto simp: middleware_unclassified [OF assms(1)] b account_def Let_def numeral_2_eq_2 split: option.splits)
  next
    case (Inr u)
    note fin = finalized_account [OF e] and han = handle_slots [OF assms(2) e refl, of lib]
    from fin han replay_slots [of lib "ev_state ev" _ "ev_world ev"] Inr show ?thesis
      by (auto simp: middleware_unclassified [OF assms(1)] b Let_def split: option.split prod.split)
        (metis fst_conv)
  qed
qed

end

lemma classified_untouched:
  assumes "\<not> unclassified ib" and "quiet_handler slots h"
  shows "untouched slots (slots (ib_world ib)) (web_request_context_middleware lib rn ics h ib)"
proof -
  obtain w e where r: "hd_run h ib = (w, e)" by force
  then have "slots w = slots (ib_world ib)" using assms(2) unfolding quiet_handler_def by (metis fst_conv)
  with r assms(1) show ?thesis
    by (cases e) (auto simp: web_request_context_middleware_def unclassified_def untouched_def
        split: option.splits)
qed

subsection \<open>The runtimes over in-memory stores\<close>

text \<open>A resolver that decides by pure functions, and the runtime over the in-memory stores with
  such a resolver, any policies, security policy, features and source of tenant profiles.\<close>

record pure_resolver =
  pu_api_key :: "string \<Rightarrow> web_error + principal"
  pu_dual_token :: "string \<Rightarrow> string \<Rightarrow> web_error + principal"
  pu_access_token :: "string \<Rightarrow> web_error + principal"
  pu_oauth_bearer :: "string \<Rightarrow> web_error + principal"
  pu_bearer_auth_token :: "string \<Rightarrow> web_error + principal"
  pu_compatibility :: "string \<Rightarrow> compat_credential list \<Rightarrow> web_error + principal"

definition resolver_of :: "pure_resolver \<Rightarrow> 'w resolver" where
  "resolver_of p = \<lparr>rv_api_key = \<lambda>t. act_lift (pu_api_key p t),
     rv_dual_token = \<lambda>t u. act_lift (pu_dual_token p t u),
     rv_access_token = \<lambda>t. act_lift (pu_access_token p t),
     rv_oauth_bearer = \<lambda>t. act_lift (pu_oauth_bearer p t),
     rv_bearer_auth_token = \<lambda>t. act_lift (pu_bearer_auth_token p t),
     rv_compatibility = \<lambda>t cs. act_lift (pu_compatibility p t cs)\<rparr>"

record deployment =
  dp_resolver :: pure_resolver
  dp_security :: security_policy
  dp_manifest :: "manifest option"
  dp_authorize :: "request_context \<Rightarrow> string option \<Rightarrow> web_error + unit"
  dp_isolation :: "request_context \<Rightarrow> string option \<Rightarrow> web_error + unit"
  dp_features :: optional_features
  dp_tenant_source :: "tenant_runtime_context \<Rightarrow> tenant_runtime_profile option"

definition deployed :: "deployment \<Rightarrow> mem_world runtime" where
  "deployed d = (runtime_development (resolver_of (dp_resolver d)))
     \<lparr>rn_security_policy := dp_security d, rn_manifest := dp_manifest d,
      rn_authorize := dp_authorize d, rn_enforce_isolation := dp_isolation d,
      rn_features := dp_features d,
      rn_tenant_source := \<lambda>c. act_return (dp_tenant_source d c)\<rparr>"

abbreviation mem_slots :: "mem_world \<Rightarrow> string \<Rightarrow> nat" where
  "mem_slots w \<equiv> mem_held (mw_admission w)"

interpretation deployed: slot_accounting "deployed d" mem_slots for d
proof (unfold_locales, goal_cases)
  case (1 limit k w w')
  then show ?case
    using mem_admission.acquire_ok [of limit k "mw_admission w"]
    by (auto simp: deployed_def runtime_development_def memory_admission_acquire_def split: prod.splits)
next
  case (2 k limit w w' e)
  then show ?case
    using mem_admission.acquire_err [of k limit "mw_admission w"]
    by (auto simp: deployed_def runtime_development_def memory_admission_acquire_def split: prod.splits)
next
  case (3 k w)
  then show ?case
    by (simp add: deployed_def runtime_development_def memory_admission_release_def
        mem_admission.release_held)
next
  case (4 k w w')
  then show ?case
    by (auto simp: deployed_def runtime_development_def memory_admission_acquire_def mem_try_acquire_def)
qed (simp_all add: keeps_def deployed_def runtime_development_def resolver_of_def memory_rate_check_def
  memory_idem_begin_def memory_idem_complete_def memory_idem_release_def memory_random_def
  split: prod.split list.split)

subsection \<open>A request that gives back a slot it does not hold\<close>

text \<open>A call to a gateway route with both tokens, in a deployment that denies it after its slot
  was taken.\<close>

definition call_headers :: headers where
  "call_headers = hdr_insert ''Authorization'' (TextValue ''Bearer auth'')
     (hdr_insert ''Access-Token'' (TextValue ''access'') Map.empty)"

definition two_at_once :: tenant_runtime_profile where
  "two_at_once = \<lparr>tr_rate_limit_enabled = None, tr_max_content_length = None,
     tr_max_concurrent_requests = Some 2\<rparr>"

definition denied_deployment :: deployment where
  "denied_deployment =
     \<lparr>dp_resolver = \<lparr>pu_api_key = \<lambda>_. Inr example_principal, pu_dual_token = \<lambda>_ _. Inr example_principal,
        pu_access_token = \<lambda>_. Inr example_principal, pu_oauth_bearer = \<lambda>_. Inr example_principal,
        pu_bearer_auth_token = \<lambda>_. Inr example_principal, pu_compatibility = \<lambda>_ _. Inr example_principal\<rparr>,
      dp_security = security_default
        \<lparr>sp_sql_injection_guard := sql_injection_guard_default\<lparr>sq_enabled := False\<rparr>\<rparr>,
       dp_manifest = None, dp_authorize = deny_all_authorize,
      dp_isolation = pass_through_isolation,
      dp_features = features_default\<lparr>of_dynamic_tenant_runtime_profile := True\<rparr>,
      dp_tenant_source = \<lambda>_. Some two_at_once\<rparr>"

definition object_libs :: libs where
  "object_libs = plain_libs\<lparr>lib_json_parse := \<lambda>_. Inr (JObject [])\<rparr>"

definition tenant_slot :: string where
  "tenant_slot = ''tenant:'' @ hash_key_material (principal_tenant_id example_principal) @ '':concurrent''"

text \<open>Another request of the same tenant holds one slot when the call arrives.\<close>

definition denied_inbound :: "mem_world inbound" where
  "denied_inbound = \<lparr>ib_request = \<lparr>rq_method = ''GET'', rq_path = ''/v1/chat'', rq_query = None,
       rq_headers = call_headers, rq_body = []\<rparr>, ib_ext_request_id = None,
     ib_ext_context = None, ib_world = mem_world_init\<lparr>mw_admission := [tenant_slot \<mapsto> 1]\<rparr>\<rparr>"

text \<open>The call as the stages up to the resolution see it.\<close>

definition calling :: "mem_world env \<Rightarrow> bool" where
  "calling ev \<longleftrightarrow> rq_method (ev_request ev) = ''GET'' \<and> rq_path (ev_request ev) = ''/v1/chat''
     \<and> rq_query (ev_request ev) = None
     \<and> (\<exists>v. rq_headers (ev_request ev) = hdr_insert ''X-Request-Id'' v call_headers)
     \<and> cs_method (ev_state ev) = ''GET'' \<and> cs_path (ev_state ev) = ''/v1/chat''
     \<and> cs_api_surface (ev_state ev) = GatewayApi \<and> \<not> cs_public_path (ev_state ev)
     \<and> \<not> cs_cors_preflight (ev_state ev) \<and> cs_request_id (ev_state ev) \<noteq> None
     \<and> cs_credentials (ev_state ev) = credentials_from_headers call_headers
     \<and> cs_route_auth (ev_state ev) = None \<and> cs_resolved_cors (ev_state ev) = None
     \<and> cs_tenant_runtime_profile (ev_state ev) = Some two_at_once
     \<and> cs_concurrent_admission_key (ev_state ev) = None
     \<and> mw_admission (ev_world ev) = [tenant_slot \<mapsto> 1]"

abbreviation denied_runtime :: "mem_world runtime" where
  "denied_runtime \<equiv> deployed denied_deployment"

lemma denied_facts:
  "rn_profile denied_runtime = profile_default" "rn_manifest denied_runtime = None"
  "rn_security_policy denied_runtime = security_default
     \<lparr>sp_sql_injection_guard := sql_injection_guard_default\<lparr>sq_enabled := False\<rparr>\<rparr>"
  "\<not> of_dynamic_cors_policy (rn_features denied_runtime)"
  "\<not> of_json_content_type_guard (rn_features denied_runtime)"
  "of_dynamic_tenant_runtime_profile (rn_features denied_runtime)"
  "rn_random denied_runtime = memory_random"
  "rn_tenant_source denied_runtime c = act_return (Some two_at_once)"
  "rv_dual_token (rn_resolver denied_runtime) t u = act_return example_principal"
  "rn_admission_acquire denied_runtime = memory_admission_acquire"
  "rn_authorize denied_runtime = deny_all_authorize"
  "rn_emit_security denied_runtime = (\<lambda>_. act_return ())"
  by (simp_all add: deployed_def denied_deployment_def runtime_development_def features_default_def
      resolver_of_def two_at_once_def fun_eq_iff)

lemma call_header_facts:
  "hdr_get (hdr_insert ''X-Request-Id'' v call_headers) ''origin'' = None"
  "hdr_get (hdr_insert ''X-Request-Id'' v call_headers) ''content-length'' = None"
  "cr_auth_token (credentials_from_headers call_headers) = Some ''auth''"
  "cr_access_token (credentials_from_headers call_headers) = Some ''access''"
  "classify_api_surface ''/v1/chat'' profile_default = GatewayApi"
  "\<not> is_public_path ''/v1/chat'' profile_default"
proof -
  have "to_lower ''X-Request-Id'' \<noteq> to_lower ''origin''"
    "to_lower ''X-Request-Id'' \<noteq> to_lower ''content-length''"
    "hdr_get call_headers ''origin'' = None" "hdr_get call_headers ''content-length'' = None"
    by code_simp+
  then show "hdr_get (hdr_insert ''X-Request-Id'' v call_headers) ''origin'' = None"
    "hdr_get (hdr_insert ''X-Request-Id'' v call_headers) ''content-length'' = None"
    by (simp_all only: hdr_insert_get if_False)
qed code_simp+


lemma calling_stages:
  assumes c: "calling ev"
  shows "before_cors object_libs denied_runtime ev = (ev, Inr ())"
    "before_method_guard denied_runtime ev = (ev, Inr ())"
    "before_cross_site object_libs denied_runtime ev = (ev, Inr ())"
    "before_sql_injection object_libs denied_runtime ev = (ev, Inr ())"
    "before_request_size object_libs denied_runtime ev = (ev, Inr ())"
    "before_rate_limit object_libs denied_runtime ev = (ev, Inr ())"
    "before_idempotency object_libs denied_runtime ev = (ev, Inr ())"
proof -
  have q: "rq_method (ev_request ev) = ''GET''" "rq_query (ev_request ev) = None"
    "cs_method (ev_state ev) = ''GET''" "cs_api_surface (ev_state ev) = GatewayApi"
    "\<not> cs_public_path (ev_state ev)" "\<not> cs_cors_preflight (ev_state ev)"
    "cs_tenant_runtime_profile (ev_state ev) = Some two_at_once"
    using c by (simp_all add: calling_def)
  have h: "hdr_get (rq_headers (ev_request ev)) ''origin'' = None"
    "hdr_get (rq_headers (ev_request ev)) ''content-length'' = None"
    using c call_header_facts(1,2) by (auto simp: calling_def)
  show "before_cors object_libs denied_runtime ev = (ev, Inr ())"
    using q h by (simp add: before_cors_def denied_facts act_bind_def deny_with_event_def
        act_on_error_def validate_origin_def hdr_trimmed_def hdr_text_def)
  show "before_method_guard denied_runtime ev = (ev, Inr ())"
    using q by (simp add: before_method_guard_def validate_method_def denied_facts security_default_def
        method_guard_default_def default_methods_def)
  show "before_cross_site object_libs denied_runtime ev = (ev, Inr ())"
    using q by (simp add: before_cross_site_def deny_with_event_def act_on_error_def
        validate_cross_site_request_with_cors_def is_state_changing_method_def)
  show "before_sql_injection object_libs denied_runtime ev = (ev, Inr ())"
    by (simp add: before_sql_injection_def validate_sql_injection_def denied_facts)
  show "before_request_size object_libs denied_runtime ev = (ev, Inr ())"
    using q h by (auto simp: before_request_size_def validate_content_length_with_limit_def
        hdr_u64_def hdr_text_def denied_facts inspect_body_def
        inspect_json_body_context_selectors_def request_has_json_payload_def
        act_bind_def split: option.splits)
  show "before_rate_limit object_libs denied_runtime ev = (ev, Inr ())"
    using q by (simp add: before_rate_limit_def rate_limit_globally_enabled_def denied_facts
        security_default_def rate_limit_default_def Let_def)
  show "before_idempotency object_libs denied_runtime ev = (ev, Inr ())"
    using q by (simp add: before_idempotency_def is_idempotent_command_def Let_def)
qed

lemma calling_entry:
  "\<exists>ev a. before_request_identity denied_runtime (start_env object_libs denied_inbound) = (ev, Inr ())
    \<and> before_surface_classification object_libs denied_runtime ev = (a, Inr ()) \<and> calling a"
proof -
  let ?s = "start_env object_libs denied_inbound"
  obtain w bytes where w: "memory_random (ev_world ?s) = (w, Inr bytes)"
    "mw_admission w = mw_admission (ib_world denied_inbound)"
    by (cases "mw_random (ib_world denied_inbound)")
      (auto simp: memory_random_def start_env_def denied_inbound_def Let_def mem_world_init_def)
  have env: "ev_request ?s = ib_request denied_inbound"
    "ev_state ?s = call_state_from_request (\<lambda>p. p) (ib_request denied_inbound)"
    by (simp_all add: start_env_def normalize_inbound_request_uri_def object_libs_def plain_libs_def
        denied_inbound_def Let_def)
  have i: "ib_request denied_inbound = \<lparr>rq_method = ''GET'', rq_path = ''/v1/chat'', rq_query = None,
      rq_headers = call_headers, rq_body = []\<rparr>"
    "mw_admission (ib_world denied_inbound) = [tenant_slot \<mapsto> 1]"
    by (simp_all add: denied_inbound_def)
  have n: "header_string call_headers ''X-Sdkwork-Operation-Id'' = None" by code_simp
  obtain ev v where ev: "before_request_identity denied_runtime ?s = (ev, Inr ())"
    "rq_headers (ev_request ev) = hdr_insert ''X-Request-Id'' v call_headers"
    "rq_method (ev_request ev) = ''GET''" "rq_path (ev_request ev) = ''/v1/chat''"
    "rq_query (ev_request ev) = None"
    "cs_method (ev_state ev) = ''GET''" "cs_path (ev_state ev) = ''/v1/chat''"
    "\<not> cs_cors_preflight (ev_state ev)" "cs_request_id (ev_state ev) \<noteq> None"
    "cs_credentials (ev_state ev) = credentials_from_headers call_headers"
    "cs_route_auth (ev_state ev) = None" "cs_resolved_cors (ev_state ev) = None"
    "cs_concurrent_admission_key (ev_state ev) = None"
    "mw_admission (ev_world ev) = [tenant_slot \<mapsto> 1]"
    by (auto simp: before_request_identity_def act_bind_def on_world_def env w denied_facts Let_def
        call_state_from_request_def i)
  then have "\<exists>a. before_surface_classification object_libs denied_runtime ev = (a, Inr ()) \<and> calling a"
    by (auto simp: before_surface_classification_def act_bind_def classify_state_def Let_def
        matched_route_def resolve_public_path_def denied_facts call_header_facts
        refresh_tenant_runtime_profile_def on_world_def calling_def)
  with ev(1) show ?thesis by blast
qed

lemma calling_denied:
  assumes c: "calling a"
  shows "\<exists>b ev e. before_resolution object_libs denied_runtime a = (b, Inr ())
    \<and> act_seq [before_authentication object_libs denied_runtime] b = (ev, Inr ())
    \<and> before_authorization object_libs denied_runtime ev = (ev, Inl e)
    \<and> cs_concurrent_admission_key (ev_state ev) = Some tenant_slot
    \<and> mem_slots (ev_world ev) tenant_slot = 2"
proof -
  let ?p = example_principal
  let ?b = "a\<lparr>ev_state := (ev_state a)\<lparr>cs_auth_mode := ModeDualToken, cs_principal := Some ?p\<rparr>\<rparr>"
  let ?ev = "a\<lparr>ev_world := (ev_world a)\<lparr>mw_admission := [tenant_slot \<mapsto> 2]\<rparr>,
    ev_state := (ev_state a)\<lparr>cs_auth_mode := ModeDualToken, cs_principal := Some ?p,
      cs_tenant_runtime_profile := Some two_at_once, cs_concurrent_admission_key := Some tenant_slot\<rparr>\<rparr>"
  have q: "cs_api_surface (ev_state a) = GatewayApi" "\<not> cs_public_path (ev_state a)"
    "\<not> cs_cors_preflight (ev_state a)" "cs_route_auth (ev_state a) = None"
    "cs_credentials (ev_state a) = credentials_from_headers call_headers"
    "mw_admission (ev_world a) = [tenant_slot \<mapsto> 1]"
    using c by (simp_all add: calling_def)
  obtain rid where rid: "cs_request_id (ev_state a) = Some rid" using c by (auto simp: calling_def)
  have r: "before_resolution object_libs denied_runtime a = (?b, Inr ())"
    using q by (simp add: before_resolution_def resolve_request_context_def resolve_token_surfaces_def
        resolve_dual_token_route_def denied_facts act_bind_def required_access_token_def
        call_header_facts ok_or_eq on_world_def Let_def)
  have n: "act_seq [before_authentication object_libs denied_runtime] ?b = (?ev, Inr ())"
    using q by (simp add: before_authentication_def deny_with_event_def act_on_error_def act_bind_def
        require_authenticated_context_def denied_facts refresh_tenant_runtime_profile_def on_world_def
        try_acquire_tenant_concurrency_def two_at_once_def concurrent_admission_scope_key_def
        memory_admission_acquire_def mem_try_acquire_def tenant_slot_def Let_def numeral_2_eq_2)
  obtain ctx where ctx: "to_context (ev_state ?ev) = Inr ctx" using rid by (simp add: to_context_def)
  have z: "\<exists>e. before_authorization object_libs denied_runtime ?ev = (?ev, Inl e)"
    using q ctx by (simp add: before_authorization_def is_protected_def act_bind_def deny_with_event_def
        act_on_error_def denied_facts deny_all_authorize_def emit_security_event_def on_world_def)
  from r n z show ?thesis
    by (intro exI [of _ ?b] exI [of _ ?ev]) (auto simp: mem_held_def)
qed

lemma denied_run:
  "\<exists>ev e. chain_before (standard_chain object_libs denied_runtime) (start_env object_libs denied_inbound)
      = (ev, Inl e)
    \<and> cs_concurrent_admission_key (ev_state ev) = Some tenant_slot"
proof -
  from calling_entry obtain a0 a where
    a: "before_request_identity denied_runtime (start_env object_libs denied_inbound) = (a0, Inr ())"
    "before_surface_classification object_libs denied_runtime a0 = (a, Inr ())" "calling a" by blast
  note G = calling_stages [OF a(3)]
  from calling_denied [OF a(3)] obtain b ev e where
    d: "before_resolution object_libs denied_runtime a = (b, Inr ())"
    "act_seq [before_authentication object_libs denied_runtime] b = (ev, Inr ())"
    "before_authorization object_libs denied_runtime ev = (ev, Inl e)"
    "cs_concurrent_admission_key (ev_state ev) = Some tenant_slot" by blast
  let ?ics = "map (standard_interceptor object_libs denied_runtime)"
  let ?first = "guard_stages @ [StRequestContextResolution, StAuthentication]"
  have "act_seq (map (standard_before object_libs denied_runtime) ?first)
      (start_env object_libs denied_inbound) = (ev, Inr ())"
    using a(1,2) G d(1,2) by (simp add: guard_stages_def act_bind_def)
  then have f: "chain_before (?ics ?first) (start_env object_libs denied_inbound) = (ev, Inr ())"
    by (simp add: chain_before_Inr standard_interceptor_def comp_def)
  have "standard_chain object_libs denied_runtime = ?ics ?first @
      ?ics (StAuthorization # StTenantIsolation # StContextInjection # closing_stages)"
    by (simp add: standard_chain_def standard_stage_order_split)
  then show ?thesis
    using d(3,4) by (simp only: chain_before_append f) (simp add: standard_interceptor_def Let_def)
qed

lemma set_when_missing_object: "\<exists>kvs'. set_when_missing k v (JObject kvs) = Some (JObject kvs')"
  by (auto simp: set_when_missing_def split: option.split)

lemma objects_do_not_panic:
  "\<exists>rs' r. normalize_problem_response object_libs c rs = Some (rs', r)"
proof -
  have v: "\<exists>kvs. enrich_problem_detail_value routing (JObject []) = Some (JObject kvs)" for routing
  proof -
    obtain k1 where 1: "set_when_missing ''instance'' (pg_instance routing) (JObject []) = Some (JObject k1)"
      using set_when_missing_object by blast
    obtain k2 where 2: "set_when_missing ''operationId'' (pg_operation_id routing) (JObject k1) = Some (JObject k2)"
      using set_when_missing_object by blast
    obtain k3 where 3: "set_when_missing ''i18nKey'' (i18n_key (JObject k2)) (JObject k2) = Some (JObject k3)"
      using set_when_missing_object by blast
    from 1 2 3 show ?thesis by (simp add: enrich_problem_detail_value_def)
  qed
  obtain kvs where "enrich_problem_detail_value (correlation_routing object_libs c) (JObject []) = Some (JObject kvs)"
    using v by blast
  moreover have "lib_json_parse object_libs = (\<lambda>_. Inr (JObject []))" by (simp add: object_libs_def)
  ultimately have "\<exists>rs' r. enrich_problem_response object_libs c rs = Some (rs', r)"
    by (cases "lib_to_bytes object_libs enrichment_max_bytes (rs_body rs)"; cases "resolved_trace_id c")
      (simp_all add: enrich_problem_response_def)
  then obtain rs' r where "enrich_problem_response object_libs c rs = Some (rs', r)" by blast
  then show ?thesis
    by (cases r) (simp_all add: normalize_problem_response_def Let_def)
qed

lemma denied_answered:
  "\<exists>w rs. finalize_response object_libs denied_runtime (standard_chain object_libs denied_runtime) s rs0 w0
     = Answered w rs"
proof -
  have "normalize_problem_response object_libs c rs \<noteq> None" for c rs
    using objects_do_not_panic [of c rs] by auto
  then have "after_response_identity object_libs s \<lparr>rp_response = rs0, rp_world = w0\<rparr> \<noteq> None"
    by (simp add: after_response_identity_def after_ok_def Let_def)
  then obtain rp1 q1 where 1: "after_response_identity object_libs s \<lparr>rp_response = rs0, rp_world = w0\<rparr> = Some (rp1, q1)"
    by auto
  have "chain_after (standard_chain object_libs denied_runtime) s \<lparr>rp_response = rs0, rp_world = w0\<rparr> \<noteq> None"
    by (auto simp: chain_after_standard 1 after_audit_def after_idempotency_def after_ok_def
        after_cors_def Let_def split: prod.splits sum.splits option.splits bool.splits if_splits)
  then show ?thesis by (auto simp: finalize_response_def split: sum.splits)
qed

text \<open>C11: What a request does to the concurrency slots of a deployment over the in-memory
  stores, whatever its pure credential resolver, its policies, its manifest, its features and
  its source of tenant profiles decide, for a handler that leaves the slots alone and an outcome
  that is no panic (of a request that panics nothing is said). A request that arrives with a
  classified context goes past the chain and leaves the slots as they are. So does any other that
  ends the chain without an admission key. One that was admitted under a key took one slot of that
  key, and none under the limit zero, which admits without counting. If it passes the chain and
  is answered, one slot of its key is released, so its count is again what it was, except under
  the limit zero, where it loses a slot of another request. If it is refused after it was
  admitted, two are released, by the middleware and again by the finalisation, so the count ends
  one lower than before, under the limit zero two, as far as it goes. If its client is gone while
  its handler runs, nothing is released and a slot it took is never given back. No other count
  changes.\<close>

theorem request_slots_account:
  assumes "quiet_handler mem_slots h"
  shows "if unclassified ib
    then account mem_slots
      (chain_before (standard_chain lib (deployed d)) (start_env lib ib)) (mem_slots (ib_world ib))
      (web_request_context_middleware lib (deployed d) (standard_chain lib (deployed d)) h ib)
    else untouched mem_slots (mem_slots (ib_world ib))
      (web_request_context_middleware lib (deployed d) (standard_chain lib (deployed d)) h ib)"
  using deployed.request_account [OF _ assms] classified_untouched [OF _ assms] by simp

theorem request_slots_account_witness:
  "\<exists>w rs. web_request_context_middleware object_libs denied_runtime (standard_chain object_libs denied_runtime)
       (constant_handler HandlerPanicked) denied_inbound = Answered w rs
     \<and> mem_slots (ib_world denied_inbound) tenant_slot = 1 \<and> mem_slots w tenant_slot = 0"
proof -
  have u: "unclassified denied_inbound" by (simp add: unclassified_def denied_inbound_def)
  have q: "quiet_handler mem_slots (constant_handler HandlerPanicked)"
    by (simp add: quiet_handler_def constant_handler_def)
  from denied_run obtain ev e where b:
    "chain_before (standard_chain object_libs denied_runtime) (start_env object_libs denied_inbound) = (ev, Inl e)"
    "cs_concurrent_admission_key (ev_state ev) = Some tenant_slot" by blast
  have "\<exists>w rs. web_request_context_middleware object_libs denied_runtime
      (standard_chain object_libs denied_runtime) (constant_handler HandlerPanicked) denied_inbound = Answered w rs"
    by (simp add: middleware_unclassified [OF u] b Let_def denied_answered)
  then obtain w rs where m: "web_request_context_middleware object_libs denied_runtime
      (standard_chain object_libs denied_runtime) (constant_handler HandlerPanicked) denied_inbound = Answered w rs"
    by blast
  have one: "mem_slots (ib_world denied_inbound) tenant_slot = 1"
    by (simp add: denied_inbound_def mem_held_def)
  from request_slots_account [OF q, of denied_inbound object_libs denied_deployment] u b one
  have "mem_slots w tenant_slot = 0" using taken_le [of "ev_state ev"] by (simp add: m account_def)
  with m one show ?thesis by blast
qed

end
