(* ===== verification/Policy_Cache.thy ===== *)
theory Policy_Cache
  imports Runtime
begin

section \<open>Caches of the dynamic policies\<close>

text \<open>
  Models \<open>policy_cache.rs\<close>: the TTL cache, the caching sources of CORS policies, rate limits and
  tenant profiles with their cache keys, and the invalidation of a tenant's entries. What a
  cache promises is the locale \<open>keyed_source\<close>: a source whose answer is determined by the
  cache key. A step relation interleaves lookups, the reads of the source they start, the
  insertions that end them, changes of the source and invalidations; over it the cache
  answers what the source would answer, as long as no read is under way when the source
  changes.
\<close>

subsection \<open>The TTL cache\<close>

record 'v cache_entry =
  ce_value :: 'v
  ce_expires_at :: nat

record 'v ttl_cache =
  tc_ttl :: nat
  tc_entries :: "string \<Rightarrow> 'v cache_entry option"

definition ttl_cache_new :: "nat \<Rightarrow> 'v ttl_cache" where
  "ttl_cache_new ttl = \<lparr>tc_ttl = ttl, tc_entries = Map.empty\<rparr>"

definition get_valid :: "nat \<Rightarrow> string \<Rightarrow> 'v ttl_cache \<Rightarrow> 'v ttl_cache \<times> 'v option" where
  "get_valid now key c =
     (let is_valid = (case tc_entries c key of None \<Rightarrow> False | Some e \<Rightarrow> now < ce_expires_at e)
      in if is_valid then (c, map_option ce_value (tc_entries c key))
         else (c\<lparr>tc_entries := (tc_entries c)(key := None)\<rparr>, None))"

definition cache_insert :: "nat \<Rightarrow> string \<Rightarrow> 'v \<Rightarrow> 'v ttl_cache \<Rightarrow> 'v ttl_cache" where
  "cache_insert now key v c = c\<lparr>tc_entries := (tc_entries c)
     (key \<mapsto> \<lparr>ce_value = v, ce_expires_at = now + tc_ttl c\<rparr>)\<rparr>"

definition invalidate_prefix :: "string \<Rightarrow> 'v ttl_cache \<Rightarrow> 'v ttl_cache" where
  "invalidate_prefix p c =
     c\<lparr>tc_entries := (\<lambda>k. if starts_with k p then None else tc_entries c k)\<rparr>"

text \<open>The resolution of a caching source: the cached answer, or the answer of the inner source,
  kept when it is no error. \<open>now\<close> reads the clock, which the inner source may advance.\<close>

definition caching_resolve ::
  "('w \<Rightarrow> nat) \<Rightarrow> string \<Rightarrow> ('w, 'v) action \<Rightarrow> ('v ttl_cache \<times> 'w, 'v) action" where
  "caching_resolve now key inner cw =
     (case cw of (c, w) \<Rightarrow>
      case get_valid (now w) key c of
        (c, Some v) \<Rightarrow> ((c, w), Inr v)
      | (c, None) \<Rightarrow>
          (case inner w of
             (w, Inl e) \<Rightarrow> ((c, w), Inl e)
           | (w, Inr v) \<Rightarrow> ((cache_insert (now w) key v c, w), Inr v)))"

subsection \<open>Keys\<close>

definition tenant_scope :: "string option \<Rightarrow> string" where
  "tenant_scope t = unwrap_or (opt_filter (\<lambda>v. v \<noteq> []) t) ''0''"

fun environment_label :: "environment \<Rightarrow> string" where
  "environment_label Prod = ''prod''"
| "environment_label Test = ''test''"
| "environment_label Dev = ''dev''"

text \<open>The \<open>Debug\<close> form of a surface.\<close>

fun surface_debug :: "api_surface \<Rightarrow> string" where
  "surface_debug OpenApi = ''OpenApi''"
| "surface_debug AppApi = ''AppApi''"
| "surface_debug BackendApi = ''BackendApi''"
| "surface_debug InternalApi = ''InternalApi''"
| "surface_debug GatewayApi = ''GatewayApi''"
| "surface_debug Unknown = ''Unknown''"

fun rate_limit_tier_key :: "rate_limit_tier option \<Rightarrow> string" where
  "rate_limit_tier_key (Some AuthCritical) = ''auth_critical''"
| "rate_limit_tier_key (Some OpenApiDefault) = ''open_api_default''"
| "rate_limit_tier_key (Some Upload) = ''upload''"
| "rate_limit_tier_key (Some Search) = ''search''"
| "rate_limit_tier_key (Some Bulk) = ''bulk''"
| "rate_limit_tier_key (Some Worker) = ''worker''"
| "rate_limit_tier_key (Some Internal) = ''internal''"
| "rate_limit_tier_key None = ''default''"

definition bar :: "string list \<Rightarrow> string" where
  "bar parts = str_join ''|'' parts"

definition cors_cache_key :: "cors_policy_context \<Rightarrow> string" where
  "cors_cache_key ctx = bar [tenant_scope (cx_tenant_id ctx), environment_label (cx_environment ctx),
     surface_debug (cx_api_surface ctx)]"

definition rate_limit_cache_key :: "rate_limit_policy_context \<Rightarrow> string" where
  "rate_limit_cache_key ctx = bar [tenant_scope (rx_tenant_id ctx), environment_label (rx_environment ctx),
     rate_limit_tier_key (rx_rate_limit_tier ctx), surface_debug (rx_api_surface ctx)]"

definition tenant_cache_key :: "tenant_runtime_context \<Rightarrow> string" where
  "tenant_cache_key ctx = bar [tenant_scope (tx_tenant_id ctx), environment_label (tx_environment ctx),
     surface_debug (tx_api_surface ctx)]"

definition tenant_environment_prefix :: "string \<Rightarrow> string \<Rightarrow> string" where
  "tenant_environment_prefix tenant_id env = tenant_id @ ''|'' @ env @ ''|''"

text \<open>The caches one deployment shares, and the caching sources over them.\<close>

record policy_caches =
  pc_cors :: "cors_policy option ttl_cache"
  pc_rate_limit :: "resolved_rate_limit option ttl_cache"
  pc_tenant_profile :: "tenant_runtime_profile option ttl_cache"

definition policy_caches_new :: "nat \<Rightarrow> policy_caches" where
  "policy_caches_new ttl = \<lparr>pc_cors = ttl_cache_new ttl, pc_rate_limit = ttl_cache_new ttl,
     pc_tenant_profile = ttl_cache_new ttl\<rparr>"

definition invalidate_tenant_environment :: "string \<Rightarrow> string \<Rightarrow> policy_caches \<Rightarrow> policy_caches" where
  "invalidate_tenant_environment tenant_id env cs =
     (let p = tenant_environment_prefix tenant_id env in
      cs\<lparr>pc_cors := invalidate_prefix p (pc_cors cs),
         pc_rate_limit := invalidate_prefix p (pc_rate_limit cs),
         pc_tenant_profile := invalidate_prefix p (pc_tenant_profile cs)\<rparr>)"

definition caching_cors_source ::
  "('w \<Rightarrow> nat) \<Rightarrow> (cors_policy_context \<Rightarrow> ('w, cors_policy option) action) \<Rightarrow> cors_policy_context \<Rightarrow>
     (cors_policy option ttl_cache \<times> 'w, cors_policy option) action" where
  "caching_cors_source now inner ctx = caching_resolve now (cors_cache_key ctx) (inner ctx)"

definition caching_rate_limit_source ::
  "('w \<Rightarrow> nat) \<Rightarrow> (rate_limit_policy_context \<Rightarrow> ('w, resolved_rate_limit option) action) \<Rightarrow>
     rate_limit_policy_context \<Rightarrow>
     (resolved_rate_limit option ttl_cache \<times> 'w, resolved_rate_limit option) action" where
  "caching_rate_limit_source now inner ctx = caching_resolve now (rate_limit_cache_key ctx) (inner ctx)"

definition caching_tenant_source ::
  "('w \<Rightarrow> nat) \<Rightarrow> (tenant_runtime_context \<Rightarrow> ('w, tenant_runtime_profile option) action) \<Rightarrow>
     tenant_runtime_context \<Rightarrow>
     (tenant_runtime_profile option ttl_cache \<times> 'w, tenant_runtime_profile option) action" where
  "caching_tenant_source now inner ctx = caching_resolve now (tenant_cache_key ctx) (inner ctx)"

subsection \<open>Facts about the cache\<close>

lemma get_valid_hit:
  "get_valid now k c = (c', Some v) \<longleftrightarrow>
     c' = c \<and> (\<exists>e. tc_entries c k = Some e \<and> now < ce_expires_at e \<and> v = ce_value e)"
  by (auto simp: get_valid_def Let_def split: option.splits)

lemma get_valid_miss:
  "get_valid now k c = (c', None) \<Longrightarrow> c' = c\<lparr>tc_entries := (tc_entries c)(k := None)\<rparr>"
  by (auto simp: get_valid_def Let_def split: option.splits if_splits)

lemma get_valid_entries:
  "get_valid now k c = (c', r) \<Longrightarrow> tc_entries c' i = Some e \<Longrightarrow> tc_entries c i = Some e"
  by (auto simp: get_valid_def Let_def split: if_splits)

subsection \<open>Facts about the keys\<close>

lemma split_last_unique:
  assumes "a @ c # b = a' @ c # b'" and "c \<notin> set b" "c \<notin> set b'"
  shows "a = a'" "b = b'"
proof -
  have "takeWhile (\<lambda>x. x \<noteq> c) (rev b @ c # rev a) = rev b" if "c \<notin> set b" for a b
    using that by (subst takeWhile_append2) auto
  from this [OF assms(2), of a] this [OF assms(3), of a']
  have "rev b = rev b'" using arg_cong [OF assms(1), of rev] by simp
  then show "b = b'" by simp
  with assms(1) show "a = a'" by simp
qed

lemma bar_simps:
  "bar [a] = a" "bar (a # b # xs) = a @ CHR ''|'' # bar (b # xs)"
  by (simp_all add: bar_def)

lemma no_bar_environment: "CHR ''|'' \<notin> set (environment_label e)"
  by (cases e) simp_all

lemma no_bar_surface: "CHR ''|'' \<notin> set (surface_debug s)"
  by (cases s) simp_all

lemma no_bar_tier: "CHR ''|'' \<notin> set (rate_limit_tier_key t)"
  by (cases t rule: rate_limit_tier_key.cases) simp_all

lemma environment_label_inj: "environment_label e = environment_label f \<longleftrightarrow> e = f"
  by (cases e; cases f) simp_all

lemma surface_debug_inj: "surface_debug s = surface_debug u \<longleftrightarrow> s = u"
  by (cases s; cases u) simp_all

lemma tier_key_inj: "rate_limit_tier_key t = rate_limit_tier_key v \<longleftrightarrow> t = v"
  by (cases t rule: rate_limit_tier_key.cases; cases v rule: rate_limit_tier_key.cases) simp_all

text \<open>The keys tell apart what they are built from: only the first piece can hold a separator.\<close>

lemma tenant_environment_key_unique:
  assumes "bar [t, environment_label e, surface_debug s] = bar [u, environment_label f, surface_debug v]"
  shows "t = u \<and> e = f \<and> s = v"
proof -
  have "(t @ CHR ''|'' # environment_label e) @ CHR ''|'' # surface_debug s
      = (u @ CHR ''|'' # environment_label f) @ CHR ''|'' # surface_debug v"
    using assms by (simp add: bar_simps)
  from split_last_unique [OF this no_bar_surface no_bar_surface]
  have s: "s = v" and "t @ CHR ''|'' # environment_label e = u @ CHR ''|'' # environment_label f"
    by (simp_all add: surface_debug_inj)
  from split_last_unique [OF this(2) no_bar_environment no_bar_environment] s
  show ?thesis by (simp add: environment_label_inj)
qed

lemma rate_limit_key_unique:
  assumes "bar [t, environment_label e, rate_limit_tier_key r, surface_debug s]
    = bar [u, environment_label f, rate_limit_tier_key q, surface_debug v]"
  shows "t = u \<and> e = f \<and> r = q \<and> s = v"
proof -
  have "((t @ CHR ''|'' # environment_label e) @ CHR ''|'' # rate_limit_tier_key r) @ CHR ''|'' # surface_debug s
      = ((u @ CHR ''|'' # environment_label f) @ CHR ''|'' # rate_limit_tier_key q) @ CHR ''|'' # surface_debug v"
    using assms by (simp add: bar_simps)
  from split_last_unique [OF this no_bar_surface no_bar_surface]
  have s: "s = v" and
    1: "(t @ CHR ''|'' # environment_label e) @ CHR ''|'' # rate_limit_tier_key r
      = (u @ CHR ''|'' # environment_label f) @ CHR ''|'' # rate_limit_tier_key q"
    by (simp_all add: surface_debug_inj)
  from split_last_unique [OF 1 no_bar_tier no_bar_tier]
  have r: "r = q" and 2: "t @ CHR ''|'' # environment_label e = u @ CHR ''|'' # environment_label f"
    by (simp_all add: tier_key_inj)
  from split_last_unique [OF 2 no_bar_environment no_bar_environment] s r
  show ?thesis by (simp add: environment_label_inj)
qed

lemma key_prefixes:
  "starts_with (cors_cache_key c) (tenant_environment_prefix (tenant_scope (cx_tenant_id c))
     (environment_label (cx_environment c)))"
  "starts_with (rate_limit_cache_key r) (tenant_environment_prefix (tenant_scope (rx_tenant_id r))
     (environment_label (rx_environment r)))"
  "starts_with (tenant_cache_key t) (tenant_environment_prefix (tenant_scope (tx_tenant_id t))
     (environment_label (tx_environment t)))"
  by (auto simp: starts_with_def cors_cache_key_def rate_limit_cache_key_def tenant_cache_key_def
      tenant_environment_prefix_def bar_simps prefix_def)

subsection \<open>Lookups, reads, changes and invalidations interleaved\<close>

text \<open>A run of one cache over a data base: the clock, the cache, the data base and the reads
  under way, each with the answer it got.\<close>

record ('d, 'c, 'v) cache_run =
  cu_now :: nat
  cu_cache :: "'v ttl_cache"
  cu_db :: 'd
  cu_pending :: "('c \<times> 'v) list"

text \<open>A source whose answers depend on the key alone, for the contexts that are valid.\<close>

locale keyed_source =
  fixes valid :: "'c \<Rightarrow> bool" and key :: "'c \<Rightarrow> string" and source :: "'d \<Rightarrow> 'c \<Rightarrow> web_error + 'v"
  assumes determined: "valid a \<Longrightarrow> valid b \<Longrightarrow> key a = key b \<Longrightarrow> source db a = source db b"
begin

text \<open>\<open>ok\<close> says which changes of the data base may happen, together with the invalidation that
  follows each.\<close>

inductive cache_step ::
  "(('d, 'c, 'v) cache_run \<Rightarrow> 'd \<Rightarrow> string \<Rightarrow> bool) \<Rightarrow> ('d, 'c, 'v) cache_run \<Rightarrow> ('d, 'c, 'v) cache_run \<Rightarrow> bool"
  for ok
where
  tick: "cache_step ok s (s\<lparr>cu_now := cu_now s + d\<rparr>)"
| hit: "valid c \<Longrightarrow> get_valid (cu_now s) (key c) (cu_cache s) = (cache, Some v) \<Longrightarrow>
    cache_step ok s (s\<lparr>cu_cache := cache\<rparr>)"
| miss: "valid c \<Longrightarrow> get_valid (cu_now s) (key c) (cu_cache s) = (cache, None) \<Longrightarrow> source (cu_db s) c = Inr v \<Longrightarrow>
    cache_step ok s (s\<lparr>cu_cache := cache, cu_pending := (c, v) # cu_pending s\<rparr>)"
| error: "valid c \<Longrightarrow> get_valid (cu_now s) (key c) (cu_cache s) = (cache, None) \<Longrightarrow> source (cu_db s) c = Inl e \<Longrightarrow>
    cache_step ok s (s\<lparr>cu_cache := cache\<rparr>)"
| fill: "(c, v) \<in> set (cu_pending s) \<Longrightarrow>
    cache_step ok s (s\<lparr>cu_cache := cache_insert (cu_now s) (key c) v (cu_cache s),
      cu_pending := remove1 (c, v) (cu_pending s)\<rparr>)"
| change: "ok s db p \<Longrightarrow>
    cache_step ok s (s\<lparr>cu_db := db, cu_cache := invalidate_prefix p (cu_cache s)\<rparr>)"

text \<open>A change followed by the invalidation of everything it may affect, and the same with no
  read under way whose answer it changes.\<close>

definition covering :: "('d, 'c, 'v) cache_run \<Rightarrow> 'd \<Rightarrow> string \<Rightarrow> bool" where
  "covering s db p \<longleftrightarrow>
     (\<forall>c. valid c \<longrightarrow> source db c \<noteq> source (cu_db s) c \<longrightarrow> starts_with (key c) p)"

definition quiet :: "('d, 'c, 'v) cache_run \<Rightarrow> 'd \<Rightarrow> string \<Rightarrow> bool" where
  "quiet s db p \<longleftrightarrow> covering s db p \<and>
     (\<forall>(c, v) \<in> set (cu_pending s). source db c = source (cu_db s) c)"

definition coherent :: "('d, 'c, 'v) cache_run \<Rightarrow> bool" where
  "coherent s \<longleftrightarrow> (\<forall>c e. valid c \<longrightarrow> tc_entries (cu_cache s) (key c) = Some e \<longrightarrow> source (cu_db s) c = Inr (ce_value e))
     \<and> (\<forall>(c, v) \<in> set (cu_pending s). valid c \<and> source (cu_db s) c = Inr v)"

lemma step_coherent: "cache_step quiet s t \<Longrightarrow> coherent s \<Longrightarrow> coherent t"
proof (induction rule: cache_step.induct)
  case (tick s d)
  then show ?case by (simp add: coherent_def)
next
  case (hit c s cache v)
  then show ?case by (simp add: get_valid_hit)
next
  case (miss c s cache v)
  then show ?case using get_valid_entries [OF miss(2)] by (auto simp: coherent_def)
next
  case (error c s cache e)
  then show ?case using get_valid_entries [OF error(2)] by (auto simp: coherent_def)
next
  case (fill c v s)
  have v: "source (cu_db s) c = Inr v" "valid c" using fill by (auto simp: coherent_def)
  have "source (cu_db s) b = Inr (ce_value e)"
    if "valid b" "tc_entries (cache_insert (cu_now s) (key c) v (cu_cache s)) (key b) = Some e" for b e
    using that fill(2) v determined [of b c] by (auto simp: cache_insert_def coherent_def split: if_splits)
  with fill(2) show ?case by (auto simp: coherent_def dest: notin_set_remove1 subsetD [OF set_remove1_subset])
next
  case (change s db p)
  have "source db c = Inr (ce_value e)"
    if "valid c" "tc_entries (invalidate_prefix p (cu_cache s)) (key c) = Some e" for c e
  proof -
    from that have n: "\<not> starts_with (key c) p" and e: "tc_entries (cu_cache s) (key c) = Some e"
      by (auto simp: invalidate_prefix_def split: if_splits)
    from n change(1) that(1) have "source db c = source (cu_db s) c" by (auto simp: quiet_def covering_def)
    with e change(2) that(1) show ?thesis by (simp add: coherent_def)
  qed
  moreover have "valid c \<and> source db c = Inr v" if "(c, v) \<in> set (cu_pending s)" for c v
    using change that by (fastforce simp: coherent_def quiet_def)
  ultimately show ?case by (auto simp: coherent_def)
qed

text \<open>What the cache answers is what the source would answer.\<close>

lemma cached_answer_is_current:
  assumes "(cache_step quiet)\<^sup>*\<^sup>* \<lparr>cu_now = 0, cu_cache = ttl_cache_new ttl, cu_db = db, cu_pending = []\<rparr> s"
    and "valid c" and "get_valid (cu_now s) (key c) (cu_cache s) = (cache, Some v)"
  shows "source (cu_db s) c = Inr v"
proof -
  have "coherent \<lparr>cu_now = 0, cu_cache = ttl_cache_new ttl, cu_db = db, cu_pending = []\<rparr>"
    by (simp add: coherent_def ttl_cache_new_def)
  with assms(1) have "coherent s"
    by (induction rule: rtranclp_induct) (auto intro: step_coherent)
  with assms(2,3) show ?thesis by (auto simp: coherent_def get_valid_hit)
qed

text \<open>So the caching source agrees with the plain one.\<close>

lemma caching_resolve_is_source:
  assumes "(cache_step quiet)\<^sup>*\<^sup>* \<lparr>cu_now = 0, cu_cache = ttl_cache_new ttl, cu_db = db, cu_pending = []\<rparr> s"
    and "valid c" and "now w = cu_now s"
  shows "snd (caching_resolve now (key c) (\<lambda>w. (w, source (cu_db s) c)) (cu_cache s, w)) = source (cu_db s) c"
proof (cases "get_valid (now w) (key c) (cu_cache s)")
  case (Pair cache r)
  show ?thesis
  proof (cases r)
    case None
    with Pair show ?thesis by (simp add: caching_resolve_def split: sum.split)
  next
    case (Some v)
    with Pair cached_answer_is_current [OF assms(1,2), of cache v] assms(3) show ?thesis
      by (auto simp: caching_resolve_def)
  qed
qed

end

end
