(* ===== verification/Sqlx_Policies.thy ===== *)
theory Sqlx_Policies
  imports Policy_Cache
begin

section \<open>Dynamic policies in the data base\<close>

text \<open>
  Models the SQLx sources of CORS policies, rate limits and tenant profiles
  (\<open>cors_policy.rs\<close>, \<open>rate_limit_policy.rs\<close>, \<open>tenant_runtime.rs\<close> of the store crate): which
  row they select and how they read it. A table is the function from its primary key to the
  row; a query that fails is not modelled, its error is passed on by the caller. Columns are
  64-bit integers.
\<close>

record cors_policy_row =
  cw_allow_all_origins :: int
  cw_allowed_origins :: string
  cw_allow_credentials :: int

record rate_limit_policy_row =
  rw_max_requests :: int
  rw_window_secs :: int
  rw_enabled :: int

record tenant_profile_row =
  tw_rate_limit_enabled :: "int option"
  tw_max_content_length :: "int option"
  tw_max_concurrent_requests :: "int option"

text \<open>\<open>decode\<close> parses a JSON array of strings.\<close>

definition row_to_policy ::
  "(string \<Rightarrow> string + string list) \<Rightarrow> cors_policy_row option \<Rightarrow> web_error + cors_policy option" where
  "row_to_policy decode row =
     (case row of
        None \<Rightarrow> Inr None
      | Some r \<Rightarrow>
          (case decode (cw_allowed_origins r) of
             Inl m \<Rightarrow> Inl (dependency_unavailable (''sqlx cors policy decode error: '' @ m))
           | Inr origins \<Rightarrow> Inr (Some
               \<lparr>co_allow_all_origins = (cw_allow_all_origins r \<noteq> 0), co_allowed_origins = origins,
                co_registered_console_hosts = None,
                co_allowed_methods = co_allowed_methods cors_default,
                co_allowed_headers = co_allowed_headers cors_default,
                co_expose_headers = co_expose_headers cors_default,
                co_allow_credentials = (cw_allow_credentials r \<noteq> 0)\<rparr>)))"

definition sqlx_cors_resolve ::
  "(string \<Rightarrow> string + string list) \<Rightarrow> (string \<Rightarrow> string \<Rightarrow> cors_policy_row option) \<Rightarrow>
     cors_policy_context \<Rightarrow> web_error + cors_policy option" where
  "sqlx_cors_resolve decode table ctx =
     row_to_policy decode (table (tenant_scope (cx_tenant_id ctx)) (environment_label (cx_environment ctx)))"

definition row_to_profile :: "tenant_profile_row option \<Rightarrow> tenant_runtime_profile option" where
  "row_to_profile row =
     map_option (\<lambda>r. \<lparr>tr_rate_limit_enabled = map_option (\<lambda>v. v \<noteq> 0) (tw_rate_limit_enabled r),
       tr_max_content_length = map_option (\<lambda>v. nat (max v 0)) (tw_max_content_length r),
       tr_max_concurrent_requests = Option.bind (tw_max_concurrent_requests r)
         (\<lambda>v. if max v 0 < 2 ^ 32 then Some (nat (max v 0)) else None)\<rparr>) row"

definition sqlx_tenant_resolve ::
  "(string \<Rightarrow> string \<Rightarrow> tenant_profile_row option) \<Rightarrow> tenant_runtime_context \<Rightarrow>
     web_error + tenant_runtime_profile option" where
  "sqlx_tenant_resolve table ctx = Inr (row_to_profile
     (table (tenant_scope (tx_tenant_id ctx)) (environment_label (tx_environment ctx))))"

text \<open>The conversion to 32 bits keeps the low bits.\<close>

definition policy_from_row :: "rate_limit_policy_row \<Rightarrow> resolved_rate_limit" where
  "policy_from_row r =
     (if rw_enabled r = 0
      then \<lparr>rr_max_requests = 0, rr_window_secs = nat (max (rw_window_secs r) 1)\<rparr>
      else \<lparr>rr_max_requests = unat (word_of_int (max (rw_max_requests r) 0) :: 32 word),
            rr_window_secs = nat (max (rw_window_secs r) 1)\<rparr>)"

text \<open>The first of the four candidates that has a row.\<close>

definition rate_limit_candidates :: "string \<Rightarrow> string \<Rightarrow> (string \<times> string) list" where
  "rate_limit_candidates tenant tier =
     [(tenant, tier), (tenant, ''default''), (''0'', tier), (''0'', ''default'')]"

fun first_row ::
  "(string \<Rightarrow> string \<Rightarrow> string \<Rightarrow> rate_limit_policy_row option) \<Rightarrow> string \<Rightarrow> (string \<times> string) list \<Rightarrow>
     rate_limit_policy_row option" where
  "first_row table env [] = None"
| "first_row table env ((tenant, tier) # cs) =
     (case table tenant env tier of None \<Rightarrow> first_row table env cs | Some r \<Rightarrow> Some r)"

definition sqlx_rate_limit_resolve ::
  "(string \<Rightarrow> string \<Rightarrow> string \<Rightarrow> rate_limit_policy_row option) \<Rightarrow> rate_limit_policy_context \<Rightarrow>
     web_error + resolved_rate_limit option" where
  "sqlx_rate_limit_resolve table ctx = Inr (map_option policy_from_row
     (first_row table (environment_label (rx_environment ctx))
       (rate_limit_candidates (tenant_scope (rx_tenant_id ctx))
         (rate_limit_tier_key (rx_rate_limit_tier ctx)))))"

subsection \<open>The sources are determined by the cache keys\<close>

interpretation cors_cache: keyed_source "\<lambda>_. True" cors_cache_key "sqlx_cors_resolve decode" for decode
proof
  fix a b table
  assume "cors_cache_key a = cors_cache_key b"
  from tenant_environment_key_unique [OF this [unfolded cors_cache_key_def]]
  show "sqlx_cors_resolve decode table a = sqlx_cors_resolve decode table b"
    by (simp add: sqlx_cors_resolve_def)
qed

interpretation tenant_cache: keyed_source "\<lambda>_. True" tenant_cache_key sqlx_tenant_resolve
proof
  fix a b table
  assume "tenant_cache_key a = tenant_cache_key b"
  from tenant_environment_key_unique [OF this [unfolded tenant_cache_key_def]]
  show "sqlx_tenant_resolve table a = sqlx_tenant_resolve table b"
    by (simp add: sqlx_tenant_resolve_def)
qed

interpretation rate_limit_cache: keyed_source "\<lambda>_. True" rate_limit_cache_key sqlx_rate_limit_resolve
proof
  fix a b table
  assume "rate_limit_cache_key a = rate_limit_cache_key b"
  from rate_limit_key_unique [OF this [unfolded rate_limit_cache_key_def]]
  show "sqlx_rate_limit_resolve table a = sqlx_rate_limit_resolve table b"
    by (simp add: sqlx_rate_limit_resolve_def)
qed

text \<open>A write to one tenant's row, followed by \<open>invalidate_tenant_environment\<close>, covers what it
  changes.\<close>

lemma tenant_write_covered:
  fixes table :: "string \<Rightarrow> string \<Rightarrow> tenant_profile_row option"
  assumes "\<And>t e. (t, e) \<noteq> (tenant, env) \<Longrightarrow> table' t e = table t e"
    and "cu_db s = table"
  shows "tenant_cache.covering s table' (tenant_environment_prefix tenant env)"
  unfolding tenant_cache.covering_def
proof (intro allI impI)
  fix c assume ne: "sqlx_tenant_resolve table' c \<noteq> sqlx_tenant_resolve (cu_db s) c"
  have "(tenant_scope (tx_tenant_id c), environment_label (tx_environment c)) = (tenant, env)"
  proof (rule ccontr)
    assume "\<not> ?thesis"
    with assms ne show False by (simp add: sqlx_tenant_resolve_def)
  qed
  then show "starts_with (tenant_cache_key c) (tenant_environment_prefix tenant env)"
    using key_prefixes(3) [of c] by simp
qed

lemma cors_write_covered:
  fixes table :: "string \<Rightarrow> string \<Rightarrow> cors_policy_row option"
  assumes "\<And>t e. (t, e) \<noteq> (tenant, env) \<Longrightarrow> table' t e = table t e"
    and "cu_db s = table"
  shows "cors_cache.covering decode s table' (tenant_environment_prefix tenant env)"
  unfolding cors_cache.covering_def
proof (intro allI impI)
  fix c assume ne: "sqlx_cors_resolve decode table' c \<noteq> sqlx_cors_resolve decode (cu_db s) c"
  have "(tenant_scope (cx_tenant_id c), environment_label (cx_environment c)) = (tenant, env)"
  proof (rule ccontr)
    assume "\<not> ?thesis"
    with assms ne show False by (simp add: sqlx_cors_resolve_def)
  qed
  then show "starts_with (cors_cache_key c) (tenant_environment_prefix tenant env)"
    using key_prefixes(1) [of c] by simp
qed

lemma rate_limit_write_answers:
  fixes table :: "string \<Rightarrow> string \<Rightarrow> string \<Rightarrow> rate_limit_policy_row option"
  assumes "\<And>t e k. (t, e) \<noteq> (tenant, env) \<Longrightarrow> table' t e k = table t e k" and "tenant \<noteq> ''0''"
    and "sqlx_rate_limit_resolve table' c \<noteq> sqlx_rate_limit_resolve table c"
  shows "tenant_scope (rx_tenant_id c) = tenant" and "environment_label (rx_environment c) = env"
proof -
  let ?t = "tenant_scope (rx_tenant_id c)" and ?e = "environment_label (rx_environment c)"
  have platform: "table' ''0'' e k = table ''0'' e k" for e k
    by (rule assms(1)) (use assms(2) in auto)
  have "(?t, ?e) = (tenant, env)"
  proof (rule ccontr)
    assume "\<not> ?thesis"
    then have own: "table' ?t ?e k = table ?t ?e k" for k by (rule assms(1))
    have "sqlx_rate_limit_resolve table' c = sqlx_rate_limit_resolve table c"
      by (simp only: sqlx_rate_limit_resolve_def rate_limit_candidates_def first_row.simps platform own)
    with assms(3) show False by contradiction
  qed
  then show "?t = tenant" and "?e = env" by simp_all
qed

lemma rate_limit_write_covered:
  fixes table :: "string \<Rightarrow> string \<Rightarrow> string \<Rightarrow> rate_limit_policy_row option"
  assumes "\<And>t e k. (t, e) \<noteq> (tenant, env) \<Longrightarrow> table' t e k = table t e k" and "tenant \<noteq> ''0''"
    and "cu_db s = table"
  shows "rate_limit_cache.covering s table' (tenant_environment_prefix tenant env)"
  unfolding rate_limit_cache.covering_def
proof (intro allI impI)
  fix c assume "sqlx_rate_limit_resolve table' c \<noteq> sqlx_rate_limit_resolve (cu_db s) c"
  from rate_limit_write_answers [OF assms(1,2) this [unfolded assms(3)]]
  show "starts_with (rate_limit_cache_key c) (tenant_environment_prefix tenant env)"
    using key_prefixes(2) [of c] by simp
qed

text \<open>It does not hold of the platform rows, those of tenant \<open>0\<close>, which every tenant without rows of its own falls back to.\<close>

definition platform_row :: "nat \<Rightarrow> string \<Rightarrow> string \<Rightarrow> string \<Rightarrow> rate_limit_policy_row option" where
  "platform_row n t e k = (if (t, e, k) = (''0'', ''prod'', ''default'')
     then Some \<lparr>rw_max_requests = int n, rw_window_secs = 60, rw_enabled = 1\<rparr> else None)"

definition tenant_call :: rate_limit_policy_context where
  "tenant_call = \<lparr>rx_tenant_id = Some ''t1'', rx_environment = Prod, rx_api_surface = AppApi,
     rx_rate_limit_tier = None, rx_operation_id = None\<rparr>"

lemma platform_write_not_covered:
  "cu_db s = platform_row 100 \<Longrightarrow>
     \<not> rate_limit_cache.covering s (platform_row 10) (tenant_environment_prefix ''0'' ''prod'')"
proof -
  assume s: "cu_db s = platform_row 100"
  have "sqlx_rate_limit_resolve (platform_row 10) tenant_call \<noteq> sqlx_rate_limit_resolve (platform_row 100) tenant_call"
    by (simp add: sqlx_rate_limit_resolve_def rate_limit_candidates_def tenant_call_def tenant_scope_def
        platform_row_def policy_from_row_def unwrap_or_def)
  moreover have "\<not> starts_with (rate_limit_cache_key tenant_call) (tenant_environment_prefix ''0'' ''prod'')"
    by code_simp
  ultimately show ?thesis by (auto simp: rate_limit_cache.covering_def s)
qed

text \<open>A limit of \<open>2 ^ 32\<close> requests, which the column can hold, is read as zero, which switches
  the limit off.\<close>

lemma huge_limit_is_no_limit:
  "rr_max_requests (policy_from_row \<lparr>rw_max_requests = 2 ^ 32, rw_window_secs = 60, rw_enabled = 1\<rparr>) = 0"
  by (simp add: policy_from_row_def)

subsection \<open>Caching the rate limits\<close>

abbreviation rate_limit_start ::
  "nat \<Rightarrow> 'd \<Rightarrow> ('d, rate_limit_policy_context, resolved_rate_limit option) cache_run" where
  "rate_limit_start ttl table \<equiv>
     \<lparr>cu_now = 0, cu_cache = ttl_cache_new ttl, cu_db = table, cu_pending = []\<rparr>"

text \<open>C8: Refinement: however lookups, reads of the data base, insertions, expiry and changes with
  their invalidations interleave, the caching rate-limit source answers what the SQLx source
  would answer at that moment from the table as it is, provided that every change comes with
  the invalidation of all keys whose answer it changes and hits no read under way.\<close>

theorem cached_rate_limit_is_current:
  assumes "(rate_limit_cache.cache_step rate_limit_cache.quiet)\<^sup>*\<^sup>* (rate_limit_start ttl table) s"
    and "now w = cu_now s"
  shows "snd (caching_rate_limit_source now (\<lambda>ctx w. (w, sqlx_rate_limit_resolve (cu_db s) ctx)) ctx
      (cu_cache s, w)) = sqlx_rate_limit_resolve (cu_db s) ctx"
  unfolding caching_rate_limit_source_def
  by (rule rate_limit_cache.caching_resolve_is_source [where now = now and w = w, OF assms(1) TrueI assms(2)])

definition tenant_row :: "nat \<Rightarrow> string \<Rightarrow> string \<Rightarrow> string \<Rightarrow> rate_limit_policy_row option" where
  "tenant_row n t e k = (if (t, e, k) = (''t1'', ''prod'', ''default'')
     then Some \<lparr>rw_max_requests = int n, rw_window_secs = 60, rw_enabled = 1\<rparr> else None)"

definition tenant_limit :: "nat \<Rightarrow> resolved_rate_limit option" where
  "tenant_limit n = Some \<lparr>rr_max_requests = n, rr_window_secs = 60\<rparr>"

lemma tenant_row_resolve:
  "n < 2 ^ 32 \<Longrightarrow> sqlx_rate_limit_resolve (tenant_row n) tenant_call = Inr (tenant_limit n)"
proof -
  assume "n < 2 ^ 32"
  then have "unat (word_of_nat n :: 32 word) = n" by (simp add: unsigned_of_nat take_bit_eq_mod)
  then show ?thesis
    by (simp add: sqlx_rate_limit_resolve_def rate_limit_candidates_def tenant_call_def tenant_scope_def
        tenant_row_def policy_from_row_def unwrap_or_def tenant_limit_def)
qed

text \<open>A cached run: a miss, its insertion a second later, and the cache is warm.\<close>

definition filled :: "nat \<Rightarrow> nat \<Rightarrow> (string \<Rightarrow> string \<Rightarrow> string \<Rightarrow> rate_limit_policy_row option) \<Rightarrow>
  (string \<Rightarrow> string \<Rightarrow> string \<Rightarrow> rate_limit_policy_row option,
   rate_limit_policy_context, resolved_rate_limit option) cache_run" where
  "filled n t table = \<lparr>cu_now = t,
     cu_cache = cache_insert t (rate_limit_cache_key tenant_call) (tenant_limit n) (ttl_cache_new 30),
     cu_db = table, cu_pending = []\<rparr>"

abbreviation reading :: "nat \<Rightarrow> (string \<Rightarrow> string \<Rightarrow> string \<Rightarrow> rate_limit_policy_row option) \<Rightarrow> nat \<Rightarrow>
  (string \<Rightarrow> string \<Rightarrow> string \<Rightarrow> rate_limit_policy_row option,
   rate_limit_policy_context, resolved_rate_limit option) cache_run" where
  "reading t table n \<equiv> \<lparr>cu_now = t, cu_cache = ttl_cache_new 30, cu_db = table,
     cu_pending = [(tenant_call, tenant_limit n)]\<rparr>"

lemma empty_cache_removal:
  "(ttl_cache_new ttl)\<lparr>tc_entries := (tc_entries (ttl_cache_new ttl))(k := None)\<rparr> = ttl_cache_new ttl"
  "invalidate_prefix p (ttl_cache_new ttl) = ttl_cache_new ttl"
  "get_valid t k (ttl_cache_new ttl) = (ttl_cache_new ttl, None)"
  by (simp_all add: ttl_cache_new_def invalidate_prefix_def get_valid_def fun_eq_iff)

lemma reading_started:
  "n < 2 ^ 32 \<Longrightarrow> rate_limit_cache.cache_step ok (rate_limit_start 30 (tenant_row n)) (reading 0 (tenant_row n) n)"
  using rate_limit_cache.miss [of "rate_limit_start 30 (tenant_row n)" tenant_call "ttl_cache_new 30" "tenant_limit n" ok]
  by (simp add: empty_cache_removal tenant_row_resolve)

lemma reading_filled:
  "rate_limit_cache.cache_step ok (reading t table n) (filled n t table)"
  using rate_limit_cache.fill [of tenant_call "tenant_limit n" "reading t table n" ok]
  by (simp add: filled_def)

lemma filled_answers:
  "t' < t + 30 \<Longrightarrow> get_valid t' (rate_limit_cache_key tenant_call) (cu_cache (filled n t table))
     = (cu_cache (filled n t table), Some (tenant_limit n))"
  by (simp add: get_valid_def filled_def cache_insert_def ttl_cache_new_def)

theorem cached_rate_limit_is_current_witness:
  "snd (caching_rate_limit_source (\<lambda>_. 0) (\<lambda>ctx w. (w, sqlx_rate_limit_resolve (tenant_row 10) ctx)) tenant_call
      (cu_cache (filled 10 0 (tenant_row 10)), ())) = Inr (tenant_limit 10)
   \<and> get_valid 0 (rate_limit_cache_key tenant_call) (cu_cache (filled 10 0 (tenant_row 10)))
     = (cu_cache (filled 10 0 (tenant_row 10)), Some (tenant_limit 10))"
proof -
  have start: "rate_limit_cache.cache_step ok (rate_limit_start 30 (tenant_row 10)) (reading 0 (tenant_row 10) 10)" for ok
    by (rule reading_started) simp
  have "(rate_limit_cache.cache_step rate_limit_cache.quiet)\<^sup>*\<^sup>* (rate_limit_start 30 (tenant_row 10))
      (filled 10 0 (tenant_row 10))"
    using start reading_filled by (meson r_into_rtranclp rtranclp_trans)
  from cached_rate_limit_is_current [OF this, of "\<lambda>_. 0" "()" tenant_call]
  have "snd (caching_rate_limit_source (\<lambda>_. 0) (\<lambda>ctx w. (w, sqlx_rate_limit_resolve (tenant_row 10) ctx))
      tenant_call (cu_cache (filled 10 0 (tenant_row 10)), ())) = Inr (tenant_limit 10)"
    by (simp add: filled_def tenant_row_resolve)
  then show ?thesis using filled_answers [of 0 0 10 "tenant_row 10"] by simp
qed

text \<open>The proviso is needed: an invalidation that arrives while a lookup is reading the table is
  lost, and the old answer stays in the cache for a whole TTL.\<close>

lemma lost_invalidation:
  "\<exists>s cache. (rate_limit_cache.cache_step rate_limit_cache.covering)\<^sup>*\<^sup>*
      (rate_limit_start 30 (tenant_row 100)) s
    \<and> cu_db s = tenant_row 10
    \<and> get_valid (cu_now s) (rate_limit_cache_key tenant_call) (cu_cache s) = (cache, Some (tenant_limit 100))
    \<and> sqlx_rate_limit_resolve (cu_db s) tenant_call = Inr (tenant_limit 10)"
proof -
  have key: "starts_with (rate_limit_cache_key c) (tenant_environment_prefix ''t1'' ''prod'')"
    if "sqlx_rate_limit_resolve (tenant_row 10) c \<noteq> sqlx_rate_limit_resolve (tenant_row 100) c" for c
  proof -
    have "tenant_scope (rx_tenant_id c) = ''t1'' \<and> environment_label (rx_environment c) = ''prod''"
    proof (rule ccontr)
      assume "\<not> ?thesis"
      then have "tenant_row n (tenant_scope (rx_tenant_id c)) (environment_label (rx_environment c)) k = None"
        "tenant_row n ''0'' e k = None" for n k e by (auto simp: tenant_row_def)
      with that show False by (simp add: sqlx_rate_limit_resolve_def rate_limit_candidates_def)
    qed
    with key_prefixes(2) [of c] show ?thesis by simp
  qed
  have "rate_limit_cache.covering (reading 0 (tenant_row 100) 100) (tenant_row 10)
      (tenant_environment_prefix ''t1'' ''prod'')"
    using key by (simp add: rate_limit_cache.covering_def)
  from rate_limit_cache.change [where s = "reading 0 (tenant_row 100) 100" and ok = rate_limit_cache.covering
    and db = "tenant_row 10" and p = "tenant_environment_prefix ''t1'' ''prod''", OF this]
  have change: "rate_limit_cache.cache_step rate_limit_cache.covering
      (reading 0 (tenant_row 100) 100) (reading 0 (tenant_row 10) 100)"
    by (simp add: empty_cache_removal)
  have start: "rate_limit_cache.cache_step ok (rate_limit_start 30 (tenant_row 100)) (reading 0 (tenant_row 100) 100)" for ok
    by (rule reading_started) simp
  have "(rate_limit_cache.cache_step rate_limit_cache.covering)\<^sup>*\<^sup>*
      (rate_limit_start 30 (tenant_row 100)) (filled 100 0 (tenant_row 10))"
    using start change reading_filled by (meson r_into_rtranclp rtranclp_trans)
  then show ?thesis
    using filled_answers [of 0 0 100 "tenant_row 10"] tenant_row_resolve [of 10]
    by (intro exI [of _ "filled 100 0 (tenant_row 10)"]) (simp add: filled_def)
qed

end
