(* ===== verification/Authz_Scope.thy ===== *)
theory Authz_Scope
  imports Policy_Cache
begin

section \<open>Server-side authorization scope\<close>

text \<open>
  Models \<open>authz_scope.rs\<close>: the header budgets of rendered tokens, the subject whose scope is
  looked up with its cache key, the provider that caches the answers of the authoritative
  source and decides what happens without one, and the resolver that puts the scope into the
  principals of another resolver. The provider and its cache are an instance of the caching
  sources of \<^theory_text>\<open>Policy_Cache\<close>.
\<close>

subsection \<open>Header budgets\<close>

definition dual_token_header_block_budget :: nat where "dual_token_header_block_budget = 16 * 1024"
definition entrypoint_header_reserve :: nat where "entrypoint_header_reserve = 4 * 1024"
definition dual_token_header_names :: nat where "dual_token_header_names = 64"

definition max_rendered_token :: nat where
  "max_rendered_token =
     (dual_token_header_block_budget - entrypoint_header_reserve - dual_token_header_names) div 2"

definition validate_rendered_token_bytes :: "nat \<Rightarrow> web_error + unit" where
  "validate_rendered_token_bytes n =
     (if max_rendered_token < n
      then Inl (internal_server_error (''rendered token is '' @ show_nat n @ '' bytes, above the ''
        @ show_nat max_rendered_token @ ''-byte entrypoint header budget (''
        @ show_nat dual_token_header_block_budget @ ''-byte whole-block budget minus ''
        @ show_nat entrypoint_header_reserve
        @ ''-byte reserve, two tokens); move variable-length authorization content to server-side scope resolution''))
      else Inr ())"

definition validate_dual_token_header_budget :: "nat \<Rightarrow> nat \<Rightarrow> nat \<Rightarrow> web_error + unit" where
  "validate_dual_token_header_budget auth access names =
     (let total = auth + access + names in
      if dual_token_header_block_budget < total + entrypoint_header_reserve
      then Inl (internal_server_error (''dual-token header footprint is '' @ show_nat total
        @ '' bytes; with a '' @ show_nat entrypoint_header_reserve
        @ ''-byte reserve it overflows the '' @ show_nat dual_token_header_block_budget
        @ ''-byte entrypoint header block budget''))
      else Inr ())"

subsection \<open>Subjects and scopes\<close>

record scope_subject =
  as_tenant_id :: string
  as_organization_id :: "string option"
  as_user_id :: string
  as_app_id :: string
  as_session_id :: "string option"
  as_environment :: environment
  as_deployment_mode :: deployment_mode
  as_api_surface :: api_surface

definition subject_for_principal :: "principal \<Rightarrow> api_surface \<Rightarrow> scope_subject" where
  "subject_for_principal p surface =
     \<lparr>as_tenant_id = tn_tenant_id (pr_tenancy p), as_organization_id = tn_organization_id (pr_tenancy p),
      as_user_id = sc_user_id (pr_subject p), as_app_id = ac_app_id (pr_app p),
      as_session_id = sc_session_id (pr_subject p), as_environment = ac_environment (pr_app p),
      as_deployment_mode = ac_deployment_mode (pr_app p), as_api_surface = surface\<rparr>"

fun environment_debug :: "environment \<Rightarrow> string" where
  "environment_debug Prod = ''Prod''"
| "environment_debug Test = ''Test''"
| "environment_debug Dev = ''Dev''"

fun deployment_debug :: "deployment_mode \<Rightarrow> string" where
  "deployment_debug Saas = ''Saas''"
| "deployment_debug Private = ''Private''"
| "deployment_debug LocalDeployment = ''Local''"

definition scope_key_parts :: "scope_subject \<Rightarrow> string list" where
  "scope_key_parts s =
     [as_tenant_id s, unwrap_or (as_organization_id s) ''-'', as_user_id s, as_app_id s,
      unwrap_or (as_session_id s) ''-'', environment_debug (as_environment s),
      deployment_debug (as_deployment_mode s), surface_debug (as_api_surface s)]"

definition scope_cache_key :: "scope_subject \<Rightarrow> string" where
  "scope_cache_key s = bar (scope_key_parts s)"

definition tenant_prefix :: "scope_subject \<Rightarrow> string" where
  "tenant_prefix s = as_tenant_id s @ ''|''"

definition subject_prefix :: "scope_subject \<Rightarrow> string" where
  "subject_prefix s = as_tenant_id s @ ''|'' @ unwrap_or (as_organization_id s) ''-'' @ ''|''
     @ as_user_id s @ ''|''"

record authorization_scope =
  az_data_scope :: "string list"
  az_permission_scope :: "string list"
  az_scope_revision :: "string option"

definition scope_from_principal :: "principal \<Rightarrow> authorization_scope" where
  "scope_from_principal p = \<lparr>az_data_scope = so_data_scope (pr_scopes p),
     az_permission_scope = so_permission_scope (pr_scopes p), az_scope_revision = None\<rparr>"

definition apply_scope :: "authorization_scope \<Rightarrow> principal \<Rightarrow> principal" where
  "apply_scope z p = p\<lparr>pr_scopes := (pr_scopes p)
     \<lparr>so_data_scope := az_data_scope z, so_permission_scope := az_permission_scope z\<rparr>\<rparr>"

definition scope_is_empty :: "authorization_scope \<Rightarrow> bool" where
  "scope_is_empty z = (az_data_scope z = [] \<and> az_permission_scope z = [])"

subsection \<open>The provider\<close>

datatype scope_fallback = FallbackDeny | FallbackCredentialClaims

text \<open>The world of a provider is its cache with the world of the source.\<close>

record 'w scope_provider =
  sv_source :: "(scope_subject \<Rightarrow> ('w, authorization_scope option) action) option"
  sv_fallback :: scope_fallback
  sv_ttl :: nat

definition scope_cache_ttl :: nat where "scope_cache_ttl = 15 * 1000000000"

definition no_scope_source :: "scope_subject \<Rightarrow> ('w, authorization_scope option) action" where
  "no_scope_source s = act_return None"

definition server_resolved ::
  "(scope_subject \<Rightarrow> ('w, authorization_scope option) action) \<Rightarrow> 'w scope_provider" where
  "server_resolved source = \<lparr>sv_source = Some source, sv_fallback = FallbackDeny, sv_ttl = scope_cache_ttl\<rparr>"

definition server_resolved_with_claim_fallback ::
  "(scope_subject \<Rightarrow> ('w, authorization_scope option) action) \<Rightarrow> 'w scope_provider" where
  "server_resolved_with_claim_fallback source =
     \<lparr>sv_source = Some source, sv_fallback = FallbackCredentialClaims, sv_ttl = scope_cache_ttl\<rparr>"

definition credential_claims_only :: "'w scope_provider" where
  "credential_claims_only = \<lparr>sv_source = Some no_scope_source, sv_fallback = FallbackCredentialClaims,
     sv_ttl = scope_cache_ttl\<rparr>"

definition deny_all_scopes :: "'w scope_provider" where
  "deny_all_scopes = \<lparr>sv_source = Some no_scope_source, sv_fallback = FallbackDeny, sv_ttl = scope_cache_ttl\<rparr>"

definition apply_fallback ::
  "scope_fallback \<Rightarrow> scope_subject \<Rightarrow> authorization_scope \<Rightarrow> web_error + authorization_scope" where
  "apply_fallback fallback s credential_scope =
     (case fallback of
        FallbackCredentialClaims \<Rightarrow> Inr credential_scope
      | FallbackDeny \<Rightarrow> Inl (with_reason ''authorization-scope-unavailable'' (forbidden
          (''authorization scope is not resolvable server-side for tenant '' @ as_tenant_id s
           @ '' subject '' @ as_user_id s @ '' (session '' @ unwrap_or (as_session_id s) ''-''
           @ ''); refusing to trust credential-carried scope''))))"

definition materialize ::
  "('w \<Rightarrow> nat) \<Rightarrow> 'w scope_provider \<Rightarrow> scope_subject \<Rightarrow> authorization_scope \<Rightarrow>
     (authorization_scope option ttl_cache \<times> 'w, authorization_scope) action" where
  "materialize now pv s credential_scope cw =
     (case cw of (c, w) \<Rightarrow>
      case get_valid (now w) (scope_cache_key s) c of
        (c, Some cached) \<Rightarrow> ((c, w), case cached of
            Some z \<Rightarrow> Inr z | None \<Rightarrow> apply_fallback (sv_fallback pv) s credential_scope)
      | (c, None) \<Rightarrow>
          (case sv_source pv of
             None \<Rightarrow> ((c, w), apply_fallback (sv_fallback pv) s credential_scope)
           | Some source \<Rightarrow>
               (case source s w of
                  (w, Inl e) \<Rightarrow> ((c, w), Inl e)
                | (w, Inr (Some z)) \<Rightarrow>
                    ((cache_insert (now w) (scope_cache_key s) (Some z) c, w), Inr z)
                | (w, Inr None) \<Rightarrow>
                    ((cache_insert (now w) (scope_cache_key s) None c, w),
                     apply_fallback (sv_fallback pv) s credential_scope))))"

definition invalidate_subject :: "scope_subject \<Rightarrow> 'v ttl_cache \<Rightarrow> 'v ttl_cache" where
  "invalidate_subject s = invalidate_prefix (scope_cache_key s)"

definition invalidate_user :: "scope_subject \<Rightarrow> 'v ttl_cache \<Rightarrow> 'v ttl_cache" where
  "invalidate_user s = invalidate_prefix (subject_prefix s)"

definition invalidate_tenant :: "string \<Rightarrow> 'v ttl_cache \<Rightarrow> 'v ttl_cache" where
  "invalidate_tenant tenant_id = invalidate_prefix (tenant_id @ ''|'')"

subsection \<open>The resolver\<close>

definition on_inner :: "('w, 'a) action \<Rightarrow> ('c \<times> 'w, 'a) action" where
  "on_inner m cw = (case cw of (c, w) \<Rightarrow> case m w of (w, r) \<Rightarrow> ((c, w), r))"

definition enrich ::
  "('w \<Rightarrow> nat) \<Rightarrow> 'w scope_provider \<Rightarrow> api_surface \<Rightarrow> principal \<Rightarrow>
     (authorization_scope option ttl_cache \<times> 'w, principal) action" where
  "enrich now pv surface p =
     act_bind (materialize now pv (subject_for_principal p surface) (scope_from_principal p))
       (\<lambda>z. act_return (apply_scope z p))"

definition server_resolved_resolver ::
  "('w \<Rightarrow> nat) \<Rightarrow> 'w scope_provider \<Rightarrow> api_surface \<Rightarrow> 'w resolver \<Rightarrow>
     (authorization_scope option ttl_cache \<times> 'w) resolver" where
  "server_resolved_resolver now pv surface inner =
     \<lparr>rv_api_key = \<lambda>k. on_inner (rv_api_key inner k),
      rv_dual_token = \<lambda>t a. act_bind (on_inner (rv_dual_token inner t a)) (enrich now pv surface),
      rv_access_token = \<lambda>a. act_bind (on_inner (rv_access_token inner a)) (enrich now pv surface),
      rv_oauth_bearer = \<lambda>b. act_bind (on_inner (rv_oauth_bearer inner b)) (enrich now pv surface),
      rv_bearer_auth_token = \<lambda>b. act_bind (on_inner (rv_bearer_auth_token inner b)) (enrich now pv surface),
      rv_compatibility = \<lambda>x cs. on_inner (rv_compatibility inner x cs)\<rparr>"

subsection \<open>Facts\<close>

text \<open>Identifiers that the key cannot confuse: no separator inside, and no \<open>-\<close> where that stands
  for a missing identifier.\<close>

definition clean :: "string \<Rightarrow> bool" where "clean t = (CHR ''|'' \<notin> set t)"

definition clean_option :: "string option \<Rightarrow> bool" where
  "clean_option t = (case t of None \<Rightarrow> True | Some v \<Rightarrow> clean v \<and> v \<noteq> ''-'')"

definition valid_subject :: "scope_subject \<Rightarrow> bool" where
  "valid_subject s = (clean (as_tenant_id s) \<and> clean_option (as_organization_id s)
     \<and> clean (as_user_id s) \<and> clean (as_app_id s) \<and> clean_option (as_session_id s))"

lemma clean_debug:
  "clean (environment_debug e)" "clean (deployment_debug d)" "clean (surface_debug u)"
proof -
  show "clean (environment_debug e)" by (cases e) (simp_all add: clean_def)
  show "clean (deployment_debug d)" by (cases d) (simp_all add: clean_def)
  show "clean (surface_debug u)" by (cases u) (simp_all add: clean_def)
qed

lemma clean_option_unwrap: "clean_option t \<Longrightarrow> clean (unwrap_or t ''-'')"
  by (cases t) (simp_all add: clean_option_def clean_def unwrap_or_def)

lemma unwrap_dash_inj:
  "clean_option a \<Longrightarrow> clean_option b \<Longrightarrow> unwrap_or a ''-'' = unwrap_or b ''-'' \<longleftrightarrow> a = b"
  by (cases a; cases b) (auto simp: clean_option_def unwrap_or_def)

lemma debug_inj:
  "environment_debug e = environment_debug f \<longleftrightarrow> e = f"
  "deployment_debug d = deployment_debug g \<longleftrightarrow> d = g"
proof -
  show "environment_debug e = environment_debug f \<longleftrightarrow> e = f" by (cases e; cases f) simp_all
  show "deployment_debug d = deployment_debug g \<longleftrightarrow> d = g" by (cases d; cases g) simp_all
qed

lemma split_scope_key:
  assumes "valid_subject s"
  shows "split_on (CHR ''|'') (scope_cache_key s) = scope_key_parts s"
proof -
  have "CHR ''|'' \<notin> set w" if "w \<in> set (scope_key_parts s)" for w
    using that assms clean_debug clean_option_unwrap
    by (auto simp: scope_key_parts_def valid_subject_def clean_def)
  then show ?thesis unfolding scope_cache_key_def bar_def
    by (intro split_on_join) (auto simp: scope_key_parts_def)
qed

lemma scope_cache_key_inj:
  assumes "valid_subject a" "valid_subject b" and "scope_cache_key a = scope_cache_key b"
  shows "a = b"
proof -
  have "scope_key_parts a = scope_key_parts b"
    using split_scope_key [OF assms(1)] split_scope_key [OF assms(2)] assms(3) by simp
  then show ?thesis
    using assms(1,2)
    by (intro scope_subject.equality)
      (auto simp: scope_key_parts_def valid_subject_def unwrap_dash_inj debug_inj surface_debug_inj)
qed

text \<open>Without that, contexts share a cache entry: a missing organization is the organization
  \<open>-\<close>, and a separator moves from one identifier to the next.\<close>

definition plain_subject :: scope_subject where
  "plain_subject = \<lparr>as_tenant_id = ''t1'', as_organization_id = None, as_user_id = ''u1'',
     as_app_id = ''app1'', as_session_id = None, as_environment = Prod, as_deployment_mode = Saas,
     as_api_surface = AppApi\<rparr>"

lemma scope_cache_key_collisions:
  "scope_cache_key plain_subject = scope_cache_key (plain_subject\<lparr>as_organization_id := Some ''-''\<rparr>)"
  "scope_cache_key (plain_subject\<lparr>as_user_id := ''u1|app1'', as_app_id := ''x''\<rparr>)
     = scope_cache_key (plain_subject\<lparr>as_user_id := ''u1'', as_app_id := ''app1|x''\<rparr>)"
  by (simp_all add: scope_cache_key_def scope_key_parts_def plain_subject_def bar_simps unwrap_or_def)

text \<open>\<open>invalidate_user\<close> reaches the contexts of one organization only.\<close>

lemma invalidate_user_other_organization:
  "tc_entries (invalidate_user plain_subject c) (scope_cache_key (plain_subject\<lparr>as_organization_id := Some ''o1''\<rparr>))
     = tc_entries c (scope_cache_key (plain_subject\<lparr>as_organization_id := Some ''o1''\<rparr>))"
  by (simp add: invalidate_user_def invalidate_prefix_def starts_with_def scope_cache_key_def
      scope_key_parts_def plain_subject_def subject_prefix_def bar_simps unwrap_or_def)

lemma invalidated_keys:
  "tc_entries (invalidate_tenant (as_tenant_id s) c) (scope_cache_key s) = None"
  "tc_entries (invalidate_user s c) (scope_cache_key s) = None"
  "tc_entries (invalidate_subject s c) (scope_cache_key s) = None"
  by (simp_all add: invalidate_tenant_def invalidate_user_def invalidate_subject_def
      invalidate_prefix_def starts_with_def scope_cache_key_def scope_key_parts_def
      subject_prefix_def bar_simps)

interpretation scope_cache: keyed_source valid_subject scope_cache_key source
  for source :: "'d \<Rightarrow> scope_subject \<Rightarrow> web_error + authorization_scope option"
proof
  fix a b db
  assume "valid_subject a" "valid_subject b" "scope_cache_key a = scope_cache_key b"
  then have "a = b" by (rule scope_cache_key_inj)
  then show "source db a = source db b" by simp
qed

lemma materialize_caching:
  assumes "sv_source pv = Some source"
  shows "materialize now pv s z cw =
     (case caching_resolve now (scope_cache_key s) (source s) cw of
        (cw, Inl e) \<Rightarrow> (cw, Inl e)
      | (cw, Inr (Some z')) \<Rightarrow> (cw, Inr z')
      | (cw, Inr None) \<Rightarrow> (cw, apply_fallback (sv_fallback pv) s z))"
  using assms
  by (auto simp: materialize_def caching_resolve_def split: prod.split option.split sum.split)

text \<open>C6: When the provider denies without an authoritative record, every principal it lets
  through whose tenant, organization, user, application and session identifiers form a
  collision-free cache key (\<open>valid_subject\<close>: no identifier contains the separator \<open>|\<close> and no
  optional one is a bare \<open>-\<close>) has exactly the data and permission scope the authoritative
  source holds for its subject at that moment, whatever scope its credential carries, and its
  identity is the one of the credential; this holds with the cache in between, under any
  interleaving of lookups and insertions and of changes of the source that invalidate what they
  change and hit no read under way, all under identifiers of that kind. Without the
  restriction two subjects can share a cache entry (\<open>scope_cache_key_collisions\<close>).\<close>

theorem enriched_scope_is_authoritative:
  assumes "(scope_cache.cache_step source (scope_cache.quiet source))\<^sup>*\<^sup>*
      \<lparr>cu_now = 0, cu_cache = ttl_cache_new ttl, cu_db = db, cu_pending = []\<rparr> r"
    and "valid_subject (subject_for_principal p surface)"
    and "now w = cu_now r"
    and "enrich now (server_resolved (\<lambda>s w. (w, source (cu_db r) s))) surface p (cu_cache r, w) = (cw, Inr p')"
  shows "\<exists>z. source (cu_db r) (subject_for_principal p surface) = Inr (Some z)
    \<and> so_data_scope (pr_scopes p') = az_data_scope z
    \<and> so_permission_scope (pr_scopes p') = az_permission_scope z
    \<and> pr_tenancy p' = pr_tenancy p \<and> pr_app p' = pr_app p \<and> pr_subject p' = pr_subject p
    \<and> pr_auth p' = pr_auth p"
proof -
  let ?s = "subject_for_principal p surface"
  let ?pv = "server_resolved (\<lambda>s w. (w, source (cu_db r) s))"
  let ?run = "caching_resolve now (scope_cache_key ?s) (\<lambda>w. (w, source (cu_db r) ?s)) (cu_cache r, w)"
  have pv: "sv_source ?pv = Some (\<lambda>s w. (w, source (cu_db r) s))" "sv_fallback ?pv = FallbackDeny"
    by (simp_all add: server_resolved_def)
  have run: "snd ?run = source (cu_db r) ?s"
    by (rule scope_cache.caching_resolve_is_source [where now = now and w = w, OF assms(1-3)])
  from assms(4) obtain cw' z where
    m: "materialize now ?pv ?s (scope_from_principal p) (cu_cache r, w) = (cw', Inr z)"
    and p': "p' = apply_scope z p"
    by (auto simp: enrich_def act_bind_Inr)
  have "source (cu_db r) ?s = Inr (Some z)"
    using m run unfolding materialize_caching [OF pv(1)] pv(2)
    by (cases ?run) (auto simp: apply_fallback_def split: sum.splits option.splits)
  with p' show ?thesis by (auto simp: apply_scope_def)
qed

definition scope_table :: "unit \<Rightarrow> scope_subject \<Rightarrow> web_error + authorization_scope option" where
  "scope_table u s = Inr (if as_user_id s = ''u1'' then Some \<lparr>az_data_scope = [''own''],
     az_permission_scope = [''orders.read''], az_scope_revision = None\<rparr> else None)"

definition greedy_principal :: principal where
  "greedy_principal = build_principal (builder_default\<lparr>pb_tenant_id := Some ''t1'',
     pb_app_id := Some ''app1'', pb_user_id := Some ''u1'', pb_permission_scope := [''*'']\<rparr>)"

theorem enriched_scope_is_authoritative_witness:
  "\<exists>cw p'. enrich (\<lambda>_. 0) (server_resolved (\<lambda>s w. (w, scope_table () s))) AppApi greedy_principal
       (ttl_cache_new 15, ()) = (cw, Inr p')
     \<and> so_permission_scope (pr_scopes greedy_principal) = [''*'']
     \<and> so_permission_scope (pr_scopes p') = [''orders.read'']"
proof -
  let ?r = "\<lparr>cu_now = 0, cu_cache = ttl_cache_new 15, cu_db = (), cu_pending = []\<rparr>
    :: (unit, scope_subject, authorization_scope option) cache_run"
  have run: "(scope_cache.cache_step scope_table (scope_cache.quiet scope_table))\<^sup>*\<^sup>* ?r ?r" by simp
  have v: "valid_subject (subject_for_principal greedy_principal AppApi)" by code_simp
  have u: "as_user_id (subject_for_principal greedy_principal AppApi) = ''u1''" by code_simp
  have g: "so_permission_scope (pr_scopes greedy_principal) = [''*'']" by code_simp
  let ?z = "\<lparr>az_data_scope = [''own''], az_permission_scope = [''orders.read''], az_scope_revision = None\<rparr>"
  have t: "scope_table () (subject_for_principal greedy_principal AppApi) = Inr (Some ?z)"
    using u by (simp add: scope_table_def)
  obtain cw p' where e: "enrich (\<lambda>_. 0) (server_resolved (\<lambda>s w. (w, scope_table () s))) AppApi
      greedy_principal (ttl_cache_new 15, ()) = (cw, Inr p')"
    by (simp add: enrich_def act_bind_def materialize_def server_resolved_def get_valid_def
        ttl_cache_new_def t)
  have "enrich (\<lambda>_. 0) (server_resolved (\<lambda>s w. (w, scope_table (cu_db ?r) s))) AppApi
      greedy_principal (cu_cache ?r, ()) = (cw, Inr p')"
    using e by simp
  from enriched_scope_is_authoritative [where r = ?r, OF run v _ this]
  have "so_permission_scope (pr_scopes p') = [''orders.read'']" by (auto simp: t)
  with e g show ?thesis by blast
qed

end
