(* ===== verification/Base64url.thy ===== *)
theory Base64url
  imports Prelude "HOL-Library.Word"
begin

section \<open>Base64url\<close>

text \<open>
  Models the base64url decoders of \<open>jwt.rs\<close> and \<open>parsers.rs\<close> and the encoder of
  \<open>jwt_fixtures.rs\<close>, with their 32-bit buffers. Bits that were already used stay in the high
  part of a buffer and fall out of it; \<open>pending\<close> reads the bits that still count.
\<close>

unbundle bit_operations_syntax

definition between :: "char \<Rightarrow> char \<Rightarrow> char \<Rightarrow> bool" where
  "between c a b \<longleftrightarrow> of_char a \<le> (of_char c :: nat) \<and> (of_char c :: nat) \<le> of_char b"

definition b64_value :: "char \<Rightarrow> nat option" where
  "b64_value c =
     (if between c (CHR ''A'') (CHR ''Z'') then Some (of_char c - of_char (CHR ''A''))
      else if between c (CHR ''a'') (CHR ''z'') then Some (of_char c - of_char (CHR ''a'') + 26)
      else if between c (CHR ''0'') (CHR ''9'') then Some (of_char c - of_char (CHR ''0'') + 52)
      else if c = CHR ''-'' \<or> c = CHR ''+'' then Some 62
      else if c = CHR ''_'' \<or> c = CHR ''/'' then Some 63
      else None)"

definition byte_of :: "32 word \<Rightarrow> char" where
  "byte_of w = char_of (unat (take_bit 8 w))"

text \<open>The decoder of \<open>jwt.rs\<close>: a byte at a time, failing with the offending byte.\<close>

fun decode_jwt_loop :: "32 word \<Rightarrow> nat \<Rightarrow> string \<Rightarrow> string + string" where
  "decode_jwt_loop buffer bits [] = Inr []"
| "decode_jwt_loop buffer bits (c # cs) =
     (if c = CHR ''='' then Inr []
      else case b64_value c of
        None \<Rightarrow> Inl (''invalid base64url character `'' @ show_nat (of_char c) @ ''`'')
      | Some v \<Rightarrow>
          (let buffer = push_bit 6 buffer OR word_of_nat v; bits = bits + 6 in
           if 8 \<le> bits
           then case decode_jwt_loop buffer (bits - 8) cs of
                  Inl e \<Rightarrow> Inl e
                | Inr bs \<Rightarrow> Inr (byte_of (drop_bit (bits - 8) buffer) # bs)
           else decode_jwt_loop buffer bits cs))"

definition decode_base64url :: "string \<Rightarrow> string + string" where
  "decode_base64url s = decode_jwt_loop 0 0 s"

text \<open>The decoder of \<open>parsers.rs\<close>: it takes bytes out while there are eight bits.\<close>

fun take_bytes :: "32 word \<Rightarrow> nat \<Rightarrow> string \<times> nat" where
  "take_bytes buffer bits =
     (if 8 \<le> bits
      then case take_bytes buffer (bits - 8) of (bs, left) \<Rightarrow> (byte_of (drop_bit (bits - 8) buffer) # bs, left)
      else ([], bits))"

declare take_bytes.simps [simp del]

fun decode_claims_loop :: "32 word \<Rightarrow> nat \<Rightarrow> string \<Rightarrow> string option" where
  "decode_claims_loop buffer bits [] = Some []"
| "decode_claims_loop buffer bits (c # cs) =
     (if c = CHR ''='' then Some []
      else case b64_value c of
        None \<Rightarrow> None
      | Some v \<Rightarrow>
          (let buffer = push_bit 6 buffer OR word_of_nat v in
           case take_bytes buffer (bits + 6) of (out, left) \<Rightarrow>
             map_option (\<lambda>bs. out @ bs) (decode_claims_loop buffer left cs)))"

definition decode_base64url_claims :: "string \<Rightarrow> string option" where
  "decode_base64url_claims s = decode_claims_loop 0 0 s"

text \<open>The encoder.\<close>

definition b64_table :: string where
  "b64_table = ''ABCDEFGHIJKLMNOPQRSTUVWXYZabcdefghijklmnopqrstuvwxyz0123456789+/''"

definition sextet :: "32 word \<Rightarrow> char" where
  "sextet w = b64_table ! unat (take_bit 6 w)"

fun take_sextets :: "32 word \<Rightarrow> nat \<Rightarrow> string \<times> nat" where
  "take_sextets buffer bits =
     (if 6 \<le> bits
      then case take_sextets buffer (bits - 6) of (cs, left) \<Rightarrow> (sextet (drop_bit (bits - 6) buffer) # cs, left)
      else ([], bits))"

declare take_sextets.simps [simp del]

fun encode_loop :: "32 word \<Rightarrow> nat \<Rightarrow> string \<Rightarrow> string" where
  "encode_loop buffer bits [] =
     (if 0 < bits then [sextet (push_bit (6 - bits) buffer)] else [])"
| "encode_loop buffer bits (b # bs) =
     (let buffer = push_bit 8 buffer OR word_of_nat (of_char b) in
      case take_sextets buffer (bits + 8) of (out, left) \<Rightarrow> out @ encode_loop buffer left bs)"

definition safe_char :: "char \<Rightarrow> char" where
  "safe_char c = (if c = CHR ''+'' then CHR ''-'' else if c = CHR ''/'' then CHR ''_'' else c)"

definition url_safe :: "string \<Rightarrow> string" where
  "url_safe s = map safe_char s"

definition encode_base64url :: "string \<Rightarrow> string" where
  "encode_base64url s = trim_end_char (CHR ''='') (url_safe (encode_loop 0 0 s))"

subsection \<open>The two decoders\<close>

lemma take_bytes_one:
  "bits < 8 \<Longrightarrow> take_bytes w bits = ([], bits)"
  "8 \<le> bits \<Longrightarrow> bits < 16 \<Longrightarrow> take_bytes w bits = ([byte_of (drop_bit (bits - 8) w)], bits - 8)"
  by (simp_all add: take_bytes.simps)

lemma decode_loops_agree:
  "bits < 8 \<Longrightarrow>
     decode_claims_loop w bits cs = (case decode_jwt_loop w bits cs of Inl _ \<Rightarrow> None | Inr bs \<Rightarrow> Some bs)"
proof (induction cs arbitrary: w bits)
  case (Cons c cs)
  show ?case
  proof (cases "bits < 2")
    case True
    then show ?thesis using Cons.IH[of "bits + 6"]
      by (auto simp: Let_def take_bytes_one option.map_id0 split: option.split sum.split)
  next
    case False
    then show ?thesis using Cons.IH[of "bits - 2"] Cons.prems
      by (auto simp: Let_def take_bytes_one split: option.split sum.split)
  qed
qed simp

subsection \<open>Decoding what was encoded\<close>

lemma take_sextets_steps:
  "bits < 6 \<Longrightarrow> take_sextets w bits = ([], bits)"
  "6 \<le> bits \<Longrightarrow> bits < 12 \<Longrightarrow> take_sextets w bits = ([sextet (drop_bit (bits - 6) w)], bits - 6)"
  "take_sextets w 12 = ([sextet (drop_bit 6 w), sextet w], 0)"
  by (simp_all add: take_sextets.simps)

lemma table_values: "map (\<lambda>c. b64_value (safe_char c)) b64_table = map Some [0..<64]"
  by (simp add: b64_table_def safe_char_def b64_value_def between_def upt_conv_Cons)

lemma table_inverse: "i < 64 \<Longrightarrow> b64_value (safe_char (b64_table ! i)) = Some i"
proof -
  assume i: "i < 64"
  moreover have "length b64_table = 64" by (simp add: b64_table_def)
  ultimately have "b64_value (safe_char (b64_table ! i)) = map (\<lambda>c. b64_value (safe_char c)) b64_table ! i"
    by simp
  with i show ?thesis by (simp only: table_values nth_map length_upt nth_upt) simp
qed

lemma pad_no_value: "b64_value CHR ''='' = None"
  by (simp add: b64_value_def between_def)

lemma sextet_inverse:
  "b64_value (safe_char (sextet w)) = Some (unat (take_bit 6 w))"
  "safe_char (sextet w) \<noteq> CHR ''=''"
proof -
  have p64: "(2::nat) ^ 6 = 64" by simp
  have "unat (take_bit 6 w) < 64"
    by (metis unsigned_take_bit_eq take_bit_nat_less_exp p64)
  then show 1: "b64_value (safe_char (sextet w)) = Some (unat (take_bit 6 w))"
    unfolding sextet_def by (rule table_inverse)
  with pad_no_value show "safe_char (sextet w) \<noteq> CHR ''=''" by (metis option.distinct(1))
qed

text \<open>\<open>feed k w v\<close> shifts a buffer left and puts a value in; it is opaque to the
  simplifier, which would take the shifts apart.\<close>

definition feed :: "nat \<Rightarrow> 32 word \<Rightarrow> 32 word \<Rightarrow> 32 word" where
  "feed k w v = push_bit k w OR v"

lemma decode_safe_sextet:
  "decode_jwt_loop u bits (safe_char (sextet w) # cs) =
     (if 2 \<le> bits
      then case decode_jwt_loop (feed 6 u (take_bit 6 w)) (bits - 2) cs of
             Inl e \<Rightarrow> Inl e
           | Inr bs \<Rightarrow> Inr (byte_of (drop_bit (bits - 2) (feed 6 u (take_bit 6 w))) # bs)
      else decode_jwt_loop (feed 6 u (take_bit 6 w)) (bits + 6) cs)"
proof -
  have "bits + 6 - 8 = bits - 2" "8 \<le> bits + 6 \<longleftrightarrow> 2 \<le> bits" by simp_all
  then show ?thesis
    by (simp only: decode_jwt_loop.simps sextet_inverse Let_def if_False option.case of_nat_unat
        ucast_id feed_def)
qed

definition wbyte :: "char \<Rightarrow> 32 word" where "wbyte c = word_of_nat (of_char c)"

lemma unat_wbyte: "unat (wbyte c) = of_char c"
proof -
  have 1: "(of_char c :: nat) < 256" by (metis of_char_mod_256 mod_less_divisor zero_less_numeral)
  have "(256 :: nat) < 2 ^ 32" by simp
  with 1 have "(of_char c :: nat) < 2 ^ 32" by (rule less_trans)
  then have "take_bit 32 (of_char c :: nat) = of_char c" by (simp only: take_bit_nat_eq_self_iff)
  then show ?thesis by (simp add: wbyte_def unsigned_of_nat)
qed

lemma encode_byte:
  "encode_loop w bits (b # bs) =
     (case take_sextets (feed 8 w (wbyte b)) (bits + 8) of
        (out, left) \<Rightarrow> out @ encode_loop (feed 8 w (wbyte b)) left bs)"
  by (simp add: feed_def wbyte_def Let_def)

lemma wbyte_bit: "bit (wbyte c) n \<longleftrightarrow> n < 8 \<and> bit (of_char c :: nat) n"
proof -
  have "bit (wbyte c) n = bit (unat (wbyte c)) n" by (simp only: bit_unsigned_iff) auto
  also have "\<dots> = bit (of_char c :: nat) n" by (simp only: unat_wbyte)
  also have "\<dots> = bit (take_bit 8 (of_char c :: nat)) n" by (simp add: take_bit_eq_mod)
  finally show ?thesis by (simp add: bit_take_bit_iff)
qed

lemma byte_ofI: "take_bit 8 w = wbyte c \<Longrightarrow> byte_of w = c"
  by (simp add: byte_of_def unat_wbyte)


lemma bytes_by_three [case_names none one two three]:
  assumes "P []" "\<And>a. P [a]" "\<And>a b. P [a, b]" "\<And>a b c s. P s \<Longrightarrow> P (a # b # c # s)"
  shows "P s"
proof (induction s rule: length_induct)
  case (1 s)
  then show ?case
    by (cases s rule: remdups_adj.cases; cases "tl (tl s)") (auto intro: assms)
qed


lemma byte_of_bits:
  assumes "\<And>n. n < 8 \<Longrightarrow> bit w n = bit (wbyte c) n"
  shows "byte_of w = c"
  by (rule byte_ofI, rule bit_word_eqI) (use assms in \<open>auto simp: bit_take_bit_iff wbyte_bit\<close>)


lemma below_eight: "n < 8 \<Longrightarrow> n \<in> {0, 1, 2, 3, 4, 5, 6, 7 :: nat}"
  by auto

lemmas bits_of_shifts = bit_or_iff bit_push_bit_iff bit_drop_bit_eq o_def bit_take_bit_iff

text \<open>The three places a byte takes in a group of four characters.\<close>

lemma byte_places:
  "byte_of (drop_bit 4 (feed 6 (feed 6 u (take_bit 6 (drop_bit 2 (feed 8 w (wbyte a)))))
     (take_bit 6 (push_bit 4 (feed 8 w (wbyte a)))))) = a"
  "byte_of (drop_bit 4 (feed 6 (feed 6 u (take_bit 6 (drop_bit 2 (feed 8 w (wbyte a)))))
     (take_bit 6 (drop_bit 4 (feed 8 (feed 8 w (wbyte a)) (wbyte b)))))) = a"
  "byte_of (drop_bit 2 (feed 6 (feed 6 u (take_bit 6 (drop_bit 4 (feed 8 w (wbyte b)))))
     (take_bit 6 (push_bit 2 (feed 8 w (wbyte b)))))) = b"
  "byte_of (drop_bit 2 (feed 6 (feed 6 u (take_bit 6 (drop_bit 4 (feed 8 w (wbyte b)))))
     (take_bit 6 (drop_bit 6 (feed 8 (feed 8 w (wbyte b)) (wbyte c)))))) = b"
  "byte_of (feed 6 (feed 6 u (take_bit 6 (drop_bit 6 (feed 8 w (wbyte c)))))
     (take_bit 6 (feed 8 w (wbyte c)))) = c"
  by (rule byte_of_bits, drule below_eight, elim insertE;
      simp only: bits_of_shifts feed_def; simp; simp add: wbyte_bit)+

lemma decode_encode_loop:
  "decode_jwt_loop u 0 (map safe_char (encode_loop w 0 bs)) = Inr bs"
proof (induction bs arbitrary: u w rule: bytes_by_three)
  case (three a b c s)
  then show ?case
    by (simp add: encode_byte take_sextets_steps decode_safe_sextet byte_places
        del: decode_jwt_loop.simps(2) encode_loop.simps(2))
qed (simp_all add: encode_byte take_sextets_steps decode_safe_sextet byte_places
  byte_places [simplified] del: decode_jwt_loop.simps(2) encode_loop.simps(2))

text \<open>The encoder never writes padding, so \<open>trim_end_matches\<close> has nothing to remove.\<close>

lemma take_sextets_made: "set (fst (take_sextets w bits)) \<subseteq> range sextet"
  by (induction w bits rule: take_sextets.induct)
    (subst take_sextets.simps, auto split: prod.splits)

lemma encode_loop_made: "set (encode_loop w bits bs) \<subseteq> range sextet"
proof (induction bs arbitrary: w bits)
  case (Cons b bs)
  then show ?case
    using take_sextets_made [of "push_bit 8 w OR word_of_nat (of_char b)" "bits + 8"]
    by (simp add: Let_def case_prod_beta)
qed auto

lemma trim_end_char_absent: "c \<notin> set s \<Longrightarrow> trim_end_char c s = s"
  by (cases "rev s") (auto simp: trim_end_char_def rev_swap)

lemma encode_base64url_no_trim: "encode_base64url s = map safe_char (encode_loop 0 0 s)"
proof -
  have "CHR ''='' \<notin> set (map safe_char (encode_loop 0 0 s))"
    using encode_loop_made [of 0 0 s] sextet_inverse(2) by (auto simp: eq_commute)
  then show ?thesis by (simp add: encode_base64url_def url_safe_def trim_end_char_absent)
qed

text \<open>The two base64url decoders of the code agree on every input: the one that reads
  token claims before they are verified returns bytes exactly where the one that verifies
  them does, and the same bytes. Neither can therefore see a claim the other does not see.\<close>

theorem base64url_decoders_agree:
  "decode_base64url_claims s = (case decode_base64url s of Inl _ \<Rightarrow> None | Inr bs \<Rightarrow> Some bs)"
  by (simp add: decode_base64url_claims_def decode_base64url_def decode_loops_agree)

text \<open>C35: Base64url round trip: decoding what the encoder wrote gives back the bytes, for
  every byte string and in both decoders, across the 32-bit buffers that keep stale bits and
  for each of the three lengths of the last group.\<close>

theorem base64url_roundtrip:
  "decode_base64url (encode_base64url bs) = Inr bs \<and>
   decode_base64url_claims (encode_base64url bs) = Some bs"
  by (simp add: decode_base64url_claims_def decode_base64url_def decode_loops_agree
      encode_base64url_no_trim decode_encode_loop)

lemma decoder_stops_at_padding: "decode_base64url (encode_base64url bs @ CHR ''='' # s) = Inr bs"
proof -
  have "decode_jwt_loop w bits (cs @ CHR ''='' # s) = decode_jwt_loop w bits cs" for w bits cs
    by (induction cs arbitrary: w bits) (auto simp: Let_def split: option.split)
  then show ?thesis by (simp add: decode_base64url_def encode_base64url_no_trim decode_encode_loop)
qed

end
