(* ===== verification/Token_Claims.thy ===== *)
theory Token_Claims
  imports Base64url Problem
begin

section \<open>Claims of tokens and keys\<close>

text \<open>
  Models \<open>parsers.rs\<close>, \<open>token_version.rs\<close> and \<open>jwt_claims.rs\<close>: how the text of a credential
  becomes a map of claims, how single claims are read, and the checks of version, type, time,
  issuer and audience. A \<open>BTreeMap<String, String>\<close> is an association list with unique keys
  (its order is never observed). Parsing JSON is a parameter, checking UTF-8 is not.
\<close>

type_synonym claims = "(string \<times> string) list"

text \<open>Collecting pairs into a map: the last of two equal keys wins.\<close>

definition claims_of_pairs :: "(string \<times> string) list \<Rightarrow> claims" where
  "claims_of_pairs kvs = fold (\<lambda>(k, v). AList.update k v) kvs []"

lemma map_of_fold_update: "map_of (fold (\<lambda>(k, v). AList.update k v) kvs m) = map_of m ++ map_of (rev kvs)"
  by (induction kvs arbitrary: m) (auto simp: update_conv' map_add_def fun_eq_iff split: option.splits)

lemma claims_of_pairs_lookup: "map_of (claims_of_pairs kvs) = map_of (rev kvs)"
  by (simp add: claims_of_pairs_def map_of_fold_update)

subsection \<open>UTF-8\<close>

text \<open>\<open>str::from_utf8\<close>: \<open>utf8_error\<close> is the text of the error, with the index of the first
  ill-formed sequence and the number of its bytes that are wrong for certain.\<close>

definition in_bytes :: "nat \<Rightarrow> nat \<Rightarrow> char \<Rightarrow> bool" where
  "in_bytes a b c \<longleftrightarrow> a \<le> code c \<and> code c \<le> b"

definition utf8_second_of_three :: "char \<Rightarrow> char \<Rightarrow> bool" where
  "utf8_second_of_three b c =
     (if code b = 224 then in_bytes 160 191 c
      else if code b = 237 then in_bytes 128 159 c else in_bytes 128 191 c)"

definition utf8_second_of_four :: "char \<Rightarrow> char \<Rightarrow> bool" where
  "utf8_second_of_four b c =
     (if code b = 240 then in_bytes 144 191 c
      else if code b = 244 then in_bytes 128 143 c else in_bytes 128 191 c)"

definition utf8_incomplete :: "nat \<Rightarrow> string" where
  "utf8_incomplete i = ''incomplete utf-8 byte sequence from index '' @ show_nat i"

definition utf8_invalid :: "nat \<Rightarrow> nat \<Rightarrow> string" where
  "utf8_invalid n i = ''invalid utf-8 sequence of '' @ show_nat n @ '' bytes from index '' @ show_nat i"

text \<open>The bytes after the first of a sequence, each with its test.\<close>

fun utf8_tail :: "(char \<Rightarrow> bool) list \<Rightarrow> nat \<Rightarrow> nat \<Rightarrow> string \<Rightarrow> string + string" where
  "utf8_tail [] n i s = Inr s"
| "utf8_tail (p # ps) n i [] = Inl (utf8_incomplete i)"
| "utf8_tail (p # ps) n i (c # s) = (if p c then utf8_tail ps (n + 1) i s else Inl (utf8_invalid n i))"

lemma utf8_tail_length: "utf8_tail ps n i s = Inr t \<Longrightarrow> length t \<le> length s"
  by (induction ps n i s rule: utf8_tail.induct) (auto split: if_splits)

definition utf8_tests :: "char \<Rightarrow> (char \<Rightarrow> bool) list option" where
  "utf8_tests b =
     (if code b < 128 then Some []
      else if in_bytes 194 223 b then Some [in_bytes 128 191]
      else if in_bytes 224 239 b then Some [utf8_second_of_three b, in_bytes 128 191]
      else if in_bytes 240 244 b then Some [utf8_second_of_four b, in_bytes 128 191, in_bytes 128 191]
      else None)"

function utf8_error :: "nat \<Rightarrow> string \<Rightarrow> string option" where
  "utf8_error i [] = None"
| "utf8_error i (b # s) =
     (case utf8_tests b of
        None \<Rightarrow> Some (utf8_invalid 1 i)
      | Some ps \<Rightarrow>
          (case utf8_tail ps 1 i s of
             Inl e \<Rightarrow> Some e
           | Inr rest \<Rightarrow> utf8_error (i + 1 + length ps) rest))"
  by pat_completeness auto
termination
  by (relation "measure (\<lambda>(i, s). length s)") (auto dest: utf8_tail_length)

definition from_utf8 :: "string \<Rightarrow> string + string" where
  "from_utf8 s = (case utf8_error 0 s of None \<Rightarrow> Inr s | Some e \<Rightarrow> Inl e)"

lemma from_utf8_ascii: "list_all (\<lambda>c. code c < 128) s \<Longrightarrow> from_utf8 s = Inr s"
proof -
  have "list_all (\<lambda>c. code c < 128) s \<Longrightarrow> utf8_error i s = None" for i
    by (induction s arbitrary: i) (auto simp: utf8_tests_def)
  then show "list_all (\<lambda>c. code c < 128) s \<Longrightarrow> from_utf8 s = Inr s" by (simp add: from_utf8_def)
qed

text \<open>The first characters of a text, each with its continuation bytes.\<close>

fun take_chars :: "nat \<Rightarrow> string \<Rightarrow> string" where
  "take_chars n [] = []"
| "take_chars n (c # s) =
     (if n = 0 then []
      else c # takeWhile (in_bytes 128 191) s @ take_chars (n - 1) (dropWhile (in_bytes 128 191) s))"

subsection \<open>From text to claims\<close>

definition require_sdkwork_jwt :: "string \<Rightarrow> string \<Rightarrow> web_error + unit" where
  "require_sdkwork_jwt raw label =
     (let raw = trim raw in
      if raw = [] then Inl (missing_credentials (label @ '' is required''))
      else if starts_with ''{'' raw then Inl (invalid_credentials
        (label @ '' must be a JWT compact serialization, not a JSON object''))
      else if CHR ''='' \<in> set raw \<and> CHR ''.'' \<notin> set raw then Inl (invalid_credentials
        (label @ '' must be a signed JWT; semicolon claim-string tokens are not accepted''))
      else (let parts = split_on CHR ''.'' raw in
            if length parts \<noteq> 3 \<or> (\<exists>p \<in> set parts. p = []) then Inl (invalid_credentials
              (label @ '' must be a JWT compact serialization (header.payload.signature)''))
            else Inr ()))"

fun claim_value_to_string :: "libs \<Rightarrow> json \<Rightarrow> string option"
  and claim_items :: "libs \<Rightarrow> json list \<Rightarrow> string list" where
  "claim_value_to_string L JNull = None"
| "claim_value_to_string L (JString v) = opt_filter (\<lambda>v. v \<noteq> []) (Some (trim v))"
| "claim_value_to_string L (JBool b) = Some (if b then ''true'' else ''false'')"
| "claim_value_to_string L (JInt i) = Some (show_int i)"
| "claim_value_to_string L (JFloat t) = Some t"
| "claim_value_to_string L (JArray items) =
     (let values = claim_items L items in if values = [] then None else Some (str_join '','' values))"
| "claim_value_to_string L (JObject kvs) = Some (lib_json_encode L (JObject kvs))"
| "claim_items L [] = []"
| "claim_items L (v # vs) =
     (case claim_value_to_string L v of None \<Rightarrow> [] | Some s \<Rightarrow> [s]) @ claim_items L vs"

definition object_claims :: "libs \<Rightarrow> (string \<times> json) list \<Rightarrow> claims" where
  "object_claims L kvs =
     claims_of_pairs (List.map_filter (\<lambda>(k, v). map_option (Pair k) (claim_value_to_string L v)) kvs)"

definition parse_json_claims :: "libs \<Rightarrow> string \<Rightarrow> web_error + claims" where
  "parse_json_claims L raw =
     (case lib_json_parse L raw of
        Inl e \<Rightarrow> Inl (invalid_credentials (''invalid JSON claims: '' @ e))
      | Inr (JObject kvs) \<Rightarrow> Inr (object_claims L kvs)
      | Inr _ \<Rightarrow> Inl (invalid_credentials ''token claims must be a JSON object''))"

definition parse_key_value_claims :: "string \<Rightarrow> claims" where
  "parse_key_value_claims raw =
     claims_of_pairs (List.map_filter (\<lambda>part.
       case split_once CHR ''='' part of
         None \<Rightarrow> None
       | Some (k, v) \<Rightarrow>
           (let k = trim k; v = trim v in if k = [] \<or> v = [] then None else Some (k, v)))
       (split_on CHR '';'' raw))"

definition parse_jwt_payload_claims :: "libs \<Rightarrow> string \<Rightarrow> claims option" where
  "parse_jwt_payload_claims L raw =
     (case split_on CHR ''.'' raw of
        header # payload # signature # _ \<Rightarrow>
          (case decode_base64url_claims payload of
             None \<Rightarrow> None
           | Some decoded \<Rightarrow>
               (case from_utf8 decoded of
                  Inl _ \<Rightarrow> None
                | Inr text \<Rightarrow>
                    (case parse_json_claims L text of Inl _ \<Rightarrow> None | Inr cs \<Rightarrow> Some cs)))
      | _ \<Rightarrow> None)"

definition parse_claims :: "libs \<Rightarrow> string \<Rightarrow> web_error + claims" where
  "parse_claims L raw =
     (let raw = trim raw in
      if raw = [] then Inr []
      else if starts_with ''{'' raw then parse_json_claims L raw
      else case parse_jwt_payload_claims L raw of
             Some cs \<Rightarrow> Inr cs
           | None \<Rightarrow> Inr (parse_key_value_claims raw))"

subsection \<open>Single claims\<close>

definition split_claim :: "string option \<Rightarrow> string list" where
  "split_claim v =
     (case v of None \<Rightarrow> [] | Some v \<Rightarrow> filter (\<lambda>item. item \<noteq> []) (map trim (split_on CHR '','' v)))"

definition optional_claim :: "claims \<Rightarrow> string \<Rightarrow> string option" where
  "optional_claim cs key = opt_filter (\<lambda>v. v \<noteq> []) (map_option trim (map_of cs key))"

definition required_claim :: "claims \<Rightarrow> string \<Rightarrow> web_error + string" where
  "required_claim cs key =
     ok_or (opt_filter (\<lambda>v. v \<noteq> []) (map_option trim (map_of cs key)))
       (invalid_credentials (key @ '' claim is required''))"

definition claim_or_default :: "claims \<Rightarrow> string \<Rightarrow> string \<Rightarrow> string" where
  "claim_or_default cs key d = unwrap_or (optional_claim cs key) d"

definition derive_key_prefix :: "string \<Rightarrow> string option" where
  "derive_key_prefix raw = (let p = take_chars 12 raw in if p = [] then None else Some p)"

definition parse_environment :: "string option \<Rightarrow> environment" where
  "parse_environment v =
     (let s = to_lower (trim (unwrap_or v ''prod'')) in
      if s \<in> {''dev'', ''development''} then Dev
      else if s \<in> {''test'', ''testing''} then Test
      else if s = ''demo'' then Test
      else Prod)"

definition parse_deployment_mode :: "string option \<Rightarrow> deployment_mode" where
  "parse_deployment_mode v =
     (let s = to_lower (trim (unwrap_or v ''saas'')) in
      if s = ''local'' then LocalDeployment
      else if s \<in> {''private'', ''private_cloud''} then Private
      else Saas)"

definition parse_auth_level :: "string option \<Rightarrow> auth_level" where
  "parse_auth_level v =
     (let s = to_lower (trim (unwrap_or v ''password'')) in
      if s = ''anonymous'' then LevelAnonymous
      else if s = ''mfa'' then LevelMfa
      else if s = ''system'' then LevelSystem
      else if s \<in> {''api_key'', ''apikey''} then LevelApiKey
      else LevelPassword)"

definition parse_subject_type :: "string option \<Rightarrow> subject_type" where
  "parse_subject_type v =
     (let s = to_lower (trim (unwrap_or v ''user'')) in
      if s = ''service'' then SubjectService
      else if s \<in> {''api_key'', ''apikey''} then SubjectApiKey
      else if s = ''system'' then SubjectSystem
      else SubjectUser)"

definition real_organization :: "string option \<Rightarrow> bool" where
  "real_organization org = (case map_option trim org of None \<Rightarrow> False | Some v \<Rightarrow> v \<noteq> [] \<and> v \<noteq> ''0'')"

definition parse_login_scope :: "string option \<Rightarrow> string option \<Rightarrow> web_error + login_scope" where
  "parse_login_scope value org =
     res_bind
       (case opt_filter (\<lambda>v. v \<noteq> []) (map_option trim value) of
          Some v \<Rightarrow>
            if eq_ignore_case v ''TENANT'' then Inr ScopeTenant
            else if eq_ignore_case v ''ORGANIZATION'' then Inr ScopeOrganization
            else Inl (invalid_credentials (''unsupported login_scope claim: '' @ v))
        | None \<Rightarrow> Inr (login_scope_from_organization_id org))
       (\<lambda>scope. case scope of
          ScopeTenant \<Rightarrow>
            if real_organization org then Inl (invalid_credentials
              ''login_scope TENANT requires organization_id to be absent or 0'')
            else Inr scope
        | ScopeOrganization \<Rightarrow>
            if real_organization org then Inr scope
            else Inl (invalid_credentials
              ''login_scope ORGANIZATION requires a non-zero organization_id''))"

text \<open>Whatever scope is claimed, the one that is accepted is the one of the organization.\<close>

lemma parse_login_scope_exact:
  "parse_login_scope value org = Inr scope \<Longrightarrow> scope = login_scope_from_organization_id org"
proof -
  assume "parse_login_scope value org = Inr scope"
  then obtain claimed where "(case claimed of
        ScopeTenant \<Rightarrow>
          if real_organization org then Inl (invalid_credentials
            ''login_scope TENANT requires organization_id to be absent or 0'') else Inr claimed
      | ScopeOrganization \<Rightarrow>
          if real_organization org then Inr claimed else Inl (invalid_credentials
            ''login_scope ORGANIZATION requires a non-zero organization_id'')) = Inr scope"
    by (auto simp: parse_login_scope_def res_bind_eq_Inr)
  then show ?thesis
    by (cases claimed)
      (auto simp: login_scope_from_organization_id_def real_organization_def split: option.splits if_splits)
qed

subsection \<open>Token versions\<close>

record token_version_policy =
  tv_current :: nat
  tv_minimum :: nat
  tv_maximum :: nat

definition current_token_version :: nat where "current_token_version = 1"

definition standard_version_policy :: token_version_policy where
  "standard_version_policy = \<lparr>tv_current = current_token_version, tv_minimum = current_token_version,
     tv_maximum = current_token_version\<rparr>"

definition with_upgrade_window :: "nat \<Rightarrow> token_version_policy" where
  "with_upgrade_window next_version = \<lparr>tv_current = current_token_version,
     tv_minimum = current_token_version, tv_maximum = max next_version current_token_version\<rparr>"

definition parse_token_version :: "string \<Rightarrow> web_error + nat" where
  "parse_token_version raw =
     (let raw = trim raw in
      if raw = [] then Inl (invalid_credentials ''token_version claim is required'')
      else ok_or (parse_unsigned u32_max raw) (invalid_credentials
        (''token_version claim must be a non-negative integer, got '' @ raw)))"

definition validate_token_version :: "nat \<Rightarrow> token_version_policy \<Rightarrow> web_error + unit" where
  "validate_token_version v p =
     (if v < tv_minimum p then Inl (invalid_credentials (''token_version '' @ show_nat v
        @ '' is below the accepted minimum '' @ show_nat (tv_minimum p)))
      else if tv_maximum p < v then Inl (invalid_credentials (''token_version '' @ show_nat v
        @ '' exceeds the accepted maximum '' @ show_nat (tv_maximum p)))
      else Inr ())"

definition validate_token_version_claims :: "claims \<Rightarrow> token_version_policy \<Rightarrow> web_error + unit" where
  "validate_token_version_claims cs p =
     res_bind (ok_or (map_of cs ''token_version'')
         (invalid_credentials ''token_version claim is required''))
       (\<lambda>raw. res_bind (parse_token_version raw) (\<lambda>v. validate_token_version v p))"

text \<open>The reader of the JSON payload: a number is cut to 32 bits.\<close>

definition extract_token_version_from_json :: "json \<Rightarrow> web_error + nat" where
  "extract_token_version_from_json j =
     (case json_get ''token_version'' j of
        None \<Rightarrow> Inl (invalid_credentials ''token_version claim is required'')
      | Some (JInt i) \<Rightarrow>
          (if 0 \<le> i then Inr (nat i mod (u32_max + 1))
           else Inl (invalid_credentials ''token_version claim must be a non-negative integer''))
      | Some (JFloat t) \<Rightarrow>
          (case parse_digits u64_max t of
             Some v \<Rightarrow> Inr (v mod (u32_max + 1))
           | None \<Rightarrow> Inl (invalid_credentials ''token_version claim must be a non-negative integer''))
      | Some (JString raw) \<Rightarrow> parse_token_version raw
      | Some _ \<Rightarrow> Inl (invalid_credentials ''token_version claim must be a non-negative integer''))"

definition validate_token_version_json :: "json \<Rightarrow> token_version_policy \<Rightarrow> web_error + unit" where
  "validate_token_version_json j p =
     res_bind (extract_token_version_from_json j) (\<lambda>v. validate_token_version v p)"

subsection \<open>Type, time, issuer and audience\<close>

record jwt_claim_policy =
  jp_require_exp :: bool
  jp_clock_skew_secs :: nat
  jp_expected_issuers :: "string list"
  jp_expected_audiences :: "string list"

definition production_claim_policy :: jwt_claim_policy where
  "production_claim_policy = \<lparr>jp_require_exp = True, jp_clock_skew_secs = 60,
     jp_expected_issuers = [], jp_expected_audiences = []\<rparr>"

definition with_issuer_audience :: "string list \<Rightarrow> string list \<Rightarrow> jwt_claim_policy \<Rightarrow> jwt_claim_policy"
where
  "with_issuer_audience issuers audiences p =
     p\<lparr>jp_expected_issuers := issuers, jp_expected_audiences := audiences\<rparr>"

definition saas_production :: "string list \<Rightarrow> string list \<Rightarrow> jwt_claim_policy" where
  "saas_production issuers audiences = with_issuer_audience issuers audiences production_claim_policy"

definition has_saas_issuer_audience_allowlist :: "jwt_claim_policy \<Rightarrow> bool" where
  "has_saas_issuer_audience_allowlist p = (jp_expected_issuers p \<noteq> [] \<and> jp_expected_audiences p \<noteq> [])"

definition validate_jwt_token_type_claim :: "claims \<Rightarrow> string \<Rightarrow> web_error + unit" where
  "validate_jwt_token_type_claim cs expected =
     (let actual = unwrap_or (map_of cs ''token_type'') [] in
      if trim actual = [] then Inl (invalid_credentials ''JWT token_type claim is required'')
      else if actual \<noteq> expected then Inl (invalid_credentials
        (''JWT token_type `'' @ actual @ ''` does not match expected `'' @ expected @ ''`''))
      else Inr ())"

definition parse_optional_numeric_claim :: "claims \<Rightarrow> string \<Rightarrow> web_error + nat option" where
  "parse_optional_numeric_claim cs name =
     (case map_of cs name of
        None \<Rightarrow> Inr None
      | Some raw \<Rightarrow>
          if trim raw = [] then Inr None
          else (case parse_unsigned u64_max raw of
                  None \<Rightarrow> Inl (invalid_credentials (''JWT '' @ name @ '' claim must be a numeric epoch''))
                | Some v \<Rightarrow> Inr (Some v)))"

definition parse_required_numeric_claim :: "claims \<Rightarrow> string \<Rightarrow> web_error + nat" where
  "parse_required_numeric_claim cs name =
     res_bind (parse_optional_numeric_claim cs name)
       (\<lambda>v. ok_or v (invalid_credentials (''JWT '' @ name @ '' claim is required'')))"

definition validate_jwt_issuer_audience_claims :: "claims \<Rightarrow> jwt_claim_policy \<Rightarrow> web_error + unit" where
  "validate_jwt_issuer_audience_claims cs p =
     (let iss = unwrap_or (map_of cs ''iss'') [] in
      if jp_expected_issuers p \<noteq> [] \<and> (trim iss = [] \<or> iss \<notin> set (jp_expected_issuers p))
      then Inl (invalid_credentials ''JWT iss claim is missing or not allowed'')
      else (let aud = unwrap_or (map_of cs ''aud'') [] in
            if jp_expected_audiences p \<noteq> [] \<and> (trim aud = [] \<or> aud \<notin> set (jp_expected_audiences p))
            then Inl (invalid_credentials ''JWT aud claim is missing or not allowed'')
            else Inr ()))"

text \<open>A \<open>SystemTime\<close> is a number of nanoseconds since the Unix epoch, negative before it.\<close>

definition system_time_secs :: "int \<Rightarrow> web_error + nat" where
  "system_time_secs t =
     (if t < 0 then Inl (dependency_unavailable
        (''system clock is before unix epoch: second time provided was later than self''))
      else Inr (nat (t div 1000000000)))"

definition validate_jwt_temporal_claims :: "claims \<Rightarrow> jwt_claim_policy \<Rightarrow> int \<Rightarrow> web_error + unit" where
  "validate_jwt_temporal_claims cs p now =
     res_bind (system_time_secs now) (\<lambda>now_secs.
     res_bind
       (if jp_require_exp p
        then res_bind (parse_required_numeric_claim cs ''exp'') (\<lambda>exp.
          if exp \<le> min (now_secs + jp_clock_skew_secs p) u64_max
          then Inl (invalid_credentials ''JWT exp claim is expired'') else Inr ())
        else Inr ()) (\<lambda>_.
     res_bind (parse_optional_numeric_claim cs ''nbf'') (\<lambda>nbf.
     res_bind
       (case nbf of
          Some nbf \<Rightarrow> if now_secs - jp_clock_skew_secs p < nbf
            then Inl (invalid_credentials ''JWT nbf claim is not yet valid'') else Inr ()
        | None \<Rightarrow> Inr ()) (\<lambda>_.
     validate_jwt_issuer_audience_claims cs p))))"

text \<open>What an accepted set of claims says. The skew narrows the window on both sides: a token
  is accepted from \<open>nbf + skew\<close> to \<open>exp - skew\<close>.\<close>

lemma parse_optional_numeric_claim_Some:
  "parse_optional_numeric_claim cs name = Inr (Some v) \<longleftrightarrow>
     (\<exists>raw. map_of cs name = Some raw \<and> trim raw \<noteq> [] \<and> parse_unsigned u64_max raw = Some v)"
  by (auto simp: parse_optional_numeric_claim_def split: option.splits)

lemma issuer_audience_sound:
  assumes "validate_jwt_issuer_audience_claims cs p = Inr ()"
  shows "jp_expected_issuers p = [] \<or> (\<exists>iss \<in> set (jp_expected_issuers p). map_of cs ''iss'' = Some iss)"
    "jp_expected_audiences p = [] \<or> (\<exists>aud \<in> set (jp_expected_audiences p). map_of cs ''aud'' = Some aud)"
  using assms
  by (auto simp: validate_jwt_issuer_audience_claims_def Let_def unwrap_or_def
      split: if_splits option.splits)

lemma temporal_claims_sound:
  assumes "validate_jwt_temporal_claims cs p now = Inr ()"
  shows "0 \<le> now"
    and "jp_require_exp p \<Longrightarrow> \<exists>exp. parse_optional_numeric_claim cs ''exp'' = Inr (Some exp)
           \<and> nat (now div 1000000000) + jp_clock_skew_secs p < exp"
    and "parse_optional_numeric_claim cs ''nbf'' = Inr (Some nbf) \<Longrightarrow>
           nbf \<le> nat (now div 1000000000) - jp_clock_skew_secs p"
    and "validate_jwt_issuer_audience_claims cs p = Inr ()"
proof -
  let ?n = "nat (now div 1000000000)"
  from assms show now: "0 \<le> now"
    by (auto simp: validate_jwt_temporal_claims_def system_time_secs_def res_bind_eq_Inr split: if_splits)
  from assms show "validate_jwt_issuer_audience_claims cs p = Inr ()"
    by (auto simp: validate_jwt_temporal_claims_def res_bind_eq_Inr)
  show "nbf \<le> ?n - jp_clock_skew_secs p" if "parse_optional_numeric_claim cs ''nbf'' = Inr (Some nbf)"
    using assms that
    by (auto simp: validate_jwt_temporal_claims_def system_time_secs_def res_bind_eq_Inr split: if_splits)
  assume req: "jp_require_exp p"
  with assms obtain exp where exp: "parse_required_numeric_claim cs ''exp'' = Inr exp"
    "\<not> exp \<le> min (?n + jp_clock_skew_secs p) u64_max"
    by (auto simp: validate_jwt_temporal_claims_def system_time_secs_def res_bind_eq_Inr split: if_splits)
  from exp(1) have opt: "parse_optional_numeric_claim cs ''exp'' = Inr (Some exp)"
    by (auto simp: parse_required_numeric_claim_def res_bind_eq_Inr ok_or_eq)
  then have "exp \<le> u64_max" by (auto simp: parse_optional_numeric_claim_Some dest: parse_unsigned_le)
  with exp(2) opt show "\<exists>exp. parse_optional_numeric_claim cs ''exp'' = Inr (Some exp)
      \<and> ?n + jp_clock_skew_secs p < exp"
    by auto
qed

lemma validate_token_version_claims_ok:
  "validate_token_version_claims cs standard_version_policy = Inr () \<longleftrightarrow>
     (\<exists>raw. map_of cs ''token_version'' = Some raw \<and> parse_token_version raw = Inr 1)"
  by (auto simp: validate_token_version_claims_def res_bind_eq_Inr ok_or_eq validate_token_version_def
      standard_version_policy_def current_token_version_def split: if_splits)

end
