(* ===== verification/Jwt.thy ===== *)
theory Jwt
  imports Token_Claims Effects
begin

section \<open>Signed tokens\<close>

text \<open>
  Models \<open>jwt.rs\<close> and \<open>jwt_tenant.rs\<close>: the compact serialisation and its signature, the
  verifiers, the tenant keys they look up, the revocation of sessions, and the claims as the
  parsers hand them on. A verifier is an action, since lookups and checkers are services of the
  host. HMAC-SHA-256 and RSA are parameters.
\<close>

unbundle bit_operations_syntax

subsection \<open>The codec\<close>

text \<open>\<open>cr_hmac_sha256 key message\<close> is the tag or the error of the key; a public key is known by
  its DER bytes.\<close>

record crypto =
  cr_hmac_sha256 :: "string \<Rightarrow> string \<Rightarrow> string + string"
  cr_rsa_key_error :: "string \<Rightarrow> string option"
  cr_rsa_signature_ok :: "string \<Rightarrow> bool"
  cr_rsa_verify :: "string \<Rightarrow> string \<Rightarrow> string \<Rightarrow> bool"

definition decode_base64url_json :: "libs \<Rightarrow> string \<Rightarrow> string + json" where
  "decode_base64url_json L s =
     res_bind (decode_base64url s) (\<lambda>bytes. res_bind (from_utf8 bytes) (lib_json_parse L))"

definition json_text :: "string \<Rightarrow> json \<Rightarrow> string option" where
  "json_text key j = (case json_get key j of Some (JString s) \<Rightarrow> Some s | _ \<Rightarrow> None)"

definition byte_word :: "char \<Rightarrow> 8 word" where
  "byte_word c = word_of_nat (of_char c)"

definition subtle_constant_time_eq :: "string \<Rightarrow> string \<Rightarrow> bool" where
  "subtle_constant_time_eq left right =
     (length left = length right \<and>
      fold (\<lambda>(l, r) diff. diff OR (byte_word l XOR byte_word r)) (zip left right) 0 = 0)"

definition split_jwt_compact :: "string \<Rightarrow> web_error + string \<times> string \<times> string" where
  "split_jwt_compact jwt =
     res_bind (require_sdkwork_jwt jwt ''token'') (\<lambda>_.
       case split_on CHR ''.'' jwt of
         [header, payload, signature] \<Rightarrow> Inr (header, payload, signature)
       | _ # _ # _ # _ # _ \<Rightarrow>
           Inl (invalid_credentials ''JWT compact serialization has unexpected segments'')
       | _ \<Rightarrow> Inl (invalid_credentials ''JWT compact serialization is incomplete''))"

definition verify_hs256_signature ::
  "crypto \<Rightarrow> libs \<Rightarrow> string \<Rightarrow> string \<Rightarrow> string \<Rightarrow> string \<Rightarrow> web_error + unit" where
  "verify_hs256_signature C L secret header payload signature =
     res_bind (map_err (\<lambda>e. invalid_credentials (''invalid JWT header: '' @ e))
         (decode_base64url_json L header)) (\<lambda>h.
     let alg = unwrap_or (json_text ''alg'' h) [] in
     if alg \<noteq> ''HS256'' then Inl (invalid_credentials
       (''unsupported JWT algorithm `'' @ alg @ ''`; expected HS256''))
     else res_bind (map_err (\<lambda>e. dependency_unavailable (''JWT HMAC key error: '' @ e))
         (cr_hmac_sha256 C secret (header @ ''.'' @ payload))) (\<lambda>expected.
     res_bind (map_err (\<lambda>e. invalid_credentials (''invalid JWT signature encoding: '' @ e))
         (decode_base64url signature)) (\<lambda>actual.
     if length actual \<noteq> length expected \<or> \<not> subtle_constant_time_eq actual expected
     then Inl (invalid_credentials ''JWT signature verification failed'')
     else Inr ())))"

definition verify_rs256_signature ::
  "crypto \<Rightarrow> string \<Rightarrow> string \<Rightarrow> string \<Rightarrow> string \<Rightarrow> web_error + unit" where
  "verify_rs256_signature C public_key header payload signature =
     (case cr_rsa_key_error C public_key of
        Some e \<Rightarrow> Inl (dependency_unavailable (''invalid RS256 tenant public key: '' @ e))
      | None \<Rightarrow>
          res_bind (map_err (\<lambda>e. invalid_credentials (''invalid JWT signature encoding: '' @ e))
            (decode_base64url signature)) (\<lambda>actual.
          if \<not> cr_rsa_signature_ok C actual
          then Inl (invalid_credentials ''JWT RS256 signature has invalid length'')
          else if \<not> cr_rsa_verify C public_key (header @ ''.'' @ payload) actual
          then Inl (invalid_credentials ''JWT RS256 signature verification failed'')
          else Inr ()))"

subsection \<open>Verifiers\<close>

type_synonym 'w verifier = "string \<Rightarrow> ('w, claims) action"

definition checked_claims :: "libs \<Rightarrow> string \<Rightarrow> web_error + claims" where
  "checked_claims L jwt =
     res_bind (parse_claims L jwt) (\<lambda>cs.
     res_bind (validate_token_version_claims cs standard_version_policy) (\<lambda>_.
     if cs = [] then Inl (invalid_credentials ''JWT verification produced no claims'') else Inr cs))"

definition payload_only_verify :: "libs \<Rightarrow> 'w verifier" where
  "payload_only_verify L jwt =
     act_lift (res_bind (require_sdkwork_jwt jwt ''token'') (\<lambda>_. checked_claims L jwt))"

definition hmac_sha256_verify :: "crypto \<Rightarrow> libs \<Rightarrow> string \<Rightarrow> 'w verifier" where
  "hmac_sha256_verify C L secret jwt =
     act_lift (res_bind (split_jwt_compact jwt) (\<lambda>(header, payload, signature).
       res_bind (verify_hs256_signature C L secret header payload signature) (\<lambda>_.
         checked_claims L jwt)))"

datatype verifier_type = PayloadOnlyVerifier | HmacSha256Verifier | OtherVerifier

definition uses_global_shared_jwt_verifier :: "verifier_type \<Rightarrow> bool" where
  "uses_global_shared_jwt_verifier t = (t = PayloadOnlyVerifier \<or> t = HmacSha256Verifier)"

definition validate_production_jwt_verifier :: "verifier_type \<Rightarrow> string + unit" where
  "validate_production_jwt_verifier t =
     (if uses_global_shared_jwt_verifier t
      then Inl ''production assembly must not use PayloadOnlyJwtVerifier or HmacSha256JwtVerifier; wire TenantBoundJwtVerifier with TenantSigningKeyLookup''
      else Inr ())"

subsection \<open>Tenant keys and revoked sessions\<close>

datatype key_algorithm = Hs256 | Rs256

record signing_key =
  sk_tenant_id :: string
  sk_key_id :: string
  sk_algorithm :: key_algorithm
  sk_symmetric_secret :: "string option"
  sk_rsa_public_key :: "string option"

definition hs256_key :: "string \<Rightarrow> string \<Rightarrow> string \<Rightarrow> signing_key" where
  "hs256_key tenant_id key_id secret = \<lparr>sk_tenant_id = tenant_id, sk_key_id = key_id,
     sk_algorithm = Hs256, sk_symmetric_secret = Some secret, sk_rsa_public_key = None\<rparr>"

definition rs256_spki_key :: "string \<Rightarrow> string \<Rightarrow> string \<Rightarrow> signing_key" where
  "rs256_spki_key tenant_id key_id der = \<lparr>sk_tenant_id = tenant_id, sk_key_id = key_id,
     sk_algorithm = Rs256, sk_symmetric_secret = None, sk_rsa_public_key = Some der\<rparr>"

text \<open>A lookup is its method \<open>resolve_signing_key\<close>, with the algorithm as text. The trait derives
  it from one method per algorithm; the table of keys overrides it.\<close>

type_synonym 'w key_lookup = "string \<Rightarrow> string \<Rightarrow> ('w, signing_key) action"

definition resolve_signing_key ::
  "(string \<Rightarrow> ('w, signing_key) action) \<Rightarrow> (string \<Rightarrow> ('w, signing_key) action) \<Rightarrow> 'w key_lookup" where
  "resolve_signing_key hs256 rs256 key_id alg =
     (if alg = ''HS256'' then hs256 key_id
      else if alg = ''RS256'' then rs256 key_id
      else act_fail (invalid_credentials
        (''unsupported JWT algorithm `'' @ alg @ ''` for tenant-bound verification'')))"

definition default_hs256_key :: "string \<Rightarrow> ('w, signing_key) action" where
  "default_hs256_key key_id =
     act_fail (invalid_credentials ''HS256 tenant signing key is not configured for this lookup'')"

definition default_rs256_key :: "string \<Rightarrow> ('w, signing_key) action" where
  "default_rs256_key key_id =
     act_fail (invalid_credentials ''RS256 tenant signing key is not configured for this lookup'')"

definition algorithm_name :: "key_algorithm \<Rightarrow> string" where
  "algorithm_name a = (case a of Hs256 \<Rightarrow> ''HS256'' | Rs256 \<Rightarrow> ''RS256'')"

definition static_key_lookup :: "(string \<Rightarrow> signing_key option) \<Rightarrow> 'w key_lookup" where
  "static_key_lookup keys key_id alg = act_lift
     (res_bind (ok_or (keys key_id)
         (invalid_credentials (''unknown tenant signing key id `'' @ key_id @ ''`''))) (\<lambda>key.
      if algorithm_name (sk_algorithm key) \<noteq> alg then Inl (invalid_credentials
        (''JWT algorithm `'' @ alg @ ''` does not match signing key algorithm `''
         @ algorithm_name (sk_algorithm key) @ ''`''))
      else Inr key))"

definition env_bootstrap_hs256_key :: "signing_key \<Rightarrow> string \<Rightarrow> ('w, signing_key) action" where
  "env_bootstrap_hs256_key key key_id =
     (if key_id = sk_key_id key then act_return key
      else act_fail (invalid_credentials ''bootstrap signing key lookup rejected unknown key id''))"

definition env_bootstrap_lookup :: "string \<Rightarrow> string \<Rightarrow> string \<Rightarrow> 'w key_lookup" where
  "env_bootstrap_lookup tenant_id key_id secret =
     resolve_signing_key (env_bootstrap_hs256_key (hs256_key tenant_id key_id secret)) default_rs256_key"

definition no_revocation :: "string \<Rightarrow> ('w, bool) action" where
  "no_revocation session_id = act_return False"

definition static_revocation :: "string list \<Rightarrow> string \<Rightarrow> ('w, bool) action" where
  "static_revocation revoked session_id = act_return (session_id \<in> set revoked)"

definition session_id_from_claims :: "claims \<Rightarrow> string option" where
  "session_id_from_claims cs = opt_filter (\<lambda>v. trim v \<noteq> []) (map_of cs ''session_id'')"

definition validate_jwt_session_revocation ::
  "claims \<Rightarrow> (string \<Rightarrow> ('w, bool) action) \<Rightarrow> bool \<Rightarrow> ('w, unit) action" where
  "validate_jwt_session_revocation cs is_session_revoked enforce_session_claim =
     (case session_id_from_claims cs of
        None \<Rightarrow>
          if enforce_session_claim then act_fail (invalid_credentials
            ''JWT session_id claim is required for session revocation check'')
          else act_return ()
      | Some session_id \<Rightarrow>
          act_bind (is_session_revoked session_id) (\<lambda>revoked.
            if revoked then act_fail (invalid_credentials ''JWT session has been revoked'')
            else act_return ()))"

subsection \<open>The tenant-bound verifier\<close>

record 'w tenant_verifier =
  tb_lookup :: "'w key_lookup"
  tb_claim_policy :: jwt_claim_policy
  tb_is_session_revoked :: "string \<Rightarrow> ('w, bool) action"
  tb_enforce_session_revocation :: bool

definition tenant_verifier_new :: "'w key_lookup \<Rightarrow> 'w tenant_verifier" where
  "tenant_verifier_new lookup = \<lparr>tb_lookup = lookup, tb_claim_policy = production_claim_policy,
     tb_is_session_revoked = no_revocation, tb_enforce_session_revocation = False\<rparr>"

definition with_claim_policy :: "jwt_claim_policy \<Rightarrow> 'w tenant_verifier \<Rightarrow> 'w tenant_verifier" where
  "with_claim_policy p v = v\<lparr>tb_claim_policy := p\<rparr>"

definition with_session_revocation_checker ::
  "(string \<Rightarrow> ('w, bool) action) \<Rightarrow> 'w tenant_verifier \<Rightarrow> 'w tenant_verifier" where
  "with_session_revocation_checker checker v =
     v\<lparr>tb_is_session_revoked := checker, tb_enforce_session_revocation := True\<rparr>"

definition verify_with_key ::
  "crypto \<Rightarrow> libs \<Rightarrow> signing_key \<Rightarrow> string \<Rightarrow> string \<Rightarrow> string \<Rightarrow> web_error + unit" where
  "verify_with_key C L key header payload signature =
     (case sk_algorithm key of
        Hs256 \<Rightarrow>
          res_bind (ok_or (sk_symmetric_secret key) (dependency_unavailable
              ''HS256 signing key material is missing symmetric secret''))
            (\<lambda>secret. verify_hs256_signature C L secret header payload signature)
      | Rs256 \<Rightarrow>
          res_bind (ok_or (sk_rsa_public_key key) (dependency_unavailable
              ''RS256 signing key material is missing SPKI public key''))
            (\<lambda>der. verify_rs256_signature C der header payload signature))"

definition tenant_bound_verify ::
  "crypto \<Rightarrow> libs \<Rightarrow> ('w \<Rightarrow> int) \<Rightarrow> 'w tenant_verifier \<Rightarrow> 'w verifier" where
  "tenant_bound_verify C L now v jwt =
     act_bind (act_lift (split_jwt_compact jwt)) (\<lambda>(header, payload, signature).
     act_bind (act_lift (map_err (\<lambda>e. invalid_credentials (''invalid JWT header: '' @ e))
         (decode_base64url_json L header))) (\<lambda>h.
     let alg = unwrap_or (json_text ''alg'' h) [] in
     if alg \<noteq> ''HS256'' \<and> alg \<noteq> ''RS256'' then act_fail (invalid_credentials
       (''unsupported JWT algorithm `'' @ alg @ ''`; expected HS256 or RS256''))
     else
     act_bind (act_lift (ok_or (opt_filter (\<lambda>k. trim k \<noteq> []) (json_text ''kid'' h))
         (invalid_credentials ''tenant-bound JWT verification requires header kid''))) (\<lambda>key_id.
     act_bind (tb_lookup v key_id alg) (\<lambda>key.
     act_bind (act_lift (verify_with_key C L key header payload signature)) (\<lambda>_.
     act_bind (act_lift (parse_claims L jwt)) (\<lambda>cs.
     act_bind (act_lift (validate_token_version_claims cs standard_version_policy)) (\<lambda>_.
     act_bind (act_check (\<lambda>w. validate_jwt_temporal_claims cs (tb_claim_policy v) (now w))) (\<lambda>_.
     act_bind (validate_jwt_session_revocation cs (tb_is_session_revoked v)
         (tb_enforce_session_revocation v)) (\<lambda>_.
     act_bind (act_lift (required_claim cs ''tenant_id'')) (\<lambda>claim_tenant.
     if claim_tenant \<noteq> sk_tenant_id key then act_fail (invalid_credentials
       (''JWT tenant_id `'' @ claim_tenant @ ''` does not match signing key tenant `''
        @ sk_tenant_id key @ ''`''))
     else if cs = [] then act_fail (invalid_credentials ''JWT verification produced no claims'')
     else act_return cs))))))))))"

subsection \<open>What is accepted\<close>

text \<open>What a checked signature means.\<close>

definition signature_holds :: "crypto \<Rightarrow> signing_key \<Rightarrow> string \<Rightarrow> string \<Rightarrow> string \<Rightarrow> bool" where
  "signature_holds C key header payload signature =
     (case sk_algorithm key of
        Hs256 \<Rightarrow> \<exists>secret tag. sk_symmetric_secret key = Some secret \<and>
          cr_hmac_sha256 C secret (header @ ''.'' @ payload) = Inr tag \<and> decode_base64url signature = Inr tag
      | Rs256 \<Rightarrow> \<exists>der tag. sk_rsa_public_key key = Some der \<and> cr_rsa_key_error C der = None \<and>
          decode_base64url signature = Inr tag \<and> cr_rsa_verify C der (header @ ''.'' @ payload) tag)"

lemma byte_word_eq: "byte_word c XOR byte_word d = 0 \<longleftrightarrow> c = d"
proof
  assume "byte_word c XOR byte_word d = 0"
  then have "(byte_word c XOR byte_word d) XOR byte_word d = 0 XOR byte_word d" by simp
  then have "byte_word c = byte_word d" by (simp add: xor.assoc)
  then have "unat (byte_word c) = unat (byte_word d)" by simp
  then have "(of_char c :: nat) = of_char d"
    by (simp add: byte_word_def unsigned_of_nat take_bit_eq_mod)
  then show "c = d" by simp
qed simp

lemma fold_diff_zero:
  fixes d :: "8 word"
  shows "fold (\<lambda>(l, r) diff. diff OR (byte_word l XOR byte_word r)) ps d = 0 \<longleftrightarrow>
     d = 0 \<and> (\<forall>(l, r) \<in> set ps. l = r)"
  by (induction ps arbitrary: d) (auto simp: byte_word_eq or_eq_0_iff)

lemma constant_time_eq: "subtle_constant_time_eq l r \<longleftrightarrow> l = r"
proof -
  have "length l = length r \<Longrightarrow> (\<forall>(a, b) \<in> set (zip l r). a = b) \<longleftrightarrow> l = r"
    by (induction l r rule: list_induct2) auto
  then show ?thesis by (auto simp: subtle_constant_time_eq_def fold_diff_zero)
qed

lemma verify_hs256_sound:
  "verify_hs256_signature C L secret h p s = Inr () \<Longrightarrow>
     \<exists>tag. cr_hmac_sha256 C secret (h @ ''.'' @ p) = Inr tag \<and> decode_base64url s = Inr tag"
  by (auto simp: verify_hs256_signature_def res_bind_eq_Inr Let_def constant_time_eq split: if_splits)

lemma verify_with_key_sound:
  "verify_with_key C L key h p s = Inr () \<Longrightarrow> signature_holds C key h p s"
  by (auto simp: verify_with_key_def signature_holds_def res_bind_eq_Inr ok_or_eq
      verify_rs256_signature_def dest!: verify_hs256_sound split: key_algorithm.splits option.splits if_splits)

lemma require_sdkwork_jwt_ok:
  "require_sdkwork_jwt raw label = Inr () \<Longrightarrow>
     \<exists>h p s. split_on CHR ''.'' (trim raw) = [h, p, s] \<and> h \<noteq> [] \<and> p \<noteq> [] \<and> s \<noteq> [] \<and>
       \<not> starts_with ''{'' (trim raw) \<and> trim raw \<noteq> []"
  by (auto simp: require_sdkwork_jwt_def Let_def length_Suc_conv numeral_3_eq_3 split: if_splits)

text \<open>The payload is the middle segment, which trimming the token does not change.\<close>

lemma split_jwt_compact_payload:
  assumes "split_jwt_compact jwt = Inr (h, p, s)"
  shows "split_on CHR ''.'' jwt = [h, p, s]" and "\<not> starts_with ''{'' (trim jwt)" and "trim jwt \<noteq> []"
    and "\<exists>h' s'. split_on CHR ''.'' (trim jwt) = [h', p, s']"
proof -
  let ?d = "CHR ''.''"
  from assms have ok: "require_sdkwork_jwt jwt ''token'' = Inr ()"
    by (auto simp: split_jwt_compact_def res_bind_eq_Inr)
  then show "\<not> starts_with ''{'' (trim jwt)" "trim jwt \<noteq> []" using require_sdkwork_jwt_ok by blast+
  from assms show split: "split_on ?d jwt = [h, p, s]"
    by (auto simp: split_jwt_compact_def res_bind_eq_Inr split: list.splits)
  from require_sdkwork_jwt_ok [OF ok] obtain h' p' s' where t: "split_on ?d (trim jwt) = [h', p', s']" by blast
  obtain l r where lr: "jwt = l @ trim jwt @ r" "\<forall>c \<in> set l \<union> set r. \<not> plain_byte c"
    using trim_removes by blast
  have "plain_byte ?d" by (simp add: plain_byte_def ascii_ws_def)
  with lr have nd: "?d \<notin> set l" "?d \<notin> set r" by auto
  have tj: "trim jwt = h' @ ?d # p' @ ?d # s'" using str_join_split_on [of ?d "trim jwt"] t by simp
  have "?d \<notin> set h'" "?d \<notin> set p'" "?d \<notin> set s'" using split_on_pieces [of _ ?d "trim jwt"] t by auto
  then have "split_on ?d ((l @ h') @ ?d # p' @ ?d # (s' @ r)) = [l @ h', p', s' @ r]"
    using nd by (subst split_on_append_sep, simp)+ (simp add: split_on_no_sep)
  moreover have "(l @ h') @ ?d # p' @ ?d # (s' @ r) = jwt" using lr(1) tj by simp
  ultimately show "\<exists>h' s'. split_on ?d (trim jwt) = [h', p, s']" using split t by auto
qed

lemma claims_decoder:
  "decode_base64url s = Inr bs \<Longrightarrow> decode_base64url_claims s = Some bs"
  by (simp add: decode_base64url_def decode_base64url_claims_def decode_loops_agree)

lemma parse_claims_payload:
  assumes "split_jwt_compact jwt = Inr (h, p, s)" and "decode_base64url_json L p = Inr (JObject kvs)"
  shows "parse_claims L jwt = Inr (object_claims L kvs)"
proof -
  from split_jwt_compact_payload(4) [OF assms(1)] obtain h' s' where
    t: "split_on CHR ''.'' (trim jwt) = [h', p, s']" by blast
  from assms(2) obtain bs tx where "decode_base64url p = Inr bs" "from_utf8 bs = Inr tx"
    "lib_json_parse L tx = Inr (JObject kvs)"
    by (auto simp: decode_base64url_json_def res_bind_eq_Inr)
  then have "parse_jwt_payload_claims L (trim jwt) = Some (object_claims L kvs)"
    using t by (simp add: parse_jwt_payload_claims_def claims_decoder parse_json_claims_def)
  then show ?thesis using split_jwt_compact_payload(2,3) [OF assms(1)] by (simp add: parse_claims_def Let_def)
qed


subsection \<open>Concrete tokens\<close>

text \<open>A host whose JSON library knows three texts, and whose tags are the first byte of the key.\<close>

definition token_libs :: libs where
  "token_libs = plain_libs\<lparr>lib_json_parse := (\<lambda>s.
     if s = ''h'' then Inr (JObject [(''alg'', JString ''HS256''), (''kid'', JString ''k1'')])
     else if s = ''p'' then Inr (JObject [(''tenant_id'', JString ''t1''), (''user_id'', JString ''u1''),
       (''session_id'', JString ''s1''), (''token_version'', JInt 1), (''exp'', JInt 2000)])
     else if s = ''n'' then Inr (JInt 5)
     else Inl ''expected value at line 1 column 1'')\<rparr>"

definition token_crypto :: crypto where
  "token_crypto = \<lparr>cr_hmac_sha256 = (\<lambda>key msg. Inr (take 1 key)), cr_rsa_key_error = (\<lambda>_. None),
     cr_rsa_signature_ok = (\<lambda>_. True), cr_rsa_verify = (\<lambda>_ _ _. False)\<rparr>"

definition token_verifier :: "unit tenant_verifier" where
  "token_verifier = with_session_revocation_checker (static_revocation [''s9''])
     (tenant_verifier_new (env_bootstrap_lookup ''t1'' ''k1'' ''secret''))"

definition plain_token :: string where
  "plain_token = encode_base64url ''h'' @ ''.'' @ encode_base64url ''p'' @ ''.'' @ encode_base64url ''s''"

text \<open>A token whose signed payload is no JSON object, with claims after the padding of the
  signature.\<close>

definition padded_token :: string where
  "padded_token = encode_base64url ''h'' @ ''.'' @ encode_base64url ''n'' @ ''.'' @ encode_base64url ''s''
     @ ''=;tenant_id=t1;user_id=admin;session_id=s1;token_version=1;exp=2000''"

lemma plain_token_accepted:
  "tenant_bound_verify token_crypto token_libs (\<lambda>_. 1000 * 1000000000) token_verifier plain_token () =
     ((), Inr [(''tenant_id'', ''t1''), (''user_id'', ''u1''), (''session_id'', ''s1''),
        (''token_version'', ''1''), (''exp'', ''2000'')])"
  by code_simp

text \<open>The signature covers only the first two segments, the decoder of the third stops at its
  padding, and a payload that is no JSON object makes the code read key-value pairs from the
  text of the token: so claims that nobody signed are accepted.\<close>

lemma unsigned_claims_accepted:
  "tenant_bound_verify token_crypto token_libs (\<lambda>_. 1000 * 1000000000) token_verifier padded_token () =
     ((), Inr [(''tenant_id'', ''t1''), (''user_id'', ''admin''), (''session_id'', ''s1''),
        (''token_version'', ''1''), (''exp'', ''2000'')])"
  by code_simp


end
