(* ===== verification/Token_Resolvers.thy ===== *)
theory Token_Resolvers
  imports Jwt
begin

section \<open>Resolvers of tokens and keys\<close>

text \<open>
  Models the claim records and parsers of \<open>parsers.rs\<close> and \<open>jwt.rs\<close> and the resolvers of
  \<open>resolvers.rs\<close> that are assembled from parsers and lookup services: how an auth token and an
  access token become one principal, what an API key or an OAuth token resolves to, and the
  production resolvers over tenant-bound verification.
\<close>

subsection \<open>Parsed credentials\<close>

record auth_token_claims =
  at_tenant_id :: "string option"
  at_organization_id :: "string option"
  at_login_scope :: login_scope
  at_user_id :: string
  at_session_id :: "string option"
  at_app_id :: "string option"
  at_auth_level :: auth_level
  at_data_scope :: "string list"
  at_permission_scope :: "string list"
  at_subject_type :: "string option"
  at_metadata :: claims

record access_token_claims =
  xt_tenant_id :: string
  xt_organization_id :: "string option"
  xt_login_scope :: login_scope
  xt_user_id :: "string option"
  xt_session_id :: "string option"
  xt_app_id :: string
  xt_environment :: environment
  xt_deployment_mode :: deployment_mode
  xt_data_scope :: "string list"
  xt_permission_scope :: "string list"
  xt_subject_type :: "string option"
  xt_metadata :: claims

record api_key_credential =
  kc_raw_value :: string
  kc_api_key_id :: "string option"
  kc_key_prefix :: "string option"
  kc_source :: string
  kc_metadata :: claims

record oauth_credential =
  oc_raw_token :: string
  oc_client_id :: "string option"
  oc_scopes :: "string list"
  oc_source :: string
  oc_metadata :: claims

text \<open>The claims of an auth token, for the subject type the caller found.\<close>

definition auth_claims :: "(claims \<Rightarrow> string option) \<Rightarrow> claims \<Rightarrow> web_error + auth_token_claims" where
  "auth_claims subject_type cs =
     (let org = optional_claim cs ''organization_id'' in
      res_bind (parse_login_scope (map_of cs ''login_scope'') org) (\<lambda>scope.
      res_bind (required_claim cs ''user_id'') (\<lambda>user_id.
      Inr \<lparr>at_tenant_id = optional_claim cs ''tenant_id'', at_organization_id = org,
        at_login_scope = scope, at_user_id = user_id,
        at_session_id = optional_claim cs ''session_id'', at_app_id = optional_claim cs ''app_id'',
        at_auth_level = parse_auth_level (map_of cs ''auth_level''),
        at_data_scope = split_claim (map_of cs ''data_scope''),
        at_permission_scope = split_claim (map_of cs ''permission_scope''),
        at_subject_type = subject_type cs, at_metadata = cs\<rparr>)))"

definition access_claims :: "(claims \<Rightarrow> string option) \<Rightarrow> claims \<Rightarrow> web_error + access_token_claims" where
  "access_claims subject_type cs =
     (let org = optional_claim cs ''organization_id'' in
      res_bind (required_claim cs ''tenant_id'') (\<lambda>tenant_id.
      res_bind (parse_login_scope (map_of cs ''login_scope'') org) (\<lambda>scope.
      res_bind (required_claim cs ''app_id'') (\<lambda>app_id.
      Inr \<lparr>xt_tenant_id = tenant_id, xt_organization_id = org, xt_login_scope = scope,
        xt_user_id = optional_claim cs ''user_id'', xt_session_id = optional_claim cs ''session_id'',
        xt_app_id = app_id, xt_environment = parse_environment (map_of cs ''environment''),
        xt_deployment_mode = parse_deployment_mode (map_of cs ''deployment_mode''),
        xt_data_scope = split_claim (map_of cs ''data_scope''),
        xt_permission_scope = split_claim (map_of cs ''permission_scope''),
        xt_subject_type = subject_type cs, xt_metadata = cs\<rparr>))))"

definition subject_or_actor :: "claims \<Rightarrow> string option" where
  "subject_or_actor cs = opt_or (optional_claim cs ''subject_type'') (optional_claim cs ''actor_kind'')"

definition subject_only :: "claims \<Rightarrow> string option" where
  "subject_only cs = optional_claim cs ''subject_type''"

definition default_parse_auth_token :: "libs \<Rightarrow> string \<Rightarrow> ('w, auth_token_claims) action" where
  "default_parse_auth_token L raw = act_lift
     (res_bind (require_sdkwork_jwt raw ''auth_token'') (\<lambda>_.
      res_bind (parse_claims L raw) (\<lambda>cs.
      res_bind (validate_token_version_claims cs standard_version_policy) (\<lambda>_.
      auth_claims subject_or_actor cs))))"

definition default_parse_access_token :: "libs \<Rightarrow> string \<Rightarrow> ('w, access_token_claims) action" where
  "default_parse_access_token L raw = act_lift
     (res_bind (require_sdkwork_jwt raw ''access_token'') (\<lambda>_.
      res_bind (parse_claims L raw) (\<lambda>cs.
      res_bind (validate_token_version_claims cs standard_version_policy) (\<lambda>_.
      access_claims subject_or_actor cs))))"

definition map_auth_token_claims :: "claims \<Rightarrow> web_error + auth_token_claims" where
  "map_auth_token_claims cs =
     res_bind (validate_token_version_claims cs standard_version_policy) (\<lambda>_.
     res_bind (validate_jwt_token_type_claim cs ''auth'') (\<lambda>_. auth_claims subject_only cs))"

definition map_access_token_claims :: "claims \<Rightarrow> web_error + access_token_claims" where
  "map_access_token_claims cs =
     res_bind (validate_token_version_claims cs standard_version_policy) (\<lambda>_.
     res_bind (validate_jwt_token_type_claim cs ''access'') (\<lambda>_. access_claims subject_only cs))"

definition verifying_auth_parser :: "'w verifier \<Rightarrow> string \<Rightarrow> ('w, auth_token_claims) action" where
  "verifying_auth_parser v raw = act_bind (v raw) (\<lambda>cs. act_lift (map_auth_token_claims cs))"

definition verifying_access_parser :: "'w verifier \<Rightarrow> string \<Rightarrow> ('w, access_token_claims) action" where
  "verifying_access_parser v raw = act_bind (v raw) (\<lambda>cs. act_lift (map_access_token_claims cs))"

definition client_id_claim :: "claims \<Rightarrow> string option" where
  "client_id_claim cs = opt_or (optional_claim cs ''client_id'') (optional_claim cs ''azp'')"

definition oauth_scopes :: "claims \<Rightarrow> string list" where
  "oauth_scopes cs = split_claim (map_of cs ''scope'') @ split_claim (map_of cs ''scopes'')"

definition default_parse_oauth_bearer :: "libs \<Rightarrow> string \<Rightarrow> ('w, oauth_credential) action" where
  "default_parse_oauth_bearer L raw =
     (let raw = trim raw in
      if raw = [] then act_fail (missing_credentials ''oauth bearer token is required'')
      else act_lift (res_bind (parse_claims L raw) (\<lambda>cs.
        Inr \<lparr>oc_raw_token = raw, oc_client_id = client_id_claim cs, oc_scopes = oauth_scopes cs,
          oc_source = claim_or_default cs ''source''
            (if cs = [] then ''raw-oauth-bearer'' else ''inline-claims''),
          oc_metadata = cs\<rparr>)))"

definition verifying_oauth_bearer_parser :: "'w verifier \<Rightarrow> string \<Rightarrow> ('w, oauth_credential) action" where
  "verifying_oauth_bearer_parser v raw =
     act_bind (v raw) (\<lambda>cs. act_return
       \<lparr>oc_raw_token = trim raw, oc_client_id = client_id_claim cs, oc_scopes = oauth_scopes cs,
        oc_source = ''verified-jwt'', oc_metadata = cs\<rparr>)"

definition default_parse_api_key :: "libs \<Rightarrow> string \<Rightarrow> ('w, api_key_credential) action" where
  "default_parse_api_key L raw =
     (let raw = trim raw in
      if raw = [] then act_fail (missing_credentials ''api key is required'')
      else act_lift (res_bind (parse_claims L raw) (\<lambda>cs.
        Inr \<lparr>kc_raw_value = raw,
          kc_api_key_id = opt_or (optional_claim cs ''api_key_id'') (optional_claim cs ''kid''),
          kc_key_prefix = opt_or (optional_claim cs ''key_prefix'') (derive_key_prefix raw),
          kc_source = claim_or_default cs ''source''
            (if cs = [] then ''raw-api-key'' else ''inline-claims''),
          kc_metadata = cs\<rparr>)))"

subsection \<open>Lookup services\<close>

record api_key_record =
  kr_api_key_id :: string
  kr_tenant_id :: string
  kr_organization_id :: "string option"
  kr_user_id :: string
  kr_app_id :: string
  kr_environment :: environment
  kr_deployment_mode :: deployment_mode
  kr_data_scope :: "string list"
  kr_permission_scope :: "string list"
  kr_subject_type :: "string option"
  kr_metadata :: claims

record oauth_record =
  or_token_id :: string
  or_client_id :: "string option"
  or_tenant_id :: string
  or_organization_id :: "string option"
  or_user_id :: string
  or_app_id :: string
  or_environment :: environment
  or_deployment_mode :: deployment_mode
  or_data_scope :: "string list"
  or_permission_scope :: "string list"
  or_subject_type :: "string option"
  or_metadata :: claims

text \<open>A service is its method and whether its type is the default service, which the code asks
  by type id.\<close>

record 'w api_key_service =
  ks_lookup :: "api_key_credential \<Rightarrow> ('w, api_key_record) action"
  ks_is_default :: bool

record 'w oauth_service =
  os_lookup :: "oauth_credential \<Rightarrow> ('w, oauth_record) action"
  os_is_default :: bool

text \<open>\<open>entry(k).or_insert(v)\<close>.\<close>

definition or_insert :: "string \<Rightarrow> string \<Rightarrow> claims \<Rightarrow> claims" where
  "or_insert k v cs = (if map_of cs k = None then AList.update k v cs else cs)"

definition or_insert_some :: "string \<Rightarrow> string option \<Rightarrow> claims \<Rightarrow> claims" where
  "or_insert_some k v cs = (case v of None \<Rightarrow> cs | Some v \<Rightarrow> or_insert k v cs)"

definition api_key_record_metadata :: "api_key_credential \<Rightarrow> claims" where
  "api_key_record_metadata c =
     or_insert_some ''key_prefix'' (kc_key_prefix c) (or_insert ''source'' (kc_source c) (kc_metadata c))"

definition oauth_record_metadata :: "oauth_credential \<Rightarrow> claims" where
  "oauth_record_metadata c =
     or_insert_some ''client_id'' (oc_client_id c) (or_insert ''source'' (oc_source c) (oc_metadata c))"

definition disabled_api_key_service :: "'w api_key_service" where
  "disabled_api_key_service = \<lparr>ks_lookup = (\<lambda>c. act_fail (invalid_credentials
     ''api key authentication is not enabled for this service profile'')), ks_is_default = False\<rparr>"

definition default_lookup_api_key :: "api_key_credential \<Rightarrow> ('w, api_key_record) action" where
  "default_lookup_api_key c = act_lift
     (let m = kc_metadata c in
      if m = [] then Inl (invalid_credentials ''default api key resolver requires claim-form api keys'')
      else res_bind (ok_or (kc_api_key_id c) (invalid_credentials ''api_key_id claim is required'')) (\<lambda>key_id.
      res_bind (required_claim m ''tenant_id'') (\<lambda>tenant_id.
      res_bind (required_claim m ''user_id'') (\<lambda>user_id.
      res_bind (required_claim m ''app_id'') (\<lambda>app_id.
      Inr \<lparr>kr_api_key_id = key_id, kr_tenant_id = tenant_id,
        kr_organization_id = optional_claim m ''organization_id'', kr_user_id = user_id,
        kr_app_id = app_id, kr_environment = parse_environment (map_of m ''environment''),
        kr_deployment_mode = parse_deployment_mode (map_of m ''deployment_mode''),
        kr_data_scope = split_claim (map_of m ''data_scope''),
        kr_permission_scope = split_claim (map_of m ''permission_scope''),
        kr_subject_type = opt_or (optional_claim m ''subject_type'') (Some ''api_key''),
        kr_metadata = api_key_record_metadata c\<rparr>)))))"

definition default_api_key_service :: "'w api_key_service" where
  "default_api_key_service = \<lparr>ks_lookup = default_lookup_api_key, ks_is_default = True\<rparr>"

text \<open>\<open>or_else\<close> on results.\<close>

definition res_or :: "'e + 'a \<Rightarrow> 'e + 'a \<Rightarrow> 'e + 'a" where
  "res_or r s = (case r of Inl _ \<Rightarrow> s | Inr a \<Rightarrow> Inr a)"

definition default_lookup_oauth_token :: "oauth_credential \<Rightarrow> ('w, oauth_record) action" where
  "default_lookup_oauth_token c = act_lift
     (let m = oc_metadata c in
      if m = [] then Inl (invalid_credentials ''default oauth resolver requires claim-form bearer tokens'')
      else res_bind (ok_or (opt_or (optional_claim m ''token_id'')
             (opt_or (optional_claim m ''jti'') (optional_claim m ''sub'')))
           (invalid_credentials ''token_id, jti, or sub claim is required for oauth bearer'')) (\<lambda>token_id.
      res_bind (required_claim m ''tenant_id'') (\<lambda>tenant_id.
      res_bind (res_or (required_claim m ''user_id'') (required_claim m ''sub'')) (\<lambda>user_id.
      res_bind (required_claim m ''app_id'') (\<lambda>app_id.
      Inr \<lparr>or_token_id = token_id, or_client_id = opt_or (oc_client_id c) (optional_claim m ''client_id''),
        or_tenant_id = tenant_id, or_organization_id = optional_claim m ''organization_id'',
        or_user_id = user_id, or_app_id = app_id,
        or_environment = parse_environment (map_of m ''environment''),
        or_deployment_mode = parse_deployment_mode (map_of m ''deployment_mode''),
        or_data_scope = (if oc_scopes c = [] then split_claim (map_of m ''data_scope'') else oc_scopes c),
        or_permission_scope = split_claim (map_of m ''permission_scope''),
        or_subject_type = opt_or (optional_claim m ''subject_type'') (Some ''service''),
        or_metadata = oauth_record_metadata c\<rparr>)))))"

definition default_oauth_service :: "'w oauth_service" where
  "default_oauth_service = \<lparr>os_lookup = default_lookup_oauth_token, os_is_default = True\<rparr>"

subsection \<open>The resolvers\<close>

definition require_optional_match :: "string \<Rightarrow> string option \<Rightarrow> string option \<Rightarrow> web_error + unit" where
  "require_optional_match name l r =
     (case (l, r) of
        (Some a, Some b) \<Rightarrow>
          if a \<noteq> b then Inl (invalid_credentials
            (''auth token and access token '' @ name @ '' contexts do not match''))
          else Inr ()
      | _ \<Rightarrow> Inr ())"

definition normalize_record_organization_id :: "string option \<Rightarrow> string" where
  "normalize_record_organization_id v = normalize_organization_scope v"

definition principal_from_access_token_claims :: "access_token_claims \<Rightarrow> principal" where
  "principal_from_access_token_claims a = build_principal (builder_default
     \<lparr>pb_tenant_id := Some (xt_tenant_id a), pb_login_scope := Some (xt_login_scope a),
      pb_organization_id := Some (normalize_organization_scope (xt_organization_id a)),
      pb_user_id := Some (unwrap_or (xt_user_id a) []), pb_session_id := xt_session_id a,
      pb_app_id := Some (xt_app_id a), pb_environment := Some (xt_environment a),
      pb_deployment_mode := Some (xt_deployment_mode a), pb_auth_level := Some LevelAnonymous,
      pb_data_scope := xt_data_scope a, pb_permission_scope := xt_permission_scope a,
      pb_subject_type := Some (parse_subject_type (xt_subject_type a))\<rparr>)"

definition dual_token_builder :: "auth_token_claims \<Rightarrow> access_token_claims \<Rightarrow> principal_builder" where
  "dual_token_builder t a = builder_default
     \<lparr>pb_tenant_id := Some (unwrap_or (at_tenant_id t) (xt_tenant_id a)),
      pb_login_scope := Some (login_scope_from_organization_id (Some (normalize_organization_scope (at_organization_id t)))), pb_organization_id := Some (normalize_organization_scope (at_organization_id t)),
      pb_user_id := Some (at_user_id t),
      pb_session_id := opt_or (at_session_id t) (xt_session_id a),
      pb_app_id := Some (xt_app_id a), pb_environment := Some (xt_environment a),
      pb_deployment_mode := Some (xt_deployment_mode a), pb_auth_level := Some (at_auth_level t),
      pb_data_scope := (if xt_data_scope a = [] then at_data_scope t else xt_data_scope a),
      pb_permission_scope :=
          (if xt_permission_scope a = [] then at_permission_scope t else xt_permission_scope a),
      pb_subject_type := Some (parse_subject_type (opt_or (xt_subject_type a) (at_subject_type t)))\<rparr>"

definition merge_dual_token :: "auth_token_claims \<Rightarrow> access_token_claims \<Rightarrow> web_error + principal" where
  "merge_dual_token t a =
     res_bind (require_optional_match ''tenant_id'' (at_tenant_id t) (Some (xt_tenant_id a))) (\<lambda>_.
     res_bind (require_optional_match ''user_id'' (Some (at_user_id t)) (xt_user_id a)) (\<lambda>_.
     res_bind (require_optional_match ''session_id'' (at_session_id t) (xt_session_id a)) (\<lambda>_.
     res_bind (require_optional_match ''app_id'' (at_app_id t) (Some (xt_app_id a))) (\<lambda>_.
     res_bind (require_optional_match ''subject_type'' (at_subject_type t) (xt_subject_type a)) (\<lambda>_.
     let org = normalize_organization_scope (at_organization_id t) in
     if org \<noteq> normalize_organization_scope (xt_organization_id a) then Inl (invalid_credentials
       ''auth token and access token organization_scope contexts do not match'')
     else let scope = login_scope_from_organization_id (Some org) in
     if at_login_scope t \<noteq> scope \<or> xt_login_scope a \<noteq> scope then Inl (invalid_credentials
       ''auth token and access token login_scope contexts do not match'')
     else Inr (build_principal (dual_token_builder t a)))))))"

record 'w parser_resolver =
  pr_auth_parser :: "string \<Rightarrow> ('w, auth_token_claims) action"
  pr_access_parser :: "string \<Rightarrow> ('w, access_token_claims) action"
  pr_key_parser :: "string \<Rightarrow> ('w, api_key_credential) action"
  pr_key_lookup :: "'w api_key_service"

definition resolve_dual_token ::
  "'w parser_resolver \<Rightarrow> string \<Rightarrow> string \<Rightarrow> ('w, principal) action" where
  "resolve_dual_token r raw_auth raw_access =
     act_bind (pr_auth_parser r raw_auth) (\<lambda>t.
     act_bind (pr_access_parser r raw_access) (\<lambda>a. act_lift (merge_dual_token t a)))"

definition resolve_access_token :: "'w parser_resolver \<Rightarrow> string \<Rightarrow> ('w, principal) action" where
  "resolve_access_token r raw =
     act_bind (pr_access_parser r raw) (\<lambda>a. act_return (principal_from_access_token_claims a))"

definition resolve_api_key :: "'w parser_resolver \<Rightarrow> string \<Rightarrow> ('w, principal) action" where
  "resolve_api_key r raw =
     act_bind (pr_key_parser r raw) (\<lambda>c.
     act_bind (ks_lookup (pr_key_lookup r) c) (\<lambda>k. act_return (build_principal (builder_default
       \<lparr>pb_tenant_id := Some (kr_tenant_id k),
        pb_organization_id := Some (normalize_record_organization_id (kr_organization_id k)),
        pb_user_id := Some (kr_user_id k), pb_app_id := Some (kr_app_id k),
        pb_environment := Some (kr_environment k), pb_deployment_mode := Some (kr_deployment_mode k),
        pb_auth_level := Some LevelApiKey, pb_data_scope := kr_data_scope k,
        pb_permission_scope := kr_permission_scope k, pb_api_key_id := Some (kr_api_key_id k),
        pb_subject_type := Some SubjectApiKey\<rparr>))))"

definition no_oauth_wiring :: "string \<Rightarrow> ('w, principal) action" where
  "no_oauth_wiring raw = act_fail (dependency_unavailable
     ''oauth bearer resolution requires OAuthBearerParser + OAuthTokenLookupService wiring via OpenApiWebRequestParserResolver'')"

definition resolve_oauth_token ::
  "(string \<Rightarrow> ('w, oauth_credential) action) \<Rightarrow> 'w oauth_service \<Rightarrow> string \<Rightarrow> ('w, principal) action" where
  "resolve_oauth_token parse service raw =
     act_bind (parse raw) (\<lambda>c.
     act_bind (os_lookup service c) (\<lambda>k. act_return (build_principal (builder_default
       \<lparr>pb_tenant_id := Some (or_tenant_id k),
        pb_organization_id := Some (normalize_record_organization_id (or_organization_id k)),
        pb_user_id := Some (or_user_id k), pb_app_id := Some (or_app_id k),
        pb_environment := Some (or_environment k), pb_deployment_mode := Some (or_deployment_mode k),
        pb_auth_level := Some LevelPassword, pb_data_scope := or_data_scope k,
        pb_permission_scope := or_permission_scope k,
        pb_subject_type := Some (parse_subject_type (or_subject_type k))\<rparr>))))"

text \<open>The trait's inspection methods extend the record of its resolution methods.\<close>

datatype resolver_profile = ProfileUnspecified | ProfileBootstrap | ProfileSaaS

record 'w described_resolver = "'w resolver" +
  dr_profile :: resolver_profile
  dr_claim_policy :: "jwt_claim_policy option"
  dr_default_api_key :: bool
  dr_default_oauth :: bool

definition parser_resolver_methods :: "'w parser_resolver \<Rightarrow> 'w described_resolver" where
  "parser_resolver_methods r = \<lparr>rv_api_key = resolve_api_key r, rv_dual_token = resolve_dual_token r,
     rv_access_token = resolve_access_token r, rv_oauth_bearer = no_oauth_wiring,
     rv_bearer_auth_token = default_resolve_bearer_auth_token,
     rv_compatibility = default_resolve_compatibility,
     dr_profile = ProfileUnspecified, dr_claim_policy = None,
     dr_default_api_key = ks_is_default (pr_key_lookup r), dr_default_oauth = False\<rparr>"

definition open_api_resolver_methods ::
  "'w parser_resolver \<Rightarrow> (string \<Rightarrow> ('w, oauth_credential) action) \<Rightarrow> 'w oauth_service \<Rightarrow>
     'w described_resolver" where
  "open_api_resolver_methods r parse service = \<lparr>rv_api_key = resolve_api_key r,
     rv_dual_token = resolve_dual_token r, rv_access_token = resolve_access_token r,
     rv_oauth_bearer = resolve_oauth_token parse service,
     rv_bearer_auth_token = resolve_oauth_token parse service,
     rv_compatibility = default_resolve_compatibility,
     dr_profile = ProfileUnspecified, dr_claim_policy = None,
     dr_default_api_key = ks_is_default (pr_key_lookup r), dr_default_oauth = os_is_default service\<rparr>"

definition default_parser_resolver :: "libs \<Rightarrow> 'w parser_resolver" where
  "default_parser_resolver L = \<lparr>pr_auth_parser = default_parse_auth_token L,
     pr_access_parser = default_parse_access_token L, pr_key_parser = default_parse_api_key L,
     pr_key_lookup = default_api_key_service\<rparr>"

definition default_open_api_resolver :: "libs \<Rightarrow> 'w described_resolver" where
  "default_open_api_resolver L = open_api_resolver_methods (default_parser_resolver L)
     (default_parse_oauth_bearer L) default_oauth_service"

definition verifying_parser_resolver ::
  "libs \<Rightarrow> 'w verifier \<Rightarrow> 'w api_key_service \<Rightarrow> 'w parser_resolver" where
  "verifying_parser_resolver L v keys = \<lparr>pr_auth_parser = verifying_auth_parser v,
     pr_access_parser = verifying_access_parser v, pr_key_parser = default_parse_api_key L,
     pr_key_lookup = keys\<rparr>"

definition verifying_open_api_resolver ::
  "libs \<Rightarrow> 'w verifier \<Rightarrow> 'w api_key_service \<Rightarrow> 'w oauth_service \<Rightarrow> 'w described_resolver" where
  "verifying_open_api_resolver L v keys oauth =
     open_api_resolver_methods (verifying_parser_resolver L v keys) (verifying_oauth_bearer_parser v) oauth"

text \<open>The production wrapper hands every method on but \<open>resolve_bearer_auth_token\<close>, for which
  it keeps the default of the trait.\<close>

definition tenant_bound_production ::
  "resolver_profile \<Rightarrow> jwt_claim_policy \<Rightarrow> 'w described_resolver \<Rightarrow> 'w described_resolver" where
  "tenant_bound_production profile policy inner =
     inner\<lparr>rv_bearer_auth_token := default_resolve_bearer_auth_token,
       dr_profile := profile, dr_claim_policy := Some policy\<rparr>"

definition tenant_bound_verifying_resolver ::
  "crypto \<Rightarrow> libs \<Rightarrow> ('w \<Rightarrow> int) \<Rightarrow> 'w key_lookup \<Rightarrow> 'w api_key_service \<Rightarrow> jwt_claim_policy \<Rightarrow>
     'w described_resolver" where
  "tenant_bound_verifying_resolver C L now lookup keys policy =
     tenant_bound_production ProfileBootstrap policy (parser_resolver_methods
       (verifying_parser_resolver L
         (tenant_bound_verify C L now (with_claim_policy policy (tenant_verifier_new lookup))) keys))"

definition saas_verifier ::
  "'w key_lookup \<Rightarrow> (string \<Rightarrow> ('w, bool) action) \<Rightarrow> jwt_claim_policy \<Rightarrow> 'w tenant_verifier" where
  "saas_verifier lookup revocation policy =
     with_session_revocation_checker revocation (with_claim_policy policy (tenant_verifier_new lookup))"

definition tenant_bound_saas_verifying_resolver ::
  "crypto \<Rightarrow> libs \<Rightarrow> ('w \<Rightarrow> int) \<Rightarrow> 'w key_lookup \<Rightarrow> (string \<Rightarrow> ('w, bool) action) \<Rightarrow>
     'w api_key_service \<Rightarrow> jwt_claim_policy \<Rightarrow> 'w described_resolver" where
  "tenant_bound_saas_verifying_resolver C L now lookup revocation keys policy =
     tenant_bound_production ProfileSaaS policy (parser_resolver_methods
       (verifying_parser_resolver L
         (tenant_bound_verify C L now (saas_verifier lookup revocation policy)) keys))"

definition is_tenant_bound_verifying_resolver :: "'w described_resolver \<Rightarrow> bool" where
  "is_tenant_bound_verifying_resolver r = (dr_profile r = ProfileBootstrap \<or> dr_profile r = ProfileSaaS)"

subsection \<open>What a principal of two tokens means\<close>

lemma require_optional_match_ok:
  "require_optional_match name l r = Inr () \<longleftrightarrow> l = None \<or> r = None \<or> l = r"
  by (auto simp: require_optional_match_def split: option.splits)

definition agrees :: "string option \<Rightarrow> string \<Rightarrow> bool" where
  "agrees claim v \<longleftrightarrow> claim = None \<or> claim = Some v"

lemma merge_dual_token_ok:
  assumes "merge_dual_token t a = Inr p"
  shows "p = build_principal (dual_token_builder t a)"
    and "agrees (at_tenant_id t) (xt_tenant_id a)" and "agrees (xt_user_id a) (at_user_id t)"
    and "at_session_id t = None \<or> xt_session_id a = None \<or> at_session_id t = xt_session_id a"
    and "agrees (at_app_id t) (xt_app_id a)"
    and "normalize_organization_scope (at_organization_id t) = normalize_organization_scope (xt_organization_id a)"
    and "at_login_scope t = login_scope_from_organization_id (Some (normalize_organization_scope (at_organization_id t)))" and "xt_login_scope a = login_scope_from_organization_id (Some (normalize_organization_scope (at_organization_id t)))"
  using assms
  by (auto simp: merge_dual_token_def res_bind_eq_Inr require_optional_match_ok Let_def agrees_def
      split: if_splits)

lemma normalize_organization_scope_idem:
  "normalize_organization_scope (Some (normalize_organization_scope v)) = normalize_organization_scope v"
  by (cases v) (auto simp: normalize_organization_scope_def tenant_level_organization_id_def
      trim_plain_edges plain_byte_def ascii_ws_def Let_def)

lemma merge_dual_token_sound:
  assumes "merge_dual_token t a = Inr p"
  shows "principal_tenant_id p = xt_tenant_id a \<and> agrees (at_tenant_id t) (principal_tenant_id p)"
    and "principal_user_id p = at_user_id t \<and> agrees (xt_user_id a) (principal_user_id p)"
    and "principal_app_id p = xt_app_id a \<and> agrees (at_app_id t) (principal_app_id p)"
    and "sc_session_id (pr_subject p) = opt_or (at_session_id t) (xt_session_id a)"
    and "at_session_id t = None \<or> xt_session_id a = None \<or> at_session_id t = xt_session_id a"
    and "organization_scope (pr_tenancy p) = normalize_organization_scope (at_organization_id t)"
    and "organization_scope (pr_tenancy p) = normalize_organization_scope (xt_organization_id a)"
    and "tn_login_scope (pr_tenancy p) = at_login_scope t \<and> tn_login_scope (pr_tenancy p) = xt_login_scope a"
    and "au_auth_level (pr_auth p) = at_auth_level t"
proof -
  note ok = merge_dual_token_ok [OF assms]
  show "principal_tenant_id p = xt_tenant_id a \<and> agrees (at_tenant_id t) (principal_tenant_id p)"
    "principal_user_id p = at_user_id t \<and> agrees (xt_user_id a) (principal_user_id p)"
    "principal_app_id p = xt_app_id a \<and> agrees (at_app_id t) (principal_app_id p)"
    using ok(2,3,5)
    by (auto simp: ok(1) build_principal_def dual_token_builder_def unwrap_or_def agrees_def Let_def
        split: option.splits)
  show "sc_session_id (pr_subject p) = opt_or (at_session_id t) (xt_session_id a)"
    "au_auth_level (pr_auth p) = at_auth_level t"
    by (simp_all add: ok(1) build_principal_def dual_token_builder_def unwrap_or_def Let_def)
  show "at_session_id t = None \<or> xt_session_id a = None \<or> at_session_id t = xt_session_id a"
    by (rule ok(4))
  show "tn_login_scope (pr_tenancy p) = at_login_scope t \<and> tn_login_scope (pr_tenancy p) = xt_login_scope a"
    using ok(7,8) by (simp add: ok(1) build_principal_def dual_token_builder_def unwrap_or_def Let_def)
  have "organization_scope (pr_tenancy p) = normalize_organization_scope (at_organization_id t)"
    by (simp add: ok(1) build_principal_def dual_token_builder_def unwrap_or_def Let_def
        organization_scope_def normalize_organization_scope_idem)
  then show "organization_scope (pr_tenancy p) = normalize_organization_scope (at_organization_id t)"
    "organization_scope (pr_tenancy p) = normalize_organization_scope (xt_organization_id a)"
    using ok(6) by simp_all
qed

lemma optional_of_required: "required_claim cs key = Inr v \<longleftrightarrow> optional_claim cs key = Some v"
  by (simp add: required_claim_def optional_claim_def ok_or_eq)

lemma tenant_bound_verify_names_tenant:
  "tenant_bound_verify C L now v jwt w = (w', Inr cs) \<Longrightarrow>
     \<exists>tenant. required_claim cs ''tenant_id'' = Inr tenant"
  by (auto simp: tenant_bound_verify_def act_bind_Inr Let_def split: prod.splits if_splits)

lemma token_type_ok:
  "validate_jwt_token_type_claim cs expected = Inr () \<Longrightarrow> expected \<noteq> [] \<Longrightarrow>
     map_of cs ''token_type'' = Some expected"
  by (auto simp: validate_jwt_token_type_claim_def Let_def unwrap_or_def split: if_splits option.splits)

lemma map_auth_token_claims_ok:
  assumes "map_auth_token_claims cs = Inr t"
  shows "map_of cs ''token_type'' = Some ''auth''" "at_tenant_id t = optional_claim cs ''tenant_id''"
    "required_claim cs ''user_id'' = Inr (at_user_id t)" "at_app_id t = optional_claim cs ''app_id''"
    "at_session_id t = optional_claim cs ''session_id''"
    "at_organization_id t = optional_claim cs ''organization_id''"
  using assms
  by (auto simp: map_auth_token_claims_def auth_claims_def res_bind_eq_Inr Let_def intro: token_type_ok)

lemma map_access_token_claims_ok:
  assumes "map_access_token_claims cs = Inr a"
  shows "map_of cs ''token_type'' = Some ''access''" "required_claim cs ''tenant_id'' = Inr (xt_tenant_id a)"
    "xt_user_id a = optional_claim cs ''user_id''" "required_claim cs ''app_id'' = Inr (xt_app_id a)"
    "xt_session_id a = optional_claim cs ''session_id''"
    "xt_organization_id a = optional_claim cs ''organization_id''"
  using assms
  by (auto simp: map_access_token_claims_def access_claims_def res_bind_eq_Inr Let_def intro: token_type_ok)

text \<open>C4: What the production resolver makes of two tokens: both were accepted by the
  tenant-bound verifier with session revocation, the first as an auth token and the second as an
  access token; the principal has the tenant that both name (and whose keys signed them), the
  user of the auth token, the app of the access token and the organization of both, and a user,
  app or session that the other token names too is the same one.\<close>

theorem dual_token_principal_sound:
  assumes "rv_dual_token (tenant_bound_saas_verifying_resolver C L now lookup revocation keys policy)
      raw_auth raw_access w = (w', Inr p)"
  shows "\<exists>tcs acs w1.
      tenant_bound_verify C L now (saas_verifier lookup revocation policy) raw_auth w = (w1, Inr tcs)
    \<and> tenant_bound_verify C L now (saas_verifier lookup revocation policy) raw_access w1 = (w', Inr acs)
    \<and> map_of tcs ''token_type'' = Some ''auth'' \<and> map_of acs ''token_type'' = Some ''access''
    \<and> required_claim tcs ''tenant_id'' = Inr (principal_tenant_id p)
    \<and> required_claim acs ''tenant_id'' = Inr (principal_tenant_id p)
    \<and> required_claim tcs ''user_id'' = Inr (principal_user_id p)
    \<and> agrees (optional_claim acs ''user_id'') (principal_user_id p)
    \<and> required_claim acs ''app_id'' = Inr (principal_app_id p)
    \<and> agrees (optional_claim tcs ''app_id'') (principal_app_id p)
    \<and> (\<forall>s s'. optional_claim tcs ''session_id'' = Some s \<longrightarrow> optional_claim acs ''session_id'' = Some s' \<longrightarrow>
         s = s' \<and> sc_session_id (pr_subject p) = Some s)
    \<and> normalize_organization_scope (optional_claim tcs ''organization_id'') = organization_scope (pr_tenancy p)
    \<and> normalize_organization_scope (optional_claim acs ''organization_id'') = organization_scope (pr_tenancy p)"
proof -
  let ?v = "saas_verifier lookup revocation policy"
  from assms obtain tcs acs t a w1 where
    tv: "tenant_bound_verify C L now ?v raw_auth w = (w1, Inr tcs)" and t: "map_auth_token_claims tcs = Inr t"
    and av: "tenant_bound_verify C L now ?v raw_access w1 = (w', Inr acs)" and a: "map_access_token_claims acs = Inr a"
    and p: "merge_dual_token t a = Inr p"
    by (auto simp: tenant_bound_saas_verifying_resolver_def tenant_bound_production_def
        parser_resolver_methods_def resolve_dual_token_def verifying_parser_resolver_def
        verifying_auth_parser_def verifying_access_parser_def act_bind_Inr)
  note tk = map_auth_token_claims_ok [OF t] and ak = map_access_token_claims_ok [OF a]
  note m = merge_dual_token_sound [OF p]
  have tenants: "required_claim tcs ''tenant_id'' = Inr (principal_tenant_id p)"
      "required_claim acs ''tenant_id'' = Inr (principal_tenant_id p)"
    using tenant_bound_verify_names_tenant [OF tv] m(1) tk(2) ak(2)
    by (auto simp: agrees_def optional_of_required)
  have users: "required_claim tcs ''user_id'' = Inr (principal_user_id p)"
      "agrees (optional_claim acs ''user_id'') (principal_user_id p)"
    using m(2) tk(3) ak(3) by metis+
  have apps: "required_claim acs ''app_id'' = Inr (principal_app_id p)"
      "agrees (optional_claim tcs ''app_id'') (principal_app_id p)"
    using m(3) tk(4) ak(4) by metis+
  have sessions: "\<forall>s s'. optional_claim tcs ''session_id'' = Some s \<longrightarrow>
      optional_claim acs ''session_id'' = Some s' \<longrightarrow> s = s' \<and> sc_session_id (pr_subject p) = Some s"
    using m(4,5) tk(5) ak(5) by auto
  have orgs: "normalize_organization_scope (optional_claim tcs ''organization_id'') = organization_scope (pr_tenancy p)"
      "normalize_organization_scope (optional_claim acs ''organization_id'') = organization_scope (pr_tenancy p)"
    using m(6,7) tk(6) ak(6) by metis+
  show ?thesis
    by (rule exI [of _ tcs], rule exI [of _ acs], rule exI [of _ w1])
      (intro conjI tv av tk(1) ak(1) tenants users apps sessions orgs)
qed

subsection \<open>A concrete pair of tokens\<close>

definition pair_libs :: libs where
  "pair_libs = plain_libs\<lparr>lib_json_parse := (\<lambda>s.
     if s = ''h'' then Inr (JObject [(''alg'', JString ''HS256''), (''kid'', JString ''k1'')])
     else if s = ''t'' then Inr (JObject [(''token_type'', JString ''auth''), (''tenant_id'', JString ''t1''),
       (''user_id'', JString ''u1''), (''session_id'', JString ''s1''), (''token_version'', JInt 1),
       (''exp'', JInt 2000)])
     else if s = ''a'' then Inr (JObject [(''token_type'', JString ''access''), (''tenant_id'', JString ''t1''),
       (''app_id'', JString ''a1''), (''session_id'', JString ''s1''), (''token_version'', JInt 1),
       (''exp'', JInt 2000)])
     else Inl ''expected value at line 1 column 1'')\<rparr>"

definition signed_token :: "string \<Rightarrow> string" where
  "signed_token payload =
     encode_base64url ''h'' @ ''.'' @ encode_base64url payload @ ''.'' @ encode_base64url ''s''"

definition pair_resolver :: "unit described_resolver" where
  "pair_resolver = tenant_bound_saas_verifying_resolver token_crypto pair_libs (\<lambda>_. 1000 * 1000000000)
     (env_bootstrap_lookup ''t1'' ''k1'' ''secret'') (static_revocation [''s9'']) disabled_api_key_service
     production_claim_policy"

lemma pair_accepted:
  "map_prod id (map_sum id (\<lambda>p. (principal_tenant_id p, principal_user_id p)))
     (rv_dual_token pair_resolver (signed_token ''t'') (signed_token ''a'') ()) = ((), Inr (''t1'', ''u1''))"
  by code_simp

theorem dual_token_principal_sound_witness:
  "\<exists>tcs w1. tenant_bound_verify token_crypto pair_libs (\<lambda>_. 1000 * 1000000000)
       (saas_verifier (env_bootstrap_lookup ''t1'' ''k1'' ''secret'') (static_revocation [''s9''])
          production_claim_policy) (signed_token ''t'') () = (w1, Inr tcs)
     \<and> map_of tcs ''token_type'' = Some ''auth'' \<and> required_claim tcs ''tenant_id'' = Inr ''t1''"
proof -
  obtain p where p: "rv_dual_token pair_resolver (signed_token ''t'') (signed_token ''a'') () = ((), Inr p)"
    and "principal_tenant_id p = ''t1''"
    using pair_accepted
    by (cases "rv_dual_token pair_resolver (signed_token ''t'') (signed_token ''a'') ()";
        cases "snd (rv_dual_token pair_resolver (signed_token ''t'') (signed_token ''a'') ())") auto
  then show ?thesis
    using dual_token_principal_sound [OF p [unfolded pair_resolver_def]] by auto
qed

end
