(* ===== verification/Env_Config.thy ===== *)
theory Env_Config
  imports Security Token_Claims
begin

section \<open>Configuration from the environment\<close>

text \<open>
  Models \<open>env_config.rs\<close> of the bootstrap crate and \<open>runtime_region.rs\<close>: the environment and
  the CORS origins of a deployment, its default region and the registration of the region in
  the process. The process environment is a function \<open>env\<close> (\<open>env::var(key).ok()\<close>); the
  \<open>OnceLock\<close> of the region is an option that is passed on.
\<close>

subsection \<open>Region codes\<close>

definition shared_region_env_key :: string where "shared_region_env_key = ''SDKWORK_REGION_CODE''"
definition default_region_code :: string where "default_region_code = ''global''"
definition max_region_code_len :: nat where "max_region_code_len = 64"

definition is_region_char :: "char \<Rightarrow> bool" where
  "is_region_char c = (is_ascii_lower c \<or> is_ascii_digit c \<or> c = CHR ''_'')"

definition is_valid_region_code :: "string \<Rightarrow> bool" where
  "is_valid_region_code c =
     (if c = [] \<or> max_region_code_len < length c then False
      else is_ascii_lower (hd c) \<and> list_all is_region_char (tl c))"

definition normalize_region_code :: "string option \<Rightarrow> string + string" where
  "normalize_region_code value =
     (case opt_filter (\<lambda>v. trim v \<noteq> []) value of
        None \<Rightarrow> Inr default_region_code
      | Some v \<Rightarrow>
          (let c = to_lower (trim v) in
           if is_valid_region_code c then Inr c
           else Inl (''default region code `'' @ v @ ''` must match ^[a-z][a-z0-9_]*$ and be at most ''
             @ show_nat max_region_code_len @ '' characters'')))"

fun find_map :: "('a \<Rightarrow> 'b option) \<Rightarrow> 'a list \<Rightarrow> 'b option" where
  "find_map f [] = None"
| "find_map f (x # xs) = (case f x of None \<Rightarrow> find_map f xs | Some y \<Rightarrow> Some y)"

definition region_code_from_env :: "(string \<Rightarrow> string option) \<Rightarrow> string list \<Rightarrow> string + string" where
  "region_code_from_env env keys = normalize_region_code
     (find_map (\<lambda>key. opt_filter (\<lambda>v. v \<noteq> []) (map_option trim (env key)))
       (keys @ [shared_region_env_key]))"

text \<open>The registration in the process.\<close>

definition normalized_region_code :: "string \<Rightarrow> string + string" where
  "normalized_region_code value =
     (let t = trim value in
      if t = [] then Inr default_region_code
      else let c = to_lower t in
        if is_valid_region_code c then Inr c
        else Inl (''region code `'' @ t @ ''` must match ^[a-z][a-z0-9_]*$ and be at most ''
          @ show_nat max_region_code_len @ '' characters''))"

definition register_runtime_region :: "string \<Rightarrow> string option \<Rightarrow> string option \<times> (string + string)" where
  "register_runtime_region value region =
     (case normalized_region_code value of
        Inl e \<Rightarrow> (region, Inl e)
      | Inr c \<Rightarrow>
          (case region of
             Some existing \<Rightarrow>
               if existing \<noteq> c then (region, Inl (''runtime region is already registered as `'' @ existing
                 @ ''`; refusing to rebind to `'' @ c @ ''`''))
               else (region, Inr existing)
           | None \<Rightarrow> (Some c, Inr c)))"

definition runtime_region_code :: "string option \<Rightarrow> string" where
  "runtime_region_code region = unwrap_or region default_region_code"

lemma region_code_plain: "is_valid_region_code c \<Longrightarrow> trim c = c \<and> to_lower c = c"
proof -
  assume v: "is_valid_region_code c"
  then have ne: "c \<noteq> []" and all: "list_all is_region_char c"
    by (auto simp: is_valid_region_code_def is_region_char_def list_all_iff neq_Nil_conv split: if_splits)
  have char: "plain_byte x \<and> lower_char x = x" if "is_region_char x" for x
    using that
    by (auto simp: is_region_char_def plain_byte_def ascii_ws_def lower_char_def is_ascii_lower_def
        is_ascii_digit_def is_ascii_upper_def)
  from all have "\<forall>x \<in> set c. plain_byte x \<and> lower_char x = x" using char by (auto simp: list_all_iff)
  with ne show ?thesis by (auto simp: to_lower_def map_idI intro!: trim_plain_edges)
qed

lemma default_region_valid: "is_valid_region_code default_region_code"
  by code_simp

text \<open>What the environment resolves to can always be registered, and registers as itself; a
  registered region is never rebound.\<close>

lemma region_from_env_registers:
  assumes "region_code_from_env env keys = Inr c"
  shows "is_valid_region_code c" and "register_runtime_region c None = (Some c, Inr c)"
    and "register_runtime_region c (Some c) = (Some c, Inr c)"
proof -
  from assms show v: "is_valid_region_code c"
    by (auto simp: region_code_from_env_def normalize_region_code_def Let_def default_region_valid
        split: option.splits if_splits)
  from v have "c \<noteq> []" by (auto simp: is_valid_region_code_def)
  with region_code_plain [OF v] v have "normalized_region_code c = Inr c"
    by (simp add: normalized_region_code_def Let_def)
  then show "register_runtime_region c None = (Some c, Inr c)"
    "register_runtime_region c (Some c) = (Some c, Inr c)"
    by (simp_all add: register_runtime_region_def)
qed

lemma registered_region_stays:
  "fst (register_runtime_region v (Some r)) = Some r"
  by (auto simp: register_runtime_region_def split: sum.split)

subsection \<open>Environment and origins\<close>

definition web_environment_from_env :: "(string \<Rightarrow> string option) \<Rightarrow> string list \<Rightarrow> environment" where
  "web_environment_from_env env keys =
     (let s = to_lower (trim (unwrap_or (find_map env keys) ''development'')) in
      if s \<in> {''development'', ''dev'', ''local''} then Dev
      else if s \<in> {''test'', ''testing''} then Test
      else if s = ''demo'' then Test
      else Prod)"

definition shared_cors_env_key :: string where "shared_cors_env_key = ''SDKWORK_CORS_ALLOWED_ORIGINS''"

definition cors_allowed_origins_from_env :: "(string \<Rightarrow> string option) \<Rightarrow> string list \<Rightarrow> string list" where
  "cors_allowed_origins_from_env env keys =
     (case read_env_list env shared_cors_env_key of
        Some origins \<Rightarrow> origins
      | None \<Rightarrow>
          (case find (\<lambda>key. key \<noteq> shared_cors_env_key \<and> env key \<noteq> None) keys of
             Some legacy \<Rightarrow> unwrap_or (read_env_list env legacy) []
           | None \<Rightarrow> []))"

definition cors_allowed_origins_from_process_env :: "(string \<Rightarrow> string option) \<Rightarrow> string list" where
  "cors_allowed_origins_from_process_env env = unwrap_or (read_env_list env shared_cors_env_key) []"

definition security_policy_for_environment :: "environment \<Rightarrow> string list \<Rightarrow> security_policy" where
  "security_policy_for_environment e origins =
     (let p = security_default;
          c = (if e = Dev \<or> e = Test then development_private_network else sp_cors p);
          c = c\<lparr>co_allowed_origins := merge_origins (co_allowed_origins c) origins\<rparr>
      in p\<lparr>sp_cors := with_registered_client_origins c\<rparr>)"

definition with_registered_console_hosts_from_env ::
  "(string \<Rightarrow> string option) \<Rightarrow> security_policy \<Rightarrow> console_error + security_policy" where
  "with_registered_console_hosts_from_env env p =
     res_bind (console_hosts_from_lookup env) (\<lambda>hosts.
       case hosts of
         None \<Rightarrow> Inr p
       | Some h \<Rightarrow> res_bind (with_registered_console_hosts h (sp_cors p)) (\<lambda>c. Inr (p\<lparr>sp_cors := c\<rparr>)))"

definition application_security_policy_from_env ::
  "(string \<Rightarrow> string option) \<Rightarrow> string list \<Rightarrow> string list \<Rightarrow> environment \<times> security_policy" where
  "application_security_policy_from_env env environment_keys origin_keys =
     (let e = web_environment_from_env env environment_keys in
      (e, security_policy_for_environment e (cors_allowed_origins_from_env env origin_keys)))"

text \<open>A value of the environment the code does not know is treated as production.\<close>

lemma unknown_environment_is_production:
  assumes "find_map env keys = Some v"
    and "to_lower (trim v) \<notin> {''development'', ''dev'', ''local'', ''test'', ''testing'', ''demo''}"
  shows "web_environment_from_env env keys = Prod"
  using assms by (simp add: web_environment_from_env_def unwrap_or_def Let_def)

record web_framework_env =
  we_store_url :: "string option"
  we_store_pool_size :: "nat option"
  we_admin_bind :: "string option"
  we_redis_url :: "string option"
  we_jwt_hs256_secret :: "string option"
  we_jwt_bootstrap_tenant_id :: "string option"
  we_jwt_bootstrap_key_id :: "string option"
  we_otel_service_name :: "string option"
  we_otel_exporter_endpoint :: "string option"
  we_deployment_environment :: "string option"

definition web_framework_env_from_process :: "(string \<Rightarrow> string option) \<Rightarrow> web_framework_env" where
  "web_framework_env_from_process env =
     \<lparr>we_store_url = env ''SDKWORK_WEB_FRAMEWORK_STORE_URL'',
      we_store_pool_size = opt_filter (\<lambda>n. 0 < n)
        (Option.bind (env ''SDKWORK_WEB_FRAMEWORK_STORE_POOL_SIZE'') (parse_unsigned u32_max)),
      we_admin_bind = env ''SDKWORK_WEB_FRAMEWORK_ADMIN_BIND'',
      we_redis_url = env ''SDKWORK_WEB_FRAMEWORK_REDIS_URL'',
      we_jwt_hs256_secret = env ''SDKWORK_WEB_FRAMEWORK_JWT_HS256_SECRET'',
      we_jwt_bootstrap_tenant_id = env ''SDKWORK_WEB_FRAMEWORK_JWT_BOOTSTRAP_TENANT_ID'',
      we_jwt_bootstrap_key_id = env ''SDKWORK_WEB_FRAMEWORK_JWT_BOOTSTRAP_KEY_ID'',
      we_otel_service_name = env ''OTEL_SERVICE_NAME'',
      we_otel_exporter_endpoint = env ''OTEL_EXPORTER_OTLP_ENDPOINT'',
      we_deployment_environment = env ''SDKWORK_WEB_FRAMEWORK_ENV''\<rparr>"

end
