(* ===== verification/Assembly.thy ===== *)
theory Assembly
  imports Memory_Runtime Token_Resolvers Env_Config
begin

section \<open>Assembling a framework\<close>

text \<open>
  Models \<open>production_assembly.rs\<close> and the builder of \<open>framework.rs\<close> in the bootstrap crate: what
  a deployment wires, what production refuses, and the runtime that comes out. A component of
  the builder is its operations with what the checks ask about it. A panic of \<open>build\<close> is an
  error value. Left out are metrics, lifecycle hooks and the routes of the infrastructure.
\<close>

subsection \<open>Components\<close>

text \<open>A Rust type is known by its name. The policies and emitters are trait objects whose traits
  do not extend \<open>Any\<close>: \<open>policy.as_ref().type_id()\<close> is the id of the trait object type itself,
  whatever value is behind it. A resolver is a generic parameter, whose id is that of its type.\<close>

type_synonym type_name = string

datatype type_id = TraitObject string | ConcreteType type_name

definition object_type_id :: "string \<Rightarrow> type_name \<Rightarrow> type_id" where
  "object_type_id trait_name concrete = TraitObject trait_name"

record 'f typed_object =
  ob_type :: type_name
  ob_call :: 'f

type_synonym policy_object =
  "(request_context \<Rightarrow> string option \<Rightarrow> web_error + unit) typed_object"

record 'w rate_store =
  st_check :: "string \<Rightarrow> nat \<Rightarrow> nat \<Rightarrow> ('w, unit) action"
  st_in_process :: bool
  st_distributed_ha :: bool

record 'w idem_store =
  sb_begin :: "string \<Rightarrow> string \<Rightarrow> nat \<Rightarrow> ('w, begin_outcome) action"
  sb_complete :: "string \<Rightarrow> string \<Rightarrow> idempotency_record \<Rightarrow> nat \<Rightarrow> ('w, unit) action"
  sb_release :: "string \<Rightarrow> string \<Rightarrow> ('w, unit) action"
  sb_in_process :: bool
  sb_distributed_ha :: bool

record 'w admission_store =
  sm_acquire :: "string \<Rightarrow> nat \<Rightarrow> ('w, unit) action"
  sm_release :: "string \<Rightarrow> ('w, unit) action"
  sm_distributed_ha :: bool

record ('w, 'c) builder =
  wb_resolver :: "'w described_resolver"
  wb_resolver_type :: type_name
  wb_profile :: context_profile
  wb_security_policy :: security_policy
  wb_call_chain :: "'c option"
  wb_domain_injectors :: "(request_context \<Rightarrow> 'w env \<Rightarrow> 'w env) list"
  wb_authorization :: "policy_object option"
  wb_tenant_isolation :: "policy_object option"
  wb_rate_limit_store :: "'w rate_store option"
  wb_idempotency_store :: "'w idem_store option"
  wb_admission_store :: "'w admission_store option"
  wb_audit_emitter :: "(audit_fact \<Rightarrow> ('w, unit) action) typed_object option"
  wb_security_emitter :: "(security_event \<Rightarrow> ('w, unit) action) typed_object option"
  wb_rate_limit_resolver :: "(call_state \<Rightarrow> rate_limit_policy \<Rightarrow> resolved_rate_limit) option"
  wb_cors_source :: "(cors_policy_context \<Rightarrow> ('w, cors_policy option) action) option"
  wb_rate_limit_source :: "(rate_limit_policy_context \<Rightarrow> ('w, resolved_rate_limit option) action) option"
  wb_tenant_source :: "(tenant_runtime_context \<Rightarrow> ('w, tenant_runtime_profile option) action) option"
  wb_features :: optional_features
  wb_admin_routes :: "manifest option"
  wb_route_manifest :: "manifest option"
  wb_skip_infra_metrics :: bool
  wb_has_readiness_check :: bool
  wb_request_timeout :: "nat option"
  wb_shutdown_grace_period :: "nat option"
  wb_scheme_detector ::
    "(call_credentials \<Rightarrow> headers \<Rightarrow> route_auth option \<Rightarrow> web_error + auth_scheme option) option"
  wb_region_env_keys :: "string list"

text \<open>\<open>wb_admin_routes\<close> is the manifest of the admin API where a pool for it was given.\<close>

definition builder_new :: "'w described_resolver \<Rightarrow> type_name \<Rightarrow> ('w, 'c) builder" where
  "builder_new resolver resolver_type = \<lparr>wb_resolver = resolver, wb_resolver_type = resolver_type,
     wb_profile = profile_default, wb_security_policy = security_default, wb_call_chain = None,
     wb_domain_injectors = [], wb_authorization = None, wb_tenant_isolation = None,
     wb_rate_limit_store = None, wb_idempotency_store = None, wb_admission_store = None,
     wb_audit_emitter = None, wb_security_emitter = None, wb_rate_limit_resolver = None,
     wb_cors_source = None, wb_rate_limit_source = None, wb_tenant_source = None,
     wb_features = features_default, wb_admin_routes = None, wb_route_manifest = None,
     wb_skip_infra_metrics = False, wb_has_readiness_check = False, wb_request_timeout = None,
     wb_shutdown_grace_period = None, wb_scheme_detector = None, wb_region_env_keys = []\<rparr>"

definition deny_all_object :: policy_object where
  "deny_all_object = \<lparr>ob_type = ''DenyAllAuthorizationPolicy'', ob_call = deny_all_authorize\<rparr>"

definition principal_isolation_object :: policy_object where
  "principal_isolation_object =
     \<lparr>ob_type = ''EnforcePrincipalTenantIsolationPolicy'', ob_call = enforce_principal_isolation\<rparr>"

definition allow_all_object :: policy_object where
  "allow_all_object = \<lparr>ob_type = ''AllowAllAuthorizationPolicy'', ob_call = allow_all_authorize\<rparr>"

definition some_or :: "'a option \<Rightarrow> 'a \<Rightarrow> 'a option" where
  "some_or x d = (case x of None \<Rightarrow> Some d | Some a \<Rightarrow> Some a)"

definition production_default_timeout_secs :: nat where "production_default_timeout_secs = 30"
definition production_default_grace_secs :: nat where "production_default_grace_secs = 30"

definition production_defaults :: "('w, 'c) builder \<Rightarrow> ('w, 'c) builder" where
  "production_defaults b =
     (let b = b\<lparr>wb_features := features_production_sqlx\<rparr>;
          b = (if of_production_security_defaults (wb_features b)
               then b\<lparr>wb_security_policy := security_production,
                      wb_profile := (wb_profile b)\<lparr>pf_environment := Prod\<rparr>,
                      wb_authorization := some_or (wb_authorization b) deny_all_object,
                      wb_tenant_isolation := some_or (wb_tenant_isolation b) principal_isolation_object,
                      wb_request_timeout := some_or (wb_request_timeout b)
                        (production_default_timeout_secs * 1000000000),
                      wb_shutdown_grace_period := some_or (wb_shutdown_grace_period b)
                        (production_default_grace_secs * 1000000000)\<rparr>
               else b)
      in if \<not> of_json_content_type_guard (wb_features b)
         then b\<lparr>wb_security_policy := (wb_security_policy b)\<lparr>sp_json_content_type := \<lparr>jc_enabled = False\<rparr>\<rparr>\<rparr>
         else b)"

subsection \<open>What production refuses\<close>

datatype assembly_error =
    EnvNeedsProduction | EnvNeedsProdProfile
  | RateLimitDisabled | CorsUnsafe cors_error
  | NoAuditEmitter | NoSecurityEmitter
  | AllowAllAuthorization | NoAuthorization
  | PassThroughIsolation | NoIsolation
  | DevOnlyResolver | SharedJwtVerifier | NotTenantBound
  | NoSessionRevocation | NoReadinessCheck
  | MemoryRateLimit | NoRedisRateLimit
  | MemoryIdempotency | NoRedisIdempotency
  | MemoryAdmission | NoRedisAdmission
  | DefaultApiKeyLookup | DefaultOAuthLookup
  | NoIssuerAudience | NoClaimPolicy

definition requires_production_assembly :: "environment \<Rightarrow> bool \<Rightarrow> bool" where
  "requires_production_assembly e defaults = (defaults \<or> e = Prod)"

definition validate_deployment_environment ::
  "(string \<Rightarrow> string option) \<Rightarrow> environment \<Rightarrow> bool \<Rightarrow> assembly_error + unit" where
  "validate_deployment_environment env e defaults =
     (case env ''SDKWORK_WEB_FRAMEWORK_ENV'' of
        None \<Rightarrow> Inr ()
      | Some raw \<Rightarrow>
          (let n = to_lower (trim raw) in
           if n \<noteq> ''prod'' \<and> n \<noteq> ''production'' then Inr ()
           else if \<not> requires_production_assembly e defaults then Inl EnvNeedsProduction
           else if e \<noteq> Prod then Inl EnvNeedsProdProfile
           else Inr ()))"

definition is_noop_audit_emitter :: "'f typed_object option \<Rightarrow> bool" where
  "is_noop_audit_emitter x = (case x of
     None \<Rightarrow> True
   | Some x \<Rightarrow> object_type_id ''AuditEmitter'' (ob_type x) = ConcreteType ''NoOpAuditEmitter'')"

definition is_noop_security_event_emitter :: "'f typed_object option \<Rightarrow> bool" where
  "is_noop_security_event_emitter x = (case x of
     None \<Rightarrow> True
   | Some x \<Rightarrow> object_type_id ''SecurityEventEmitter'' (ob_type x) = ConcreteType ''NoOpSecurityEventEmitter'')"

definition is_allow_all_authorization :: "policy_object \<Rightarrow> bool" where
  "is_allow_all_authorization p =
     (object_type_id ''AuthorizationPolicy'' (ob_type p) = ConcreteType ''AllowAllAuthorizationPolicy'')"

definition is_pass_through_tenant_isolation :: "policy_object \<Rightarrow> bool" where
  "is_pass_through_tenant_isolation p =
     (object_type_id ''TenantIsolationPolicy'' (ob_type p) = ConcreteType ''PassThroughTenantIsolationPolicy'')"

text \<open>Of a given admission store the check asks whether the \<open>Arc\<close> that holds it is a memory store,
  which it never is.\<close>

definition uses_memory_admission_store :: "'w admission_store option \<Rightarrow> bool" where
  "uses_memory_admission_store s = (s = None)"

definition dev_only_resolver_types :: "type_name list" where
  "dev_only_resolver_types =
     [''DefaultWebRequestContextResolver'', ''DefaultOpenApiWebRequestContextResolver'']"

definition shared_verifier_resolver_types :: "type_name list" where
  "shared_verifier_resolver_types = [''PayloadOnlyVerifyingResolver'', ''HmacSha256VerifyingResolver'']"

definition ensure :: "bool \<Rightarrow> 'e \<Rightarrow> 'e + unit" where
  "ensure c e = (if c then Inr () else Inl e)"

definition validate_saas_assembly :: "('w, 'c) builder \<Rightarrow> assembly_error + unit" where
  "validate_saas_assembly b =
     (let r = wb_resolver b;
          rate = wb_rate_limit_store b; idem = wb_idempotency_store b; adm = wb_admission_store b in
     res_bind (ensure (case rate of None \<Rightarrow> False | Some s \<Rightarrow> \<not> st_in_process s) MemoryRateLimit) (\<lambda>_.
     res_bind (ensure (case rate of None \<Rightarrow> False | Some s \<Rightarrow> st_distributed_ha s) NoRedisRateLimit) (\<lambda>_.
     res_bind (ensure (case idem of None \<Rightarrow> False | Some s \<Rightarrow> \<not> sb_in_process s) MemoryIdempotency) (\<lambda>_.
     res_bind (ensure (case idem of None \<Rightarrow> False | Some s \<Rightarrow> sb_distributed_ha s) NoRedisIdempotency) (\<lambda>_.
     res_bind (ensure (\<not> uses_memory_admission_store adm) MemoryAdmission) (\<lambda>_.
     res_bind (ensure (case adm of None \<Rightarrow> False | Some s \<Rightarrow> sm_distributed_ha s) NoRedisAdmission) (\<lambda>_.
     res_bind (ensure (\<not> dr_default_api_key r) DefaultApiKeyLookup) (\<lambda>_.
     res_bind (ensure (\<not> dr_default_oauth r) DefaultOAuthLookup) (\<lambda>_.
     if dr_profile r = ProfileSaaS
     then (case dr_claim_policy r of
             Some p \<Rightarrow> ensure (has_saas_issuer_audience_allowlist p) NoIssuerAudience
           | None \<Rightarrow> Inl NoClaimPolicy)
     else Inr ())))))))))"

definition validate_production_assembly :: "('w, 'c) builder \<Rightarrow> assembly_error + unit" where
  "validate_production_assembly b =
     (let features = wb_features b; r = wb_resolver b; saas = \<not> of_control_plane_standalone features in
     if \<not> requires_production_assembly (pf_environment (wb_profile b)) (of_production_security_defaults features)
     then Inr ()
     else
     res_bind (ensure (rl_enabled (sp_rate_limit (wb_security_policy b))) RateLimitDisabled) (\<lambda>_.
     res_bind (case cors_validate_for_production (sp_cors (wb_security_policy b)) of
                 Inl e \<Rightarrow> Inl (CorsUnsafe e) | Inr _ \<Rightarrow> Inr ()) (\<lambda>_.
     res_bind (ensure (\<not> is_noop_audit_emitter (wb_audit_emitter b)) NoAuditEmitter) (\<lambda>_.
     res_bind (ensure (\<not> is_noop_security_event_emitter (wb_security_emitter b)) NoSecurityEmitter) (\<lambda>_.
     res_bind (case wb_authorization b of
                 None \<Rightarrow> Inl NoAuthorization
               | Some p \<Rightarrow> ensure (\<not> is_allow_all_authorization p) AllowAllAuthorization) (\<lambda>_.
     res_bind (case wb_tenant_isolation b of
                 None \<Rightarrow> Inl NoIsolation
               | Some p \<Rightarrow> ensure (\<not> is_pass_through_tenant_isolation p) PassThroughIsolation) (\<lambda>_.
     res_bind (ensure (wb_resolver_type b \<notin> set dev_only_resolver_types) DevOnlyResolver) (\<lambda>_.
     res_bind (ensure (wb_resolver_type b \<notin> set shared_verifier_resolver_types) SharedJwtVerifier) (\<lambda>_.
     res_bind (ensure (is_tenant_bound_verifying_resolver r) NotTenantBound) (\<lambda>_.
     res_bind (if saas then res_bind (ensure (dr_profile r = ProfileSaaS) NoSessionRevocation)
                 (\<lambda>_. ensure (wb_has_readiness_check b) NoReadinessCheck) else Inr ()) (\<lambda>_.
     if saas then validate_saas_assembly b else Inr ())))))))))))"

subsection \<open>Building\<close>

datatype build_panic =
    ManifestPublicPrefixes manifest_error
  | ManifestSurfaceAuth manifest_error
  | ManifestPathMarkers manifest_error
  | UnsafeEnvironment assembly_error
  | UnsafeAssembly assembly_error
  | InvalidRegion string
  | RegionConflict string

record ('w, 'c) framework =
  fw_runtime :: "'w runtime"
  fw_call_chain :: "'c option"
  fw_contract_fallback :: "manifest option"
  fw_skip_infra_metrics :: bool
  fw_request_timeout :: "nat option"
  fw_shutdown_grace_period :: "nat option"

text \<open>The runtime: \<open>fresh\<close> is the one \<open>WebCallRuntime::new\<close> makes around a resolver.\<close>

definition builder_runtime :: "('w resolver \<Rightarrow> 'w runtime) \<Rightarrow> ('w, 'c) builder \<Rightarrow> 'w runtime" where
  "builder_runtime fresh b =
     (let rn = fresh (resolver.truncate (wb_resolver b)) in
      rn\<lparr>rn_profile := wb_profile b, rn_security_policy := wb_security_policy b,
        rn_domain_injectors := rn_domain_injectors rn @ wb_domain_injectors b,
        rn_authorize := (case wb_authorization b of None \<Rightarrow> rn_authorize rn | Some p \<Rightarrow> ob_call p),
        rn_enforce_isolation := (case wb_tenant_isolation b of
            None \<Rightarrow> rn_enforce_isolation rn | Some p \<Rightarrow> ob_call p),
        rn_rate_check := (case wb_rate_limit_store b of None \<Rightarrow> rn_rate_check rn | Some s \<Rightarrow> st_check s),
        rn_idem_begin := (case wb_idempotency_store b of None \<Rightarrow> rn_idem_begin rn | Some s \<Rightarrow> sb_begin s),
        rn_idem_complete := (case wb_idempotency_store b of None \<Rightarrow> rn_idem_complete rn | Some s \<Rightarrow> sb_complete s),
        rn_idem_release := (case wb_idempotency_store b of None \<Rightarrow> rn_idem_release rn | Some s \<Rightarrow> sb_release s),
        rn_admission_acquire := (case wb_admission_store b of
            None \<Rightarrow> rn_admission_acquire rn | Some s \<Rightarrow> sm_acquire s),
        rn_admission_release := (case wb_admission_store b of
            None \<Rightarrow> rn_admission_release rn | Some s \<Rightarrow> sm_release s),
        rn_emit_audit := (case wb_audit_emitter b of None \<Rightarrow> rn_emit_audit rn | Some e \<Rightarrow> ob_call e),
        rn_emit_security := (case wb_security_emitter b of None \<Rightarrow> rn_emit_security rn | Some e \<Rightarrow> ob_call e),
        rn_rate_limit_resolve := unwrap_or (wb_rate_limit_resolver b) (rn_rate_limit_resolve rn),
        rn_cors_source := unwrap_or (wb_cors_source b) (rn_cors_source rn),
        rn_rate_limit_source := unwrap_or (wb_rate_limit_source b) (rn_rate_limit_source rn),
        rn_tenant_source := unwrap_or (wb_tenant_source b) (rn_tenant_source rn),
        rn_detect_scheme := unwrap_or (wb_scheme_detector b) (rn_detect_scheme rn),
        rn_features := wb_features b,
        rn_manifest := opt_or (opt_or (wb_route_manifest b) (wb_admin_routes b)) (rn_manifest rn),
        rn_request_timeout := opt_or (wb_request_timeout b) (rn_request_timeout rn)\<rparr>)"

definition validate_builder_manifest ::
  "(string \<Rightarrow> operation_view option) \<Rightarrow> manifest \<Rightarrow> context_profile \<Rightarrow> build_panic + unit" where
  "validate_builder_manifest parse_operation m profile =
     res_bind (map_err ManifestPublicPrefixes (validate_public_path_prefixes m (pf_public_path_prefixes profile))) (\<lambda>_.
     res_bind (map_err ManifestSurfaceAuth (validate_route_auth_for_surfaces parse_operation m profile)) (\<lambda>_.
     map_err ManifestPathMarkers (validate_no_ambient_context_path_markers m profile)))"

definition build ::
  "(string \<Rightarrow> operation_view option) \<Rightarrow> (string \<Rightarrow> string option) \<Rightarrow> ('w resolver \<Rightarrow> 'w runtime) \<Rightarrow>
     ('w, 'c) builder \<Rightarrow> string option \<Rightarrow> string option \<times> (build_panic + ('w, 'c) framework)" where
  "build parse_operation env fresh b region =
     (let manifest = opt_or (wb_route_manifest b) (wb_admin_routes b) in
      case res_bind (case manifest of None \<Rightarrow> Inr () | Some m \<Rightarrow> validate_builder_manifest parse_operation m (wb_profile b)) (\<lambda>_.
           res_bind (map_err UnsafeEnvironment (validate_deployment_environment env
               (pf_environment (wb_profile b)) (of_production_security_defaults (wb_features b)))) (\<lambda>_.
           res_bind (map_err UnsafeAssembly (validate_production_assembly b)) (\<lambda>_.
           map_err InvalidRegion (region_code_from_env env (wb_region_env_keys b))))) of
        Inl panic \<Rightarrow> (region, Inl panic)
      | Inr region_code \<Rightarrow>
          (case register_runtime_region region_code region of
             (region, Inl e) \<Rightarrow> (region, Inl (RegionConflict e))
           | (region, Inr _) \<Rightarrow>
               (region, Inr \<lparr>fw_runtime = builder_runtime fresh b, fw_call_chain = wb_call_chain b,
                  fw_contract_fallback = manifest, fw_skip_infra_metrics = wb_skip_infra_metrics b,
                  fw_request_timeout = wb_request_timeout b,
                  fw_shutdown_grace_period = wb_shutdown_grace_period b\<rparr>)))"

subsection \<open>What a built framework is\<close>

lemma ensure_ok [simp]: "ensure c e = Inr () \<longleftrightarrow> c" "ensure True e = Inr ()"
  by (simp_all add: ensure_def)

text \<open>The types of trait objects never match: the four checks of them only ask whether the
  component is there.\<close>

lemma object_checks [simp]:
  "is_noop_audit_emitter a = (a = None)"
  "is_noop_security_event_emitter s = (s = None)"
  "\<not> is_allow_all_authorization p"
  "\<not> is_pass_through_tenant_isolation p"
  by (auto simp: is_noop_audit_emitter_def is_noop_security_event_emitter_def is_allow_all_authorization_def
      is_pass_through_tenant_isolation_def object_type_id_def split: option.splits)

lemma validate_production_assembly_ok:
  assumes "validate_production_assembly b = Inr ()"
    and "requires_production_assembly (pf_environment (wb_profile b)) (of_production_security_defaults (wb_features b))"
  shows "rl_enabled (sp_rate_limit (wb_security_policy b))"
    and "cors_validate_for_production (sp_cors (wb_security_policy b)) = Inr ()"
    and "wb_audit_emitter b \<noteq> None" and "wb_security_emitter b \<noteq> None"
    and "wb_authorization b \<noteq> None" and "wb_tenant_isolation b \<noteq> None"
    and "is_tenant_bound_verifying_resolver (wb_resolver b)"
    and "\<not> of_control_plane_standalone (wb_features b) \<Longrightarrow>
       dr_profile (wb_resolver b) = ProfileSaaS \<and> wb_has_readiness_check b
       \<and> validate_saas_assembly b = Inr ()"
  using assms
  by (auto simp: validate_production_assembly_def Let_def res_bind_eq_Inr split: option.splits sum.splits if_splits)

lemma validate_saas_assembly_ok:
  assumes "validate_saas_assembly b = Inr ()" and "dr_profile (wb_resolver b) = ProfileSaaS"
  shows "\<exists>s. wb_rate_limit_store b = Some s \<and> st_distributed_ha s \<and> \<not> st_in_process s"
    and "\<exists>s. wb_idempotency_store b = Some s \<and> sb_distributed_ha s \<and> \<not> sb_in_process s"
    and "\<exists>s. wb_admission_store b = Some s \<and> sm_distributed_ha s"
    and "\<not> dr_default_api_key (wb_resolver b)" and "\<not> dr_default_oauth (wb_resolver b)"
    and "\<exists>p. dr_claim_policy (wb_resolver b) = Some p \<and> jp_expected_issuers p \<noteq> [] \<and> jp_expected_audiences p \<noteq> []"
  using assms
  by (auto simp: validate_saas_assembly_def Let_def res_bind_eq_Inr has_saas_issuer_audience_allowlist_def
      split: option.splits)

lemma build_ok:
  assumes "build parse_operation env fresh b region = (region', Inr f)"
  shows "fw_runtime f = builder_runtime fresh b"
    and "opt_or (wb_route_manifest b) (wb_admin_routes b) = Some m \<Longrightarrow>
      validate_builder_manifest parse_operation m (wb_profile b) = Inr ()"
    and "validate_deployment_environment env (pf_environment (wb_profile b))
      (of_production_security_defaults (wb_features b)) = Inr ()"
    and "validate_production_assembly b = Inr ()"
    and "\<exists>c. region_code_from_env env (wb_region_env_keys b) = Inr c \<and> region' = Some c"
proof -
  let ?m = "opt_or (wb_route_manifest b) (wb_admin_routes b)"
  from assms obtain c r where
    checks: "(case ?m of None \<Rightarrow> Inr () | Some m \<Rightarrow> validate_builder_manifest parse_operation m (wb_profile b)) = Inr ()"
      "map_err UnsafeEnvironment (validate_deployment_environment env
         (pf_environment (wb_profile b)) (of_production_security_defaults (wb_features b))) = Inr ()"
      "map_err UnsafeAssembly (validate_production_assembly b) = Inr ()"
      "map_err InvalidRegion (region_code_from_env env (wb_region_env_keys b)) = Inr c"
    and reg: "register_runtime_region c region = (region', Inr r)"
    and f: "fw_runtime f = builder_runtime fresh b"
    by (auto simp: build_def Let_def res_bind_eq_Inr split: sum.splits prod.splits)
  show "fw_runtime f = builder_runtime fresh b" by (rule f)
  show "validate_builder_manifest parse_operation m (wb_profile b) = Inr ()" if "?m = Some m"
    using checks(1) that by simp
  show "validate_deployment_environment env (pf_environment (wb_profile b))
      (of_production_security_defaults (wb_features b)) = Inr ()" "validate_production_assembly b = Inr ()"
    using checks(2,3) by simp_all
  from checks(4) have c: "region_code_from_env env (wb_region_env_keys b) = Inr c" by simp
  with region_from_env_registers [OF c] reg have "region' = Some c"
    by (auto simp: register_runtime_region_def split: option.splits sum.splits if_splits)
  with c show "\<exists>c. region_code_from_env env (wb_region_env_keys b) = Inr c \<and> region' = Some c" by blast
qed

lemma env_prod_requires_production:
  assumes "validate_deployment_environment env e d = Inr ()" and "env ''SDKWORK_WEB_FRAMEWORK_ENV'' = Some raw"
    and "to_lower (trim raw) \<in> {''prod'', ''production''}"
  shows "e = Prod"
  using assms by (auto simp: validate_deployment_environment_def Let_def split: if_splits)


subsection \<open>A concrete deployment\<close>

definition saas_builder :: "policy_object \<Rightarrow> (mem_world, unit) builder" where
  "saas_builder authorization = (production_defaults (builder_new
       (tenant_bound_saas_verifying_resolver token_crypto pair_libs (\<lambda>_. 1000 * 1000000000)
          (env_bootstrap_lookup ''t1'' ''k1'' ''secret'') (static_revocation []) disabled_api_key_service
          (saas_production [''https://iam.example''] [''appbase'']))
       ''TenantBoundProductionWebRequestResolver''))
     \<lparr>wb_authorization := Some authorization,
      wb_rate_limit_store := Some \<lparr>st_check = memory_rate_check, st_in_process = False, st_distributed_ha = True\<rparr>,
      wb_idempotency_store := Some \<lparr>sb_begin = memory_idem_begin, sb_complete = memory_idem_complete,
        sb_release = memory_idem_release, sb_in_process = False, sb_distributed_ha = True\<rparr>,
      wb_admission_store := Some \<lparr>sm_acquire = memory_admission_acquire,
        sm_release = memory_admission_release, sm_distributed_ha = True\<rparr>,
      wb_audit_emitter := Some \<lparr>ob_type = ''SqlxAuditEmitter'', ob_call = (\<lambda>_. act_return ())\<rparr>,
      wb_security_emitter := Some \<lparr>ob_type = ''SqlxSecurityEventEmitter'', ob_call = (\<lambda>_. act_return ())\<rparr>,
      wb_has_readiness_check := True\<rparr>"

lemma saas_builder_builds:
  "\<exists>f. build (\<lambda>_. None) (\<lambda>_. None) runtime_development (saas_builder authorization) None = (Some ''global'', Inr f)
     \<and> rn_authorize (fw_runtime f) = ob_call authorization"
proof -
  let ?b = "saas_builder authorization"
  have region: "region_code_from_env (\<lambda>_. None) (wb_region_env_keys ?b) = Inr ''global''"
    by (simp add: saas_builder_def production_defaults_def builder_new_def Let_def features_production_sqlx_def) code_simp
  have cors: "cors_validate_for_production (sp_cors security_production) = Inr ()" by code_simp
  have limit: "rl_enabled (sp_rate_limit security_production)" by code_simp
  have valid: "validate_production_assembly ?b = Inr ()"
    using cors limit
    by (simp add: saas_builder_def production_defaults_def builder_new_def Let_def features_production_sqlx_def
        validate_production_assembly_def validate_saas_assembly_def requires_production_assembly_def
        tenant_bound_saas_verifying_resolver_def tenant_bound_production_def parser_resolver_methods_def
        verifying_parser_resolver_def disabled_api_key_service_def is_tenant_bound_verifying_resolver_def
        dev_only_resolver_types_def shared_verifier_resolver_types_def uses_memory_admission_store_def
        has_saas_issuer_audience_allowlist_def saas_production_def with_issuer_audience_def some_or_def)
  have none: "wb_route_manifest ?b = None" "wb_admin_routes ?b = None" "wb_authorization ?b = Some authorization"
    by (simp_all add: saas_builder_def production_defaults_def builder_new_def Let_def features_production_sqlx_def)
  have reg: "register_runtime_region ''global'' None = (Some ''global'', Inr ''global'')" by code_simp
  show ?thesis
    by (simp add: build_def Let_def none valid region reg validate_deployment_environment_def builder_runtime_def
        map_err_def)
qed

text \<open>The check against a policy that allows everything never fires, since it compares the id of the
  trait object.\<close>

lemma allow_all_policy_passes_production:
  "\<exists>f. build (\<lambda>_. None) (\<lambda>_. None) runtime_development (saas_builder allow_all_object) None = (Some ''global'', Inr f)
     \<and> rn_authorize (fw_runtime f) = allow_all_authorize"
  using saas_builder_builds [of allow_all_object] by (simp add: allow_all_object_def)


end
