(* ===== verification/Call_Policy.thy ===== *)
theory Call_Policy
  imports Request_Context Net_Addr
begin

section \<open>Policies of the call chain\<close>

text \<open>
  Models \<open>policy.rs\<close> and the matching of \<open>ip_access.rs\<close> of the crate \<open>sdkwork-web-chain\<close>:
  the layers of a policy, how they are merged, which stages they switch on, and whether a
  client address passes. A \<open>HashMap\<close> is a map, a \<open>u32\<close> limit a natural number. Parsing and
  containment of a CIDR block belong to the \<open>ipnet\<close> crate, so \<open>IpNet::from_str(entry)\<close>
  followed by \<open>contains\<close> is the parameter \<open>net_contains\<close>.
\<close>

subsection \<open>Layers\<close>

datatype concurrency_scope = Scope_Global | Scope_Api_Key | Scope_Tenant

fun concurrency_scope_name :: "concurrency_scope \<Rightarrow> string" where
  "concurrency_scope_name Scope_Global = ''global''"
| "concurrency_scope_name Scope_Api_Key = ''apiKey''"
| "concurrency_scope_name Scope_Tenant = ''tenant''"

record concurrency_policy =
  max_inflight :: "nat option"
  max_inflight_per_scope :: "(string \<Rightarrow> nat option) option"

definition limit_for :: "concurrency_policy \<Rightarrow> concurrency_scope \<Rightarrow> nat option" where
  "limit_for policy scope =
     opt_or (Option.bind (max_inflight_per_scope policy) (\<lambda>m. m (concurrency_scope_name scope)))
       (max_inflight policy)"

datatype ip_access_mode = Ip_Open | Ip_Allowlist_Only

record ip_access_policy =
  ia_mode :: ip_access_mode
  ia_allowlist :: "string list"
  ia_denylist :: "string list"

definition ip_access_is_restrictive :: "ip_access_policy \<Rightarrow> bool" where
  "ip_access_is_restrictive p \<longleftrightarrow> ia_allowlist p \<noteq> [] \<or> ia_denylist p \<noteq> []"

record stage_enablement =
  se_enabled_only :: "string list option"
  se_disabled :: "string list option"

definition is_enabled :: "stage_enablement \<Rightarrow> string \<Rightarrow> bool" where
  "is_enabled se name =
     (if (case se_enabled_only se of Some names \<Rightarrow> name \<notin> set names | None \<Rightarrow> False) then False
      else if (case se_disabled se of Some names \<Rightarrow> name \<in> set names | None \<Rightarrow> False) then False
      else True)"

record chain_policy =
  cp_concurrency :: "concurrency_policy option"
  cp_ip_access :: "ip_access_policy option"
  cp_stages :: "stage_enablement option"

record resolved_chain_policy =
  rcp_concurrency :: "concurrency_policy option"
  rcp_ip_access :: "ip_access_policy option"
  rcp_stages :: stage_enablement
  rcp_origin :: string

definition stage_enablement_default :: stage_enablement where
  "stage_enablement_default = \<lparr>se_enabled_only = None, se_disabled = None\<rparr>"

definition resolved_from :: "chain_policy \<Rightarrow> resolved_chain_policy" where
  "resolved_from p = \<lparr>rcp_concurrency = cp_concurrency p, rcp_ip_access = cp_ip_access p,
     rcp_stages = unwrap_or (cp_stages p) stage_enablement_default, rcp_origin = ''default''\<rparr>"

subsection \<open>Merging three layers\<close>

definition chain_policy_is_restrictive :: "chain_policy \<Rightarrow> bool" where
  "chain_policy_is_restrictive p \<longleftrightarrow>
     cp_concurrency p \<noteq> None \<or> cp_ip_access p \<noteq> None \<or> cp_stages p \<noteq> None"

definition pick :: "'a option \<Rightarrow> 'a option \<Rightarrow> 'a option \<Rightarrow> 'a option" where
  "pick per_key global defaults = opt_or (opt_or per_key global) defaults"

definition merge_chain_policies ::
  "chain_policy \<Rightarrow> chain_policy \<Rightarrow> chain_policy option \<Rightarrow> resolved_chain_policy" where
  "merge_chain_policies defaults global per_key =
     (let origin =
            (if per_key \<noteq> None then ''api-key''
             else if chain_policy_is_restrictive global \<or> cp_concurrency global \<noteq> None
               \<or> cp_stages global \<noteq> None then ''global''
             else ''default'')
      in \<lparr>rcp_concurrency = pick (Option.bind per_key cp_concurrency) (cp_concurrency global)
            (cp_concurrency defaults),
          rcp_ip_access = pick (Option.bind per_key cp_ip_access) (cp_ip_access global)
            (cp_ip_access defaults),
          rcp_stages = \<lparr>se_enabled_only =
              pick (Option.bind (Option.bind per_key cp_stages) se_enabled_only)
                (Option.bind (cp_stages global) se_enabled_only)
                (Option.bind (cp_stages defaults) se_enabled_only),
            se_disabled =
              pick (Option.bind (Option.bind per_key cp_stages) se_disabled)
                (Option.bind (cp_stages global) se_disabled)
                (Option.bind (cp_stages defaults) se_disabled)\<rparr>,
          rcp_origin = origin\<rparr>)"

text \<open>The layers are merged field by field, the disabled stages like any other field: a list
  of disabled stages at the key replaces the one of the global layer.\<close>

lemma key_can_reenable_stage:
  fixes name :: string
  defines "layer \<equiv> \<lambda>d. \<lparr>cp_concurrency = None, cp_ip_access = None,
    cp_stages = Some \<lparr>se_enabled_only = None, se_disabled = d\<rparr>\<rparr>"
  shows "is_enabled (rcp_stages (merge_chain_policies (layer None) (layer (Some [name]))
    (Some (layer (Some []))))) name"
    and "\<not> is_enabled (rcp_stages (merge_chain_policies (layer None) (layer (Some [name]))
    (Some (layer None)))) name"
  by (simp_all add: layer_def merge_chain_policies_def pick_def is_enabled_def Let_def)

text \<open>No limit of zero: the stores of the framework take a zero for no limit at all.\<close>

definition positive_limits :: "resolved_chain_policy \<Rightarrow> bool" where
  "positive_limits policy \<longleftrightarrow>
     (case rcp_concurrency policy of
        None \<Rightarrow> True
      | Some cp \<Rightarrow> \<forall>scope limit. limit_for cp scope = Some limit \<longrightarrow> 0 < limit)"

lemma positive_limitsD:
  "positive_limits policy \<Longrightarrow> rcp_concurrency policy = Some cp \<Longrightarrow> limit_for cp scope = Some limit
    \<Longrightarrow> 0 < limit"
  by (simp add: positive_limits_def)

subsection \<open>Client addresses\<close>

datatype reject_kind = Ip_Forbidden | Concurrency_Exceeded | Custom_Reject

record reject_reason =
  rr_kind :: reject_kind
  rr_message :: string
  rr_http_status :: nat
  rr_retry_after_secs :: "nat option"

definition ip_forbidden :: "string \<Rightarrow> reject_reason" where
  "ip_forbidden msg = \<lparr>rr_kind = Ip_Forbidden, rr_message = msg, rr_http_status = 403,
     rr_retry_after_secs = None\<rparr>"

definition concurrency_exceeded :: "string \<Rightarrow> nat \<Rightarrow> reject_reason" where
  "concurrency_exceeded msg retry_after = \<lparr>rr_kind = Concurrency_Exceeded,
     rr_message = msg, rr_http_status = 429, rr_retry_after_secs = Some retry_after\<rparr>"

definition custom_reject :: "nat \<Rightarrow> string \<Rightarrow> reject_reason" where
  "custom_reject http_status msg = \<lparr>rr_kind = Custom_Reject, rr_message = msg,
     rr_http_status = http_status, rr_retry_after_secs = None\<rparr>"

datatype chain_verdict = Pass | Reject reject_reason

fun canonical_ip :: "ip_addr \<Rightarrow> ip_addr" where
  "canonical_ip (V6 v6) = (case to_ipv4_mapped v6 of Some v4 \<Rightarrow> V4 v4 | None \<Rightarrow> V6 v6)"
| "canonical_ip (V4 v4) = V4 v4"

definition ip_matches_entry :: "(string \<Rightarrow> ip_addr \<Rightarrow> bool) \<Rightarrow> ip_addr \<Rightarrow> string \<Rightarrow> bool" where
  "ip_matches_entry net_contains ip entry =
     (let ip = canonical_ip ip; entry = trim entry in
      if entry = [] then False
      else if CHR ''/'' \<in> set entry then net_contains entry ip
      else (case parse_ip entry of
              Some candidate \<Rightarrow> canonical_ip candidate = ip
            | None \<Rightarrow> False))"

definition ip_evaluate ::
  "(string \<Rightarrow> ip_addr \<Rightarrow> bool) \<Rightarrow> ip_addr option \<Rightarrow> ip_access_policy \<Rightarrow> chain_verdict" where
  "ip_evaluate net_contains ip policy =
     (if (case ip of
            Some a \<Rightarrow> list_ex (ip_matches_entry net_contains a) (ia_denylist policy)
          | None \<Rightarrow> False)
      then Reject (ip_forbidden ''client IP is denied by the call chain access policy'')
      else if ia_mode policy = Ip_Allowlist_Only \<and> ia_allowlist policy \<noteq> []
        \<and> \<not> (case ip of
               Some a \<Rightarrow> list_ex (ip_matches_entry net_contains a) (ia_allowlist policy)
             | None \<Rightarrow> False)
      then Reject (ip_forbidden ''client IP is not allowed by the call chain access policy'')
      else Pass)"

text \<open>An address and its IPv4-mapped form are one client: they get the same verdict.\<close>

lemma canonical_ip_idem: "canonical_ip (canonical_ip a) = canonical_ip a"
  by (cases a rule: canonical_ip.cases) (auto split: option.splits)

lemma ip_evaluate_canonical:
  "ip_evaluate nc (Some (canonical_ip a)) policy = ip_evaluate nc (Some a) policy"
  by (simp add: ip_evaluate_def ip_matches_entry_def canonical_ip_idem cong: list_ex_cong)

lemma ip_evaluate_Pass:
  "ip_evaluate nc (Some a) policy = Pass \<longleftrightarrow>
     (\<forall>entry \<in> set (ia_denylist policy). \<not> ip_matches_entry nc a entry) \<and>
     (ia_mode policy = Ip_Allowlist_Only \<longrightarrow> ia_allowlist policy \<noteq> [] \<longrightarrow>
        (\<exists>entry \<in> set (ia_allowlist policy). ip_matches_entry nc a entry))"
  by (auto simp: ip_evaluate_def list_ex_iff)

end
