(* ===== verification/Call_Chain.thy ===== *)
theory Call_Chain
  imports Call_Policy Memory_Runtime "HOL-Library.Product_Lexorder" "HOL-Library.List_Lexorder"
    "HOL-Library.Char_ord"
begin

section \<open>The composable call chain\<close>

text \<open>
  Models \<open>chain.rs\<close>, \<open>concurrency.rs\<close> and the stage of \<open>ip_access.rs\<close> of the crate
  \<open>sdkwork-web-chain\<close>: stages around a protected call, switched by the policy that is resolved
  for its scopes. A hook works on the outside world and the context of the call at once. The
  state a stage keeps in the context is filed under its Rust type; the crate has one such
  type, the leases, and \<open>cc_other\<close> is what the stages of an application file.
\<close>

subsection \<open>Context, stages and chain\<close>

record chain_scopes =
  sc_tenant_id :: "int option"
  sc_organization_id :: "int option"
  sc_api_key_id :: "int option"

record 'x chain_context =
  cc_client_ip :: "ip_addr option"
  cc_scopes :: chain_scopes
  cc_policy :: resolved_chain_policy
  cc_leases :: "string list option"
  cc_other :: "string \<Rightarrow> 'x option"

definition chain_context_new ::
  "ip_addr option \<Rightarrow> chain_scopes \<Rightarrow> resolved_chain_policy \<Rightarrow> 'x chain_context" where
  "chain_context_new ip scopes policy = \<lparr>cc_client_ip = ip, cc_scopes = scopes,
     cc_policy = policy, cc_leases = None, cc_other = Map.empty\<rparr>"

definition insert_leases :: "string list \<Rightarrow> 'x chain_context \<Rightarrow> 'x chain_context" where
  "insert_leases keys ctx = ctx\<lparr>cc_leases := Some keys\<rparr>"

definition take_leases :: "'x chain_context \<Rightarrow> string list option \<times> 'x chain_context" where
  "take_leases ctx = (cc_leases ctx, ctx\<lparr>cc_leases := None\<rparr>)"

type_synonym ('w, 'x, 'a) hook = "('w \<times> 'x chain_context, 'a) action"

record ('w, 'x) chain_stage =
  cs_name :: string
  cs_order :: nat
  cs_enabled :: "stage_enablement \<Rightarrow> bool"
  cs_before :: "('w, 'x, chain_verdict) hook"
  cs_after :: "('w, 'x, unit) hook"
  cs_on_error :: "web_error \<Rightarrow> ('w, 'x, unit) hook"

definition default_stage :: "string \<Rightarrow> ('w, 'x) chain_stage" where
  "default_stage name = \<lparr>cs_name = name, cs_order = 100, cs_enabled = (\<lambda>se. is_enabled se name),
     cs_before = act_return Pass, cs_after = act_return (), cs_on_error = (\<lambda>_. act_return ())\<rparr>"

datatype chain_outcome = Rejected reject_reason | Failed web_error

fun as_reject_reason :: "chain_outcome \<Rightarrow> reject_reason option" where
  "as_reject_reason (Rejected why) = Some why"
| "as_reject_reason (Failed e) = None"

type_synonym 'w policy_resolver = "chain_scopes \<Rightarrow> 'w \<Rightarrow> 'w \<times> resolved_chain_policy"

record ('w, 'x) call_chain =
  ch_stages :: "('w, 'x) chain_stage list"
  ch_resolver :: "'w policy_resolver"

definition stage_runs :: "('w, 'x) chain_stage \<Rightarrow> 'w \<times> 'x chain_context \<Rightarrow> bool" where
  "stage_runs st s = cs_enabled st (rcp_stages (cc_policy (snd s)))"

text \<open>The hooks that undo the stages already started, the last one first; what they return is
  only logged.\<close>

definition release_after ::
  "('w, 'x) chain_stage list \<Rightarrow> 'w \<times> 'x chain_context \<Rightarrow> 'w \<times> 'x chain_context" where
  "release_after started s = fold (\<lambda>st s. fst (cs_after st s)) (rev started) s"

definition run_on_error ::
  "('w, 'x) chain_stage list \<Rightarrow> web_error \<Rightarrow> 'w \<times> 'x chain_context \<Rightarrow> 'w \<times> 'x chain_context" where
  "run_on_error started e s = fold (\<lambda>st s. fst (cs_on_error st e s)) (rev started) s"

fun run_before ::
  "('w, 'x) chain_stage list \<Rightarrow> ('w, 'x) chain_stage list \<Rightarrow> 'w \<times> 'x chain_context
    \<Rightarrow> ('w \<times> 'x chain_context) \<times> (chain_outcome + unit)" where
  "run_before [] started s = (s, Inr ())"
| "run_before (st # sts) started s =
     (if \<not> stage_runs st s then run_before sts started s
      else (case cs_before st s of
              (s', Inr Pass) \<Rightarrow> run_before sts (started @ [st]) s'
            | (s', Inr (Reject why)) \<Rightarrow> (release_after started s', Inl (Rejected why))
            | (s', Inl e) \<Rightarrow> (run_on_error started e s', Inl (Failed e))))"

definition call_chain_before ::
  "('w, 'x) call_chain \<Rightarrow> ip_addr option \<Rightarrow> chain_scopes \<Rightarrow> 'w
    \<Rightarrow> 'w \<times> (chain_outcome + 'x chain_context)" where
  "call_chain_before chain ip scopes w =
     (case ch_resolver chain scopes w of (w, policy) \<Rightarrow>
        (case run_before (ch_stages chain) [] (w, chain_context_new ip scopes policy) of
           (s, Inr _) \<Rightarrow> (fst s, Inr (snd s))
         | (s, Inl outcome) \<Rightarrow> (fst s, Inl outcome)))"

definition call_chain_after :: "('w, 'x) call_chain \<Rightarrow> ('w, 'x, unit) hook" where
  "call_chain_after chain =
     act_seq (map (\<lambda>st. act_when (stage_runs st) (cs_after st)) (rev (ch_stages chain)))"

definition call_chain_on_error ::
  "('w, 'x) call_chain \<Rightarrow> web_error \<Rightarrow> 'w \<times> 'x chain_context \<Rightarrow> 'w \<times> 'x chain_context" where
  "call_chain_on_error chain e s =
     fold (\<lambda>st s. if stage_runs st s then fst (cs_on_error st e s) else s)
       (rev (ch_stages chain)) s"

subsection \<open>Builder\<close>

record ('w, 'x) chain_builder =
  cb_stages :: "('w, 'x) chain_stage list"
  cb_resolver :: "'w policy_resolver option"

definition chain_builder_new :: "('w, 'x) chain_builder" where
  "chain_builder_new = \<lparr>cb_stages = [], cb_resolver = None\<rparr>"

definition chain_with_stage ::
  "('w, 'x) chain_stage \<Rightarrow> ('w, 'x) chain_builder \<Rightarrow> ('w, 'x) chain_builder" where
  "chain_with_stage st b = b\<lparr>cb_stages := cb_stages b @ [st]\<rparr>"

definition chain_with_resolver ::
  "'w policy_resolver \<Rightarrow> ('w, 'x) chain_builder \<Rightarrow> ('w, 'x) chain_builder" where
  "chain_with_resolver r b = b\<lparr>cb_resolver := Some r\<rparr>"

fun duplicate_stage :: "string list \<Rightarrow> ('w, 'x) chain_stage list \<Rightarrow> string option" where
  "duplicate_stage seen [] = None"
| "duplicate_stage seen (st # sts) =
     (if cs_name st \<in> set seen then Some (cs_name st)
      else duplicate_stage (cs_name st # seen) sts)"

definition call_chain_build :: "('w, 'x) chain_builder \<Rightarrow> web_error + ('w, 'x) call_chain" where
  "call_chain_build b =
     (case cb_resolver b of
        None \<Rightarrow> Inl (internal_server_error ''call chain requires a policy resolver'')
      | Some resolver \<Rightarrow>
          (case duplicate_stage [] (cb_stages b) of
             Some name \<Rightarrow>
               Inl (internal_server_error (''duplicate call chain stage name: '' @ name))
           | None \<Rightarrow> Inr \<lparr>ch_stages = sort_key (\<lambda>st. (cs_order st, cs_name st)) (cb_stages b),
               ch_resolver = resolver\<rparr>))"

subsection \<open>The address stage\<close>

type_synonym ('w, 'x) ip_extractor =
  "'w \<times> 'x chain_context \<Rightarrow> ('w \<times> 'x chain_context) \<times> ip_addr option"

definition context_client_ip :: "('w, 'x) ip_extractor" where
  "context_client_ip s = (s, cc_client_ip (snd s))"

definition ip_access_before ::
  "(string \<Rightarrow> ip_addr \<Rightarrow> bool) \<Rightarrow> ('w, 'x) ip_extractor
    \<Rightarrow> ('w, 'x, chain_verdict) hook" where
  "ip_access_before net_contains extract s =
     (case rcp_ip_access (cc_policy (snd s)) of
        None \<Rightarrow> (s, Inr Pass)
      | Some policy \<Rightarrow>
          (case extract s of (s', ip) \<Rightarrow> (s', Inr (ip_evaluate net_contains ip policy))))"

definition ip_access_stage ::
  "(string \<Rightarrow> ip_addr \<Rightarrow> bool) \<Rightarrow> ('w, 'x) ip_extractor
    \<Rightarrow> ('w, 'x) chain_stage" where
  "ip_access_stage net_contains extract = (default_stage ''ip_access'')
     \<lparr>cs_order := 100, cs_before := ip_access_before net_contains extract\<rparr>"

subsection \<open>The concurrency stage\<close>

definition scope_key :: "concurrency_scope \<Rightarrow> 'x chain_context \<Rightarrow> string option" where
  "scope_key scope ctx =
     (case scope of
        Scope_Global \<Rightarrow> Some ''global:concurrent''
      | Scope_Api_Key \<Rightarrow> map_option (\<lambda>i. ''api-key:'' @ show_int i @ '':concurrent'')
          (sc_api_key_id (cc_scopes ctx))
      | Scope_Tenant \<Rightarrow> map_option (\<lambda>i. ''tenant:'' @ show_int i @ '':concurrent'')
          (sc_tenant_id (cc_scopes ctx)))"

definition default_scopes :: "concurrency_scope list" where
  "default_scopes = [Scope_Global, Scope_Api_Key]"

definition release_keys :: "(string \<Rightarrow> ('w, unit) action) \<Rightarrow> string list \<Rightarrow> 'w \<Rightarrow> 'w" where
  "release_keys release keys w = fold (\<lambda>k w. fst (release k w)) (rev keys) w"

text \<open>One slot per enforced scope: a full scope gives back the slots taken so far and rejects,
  any other failure of the store is passed over.\<close>

fun acquire_scopes ::
  "(string \<Rightarrow> nat \<Rightarrow> ('w, unit) action) \<Rightarrow> (string \<Rightarrow> ('w, unit) action) \<Rightarrow> nat
    \<Rightarrow> concurrency_policy \<Rightarrow> 'x chain_context \<Rightarrow> concurrency_scope list \<Rightarrow> string list \<Rightarrow> 'w
    \<Rightarrow> 'w \<times> (reject_reason + string list)" where
  "acquire_scopes acquire release retry policy ctx [] acquired w = (w, Inr acquired)"
| "acquire_scopes acquire release retry policy ctx (scope # scopes) acquired w =
     (case limit_for policy scope of
        None \<Rightarrow> acquire_scopes acquire release retry policy ctx scopes acquired w
      | Some limit \<Rightarrow>
          (case scope_key scope ctx of
             None \<Rightarrow> acquire_scopes acquire release retry policy ctx scopes acquired w
           | Some key \<Rightarrow>
               (case acquire key limit w of
                  (w', Inr _) \<Rightarrow>
                    acquire_scopes acquire release retry policy ctx scopes (acquired @ [key]) w'
                | (w', Inl e) \<Rightarrow>
                    (if kind e = RateLimitExceeded
                     then (release_keys release acquired w',
                       Inl (concurrency_exceeded
                         (''concurrency limit exceeded for scope '' @ concurrency_scope_name scope
                            @ '': '' @ message e)
                         (unwrap_or (retry_after_seconds e) retry)))
                     else acquire_scopes acquire release retry policy ctx scopes acquired w'))))"

definition concurrency_before ::
  "(string \<Rightarrow> nat \<Rightarrow> ('w, unit) action) \<Rightarrow> (string \<Rightarrow> ('w, unit) action) \<Rightarrow> nat
    \<Rightarrow> concurrency_scope list \<Rightarrow> ('w, 'x, chain_verdict) hook" where
  "concurrency_before acquire release retry scopes s =
     (case s of (w, ctx) \<Rightarrow>
        (case rcp_concurrency (cc_policy ctx) of
           None \<Rightarrow> ((w, insert_leases [] ctx), Inr Pass)
         | Some policy \<Rightarrow>
             (case acquire_scopes acquire release retry policy ctx scopes [] w of
                (w', Inr keys) \<Rightarrow> ((w', insert_leases keys ctx), Inr Pass)
              | (w', Inl why) \<Rightarrow> ((w', ctx), Inr (Reject why)))))"

definition concurrency_after ::
  "(string \<Rightarrow> ('w, unit) action) \<Rightarrow> ('w, 'x, unit) hook" where
  "concurrency_after release s =
     (case s of (w, ctx) \<Rightarrow>
        (case take_leases ctx of
           (Some keys, ctx') \<Rightarrow> ((release_keys release keys w, ctx'), Inr ())
         | (None, ctx') \<Rightarrow> ((w, ctx'), Inr ())))"

definition concurrency_stage ::
  "(string \<Rightarrow> nat \<Rightarrow> ('w, unit) action) \<Rightarrow> (string \<Rightarrow> ('w, unit) action) \<Rightarrow> nat
    \<Rightarrow> concurrency_scope list \<Rightarrow> ('w, 'x) chain_stage" where
  "concurrency_stage acquire release retry scopes = (default_stage ''concurrency'')
     \<lparr>cs_order := 200, cs_before := concurrency_before acquire release retry scopes,
      cs_after := concurrency_after release, cs_on_error := (\<lambda>_. concurrency_after release)\<rparr>"


subsection \<open>The store a chain draws its slots from\<close>

text \<open>\<open>held w k\<close> is the number of slots key \<open>k\<close> holds in world \<open>w\<close>.\<close>

locale slot_service =
  fixes acquire :: "string \<Rightarrow> nat \<Rightarrow> ('w, unit) action"
    and release :: "string \<Rightarrow> ('w, unit) action"
    and held :: "'w \<Rightarrow> string \<Rightarrow> nat"
  assumes acquire_takes: "0 < limit \<Longrightarrow> acquire k limit w = (w', Inr ()) \<Longrightarrow>
      held w' = (held w)(k := held w k + 1)"
    and acquire_fails: "acquire k limit w = (w', Inl e) \<Longrightarrow> held w' = held w"
    and release_gives: "held (fst (release k w)) = (held w)(k := held w k - 1)"
begin

lemma release_keys_held:
  "held (release_keys release ks w) k = held w k - count_list ks k"
proof (induction ks arbitrary: w rule: rev_induct)
  case Nil
  then show ?case by (simp add: release_keys_def)
next
  case (snoc a ks)
  have "release_keys release (ks @ [a]) w = release_keys release ks (fst (release a w))"
    by (simp add: release_keys_def)
  then show ?case by (simp add: snoc.IH release_gives)
qed

text \<open>\<open>accounted base keys w\<close>: over \<open>base\<close>, world \<open>w\<close> holds one slot for each of \<open>keys\<close>.\<close>

definition accounted :: "(string \<Rightarrow> nat) \<Rightarrow> string list \<Rightarrow> 'w \<Rightarrow> bool" where
  "accounted base keys w \<longleftrightarrow> held w = (\<lambda>k. base k + count_list keys k)"

lemma accounted_acquire:
  assumes "accounted base keys w" and "0 < limit"
  shows "acquire k limit w = (w', Inr u) \<Longrightarrow> accounted base (keys @ [k]) w'"
    and "acquire k limit w = (w', Inl e) \<Longrightarrow> accounted base keys w'"
  using assms acquire_takes [of limit k w w'] acquire_fails [of k limit w w' e]
  by (auto simp: accounted_def fun_eq_iff)

lemma accounted_release:
  "accounted base keys w \<Longrightarrow> held (release_keys release keys w) = base"
  by (simp add: accounted_def release_keys_held fun_eq_iff)

lemma acquire_scopes_accounted:
  assumes positive: "\<And>scope limit. limit_for policy scope = Some limit \<Longrightarrow> 0 < limit"
  shows "accounted base acquired w \<Longrightarrow>
    (case acquire_scopes acquire release retry policy ctx scopes acquired w of
       (w', Inr keys) \<Rightarrow> accounted base keys w' | (w', Inl why) \<Rightarrow> held w' = base)"
proof (induction scopes arbitrary: acquired w)
  case Nil
  then show ?case by simp
next
  case (Cons scope scopes)
  show ?case
  proof (cases "limit_for policy scope = None \<or> scope_key scope ctx = None")
    case True
    then show ?thesis using Cons.IH [OF Cons.prems] by (auto split: option.split)
  next
    case False
    then obtain limit key where l: "limit_for policy scope = Some limit"
      and k: "scope_key scope ctx = Some key" by auto
    obtain w' r where a: "acquire key limit w = (w', r)" by (cases "acquire key limit w")
    note kept = accounted_acquire [OF Cons.prems positive [OF l], of key w']
    show ?thesis
    proof (cases r)
      case (Inr u)
      have "accounted base (acquired @ [key]) w'" using kept(1) a Inr by simp
      from Cons.IH [OF this] show ?thesis using a Inr by (simp add: l k)
    next
      case (Inl e)
      have "accounted base acquired w'" using kept(2) a Inl by simp
      from Cons.IH [OF this] accounted_release [OF this] show ?thesis
        using a Inl by (simp add: l k)
    qed
  qed
qed

text \<open>What a chain can change of a state as far as the slots are concerned. A stage is neutral
  when none of its hooks does; \<open>settle\<close> gives the leases back.\<close>

definition lease_view :: "'w \<times> 'x chain_context
    \<Rightarrow> (string \<Rightarrow> nat) \<times> string list option \<times> resolved_chain_policy" where
  "lease_view s = (held (fst s), cc_leases (snd s), cc_policy (snd s))"

definition slot_neutral :: "('w, 'x) chain_stage \<Rightarrow> bool" where
  "slot_neutral st \<longleftrightarrow> keeps lease_view (cs_before st) \<and> keeps lease_view (cs_after st)
     \<and> (\<forall>e. keeps lease_view (cs_on_error st e))"

definition slot_stage :: "('w, 'x) chain_stage \<Rightarrow> bool" where
  "slot_stage st \<longleftrightarrow> (\<exists>retry scopes. st = concurrency_stage acquire release retry scopes)"

definition leases_of :: "'x chain_context \<Rightarrow> string list" where
  "leases_of ctx = unwrap_or (cc_leases ctx) []"

fun settle :: "(string \<Rightarrow> nat) \<times> string list option \<times> resolved_chain_policy
    \<Rightarrow> (string \<Rightarrow> nat) \<times> string list option \<times> resolved_chain_policy" where
  "settle (h, l, p) = (\<lambda>k. h k - count_list (unwrap_or l []) k, None, p)"

lemma settle_idem [simp]: "settle (settle v) = settle v"
  by (cases v) simp

lemma settle_policy [simp]: "snd (snd (settle v)) = snd (snd v)"
  by (cases v) simp

lemma lease_view_stage:
  assumes "slot_stage st"
  shows "lease_view (fst (cs_after st s)) = settle (lease_view s)"
    and "lease_view (fst (cs_on_error st e s)) = settle (lease_view s)"
    and "cs_name st = ''concurrency''"
  using assms
  by (auto simp: slot_stage_def concurrency_stage_def default_stage_def concurrency_after_def
      take_leases_def lease_view_def release_keys_held split: prod.splits option.splits)

lemma hook_view:
  assumes "slot_stage st \<or> slot_neutral st"
  shows "lease_view (fst (cs_after st s)) =
      (if slot_stage st then settle (lease_view s) else lease_view s)"
    and "lease_view (fst (cs_on_error st e s)) =
      (if slot_stage st then settle (lease_view s) else lease_view s)"
  using assms lease_view_stage unfolding slot_neutral_def keeps_def by metis+

lemma stage_runs_view:
  "lease_view t = (if c then settle (lease_view s) else lease_view s) \<Longrightarrow> stage_runs st t = stage_runs st s"
  by (cases c) (simp_all add: lease_view_def stage_runs_def)

lemma settle_first:
  assumes "lease_view t = (if c then settle (lease_view s) else lease_view s)"
    and "v = (if d then settle (lease_view t) else lease_view t)"
  shows "v = (if c \<or> d then settle (lease_view s) else lease_view s)"
  using assms by (cases c; cases d) simp_all

lemma undo_view:
  assumes "\<forall>st \<in> set sts. slot_stage st \<or> slot_neutral st"
  shows "lease_view (release_after sts s) =
      (if \<exists>st \<in> set sts. slot_stage st then settle (lease_view s) else lease_view s)"
    and "lease_view (run_on_error sts e s) =
      (if \<exists>st \<in> set sts. slot_stage st then settle (lease_view s) else lease_view s)"
  using assms
proof (induction sts arbitrary: s rule: rev_induct)
  case Nil
  { case 1 show ?case by (simp add: release_after_def) }
  { case 2 show ?case by (simp add: run_on_error_def) }
next
  case (snoc st sts)
  have ra: "release_after (sts @ [st]) s = release_after sts (fst (cs_after st s))" for s
    by (simp add: release_after_def)
  have ro: "run_on_error (sts @ [st]) e s = run_on_error sts e (fst (cs_on_error st e s))" for s
    by (simp add: run_on_error_def)
  { case 1
    have "lease_view (release_after (sts @ [st]) s) =
        (if slot_stage st \<or> (\<exists>st \<in> set sts. slot_stage st) then settle (lease_view s) else lease_view s)"
      unfolding ra by (rule settle_first [OF hook_view(1) snoc.IH(1)]) (use 1 in simp_all)
    then show ?case by (cases "slot_stage st"; cases "Bex (set sts) slot_stage") simp_all }
  { case 2
    have "lease_view (run_on_error (sts @ [st]) e s) =
        (if slot_stage st \<or> (\<exists>st \<in> set sts. slot_stage st) then settle (lease_view s) else lease_view s)"
      unfolding ro by (rule settle_first [OF hook_view(2) snoc.IH(2)]) (use 2 in simp_all)
    then show ?case by (cases "slot_stage st"; cases "Bex (set sts) slot_stage") simp_all }
qed

lemma chain_on_error_view:
  assumes "\<forall>st \<in> set (ch_stages chain). slot_stage st \<or> slot_neutral st"
  shows "lease_view (call_chain_on_error chain e s) =
      (if \<exists>st \<in> set (ch_stages chain). slot_stage st \<and> stage_runs st s
       then settle (lease_view s) else lease_view s)"
proof -
  have "lease_view (fold (\<lambda>st s. if stage_runs st s then fst (cs_on_error st e s) else s) sts s) =
      (if \<exists>st \<in> set sts. slot_stage st \<and> stage_runs st s then settle (lease_view s) else lease_view s)"
    if "\<forall>st \<in> set sts. slot_stage st \<or> slot_neutral st" for sts
    using that
  proof (induction sts arbitrary: s)
    case (Cons st sts)
    let ?s = "if stage_runs st s then fst (cs_on_error st e s) else s"
    have v: "lease_view ?s =
        (if slot_stage st \<and> stage_runs st s then settle (lease_view s) else lease_view s)"
      using hook_view(2) [of st e s] Cons.prems by simp
    have "lease_view (fold (\<lambda>st s. if stage_runs st s then fst (cs_on_error st e s) else s) sts ?s) =
        (if \<exists>t \<in> set sts. slot_stage t \<and> stage_runs t s then settle (lease_view ?s) else lease_view ?s)"
      using Cons.IH [of ?s] Cons.prems by (simp add: stage_runs_view [OF v])
    from settle_first [OF v this] show ?case by simp
  qed simp
  from this [of "rev (ch_stages chain)"] assms show ?thesis
    by (simp add: call_chain_on_error_def)
qed

lemma chain_after_view:
  assumes "\<forall>st \<in> set (ch_stages chain). slot_stage st \<or> slot_neutral st"
    and "call_chain_after chain s = (s', Inr ())"
  shows "lease_view s' =
      (if \<exists>st \<in> set (ch_stages chain). slot_stage st \<and> stage_runs st s
       then settle (lease_view s) else lease_view s)"
proof -
  have "lease_view s' =
      (if \<exists>st \<in> set sts. slot_stage st \<and> stage_runs st s then settle (lease_view s) else lease_view s)"
    if "\<forall>st \<in> set sts. slot_stage st \<or> slot_neutral st"
      and "act_seq (map (\<lambda>st. act_when (stage_runs st) (cs_after st)) sts) s = (s', Inr ())" for sts
    using that
  proof (induction sts arbitrary: s)
    case (Cons st sts)
    from Cons.prems(2) obtain t where t: "act_when (stage_runs st) (cs_after st) s = (t, Inr ())"
      and r: "act_seq (map (\<lambda>st. act_when (stage_runs st) (cs_after st)) sts) t = (s', Inr ())"
      unfolding list.map act_seq.simps act_bind_Inr by (elim exE conjE) simp
    from t have "t = (if stage_runs st s then fst (cs_after st s) else s)"
      by (cases "stage_runs st s") simp_all
    then have v: "lease_view t =
        (if slot_stage st \<and> stage_runs st s then settle (lease_view s) else lease_view s)"
      using hook_view(1) [of st s] Cons.prems(1) by simp
    have "lease_view s' =
        (if \<exists>q \<in> set sts. slot_stage q \<and> stage_runs q s then settle (lease_view t) else lease_view t)"
      using Cons.IH [OF _ r] Cons.prems(1) by (simp add: stage_runs_view [OF v])
    from settle_first [OF v this] show ?case by simp
  qed simp
  from this [of "rev (ch_stages chain)"] assms show ?thesis
    by (simp add: call_chain_after_def)
qed

text \<open>Between two stages: the slots of the leases in the context, and no leases unless the
  concurrency stage has started.\<close>

definition underway ::
  "(string \<Rightarrow> nat) \<Rightarrow> resolved_chain_policy \<Rightarrow> ('w, 'x) chain_stage list
    \<Rightarrow> (string \<Rightarrow> nat) \<times> string list option \<times> resolved_chain_policy \<Rightarrow> bool" where
  "underway base policy started v \<longleftrightarrow>
     (case v of (h, l, p) \<Rightarrow> p = policy \<and> h = (\<lambda>k. base k + count_list (unwrap_or l []) k)
        \<and> (l \<noteq> None \<longrightarrow> (\<exists>st \<in> set started. slot_stage st)))"

lemma underway_undone:
  assumes "underway base policy started v"
  shows "fst (if \<exists>st \<in> set started. slot_stage st then settle v else v) = base"
  using assms by (cases v) (auto simp: underway_def fun_eq_iff)

lemma underway_more: "underway base policy started v \<Longrightarrow> underway base policy (started @ [st]) v"
  by (auto simp: underway_def split: prod.splits)

lemma slot_stage_before:
  assumes "slot_stage st" and "underway base policy started (lease_view s)"
    and "\<forall>st \<in> set started. \<not> slot_stage st"
    and "positive_limits policy"
  shows "cs_before st s = (s', Inr Pass) \<Longrightarrow> underway base policy (started @ [st]) (lease_view s')"
    and "cs_before st s = (s', Inr (Reject why)) \<Longrightarrow> lease_view s' = lease_view s"
    and "cs_before st s \<noteq> (s', Inl e)"
proof -
  obtain w ctx where s: "s = (w, ctx)" by (cases s)
  from assms(1) obtain retry scopes
    where b: "cs_before st = concurrency_before acquire release retry scopes"
    by (auto simp: slot_stage_def concurrency_stage_def)
  from assms(2,3) have l: "cc_leases ctx = None" and p: "cc_policy ctx = policy"
    and h: "held w = base" by (auto simp: underway_def lease_view_def s fun_eq_iff)
  have base: "accounted base [] w" by (simp add: accounted_def h)
  have run: "case acquire_scopes acquire release retry cp ctx scopes [] w of
      (w', Inr keys) \<Rightarrow> accounted base keys w' | (w', Inl why) \<Rightarrow> held w' = base"
    if "rcp_concurrency policy = Some cp" for cp
    by (rule acquire_scopes_accounted [OF positive_limitsD [OF assms(4) that] base])
  show "cs_before st s = (s', Inr Pass) \<Longrightarrow> underway base policy (started @ [st]) (lease_view s')"
    using run p h assms(1)
    by (auto simp: b s concurrency_before_def insert_leases_def underway_def lease_view_def
        accounted_def split: option.splits prod.splits sum.splits)
  show "cs_before st s = (s', Inr (Reject why)) \<Longrightarrow> lease_view s' = lease_view s"
    using run p h
    by (auto simp: b s concurrency_before_def lease_view_def
        split: option.splits prod.splits sum.splits)
  show "cs_before st s \<noteq> (s', Inl e)"
    by (auto simp: b s concurrency_before_def split: option.splits prod.splits sum.splits)
qed

lemma stage_step:
  assumes positive: "positive_limits policy"
    and "distinct (map cs_name (started @ st # sts))"
    and "\<forall>st \<in> set (started @ st # sts). slot_stage st \<or> slot_neutral st"
    and "underway base policy started (lease_view s)"
    and "cs_before st s = (s', r)"
  shows "underway base policy (if r = Inr Pass then started @ [st] else started) (lease_view s')"
proof (cases "slot_stage st")
  case True
  have "cs_name st \<notin> cs_name ` set started" using assms(2) by auto
  then have "\<not> slot_stage q" if "q \<in> set started" for q
    using that lease_view_stage(3) [OF True] lease_view_stage(3) [of q]
    by (metis image_eqI)
  then have fresh: "\<forall>q \<in> set started. \<not> slot_stage q" by blast
  note before = slot_stage_before [OF True assms(4) fresh positive]
  consider "r = Inr Pass" | why where "r = Inr (Reject why)" | e where "r = Inl e"
    by (metis chain_verdict.exhaust obj_sumE)
  then show ?thesis
  proof cases
    case 1
    then show ?thesis using before(1) assms(5) by simp
  next
    case 2
    then show ?thesis using before(2) assms(4,5) by simp
  next
    case 3
    then show ?thesis using before(3) assms(5) by blast
  qed
next
  case False
  then have "lease_view s' = lease_view s"
    using assms(3,5) unfolding slot_neutral_def keeps_def by (metis fst_conv in_set_conv_decomp)
  then show ?thesis using assms(4) underway_more [OF assms(4), of st] by simp
qed

lemma stage_runs_underway:
  "underway base policy started (lease_view s) \<Longrightarrow> stage_runs st s = cs_enabled st (rcp_stages policy)"
  by (simp add: underway_def lease_view_def stage_runs_def)

lemma run_before_accounted:
  assumes positive: "positive_limits policy"
  shows "distinct (map cs_name (started @ sts)) \<Longrightarrow>
    \<forall>st \<in> set (started @ sts). slot_stage st \<or> slot_neutral st \<Longrightarrow>
    underway base policy started (lease_view s) \<Longrightarrow>
    \<forall>st \<in> set started. cs_enabled st (rcp_stages policy) \<Longrightarrow>
    (case run_before sts started s of
       (s', Inl outcome) \<Rightarrow> held (fst s') = base
     | (s', Inr u) \<Rightarrow> \<exists>begun. underway base policy begun (lease_view s')
         \<and> set begun \<subseteq> set (started @ sts) \<and> (\<forall>st \<in> set begun. cs_enabled st (rcp_stages policy)))"
proof (induction sts arbitrary: started s)
  case Nil
  then show ?case by auto
next
  case (Cons st sts)
  have rest: "distinct (map cs_name (started @ sts))"
    "distinct (map cs_name ((started @ [st]) @ sts))"
    "\<forall>st \<in> set (started @ sts). slot_stage st \<or> slot_neutral st"
    "\<forall>st \<in> set ((started @ [st]) @ sts). slot_stage st \<or> slot_neutral st"
    "\<forall>st \<in> set started. slot_stage st \<or> slot_neutral st"
    using Cons.prems(1,2) by auto
  note runs = stage_runs_underway [OF Cons.prems(3), of st]
  obtain s' r where b: "cs_before st s = (s', r)" by (cases "cs_before st s")
  have step: "underway base policy (if r = Inr Pass then started @ [st] else started) (lease_view s')"
    by (rule stage_step [OF positive Cons.prems(1-3) b])
  show ?case
  proof (cases "stage_runs st s")
    case False
    then show ?thesis
      using Cons.IH [OF rest(1,3) Cons.prems(3,4)]
      by (auto split: prod.splits sum.splits)
  next
    case True
    consider (pass) "r = Inr Pass" | (reject) why where "r = Inr (Reject why)" | (err) e where "r = Inl e"
      by (metis chain_verdict.exhaust obj_sumE)
    then show ?thesis
    proof cases
      case pass
      have "\<forall>q \<in> set (started @ [st]). cs_enabled q (rcp_stages policy)"
        using Cons.prems(4) True runs by simp
      moreover have "underway base policy (started @ [st]) (lease_view s')"
        using step pass by simp
      moreover have "set (started @ st # sts) = set ((started @ [st]) @ sts)" by simp
      ultimately show ?thesis
        using Cons.IH [OF rest(2,4), of s'] pass b True
        by (simp only: run_before.simps prod.case sum.case chain_verdict.case not_True_eq_False if_False)
    next
      case reject
      then have u: "underway base policy started (lease_view s')" using step by simp
      have "held (fst (release_after started s')) = fst (lease_view (release_after started s'))"
        by (simp add: lease_view_def)
      also have "\<dots> = base" unfolding undo_view(1) [OF rest(5)] by (rule underway_undone [OF u])
      finally show ?thesis using reject b True by simp
    next
      case err
      then have u: "underway base policy started (lease_view s')" using step by simp
      have "held (fst (run_on_error started e s')) = fst (lease_view (run_on_error started e s'))"
        by (simp add: lease_view_def)
      also have "\<dots> = base" unfolding undo_view(2) [OF rest(5)] by (rule underway_undone [OF u])
      finally show ?thesis using err b True by simp
    qed
  qed
qed

lemma release_settles:
  assumes "underway base policy begun (lease_view (w, ctx))"
    and "set begun \<subseteq> set sts" and "\<forall>st \<in> set begun. cs_enabled st (rcp_stages policy)"
    and "lease_view s' = (if \<exists>st \<in> set sts. slot_stage st \<and> stage_runs st (v, ctx)
      then settle (lease_view (v, ctx)) else lease_view (v, ctx))"
  shows "held (fst s') = (\<lambda>k. held v k - count_list (leases_of ctx) k)" and "cc_leases (snd s') = None"
proof -
  have p: "cc_policy ctx = policy" using assms(1) by (simp add: underway_def lease_view_def)
  have "cc_leases ctx \<noteq> None \<Longrightarrow> \<exists>st \<in> set sts. slot_stage st \<and> stage_runs st (v, ctx)"
    using assms(1-3) p unfolding underway_def lease_view_def stage_runs_def by auto
  then have "lease_view s' = settle (lease_view (v, ctx))"
    using assms(4) by (cases "cc_leases ctx") (simp_all add: lease_view_def)
  then show "held (fst s') = (\<lambda>k. held v k - count_list (leases_of ctx) k)"
    and "cc_leases (snd s') = None" by (simp_all add: lease_view_def leases_of_def)
qed

lemma built_chain:
  assumes "call_chain_build b = Inr chain"
  shows "set (ch_stages chain) = set (cb_stages b)" "distinct (map cs_name (ch_stages chain))"
    "sorted (map (\<lambda>st. (cs_order st, cs_name st)) (ch_stages chain))"
proof -
  have d: "duplicate_stage seen sts = None \<longleftrightarrow>
      distinct (map cs_name sts) \<and> set seen \<inter> cs_name ` set sts = {}" for seen sts
    by (induction sts arbitrary: seen) auto
  from assms have c: "ch_stages chain = sort_key (\<lambda>st. (cs_order st, cs_name st)) (cb_stages b)"
    and "duplicate_stage [] (cb_stages b) = None"
    by (auto simp: call_chain_build_def split: option.splits)
  then have "distinct (map cs_name (cb_stages b))" by (simp add: d)
  then have "distinct (map cs_name (ch_stages chain))"
    unfolding c distinct_map by (simp add: inj_on_def)
  with c show "set (ch_stages chain) = set (cb_stages b)" "distinct (map cs_name (ch_stages chain))"
    "sorted (map (\<lambda>st. (cs_order st, cs_name st)) (ch_stages chain))" by simp_all
qed

lemma chain_accounts:
  assumes "call_chain_build b = Inr chain"
    and "\<forall>st \<in> set (cb_stages b). slot_stage st \<or> slot_neutral st"
    and "\<And>w. held (fst (ch_resolver chain scopes w)) = held w"
    and "\<And>w. positive_limits (snd (ch_resolver chain scopes w))"
  shows "case call_chain_before chain ip scopes w of
      (w', Inl outcome) \<Rightarrow> held w' = held w
    | (w', Inr ctx) \<Rightarrow> held w' = (\<lambda>k. held w k + count_list (leases_of ctx) k) \<and>
        (\<forall>v e s'. s' = call_chain_on_error chain e (v, ctx) \<or> call_chain_after chain (v, ctx) = (s', Inr ())
           \<longrightarrow> held (fst s') = (\<lambda>k. held v k - count_list (leases_of ctx) k) \<and> cc_leases (snd s') = None)"
proof -
  note built = built_chain [OF assms(1)]
  obtain w1 policy where r: "ch_resolver chain scopes w = (w1, policy)"
    by (cases "ch_resolver chain scopes w")
  have h: "held w1 = held w" and p: "positive_limits policy"
    using assms(3,4) [of w] by (simp_all add: r)
  let ?s = "(w1, chain_context_new ip scopes policy)"
  have stages: "\<forall>st \<in> set (ch_stages chain). slot_stage st \<or> slot_neutral st"
    using assms(2) built(1) by simp
  have u: "underway (held w) policy [] (lease_view ?s)"
    by (simp add: underway_def lease_view_def chain_context_new_def h)
  note run = run_before_accounted [OF p, of "[]" "ch_stages chain" "held w" ?s, simplified,
      OF built(2) stages u]
  obtain s' q where b: "run_before (ch_stages chain) [] ?s = (s', q)"
    by (cases "run_before (ch_stages chain) [] ?s")
  obtain w' ctx where s': "s' = (w', ctx)" by (cases s')
  show ?thesis
  proof (cases q)
    case (Inl outcome)
    then show ?thesis using run by (simp add: call_chain_before_def r b)
  next
    case (Inr x)
    then obtain begun where begun: "underway (held w) policy begun (lease_view (w', ctx))"
      "set begun \<subseteq> set (ch_stages chain)" "\<forall>st \<in> set begun. cs_enabled st (rcp_stages policy)"
      using run by (auto simp: b s')
    have e: "held (fst s') = (\<lambda>k. held v k - count_list (leases_of ctx) k) \<and> cc_leases (snd s') = None"
      if "s' = call_chain_on_error chain e (v, ctx) \<or> call_chain_after chain (v, ctx) = (s', Inr ())" for v e s'
    proof -
      have "lease_view s' =
          (if \<exists>st \<in> set (ch_stages chain). slot_stage st \<and> stage_runs st (v, ctx)
           then settle (lease_view (v, ctx)) else lease_view (v, ctx))"
        using that chain_on_error_view [OF stages, of e "(v, ctx)"] chain_after_view [OF stages, of "(v, ctx)" s']
        by (elim disjE) simp_all
      from release_settles [OF begun this] show ?thesis by blast
    qed
    have acc: "held w' = (\<lambda>k. held w k + count_list (leases_of ctx) k)"
      using begun(1) by (simp add: underway_def lease_view_def leases_of_def)
    have c: "call_chain_before chain ip scopes w = (w', Inr ctx)"
      using Inr by (simp add: call_chain_before_def r b s')
    show ?thesis unfolding c prod.case sum.case
      by (intro conjI allI impI) (rule acc, erule e [THEN conjunct1], erule e [THEN conjunct2])
  qed
qed

end

subsection \<open>The chain over the in-memory store\<close>

definition slots_held :: "mem_world \<Rightarrow> string \<Rightarrow> nat" where
  "slots_held w = mem_held (mw_admission w)"

interpretation memory_slots: slot_service memory_admission_acquire memory_admission_release slots_held
proof
  fix k limit and w w' :: mem_world and e
  show "0 < limit \<Longrightarrow> memory_admission_acquire k limit w = (w', Inr ()) \<Longrightarrow>
      slots_held w' = (slots_held w)(k := slots_held w k + 1)"
    using mem_admission.acquire_ok [of limit k "mw_admission w"]
    by (auto simp: memory_admission_acquire_def slots_held_def split: prod.splits)
  show "memory_admission_acquire k limit w = (w', Inl e) \<Longrightarrow> slots_held w' = slots_held w"
    using mem_admission.acquire_err [of k limit "mw_admission w"]
    by (auto simp: memory_admission_acquire_def slots_held_def split: prod.splits)
  show "slots_held (fst (memory_admission_release k w)) = (slots_held w)(k := slots_held w k - 1)"
    using mem_admission.release_held [of k "mw_admission w"]
    by (simp add: memory_admission_release_def slots_held_def)
qed

definition memory_stage :: "nat \<Rightarrow> concurrency_scope list \<Rightarrow> (mem_world, 'x) chain_stage" where
  "memory_stage retry scopes =
     concurrency_stage memory_admission_acquire memory_admission_release retry scopes"

text \<open>A stage that leaves alone the slots, the leases in the context and the policy.\<close>

definition leaves_slots :: "(mem_world, 'x) chain_stage \<Rightarrow> bool" where
  "leaves_slots st \<longleftrightarrow>
     (let view = (\<lambda>(w, ctx). (slots_held w, cc_leases ctx, cc_policy ctx))
      in keeps view (cs_before st) \<and> keeps view (cs_after st) \<and> (\<forall>e. keeps view (cs_on_error st e)))"

definition leased :: "'x chain_context \<Rightarrow> string \<Rightarrow> nat" where
  "leased ctx k = count_list (unwrap_or (cc_leases ctx) []) k"

text \<open>C36: A built chain accounts for every concurrency slot, whatever stages it is composed of,
  as long as the others leave the slots alone and no limit is zero. A run that is rejected or
  fails, by whichever stage, ends with the slots it started with. A run that is admitted holds
  exactly the slots of the leases in its context, and \<open>on_error\<close>, or \<open>after\<close> when it succeeds,
  gives back exactly those from whatever state the other requests have left, and empties the
  leases, so that a second release gives nothing back.\<close>

lemma chain_slots_account:
  assumes "call_chain_build b = Inr chain"
    and "\<forall>st \<in> set (cb_stages b). (\<exists>retry enforced. st = memory_stage retry enforced) \<or> leaves_slots st"
    and "\<And>w. slots_held (fst (ch_resolver chain scopes w)) = slots_held w"
    and "\<And>w. positive_limits (snd (ch_resolver chain scopes w))"
  shows "case call_chain_before chain ip scopes w of
      (w', Inl outcome) \<Rightarrow> slots_held w' = slots_held w
    | (w', Inr ctx) \<Rightarrow> slots_held w' = (\<lambda>k. slots_held w k + leased ctx k) \<and>
        (\<forall>v e s'. s' = call_chain_on_error chain e (v, ctx) \<or> call_chain_after chain (v, ctx) = (s', Inr ())
           \<longrightarrow> slots_held (fst s') = (\<lambda>k. slots_held v k - leased ctx k) \<and> leased (snd s') = (\<lambda>_. 0))"
proof -
  have "memory_slots.slot_stage st \<or> memory_slots.slot_neutral st" if "st \<in> set (cb_stages b)" for st
    using assms(2) that
    by (auto simp: memory_slots.slot_stage_def memory_slots.slot_neutral_def leaves_slots_def
        memory_stage_def memory_slots.lease_view_def [abs_def] case_prod_unfold Let_def)
  then have "\<forall>st \<in> set (cb_stages b). memory_slots.slot_stage st \<or> memory_slots.slot_neutral st" by blast
  note account = memory_slots.chain_accounts [OF assms(1) this assms(3,4), where ip = ip and w = w]
  have l: "count_list (memory_slots.leases_of ctx) k = leased ctx k" for ctx :: "'a chain_context" and k
    by (simp add: leased_def memory_slots.leases_of_def)
  have n: "cc_leases ctx = None \<Longrightarrow> leased ctx = (\<lambda>_. 0)" for ctx :: "'a chain_context"
    by (simp add: leased_def fun_eq_iff)
  obtain w' q where q: "call_chain_before chain ip scopes w = (w', q)"
    by (cases "call_chain_before chain ip scopes w")
  show ?thesis
  proof (cases q)
    case (Inl outcome)
    then show ?thesis using account unfolding q by simp
  next
    case (Inr ctx)
    note held = account [unfolded q Inr prod.case sum.case l]
    show ?thesis unfolding q Inr prod.case sum.case
      using held [THEN conjunct1] held [THEN conjunct2, rule_format] n by (intro conjI allI impI) blast+
  qed
qed

text \<open>\<open>after\<close> stops at the first hook that fails. The hooks run last stage first, so a stage of
  a higher order that fails keeps the concurrency stage from giving its leases back.\<close>

lemma failing_after_keeps_leases:
  assumes "ch_stages chain = [memory_stage retry enforced, st]"
    and "stage_runs st (v, ctx)" and "\<And>s. cs_after st s = (s, Inl e)"
  shows "call_chain_after chain (v, ctx) = ((v, ctx), Inl e)"
  using assms by (simp add: call_chain_after_def act_bind_def)

definition example_chain_builder :: "(mem_world, unit) chain_builder" where
  "example_chain_builder = chain_with_stage (default_stage ''audit'')
     (chain_with_stage (memory_stage 1 default_scopes)
       (chain_with_resolver (\<lambda>_ w. (w, resolved_from \<lparr>cp_concurrency =
           Some \<lparr>max_inflight = Some 1, max_inflight_per_scope = None\<rparr>,
           cp_ip_access = None, cp_stages = None\<rparr>)) chain_builder_new))"

definition example_scopes :: chain_scopes where
  "example_scopes = \<lparr>sc_tenant_id = Some 1, sc_organization_id = None, sc_api_key_id = Some 7\<rparr>"

lemma example_stage_fields:
  "cs_name (default_stage n) = n" "cs_order (default_stage n) = 100"
  "cs_enabled (default_stage n) se = is_enabled se n" "cs_before (default_stage n) = act_return Pass"
  "cs_name (memory_stage retry enforced) = ''concurrency''"
  "cs_order (memory_stage retry enforced) = 200"
  "cs_enabled (memory_stage retry enforced) se = is_enabled se ''concurrency''"
  "cs_before (memory_stage retry enforced) =
     concurrency_before memory_admission_acquire memory_admission_release retry enforced"
  by (simp_all add: default_stage_def memory_stage_def concurrency_stage_def)

lemma example_chain:
  obtains chain where "call_chain_build example_chain_builder = Inr chain"
    and "ch_stages chain = [default_stage ''audit'', memory_stage 1 default_scopes]"
    and "ch_resolver chain = the (cb_resolver example_chain_builder)"
proof (rule that)
  show "call_chain_build example_chain_builder = Inr
      \<lparr>ch_stages = [default_stage ''audit'', memory_stage 1 default_scopes],
       ch_resolver = the (cb_resolver example_chain_builder)\<rparr>"
    by (simp add: call_chain_build_def example_chain_builder_def chain_with_stage_def
        chain_with_resolver_def chain_builder_new_def example_stage_fields)
qed simp_all

lemma chain_slots_account_witness:
  "\<exists>chain w' ctx. call_chain_build example_chain_builder = Inr chain \<and>
     call_chain_before chain None example_scopes mem_world_init = (w', Inr ctx) \<and>
     leased ctx ''api-key:7:concurrent'' = 1 \<and>
     slots_held w' = (\<lambda>k. slots_held mem_world_init k + leased ctx k)"
proof -
  obtain chain where c: "call_chain_build example_chain_builder = Inr chain"
    and stages: "ch_stages chain = [default_stage ''audit'', memory_stage 1 default_scopes]"
    and resolver: "ch_resolver chain = the (cb_resolver example_chain_builder)"
    by (rule example_chain)
  have res: "ch_resolver chain scopes w = (w, resolved_from \<lparr>cp_concurrency =
           Some \<lparr>max_inflight = Some 1, max_inflight_per_scope = None\<rparr>,
           cp_ip_access = None, cp_stages = None\<rparr>)" for scopes w
    by (simp add: resolver example_chain_builder_def chain_with_stage_def chain_with_resolver_def)
  have p: "positive_limits (snd (ch_resolver chain scopes w))" for scopes w
    by (simp add: res positive_limits_def resolved_from_def limit_for_def)
  have r: "slots_held (fst (ch_resolver chain scopes w)) = slots_held w" for scopes w
    by (simp add: res)
  have "leaves_slots (default_stage ''audit'' :: (mem_world, unit) chain_stage)"
    by (simp add: leaves_slots_def default_stage_def keeps_basic Let_def)
  then have "\<forall>st \<in> set (cb_stages example_chain_builder).
      (\<exists>retry enforced. st = memory_stage retry enforced) \<or> leaves_slots st"
    by (auto simp: example_chain_builder_def chain_with_stage_def chain_with_resolver_def
        chain_builder_new_def)
  note account = chain_slots_account [OF c this r p, where scopes = example_scopes and ip = None and w = mem_world_init]
  have seven: "show_nat 7 = ''7''" by code_simp
  have "\<exists>w' ctx. call_chain_before chain None example_scopes mem_world_init = (w', Inr ctx)
      \<and> leased ctx ''api-key:7:concurrent'' = 1"
    by (simp add: call_chain_before_def res stages example_stage_fields stage_runs_def
        chain_context_new_def resolved_from_def stage_enablement_default_def is_enabled_def
        concurrency_before_def default_scopes_def limit_for_def scope_key_def example_scopes_def
        memory_admission_acquire_def mem_try_acquire_def mem_world_init_def Let_def
        insert_leases_def leased_def show_int_def seven)
  then obtain w' ctx where "call_chain_before chain None example_scopes mem_world_init = (w', Inr ctx)"
    and "leased ctx ''api-key:7:concurrent'' = 1" by blast
  with c account show ?thesis by (intro exI [of _ chain] exI [of _ w'] exI [of _ ctx]) simp
qed

end
