(* ===== verification/Openapi.thy ===== *)
theory Openapi
  imports Contract Json
begin

section \<open>OpenAPI documents of route manifests\<close>

text \<open>
  Models the generation half of \<open>sdkwork-web-contract/src/openapi.rs\<close>: the operation, the
  responses, parameters and security of a route, its SDKWork extensions, the document of a
  list of routes and the ownership metadata. The functions that panic on an invalid route
  return \<^const>\<open>None\<close> there. Objects are maps ordered by key; \<open>json_obj\<close> is the \<open>json!\<close> of an
  object. Parsing JSON is the parameter \<open>parse\<close>.
\<close>

definition json_obj :: "(string \<times> json) list \<Rightarrow> json" where
  "json_obj kvs = JObject (bt_of_list kvs)"

fun obj_insert :: "string \<Rightarrow> json \<Rightarrow> json \<Rightarrow> json" where
  "obj_insert k v (JObject kvs) = JObject (bt_insert k v kvs)"
| "obj_insert k v j = j"

text \<open>\<open>get_mut(k).and_then(Value::as_object_mut)\<close>, then the change \<open>f\<close> of that object.\<close>

definition obj_modify :: "string \<Rightarrow> (json \<Rightarrow> json) \<Rightarrow> json \<Rightarrow> json" where
  "obj_modify k f j =
     (case json_get k j of
        Some v \<Rightarrow> if is_object v then obj_insert k (f v) j else j
      | None \<Rightarrow> j)"

subsection \<open>Labels\<close>

definition request_context_extension :: string where
  "request_context_extension = ''x-sdkwork-request-context''"
definition api_surface_extension :: string where
  "api_surface_extension = ''x-sdkwork-api-surface''"
definition owner_extension :: string where
  "owner_extension = ''x-sdkwork-owner''"
definition api_authority_extension :: string where
  "api_authority_extension = ''x-sdkwork-api-authority''"
definition route_auth_extension :: string where
  "route_auth_extension = ''x-sdkwork-route-auth''"
definition auth_mode_extension :: string where
  "auth_mode_extension = ''x-sdkwork-auth-mode''"
definition forbid_credential_headers_extension :: string where
  "forbid_credential_headers_extension = ''x-sdkwork-forbid-credential-headers''"
definition wire_protocol_extension :: string where
  "wire_protocol_extension = ''x-sdkwork-wire-protocol''"
definition external_protocol_id_extension :: string where
  "external_protocol_id_extension = ''x-sdkwork-external-protocol-id''"
definition rate_limit_tier_extension :: string where
  "rate_limit_tier_extension = ''x-sdkwork-rate-limit-tier''"
definition log_retention_extension :: string where
  "log_retention_extension = ''x-sdkwork-log-retention''"
definition permission_extension :: string where
  "permission_extension = ''x-sdkwork-permission''"
definition alternate_permissions_extension :: string where
  "alternate_permissions_extension = ''x-sdkwork-alternate-permissions''"
definition required_surface_extension :: string where
  "required_surface_extension = ''x-sdkwork-required-surface''"

lemmas extension_names = request_context_extension_def api_surface_extension_def
  owner_extension_def api_authority_extension_def route_auth_extension_def
  auth_mode_extension_def forbid_credential_headers_extension_def wire_protocol_extension_def
  external_protocol_id_extension_def rate_limit_tier_extension_def log_retention_extension_def
  permission_extension_def alternate_permissions_extension_def required_surface_extension_def

fun openapi_surface_label :: "api_surface \<Rightarrow> string" where
  "openapi_surface_label OpenApi = ''open-api''"
| "openapi_surface_label AppApi = ''app-api''"
| "openapi_surface_label BackendApi = ''backend-api''"
| "openapi_surface_label InternalApi = ''internal-api''"
| "openapi_surface_label GatewayApi = ''gateway-api''"
| "openapi_surface_label Unknown = ''unknown''"

fun openapi_route_auth_label :: "route_auth \<Rightarrow> string" where
  "openapi_route_auth_label Public = ''public''"
| "openapi_route_auth_label BootstrapBody = ''bootstrap-body''"
| "openapi_route_auth_label CredentialEntryBootstrap = ''credential-entry-bootstrap''"
| "openapi_route_auth_label RefreshToken = ''refresh-token''"
| "openapi_route_auth_label DualToken = ''dual-token''"
| "openapi_route_auth_label DualTokenOrAnonymous = ''dual-token-or-anonymous''"
| "openapi_route_auth_label ApiKey = ''api-key''"
| "openapi_route_auth_label IngressToken = ''ingress-token''"
| "openapi_route_auth_label OAuth = ''oauth''"
| "openapi_route_auth_label OpenApiFlexible = ''open-api-flexible''"
| "openapi_route_auth_label OpenApiBearerFlexible = ''open-api-bearer-flexible''"
| "openapi_route_auth_label ApiKeyOrDualToken = ''api-key-or-dual-token''"
| "openapi_route_auth_label AgentToken = ''agent-token''"
| "openapi_route_auth_label Compatibility = ''compatibility''"

fun auth_mode_label :: "route_auth \<Rightarrow> string" where
  "auth_mode_label Public = ''anonymous''"
| "auth_mode_label BootstrapBody = ''bootstrap-body''"
| "auth_mode_label CredentialEntryBootstrap = ''credential-entry-bootstrap''"
| "auth_mode_label RefreshToken = ''refresh-token''"
| "auth_mode_label DualToken = ''dual-token''"
| "auth_mode_label DualTokenOrAnonymous = ''dual-token-or-anonymous''"
| "auth_mode_label ApiKey = ''api-key''"
| "auth_mode_label IngressToken = ''ingress-token''"
| "auth_mode_label OAuth = ''oauth''"
| "auth_mode_label OpenApiFlexible = ''open-api-flexible''"
| "auth_mode_label OpenApiBearerFlexible = ''open-api-bearer-flexible''"
| "auth_mode_label ApiKeyOrDualToken = ''api-key-or-dual-token''"
| "auth_mode_label AgentToken = ''agent-token''"
| "auth_mode_label Compatibility = ''compatibility''"

fun rate_limit_tier_label :: "rate_limit_tier \<Rightarrow> string" where
  "rate_limit_tier_label AuthCritical = ''auth-critical''"
| "rate_limit_tier_label OpenApiDefault = ''open-api-default''"
| "rate_limit_tier_label Upload = ''upload''"
| "rate_limit_tier_label Search = ''search''"
| "rate_limit_tier_label Bulk = ''bulk''"
| "rate_limit_tier_label Worker = ''worker''"
| "rate_limit_tier_label Internal = ''internal''"

fun openapi_method_label :: "http_method \<Rightarrow> string" where
  "openapi_method_label Get = ''get''"
| "openapi_method_label Post = ''post''"
| "openapi_method_label Put = ''put''"
| "openapi_method_label Patch = ''patch''"
| "openapi_method_label Delete = ''delete''"

subsection \<open>Extensions\<close>

definition operation_view_of :: "json \<Rightarrow> operation_view" where
  "operation_view_of j = \<lparr>op_is_object = is_object j,
     op_operation_id = Option.bind (json_get ''operationId'' j) as_str,
     op_responses_object = (case json_get ''responses'' j of Some r \<Rightarrow> is_object r | None \<Rightarrow> False)\<rparr>"

definition route_contract ::
  "(string \<Rightarrow> json option) \<Rightarrow> http_route \<Rightarrow> contract_error + unit" where
  "route_contract parse r =
     validate_compatibility_contract (\<lambda>s. map_option operation_view_of (parse s)) r"

definition compatibility_auth ::
  "(string \<Rightarrow> json option) \<Rightarrow> http_route \<Rightarrow> compat_auth option" where
  "compatibility_auth parse r =
     (if route_contract parse r \<noteq> Inr () then None
      else Option.bind (rt_compatibility_auth r) (\<lambda>a.
        if validate_compat_auth a \<noteq> Inr () then None else Some a))"

definition insert_when :: "bool \<Rightarrow> string \<Rightarrow> json \<Rightarrow> json btree \<Rightarrow> json btree" where
  "insert_when b k v m = (if b then bt_insert k v m else m)"

definition insert_some :: "string \<Rightarrow> json option \<Rightarrow> json btree \<Rightarrow> json btree" where
  "insert_some k v m = (case v of Some j \<Rightarrow> bt_insert k j m | None \<Rightarrow> m)"

text \<open>What every operation carries, what a mirrored protocol adds, and what the route declares.\<close>

definition base_extensions :: "http_route \<Rightarrow> json btree" where
  "base_extensions r =
     (let m = bt_insert request_context_extension (JString ''WebRequestContext'') [];
          m = bt_insert api_surface_extension
                (JString (openapi_surface_label (infer_api_surface_from_path (rt_path r)))) m;
          m = bt_insert route_auth_extension (JString (openapi_route_auth_label (rt_auth r))) m;
          m = bt_insert auth_mode_extension (JString (auth_mode_label (rt_auth r))) m
      in insert_when (rt_forbid_credential_headers r) forbid_credential_headers_extension
           (JBool True) m)"

definition protocol_extensions ::
  "(string \<Rightarrow> json option) \<Rightarrow> http_route \<Rightarrow> json btree \<Rightarrow> json btree option" where
  "protocol_extensions parse r m =
     (if rt_auth r = Compatibility
      then map_option (\<lambda>a.
        bt_insert external_protocol_id_extension (JString (external_protocol_id a))
          (bt_insert wire_protocol_extension (JString ''external'') m)) (compatibility_auth parse r)
      else Some m)"

definition declared_extensions :: "http_route \<Rightarrow> json btree \<Rightarrow> json btree" where
  "declared_extensions r m =
     (let m = insert_some rate_limit_tier_extension
                (map_option (\<lambda>tier. JString (rate_limit_tier_label tier)) (rt_rate_limit_tier r)) m;
          m = insert_some log_retention_extension (map_option JString (rt_log_retention r)) m;
          m = insert_some permission_extension (map_option JString (rt_required_permission r)) m;
          m = insert_some alternate_permissions_extension
                (map_option (\<lambda>ps. JArray (map JString ps)) (rt_alternate_permissions r)) m
      in insert_when (infer_api_surface_from_path (rt_path r) = BackendApi \<and>
            \<not> skips_credential_resolution (rt_auth r))
           required_surface_extension (JString ''organizationMember'') m)"

definition openapi_extensions_for_route ::
  "(string \<Rightarrow> json option) \<Rightarrow> http_route \<Rightarrow> json btree option" where
  "openapi_extensions_for_route parse r =
     map_option (declared_extensions r) (protocol_extensions parse r (base_extensions r))"

definition insert_all :: "json btree \<Rightarrow> json \<Rightarrow> json" where
  "insert_all m j = fold (\<lambda>(k, v). obj_insert k v) m j"

subsection \<open>Parameters and responses\<close>

definition route_may_return_not_found :: "http_route \<Rightarrow> bool" where
  "route_may_return_not_found r \<longleftrightarrow>
     CHR ''{'' \<in> set (rt_path r) \<and> rt_method r \<in> {Delete, Post, Put, Patch}"

definition route_accepts_request_body :: "http_route \<Rightarrow> bool" where
  "route_accepts_request_body r \<longleftrightarrow> rt_method r \<in> {Post, Put, Patch}"

definition route_supports_list_query :: "http_route \<Rightarrow> bool" where
  "route_supports_list_query r \<longleftrightarrow> rt_method r = Get \<and> ends_with (rt_operation_id r) ''.list''"

definition query_parameter :: "string \<Rightarrow> (string \<times> json) list \<Rightarrow> json \<Rightarrow> json" where
  "query_parameter name extra schema = json_obj ([(''name'', JString name), (''in'', JString ''query''),
     (''required'', JBool False)] @ extra @ [(''schema'', schema)])"

definition string_schema :: json where
  "string_schema = json_obj [(''type'', JString ''string'')]"

definition page_size_schema :: json where
  "page_size_schema = json_obj [(''type'', JString ''integer''), (''minimum'', JInt 1),
     (''maximum'', JInt 200)]"

definition openapi_parameters_for_route :: "http_route \<Rightarrow> json option" where
  "openapi_parameters_for_route r =
     (if \<not> route_supports_list_query r then None
      else (let keyset = rt_operation_id r \<in>
                {''webFramework.auditEvents.list'', ''webFramework.securityEvents.list''} in
        Some (JArray (
          (if rt_operation_id r \<noteq> ''webFramework.securityEvents.list'' \<and> \<not> keyset
           then [query_parameter ''environment'' [] string_schema] else []) @
          (if rt_alternate_permissions r \<noteq> None
             \<or> rt_operation_id r = ''webFramework.auditEvents.list''
           then [query_parameter ''tenant_id'' [] string_schema] else []) @
          (if keyset
           then [query_parameter ''page_size'' [] page_size_schema,
             query_parameter ''limit'' [(''deprecated'', JBool True),
               (''description'', JString ''Legacy alias for page_size (cursor mode).'')] page_size_schema,
             query_parameter ''cursor''
               [(''description'', JString ''Opaque keyset cursor (audit/security event id).'')] string_schema]
           else [query_parameter ''page'' []
               (json_obj [(''type'', JString ''integer''), (''minimum'', JInt 1)]),
             query_parameter ''page_size'' [] page_size_schema,
             query_parameter ''limit'' [(''deprecated'', JBool True),
               (''description'', JString ''Legacy alias for page_size (offset mode).'')] page_size_schema])))))"

definition route_post_collection_may_return_ok :: "http_route \<Rightarrow> bool" where
  "route_post_collection_may_return_ok r \<longleftrightarrow> rt_method r = Post
     \<and> CHR ''{'' \<notin> set (rt_path r) \<and> rt_operation_id r = ''webFramework.controlNodes.register''"

definition route_creates_resource :: "http_route \<Rightarrow> bool" where
  "route_creates_resource r \<longleftrightarrow> rt_method r = Post \<and> CHR ''{'' \<notin> set (rt_path r)"

definition route_deletes_resource :: "http_route \<Rightarrow> bool" where
  "route_deletes_resource r \<longleftrightarrow> rt_method r = Delete \<and> CHR ''{'' \<in> set (rt_path r)"

definition is_command_operation :: "http_route \<Rightarrow> bool" where
  "is_command_operation r =
     (if route_creates_resource r then False
      else if rt_method r \<noteq> Post then False
      else last (split_on (CHR ''.'') (rt_operation_id r)) \<in>
          {''revoke'', ''enable'', ''disable'', ''delete'', ''heartbeat'', ''verify'', ''refresh'',
           ''logout'', ''provision''}
        \<and> \<not> ends_with (rt_operation_id r) ''.create'')"

definition schema_ref :: "string \<Rightarrow> json" where
  "schema_ref name = json_obj [(''$ref'', JString (''#/components/schemas/'' @ name))]"

definition success_envelope_ref_for_route :: "http_route \<Rightarrow> json" where
  "success_envelope_ref_for_route r =
     (if ends_with (rt_operation_id r) ''.list'' then schema_ref ''SdkWorkListResponse''
      else if is_command_operation r then schema_ref ''SdkWorkCommandResponse''
      else schema_ref ''SdkWorkResourceResponse'')"

definition openapi_success_response :: "http_route \<Rightarrow> string \<Rightarrow> json" where
  "openapi_success_response r description = json_obj [(''description'', JString description),
     (''content'', json_obj [(''application/json'',
        json_obj [(''schema'', success_envelope_ref_for_route r)])])]"

definition openapi_problem_response :: "string \<Rightarrow> json" where
  "openapi_problem_response description = json_obj [(''description'', JString description),
     (''content'', json_obj [(''application/problem+json'',
        json_obj [(''schema'', schema_ref ''ProblemDetail'')])])]"

definition openapi_responses_for_route :: "http_route \<Rightarrow> json" where
  "openapi_responses_for_route r =
     (let m = (if route_creates_resource r
            then insert_when (route_post_collection_may_return_ok r) ''200''
              (openapi_success_response r ''Success'')
              (bt_insert ''201'' (openapi_success_response r ''Created'') [])
            else if route_deletes_resource r
            then bt_insert ''204'' (json_obj [(''description'', JString ''No Content'')]) []
            else bt_insert ''200'' (openapi_success_response r ''Success'') []);
          m = bt_insert ''401'' (openapi_problem_response ''Unauthorized'') m;
          m = bt_insert ''403'' (openapi_problem_response ''Forbidden'') m;
          m = bt_insert ''429'' (openapi_problem_response ''Too Many Requests'') m;
          m = (if route_accepts_request_body r \<or> route_supports_list_query r
            then insert_when (route_accepts_request_body r) ''413''
              (openapi_problem_response ''Payload Too Large'')
              (bt_insert ''400'' (openapi_problem_response ''Bad Request'') m)
            else m);
          m = insert_when (route_may_return_not_found r) ''404''
            (openapi_problem_response ''Not Found'') m;
          m = bt_insert ''503'' (openapi_problem_response ''Service Unavailable'') m;
          m = bt_insert ''500'' (openapi_problem_response ''Internal Server Error'') m
      in JObject m)"

subsection \<open>Operations\<close>

definition no_scopes :: "string list \<Rightarrow> json" where
  "no_scopes names = json_obj (map (\<lambda>s. (s, JArray [])) names)"

text \<open>For \<open>Compatibility\<close> the code is unreachable.\<close>

fun openapi_security :: "route_auth \<Rightarrow> json option" where
  "openapi_security Public = Some (JArray [])"
| "openapi_security BootstrapBody = Some (JArray [])"
| "openapi_security RefreshToken = Some (JArray [])"
| "openapi_security CredentialEntryBootstrap = Some (JArray [no_scopes [''AccessToken'']])"
| "openapi_security DualToken = Some (JArray [no_scopes [''AuthToken'', ''AccessToken'']])"
| "openapi_security DualTokenOrAnonymous = Some (JArray [no_scopes [''AuthToken'', ''AccessToken'']])"
| "openapi_security ApiKey = Some (JArray [no_scopes [''ApiKey'']])"
| "openapi_security OAuth = Some (JArray [no_scopes [''OAuthBearer'']])"
| "openapi_security OpenApiFlexible = Some (JArray [no_scopes [''ApiKey''], no_scopes [''OAuthBearer'']])"
| "openapi_security OpenApiBearerFlexible = Some (JArray [no_scopes [''OAuthBearer'']])"
| "openapi_security ApiKeyOrDualToken =
     Some (JArray [no_scopes [''ApiKey''], no_scopes [''AuthToken'', ''AccessToken'']])"
| "openapi_security IngressToken = Some (JArray [no_scopes [''IngressToken'', ''AccessToken'']])"
| "openapi_security AgentToken = Some (JArray [no_scopes [''AgentToken'', ''AccessToken'']])"
| "openapi_security Compatibility = None"

definition compatibility_security_requirements :: "compat_auth \<Rightarrow> json" where
  "compatibility_security_requirements a =
     JArray (map (\<lambda>r. no_scopes (req_scheme_names r)) (requirements a))"

definition build_compatibility_openapi_operation ::
  "(string \<Rightarrow> json option) \<Rightarrow> http_route \<Rightarrow> json option" where
  "build_compatibility_openapi_operation parse r =
     Option.bind (compatibility_auth parse r) (\<lambda>a.
     Option.bind (rt_compatibility_openapi_operation r) (\<lambda>source.
     Option.bind (parse source) (\<lambda>operation.
       if \<not> is_object operation then None
       else if Option.bind (json_get ''operationId'' operation) as_str \<noteq> Some (rt_operation_id r)
       then None
       else if \<not> (case json_get ''responses'' operation of Some j \<Rightarrow> is_object j | None \<Rightarrow> False)
       then None
       else Option.bind (openapi_extensions_for_route parse r) (\<lambda>extensions.
         Some (insert_all extensions
           (obj_insert ''security'' (compatibility_security_requirements a) operation))))))"

text \<open>The fields of an operation of this library's own, before its security requirements.\<close>

definition standard_operation :: "http_route \<Rightarrow> json btree" where
  "standard_operation r =
     (let m = bt_insert ''operationId'' (JString (rt_operation_id r)) [];
          m = bt_insert ''tags'' (JArray [JString (rt_tag r)]) m;
          m = bt_insert ''summary'' (JString (rt_operation_id r)) m;
          m = bt_insert ''responses'' (openapi_responses_for_route r) m
      in insert_some ''parameters'' (openapi_parameters_for_route r) m)"

definition build_openapi_operation :: "(string \<Rightarrow> json option) \<Rightarrow> http_route \<Rightarrow> json option" where
  "build_openapi_operation parse r =
     (if rt_auth r = Compatibility then build_compatibility_openapi_operation parse r
      else Option.bind (openapi_security (rt_auth r)) (\<lambda>security.
        Option.bind (openapi_extensions_for_route parse r) (\<lambda>extensions.
          Some (insert_all extensions
            (JObject (bt_insert ''security'' security (standard_operation r)))))))"

fun opt_fold :: "('a \<Rightarrow> 's \<Rightarrow> 's option) \<Rightarrow> 'a list \<Rightarrow> 's \<Rightarrow> 's option" where
  "opt_fold f [] s = Some s"
| "opt_fold f (x # xs) s = Option.bind (f x s) (opt_fold f xs)"

definition build_openapi_path_item ::
  "(string \<Rightarrow> json option) \<Rightarrow> http_route list \<Rightarrow> json option" where
  "build_openapi_path_item parse routes =
     map_option JObject (opt_fold (\<lambda>r item.
       map_option (\<lambda>operation. bt_insert (openapi_method_label (rt_method r)) operation item)
         (build_openapi_operation parse r)) routes [])"

end
