(* ===== verification/Openapi_Selectors.thy ===== *)
theory Openapi_Selectors
  imports Contract Json
begin

section \<open>Context selectors in OpenAPI contracts\<close>

text \<open>
  Models the checking half of \<open>sdkwork-web-contract/src/openapi.rs\<close>: routes and documents
  must not offer parameters, body fields or paths that select a tenant, an organization or
  another part of the request context, except beneath the prefixes of an upstream protocol.
  An error is the variant of \<open>selector_error\<close> for its message.
\<close>

datatype selector_error =
    RoutePathMarker http_method string string
  | MissingPaths
  | DocumentPathMarker string string
  | QuerySelector string string
  | PathSelector string string
  | BodySelector string string

subsection \<open>Keys, prefixes and markers\<close>

definition forbidden_selector_query_keys :: "string list" where
  "forbidden_selector_query_keys = [''tenant_id'', ''tenantid'', ''tenant'', ''tenant-id'',
     ''app_id'', ''appid'', ''app-id'', ''organization_id'', ''organizationid'',
     ''organization-id'', ''org_id'', ''orgid'', ''user_id'', ''userid'', ''user-id'',
     ''session_id'', ''sessionid'', ''session-id'']"

definition ambient_path_markers :: "string list" where
  "ambient_path_markers = [''/tenants/'', ''/organizations/'']"

definition contract_selector_key :: "string \<Rightarrow> string" where
  "contract_selector_key key = to_lower (filter (\<lambda>c. c \<noteq> CHR ''_'' \<and> c \<noteq> CHR ''-'') key)"

definition forbidden_context_selector_keys :: "string list" where
  "forbidden_context_selector_keys = map contract_selector_key forbidden_selector_query_keys"

definition is_forbidden_context_selector_param :: "string \<Rightarrow> bool" where
  "is_forbidden_context_selector_param name =
     list_ex (\<lambda>k. k = contract_selector_key name) forbidden_context_selector_keys"

fun requires_context_selector_guard :: "api_surface \<Rightarrow> bool" where
  "requires_context_selector_guard AppApi = True"
| "requires_context_selector_guard OpenApi = True"
| "requires_context_selector_guard InternalApi = True"
| "requires_context_selector_guard GatewayApi = True"
| "requires_context_selector_guard _ = False"

definition is_under_external_prefix :: "string \<Rightarrow> string list \<Rightarrow> bool" where
  "is_under_external_prefix path external_prefixes =
     (if external_prefixes = [] then False
      else (let normalized = trim_end_char (CHR ''/'') (hd (split_on (CHR ''?'') path)) in
        list_ex (\<lambda>p.
          let p = trim_end_char (CHR ''/'') (hd (split_on (CHR ''?'') p)) in
          p \<noteq> [] \<and>
          (case strip_prefix normalized p of
             Some rest \<Rightarrow> rest = [] \<or> starts_with rest ''/''
           | None \<Rightarrow> False)) external_prefixes))"

definition first_marker :: "string \<Rightarrow> string option" where
  "first_marker normalized = find (\<lambda>m. str_contains normalized m) ambient_path_markers"

subsection \<open>Routes\<close>

definition check_route_selectors :: "string list \<Rightarrow> http_route \<Rightarrow> selector_error + unit" where
  "check_route_selectors external_prefixes r =
     (if \<not> requires_context_selector_guard (infer_api_surface_from_path (rt_path r)) then Inr ()
      else if is_under_external_prefix (rt_path r) external_prefixes then Inr ()
      else if rt_external_wire_protocol r \<noteq> None then Inr ()
      else (let normalized = to_lower (rt_path r) in
        if is_canonical_iam_context_resource_path normalized then Inr ()
        else (case first_marker normalized of
                Some marker \<Rightarrow> Inl (RoutePathMarker (rt_method r) (rt_path r) marker)
              | None \<Rightarrow> Inr ())))"

definition validate_openapi_routes_context_selectors ::
  "http_route list \<Rightarrow> string list \<Rightarrow> selector_error + unit" where
  "validate_openapi_routes_context_selectors routes external_prefixes =
     res_forall (check_route_selectors external_prefixes) routes"

subsection \<open>Schemas\<close>

definition schema_properties :: "json \<Rightarrow> string list" where
  "schema_properties schema =
     (case Option.bind (json_get ''properties'' schema) as_object of
        Some kvs \<Rightarrow> map fst kvs | None \<Rightarrow> [])"

definition schema_parts :: "json \<Rightarrow> string \<Rightarrow> json list" where
  "schema_parts schema combinator =
     (case Option.bind (json_get combinator schema) as_array of Some vs \<Rightarrow> vs | None \<Rightarrow> [])"

text \<open>The schemas the check recurses into, in its order.\<close>

definition schema_children :: "json \<Rightarrow> json list" where
  "schema_children schema =
     (case json_get ''items'' schema of Some j \<Rightarrow> [j] | None \<Rightarrow> [])
       @ concat (map (schema_parts schema) [''allOf'', ''anyOf'', ''oneOf''])"

definition check_schema_properties :: "string \<Rightarrow> json \<Rightarrow> selector_error + unit" where
  "check_schema_properties path schema =
     res_forall (\<lambda>key. if is_forbidden_context_selector_param key then Inl (BodySelector path key)
       else Inr ()) (schema_properties schema)"

text \<open>The recursion of \<open>validate_openapi_schema_context_selectors\<close> with a bound on its depth, the
  frames of the call stack: \<^const>\<open>None\<close> when they do not suffice.\<close>

fun check_all :: "('a \<Rightarrow> ('e + unit) option) \<Rightarrow> 'a list \<Rightarrow> ('e + unit) option" where
  "check_all f [] = Some (Inr ())"
| "check_all f (x # xs) =
     (case f x of
        None \<Rightarrow> None
      | Some (Inl e) \<Rightarrow> Some (Inl e)
      | Some (Inr _) \<Rightarrow> check_all f xs)"

fun validate_schema_selectors ::
  "nat \<Rightarrow> string \<Rightarrow> json \<Rightarrow> (selector_error + unit) option" where
  "validate_schema_selectors 0 path schema = None"
| "validate_schema_selectors (Suc depth) path schema =
     (case check_schema_properties path schema of
        Inl e \<Rightarrow> Some (Inl e)
      | Inr _ \<Rightarrow> check_all (validate_schema_selectors depth path) (schema_children schema))"

subsection \<open>Documents\<close>

definition check_parameter :: "string \<Rightarrow> json \<Rightarrow> selector_error + unit" where
  "check_parameter path p =
     (let name = (case Option.bind (json_get ''name'' p) as_str of Some s \<Rightarrow> s | None \<Rightarrow> '''');
          location = (case Option.bind (json_get ''in'' p) as_str of Some s \<Rightarrow> s | None \<Rightarrow> ''query'')
      in if location = ''query'' \<and> is_forbidden_context_selector_param name
         then Inl (QuerySelector path name)
         else if location = ''path'' \<and> is_forbidden_context_selector_param name
         then Inl (PathSelector path name)
         else Inr ())"

definition validate_openapi_parameters :: "string \<Rightarrow> json list \<Rightarrow> selector_error + unit" where
  "validate_openapi_parameters path parameters = res_forall (check_parameter path) parameters"

definition check_optional_parameters :: "string \<Rightarrow> json \<Rightarrow> selector_error + unit" where
  "check_optional_parameters path j =
     (case Option.bind (json_get ''parameters'' j) as_array of
        Some parameters \<Rightarrow> validate_openapi_parameters path parameters
      | None \<Rightarrow> Inr ())"

definition validate_openapi_request_body ::
  "nat \<Rightarrow> string \<Rightarrow> json \<Rightarrow> (selector_error + unit) option" where
  "validate_openapi_request_body depth path operation =
     (case Option.bind (Option.bind (json_get ''requestBody'' operation) (json_get ''content'')) as_object of
        None \<Rightarrow> Some (Inr ())
      | Some content \<Rightarrow>
          check_all (\<lambda>(media_type, media).
            if \<not> starts_with media_type ''application/json'' then Some (Inr ())
            else (case json_get ''schema'' media of
                    Some schema \<Rightarrow> validate_schema_selectors depth path schema
                  | None \<Rightarrow> Some (Inr ()))) content)"

definition selector_methods :: "string list" where
  "selector_methods = [''get'', ''post'', ''put'', ''patch'', ''delete'', ''head'', ''options'', ''trace'']"

definition check_operation_selectors ::
  "nat \<Rightarrow> string \<Rightarrow> string \<times> json \<Rightarrow> (selector_error + unit) option" where
  "check_operation_selectors depth path mo =
     (case mo of (method, operation) \<Rightarrow>
        if method \<notin> set selector_methods \<or> \<not> is_object operation then Some (Inr ())
        else (case check_optional_parameters path operation of
                Inl e \<Rightarrow> Some (Inl e)
              | Inr _ \<Rightarrow> validate_openapi_request_body depth path operation))"

definition check_path_selectors ::
  "nat \<Rightarrow> string list \<Rightarrow> string \<times> json \<Rightarrow> (selector_error + unit) option" where
  "check_path_selectors depth external_prefixes pi =
     (case pi of (path, path_item) \<Rightarrow>
        if \<not> requires_context_selector_guard (infer_api_surface_from_path path) then Some (Inr ())
        else if is_under_external_prefix path external_prefixes then Some (Inr ())
        else (let normalized = to_lower path in
          case (if is_canonical_iam_context_resource_path normalized then None
                else first_marker normalized) of
            Some marker \<Rightarrow> Some (Inl (DocumentPathMarker path marker))
          | None \<Rightarrow>
              (case as_object path_item of
                 None \<Rightarrow> Some (Inr ())
               | Some entries \<Rightarrow>
                   (case check_optional_parameters path path_item of
                      Inl e \<Rightarrow> Some (Inl e)
                    | Inr _ \<Rightarrow> check_all (check_operation_selectors depth path) entries))))"

definition validate_openapi_document_context_selectors ::
  "nat \<Rightarrow> json \<Rightarrow> string list \<Rightarrow> (selector_error + unit) option" where
  "validate_openapi_document_context_selectors depth doc external_prefixes =
     (case Option.bind (json_get ''paths'' doc) as_object of
        None \<Rightarrow> Some (Inl MissingPaths)
      | Some paths \<Rightarrow> check_all (check_path_selectors depth external_prefixes) paths)"

subsection \<open>The recursion ends\<close>

text \<open>Nesting depth of a value, the schemas a contract reaches from one, the properties a schema
  offers, and the names that select the context: they are written apart from the code's
  traversal, which is compared with them below.\<close>

fun json_depth :: "json \<Rightarrow> nat" where
  "json_depth (JArray vs) = Suc (foldr max (map json_depth vs) 0)"
| "json_depth (JObject kvs) = Suc (foldr max (map (\<lambda>kv. json_depth (snd kv)) kvs) 0)"
| "json_depth _ = 1"

inductive schema_reaches :: "json \<Rightarrow> json \<Rightarrow> bool" where
  here: "schema_reaches s s"
| items: "json_get ''items'' s = Some c \<Longrightarrow> schema_reaches c t \<Longrightarrow> schema_reaches s t"
| all_of: "json_get ''allOf'' s = Some (JArray vs) \<Longrightarrow> c \<in> set vs \<Longrightarrow> schema_reaches c t \<Longrightarrow> schema_reaches s t"
| any_of: "json_get ''anyOf'' s = Some (JArray vs) \<Longrightarrow> c \<in> set vs \<Longrightarrow> schema_reaches c t \<Longrightarrow> schema_reaches s t"
| one_of: "json_get ''oneOf'' s = Some (JArray vs) \<Longrightarrow> c \<in> set vs \<Longrightarrow> schema_reaches c t \<Longrightarrow> schema_reaches s t"

definition offers_property :: "json \<Rightarrow> string \<Rightarrow> bool" where
  "offers_property s key \<longleftrightarrow>
     (\<exists>kvs. json_get ''properties'' s = Some (JObject kvs) \<and> key \<in> fst ` set kvs)"

definition selects_context :: "string \<Rightarrow> bool" where
  "selects_context key \<longleftrightarrow> to_lower (filter (\<lambda>c. c \<notin> set ''_-'') key) \<in> set
     [''tenant'', ''tenantid'', ''appid'', ''organizationid'', ''orgid'', ''userid'', ''sessionid'']"

lemma forbidden_keys: "set forbidden_context_selector_keys = set
  [''tenant'', ''tenantid'', ''appid'', ''organizationid'', ''orgid'', ''userid'', ''sessionid'']"
  by code_simp

lemma forbidden_selects: "is_forbidden_context_selector_param key = selects_context key"
proof -
  have "(\<lambda>c. c \<noteq> CHR ''_'' \<and> c \<noteq> CHR ''-'') = (\<lambda>c. c \<notin> set ''_-'')" by auto
  then show ?thesis
    unfolding is_forbidden_context_selector_param_def selects_context_def contract_selector_key_def
      list_ex_iff forbidden_keys by auto
qed

lemma properties_offered: "key \<in> set (schema_properties s) \<longleftrightarrow> offers_property s key"
proof (cases "json_get ''properties'' s")
  case (Some j)
  then show ?thesis by (cases j) (simp_all add: schema_properties_def offers_property_def)
qed (simp add: schema_properties_def offers_property_def)

lemma part_of: "c \<in> set (schema_parts s combinator) \<longleftrightarrow>
  (\<exists>vs. json_get combinator s = Some (JArray vs) \<and> c \<in> set vs)"
proof (cases "json_get combinator s")
  case (Some j)
  then show ?thesis by (cases j) (simp_all add: schema_parts_def)
qed (simp add: schema_parts_def)

lemma child_iff: "c \<in> set (schema_children s) \<longleftrightarrow> json_get ''items'' s = Some c
    \<or> (\<exists>vs. json_get ''allOf'' s = Some (JArray vs) \<and> c \<in> set vs)
    \<or> (\<exists>vs. json_get ''anyOf'' s = Some (JArray vs) \<and> c \<in> set vs)
    \<or> (\<exists>vs. json_get ''oneOf'' s = Some (JArray vs) \<and> c \<in> set vs)"
  by (auto simp: schema_children_def part_of split: option.split)

lemma reaches_iff:
  "schema_reaches s t \<longleftrightarrow> t = s \<or> (\<exists>c \<in> set (schema_children s). schema_reaches c t)"
  unfolding child_iff Bex_def
  by (subst schema_reaches.simps) blast

lemma le_foldr_max: "x \<in> set xs \<Longrightarrow> x \<le> foldr max xs (0 :: nat)"
  by (induction xs) (auto simp: le_max_iff_disj)

lemma member_depth:
  "v \<in> set vs \<Longrightarrow> json_depth v < json_depth (JArray vs)"
  "json_get k j = Some v \<Longrightarrow> json_depth v < json_depth j"
proof -
  show "v \<in> set vs \<Longrightarrow> json_depth v < json_depth (JArray vs)"
    by (simp add: less_Suc_eq_le le_foldr_max)
  assume "json_get k j = Some v"
  then obtain kvs where j: "j = JObject kvs" and "(k, v) \<in> set kvs"
    by (auto simp: json_get_Some dest: map_of_SomeD)
  then have "json_depth v \<in> set (map (\<lambda>kv. json_depth (snd kv)) kvs)" by force
  then show "json_depth v < json_depth j" by (simp add: j less_Suc_eq_le le_foldr_max)
qed

lemma child_depth:
  assumes "c \<in> set (schema_children s)" shows "json_depth c < json_depth s"
  using assms member_depth(1) [of c] member_depth(2) [of _ s]
  unfolding child_iff by (blast intro: less_trans)

lemma check_all_ends:
  assumes "\<And>x. x \<in> set xs \<Longrightarrow> f x \<noteq> None"
  shows "check_all f xs \<noteq> None"
  using assms by (induction xs) (auto split: option.splits sum.splits)

lemma check_all_ok: "check_all f xs = Some (Inr ()) \<longleftrightarrow> (\<forall>x \<in> set xs. f x = Some (Inr ()))"
  by (induction xs) (auto split: option.splits sum.splits)

lemma check_all_cong: "(\<And>x. x \<in> set xs \<Longrightarrow> f x = g x) \<Longrightarrow> check_all f xs = check_all g xs"
  by (induction xs) (auto split: option.splits sum.splits)

lemma check_schema_properties_ok:
  "check_schema_properties path s = Inr () \<longleftrightarrow>
     (\<forall>key. offers_property s key \<longrightarrow> \<not> selects_context key)"
  by (auto simp: check_schema_properties_def res_forall_ok forbidden_selects properties_offered)

lemma json_depth_pos: "0 < json_depth s"
  by (cases s) simp_all

lemma validate_schema_depth:
  "json_depth s \<le> m \<Longrightarrow> json_depth s \<le> n \<Longrightarrow>
    validate_schema_selectors m path s = validate_schema_selectors n path s"
proof (induction m arbitrary: n s)
  case 0
  then show ?case using json_depth_pos [of s] by simp
next
  case (Suc m)
  then obtain n' where n: "n = Suc n'" using json_depth_pos [of s] by (cases n) simp_all
  have "check_all (validate_schema_selectors m path) (schema_children s) =
      check_all (validate_schema_selectors n' path) (schema_children s)"
  proof (rule check_all_cong)
    fix c assume "c \<in> set (schema_children s)"
    then have "json_depth c < json_depth s" by (rule child_depth)
    with Suc.prems show "validate_schema_selectors m path c = validate_schema_selectors n' path c"
      by (intro Suc.IH) (simp_all add: n)
  qed
  then show ?case by (simp add: n split: sum.split)
qed

lemma validate_schema_ends:
  "json_depth s \<le> depth \<Longrightarrow> validate_schema_selectors depth path s \<noteq> None"
proof (induction depth arbitrary: s)
  case 0
  then show ?case using json_depth_pos [of s] by simp
next
  case (Suc depth)
  have "check_all (validate_schema_selectors depth path) (schema_children s) \<noteq> None"
    using child_depth Suc by (intro check_all_ends) fastforce
  then show ?case by (simp split: sum.split)
qed

lemma validate_schema_ok:
  "json_depth s \<le> depth \<Longrightarrow> validate_schema_selectors depth path s = Some (Inr ()) \<longleftrightarrow>
     (\<forall>t. schema_reaches s t \<longrightarrow>
        (\<forall>key. offers_property t key \<longrightarrow> \<not> selects_context key))"
proof (induction depth arbitrary: s)
  case 0
  then show ?case using json_depth_pos [of s] by simp
next
  case (Suc depth)
  have "json_depth c \<le> depth" if "c \<in> set (schema_children s)" for c
    using child_depth [OF that] Suc.prems by simp
  then have "check_all (validate_schema_selectors depth path) (schema_children s) = Some (Inr ()) \<longleftrightarrow>
      (\<forall>c \<in> set (schema_children s). \<forall>t. schema_reaches c t \<longrightarrow>
        (\<forall>key. offers_property t key \<longrightarrow> \<not> selects_context key))"
    using Suc.IH by (simp add: check_all_ok)
  moreover have "validate_schema_selectors (Suc depth) path s = Some (Inr ()) \<longleftrightarrow>
      check_schema_properties path s = Inr () \<and>
      check_all (validate_schema_selectors depth path) (schema_children s) = Some (Inr ())"
    by (auto split: sum.splits)
  ultimately show ?case unfolding check_schema_properties_ok reaches_iff [of s] by blast
qed

text \<open>C39: The schema check accepts exactly the schemas from which no schema is reachable, through
  \<open>items\<close> and the members of \<open>allOf\<close>, \<open>anyOf\<close> and \<open>oneOf\<close>, that offers a property whose name,
  without regard to case, underscores and hyphens, is \<open>tenant\<close>, \<open>tenantId\<close>, \<open>appId\<close>,
  \<open>organizationId\<close>, \<open>orgId\<close>, \<open>userId\<close> or \<open>sessionId\<close>; it answers for every schema, and any
  number of nested calls from the depth of the schema on gives the same answer.\<close>

lemma schema_check_ends:
  "\<exists>r. (\<forall>depth \<ge> json_depth schema. validate_schema_selectors depth path schema = Some r) \<and>
     (r = Inr () \<longleftrightarrow> (\<forall>t. schema_reaches schema t \<longrightarrow>
        (\<forall>key. offers_property t key \<longrightarrow> \<not> selects_context key)))"
proof -
  obtain r where r: "validate_schema_selectors (json_depth schema) path schema = Some r"
    using validate_schema_ends [of schema "json_depth schema" path] by auto
  have "validate_schema_selectors depth path schema = Some r" if "json_depth schema \<le> depth" for depth
    using validate_schema_depth [OF that, of "json_depth schema" path] r by simp
  moreover have "r = Inr () \<longleftrightarrow> (\<forall>t. schema_reaches schema t \<longrightarrow>
      (\<forall>key. offers_property t key \<longrightarrow> \<not> selects_context key))"
    using validate_schema_ok [of schema "json_depth schema" path] r by simp
  ultimately show ?thesis by blast
qed

lemma schema_check_ends_witness:
  "(\<exists>r. \<forall>depth \<ge> 4. validate_schema_selectors depth ''/app/v3/api/x''
      (JObject [(''items'', JObject [(''properties'', JObject [(''Tenant-Id'', JNull)])])]) = Some r \<and>
      r \<noteq> Inr ())"
proof -
  let ?s = "JObject [(''items'', JObject [(''properties'', JObject [(''Tenant-Id'', JNull)])])]"
  let ?t = "JObject [(''properties'', JObject [(''Tenant-Id'', JNull)])]"
  have d: "json_depth ?s = 4" by simp
  have "schema_reaches ?s ?t"
    by (rule schema_reaches.items [OF _ schema_reaches.here]) simp
  moreover have "selects_context ''Tenant-Id''" by code_simp
  moreover have "offers_property ?t ''Tenant-Id''" by (simp add: offers_property_def)
  ultimately show ?thesis
    using schema_check_ends [of ?s "''/app/v3/api/x''", unfolded d] by blast
qed

text \<open>A property of a property is not reached: the check of a document accepts a body in which
  the tenant is selected one level down.\<close>

lemma nested_selector_accepted:
  "validate_schema_selectors 9 path
     (JObject [(''properties'', JObject [(''filter'',
        JObject [(''properties'', JObject [(''tenant_id'', JNull)])])])]) = Some (Inr ())"
  by (simp add: eval_nat_numeral check_schema_properties_def schema_properties_def
      schema_children_def schema_parts_def) code_simp

end
