(* ===== verification/Openapi_Document.thy ===== *)
theory Openapi_Document
  imports Openapi Openapi_Selectors
begin

section \<open>The document of a list of routes, and its inventory\<close>

text \<open>
  Models the document builder, the ownership metadata and the shared schemas of
  \<open>sdkwork-web-contract/src/openapi.rs\<close>, and \<open>inventory.rs\<close>, which reads back from a document
  and from the routes the rows the two are compared by. \<^const>\<open>None\<close> is a panic. The schema
  check of a document runs with the depth of the document, which is enough
  (\<open>schema_check_ends\<close>).
\<close>

subsection \<open>Shared schemas\<close>

definition typed :: "string \<Rightarrow> (string \<times> json) list \<Rightarrow> json" where
  "typed t rest = json_obj ((''type'', JString t) # rest)"

definition described :: "string \<Rightarrow> string \<times> json" where
  "described s = (''description'', JString s)"

definition strict_object :: "string list \<Rightarrow> (string \<times> json) list \<Rightarrow> json" where
  "strict_object required properties = typed ''object'' [(''additionalProperties'', JBool False),
     (''required'', JArray (map JString required)), (''properties'', json_obj properties)]"

definition trace_id_schema :: json where
  "trace_id_schema = typed ''string'' [(''format'', JString ''uuid''),
     described ''Server-owned request correlation id.'']"

definition envelope_response :: "string \<Rightarrow> json" where
  "envelope_response data = json_obj [(''allOf'', JArray [schema_ref ''SdkWorkApiResponse'',
     typed ''object'' [(''required'', JArray [JString ''data'']),
       (''properties'', json_obj [(''data'', schema_ref data)])]])]"

definition section_sign :: string where
  "section_sign = [CHR 0xC2, CHR 0xA7]"

definition openapi_envelope_component_schemas :: "json btree" where
  "openapi_envelope_component_schemas = bt_of_list
    [(''SdkWorkApiResponse'', strict_object [''code'', ''data'', ''traceId'']
       [(''code'', typed ''integer'' [(''format'', JString ''int32''), (''enum'', JArray [JInt 0]),
          (''default'', JInt 0), (''minimum'', JInt 0), (''maximum'', JInt 0)]),
        (''data'', json_obj [described ''Operation-specific payload typed per response schema.'']),
        (''traceId'', trace_id_schema)]),
     (''SdkWorkResourceData'', strict_object [''item'']
       [(''item'', typed ''object'' [(''additionalProperties'', JBool True),
          described ''Typed domain resource for the operation.''])]),
     (''SdkWorkPageData'', strict_object [''items'', ''pageInfo'']
       [(''items'', typed ''array''
          [(''items'', typed ''object'' [(''additionalProperties'', JBool True)])]),
        (''pageInfo'', schema_ref ''PageInfo'')]),
     (''SdkWorkCommandData'', strict_object [''accepted'']
       [(''accepted'', typed ''boolean'' [(''const'', JBool True)]),
        (''resourceId'', string_schema), (''status'', string_schema)]),
     (''PageInfo'', strict_object [''mode'']
       [(''mode'', typed ''string'' [(''enum'', JArray [JString ''offset'', JString ''cursor''])]),
        (''page'', typed ''integer'' [(''minimum'', JInt 1)]),
        (''pageSize'', page_size_schema),
        (''totalItems'', typed ''string'' [(''pattern'', JString ''^[0-9]+$'')]),
        (''totalPages'', typed ''integer'' [(''minimum'', JInt 0)]),
        (''nextCursor'', json_obj [(''type'', JArray [JString ''string'', JString ''null''])]),
        (''hasMore'', typed ''boolean'' [])]),
     (''SdkWorkPlatformErrorCode'', typed ''integer'' [(''format'', JString ''int32''),
        (''minimum'', JInt 40001), (''maximum'', JInt 79999),
        described (''Platform or domain error code per API_SPEC.md '' @ section_sign @ ''15.3.'')]),
     (''ProblemDetail'', typed ''object'' [(''additionalProperties'', JBool True),
        (''required'', JArray (map JString
          [''type'', ''title'', ''status'', ''code'', ''traceId'', ''instance''])),
        (''properties'', json_obj
          [(''type'', typed ''string'' [(''format'', JString ''uri-reference'')]),
           (''title'', string_schema),
           (''status'', typed ''integer'' [(''minimum'', JInt 100), (''maximum'', JInt 599)]),
           (''detail'', string_schema),
           (''instance'', typed ''string'' [described
              ''Failing request occurrence as {METHOD} {routeTemplate}, with a redacted path fallback.'']),
           (''operationId'', typed ''string'' [described
              ''Matched OpenAPI operation id; omitted only when no operation resolves.'']),
           (''code'', schema_ref ''SdkWorkPlatformErrorCode''),
           (''traceId'', trace_id_schema),
           (''errors'', typed ''array'' [(''items'', schema_ref ''FieldError'')])])]),
     (''FieldError'', strict_object [''field'', ''message'']
       [(''field'', string_schema), (''message'', string_schema),
        (''code'', typed ''integer'' [(''format'', JString ''int32''),
           (''minimum'', JInt 40011), (''maximum'', JInt 40099)])]),
     (''SdkWorkResourceResponse'', envelope_response ''SdkWorkResourceData''),
     (''SdkWorkListResponse'', envelope_response ''SdkWorkPageData''),
     (''SdkWorkCommandResponse'', envelope_response ''SdkWorkCommandData'')]"

subsection \<open>Security schemes\<close>

definition header_scheme :: "string \<Rightarrow> (string \<times> json) list \<Rightarrow> json" where
  "header_scheme name rest =
     typed ''apiKey'' ([(''in'', JString ''header''), (''name'', JString name)] @ rest)"

definition standard_security_schemes :: "json btree" where
  "standard_security_schemes = bt_of_list
    [(''AuthToken'', typed ''http'' [(''scheme'', JString ''bearer''), (''bearerFormat'', JString ''JWT''),
        described ''Signed session auth_token JWT. Used with AccessToken on dual-token routes.'']),
     (''AccessToken'', header_scheme ''Access-Token'' [described
        ''Signed access_token JWT. Used alone only by credential-entry-bootstrap and together with AuthToken on dual-token routes.'']),
     (''ApiKey'', header_scheme ''X-API-Key'' []),
     (''OAuthBearer'', typed ''http'' [(''scheme'', JString ''bearer'')]),
     (''AgentToken'', header_scheme ''X-SDKWork-Agent-Token'' [described ''Trusted backend agent token.'']),
     (''IngressToken'', header_scheme ''X-SDKWork-Ingress-Token'' [described
        ''Trusted application ingress token for protected internal-api routes.''])]"

fun compatibility_security_scheme_definition :: "scheme_kind \<Rightarrow> json" where
  "compatibility_security_scheme_definition (ApiKeyHeader header) = header_scheme header []"
| "compatibility_security_scheme_definition (HttpBearer format) =
     (let definition = typed ''http'' [(''scheme'', JString ''bearer'')] in
      case format of
        Some f \<Rightarrow> obj_insert ''bearerFormat'' (JString f) definition
      | None \<Rightarrow> definition)"

definition add_security_scheme :: "compat_scheme \<Rightarrow> json btree \<Rightarrow> json btree option" where
  "add_security_scheme s m =
     (let definition = compatibility_security_scheme_definition (scheme_kind s) in
      case bt_get m (scheme_name s) of
        Some existing \<Rightarrow> if existing = definition then Some m else None
      | None \<Rightarrow> Some (bt_insert (scheme_name s) definition m))"

definition document_security_schemes ::
  "(string \<Rightarrow> json option) \<Rightarrow> http_route list \<Rightarrow> json btree option" where
  "document_security_schemes parse routes =
     opt_fold (\<lambda>r m. Option.bind (compatibility_auth parse r) (\<lambda>a.
         opt_fold add_security_scheme (schemes a) m))
       (filter (\<lambda>r. rt_auth r = Compatibility) routes) standard_security_schemes"

subsection \<open>The document\<close>

text \<open>The first segment of a route that declares a mirrored external protocol.\<close>

definition wire_prefix :: "http_route \<Rightarrow> string option" where
  "wire_prefix r =
     (if rt_external_wire_protocol r = None then None
      else (let path = trim_start_char (CHR ''/'') (rt_path r) in
        case find_char (CHR ''/'') path of
          None \<Rightarrow> None
        | Some fin \<Rightarrow> Some (take (length (rt_path r) - (length path - fin)) (rt_path r))))"

definition effective_prefixes :: "http_route list \<Rightarrow> string list \<Rightarrow> string list" where
  "effective_prefixes routes external_prefixes =
     fold (\<lambda>r ps. case wire_prefix r of
         Some p \<Rightarrow> if p \<in> set ps then ps else ps @ [p]
       | None \<Rightarrow> ps) routes external_prefixes"

definition document_paths ::
  "(string \<Rightarrow> json option) \<Rightarrow> http_route list \<Rightarrow> json btree btree option" where
  "document_paths parse routes =
     opt_fold (\<lambda>r paths. map_option (\<lambda>operation.
         bt_insert (rt_path r)
           (bt_insert (openapi_method_label (rt_method r)) operation
              (case bt_get paths (rt_path r) of Some item \<Rightarrow> item | None \<Rightarrow> [])) paths)
         (build_openapi_operation parse r)) routes []"

definition build_openapi_document_with_external_prefixes ::
  "(string \<Rightarrow> json option) \<Rightarrow> string \<Rightarrow> http_route list \<Rightarrow> string list \<Rightarrow> json option" where
  "build_openapi_document_with_external_prefixes parse title routes external_prefixes =
     (let effective = effective_prefixes routes external_prefixes in
      if validate_openapi_routes_context_selectors routes effective \<noteq> Inr () then None
      else Option.bind (document_paths parse routes) (\<lambda>paths.
        Option.bind (document_security_schemes parse routes) (\<lambda>security_schemes.
          let doc = json_obj [(''openapi'', JString ''3.1.2''),
                (''info'', json_obj [(''title'', JString title), (''version'', JString ''0.1.0'')]),
                (''components'', json_obj [(''securitySchemes'', JObject security_schemes),
                   (''schemas'', JObject openapi_envelope_component_schemas)]),
                (''paths'', JObject (bt_map JObject paths))]
          in if validate_openapi_document_context_selectors (json_depth doc) doc effective \<noteq> Some (Inr ())
             then None else Some doc)))"

definition build_openapi_document ::
  "(string \<Rightarrow> json option) \<Rightarrow> string \<Rightarrow> http_route list \<Rightarrow> json option" where
  "build_openapi_document parse title routes =
     build_openapi_document_with_external_prefixes parse title routes []"

subsection \<open>Ownership\<close>

definition api_authority_for_route :: "string \<Rightarrow> http_route \<Rightarrow> string" where
  "api_authority_for_route owner r =
     owner @ ''-'' @ (case infer_api_surface_from_path (rt_path r) of
        AppApi \<Rightarrow> ''app-api'' | BackendApi \<Rightarrow> ''backend-api'' | OpenApi \<Rightarrow> ''open-api''
      | InternalApi \<Rightarrow> ''internal-api'' | GatewayApi \<Rightarrow> ''gateway-api'' | Unknown \<Rightarrow> ''api'')"

datatype ownership_error =
    NoInfoObject
  | NoPathsObject
  | EmptyOpenapiOwner
  | PathNotObject string
  | OperationNotAnObject string string
  | BuilderPanic

definition stamp_route ::
  "(string \<Rightarrow> json option) \<Rightarrow> string \<Rightarrow> http_route \<Rightarrow> json \<Rightarrow> json option" where
  "stamp_route parse owner r paths =
     (let m = openapi_method_label (rt_method r) in
      case Option.bind (json_get (rt_path r) paths) as_object of
        None \<Rightarrow> Some paths
      | Some item \<Rightarrow>
          (case Option.bind (map_of item m) as_object of
             None \<Rightarrow> Some paths
           | Some operation \<Rightarrow> map_option (\<lambda>extensions.
               obj_modify (rt_path r) (obj_modify m (\<lambda>op.
                 obj_insert api_authority_extension (JString (api_authority_for_route owner r))
                   (obj_insert owner_extension (JString owner) (insert_all extensions op)))) paths)
               (openapi_extensions_for_route parse r)))"

definition enrich_owned_openapi_document ::
  "(string \<Rightarrow> json option) \<Rightarrow> json \<Rightarrow> string \<Rightarrow> http_route list \<Rightarrow> ownership_error + json" where
  "enrich_owned_openapi_document parse doc owner routes =
     (case Option.bind (json_get ''info'' doc) as_object of
        None \<Rightarrow> Inl NoInfoObject
      | Some info \<Rightarrow>
          (let doc = obj_modify ''info'' (obj_insert owner_extension (JString owner)) doc in
           case json_get ''paths'' doc of
             None \<Rightarrow> Inl NoPathsObject
           | Some paths \<Rightarrow>
               (if \<not> is_object paths then Inl NoPathsObject
                else (case opt_fold (stamp_route parse owner) routes paths of
                        None \<Rightarrow> Inl BuilderPanic
                      | Some stamped \<Rightarrow> Inr (obj_insert ''paths'' stamped doc)))))"

definition owned_methods :: "string list" where
  "owned_methods = [''delete'', ''get'', ''patch'', ''post'', ''put'']"

definition own_operation ::
  "string \<Rightarrow> string \<Rightarrow> string \<times> json \<Rightarrow> ownership_error + (string \<times> json)" where
  "own_operation owner path mo =
     (case mo of (method, operation) \<Rightarrow>
        if method \<notin> set owned_methods then Inr (method, operation)
        else if \<not> is_object operation then Inl (OperationNotAnObject method path)
        else Inr (method, obj_insert api_authority_extension
          (JString (owner @ ''-'' @ openapi_surface_label (infer_api_surface_from_path path)))
          (obj_insert owner_extension (JString owner) operation)))"

definition own_path :: "string \<Rightarrow> string \<times> json \<Rightarrow> ownership_error + (string \<times> json)" where
  "own_path owner pi =
     (case pi of (path, item) \<Rightarrow>
        (case as_object item of
           None \<Rightarrow> Inl (PathNotObject path)
         | Some entries \<Rightarrow>
             res_bind (res_map (own_operation owner path) entries) (\<lambda>es. Inr (path, JObject es))))"

definition build_owned_openapi_document ::
  "(string \<Rightarrow> json option) \<Rightarrow> string \<Rightarrow> string \<Rightarrow> http_route list \<Rightarrow> ownership_error + json" where
  "build_owned_openapi_document parse title owner routes =
     (let owner = trim owner in
      if owner = [] then Inl EmptyOpenapiOwner
      else (case build_openapi_document parse title routes of
              None \<Rightarrow> Inl BuilderPanic
            | Some doc \<Rightarrow>
                (case Option.bind (json_get ''paths'' doc) as_object of
                   None \<Rightarrow> Inl NoPathsObject
                 | Some paths \<Rightarrow> res_bind (res_map (own_path owner) paths) (\<lambda>ps.
                     Inr (obj_insert ''paths'' (JObject ps) doc)))))"

subsection \<open>Inventories\<close>

record inventory_entry =
  ie_surface :: string
  ie_method :: string
  ie_normalized_path :: string
  ie_operation_id :: string
  ie_auth_profile :: string

fun inventory_method_label :: "http_method \<Rightarrow> string" where
  "inventory_method_label Delete = ''DELETE''"
| "inventory_method_label Get = ''GET''"
| "inventory_method_label Patch = ''PATCH''"
| "inventory_method_label Post = ''POST''"
| "inventory_method_label Put = ''PUT''"

definition normalize_route_path :: "string \<Rightarrow> string" where
  "normalize_route_path path =
     (let normalized = CHR ''/'' # trim_char (CHR ''/'') (trim path);
          segments = map (\<lambda>s. case strip_prefix s '':'' of
              Some parameter \<Rightarrow> ''{'' @ parameter @ ''}'' | None \<Rightarrow> s)
            (split_on (CHR ''/'') normalized);
          normalized = str_join ''/'' segments
      in if normalized = [] then ''/'' else normalized)"

definition entry_from_route :: "http_route \<Rightarrow> inventory_entry" where
  "entry_from_route r = \<lparr>
     ie_surface = openapi_surface_label (infer_api_surface_from_path (rt_path r)),
     ie_method = inventory_method_label (rt_method r),
     ie_normalized_path = normalize_route_path (rt_path r),
     ie_operation_id = rt_operation_id r,
     ie_auth_profile = auth_profile_label (rt_auth r)\<rparr>"

text \<open>The derived order of the rows: field by field.\<close>

definition entry_key :: "inventory_entry \<Rightarrow> string list" where
  "entry_key e = [ie_surface e, ie_method e, ie_normalized_path e, ie_operation_id e, ie_auth_profile e]"

definition sort_inventory :: "inventory_entry list \<Rightarrow> inventory_entry list" where
  "sort_inventory es = sort_key entry_key es"

definition route_inventory_from_routes :: "http_route list \<Rightarrow> inventory_entry list" where
  "route_inventory_from_routes routes = sort_inventory (map entry_from_route routes)"

datatype inventory_error =
    InventoryNoPaths
  | InventoryPathNotObject string
  | InventoryOperationNotObject string string
  | LacksOperationId string string
  | LacksSurface string string
  | LacksAuthMode string string

definition text_field :: "string \<Rightarrow> json \<Rightarrow> string option" where
  "text_field k j = opt_filter (\<lambda>s. trim s \<noteq> []) (Option.bind (json_get k j) as_str)"

definition inventory_operation ::
  "string \<Rightarrow> string \<times> json \<Rightarrow> inventory_error + inventory_entry list" where
  "inventory_operation path mo =
     (case mo of (method, operation) \<Rightarrow>
        let method = to_upper method in
        if method \<notin> {''DELETE'', ''GET'', ''PATCH'', ''POST'', ''PUT''} then Inr []
        else if \<not> is_object operation then Inl (InventoryOperationNotObject method path)
        else res_bind (ok_or (text_field ''operationId'' operation) (LacksOperationId method path)) (\<lambda>op_id.
          res_bind (ok_or (text_field api_surface_extension operation) (LacksSurface method path)) (\<lambda>surface.
          res_bind (ok_or (text_field auth_mode_extension operation) (LacksAuthMode method path)) (\<lambda>auth.
            Inr [\<lparr>ie_surface = surface, ie_method = method,
              ie_normalized_path = normalize_route_path path, ie_operation_id = op_id,
              ie_auth_profile = auth\<rparr>]))))"

definition inventory_path :: "string \<times> json \<Rightarrow> inventory_error + inventory_entry list" where
  "inventory_path pi =
     (case pi of (path, item) \<Rightarrow>
        (case as_object item of
           None \<Rightarrow> Inl (InventoryPathNotObject path)
         | Some entries \<Rightarrow>
             res_bind (res_map (inventory_operation path) entries) (\<lambda>ess. Inr (concat ess))))"

definition route_inventory_from_openapi :: "json \<Rightarrow> inventory_error + inventory_entry list" where
  "route_inventory_from_openapi doc =
     (case Option.bind (json_get ''paths'' doc) as_object of
        None \<Rightarrow> Inl InventoryNoPaths
      | Some paths \<Rightarrow>
          res_bind (res_map inventory_path paths) (\<lambda>ess. Inr (sort_inventory (concat ess))))"

end
