(* ===== verification/Openapi_Inventory.thy ===== *)
theory Openapi_Inventory
  imports Openapi_Document "HOL-Library.Multiset"
begin

section \<open>A built document lists its routes\<close>

text \<open>
  The inventory read off the document that \<open>build_openapi_document\<close> publishes for a route
  table is the inventory of the table: the comparison by which an assembly and a gateway
  validate each other (\<open>api_assembly.rs\<close>) succeeds on what this library builds.
\<close>

subsection \<open>Extensions of an operation\<close>

definition lists_route :: "http_route \<Rightarrow> json btree \<Rightarrow> bool" where
  "lists_route r m \<longleftrightarrow> bt_ok m
     \<and> bt_get m api_surface_extension =
         Some (JString (openapi_surface_label (infer_api_surface_from_path (rt_path r))))
     \<and> bt_get m auth_mode_extension = Some (JString (auth_mode_label (rt_auth r)))
     \<and> bt_get m ''operationId'' = None"

lemma lists_route_insert:
  assumes "lists_route r m"
    and "k \<notin> {api_surface_extension, auth_mode_extension, ''operationId''}"
  shows "lists_route r (bt_insert k v m)"
    and "lists_route r (insert_when b k v m)"
    and "lists_route r (insert_some k x m)"
  using assms
proof -
  show i: "lists_route r (bt_insert k v m)" for v
    using assms unfolding lists_route_def by (auto simp: bt_insert_ok bt_insert_get)
  show "lists_route r (insert_when b k v m)" "lists_route r (insert_some k x m)"
    using i assms(1) by (simp_all add: insert_when_def insert_some_def split: option.split)
qed

lemma extensions_list_route:
  assumes "openapi_extensions_for_route parse r = Some m"
  shows "lists_route r m"
proof -
  have base: "lists_route r (base_extensions r)"
    unfolding base_extensions_def Let_def
    by (rule lists_route_insert, simp add: lists_route_def bt_insert_ok bt_insert_get
        del: bt_insert.simps) (simp_all add: extension_names)
  have declared: "lists_route r (declared_extensions r m')" if "lists_route r m'" for m'
    unfolding declared_extensions_def Let_def
    by (intro lists_route_insert that) (simp_all add: extension_names)
  from assms obtain m' where "protocol_extensions parse r (base_extensions r) = Some m'"
    and m: "m = declared_extensions r m'" by (auto simp: openapi_extensions_for_route_def)
  then have "lists_route r m'"
    by (auto simp: protocol_extensions_def base split: if_splits intro!: lists_route_insert)
      (simp_all add: extension_names)
  then show ?thesis by (simp add: m declared)
qed

subsection \<open>Operations\<close>

text \<open>What the inventory reads off an operation.\<close>

definition describes_route :: "http_route \<Rightarrow> json \<Rightarrow> bool" where
  "describes_route r j \<longleftrightarrow> is_object j
     \<and> json_get ''operationId'' j = Some (JString (rt_operation_id r))
     \<and> json_get api_surface_extension j =
         Some (JString (openapi_surface_label (infer_api_surface_from_path (rt_path r))))
     \<and> json_get auth_mode_extension j = Some (JString (auth_mode_label (rt_auth r)))"

lemma insert_all_get:
  assumes "bt_ok m" and "bt_ok kvs"
  shows "insert_all m (JObject kvs) = JObject (fold (\<lambda>(k, v). bt_insert k v) m kvs)"
    and "json_get k (insert_all m (JObject kvs)) = opt_or (bt_get m k) (bt_get kvs k)"
proof -
  show e: "insert_all m (JObject kvs) = JObject (fold (\<lambda>(k, v). bt_insert k v) m kvs)"
    unfolding insert_all_def by (induction m arbitrary: kvs) auto
  have "distinct (map fst m)" using assms(1) by (simp add: bt_ok_def bt_keys_def)
  then show "json_get k (insert_all m (JObject kvs)) = opt_or (bt_get m k) (bt_get kvs k)"
    using bt_fold_map_get(2) [OF assms(2), of m "\<lambda>v. v" k] by (simp add: e option.map_ident)
qed

lemma extended_operation_describes:
  assumes "openapi_extensions_for_route parse r = Some m" and "bt_ok kvs"
    and "bt_get kvs ''operationId'' = Some (JString (rt_operation_id r))"
  shows "describes_route r (insert_all m (JObject kvs))"
proof -
  note m = extensions_list_route [OF assms(1), unfolded lists_route_def]
  then show ?thesis using assms(2,3)
    by (simp add: describes_route_def insert_all_get(2)) (simp add: insert_all_get(1) is_object_def)
qed

text \<open>The parser returns objects as \<open>serde_json\<close> keeps them, with sorted and unique keys.\<close>

definition parses_ordered :: "(string \<Rightarrow> json option) \<Rightarrow> bool" where
  "parses_ordered parse \<longleftrightarrow> (\<forall>s kvs. parse s = Some (JObject kvs) \<longrightarrow> bt_ok kvs)"

lemma built_operation_describes:
  assumes "build_openapi_operation parse r = Some j" and "parses_ordered parse"
  shows "describes_route r j"
proof (cases "rt_auth r = Compatibility")
  case True
  with assms(1) obtain a source kvs m where "parse source = Some (JObject kvs)"
    and o: "Option.bind (json_get ''operationId'' (JObject kvs)) as_str = Some (rt_operation_id r)"
    and e: "openapi_extensions_for_route parse r = Some m"
    and j: "j = insert_all m (obj_insert ''security'' (compatibility_security_requirements a) (JObject kvs))"
    by (auto simp: build_openapi_operation_def build_compatibility_openapi_operation_def
        bind_eq_Some_conv is_object_def as_object_Some split: if_splits)
  then have "bt_ok kvs" using assms(2) by (auto simp: parses_ordered_def)
  moreover have "bt_get kvs ''operationId'' = Some (JString (rt_operation_id r))"
    using o by (auto simp: bind_eq_Some_conv as_str_Some)
  ultimately show ?thesis
    unfolding j obj_insert.simps
    by (intro extended_operation_describes [OF e]) (simp_all add: bt_insert_ok bt_insert_get)
next
  case False
  with assms(1) obtain security m where e: "openapi_extensions_for_route parse r = Some m"
    and j: "j = insert_all m (JObject (bt_insert ''security'' security (standard_operation r)))"
    by (auto simp: build_openapi_operation_def bind_eq_Some_conv)
  have "bt_ok (standard_operation r) \<and>
      bt_get (standard_operation r) ''operationId'' = Some (JString (rt_operation_id r))"
    by (simp add: standard_operation_def Let_def insert_some_def bt_insert_ok bt_insert_get del: bt_insert.simps
        split: option.split)
  then show ?thesis unfolding j
    by (intro extended_operation_describes [OF e]) (simp_all add: bt_insert_ok bt_insert_get)
qed

subsection \<open>Rows\<close>

lemma labels_not_blank:
  "trim (openapi_surface_label s) \<noteq> []" "trim (auth_mode_label a) \<noteq> []"
  by (cases s; simp only: openapi_surface_label.simps; code_simp)
    (cases a; simp only: auth_mode_label.simps; code_simp)

lemma auth_mode_profile: "auth_mode_label a = auth_profile_label a"
  by (cases a) simp_all

lemma upper_method: "to_upper (openapi_method_label m) = inventory_method_label m"
  by (cases m; simp only: openapi_method_label.simps inventory_method_label.simps; code_simp)

lemma described_row:
  assumes "describes_route r j" and "trim (rt_operation_id r) \<noteq> []"
  shows "inventory_operation (rt_path r) (openapi_method_label (rt_method r), j) =
    Inr [entry_from_route r]"
proof -
  have "inventory_method_label (rt_method r) \<in> {''DELETE'', ''GET'', ''PATCH'', ''POST'', ''PUT''}"
    by (cases "rt_method r") simp_all
  then show ?thesis using assms
    by (simp add: inventory_operation_def Let_def upper_method describes_route_def text_field_def
        labels_not_blank auth_mode_profile [symmetric] entry_from_route_def)
qed

subsection \<open>Paths\<close>

definition flat :: "'v btree btree \<Rightarrow> (string \<times> string \<times> 'v) list" where
  "flat paths = concat (map (\<lambda>(p, item). map (\<lambda>(m, j). (p, m, j)) item) paths)"

definition items_ok :: "'v btree btree \<Rightarrow> bool" where
  "items_ok paths \<longleftrightarrow> bt_ok paths \<and> (\<forall>p item. bt_get paths p = Some item \<longrightarrow> bt_ok item)"

definition put :: "string \<Rightarrow> string \<Rightarrow> 'v \<Rightarrow> 'v btree btree \<Rightarrow> 'v btree btree" where
  "put p m j paths =
     bt_insert p (bt_insert m j (case bt_get paths p of Some item \<Rightarrow> item | None \<Rightarrow> [])) paths"

lemma put_ok: "items_ok paths \<Longrightarrow> items_ok (put p m j paths)"
  by (auto simp: items_ok_def put_def bt_insert_ok bt_insert_get split: option.split)

lemma bt_insert_mset:
  "bt_get m k = None \<Longrightarrow> mset (bt_insert k v m) = add_mset (k, v) (mset m)"
  by (induction k v m rule: bt_insert.induct) auto

lemma put_flat:
  assumes "bt_ok paths" and "(p, m) \<notin> (\<lambda>(p, m, j). (p, m)) ` set (flat paths)"
  shows "mset (flat (put p m j paths)) = add_mset (p, m, j) (mset (flat paths))"
proof -
  have insert: "mset (flat (bt_insert p item' paths)) + mset (map (\<lambda>(m, j). (p, m, j)) item) =
      mset (flat paths) + mset (map (\<lambda>(m, j). (p, m, j)) item')"
    if "item = (case bt_get paths p of Some item \<Rightarrow> item | None \<Rightarrow> [])" for item item'
    using assms(1) that
  proof (induction p item' paths rule: bt_insert.induct)
    case (2 k v k' v' paths)
    have ok: "bt_ok paths" and none: "k < k' \<Longrightarrow> bt_get paths k = None"
      using "2.prems"(1) by (auto simp: bt_ok_def bt_keys_def map_of_eq_None_iff)
    consider "k < k'" | "k = k'" | "\<not> k < k'" "k \<noteq> k'" by blast
    then show ?case
    proof cases
      case 1
      then show ?thesis using none "2.prems"(2) by (simp add: flat_def)
    next
      case 2
      then show ?thesis using "2.prems"(2) by (simp add: flat_def)
    next
      case 3
      then show ?thesis using "2.IH" ok "2.prems"(2) by (simp add: flat_def)
    qed
  qed (simp add: flat_def)
  let ?item = "case bt_get paths p of Some item \<Rightarrow> item | None \<Rightarrow> []"
  have "bt_get ?item m = None"
  proof (cases "bt_get paths p")
    case (Some item)
    have "(p, m, j) \<in> set (flat paths)" if "bt_get item m = Some j" for j
      using map_of_SomeD [OF Some] map_of_SomeD [OF that] by (force simp: flat_def)
    with assms(2) Some show ?thesis by (cases "bt_get item m") force+
  qed simp
  then have "mset (map (\<lambda>(m, j). (p, m, j)) (bt_insert m j ?item)) =
      add_mset (p, m, j) (mset (map (\<lambda>(m, j). (p, m, j)) ?item))"
    by (simp add: bt_insert_mset)
  with insert [OF refl, of "bt_insert m j ?item"] show ?thesis
    by (simp add: put_def)
qed

definition listed :: "http_route list \<Rightarrow> json btree btree \<Rightarrow> bool" where
  "listed routes paths \<longleftrightarrow> items_ok paths \<and>
     (\<exists>js. list_all2 describes_route routes js \<and> mset (flat paths) =
        mset (map (\<lambda>(r, j). (rt_path r, openapi_method_label (rt_method r), j)) (zip routes js)))"

lemma method_label_inj: "openapi_method_label m = openapi_method_label m' \<longleftrightarrow> m = m'"
  by (cases m; cases m') simp_all

lemma listed_step:
  assumes "listed routes paths" and "describes_route r j"
    and "(rt_path r, rt_method r) \<notin> (\<lambda>r. (rt_path r, rt_method r)) ` set routes"
  shows "listed (routes @ [r]) (put (rt_path r) (openapi_method_label (rt_method r)) j paths)"
proof -
  from assms(1) obtain js where ok: "items_ok paths" and js: "list_all2 describes_route routes js"
    and flat: "mset (flat paths) =
      mset (map (\<lambda>(r, j). (rt_path r, openapi_method_label (rt_method r), j)) (zip routes js))"
    by (auto simp: listed_def)
  have old: "(rt_path r, openapi_method_label (rt_method r), j') \<notin> set (flat paths)" for j'
  proof
    assume "(rt_path r, openapi_method_label (rt_method r), j') \<in> set (flat paths)"
    then have "(rt_path r, openapi_method_label (rt_method r), j') \<in>
        set (map (\<lambda>(r, j). (rt_path r, openapi_method_label (rt_method r), j)) (zip routes js))"
      unfolding mset_eq_setD [OF flat] .
    then obtain rj where rj: "rj \<in> set (zip routes js)"
      and t: "(rt_path r, openapi_method_label (rt_method r), j') =
        (case rj of (r, j) \<Rightarrow> (rt_path r, openapi_method_label (rt_method r), j))"
      unfolding set_map by (elim imageE)
    obtain r' j'' where "rj = (r', j'')" by (cases rj)
    with rj t have "(r', j'') \<in> set (zip routes js)"
      and e: "rt_path r' = rt_path r" "rt_method r' = rt_method r"
      by (simp_all add: method_label_inj)
    from this(1) have "r' \<in> set routes" by (rule set_zip_leftD)
    then have "(rt_path r', rt_method r') \<in> (\<lambda>r. (rt_path r, rt_method r)) ` set routes" by (rule imageI)
    with assms(3) e show False by simp
  qed
  have "(rt_path r, openapi_method_label (rt_method r)) \<notin> (\<lambda>(p, m, j). (p, m)) ` set (flat paths)"
  proof
    assume "(rt_path r, openapi_method_label (rt_method r)) \<in> (\<lambda>(p, m, j). (p, m)) ` set (flat paths)"
    then obtain p m j where "(p, m, j) \<in> set (flat paths)"
      and "(rt_path r, openapi_method_label (rt_method r)) = (p, m)" by (elim imageE) (simp split: prod.splits)
    with old show False by simp
  qed
  then have "mset (flat (put (rt_path r) (openapi_method_label (rt_method r)) j paths)) =
      add_mset (rt_path r, openapi_method_label (rt_method r), j) (mset (flat paths))"
    using ok by (intro put_flat) (simp_all add: items_ok_def)
  moreover have "list_all2 describes_route (routes @ [r]) (js @ [j])"
    using js assms(2) by (simp add: list_all2_appendI)
  ultimately show ?thesis using ok flat js
    by (auto simp: listed_def put_ok list_all2_lengthD intro!: exI [of _ "js @ [j]"])
qed

lemma document_paths_listed:
  assumes "document_paths parse routes = Some paths" and "parses_ordered parse"
    and "distinct (map (\<lambda>r. (rt_path r, rt_method r)) routes)"
  shows "listed routes paths"
proof -
  let ?step = "\<lambda>r paths. map_option (\<lambda>operation.
         put (rt_path r) (openapi_method_label (rt_method r)) operation paths)
         (build_openapi_operation parse r)"
  have "listed (before @ routes) paths" if "listed before start"
      "opt_fold ?step routes start = Some paths"
      "distinct (map (\<lambda>r. (rt_path r, rt_method r)) (before @ routes))" for before start
    using that
  proof (induction routes arbitrary: before start)
    case (Cons r routes)
    then obtain j where j: "build_openapi_operation parse r = Some j"
      and f: "opt_fold ?step routes
        (put (rt_path r) (openapi_method_label (rt_method r)) j start) = Some paths"
      by (auto simp: bind_eq_Some_conv)
    have "listed (before @ [r]) (put (rt_path r) (openapi_method_label (rt_method r)) j start)"
      using Cons.prems(1,3) built_operation_describes [OF j assms(2)]
      by (intro listed_step) auto
    from Cons.IH [OF this f] Cons.prems(3) show ?case by simp
  qed simp
  from this [of "[]" "[]"] assms(1,3) show ?thesis
    by (simp add: document_paths_def put_def listed_def items_ok_def flat_def)
qed

subsection \<open>The inventory\<close>

lemma entry_key_inj: "inj entry_key"
  by (rule injI) (simp add: entry_key_def inventory_entry.equality)

lemma sort_inventory_mset:
  assumes "mset es = mset es'" shows "sort_inventory es = sort_inventory es'"
proof -
  have keys: "map entry_key (sort_inventory es) = sort (map entry_key es)" for es
    by (rule sym, rule properties_for_sort) (simp_all add: sort_inventory_def)
  have "sort (map entry_key es) = sort (map entry_key es')"
    using assms by (intro properties_for_sort) simp_all
  then have "map entry_key (sort_inventory es) = map entry_key (sort_inventory es')"
    by (simp only: keys)
  then show ?thesis using entry_key_inj by (simp add: inj_map_eq_map)
qed

definition entry_at :: "string \<times> string \<times> json \<Rightarrow> inventory_entry" where
  "entry_at t = (case t of (p, m, j) \<Rightarrow> (case inventory_operation p (m, j) of
       Inr (e # _) \<Rightarrow> e | _ \<Rightarrow> undefined))"

lemma res_map_singletons:
  assumes "\<forall>x \<in> set xs. f x = Inr [g x]"
  shows "res_map f xs = Inr (map (\<lambda>x. [g x]) xs)"
  using assms by (induction xs) simp_all

lemma inventory_of_flat:
  assumes "\<forall>(p, m, j) \<in> set (flat paths). inventory_operation p (m, j) = Inr [entry_at (p, m, j)]"
  shows "\<exists>ess. res_map inventory_path (bt_map JObject paths) = Inr ess
    \<and> concat ess = map entry_at (flat paths)"
  using assms
proof (induction paths)
  case (Cons pi paths)
  obtain p item where pi: "pi = (p, item)" by (cases pi)
  have flat: "flat (pi # paths) = map (\<lambda>mj. (p, mj)) item @ flat paths"
    by (simp add: flat_def pi case_prod_unfold)
  have rows: "\<forall>mj \<in> set item. inventory_operation p mj = Inr [entry_at (p, mj)]"
    using Cons.prems unfolding flat by fastforce
  from Cons.prems have "\<forall>(p, m, j) \<in> set (flat paths).
      inventory_operation p (m, j) = Inr [entry_at (p, m, j)]" unfolding flat by fastforce
  from Cons.IH [OF this] obtain ess where "res_map inventory_path (bt_map JObject paths) = Inr ess"
    and "concat ess = map entry_at (flat paths)" by blast
  moreover have "inventory_path (p, JObject item) = Inr (map (\<lambda>mj. entry_at (p, mj)) item)"
    by (simp add: inventory_path_def res_map_singletons [OF rows])
  ultimately show ?case unfolding flat by (simp add: bt_map_def pi comp_def)
qed (simp add: flat_def bt_map_def)

text \<open>C38: The document that \<open>build_openapi_document\<close> publishes for a table of routes with distinct
  paths and methods and with operation ids lists exactly these routes: the inventory read back
  from it, with surface, method, path, operation and authentication profile of every operation,
  is the inventory of the table.\<close>

lemma built_document_lists_routes:
  assumes "build_openapi_document parse title routes = Some doc" and "parses_ordered parse"
    and "distinct (map (\<lambda>r. (rt_path r, rt_method r)) routes)"
    and "\<forall>r \<in> set routes. trim (rt_operation_id r) \<noteq> []"
  shows "route_inventory_from_openapi doc = Inr (route_inventory_from_routes routes)"
proof -
  from assms(1) obtain paths where paths: "document_paths parse routes = Some paths"
    and doc: "json_get ''paths'' doc = Some (JObject (bt_map JObject paths))"
    by (auto simp: build_openapi_document_def build_openapi_document_with_external_prefixes_def
        Let_def bind_eq_Some_conv json_obj_def bt_of_list_get split: if_splits)
  from document_paths_listed [OF paths assms(2,3)] obtain js
    where js: "list_all2 describes_route routes js" and flat: "mset (flat paths) =
      mset (map (\<lambda>(r, j). (rt_path r, openapi_method_label (rt_method r), j)) (zip routes js))"
    by (auto simp: listed_def)
  let ?at = "\<lambda>(r, j). (rt_path r, openapi_method_label (rt_method r), j)"
  have row: "inventory_operation (rt_path r) (openapi_method_label (rt_method r), j) =
      Inr [entry_from_route r]" if "(r, j) \<in> set (zip routes js)" for r j
    using that js assms(4) by (intro described_row) (auto simp: list_all2_iff dest: set_zip_leftD)
  then have entry: "map (entry_at \<circ> ?at) (zip routes js) = map (entry_from_route \<circ> fst) (zip routes js)"
    by (auto simp: entry_at_def)
  have "\<forall>t \<in> set (map ?at (zip routes js)).
      (case t of (p, m, j) \<Rightarrow> inventory_operation p (m, j) = Inr [entry_at (p, m, j)])"
    using row by (auto simp: entry_at_def)
  then obtain ess where ess: "res_map inventory_path (bt_map JObject paths) = Inr ess"
    "concat ess = map entry_at (flat paths)"
    using inventory_of_flat [of paths] unfolding mset_eq_setD [OF flat] by blast
  have "mset (map entry_at (flat paths)) = mset (map entry_at (map ?at (zip routes js)))"
    unfolding mset_map flat ..
  also have "map entry_at (map ?at (zip routes js)) = map entry_from_route (map fst (zip routes js))"
    using entry by (simp only: map_map)
  also have "map fst (zip routes js) = routes" using js by (simp add: list_all2_lengthD)
  finally have "sort_inventory (concat ess) = route_inventory_from_routes routes"
    unfolding route_inventory_from_routes_def ess(2) by (rule sort_inventory_mset)
  then show ?thesis by (simp add: route_inventory_from_openapi_def doc ess(1))
qed

lemma built_document_lists_routes_witness:
  "\<exists>doc. build_openapi_document (\<lambda>_. None) ''Users''
      [route_dual_token Get ''/app/v3/api/users/{id}'' ''Users'' ''users.get'',
       route_public Get ''/app/v3/api/health'' ''Health'' ''health.get''] = Some doc
    \<and> route_inventory_from_openapi doc = Inr (route_inventory_from_routes
      [route_dual_token Get ''/app/v3/api/users/{id}'' ''Users'' ''users.get'',
       route_public Get ''/app/v3/api/health'' ''Health'' ''health.get''])"
proof -
  let ?rs = "[route_dual_token Get ''/app/v3/api/users/{id}'' ''Users'' ''users.get'',
       route_public Get ''/app/v3/api/health'' ''Health'' ''health.get'']"
  have "build_openapi_document (\<lambda>_. None) ''Users'' ?rs \<noteq> None" by code_simp
  then obtain doc where doc: "build_openapi_document (\<lambda>_. None) ''Users'' ?rs = Some doc" by blast
  moreover have "parses_ordered (\<lambda>_. None)" by (simp add: parses_ordered_def)
  moreover have "distinct (map (\<lambda>r. (rt_path r, rt_method r)) ?rs)"
    "\<forall>r \<in> set ?rs. trim (rt_operation_id r) \<noteq> []" by code_simp+
  ultimately show ?thesis using built_document_lists_routes [OF doc] by blast
qed

end
