(* ===== verification/Openapi_Merge.thy ===== *)
theory Openapi_Merge
  imports Json "HOL-Library.Product_Lexorder"
begin

section \<open>Merging OpenAPI documents\<close>

text \<open>
  Models \<open>openapi_merge.rs\<close>: complete OpenAPI documents of several owners are combined into
  one. The maps of the merge state are ordered maps, so is the \<open>Map\<close> of \<open>serde_json\<close>. The
  text of a JSON value, \<open>serde_json::to_string\<close>, is the parameter \<open>json_text\<close>; it keys the
  security requirements.
\<close>

subsection \<open>Contributions and errors\<close>

record contribution =
  ct_owner :: string
  ct_document :: json

definition contribution_new :: "string \<Rightarrow> json \<Rightarrow> contribution" where
  "contribution_new owner doc = \<lparr>ct_owner = owner, ct_document = doc\<rparr>"

datatype merge_error =
    EmptyCombinedTitle
  | NoDocuments
  | EmptyOwner nat
  | InvalidShape string string string
  | OpenApiVersionConflict string string string string
  | PathOperationConflict string string string string
  | PathItemConflict string string string string
  | ComponentConflict string string string string
  | TagConflict string string string
  | ServerConflict string string string
  | TopLevelConflict string string string

definition quoted :: "string \<Rightarrow> string" where
  "quoted s = ''`'' @ s @ ''`''"

fun merge_error_display :: "merge_error \<Rightarrow> string" where
  "merge_error_display EmptyCombinedTitle = ''combined OpenAPI title must not be empty''"
| "merge_error_display NoDocuments = ''at least one OpenAPI document is required''"
| "merge_error_display (EmptyOwner index) =
     ''OpenAPI contribution at index '' @ show_nat index @ '' has an empty owner''"
| "merge_error_display (InvalidShape owner location expected) =
     ''OpenAPI contribution '' @ quoted owner @ '' has invalid '' @ quoted location
       @ ''; expected '' @ expected"
| "merge_error_display (OpenApiVersionConflict expected_owner expected conflicting_owner actual) =
     ''OpenAPI version conflict: '' @ quoted expected_owner @ '' declares '' @ quoted expected
       @ '' but '' @ quoted conflicting_owner @ '' declares '' @ quoted actual"
| "merge_error_display (PathOperationConflict path method first_owner second_owner) =
     ''OpenAPI operation conflict at '' @ quoted (method @ '' '' @ path) @ '' between ''
       @ quoted first_owner @ '' and '' @ quoted second_owner"
| "merge_error_display (PathItemConflict path field first_owner second_owner) =
     ''OpenAPI path item conflict at '' @ quoted (path @ ''.'' @ field) @ '' between ''
       @ quoted first_owner @ '' and '' @ quoted second_owner"
| "merge_error_display (ComponentConflict namespace name first_owner second_owner) =
     ''OpenAPI component conflict at '' @ quoted (''components.'' @ namespace @ ''.'' @ name)
       @ '' between '' @ quoted first_owner @ '' and '' @ quoted second_owner"
| "merge_error_display (TagConflict name first_owner second_owner) =
     ''OpenAPI tag '' @ quoted name @ '' conflicts between '' @ quoted first_owner @ '' and ''
       @ quoted second_owner"
| "merge_error_display (ServerConflict url first_owner second_owner) =
     ''OpenAPI server '' @ quoted url @ '' conflicts between '' @ quoted first_owner @ '' and ''
       @ quoted second_owner"
| "merge_error_display (TopLevelConflict field first_owner second_owner) =
     ''OpenAPI field '' @ quoted field @ '' conflicts between '' @ quoted first_owner @ '' and ''
       @ quoted second_owner"

subsection \<open>State\<close>

definition HTTP_METHODS :: "string list" where
  "HTTP_METHODS = [''delete'', ''get'', ''head'', ''options'', ''patch'', ''post'', ''put'', ''trace'']"

definition PATH_ITEM_FIELDS :: "string list" where
  "PATH_ITEM_FIELDS = [''$ref'', ''description'', ''parameters'', ''servers'', ''summary'']"

definition COMPONENT_NAMESPACES :: "string list" where
  "COMPONENT_NAMESPACES = [''callbacks'', ''examples'', ''headers'', ''links'', ''parameters'',
     ''pathItems'', ''requestBodies'', ''responses'', ''schemas'', ''securitySchemes'']"

record owned_value =
  ov_owner :: string
  ov_value :: json

definition owned :: "string \<Rightarrow> json \<Rightarrow> owned_value" where
  "owned owner v = \<lparr>ov_owner = owner, ov_value = v\<rparr>"

record path_state =
  ps_fields :: "owned_value btree"
  ps_operations :: "owned_value btree"

definition path_state_default :: path_state where
  "path_state_default = \<lparr>ps_fields = [], ps_operations = []\<rparr>"

record merge_state =
  ms_openapi :: "owned_value option"
  ms_info :: "owned_value btree"
  ms_paths :: "path_state btree"
  ms_components :: "owned_value btree btree"
  ms_component_extensions :: "owned_value btree"
  ms_tags :: "owned_value btree"
  ms_servers :: "owned_value btree"
  ms_security :: "json btree"
  ms_webhooks :: "owned_value btree"
  ms_top_level :: "owned_value btree"
  ms_saw_components :: bool
  ms_saw_tags :: bool
  ms_saw_servers :: bool
  ms_saw_security :: bool
  ms_saw_webhooks :: bool

definition merge_state_default :: merge_state where
  "merge_state_default = \<lparr>ms_openapi = None, ms_info = [], ms_paths = [], ms_components = [],
     ms_component_extensions = [], ms_tags = [], ms_servers = [], ms_security = [],
     ms_webhooks = [], ms_top_level = [], ms_saw_components = False, ms_saw_tags = False,
     ms_saw_servers = False, ms_saw_security = False, ms_saw_webhooks = False\<rparr>"

subsection \<open>Shapes\<close>

definition expect_object ::
  "string \<Rightarrow> string \<Rightarrow> json \<Rightarrow> merge_error + (string \<times> json) list" where
  "expect_object owner location v =
     ok_or (as_object v) (InvalidShape owner location ''object'')"

definition expect_array :: "string \<Rightarrow> string \<Rightarrow> json \<Rightarrow> merge_error + json list" where
  "expect_array owner location v =
     ok_or (as_array v) (InvalidShape owner location ''array'')"

definition expect_string_field ::
  "string \<Rightarrow> (string \<times> json) list \<Rightarrow> string \<Rightarrow> string \<Rightarrow> merge_error + string" where
  "expect_string_field owner object field expected =
     ok_or (opt_filter (\<lambda>s. trim s \<noteq> []) (Option.bind (map_of object field) as_str))
       (InvalidShape owner field expected)"

subsection \<open>The version\<close>

definition openapi_version_parts :: "string \<Rightarrow> (nat \<times> nat \<times> nat) option" where
  "openapi_version_parts version =
     (case split_on (CHR ''.'') version of
        major # minor # rest \<Rightarrow>
          Option.bind (parse_unsigned u32_max major) (\<lambda>major.
          Option.bind (parse_unsigned u32_max minor) (\<lambda>minor.
            let patch = (case rest of p # _ \<Rightarrow> p | [] \<Rightarrow> ''0'')
            in Some (major, minor, (case parse_unsigned u32_max patch of Some n \<Rightarrow> n | None \<Rightarrow> 0))))
      | _ \<Rightarrow> None)"

definition openapi_same_minor_line :: "string \<Rightarrow> string \<Rightarrow> bool" where
  "openapi_same_minor_line left right =
     (case (openapi_version_parts left, openapi_version_parts right) of
        (Some (l_major, l_minor, _), Some (r_major, r_minor, _)) \<Rightarrow>
          l_major = r_major \<and> l_minor = r_minor
      | _ \<Rightarrow> False)"

definition openapi_version_rank :: "string \<Rightarrow> nat \<times> nat \<times> nat" where
  "openapi_version_rank version =
     (case openapi_version_parts version of Some r \<Rightarrow> r | None \<Rightarrow> (0, 0, 0))"

definition merge_openapi_version ::
  "string \<Rightarrow> string \<Rightarrow> merge_state \<Rightarrow> merge_error + merge_state" where
  "merge_openapi_version owner version st =
     (case ms_openapi st of
        Some existing \<Rightarrow>
          (let expected = (case as_str (ov_value existing) of Some s \<Rightarrow> s | None \<Rightarrow> '''') in
           if expected = version then Inr st
           else if openapi_same_minor_line expected version
           then (if openapi_version_rank expected < openapi_version_rank version
                 then Inr (st\<lparr>ms_openapi := Some (owned owner (JString version))\<rparr>)
                 else Inr st)
           else Inl (OpenApiVersionConflict (ov_owner existing) expected owner version))
      | None \<Rightarrow> Inr (st\<lparr>ms_openapi := Some (owned owner (JString version))\<rparr>))"

subsection \<open>The parts of a document\<close>

definition merge_compatible_value ::
  "string \<Rightarrow> string \<Rightarrow> json \<Rightarrow> string \<Rightarrow> owned_value btree
    \<Rightarrow> merge_error + owned_value btree" where
  "merge_compatible_value owner key v location target =
     (case bt_get target key of
        Some existing \<Rightarrow>
          (if ov_value existing \<noteq> v
           then Inl (TopLevelConflict location (ov_owner existing) owner) else Inr target)
      | None \<Rightarrow> Inr (bt_insert key (owned owner v) target))"

definition insert_first :: "string \<Rightarrow> string \<Rightarrow> json \<Rightarrow> owned_value btree \<Rightarrow> owned_value btree" where
  "insert_first owner key v target =
     (case bt_get target key of
        Some _ \<Rightarrow> target
      | None \<Rightarrow> bt_insert key (owned owner v) target)"

definition merge_info_field ::
  "string \<Rightarrow> string \<times> json \<Rightarrow> owned_value btree \<Rightarrow> merge_error + owned_value btree" where
  "merge_info_field owner fv info =
     (case fv of (field, v) \<Rightarrow>
        if field = ''title'' then Inr info
        else if field = ''version'' \<or> field = ''description''
          \<or> (starts_with field ''x-'' \<and> bt_get info field \<noteq> None)
        then Inr (insert_first owner field v info)
        else merge_compatible_value owner field v (''info.'' @ field) info)"

definition merge_info ::
  "string \<Rightarrow> (string \<times> json) list \<Rightarrow> merge_state \<Rightarrow> merge_error + merge_state" where
  "merge_info owner info st =
     res_bind (expect_string_field owner info ''title'' ''non-empty string'') (\<lambda>_.
     res_bind (expect_string_field owner info ''version'' ''non-empty string'') (\<lambda>_.
     res_bind (res_fold (merge_info_field owner) info (ms_info st)) (\<lambda>merged.
       Inr (st\<lparr>ms_info := merged\<rparr>))))"

definition merge_path_field ::
  "string \<Rightarrow> string \<Rightarrow> string \<times> json \<Rightarrow> path_state \<Rightarrow> merge_error + path_state" where
  "merge_path_field owner path fv target =
     (case fv of (field, v) \<Rightarrow>
        if field \<in> set HTTP_METHODS
        then (if \<not> is_object v
              then Inl (InvalidShape owner (''paths.'' @ path @ ''.'' @ field) ''operation object'')
              else (case bt_get (ps_operations target) field of
                      Some existing \<Rightarrow>
                        Inl (PathOperationConflict path field (ov_owner existing) owner)
                    | None \<Rightarrow> Inr (target\<lparr>ps_operations :=
                        bt_insert field (owned owner v) (ps_operations target)\<rparr>)))
        else if field \<in> set PATH_ITEM_FIELDS \<or> starts_with field ''x-''
        then (case bt_get (ps_fields target) field of
                Some existing \<Rightarrow>
                  (if ov_value existing \<noteq> v
                   then Inl (PathItemConflict path field (ov_owner existing) owner)
                   else Inr target)
              | None \<Rightarrow> Inr (target\<lparr>ps_fields :=
                  bt_insert field (owned owner v) (ps_fields target)\<rparr>))
        else Inl (InvalidShape owner (''paths.'' @ path @ ''.'' @ field)
          ''HTTP method, path-item field, or x-* extension''))"

definition merge_path ::
  "string \<Rightarrow> string \<times> json \<Rightarrow> path_state btree \<Rightarrow> merge_error + path_state btree" where
  "merge_path owner pv paths =
     (case pv of (path, item) \<Rightarrow>
        if \<not> starts_with path ''/''
        then Inl (InvalidShape owner (''paths.'' @ path) ''path beginning with /'')
        else res_bind (expect_object owner (''paths.'' @ path) item) (\<lambda>fields.
          let target = (case bt_get paths path of Some t \<Rightarrow> t | None \<Rightarrow> path_state_default)
          in res_bind (res_fold (merge_path_field owner path) fields target) (\<lambda>merged.
            Inr (bt_insert path merged paths))))"

definition merge_paths ::
  "string \<Rightarrow> (string \<times> json) list \<Rightarrow> merge_state \<Rightarrow> merge_error + merge_state" where
  "merge_paths owner paths st =
     res_bind (res_fold (merge_path owner) paths (ms_paths st)) (\<lambda>merged.
       Inr (st\<lparr>ms_paths := merged\<rparr>))"

definition merge_component ::
  "string \<Rightarrow> string \<times> json \<Rightarrow> merge_state \<Rightarrow> merge_error + merge_state" where
  "merge_component owner nv st =
     (case nv of (namespace, entries) \<Rightarrow>
        if starts_with namespace ''x-''
        then res_bind (merge_compatible_value owner namespace entries (''components.'' @ namespace)
                 (ms_component_extensions st)) (\<lambda>merged.
               Inr (st\<lparr>ms_component_extensions := merged\<rparr>))
        else if namespace \<notin> set COMPONENT_NAMESPACES
        then Inl (InvalidShape owner (''components.'' @ namespace)
          ''OpenAPI component namespace or x-* extension'')
        else res_bind (expect_object owner (''components.'' @ namespace) entries) (\<lambda>entries.
          let target = (case bt_get (ms_components st) namespace of Some t \<Rightarrow> t | None \<Rightarrow> [])
          in Inr (st\<lparr>ms_components := bt_insert namespace
               (fold (\<lambda>(name, definition). insert_first owner name definition) entries target)
               (ms_components st)\<rparr>)))"

definition merge_components :: "string \<Rightarrow> json \<Rightarrow> merge_state \<Rightarrow> merge_error + merge_state" where
  "merge_components owner components st =
     res_bind (expect_object owner ''components'' components) (\<lambda>components.
       res_fold (merge_component owner) components (st\<lparr>ms_saw_components := True\<rparr>))"

definition merge_tag ::
  "string \<Rightarrow> nat \<times> json \<Rightarrow> owned_value btree \<Rightarrow> merge_error + owned_value btree" where
  "merge_tag owner it tags =
     (case it of (index, tag) \<Rightarrow>
        res_bind (expect_object owner (''tags['' @ show_nat index @ '']'') tag) (\<lambda>tag_object.
        res_bind (expect_string_field owner tag_object ''name'' ''non-empty string'') (\<lambda>name.
          case bt_get tags name of
            Some existing \<Rightarrow>
              (if ov_value existing \<noteq> tag then Inl (TagConflict name (ov_owner existing) owner)
               else Inr tags)
          | None \<Rightarrow> Inr (bt_insert name (owned owner tag) tags))))"

definition merge_tags :: "string \<Rightarrow> json \<Rightarrow> merge_state \<Rightarrow> merge_error + merge_state" where
  "merge_tags owner tags st =
     res_bind (expect_array owner ''tags'' tags) (\<lambda>tags.
     res_bind (res_fold (merge_tag owner) (enumerate 0 tags) (ms_tags st)) (\<lambda>merged.
       Inr (st\<lparr>ms_saw_tags := True, ms_tags := merged\<rparr>)))"

definition merge_server ::
  "string \<Rightarrow> nat \<times> json \<Rightarrow> owned_value btree \<Rightarrow> merge_error + owned_value btree" where
  "merge_server owner isv servers =
     (case isv of (index, server) \<Rightarrow>
        res_bind (expect_object owner (''servers['' @ show_nat index @ '']'') server) (\<lambda>server_object.
        res_bind (expect_string_field owner server_object ''url'' ''non-empty string'') (\<lambda>url.
          Inr (insert_first owner url server servers))))"

definition merge_servers :: "string \<Rightarrow> json \<Rightarrow> merge_state \<Rightarrow> merge_error + merge_state" where
  "merge_servers owner servers st =
     res_bind (expect_array owner ''servers'' servers) (\<lambda>servers.
     res_bind (res_fold (merge_server owner) (enumerate 0 servers) (ms_servers st)) (\<lambda>merged.
       Inr (st\<lparr>ms_saw_servers := True, ms_servers := merged\<rparr>)))"

definition requirement_scopes_check ::
  "string \<Rightarrow> nat \<Rightarrow> string \<times> json \<Rightarrow> merge_error + unit" where
  "requirement_scopes_check owner index ss =
     (case ss of (scheme, scopes) \<Rightarrow>
        let location = ''security['' @ show_nat index @ ''].'' @ scheme in
        res_bind (expect_array owner location scopes) (\<lambda>scopes.
          if list_ex (\<lambda>scope. as_str scope = None) scopes
          then Inl (InvalidShape owner location ''array of scope strings'') else Inr ()))"

definition merge_requirement ::
  "(json \<Rightarrow> string) \<Rightarrow> string \<Rightarrow> nat \<times> json \<Rightarrow> json btree \<Rightarrow> merge_error + json btree" where
  "merge_requirement json_text owner ir security =
     (case ir of (index, requirement) \<Rightarrow>
        res_bind (expect_object owner (''security['' @ show_nat index @ '']'') requirement) (\<lambda>object.
        res_bind (res_forall (requirement_scopes_check owner index) object) (\<lambda>_.
          let key = json_text requirement in
          Inr (case bt_get security key of
                 Some _ \<Rightarrow> security
               | None \<Rightarrow> bt_insert key requirement security))))"

definition merge_security ::
  "(json \<Rightarrow> string) \<Rightarrow> string \<Rightarrow> json \<Rightarrow> merge_state \<Rightarrow> merge_error + merge_state" where
  "merge_security json_text owner security st =
     res_bind (expect_array owner ''security'' security) (\<lambda>requirements.
     res_bind (res_fold (merge_requirement json_text owner) (enumerate 0 requirements)
         (ms_security st)) (\<lambda>merged.
       Inr (st\<lparr>ms_saw_security := True, ms_security := merged\<rparr>)))"

definition merge_webhook ::
  "string \<Rightarrow> string \<times> json \<Rightarrow> owned_value btree \<Rightarrow> merge_error + owned_value btree" where
  "merge_webhook owner nw webhooks =
     (case nw of (name, webhook) \<Rightarrow>
        if \<not> is_object webhook
        then Inl (InvalidShape owner (''webhooks.'' @ name) ''path-item object or reference'')
        else merge_compatible_value owner name webhook (''webhooks.'' @ name) webhooks)"

definition merge_webhooks :: "string \<Rightarrow> json \<Rightarrow> merge_state \<Rightarrow> merge_error + merge_state" where
  "merge_webhooks owner webhooks st =
     res_bind (expect_object owner ''webhooks'' webhooks) (\<lambda>webhooks.
     res_bind (res_fold (merge_webhook owner) webhooks (ms_webhooks st)) (\<lambda>merged.
       Inr (st\<lparr>ms_saw_webhooks := True, ms_webhooks := merged\<rparr>)))"

definition merge_top_level_value ::
  "string \<Rightarrow> string \<Rightarrow> json \<Rightarrow> merge_state \<Rightarrow> merge_error + merge_state" where
  "merge_top_level_value owner field v st =
     res_bind (merge_compatible_value owner field v field (ms_top_level st)) (\<lambda>merged.
       Inr (st\<lparr>ms_top_level := merged\<rparr>))"

subsection \<open>A document, and all of them\<close>

definition merge_field ::
  "(json \<Rightarrow> string) \<Rightarrow> string \<Rightarrow> string \<times> json \<Rightarrow> merge_state \<Rightarrow> merge_error + merge_state" where
  "merge_field json_text owner fv st =
     (case fv of (field, v) \<Rightarrow>
        if field \<in> {''openapi'', ''info'', ''paths''} then Inr st
        else if field = ''components'' then merge_components owner v st
        else if field = ''tags'' then merge_tags owner v st
        else if field = ''servers'' then merge_servers owner v st
        else if field = ''security'' then merge_security json_text owner v st
        else if field = ''webhooks'' then merge_webhooks owner v st
        else if field \<in> {''jsonSchemaDialect'', ''externalDocs''}
        then merge_top_level_value owner field v st
        else if starts_with field ''x-''
        then Inr (st\<lparr>ms_top_level := insert_first owner field v (ms_top_level st)\<rparr>)
        else Inl (InvalidShape owner field ''an OpenAPI 3.1 top-level field or x-* extension''))"

definition merge_document ::
  "(json \<Rightarrow> string) \<Rightarrow> string \<Rightarrow> json \<Rightarrow> merge_state \<Rightarrow> merge_error + merge_state" where
  "merge_document json_text owner doc st =
     res_bind (expect_object owner ''$'' doc) (\<lambda>doc.
     res_bind (expect_string_field owner doc ''openapi'' ''OpenAPI version string'') (\<lambda>openapi.
     res_bind (merge_openapi_version owner openapi st) (\<lambda>st.
     res_bind (ok_or (map_of doc ''info'')
       (InvalidShape owner ''info'' ''object with title and version'')) (\<lambda>info.
     res_bind (expect_object owner ''info'' info) (\<lambda>info.
     res_bind (merge_info owner info st) (\<lambda>st.
     res_bind (ok_or (map_of doc ''paths'') (InvalidShape owner ''paths'' ''object'')) (\<lambda>paths.
     res_bind (expect_object owner ''paths'' paths) (\<lambda>paths.
     res_bind (merge_paths owner paths st) (\<lambda>st.
       res_fold (merge_field json_text owner) doc st)))))))))"

definition map_owned_values :: "owned_value btree \<Rightarrow> json btree" where
  "map_owned_values m = bt_map ov_value m"

definition insert_owned :: "owned_value btree \<Rightarrow> json btree \<Rightarrow> json btree" where
  "insert_owned m target = fold (\<lambda>(k, v) t. bt_insert k (ov_value v) t) m target"

definition path_item_json :: "path_state \<Rightarrow> json" where
  "path_item_json ps = JObject (insert_owned (ps_operations ps) (insert_owned (ps_fields ps) []))"

definition materialize_document :: "string \<Rightarrow> merge_state \<Rightarrow> merge_error + json" where
  "materialize_document title st =
     res_bind (ok_or (ms_openapi st) NoDocuments) (\<lambda>openapi.
       let doc = bt_insert ''openapi'' (ov_value openapi) [];
           info = insert_owned (ms_info st) (bt_insert ''title'' (JString (trim title)) []);
           doc = bt_insert ''info'' (JObject info) doc;
           doc = insert_owned (ms_top_level st) doc;
           doc = (if ms_saw_servers st
             then bt_insert ''servers'' (JArray (map ov_value (bt_values (ms_servers st)))) doc
             else doc);
           doc = bt_insert ''paths''
             (JObject (fold (\<lambda>(p, ps). bt_insert p (path_item_json ps)) (ms_paths st) [])) doc;
           doc = (if ms_saw_webhooks st
             then bt_insert ''webhooks'' (JObject (map_owned_values (ms_webhooks st))) doc
             else doc);
           doc = (if ms_saw_components st
             then bt_insert ''components'' (JObject (insert_owned (ms_component_extensions st)
               (fold (\<lambda>(n, es). bt_insert n (JObject (map_owned_values es))) (ms_components st) [])))
               doc
             else doc);
           doc = (if ms_saw_security st
             then bt_insert ''security'' (JArray (bt_values (ms_security st))) doc else doc);
           doc = (if ms_saw_tags st
             then bt_insert ''tags'' (JArray (map ov_value (bt_values (ms_tags st)))) doc else doc)
       in Inr (JObject doc))"

definition merge_contribution ::
  "(json \<Rightarrow> string) \<Rightarrow> nat \<times> contribution \<Rightarrow> merge_state \<Rightarrow> merge_error + merge_state" where
  "merge_contribution json_text ic st =
     (case ic of (index, c) \<Rightarrow>
        let owner = trim (ct_owner c) in
        if owner = [] then Inl (EmptyOwner index)
        else merge_document json_text owner (canonicalize (ct_document c)) st)"

definition merge_openapi_documents ::
  "(json \<Rightarrow> string) \<Rightarrow> string \<Rightarrow> contribution list \<Rightarrow> merge_error + json" where
  "merge_openapi_documents json_text title contributions =
     (if trim title = [] then Inl EmptyCombinedTitle
      else if contributions = [] then Inl NoDocuments
      else res_bind (res_fold (merge_contribution json_text) (enumerate 0 contributions)
          merge_state_default) (materialize_document title))"


subsection \<open>What a path item and a document contribute\<close>

definition item_at :: "path_state \<Rightarrow> string \<Rightarrow> json option" where
  "item_at ps f = map_option ov_value
     (bt_get (if f \<in> set HTTP_METHODS then ps_operations ps else ps_fields ps) f)"

definition path_ok :: "path_state \<Rightarrow> bool" where
  "path_ok ps \<longleftrightarrow> bt_ok (ps_fields ps) \<and> bt_ok (ps_operations ps)
     \<and> fst ` set (ps_operations ps) \<subseteq> set HTTP_METHODS
     \<and> fst ` set (ps_fields ps) \<inter> set HTTP_METHODS = {}"

definition mergeable :: "string \<Rightarrow> json \<Rightarrow> json option \<Rightarrow> bool" where
  "mergeable f v old \<longleftrightarrow> old = None \<or> (f \<notin> set HTTP_METHODS \<and> old = Some v)"

lemma bt_insert_dom: "fst ` set (bt_insert k v m) = insert k (fst ` set m)"
  using bt_insert_keys [of k v m] by (simp add: bt_keys_def)

lemma owned_value_simp [simp]: "ov_value (owned owner v) = v"
  by (simp add: owned_def)

lemma merge_path_field_step:
  assumes "path_ok ps" and "merge_path_field owner path (f, v) ps = Inr ps'"
  shows "path_ok ps' \<and> item_at ps' = (item_at ps)(f := Some v) \<and> mergeable f v (item_at ps f)"
proof (cases "f \<in> set HTTP_METHODS")
  case True
  with assms(2) have n: "bt_get (ps_operations ps) f = None"
    and ps': "ps' = ps\<lparr>ps_operations := bt_insert f (owned owner v) (ps_operations ps)\<rparr>"
    by (auto simp: merge_path_field_def split: if_splits option.splits)
  show ?thesis using assms(1) True n
    by (auto simp: ps' path_ok_def item_at_def mergeable_def bt_insert_ok bt_insert_get bt_insert_dom)
next
  case False
  show ?thesis
  proof (cases "bt_get (ps_fields ps) f")
    case None
    with False assms(2) have ps': "ps' = ps\<lparr>ps_fields := bt_insert f (owned owner v) (ps_fields ps)\<rparr>"
      by (auto simp: merge_path_field_def split: if_splits)
    show ?thesis using assms(1) False None
      by (auto simp: ps' path_ok_def item_at_def mergeable_def bt_insert_ok bt_insert_get bt_insert_dom)
  next
    case (Some existing)
    with False assms(2) have "ov_value existing = v" and "ps' = ps"
      by (auto simp: merge_path_field_def split: if_splits)
    with Some False assms(1) show ?thesis by (auto simp: item_at_def mergeable_def fun_eq_iff)
  qed
qed

lemma merge_path_fields:
  assumes "path_ok ps" and "distinct (map fst flds)"
    and "res_fold (merge_path_field owner path) flds ps = Inr ps'"
  shows "path_ok ps' \<and> item_at ps' = (\<lambda>f. opt_or (item_at ps f) (map_of flds f)) \<and>
    (\<forall>f v. map_of flds f = Some v \<longrightarrow> mergeable f v (item_at ps f))"
proof -
  have step: "path_ok ps' \<and>
      item_at ps' = (\<lambda>f. case map_of flds f of Some v \<Rightarrow> Some v | None \<Rightarrow> item_at ps f) \<and>
      (\<forall>f v. map_of flds f = Some v \<longrightarrow> mergeable f v (item_at ps f))"
    by (rule res_fold_keyed [where g = "\<lambda>_ v _. Some v" and ok = path_ok and view = item_at
        and checked = mergeable, OF assms(3,2,1)]) (rule merge_path_field_step)
  have "opt_or (item_at ps f) (map_of flds f) =
      (case map_of flds f of Some v \<Rightarrow> Some v | None \<Rightarrow> item_at ps f)" for f
    using step [THEN conjunct2, THEN conjunct2, rule_format, of f]
    by (cases "map_of flds f"; cases "item_at ps f") (auto simp: mergeable_def)
  with step show ?thesis by simp
qed

definition paths_ok :: "path_state btree \<Rightarrow> bool" where
  "paths_ok paths \<longleftrightarrow> bt_ok paths \<and> (\<forall>p ps. bt_get paths p = Some ps \<longrightarrow> path_ok ps)"

definition path_at :: "path_state btree \<Rightarrow> string \<Rightarrow> string \<Rightarrow> json option" where
  "path_at paths p f = Option.bind (bt_get paths p) (\<lambda>ps. item_at ps f)"

lemma path_default [simp]: "path_ok path_state_default" "item_at path_state_default f = None"
  by (simp_all add: path_ok_def path_state_default_def item_at_def)

lemma merge_path_step:
  assumes "paths_ok paths" and "unique_keys item"
    and "merge_path owner (p, item) paths = Inr paths'"
  shows "paths_ok paths' \<and>
    path_at paths' = (path_at paths)(p := \<lambda>f. opt_or (path_at paths p f) (json_get f item)) \<and>
    (\<forall>f v. json_get f item = Some v \<longrightarrow> mergeable f v (path_at paths p f))"
proof -
  let ?t = "case bt_get paths p of Some t \<Rightarrow> t | None \<Rightarrow> path_state_default"
  from assms(3) obtain flds merged where i: "item = JObject flds"
    and m: "res_fold (merge_path_field owner p) flds ?t = Inr merged"
    and paths': "paths' = bt_insert p merged paths"
    by (auto simp: merge_path_def expect_object_def ok_or_eq as_object_Some res_bind_eq_Inr Let_def
        split: if_splits)
  have t: "path_ok ?t" "item_at ?t = path_at paths p"
    using assms(1) by (auto simp: paths_ok_def path_at_def fun_eq_iff split: option.splits)
  have d: "distinct (map fst flds)" using assms(2) by (simp add: i)
  note merged = merge_path_fields [OF t(1) d m, unfolded t(2)]
  have "path_at paths' = (path_at paths)(p := item_at merged)"
    using assms(1) by (auto simp: paths' path_at_def paths_ok_def bt_insert_get fun_eq_iff)
  moreover have "paths_ok paths'"
    using assms(1) merged by (auto simp: paths' paths_ok_def bt_insert_ok bt_insert_get)
  ultimately show ?thesis using merged by (simp add: i)
qed

lemma merge_paths_step:
  assumes "paths_ok (ms_paths st)" and "unique_keys (JObject paths)"
    and "merge_paths owner paths st = Inr st'"
  shows "paths_ok (ms_paths st') \<and>
    path_at (ms_paths st') = (\<lambda>p f. opt_or (path_at (ms_paths st) p f) (json_at [p, f] (JObject paths))) \<and>
    (\<forall>p f v. json_at [p, f] (JObject paths) = Some v \<longrightarrow> mergeable f v (path_at (ms_paths st) p f))
    \<and> (\<exists>m. st' = st\<lparr>ms_paths := m\<rparr>)"
proof -
  from assms(3) obtain merged where m: "res_fold (merge_path owner) paths (ms_paths st) = Inr merged"
    and st': "st' = st\<lparr>ms_paths := merged\<rparr>" by (auto simp: merge_paths_def res_bind_eq_Inr)
  have "paths_ok merged \<and>
    path_at merged = (\<lambda>p. case map_of paths p of
       Some item \<Rightarrow> (\<lambda>f. opt_or (path_at (ms_paths st) p f) (json_get f item))
     | None \<Rightarrow> path_at (ms_paths st) p) \<and>
    (\<forall>p item. map_of paths p = Some item \<longrightarrow>
      (\<forall>f v. json_get f item = Some v \<longrightarrow> mergeable f v (path_at (ms_paths st) p f)))"
  proof (rule res_fold_keyed [where ok = paths_ok and view = path_at
        and g = "\<lambda>_ item old f. opt_or (old f) (json_get f item)"
        and checked = "\<lambda>_ item old. \<forall>f v. json_get f item = Some v \<longrightarrow> mergeable f v (old f)",
        OF m _ assms(1)])
    show "distinct (map fst paths)" using assms(2) by simp
    show "paths_ok s' \<and>
        path_at s' = (path_at s)(p := \<lambda>f. opt_or (path_at s p f) (json_get f item)) \<and>
        (\<forall>f v. json_get f item = Some v \<longrightarrow> mergeable f v (path_at s p f))"
      if "(p, item) \<in> set paths" "paths_ok s" "merge_path owner (p, item) s = Inr s'" for p item s s'
      using that assms(2) by (intro merge_path_step) auto
  qed
  then show ?thesis
    by (auto simp: st' fun_eq_iff opt_or_def split: option.splits bind_splits)
qed

definition comp_at :: "owned_value btree btree \<Rightarrow> string \<Rightarrow> string \<Rightarrow> json option" where
  "comp_at comps ns n = Option.bind (bt_get comps ns) (\<lambda>es. map_option ov_value (bt_get es n))"

lemma insert_first_step:
  assumes "bt_ok es"
  shows "bt_ok (insert_first owner n v es) \<and>
    (\<lambda>k. map_option ov_value (bt_get (insert_first owner n v es) k)) =
      (\<lambda>k. map_option ov_value (bt_get es k))
        (n := opt_or (map_option ov_value (bt_get es n)) (Some v))"
  using assms
  by (cases "bt_get es n") (auto simp: insert_first_def bt_insert_ok bt_insert_get fun_eq_iff)

lemma insert_first_fold:
  assumes "bt_ok es"
  shows "bt_ok (fold (\<lambda>(n, v). insert_first owner n v) entries es) \<and>
    map_option ov_value (bt_get (fold (\<lambda>(n, v). insert_first owner n v) entries es) k) =
      opt_or (map_option ov_value (bt_get es k)) (map_of entries k)"
  using assms
proof (induction entries arbitrary: es)
  case (Cons nv entries)
  obtain n v where nv: "nv = (n, v)" by (cases nv)
  have "map_option ov_value (bt_get (insert_first owner n v es) k) =
      (if k = n then opt_or (map_option ov_value (bt_get es k)) (Some v)
       else map_option ov_value (bt_get es k))"
    using insert_first_step [OF Cons.prems, of owner n v, THEN conjunct2]
    by (auto simp: fun_eq_iff)
  then show ?case
    using Cons.IH [of "insert_first owner n v es"] insert_first_step [OF Cons.prems, of owner n v]
    by (auto simp: nv opt_or_def split: option.splits)
qed (simp add: opt_or_def split: option.split)

lemma bt_get_dom: "bt_get m k = Some v \<Longrightarrow> k \<in> fst ` set m"
  by (force dest: map_of_SomeD)

lemma merge_compatible_step:
  assumes "bt_ok target" and "merge_compatible_value owner key v location target = Inr target'"
  shows "bt_ok target' \<and> fst ` set target' = insert key (fst ` set target)"
  using assms
  by (simp add: merge_compatible_value_def bt_insert_ok bt_insert_dom insert_absorb bt_get_dom
      split: option.splits if_splits)
    (metis bt_insert_dom bt_insert_ok)

lemma insert_first_dom: "fst ` set (insert_first owner n v es) = insert n (fst ` set es)"
  by (simp add: insert_first_def bt_insert_dom insert_absorb bt_get_dom split: option.split)

text \<open>What the maps of the state satisfy between two documents.\<close>

definition state_ok :: "merge_state \<Rightarrow> bool" where
  "state_ok st \<longleftrightarrow> paths_ok (ms_paths st) \<and> bt_ok (ms_components st)
     \<and> (\<forall>ns es. bt_get (ms_components st) ns = Some es \<longrightarrow> bt_ok es)
     \<and> fst ` set (ms_components st) \<subseteq> set COMPONENT_NAMESPACES
     \<and> (ms_saw_components st \<or> ms_components st = [])
     \<and> bt_ok (ms_component_extensions st)
     \<and> (\<forall>k \<in> fst ` set (ms_component_extensions st). starts_with k ''x-'')
     \<and> bt_ok (ms_info st) \<and> ''title'' \<notin> fst ` set (ms_info st)
     \<and> bt_ok (ms_top_level st) \<and> ''info'' \<notin> fst ` set (ms_top_level st)
     \<and> ''components'' \<notin> fst ` set (ms_top_level st)"

lemma state_ok_frame [simp]:
  "state_ok (st\<lparr>ms_openapi := x\<rparr>) = state_ok st"
  "state_ok (st\<lparr>ms_saw_tags := b, ms_tags := o1\<rparr>) = state_ok st"
  "state_ok (st\<lparr>ms_saw_servers := b, ms_servers := o2\<rparr>) = state_ok st"
  "state_ok (st\<lparr>ms_saw_security := b, ms_security := o3\<rparr>) = state_ok st"
  "state_ok (st\<lparr>ms_saw_webhooks := b, ms_webhooks := o4\<rparr>) = state_ok st"
  by (simp_all add: state_ok_def)

lemma state_ok_top_level:
  "state_ok st \<Longrightarrow> bt_ok t \<Longrightarrow> ''info'' \<notin> fst ` set t \<Longrightarrow> ''components'' \<notin> fst ` set t \<Longrightarrow>
    state_ok (st\<lparr>ms_top_level := t\<rparr>)"
  by (simp add: state_ok_def)

lemma state_ok_paths: "state_ok st \<Longrightarrow> paths_ok m \<Longrightarrow> state_ok (st\<lparr>ms_paths := m\<rparr>)"
  by (simp add: state_ok_def)

lemma namespaces_no_extension: "ns \<in> set COMPONENT_NAMESPACES \<Longrightarrow> \<not> starts_with ns ''x-''"
  by (auto simp: COMPONENT_NAMESPACES_def starts_with_def)

lemma merge_component_step:
  assumes "state_ok st" and "ms_saw_components st"
    and "merge_component owner (ns, entries) st = Inr st'"
  shows "(state_ok st' \<and> ms_saw_components st' \<and> ms_paths st' = ms_paths st) \<and>
    comp_at (ms_components st') = (comp_at (ms_components st))
      (ns := if ns \<in> set COMPONENT_NAMESPACES
             then (\<lambda>n. opt_or (comp_at (ms_components st) ns n) (json_get n entries))
             else comp_at (ms_components st) ns)"
proof (cases "starts_with ns ''x-''")
  case True
  with assms(3) obtain ext
    where m: "merge_compatible_value owner ns entries (''components.'' @ ns) (ms_component_extensions st) = Inr ext"
      and st': "st' = st\<lparr>ms_component_extensions := ext\<rparr>"
    by (auto simp: merge_component_def res_bind_eq_Inr)
  have "bt_ok ext \<and> fst ` set ext = insert ns (fst ` set (ms_component_extensions st))"
    using merge_compatible_step [OF _ m] assms(1) by (simp add: state_ok_def)
  with True assms(1,2) namespaces_no_extension [of ns] show ?thesis
    by (auto simp: st' state_ok_def)
next
  case False
  let ?t = "case bt_get (ms_components st) ns of Some t \<Rightarrow> t | None \<Rightarrow> []"
  from False assms(3) obtain es where n: "ns \<in> set COMPONENT_NAMESPACES" and e: "entries = JObject es"
    and st': "st' = st\<lparr>ms_components := bt_insert ns
      (fold (\<lambda>(n, v). insert_first owner n v) es ?t) (ms_components st)\<rparr>"
    by (auto simp: merge_component_def expect_object_def ok_or_eq as_object_Some res_bind_eq_Inr
        Let_def split: if_splits)
  have t: "bt_ok ?t" "map_option ov_value (bt_get ?t k) = comp_at (ms_components st) ns k" for k
    using assms(1) by (auto simp: state_ok_def comp_at_def split: option.splits)
  have c: "bt_ok (ms_components st)" using assms(1) by (simp add: state_ok_def)
  note merged = insert_first_fold [OF t(1), of owner es, unfolded t(2)]
  have "comp_at (ms_components st') = (comp_at (ms_components st))
      (ns := \<lambda>n. opt_or (comp_at (ms_components st) ns n) (map_of es n))"
    using merged by (auto simp: st' comp_at_def bt_insert_get [OF c] fun_eq_iff)
  moreover have "state_ok st'"
    using assms(1,2) n merged unfolding state_ok_def
    by (auto simp: st' bt_insert_ok bt_insert_get bt_insert_dom)
  ultimately show ?thesis using n assms(2) by (simp add: e st')
qed

text \<open>The components a value contributes: those of the namespaces of OpenAPI.\<close>

definition components_in :: "json \<Rightarrow> string \<Rightarrow> string \<Rightarrow> json option" where
  "components_in components ns n =
     (if ns \<in> set COMPONENT_NAMESPACES then json_at [ns, n] components else None)"

lemma merge_components_step:
  assumes "state_ok st" and "unique_keys components"
    and "merge_components owner components st = Inr st'"
  shows "state_ok st' \<and> ms_paths st' = ms_paths st \<and>
    comp_at (ms_components st') =
      (\<lambda>ns n. opt_or (comp_at (ms_components st) ns n) (components_in components ns n))"
proof -
  let ?ok = "\<lambda>s. state_ok s \<and> ms_saw_components s \<and> ms_paths s = ms_paths st"
  let ?g = "\<lambda>ns entries old. if ns \<in> set COMPONENT_NAMESPACES
    then (\<lambda>n. opt_or (old n) (json_get n entries)) else old"
  from assms(3) obtain cs where c: "components = JObject cs"
    and m: "res_fold (merge_component owner) cs (st\<lparr>ms_saw_components := True\<rparr>) = Inr st'"
    by (auto simp: merge_components_def expect_object_def ok_or_eq as_object_Some res_bind_eq_Inr)
  have d: "distinct (map fst cs)" using assms(2) by (simp add: c)
  have ok: "?ok (st\<lparr>ms_saw_components := True\<rparr>)"
    using assms(1) by (simp add: state_ok_def)
  have step: "?ok s' \<and> comp_at (ms_components s') =
      (comp_at (ms_components s))(ns := ?g ns entries (comp_at (ms_components s) ns)) \<and> True"
    if "(ns, entries) \<in> set cs" "?ok s" "merge_component owner (ns, entries) s = Inr s'" for ns entries s s'
    using merge_component_step [of s owner ns entries s'] that by simp
  let ?st = "st\<lparr>ms_saw_components := True\<rparr>"
  have "?ok st' \<and> comp_at (ms_components st') =
      (\<lambda>ns. case map_of cs ns of Some entries \<Rightarrow> ?g ns entries (comp_at (ms_components ?st) ns)
        | None \<Rightarrow> comp_at (ms_components ?st) ns) \<and> (\<forall>ns entries. map_of cs ns = Some entries \<longrightarrow> True)"
    by (rule res_fold_keyed [where ok = ?ok and g = ?g and checked = "\<lambda>_ _ _. True"
        and view = "\<lambda>s. comp_at (ms_components s)", OF m d ok]) (rule step)
  moreover have "ms_components ?st = ms_components st" by simp
  ultimately have ok: "?ok st'" and at: "comp_at (ms_components st') =
      (\<lambda>ns. case map_of cs ns of Some entries \<Rightarrow> ?g ns entries (comp_at (ms_components st) ns)
        | None \<Rightarrow> comp_at (ms_components st) ns)" by (simp_all only: simp_thms)
  have "comp_at (ms_components st') ns n =
      opt_or (comp_at (ms_components st) ns n) (components_in components ns n)" for ns n
    unfolding at by (cases "map_of cs ns"; cases "ns \<in> set COMPONENT_NAMESPACES")
      (simp_all add: c components_in_def)
  with ok show ?thesis by (simp add: fun_eq_iff)
qed

text \<open>Every other field leaves the paths and the components alone.\<close>

lemma merge_field_step:
  assumes "state_ok st" and "unique_keys v" and "merge_field jt owner (field, v) st = Inr st'"
  shows "state_ok st' \<and> ms_paths st' = ms_paths st \<and>
    comp_at (ms_components st') = (if field = ''components''
      then (\<lambda>ns n. opt_or (comp_at (ms_components st) ns n) (components_in v ns n))
      else comp_at (ms_components st))"
proof (cases "field = ''components''")
  case True
  then show ?thesis
    using merge_components_step [OF assms(1,2), of owner st'] assms(3) by (simp add: merge_field_def)
next
  case False
  have first: "bt_ok (insert_first owner field v (ms_top_level st))"
    using insert_first_step [of "ms_top_level st"] assms(1) by (simp add: state_ok_def)
  have compat: "bt_ok t \<and> fst ` set t = insert field (fst ` set (ms_top_level st))"
    if "merge_compatible_value owner field v field (ms_top_level st) = Inr t" for t
    using merge_compatible_step [OF _ that] assms(1) by (simp add: state_ok_def)
  have "state_ok st' \<and> ms_paths st' = ms_paths st \<and> ms_components st' = ms_components st"
  proof (cases "field \<in> {''tags'', ''servers'', ''security'', ''webhooks'', ''openapi'', ''info'', ''paths''}")
    case True
    then have "field = ''tags'' \<or> field = ''servers'' \<or> field = ''security'' \<or> field = ''webhooks''
        \<or> field \<in> {''openapi'', ''info'', ''paths''}"
      by (simp only: insert_iff empty_iff simp_thms)
    then show ?thesis
    proof (elim disjE)
      assume "field = ''tags''"
      with assms(1,3) show ?thesis
        by (auto simp: merge_field_def merge_tags_def res_bind_eq_Inr)
    next
      assume "field = ''servers''"
      with assms(1,3) show ?thesis
        by (auto simp: merge_field_def merge_servers_def res_bind_eq_Inr)
    next
      assume "field = ''security''"
      with assms(1,3) show ?thesis
        by (auto simp: merge_field_def merge_security_def res_bind_eq_Inr)
    next
      assume "field = ''webhooks''"
      with assms(1,3) show ?thesis
        by (auto simp: merge_field_def merge_webhooks_def res_bind_eq_Inr)
    next
      assume "field \<in> {''openapi'', ''info'', ''paths''}"
      with assms(1,3) show ?thesis by (simp add: merge_field_def)
    qed
  next
    case other: False
    with assms(3) False
    have "merge_top_level_value owner field v st = Inr st' \<or>
        st' = st\<lparr>ms_top_level := insert_first owner field v (ms_top_level st)\<rparr>"
      by (simp add: merge_field_def split: if_splits)
    then obtain t where t: "st' = st\<lparr>ms_top_level := t\<rparr>" "bt_ok t"
        "fst ` set t = insert field (fst ` set (ms_top_level st))"
      using first compat insert_first_dom [of owner field v "ms_top_level st"]
      unfolding merge_top_level_value_def res_bind_eq_Inr by blast
    have "''info'' \<notin> fst ` set (ms_top_level st)" "''components'' \<notin> fst ` set (ms_top_level st)"
      using assms(1) by (simp_all add: state_ok_def)
    moreover have "field \<noteq> ''info''" using other by simp
    ultimately have "''info'' \<notin> fst ` set t" "''components'' \<notin> fst ` set t"
      using False unfolding t(3) insert_iff by metis+
    with t(1,2) assms(1) show ?thesis by (simp add: state_ok_top_level)
  qed
  with False show ?thesis by simp
qed

lemma merge_fields:
  assumes "state_ok st" and "unique_keys (JObject flds)"
    and "res_fold (merge_field jt owner) flds st = Inr st'"
  shows "state_ok st' \<and> ms_paths st' = ms_paths st \<and>
    comp_at (ms_components st') = (\<lambda>ns n. opt_or (comp_at (ms_components st) ns n)
      (Option.bind (map_of flds ''components'') (\<lambda>v. components_in v ns n)))"
proof -
  let ?ok = "\<lambda>s. state_ok s \<and> ms_paths s = ms_paths st"
  let ?view = "\<lambda>s k. if k = ''components'' then comp_at (ms_components s) else (\<lambda>_ _. None)"
  let ?g = "\<lambda>k v old. if k = ''components''
    then (\<lambda>ns n. opt_or (old ns n) (components_in v ns n)) else old"
  have d: "distinct (map fst flds)" and ok: "?ok st" using assms by simp_all
  have step: "?ok s' \<and> ?view s' = (?view s)(k := ?g k v (?view s k)) \<and> True"
    if "(k, v) \<in> set flds" "?ok s" "merge_field jt owner (k, v) s = Inr s'" for k v s s'
  proof -
    have "unique_keys v" using assms(2) that(1) by auto
    with merge_field_step [of s v jt owner k s'] that(2,3)
    show ?thesis by (cases "k = ''components''") (simp_all add: fun_eq_iff)
  qed
  have "?ok st' \<and> ?view st' = (\<lambda>k. case map_of flds k of Some v \<Rightarrow> ?g k v (?view st k) | None \<Rightarrow> ?view st k)
      \<and> (\<forall>k v. map_of flds k = Some v \<longrightarrow> True)"
    by (rule res_fold_keyed [where ok = ?ok and g = ?g and checked = "\<lambda>_ _ _. True" and view = ?view,
        OF assms(3) d ok]) (rule step)
  note all = this
  have "comp_at (ms_components st') =
      (case map_of flds ''components'' of
         Some v \<Rightarrow> (\<lambda>ns n. opt_or (comp_at (ms_components st) ns n) (components_in v ns n))
       | None \<Rightarrow> comp_at (ms_components st))"
    using fun_cong [OF all [THEN conjunct2, THEN conjunct1], of "''components''"]
    by (simp only: if_True simp_thms)
  then have "comp_at (ms_components st') ns n = opt_or (comp_at (ms_components st) ns n)
      (Option.bind (map_of flds ''components'') (\<lambda>v. components_in v ns n))" for ns n
    by (cases "map_of flds ''components''") simp_all
  with all [THEN conjunct1] show ?thesis by (simp add: fun_eq_iff)
qed

lemma merge_info_field_step:
  assumes "bt_ok info" and "''title'' \<notin> fst ` set info" and "merge_info_field owner (f, v) info = Inr info'"
  shows "bt_ok info' \<and> ''title'' \<notin> fst ` set info'"
  using assms insert_first_step [of info owner f v] insert_first_dom [of owner f v info]
    merge_compatible_step [of info owner f v _ info']
  by (auto simp: merge_info_field_def split: if_splits)

lemma merge_info_step:
  assumes "state_ok st" and "merge_info owner info st = Inr st'"
  shows "state_ok st' \<and> ms_paths st' = ms_paths st \<and> ms_components st' = ms_components st"
proof -
  from assms(2) obtain merged where m: "res_fold (merge_info_field owner) info (ms_info st) = Inr merged"
    and st': "st' = st\<lparr>ms_info := merged\<rparr>" by (auto simp: merge_info_def res_bind_eq_Inr)
  have "bt_ok merged \<and> ''title'' \<notin> fst ` set merged"
  proof (rule res_fold_invariant [OF m])
    show "bt_ok (ms_info st) \<and> ''title'' \<notin> fst ` set (ms_info st)"
      using assms(1) by (simp add: state_ok_def)
    show "bt_ok s' \<and> ''title'' \<notin> fst ` set s'"
      if "bt_ok s \<and> ''title'' \<notin> fst ` set s" "merge_info_field owner x s = Inr s'" for x s s'
      using merge_info_field_step [of s owner "fst x" "snd x" s'] that by simp
  qed
  then show ?thesis using assms(1) by (auto simp: st' state_ok_def)
qed

text \<open>One document: its paths are added, and its components where they are new.\<close>

definition document_path :: "json \<Rightarrow> string \<Rightarrow> string \<Rightarrow> json option" where
  "document_path doc p f = json_at [''paths'', p, f] doc"

definition document_component :: "json \<Rightarrow> string \<Rightarrow> string \<Rightarrow> json option" where
  "document_component doc ns n =
     (if ns \<in> set COMPONENT_NAMESPACES then json_at [''components'', ns, n] doc else None)"

lemma merge_document_step:
  assumes "state_ok st" and "unique_keys doc" and "merge_document jt owner doc st = Inr st'"
  shows "state_ok st' \<and>
    path_at (ms_paths st') = (\<lambda>p f. opt_or (path_at (ms_paths st) p f) (document_path doc p f)) \<and>
    (\<forall>p f v. document_path doc p f = Some v \<longrightarrow> mergeable f v (path_at (ms_paths st) p f)) \<and>
    comp_at (ms_components st') =
      (\<lambda>ns n. opt_or (comp_at (ms_components st) ns n) (document_component doc ns n))"
proof -
  from assms(3) obtain flds version st1 info st2 paths st3 where doc: "doc = JObject flds"
    and v: "merge_openapi_version owner version st = Inr st1"
    and i: "merge_info owner info st1 = Inr st2"
    and pj: "map_of flds ''paths'' = Some (JObject paths)"
    and p: "merge_paths owner paths st2 = Inr st3"
    and f: "res_fold (merge_field jt owner) flds st3 = Inr st'"
    by (auto simp: merge_document_def expect_object_def ok_or_eq as_object_Some res_bind_eq_Inr)
  have st1: "state_ok st1" "ms_paths st1 = ms_paths st" "ms_components st1 = ms_components st"
    using v assms(1) by (auto simp: merge_openapi_version_def Let_def split: option.splits if_splits)
  note st2 = merge_info_step [OF st1(1) i]
  have "unique_keys (JObject paths)" using assms(2) pj unique_keys_get [of doc "''paths''" "JObject paths"] by (simp add: doc)
  with merge_paths_step [OF _ this p] st2
  obtain m where m: "st3 = st2\<lparr>ms_paths := m\<rparr>" and ok: "paths_ok (ms_paths st3)"
    and at: "path_at (ms_paths st3) =
      (\<lambda>p f. opt_or (path_at (ms_paths st2) p f) (json_at [p, f] (JObject paths)))"
    and able: "\<forall>p f v. json_at [p, f] (JObject paths) = Some v \<longrightarrow> mergeable f v (path_at (ms_paths st2) p f)"
    unfolding state_ok_def by blast
  have st3: "state_ok st3" using st2 ok by (simp add: m state_ok_paths)
  have dp: "document_path doc p f = json_at [p, f] (JObject paths)" for p f
    by (simp add: document_path_def doc pj)
  have dc: "document_component doc ns n =
      Option.bind (map_of flds ''components'') (\<lambda>v. components_in v ns n)" for ns n
    by (cases "map_of flds ''components''") (auto simp: document_component_def components_in_def doc)
  have "unique_keys (JObject flds)" using assms(2) by (simp add: doc)
  note st' = merge_fields [OF st3 this f]
  have same: "ms_paths st2 = ms_paths st" "ms_components st3 = ms_components st"
    using st1 st2 by (simp_all add: m)
  show ?thesis using st' at able unfolding dp dc same by simp
qed

subsection \<open>All documents\<close>

text \<open>Of two sources for the same entry of a path item, neither is an operation and both say the
  same.\<close>

definition agreeing :: "string \<Rightarrow> json option list \<Rightarrow> bool" where
  "agreeing f = sorted_wrt (\<lambda>x y. \<forall>u v. x = Some u \<longrightarrow> y = Some v \<longrightarrow> f \<notin> set HTTP_METHODS \<and> u = v)"

lemma agreeing_step:
  assumes "\<And>v. d = Some v \<Longrightarrow> mergeable f v old" and "agreeing f (opt_or old d # ds)"
  shows "agreeing f (old # d # ds)"
  using assms by (cases old; cases d) (auto simp: agreeing_def mergeable_def)

lemma merge_contributions:
  assumes "state_ok st" and "res_fold (merge_contribution jt) (enumerate n cs) st = Inr st'"
  defines "docs \<equiv> map (\<lambda>c. canonicalize (ct_document c)) cs"
  shows "state_ok st' \<and>
    path_at (ms_paths st') = (\<lambda>p f. opt_or (path_at (ms_paths st) p f)
      (first_some (map (\<lambda>d. document_path d p f) docs))) \<and>
    (\<forall>p f. agreeing f (path_at (ms_paths st) p f # map (\<lambda>d. document_path d p f) docs)) \<and>
    comp_at (ms_components st') = (\<lambda>ns k. opt_or (comp_at (ms_components st) ns k)
      (first_some (map (\<lambda>d. document_component d ns k) docs)))"
  using assms(1,2) unfolding docs_def
proof (induction cs arbitrary: st n)
  case Nil
  then show ?case by (simp add: agreeing_def)
next
  case (Cons c cs)
  let ?d = "canonicalize (ct_document c)"
  from Cons.prems(2) obtain st1 where c: "merge_contribution jt (n, c) st = Inr st1"
    and r: "res_fold (merge_contribution jt) (enumerate (Suc n) cs) st1 = Inr st'"
    by (auto simp: res_bind_eq_Inr)
  from c obtain owner where d: "merge_document jt owner ?d st = Inr st1"
    by (auto simp: merge_contribution_def Let_def split: if_splits)
  note one = merge_document_step [OF Cons.prems(1) canonicalize_unique d]
  have at: "path_at (ms_paths st1) p f = opt_or (path_at (ms_paths st) p f) (document_path ?d p f)"
    and able: "document_path ?d p f = Some v \<Longrightarrow> mergeable f v (path_at (ms_paths st) p f)"
    and comp: "comp_at (ms_components st1) ns k =
      opt_or (comp_at (ms_components st) ns k) (document_component ?d ns k)" for p f v ns k
    using one by simp_all
  have "state_ok st1" using one by blast
  note rest = Cons.IH [OF this r, unfolded at comp]
  have assoc: "opt_or (opt_or a b) c = opt_or a (opt_or b c)" for a b c :: "json option"
    by (simp add: opt_or_def split: option.split)
  have "agreeing f (path_at (ms_paths st) p f # map (\<lambda>d. document_path d p f)
      (map (\<lambda>c. canonicalize (ct_document c)) (c # cs)))" for p f
    unfolding list.map
    by (rule agreeing_step [OF able]) (use rest in blast)+
  with rest show ?case by (simp add: assoc)
qed

lemma insert_owned_get:
  assumes "bt_ok t" and "bt_ok m"
  shows "bt_ok (insert_owned m t)"
    and "bt_get (insert_owned m t) k = opt_or (map_option ov_value (bt_get m k)) (bt_get t k)"
  using bt_fold_map_get [OF assms(1), of m ov_value] assms(2)
  by (simp_all add: insert_owned_def bt_ok_def bt_keys_def)

lemma path_item_get: "path_ok ps \<Longrightarrow> json_get f (path_item_json ps) = item_at ps f"
  by (auto simp: path_item_json_def path_ok_def item_at_def insert_owned_get opt_or_def
      dest!: bt_get_dom split: option.split)

lemma fold_objects_get:
  assumes "bt_ok m"
  shows "bt_ok (fold (\<lambda>(k, v). bt_insert k (f v)) m [])"
    and "bt_get (fold (\<lambda>(k, v). bt_insert k (f v)) m []) k = map_option f (bt_get m k)"
  using bt_fold_map_get [of "[]" m f] assms by (simp_all add: bt_ok_def bt_keys_def)

lemma if_insert_get:
  assumes "bt_ok m"
  shows "bt_ok (if b then bt_insert k v m else m)"
    and "bt_get (if b then bt_insert k v m else m) k' =
      (if b \<and> k' = k then Some v else bt_get m k')"
  using assms by (simp_all add: bt_insert_ok bt_insert_get)

lemma materialize_fields:
  assumes "state_ok st" and "materialize_document title st = Inr doc"
  shows "json_get ''paths'' doc =
      Some (JObject (fold (\<lambda>(p, ps). bt_insert p (path_item_json ps)) (ms_paths st) []))"
    and "json_get ''info'' doc =
      Some (JObject (insert_owned (ms_info st) (bt_insert ''title'' (JString (trim title)) [])))"
    and "json_get ''components'' doc =
      (if ms_saw_components st
       then Some (JObject (insert_owned (ms_component_extensions st)
         (fold (\<lambda>(n, es). bt_insert n (JObject (map_owned_values es))) (ms_components st) [])))
       else None)"
proof -
  have top: "bt_ok (ms_top_level st)" "bt_get (ms_top_level st) ''info'' = None"
      "bt_get (ms_top_level st) ''components'' = None"
    using assms(1) unfolding state_ok_def by (simp_all add: map_of_eq_None_iff)
  let ?info = "JObject (insert_owned (ms_info st) (bt_insert ''title'' (JString (trim title)) []))"
  let ?paths = "JObject (fold (\<lambda>(p, ps). bt_insert p (path_item_json ps)) (ms_paths st) [])"
  let ?comps = "JObject (insert_owned (ms_component_extensions st)
    (fold (\<lambda>(n, es). bt_insert n (JObject (map_owned_values es))) (ms_components st) []))"
  from assms(2) obtain openapi where o: "ms_openapi st = Some openapi"
    by (auto simp: materialize_document_def ok_or_eq res_bind_eq_Inr)
  define d1 where "d1 = bt_insert ''openapi'' (ov_value openapi) []"
  define d2 where "d2 = bt_insert ''info'' ?info d1"
  define d3 where "d3 = insert_owned (ms_top_level st) d2"
  define d4 where "d4 = (if ms_saw_servers st
    then bt_insert ''servers'' (JArray (map ov_value (bt_values (ms_servers st)))) d3 else d3)"
  define d5 where "d5 = bt_insert ''paths'' ?paths d4"
  define d6 where "d6 = (if ms_saw_webhooks st
    then bt_insert ''webhooks'' (JObject (map_owned_values (ms_webhooks st))) d5 else d5)"
  define d7 where "d7 = (if ms_saw_components st then bt_insert ''components'' ?comps d6 else d6)"
  define d8 where "d8 = (if ms_saw_security st
    then bt_insert ''security'' (JArray (bt_values (ms_security st))) d7 else d7)"
  define d9 where "d9 = (if ms_saw_tags st
    then bt_insert ''tags'' (JArray (map ov_value (bt_values (ms_tags st)))) d8 else d8)"
  have doc: "doc = JObject d9"
    using assms(2) unfolding materialize_document_def o ok_or_simps res_bind_simps Let_def
      d9_def d8_def d7_def d6_def d5_def d4_def d3_def d2_def d1_def by simp
  have ok1: "bt_ok d1" unfolding d1_def by (rule bt_insert_ok [OF bt_empty_ok])
  have ok2: "bt_ok d2" unfolding d2_def by (rule bt_insert_ok [OF ok1])
  have ok3: "bt_ok d3" unfolding d3_def by (rule insert_owned_get(1) [OF ok2 top(1)])
  have ok4: "bt_ok d4" unfolding d4_def by (rule if_insert_get(1) [OF ok3])
  have ok5: "bt_ok d5" unfolding d5_def by (rule bt_insert_ok [OF ok4])
  have ok6: "bt_ok d6" unfolding d6_def by (rule if_insert_get(1) [OF ok5])
  have ok7: "bt_ok d7" unfolding d7_def by (rule if_insert_get(1) [OF ok6])
  have ok8: "bt_ok d8" unfolding d8_def by (rule if_insert_get(1) [OF ok7])
  note ok = ok1 ok2 ok3 ok4 ok5 ok6 ok7 ok8
  have g9: "k \<noteq> ''tags'' \<Longrightarrow> bt_get d9 k = bt_get d8 k" for k
    unfolding d9_def if_insert_get(2) [OF ok8] by simp
  have g8: "k \<noteq> ''security'' \<Longrightarrow> bt_get d8 k = bt_get d7 k" for k
    unfolding d8_def if_insert_get(2) [OF ok7] by simp
  have g7: "bt_get d7 k = (if ms_saw_components st \<and> k = ''components'' then Some ?comps else bt_get d6 k)" for k
    unfolding d7_def if_insert_get(2) [OF ok6] by simp
  have g6: "k \<noteq> ''webhooks'' \<Longrightarrow> bt_get d6 k = bt_get d5 k" for k
    unfolding d6_def if_insert_get(2) [OF ok5] by simp
  have g5: "bt_get d5 k = (if k = ''paths'' then Some ?paths else bt_get d4 k)" for k
    unfolding d5_def bt_insert_get [OF ok4] by simp
  have g4: "k \<noteq> ''servers'' \<Longrightarrow> bt_get d4 k = bt_get d3 k" for k
    unfolding d4_def if_insert_get(2) [OF ok3] by simp
  have g3: "bt_get d3 k = opt_or (map_option ov_value (bt_get (ms_top_level st) k)) (bt_get d2 k)" for k
    unfolding d3_def by (rule insert_owned_get(2) [OF ok2 top(1)])
  have g2: "bt_get d2 k = (if k = ''info'' then Some ?info else bt_get d1 k)" for k
    unfolding d2_def bt_insert_get [OF ok1] by simp
  note get = g9 g8 g7 g6 g5 g4 g3 g2
  have d1: "bt_get d1 ''components'' = None" by (simp add: d1_def)
  show "json_get ''paths'' doc = Some ?paths" by (simp add: doc get)
  show "json_get ''info'' doc = Some ?info" by (simp add: doc get top)
  show "json_get ''components'' doc = (if ms_saw_components st then Some ?comps else None)"
    by (simp add: doc get top d1)
qed

lemma materialize_lookup:
  assumes "state_ok st" and "materialize_document title st = Inr doc"
  shows "json_at [''paths'', p, f] doc = path_at (ms_paths st) p f"
    and "json_at [''info'', ''title''] doc = Some (JString (trim title))"
    and "ns \<in> set COMPONENT_NAMESPACES \<Longrightarrow>
      json_at [''components'', ns, n] doc = comp_at (ms_components st) ns n"
proof -
  note fld = materialize_fields [OF assms]
  have paths: "bt_ok (ms_paths st)" "\<And>p ps. bt_get (ms_paths st) p = Some ps \<Longrightarrow> path_ok ps"
    and comps: "bt_ok (ms_components st)" "bt_ok (ms_component_extensions st)"
    and ext: "\<forall>kv \<in> set (ms_component_extensions st). starts_with (fst kv) ''x-''"
    and info: "bt_ok (ms_info st)" "''title'' \<notin> fst ` set (ms_info st)"
    and saw: "ms_saw_components st \<or> ms_components st = []"
    using assms(1) unfolding state_ok_def paths_ok_def by simp_all
  show "json_at [''paths'', p, f] doc = path_at (ms_paths st) p f"
    using paths(2) [of p]
    by (cases "bt_get (ms_paths st) p")
      (simp_all add: fld(1) fold_objects_get(2) [OF paths(1)] path_at_def path_item_get)
  have "bt_get (ms_info st) ''title'' = None" using info(2) by (simp add: map_of_eq_None_iff)
  then show "json_at [''info'', ''title''] doc = Some (JString (trim title))"
    using insert_owned_get(2) [OF bt_insert_ok [OF bt_empty_ok] info(1), of "''title''"]
    by (simp add: fld(2) opt_or_def)
  show "json_at [''components'', ns, n] doc = comp_at (ms_components st) ns n"
    if "ns \<in> set COMPONENT_NAMESPACES"
  proof (cases "ms_saw_components st")
    case True
    have "bt_get (ms_component_extensions st) ns = None"
      using ext namespaces_no_extension [OF that] by (auto simp: map_of_eq_None_iff)
    then show ?thesis
      using insert_owned_get(2) [OF fold_objects_get(1) [OF comps(1)] comps(2), where k = ns]
      by (cases "bt_get (ms_components st) ns")
        (simp_all add: fld(3) True fold_objects_get(2) [OF comps(1)] comp_at_def opt_or_def
          map_owned_values_def bt_map_get)
  next
    case False
    with saw show ?thesis by (simp add: fld(3) comp_at_def)
  qed
qed

text \<open>C37: Merging is complete and exact. When the documents of several owners are combined, an
  entry of a path item of the result is the entry of the first document that has it; every
  operation (path and method) of a document is in the result unchanged and no other document
  declares it; two documents that declare the same other field of a path item say the same;
  every operation of the result comes from a document. A component of the result is the one of
  the first document that declares it, and the title is the given one, trimmed.\<close>

lemma merge_openapi_documents_exact:
  assumes "merge_openapi_documents json_text title cs = Inr doc"
  defines "docs \<equiv> map (\<lambda>c. canonicalize (ct_document c)) cs"
  shows "json_at [''paths'', p, f] doc = first_some (map (json_at [''paths'', p, f]) docs) \<and>
    (\<forall>i j u v. i < j \<and> j < length docs \<and> json_at [''paths'', p, f] (docs ! i) = Some u \<and>
       json_at [''paths'', p, f] (docs ! j) = Some v \<longrightarrow> f \<notin> set HTTP_METHODS \<and> u = v) \<and>
    (ns \<in> set COMPONENT_NAMESPACES \<longrightarrow>
       json_at [''components'', ns, n] doc = first_some (map (json_at [''components'', ns, n]) docs)) \<and>
    json_at [''info'', ''title''] doc = Some (JString (trim title))"
proof -
  from assms(1) obtain st where r: "res_fold (merge_contribution json_text) (enumerate 0 cs)
      merge_state_default = Inr st" and m: "materialize_document title st = Inr doc"
    by (auto simp: merge_openapi_documents_def res_bind_eq_Inr split: if_splits)
  have "state_ok merge_state_default"
    by (simp add: state_ok_def merge_state_default_def paths_ok_def)
  note all = merge_contributions [OF this r, folded docs_def]
  have start: "path_at (ms_paths merge_state_default) p f = None"
    "comp_at (ms_components merge_state_default) ns n = None" for p f ns n
    by (simp_all add: merge_state_default_def path_at_def comp_at_def)
  have dp: "(\<lambda>d. document_path d p f) = json_at [''paths'', p, f]" for p f
    by (rule ext) (simp add: document_path_def)
  have dc: "(\<lambda>d. document_component d ns n) = json_at [''components'', ns, n]"
    if "ns \<in> set COMPONENT_NAMESPACES" for ns n
    using that by (intro ext) (simp add: document_component_def)
  have ok: "state_ok st" using all by blast
  have "agreeing f (map (json_at [''paths'', p, f]) docs)"
    using all unfolding dp by (simp add: start agreeing_def)
  then have "\<forall>i j u v. i < j \<and> j < length docs \<and> json_at [''paths'', p, f] (docs ! i) = Some u \<and>
      json_at [''paths'', p, f] (docs ! j) = Some v \<longrightarrow> f \<notin> set HTTP_METHODS \<and> u = v"
    by (auto simp: agreeing_def sorted_wrt_iff_nth_less)
  moreover have "json_at [''paths'', p, f] doc = first_some (map (json_at [''paths'', p, f]) docs)"
    unfolding materialize_lookup(1) [OF ok m] using all unfolding dp by (simp add: start)
  moreover have "json_at [''components'', ns, n] doc = first_some (map (json_at [''components'', ns, n]) docs)"
    if ns: "ns \<in> set COMPONENT_NAMESPACES"
    unfolding materialize_lookup(3) [OF ok m ns] using all by (simp add: start dc [OF ns])
  ultimately show ?thesis using materialize_lookup(2) [OF ok m] by blast
qed

definition example_document :: "string \<Rightarrow> json \<Rightarrow> json" where
  "example_document method schema = JObject [(''openapi'', JString ''3.1.2''),
     (''info'', JObject [(''title'', JString ''t''), (''version'', JString ''1'')]),
     (''components'', JObject [(''schemas'', JObject [(''S'', schema)])]),
     (''paths'', JObject [(''/a'', JObject [(method, JObject [(''operationId'', JString method)])])])]"

definition example_contributions :: "contribution list" where
  "example_contributions = [contribution_new ''one'' (example_document ''get'' (JBool True)),
     contribution_new ''two'' (example_document ''put'' (JBool False))]"

lemma example_merges:
  "is_ok (merge_openapi_documents (\<lambda>_. []) ''All'' example_contributions)"
  by code_simp

lemma merge_openapi_documents_exact_witness:
  "\<exists>doc. merge_openapi_documents (\<lambda>_. []) ''All'' example_contributions = Inr doc \<and>
     json_at [''paths'', ''/a'', ''put''] doc = Some (JObject [(''operationId'', JString ''put'')])"
proof -
  obtain doc where doc: "merge_openapi_documents (\<lambda>_. []) ''All'' example_contributions = Inr doc"
    using example_merges by (auto simp: is_ok_iff)
  have "first_some (map (json_at [''paths'', ''/a'', ''put''])
      (map (\<lambda>c. canonicalize (ct_document c)) example_contributions)) =
    Some (JObject [(''operationId'', JString ''put'')])" by code_simp
  with merge_openapi_documents_exact [OF doc, of "''/a''" "''put''"] doc show ?thesis
    by (intro exI [of _ doc]) simp
qed

text \<open>The two documents declare different schemas under one name, and the merge takes the first.\<close>

lemma conflicting_components_accepted:
  "\<exists>doc. merge_openapi_documents (\<lambda>_. []) ''All'' example_contributions = Inr doc \<and>
     json_at [''components'', ''schemas'', ''S''] doc = Some (JBool True)"
proof -
  have "(case merge_openapi_documents (\<lambda>_. []) ''All'' example_contributions of
      Inr doc \<Rightarrow> json_at [''components'', ''schemas'', ''S''] doc = Some (JBool True) | Inl _ \<Rightarrow> False)"
    by code_simp
  then show ?thesis by (auto split: sum.splits)
qed

end
