(* ===== verification/Api_Assembly.thy ===== *)
theory Api_Assembly
  imports Route_Manifest Openapi_Inventory Openapi_Merge
begin

section \<open>Assemblies of several owners\<close>

text \<open>
  Models \<open>api_assembly.rs\<close> and the probes of \<open>health.rs\<close> of the bootstrap crate: an application
  contributes a router with its route manifest and OpenAPI document, a host collects the
  contributions of several owners and composes them into one profile. A router, a domain
  context injector and the text of JSON values belong to libraries: \<open>merge_router\<close> is
  \<open>Router::merge\<close>, \<^const>\<open>None\<close> where it panics. Log lines are left out. An error is the
  constructor of its message.
\<close>

subsection \<open>Readiness\<close>

type_synonym 'w readiness_check = "'w \<Rightarrow> 'w \<times> (string + unit)"

definition always_ready :: "'w readiness_check" where
  "always_ready w = (w, Inr ())"

fun composite_check :: "'w readiness_check list \<Rightarrow> 'w readiness_check" where
  "composite_check [] w = (w, Inr ())"
| "composite_check (c # cs) w =
     (case c w of (w', Inl e) \<Rightarrow> (w', Inl e) | (w', Inr _) \<Rightarrow> composite_check cs w')"

definition infra_public_path_prefixes :: "string list" where
  "infra_public_path_prefixes = [''/healthz'', ''/readyz'', ''/livez'', ''/metrics'']"

definition readiness_dependency_unavailable :: string where
  "readiness_dependency_unavailable =
     ''one or more dependencies are unavailable; see server logs for detail''"

definition healthz_handler :: "nat \<times> json" where
  "healthz_handler = (200, json_obj [(''status'', JString ''ok'')])"

definition livez_handler :: "nat \<times> json" where
  "livez_handler = healthz_handler"

definition readyz_handler :: "'w readiness_check option \<Rightarrow> 'w \<Rightarrow> 'w \<times> (nat \<times> json)" where
  "readyz_handler check w =
     (case check of
        None \<Rightarrow> (w, (503, json_obj [(''status'', JString ''not_ready''),
          (''detail'', JString (''readiness probe is not configured; wire WebFrameworkBuilder::readiness_check() ''
            @ ''or ServiceRouterConfig::with_always_ready()''))]))
      | Some check \<Rightarrow>
          (case check w of
             (w', Inr _) \<Rightarrow> (w', (200, json_obj [(''status'', JString ''ready'')]))
           | (w', Inl _) \<Rightarrow> (w', (503, json_obj [(''status'', JString ''not_ready''),
               (''detail'', JString readiness_dependency_unavailable)]))))"

text \<open>A composite passes where each probe passes in the world the previous ones leave.\<close>

fun all_pass :: "'w readiness_check list \<Rightarrow> 'w \<Rightarrow> bool" where
  "all_pass [] w \<longleftrightarrow> True"
| "all_pass (c # cs) w \<longleftrightarrow> is_ok (snd (c w)) \<and> all_pass cs (fst (c w))"

lemma composite_check_passes: "is_ok (snd (composite_check cs w)) \<longleftrightarrow> all_pass cs w"
  by (induction cs w rule: composite_check.induct) (auto split: prod.split sum.split)

lemma readyz_hides_detail:
  assumes "check w = (w', Inl e)" and "check' w = (w', Inl e')"
  shows "readyz_handler (Some check) w = readyz_handler (Some check') w"
  using assms by (simp add: readyz_handler_def)

subsection \<open>Contributions\<close>

record ('w, 'r, 'i) api_contribution =
  ac_owner :: string
  ac_router :: 'r
  ac_route_manifest :: manifest
  ac_openapi :: json
  ac_permission_catalog :: "string list"
  ac_injectors :: "'i list"
  ac_readiness_check :: "'w readiness_check"

datatype api_error =
    ManifestMerge manifest_error
  | SurfaceAuthInvalid string manifest_error
  | NoAuthoredDocument string
  | OwnedDocument ownership_error
  | AuthoredMerge string merge_error
  | Enrichment string ownership_error
  | EmptyApiOwner
  | BadApiOwner string
  | InvalidRoute string contract_error
  | InfrastructureRoute string string
  | RouteCollision string "string \<times> string" string string
  | OpenapiInventory string inventory_error
  | InventoriesDiffer string nat nat "inventory_entry list" "inventory_entry list"
  | OwnershipNoPaths string
  | OwnershipPathNotObject string string
  | OwnershipOperationNotObject string string string
  | WrongOperationOwner string string string
  | LacksApiAuthority string string string
  | BadApiAuthority string string string string
  | PermissionCatalogDiffers string
  | RouterPanic
  | NoContributions
  | OwnerSelectedTwice string
  | CombinedOpenapi merge_error
  | CombinedInventory inventory_error
  | CombinedInventoriesDiffer

text \<open>A \<open>BTreeSet\<close> of strings, as the vector collected from it.\<close>

definition btree_set :: "string list \<Rightarrow> string list" where
  "btree_set xs = sort (remdups xs)"

definition permission_catalog :: "http_route list \<Rightarrow> string list" where
  "permission_catalog routes = btree_set (concat (map (\<lambda>r.
     (case rt_required_permission r of Some p \<Rightarrow> [p] | None \<Rightarrow> [])
     @ (case rt_alternate_permissions r of Some ps \<Rightarrow> ps | None \<Rightarrow> [])) routes))"

definition infrastructure_paths :: "string list" where
  "infrastructure_paths = [''/healthz'', ''/livez'', ''/metrics'', ''/readyz'']"

definition validate_owner :: "string \<Rightarrow> api_error + unit" where
  "validate_owner owner =
     (if trim owner = [] then Inl EmptyApiOwner
      else if \<not> starts_with owner ''sdkwork-'' then Inl (BadApiOwner owner)
      else Inr ())"

definition collision_segment :: "string \<Rightarrow> string" where
  "collision_segment s =
     (if starts_with s ''{'' \<and> ends_with s ''}'' \<or> starts_with s '':'' \<or>
         starts_with s ''<'' \<and> ends_with s ''>''
      then ''{param}'' else s)"

definition collision_key :: "http_route \<Rightarrow> string \<times> string" where
  "collision_key r =
     (inventory_method_label (rt_method r),
      str_join ''/'' (map collision_segment (split_on (CHR ''/'') (normalize_route_path (rt_path r)))))"

fun validate_manifest_from ::
  "(string \<Rightarrow> json option) \<Rightarrow> string \<Rightarrow> (string \<times> string \<Rightarrow> string option) \<Rightarrow> manifest \<Rightarrow> api_error + unit"
where
  "validate_manifest_from parse owner seen [] = Inr ()"
| "validate_manifest_from parse owner seen (r # rs) =
     res_bind (map_err (InvalidRoute owner) (route_contract parse r)) (\<lambda>_.
     res_bind (map_err (InvalidRoute owner) (validate_log_retention r)) (\<lambda>_.
       let normalized = normalize_route_path (rt_path r); key = collision_key r in
       if normalized \<in> set infrastructure_paths then Inl (InfrastructureRoute owner normalized)
       else (case seen key of
               Some first_operation \<Rightarrow>
                 Inl (RouteCollision owner key first_operation (rt_operation_id r))
             | None \<Rightarrow> validate_manifest_from parse owner (seen(key \<mapsto> rt_operation_id r)) rs)))"

definition validate_manifest ::
  "(string \<Rightarrow> json option) \<Rightarrow> string \<Rightarrow> manifest \<Rightarrow> api_error + unit" where
  "validate_manifest parse owner routes = validate_manifest_from parse owner Map.empty routes"

definition validate_operation_ownership ::
  "string \<Rightarrow> string \<Rightarrow> string \<times> json \<Rightarrow> api_error + unit" where
  "validate_operation_ownership owner path mo =
     (case mo of (method, operation) \<Rightarrow>
        if method \<notin> set owned_methods then Inr ()
        else if \<not> is_object operation then Inl (OwnershipOperationNotObject owner (to_upper method) path)
        else if Option.bind (json_get owner_extension operation) as_str \<noteq> Some owner
        then Inl (WrongOperationOwner owner (to_upper method) path)
        else res_bind (ok_or (text_field api_authority_extension operation)
               (LacksApiAuthority owner (to_upper method) path)) (\<lambda>authority.
             if \<not> starts_with authority ''sdkwork-''
             then Inl (BadApiAuthority owner (to_upper method) path authority)
             else Inr ()))"

definition validate_openapi_ownership :: "string \<Rightarrow> json \<Rightarrow> api_error + unit" where
  "validate_openapi_ownership owner doc =
     res_bind (ok_or (Option.bind (json_get ''paths'' doc) as_object) (OwnershipNoPaths owner)) (\<lambda>paths.
       res_forall (\<lambda>(path, item).
         res_bind (ok_or (as_object item) (OwnershipPathNotObject owner path)) (\<lambda>entries.
           res_forall (validate_operation_ownership owner path) entries)) paths)"

definition difference_sample :: "inventory_entry list \<Rightarrow> inventory_entry list \<Rightarrow> inventory_entry list" where
  "difference_sample xs ys = take 10 (sort_inventory (filter (\<lambda>e. e \<notin> set ys) (remdups xs)))"

definition contribution_validate ::
  "(string \<Rightarrow> json option) \<Rightarrow> ('w, 'r, 'i) api_contribution \<Rightarrow> api_error + unit" where
  "contribution_validate parse c =
     (let owner = ac_owner c; routes = ac_route_manifest c in
      res_bind (validate_owner owner) (\<lambda>_.
      res_bind (validate_manifest parse owner routes) (\<lambda>_.
      let inventory = route_inventory_from_routes routes in
      res_bind (map_err (OpenapiInventory owner) (route_inventory_from_openapi (ac_openapi c)))
        (\<lambda>openapi_inventory.
          if inventory \<noteq> openapi_inventory
          then Inl (InventoriesDiffer owner (length inventory) (length openapi_inventory)
            (difference_sample inventory openapi_inventory)
            (difference_sample openapi_inventory inventory))
          else res_bind (validate_openapi_ownership owner (ac_openapi c)) (\<lambda>_.
            if ac_permission_catalog c \<noteq> permission_catalog routes
            then Inl (PermissionCatalogDiffers owner) else Inr ())))))"

subsection \<open>Manifests of a host\<close>

definition merge_route_manifest_mounts ::
  "string \<Rightarrow> manifest \<Rightarrow> manifest_mount list \<Rightarrow> api_error + manifest" where
  "merge_route_manifest_mounts owner base mounts =
     res_bind (map_err ManifestMerge (try_merge_mounts owner base mounts)) (\<lambda>composed.
     res_bind (map_err ManifestMerge (validate_includes_dependency_manifests composed mounts)) (\<lambda>_.
       Inr composed))"

definition finalize_host_route_manifest ::
  "(string \<Rightarrow> json option) \<Rightarrow> string \<Rightarrow> manifest \<Rightarrow> manifest_mount list \<Rightarrow> context_profile
     \<Rightarrow> string list \<Rightarrow> api_error + manifest" where
  "finalize_host_route_manifest parse owner composed mounts profile public_path_prefixes =
     res_bind (map_err ManifestMerge (validate_includes_dependency_manifests composed mounts)) (\<lambda>_.
     res_bind (map_err ManifestMerge (validate_public_path_prefixes composed public_path_prefixes)) (\<lambda>_.
     res_bind (map_err (SurfaceAuthInvalid owner)
       (validate_route_auth_for_surfaces (\<lambda>s. map_option operation_view_of (parse s)) composed profile))
       (\<lambda>_. Inr composed)))"

definition prepare_host_route_manifest ::
  "(string \<Rightarrow> json option) \<Rightarrow> string \<Rightarrow> manifest \<Rightarrow> manifest_mount list \<Rightarrow> context_profile
     \<Rightarrow> string list \<Rightarrow> api_error + manifest" where
  "prepare_host_route_manifest parse owner base mounts profile public_path_prefixes =
     res_bind (merge_route_manifest_mounts owner base mounts) (\<lambda>composed.
       finalize_host_route_manifest parse owner composed mounts profile public_path_prefixes)"

subsection \<open>Building a contribution\<close>

fun obj_remove :: "string \<Rightarrow> json \<Rightarrow> json" where
  "obj_remove k (JObject kvs) = JObject (AList.delete k kvs)"
| "obj_remove k j = j"

definition without_ownership :: "json \<Rightarrow> json" where
  "without_ownership j = obj_remove api_authority_extension (obj_remove owner_extension j)"

definition remove_document_scoped_ownership :: "json \<Rightarrow> json" where
  "remove_document_scoped_ownership doc = obj_modify ''info'' without_ownership (without_ownership doc)"

definition contribution_try_new ::
  "(string \<Rightarrow> json option) \<Rightarrow> string \<Rightarrow> 'r \<Rightarrow> manifest \<Rightarrow> json \<Rightarrow> string list \<Rightarrow> 'i list
     \<Rightarrow> 'w readiness_check \<Rightarrow> api_error + ('w, 'r, 'i) api_contribution" where
  "contribution_try_new parse owner router routes openapi catalog injectors check =
     res_bind (map_err (Enrichment owner) (enrich_owned_openapi_document parse openapi owner routes))
       (\<lambda>openapi.
         let c = \<lparr>ac_owner = owner, ac_router = router, ac_route_manifest = routes,
               ac_openapi = remove_document_scoped_ownership openapi,
               ac_permission_catalog = catalog, ac_injectors = injectors,
               ac_readiness_check = check\<rparr>
         in res_bind (contribution_validate parse c) (\<lambda>_. Inr c))"

definition contribution_from_manifest ::
  "(string \<Rightarrow> json option) \<Rightarrow> string \<Rightarrow> string \<Rightarrow> 'r \<Rightarrow> manifest \<Rightarrow> 'i list
     \<Rightarrow> 'w readiness_check \<Rightarrow> api_error + ('w, 'r, 'i) api_contribution" where
  "contribution_from_manifest parse owner title router routes injectors check =
     res_bind (map_err OwnedDocument (build_owned_openapi_document parse title owner routes)) (\<lambda>openapi.
       contribution_try_new parse owner router routes openapi (permission_catalog routes) injectors check)"

definition owned_document ::
  "(string \<Rightarrow> json option) \<Rightarrow> string \<Rightarrow> manifest \<Rightarrow> nat \<times> json \<Rightarrow> api_error + contribution" where
  "owned_document parse owner routes ij =
     (case ij of (index, doc) \<Rightarrow>
        res_bind (map_err OwnedDocument (enrich_owned_openapi_document parse doc owner routes)) (\<lambda>doc.
          Inr (contribution_new (owner @ ''-'' @ show_nat index) (remove_document_scoped_ownership doc))))"

definition contribution_from_openapi_documents ::
  "(string \<Rightarrow> json option) \<Rightarrow> (json \<Rightarrow> string) \<Rightarrow> string \<Rightarrow> string \<Rightarrow> 'r \<Rightarrow> manifest \<Rightarrow> json list
     \<Rightarrow> 'i list \<Rightarrow> 'w readiness_check \<Rightarrow> api_error + ('w, 'r, 'i) api_contribution" where
  "contribution_from_openapi_documents parse json_text owner title router routes documents injectors check =
     (if documents = [] then Inl (NoAuthoredDocument owner)
      else res_bind (res_map (owned_document parse owner routes) (enumerate 0 documents)) (\<lambda>owned_documents.
        res_bind (map_err (AuthoredMerge owner) (merge_openapi_documents json_text title owned_documents))
          (\<lambda>openapi. contribution_try_new parse owner router routes openapi
            (permission_catalog routes) injectors check)))"

definition merge_dependency_contribution ::
  "(string \<Rightarrow> json option) \<Rightarrow> ('r \<Rightarrow> 'r \<Rightarrow> 'r option) \<Rightarrow> ('w, 'r, 'i) api_contribution
     \<Rightarrow> ('w, 'r, 'i) api_contribution \<Rightarrow> api_error + ('w, 'r, 'i) api_contribution" where
  "merge_dependency_contribution parse merge_router c dependency =
     res_bind (merge_route_manifest_mounts (ac_owner c) (ac_route_manifest c)
         [\<lparr>mm_owner = ac_owner dependency, mm_routes = ac_route_manifest dependency\<rparr>]) (\<lambda>routes.
     res_bind (ok_or (merge_router (ac_router c) (ac_router dependency)) RouterPanic) (\<lambda>router.
     res_bind (validate_manifest parse (ac_owner c) routes) (\<lambda>_.
       Inr (c\<lparr>ac_route_manifest := routes, ac_router := router,
         ac_permission_catalog := permission_catalog routes,
         ac_injectors := ac_injectors c @ ac_injectors dependency,
         ac_readiness_check := composite_check [ac_readiness_check c, ac_readiness_check dependency]\<rparr>))))"

subsection \<open>Composition\<close>

record ('w, 'r, 'i) composed_assembly =
  ca_owners :: "string list"
  ca_router :: 'r
  ca_route_manifest :: manifest
  ca_openapi :: json
  ca_permission_catalog :: "string list"
  ca_injectors :: "'i list"
  ca_readiness_check :: "'w readiness_check"

text \<open>The loop over the contributions has collected owners and routers so far.\<close>

definition select_contribution ::
  "(string \<Rightarrow> json option) \<Rightarrow> ('r \<Rightarrow> 'r \<Rightarrow> 'r option) \<Rightarrow> ('w, 'r, 'i) api_contribution
     \<Rightarrow> string list \<times> 'r \<Rightarrow> api_error + string list \<times> 'r" where
  "select_contribution parse merge_router c st =
     (case st of (owners, router) \<Rightarrow>
        res_bind (contribution_validate parse c) (\<lambda>_.
          if ac_owner c \<in> set owners then Inl (OwnerSelectedTwice (ac_owner c))
          else res_bind (ok_or (merge_router router (ac_router c)) RouterPanic) (\<lambda>router.
            Inr (owners @ [ac_owner c], router))))"

definition compose_contributions ::
  "(string \<Rightarrow> json option) \<Rightarrow> (json \<Rightarrow> string) \<Rightarrow> ('r \<Rightarrow> 'r \<Rightarrow> 'r option) \<Rightarrow> 'r \<Rightarrow> string
     \<Rightarrow> ('w, 'r, 'i) api_contribution list \<Rightarrow> api_error + ('w, 'r, 'i) composed_assembly" where
  "compose_contributions parse json_text merge_router empty_router title cs =
     (if cs = [] then Inl NoContributions
      else res_bind (res_fold (select_contribution parse merge_router) cs ([], empty_router))
        (\<lambda>(owners, router).
          let routes = concat (map ac_route_manifest cs) in
          res_bind (validate_manifest parse ''combined API profile'' routes) (\<lambda>_.
          res_bind (map_err CombinedOpenapi (merge_openapi_documents json_text title
              (map (\<lambda>c. contribution_new (ac_owner c) (ac_openapi c)) cs))) (\<lambda>openapi.
          res_bind (map_err CombinedInventory (route_inventory_from_openapi openapi)) (\<lambda>inventory.
            if route_inventory_from_routes routes \<noteq> inventory then Inl CombinedInventoriesDiffer
            else Inr \<lparr>ca_owners = owners, ca_router = router, ca_route_manifest = routes,
              ca_openapi = openapi,
              ca_permission_catalog = btree_set (concat (map ac_permission_catalog cs)),
              ca_injectors = concat (map ac_injectors cs),
              ca_readiness_check = composite_check (map ac_readiness_check cs)\<rparr>)))))"

subsection \<open>Modules and their registry\<close>

record ('w, 'r, 'i) web_module =
  wm_owner :: string
  wm_title :: string
  wm_contributions :: "('w, 'r, 'i) api_contribution list"

definition module_new :: "string \<Rightarrow> string \<Rightarrow> ('w, 'r, 'i) web_module" where
  "module_new owner title = \<lparr>wm_owner = owner, wm_title = title, wm_contributions = []\<rparr>"

definition with_surface ::
  "('w, 'r, 'i) api_contribution \<Rightarrow> ('w, 'r, 'i) web_module \<Rightarrow> ('w, 'r, 'i) web_module" where
  "with_surface c m = m\<lparr>wm_contributions := wm_contributions m @ [c]\<rparr>"

definition with_surfaces ::
  "('w, 'r, 'i) api_contribution list \<Rightarrow> ('w, 'r, 'i) web_module \<Rightarrow> ('w, 'r, 'i) web_module" where
  "with_surfaces cs m = m\<lparr>wm_contributions := wm_contributions m @ cs\<rparr>"

definition module_from_contribution :: "('w, 'r, 'i) api_contribution \<Rightarrow> ('w, 'r, 'i) web_module" where
  "module_from_contribution c = with_surface c (module_new (ac_owner c) (ac_owner c))"

record ('w, 'r, 'i) module_registry =
  mr_modules :: "('w, 'r, 'i) web_module list"
  mr_registered_owners :: "string set"
  mr_ignored_duplicates :: "string list"

definition registry_new :: "('w, 'r, 'i) module_registry" where
  "registry_new = \<lparr>mr_modules = [], mr_registered_owners = {}, mr_ignored_duplicates = []\<rparr>"

definition add_module ::
  "('w, 'r, 'i) web_module \<Rightarrow> ('w, 'r, 'i) module_registry \<Rightarrow> ('w, 'r, 'i) module_registry" where
  "add_module m g =
     (if wm_owner m \<in> mr_registered_owners g
      then g\<lparr>mr_ignored_duplicates := mr_ignored_duplicates g @ [wm_owner m]\<rparr>
      else g\<lparr>mr_registered_owners := insert (wm_owner m) (mr_registered_owners g),
             mr_modules := mr_modules g @ [m]\<rparr>)"

definition add_modules ::
  "('w, 'r, 'i) web_module list \<Rightarrow> ('w, 'r, 'i) module_registry \<Rightarrow> ('w, 'r, 'i) module_registry" where
  "add_modules ms g = fold add_module ms g"

definition is_registered :: "string \<Rightarrow> ('w, 'r, 'i) module_registry \<Rightarrow> bool" where
  "is_registered owner g \<longleftrightarrow> owner \<in> mr_registered_owners g"

definition registry_owners :: "('w, 'r, 'i) module_registry \<Rightarrow> string list" where
  "registry_owners g = map wm_owner (mr_modules g)"

text \<open>The contributions of a module are mounted unless an earlier module brought their owner.\<close>

fun mount_contributions ::
  "string list \<Rightarrow> string list \<Rightarrow> ('w, 'r, 'i) api_contribution list
     \<Rightarrow> string list \<times> ('w, 'r, 'i) api_contribution list" where
  "mount_contributions mounted own [] = (mounted, [])"
| "mount_contributions mounted own (c # cs) =
     (if ac_owner c \<in> set mounted \<and> ac_owner c \<notin> set own
      then mount_contributions mounted own cs
      else (case mount_contributions (ac_owner c # mounted) (ac_owner c # own) cs of
              (mounted', cs') \<Rightarrow> (mounted', c # cs')))"

fun mount_modules ::
  "string list \<Rightarrow> ('w, 'r, 'i) web_module list \<Rightarrow> ('w, 'r, 'i) api_contribution list" where
  "mount_modules mounted [] = []"
| "mount_modules mounted (m # ms) =
     (case mount_contributions mounted [] (wm_contributions m) of
        (mounted', cs) \<Rightarrow> cs @ mount_modules mounted' ms)"

definition registry_try_compose ::
  "(string \<Rightarrow> json option) \<Rightarrow> (json \<Rightarrow> string) \<Rightarrow> ('r \<Rightarrow> 'r \<Rightarrow> 'r option) \<Rightarrow> 'r \<Rightarrow> string
     \<Rightarrow> ('w, 'r, 'i) module_registry \<Rightarrow> api_error + ('w, 'r, 'i) composed_assembly" where
  "registry_try_compose parse json_text merge_router empty_router title g =
     compose_contributions parse json_text merge_router empty_router title
       (mount_modules [] (mr_modules g))"

subsection \<open>What an inventory says of a document\<close>

definition operation_in :: "json \<Rightarrow> string \<Rightarrow> string \<Rightarrow> json \<Rightarrow> bool" where
  "operation_in doc p m j \<longleftrightarrow> (\<exists>paths item. json_get ''paths'' doc = Some (JObject paths) \<and>
     (p, JObject item) \<in> set paths \<and> (m, j) \<in> set item)"

definition inventory_methods :: "string list" where
  "inventory_methods = [''DELETE'', ''GET'', ''PATCH'', ''POST'', ''PUT'']"

text \<open>The operation \<open>j\<close> of a document is the route \<open>r\<close>.\<close>

definition operation_is_route :: "string \<Rightarrow> string \<Rightarrow> json \<Rightarrow> http_route \<Rightarrow> bool" where
  "operation_is_route p m j r \<longleftrightarrow>
     to_upper m = inventory_method_label (rt_method r)
   \<and> normalize_route_path p = normalize_route_path (rt_path r)
   \<and> json_get ''operationId'' j = Some (JString (rt_operation_id r))
   \<and> json_get api_surface_extension j =
       Some (JString (openapi_surface_label (infer_api_surface_from_path (rt_path r))))
   \<and> json_get auth_mode_extension j = Some (JString (auth_profile_label (rt_auth r)))"

lemma res_map_concat:
  assumes "res_map f xs = Inr yss"
  shows "e \<in> set (concat yss) \<longleftrightarrow> (\<exists>x \<in> set xs. \<exists>ys. f x = Inr ys \<and> e \<in> set ys)"
    and "x \<in> set xs \<Longrightarrow> \<exists>ys. f x = Inr ys"
  using assms by (induction xs arbitrary: yss) (auto simp: res_bind_eq_Inr)

text \<open>The row that the operation \<open>j\<close> at \<open>p\<close> and \<open>m\<close> contributes.\<close>

definition row_of :: "string \<Rightarrow> string \<Rightarrow> json \<Rightarrow> inventory_entry \<Rightarrow> bool" where
  "row_of p m j e \<longleftrightarrow> to_upper m \<in> set inventory_methods
     \<and> json_get ''operationId'' j = Some (JString (ie_operation_id e))
     \<and> json_get api_surface_extension j = Some (JString (ie_surface e))
     \<and> json_get auth_mode_extension j = Some (JString (ie_auth_profile e))
     \<and> ie_method e = to_upper m \<and> ie_normalized_path e = normalize_route_path p"

lemma text_field_Some:
  "text_field k j = Some s \<Longrightarrow> json_get k j = Some (JString s)"
  by (auto simp: text_field_def as_str_Some bind_eq_Some_conv opt_filter_def split: option.splits if_splits)

lemma inventory_row:
  assumes "inventory_operation p (m, j) = Inr es"
  shows "e \<in> set es \<longleftrightarrow> row_of p m j e"
proof (cases "to_upper m \<in> set inventory_methods")
  case False
  then have "es = []" using assms by (simp add: inventory_operation_def inventory_methods_def Let_def)
  with False show ?thesis by (simp add: row_of_def)
next
  case True
  then obtain op_id surface auth where
    f: "text_field ''operationId'' j = Some op_id" "text_field api_surface_extension j = Some surface"
      "text_field auth_mode_extension j = Some auth"
    and es: "es = [\<lparr>ie_surface = surface, ie_method = to_upper m,
      ie_normalized_path = normalize_route_path p, ie_operation_id = op_id, ie_auth_profile = auth\<rparr>]"
    using assms by (auto simp: inventory_operation_def inventory_methods_def Let_def res_bind_eq_Inr
        ok_or_eq split: if_splits)
  show ?thesis using True f [THEN text_field_Some]
    by (auto simp: es row_of_def)
qed

lemma inventory_path_rows:
  assumes "inventory_path (p, item) = Inr es"
  shows "\<exists>entries. item = JObject entries \<and> (\<forall>e. e \<in> set es \<longleftrightarrow> (\<exists>(m, j) \<in> set entries. row_of p m j e))"
proof -
  from assms obtain entries ess where i: "item = JObject entries"
    and ess: "res_map (inventory_operation p) entries = Inr ess" and es: "es = concat ess"
    by (auto simp: inventory_path_def res_bind_eq_Inr as_object_Some split: option.splits)
  have "e \<in> set es \<longleftrightarrow> (\<exists>(m, j) \<in> set entries. row_of p m j e)" for e
  proof -
    have "(\<exists>ys. inventory_operation p mj = Inr ys \<and> e \<in> set ys) \<longleftrightarrow> (case mj of (m, j) \<Rightarrow> row_of p m j e)"
      if mj: "mj \<in> set entries" for mj
    proof -
      obtain m j where e: "mj = (m, j)" by (cases mj)
      obtain ys where "inventory_operation p (m, j) = Inr ys"
        using res_map_concat(2) [OF ess mj] by (auto simp: e)
      then show ?thesis using inventory_row [of p m j ys] by (simp add: e)
    qed
    then show ?thesis unfolding es res_map_concat(1) [OF ess] by (rule bex_cong [OF refl])
  qed
  with i show ?thesis by blast
qed

lemma inventory_rows:
  assumes "route_inventory_from_openapi doc = Inr es"
  shows "e \<in> set es \<longleftrightarrow> (\<exists>p m j. operation_in doc p m j \<and> row_of p m j e)"
proof -
  from assms obtain paths ess where paths: "json_get ''paths'' doc = Some (JObject paths)"
    and ess: "res_map inventory_path paths = Inr ess" and es: "es = sort_inventory (concat ess)"
    by (auto simp: route_inventory_from_openapi_def as_object_Some res_bind_eq_Inr bind_eq_Some_conv
        split: option.splits)
  have rows: "(\<exists>ys. inventory_path pi = Inr ys \<and> e \<in> set ys) \<longleftrightarrow>
      (\<exists>entries. snd pi = JObject entries \<and> (\<exists>(m, j) \<in> set entries. row_of (fst pi) m j e))"
    if pi: "pi \<in> set paths" for pi
  proof -
    obtain ys where ys: "inventory_path (fst pi, snd pi) = Inr ys"
      using res_map_concat(2) [OF ess pi] by auto
    from inventory_path_rows [OF this] obtain entries where "snd pi = JObject entries"
      and e: "\<And>e. e \<in> set ys \<longleftrightarrow> (\<exists>(m, j) \<in> set entries. row_of (fst pi) m j e)" by blast
    moreover have "inventory_path pi = Inr ys" using ys by simp
    ultimately show ?thesis by (simp add: e)
  qed
  have "e \<in> set es \<longleftrightarrow> (\<exists>pi \<in> set paths. \<exists>ys. inventory_path pi = Inr ys \<and> e \<in> set ys)"
    using res_map_concat(1) [OF ess] by (simp add: es sort_inventory_def)
  also have "\<dots> \<longleftrightarrow> (\<exists>pi \<in> set paths. \<exists>entries. snd pi = JObject entries \<and>
      (\<exists>(m, j) \<in> set entries. row_of (fst pi) m j e))"
    using rows by (rule bex_cong [OF refl])
  also have "\<dots> \<longleftrightarrow> (\<exists>p m j. operation_in doc p m j \<and> row_of p m j e)"
    unfolding operation_in_def paths by force
  finally show ?thesis .
qed

lemma row_of_route: "row_of p m j (entry_from_route r) \<longleftrightarrow> operation_is_route p m j r"
proof -
  have "inventory_method_label (rt_method r) \<in> set inventory_methods"
    by (cases "rt_method r") (simp_all add: inventory_methods_def)
  then show ?thesis by (auto simp: row_of_def operation_is_route_def entry_from_route_def)
qed

lemma operation_row:
  assumes "route_inventory_from_openapi doc = Inr es" and "operation_in doc p m j"
    and "to_upper m \<in> set inventory_methods"
  shows "\<exists>e. row_of p m j e"
proof -
  from assms(1) obtain paths ess where paths: "json_get ''paths'' doc = Some (JObject paths)"
    and ess: "res_map inventory_path paths = Inr ess"
    by (auto simp: route_inventory_from_openapi_def as_object_Some res_bind_eq_Inr bind_eq_Some_conv
        split: option.splits)
  with assms(2) obtain item where "(p, JObject item) \<in> set paths" "(m, j) \<in> set item"
    by (auto simp: operation_in_def)
  then obtain rows where "inventory_path (p, JObject item) = Inr rows"
    using res_map_concat(2) [OF ess] by blast
  then obtain rss where rss: "res_map (inventory_operation p) item = Inr rss"
    by (auto simp: inventory_path_def res_bind_eq_Inr)
  obtain rs where rs: "inventory_operation p (m, j) = Inr rs"
    using res_map_concat(2) [OF rss \<open>(m, j) \<in> set item\<close>] ..
  have "rs \<noteq> []"
  proof
    assume "rs = []"
    with rs assms(3) show False
      by (simp add: inventory_operation_def inventory_methods_def Let_def res_bind_eq_Inr split: if_splits)
  qed
  with inventory_row [OF rs] show ?thesis by (cases rs) auto
qed

text \<open>A document whose inventory is that of a table publishes the table and, with the methods the
  inventory reads, nothing else.\<close>

definition publishes :: "json \<Rightarrow> http_route list \<Rightarrow> bool" where
  "publishes doc routes \<longleftrightarrow>
     (\<forall>r \<in> set routes. \<exists>p m j. operation_in doc p m j \<and> operation_is_route p m j r)
   \<and> (\<forall>p m j. operation_in doc p m j \<and> to_upper m \<in> set inventory_methods \<longrightarrow>
        (\<exists>r \<in> set routes. operation_is_route p m j r))"

lemma equal_inventories_publish:
  assumes "route_inventory_from_openapi doc = Inr (route_inventory_from_routes routes)"
  shows "publishes doc routes"
proof -
  have mem: "e \<in> set (route_inventory_from_routes routes) \<longleftrightarrow> e \<in> entry_from_route ` set routes" for e
    by (simp add: route_inventory_from_routes_def sort_inventory_def)
  have "\<exists>p m j. operation_in doc p m j \<and> operation_is_route p m j r" if "r \<in> set routes" for r
    using inventory_rows [OF assms, of "entry_from_route r"] that by (simp add: mem row_of_route)
  moreover have "\<exists>r \<in> set routes. operation_is_route p m j r"
    if op: "operation_in doc p m j" "to_upper m \<in> set inventory_methods" for p m j
  proof -
    obtain e where e: "row_of p m j e" using operation_row [OF assms op] ..
    with op(1) have "e \<in> set (route_inventory_from_routes routes)"
      unfolding inventory_rows [OF assms] by blast
    with e show ?thesis by (auto simp: mem row_of_route)
  qed
  ultimately show ?thesis by (simp add: publishes_def)
qed

subsection \<open>Composed profiles\<close>

lemma btree_set_facts: "set (btree_set xs) = set xs" "sorted (btree_set xs)" "distinct (btree_set xs)"
  by (simp_all add: btree_set_def)

lemma btree_set_eqI: "set xs = set ys \<Longrightarrow> btree_set xs = btree_set ys"
  by (rule sorted_distinct_set_unique) (simp_all add: btree_set_facts)

lemma validate_manifest_ok:
  assumes "validate_manifest_from parse owner seen rs = Inr ()"
  shows "distinct (map collision_key rs) \<and> (\<forall>r \<in> set rs. seen (collision_key r) = None) \<and>
     (\<forall>r \<in> set rs. route_contract parse r = Inr () \<and> validate_log_retention r = Inr ()
        \<and> normalize_route_path (rt_path r) \<notin> set infrastructure_paths)"
  using assms
proof (induction rs arbitrary: seen)
  case (Cons r rs)
  let ?k = "collision_key r"
  from Cons.prems have n: "seen ?k = None"
    and v: "validate_manifest_from parse owner (seen(?k \<mapsto> rt_operation_id r)) rs = Inr ()"
    and r: "route_contract parse r = Inr ()" "validate_log_retention r = Inr ()"
      "normalize_route_path (rt_path r) \<notin> set infrastructure_paths"
    by (simp_all add: Let_def res_bind_eq_Inr split: if_splits option.splits)
  note ih = Cons.IH [OF v]
  then have q: "\<forall>q \<in> set rs. collision_key q \<noteq> ?k \<and> seen (collision_key q) = None"
    by (auto split: if_splits)
  then have "?k \<notin> collision_key ` set rs" by force
  then show ?case using n r ih q by simp
qed simp

lemma contribution_validateD:
  assumes "contribution_validate parse c = Inr ()"
  shows "trim (ac_owner c) \<noteq> []" "starts_with (ac_owner c) ''sdkwork-''"
    and "route_inventory_from_openapi (ac_openapi c) = Inr (route_inventory_from_routes (ac_route_manifest c))"
    and "ac_permission_catalog c = permission_catalog (ac_route_manifest c)"
  using assms
  by (auto simp: contribution_validate_def validate_owner_def Let_def res_bind_eq_Inr split: if_splits)

lemma select_contributions_ok:
  assumes "res_fold (select_contribution parse merge_router) cs (owners, router) = Inr (owners', router')"
    and "distinct owners"
  shows "owners' = owners @ map ac_owner cs \<and> distinct owners' \<and>
    (\<forall>c \<in> set cs. contribution_validate parse c = Inr ())"
  using assms
proof (induction cs arbitrary: owners router)
  case (Cons c cs)
  from Cons.prems(1) obtain st where st: "select_contribution parse merge_router c (owners, router) = Inr st"
    and r: "res_fold (select_contribution parse merge_router) cs st = Inr (owners', router')"
    by (auto simp: res_bind_eq_Inr)
  from st obtain router'' where v: "contribution_validate parse c = Inr ()"
    and n: "ac_owner c \<notin> set owners" and st': "st = (owners @ [ac_owner c], router'')"
    by (auto simp: select_contribution_def res_bind_eq_Inr split: if_splits)
  have "distinct (owners @ [ac_owner c])" using Cons.prems(2) n by simp
  from Cons.IH [OF r [unfolded st'] this] v show ?case by fastforce
qed simp

definition route_permissions :: "http_route \<Rightarrow> string set" where
  "route_permissions r = set_option (rt_required_permission r)
     \<union> (\<Union>ps \<in> set_option (rt_alternate_permissions r). set ps)"

lemma permission_catalog_set: "set (permission_catalog rs) = (\<Union>r \<in> set rs. route_permissions r)"
  by (auto simp: permission_catalog_def btree_set_facts route_permissions_def split: option.splits)

text \<open>C40: A host that composes the contributions of several owners gets a profile in which what is
  published is what is enforced: the owners are distinct, carry the prefix of the product and are
  in the order of selection; the routes are those of the contributions, no two of them share a
  method and a template and none is an infrastructure path; every route is an operation of the
  merged document with its surface, operation id and authentication profile; every operation of
  the merged document with one of the five methods a route can have (get, post, put, patch,
  delete, in any case) is such a route, while head, options and trace operations are kept as the
  contributions publish them, without a route (\<open>head_operation_without_route\<close>); the catalog holds
  exactly the permissions that the routes require or accept; and the profile is ready exactly
  when every contribution is.\<close>

theorem composed_profile_agrees:
  assumes "compose_contributions parse json_text merge_router empty_router title cs = Inr a"
  shows "ca_owners a = map ac_owner cs \<and> distinct (ca_owners a)
   \<and> (\<forall>c \<in> set cs. trim (ac_owner c) \<noteq> [] \<and> starts_with (ac_owner c) ''sdkwork-'')
   \<and> ca_route_manifest a = concat (map ac_route_manifest cs)
   \<and> distinct (map collision_key (ca_route_manifest a))
   \<and> (\<forall>r \<in> set (ca_route_manifest a). normalize_route_path (rt_path r) \<notin> set infrastructure_paths)
   \<and> publishes (ca_openapi a) (ca_route_manifest a)
   \<and> set (ca_permission_catalog a) = (\<Union>r \<in> set (ca_route_manifest a). route_permissions r)
   \<and> (\<forall>w. is_ok (snd (ca_readiness_check a w)) \<longleftrightarrow> all_pass (map ac_readiness_check cs) w)"
proof -
  from assms obtain owners router where
    s: "res_fold (select_contribution parse merge_router) cs ([], empty_router) = Inr (owners, router)"
    and v: "validate_manifest parse ''combined API profile'' (concat (map ac_route_manifest cs)) = Inr ()"
    and i: "route_inventory_from_openapi (ca_openapi a) =
      Inr (route_inventory_from_routes (concat (map ac_route_manifest cs)))"
    and a: "ca_owners a = owners" "ca_route_manifest a = concat (map ac_route_manifest cs)"
      "ca_permission_catalog a = btree_set (concat (map ac_permission_catalog cs))"
      "ca_readiness_check a = composite_check (map ac_readiness_check cs)"
    by (auto simp: compose_contributions_def Let_def res_bind_eq_Inr split: if_splits prod.splits)
  have sel: "owners = map ac_owner cs" "distinct owners"
    using select_contributions_ok [OF s] by auto
  have val: "contribution_validate parse c = Inr ()" if "c \<in> set cs" for c
    using select_contributions_ok [OF s] that by simp
  have "set (ca_permission_catalog a) = (\<Union>c \<in> set cs. set (ac_permission_catalog c))"
    by (simp add: a btree_set_facts)
  also have "\<dots> = (\<Union>c \<in> set cs. set (permission_catalog (ac_route_manifest c)))"
    using contribution_validateD(4) [OF val] by simp
  also have "\<dots> = (\<Union>r \<in> set (ca_route_manifest a). route_permissions r)"
    by (simp add: a permission_catalog_set)
  finally have "set (ca_permission_catalog a) = (\<Union>r \<in> set (ca_route_manifest a). route_permissions r)" .
  moreover have "distinct (map collision_key (ca_route_manifest a))"
    "\<forall>r \<in> set (ca_route_manifest a). normalize_route_path (rt_path r) \<notin> set infrastructure_paths"
    using validate_manifest_ok [OF v [unfolded validate_manifest_def]] unfolding a(2) by blast+
  moreover have "publishes (ca_openapi a) (ca_route_manifest a)"
    using i unfolding a(2) by (rule equal_inventories_publish)
  moreover have "\<forall>c \<in> set cs. trim (ac_owner c) \<noteq> [] \<and> starts_with (ac_owner c) ''sdkwork-''"
    using contribution_validateD(1,2) [OF val] by blast
  ultimately show ?thesis using sel by (simp add: a composite_check_passes)
qed

definition example_contribution :: "string \<Rightarrow> string \<Rightarrow> string \<Rightarrow> api_error + (nat, nat, nat) api_contribution"
where
  "example_contribution owner path operation =
     contribution_try_new (\<lambda>_. None) owner 0 [route_dual_token Get path ''Users'' operation]
       (json_obj [(''openapi'', JString ''3.1.0''), (''info'', json_obj [(''title'', JString ''Users''), (''version'', JString ''1'')]),
         (''paths'', json_obj [(path, json_obj [(''get'',
            json_obj [(''operationId'', JString operation)])])])])
       [] [7] always_ready"

lemma example_contributions_compose:
  "(case example_contribution ''sdkwork-a'' ''/app/v3/api/users'' ''users.list'' of
     Inr c \<Rightarrow> (case example_contribution ''sdkwork-b'' ''/app/v3/api/notes/{id}'' ''notes.get'' of
       Inr d \<Rightarrow> is_ok (compose_contributions (\<lambda>_. None) (\<lambda>_. []) (\<lambda>x y. Some (x + y)) 0 ''All'' [c, d])
     | Inl _ \<Rightarrow> False)
   | Inl _ \<Rightarrow> False)"
  by code_simp

theorem composed_profile_agrees_witness:
  "\<exists>c d a. example_contribution ''sdkwork-a'' ''/app/v3/api/users'' ''users.list'' = Inr c
    \<and> example_contribution ''sdkwork-b'' ''/app/v3/api/notes/{id}'' ''notes.get'' = Inr d
    \<and> compose_contributions (\<lambda>_. None) (\<lambda>_. []) (\<lambda>x y. Some (x + y)) 0 ''All'' [c, d] = Inr a
    \<and> publishes (ca_openapi a) (ac_route_manifest c @ ac_route_manifest d)"
proof -
  from example_contributions_compose obtain c d a where
    "example_contribution ''sdkwork-a'' ''/app/v3/api/users'' ''users.list'' = Inr c"
    "example_contribution ''sdkwork-b'' ''/app/v3/api/notes/{id}'' ''notes.get'' = Inr d"
    and a: "compose_contributions (\<lambda>_. None) (\<lambda>_. []) (\<lambda>x y. Some (x + y)) 0 ''All'' [c, d] = Inr a"
    by (auto simp: is_ok_iff split: sum.splits)
  moreover have "publishes (ca_openapi a) (ac_route_manifest c @ ac_route_manifest d)"
  proof -
    have "publishes (ca_openapi a) (ca_route_manifest a)"
      "ca_route_manifest a = concat (map ac_route_manifest [c, d])"
      using composed_profile_agrees [OF a] by blast+
    then show ?thesis by simp
  qed
  ultimately show ?thesis by blast
qed

subsection \<open>Dependencies of one owner\<close>

text \<open>The manifest of a dependency is merged, its operations are not: what
  \<open>merge_dependency_contribution\<close> returns for a dependency with routes fails the validation of
  every profile it is selected for.\<close>

lemma try_merge_mounts_appends:
  "try_merge_mounts owner base mounts = Inr composed \<Longrightarrow> composed = base @ concat (map mm_routes mounts)"
  by (auto simp: try_merge_mounts_def merge_mounts_ok mounts_routes_def res_bind_eq_Inr)

lemma merged_dependency_is_invalid:
  assumes "merge_dependency_contribution parse merge_router c d = Inr c'"
    and "contribution_validate parse c = Inr ()" and "ac_route_manifest d \<noteq> []"
  shows "contribution_validate parse c' \<noteq> Inr ()"
    and "compose_contributions parse json_text merge_router empty_router title (cs @ c' # cs') \<noteq> Inr a"
proof -
  have length: "length (route_inventory_from_routes rs) = length rs" for rs
    by (simp add: route_inventory_from_routes_def sort_inventory_def)
  have c': "ac_route_manifest c' = ac_route_manifest c @ ac_route_manifest d" "ac_openapi c' = ac_openapi c"
    using assms(1) by (auto simp: merge_dependency_contribution_def merge_route_manifest_mounts_def
        res_bind_eq_Inr dest: try_merge_mounts_appends)
  show invalid: "contribution_validate parse c' \<noteq> Inr ()"
  proof
    assume "contribution_validate parse c' = Inr ()"
    from contribution_validateD(3) [OF this] contribution_validateD(3) [OF assms(2)]
    have "route_inventory_from_routes (ac_route_manifest c @ ac_route_manifest d) =
        route_inventory_from_routes (ac_route_manifest c)" by (simp add: c')
    then have "length (ac_route_manifest c @ ac_route_manifest d) = length (ac_route_manifest c)"
      by (metis length)
    with assms(3) show False by simp
  qed
  show "compose_contributions parse json_text merge_router empty_router title (cs @ c' # cs') \<noteq> Inr a"
  proof
    assume "compose_contributions parse json_text merge_router empty_router title (cs @ c' # cs') = Inr a"
    then obtain owners router where "res_fold (select_contribution parse merge_router) (cs @ c' # cs')
        ([], empty_router) = Inr (owners, router)"
      by (auto simp: compose_contributions_def res_bind_eq_Inr split: if_splits)
    from select_contributions_ok [OF this] invalid show False by simp
  qed
qed

subsection \<open>Registries\<close>

text \<open>Registering modules in any order and any number of times keeps, for each owner, the module
  that was registered first: the owners in the registry are distinct, their modules are in the
  order of registration, and every registration is either kept or recorded as an ignored
  duplicate.\<close>

theorem first_registration_wins:
  "let g = add_modules ms registry_new in
     distinct (registry_owners g) \<and> mr_registered_owners g = set (map wm_owner ms)
   \<and> subseq (mr_modules g) ms
   \<and> (\<forall>m \<in> set (mr_modules g). find (\<lambda>m'. wm_owner m' = wm_owner m) ms = Some m)
   \<and> mset (map wm_owner ms) = mset (registry_owners g) + mset (mr_ignored_duplicates g)"
proof (induction ms rule: rev_induct)
  case Nil
  then show ?case by (simp add: add_modules_def registry_new_def registry_owners_def)
next
  case (snoc m ms)
  let ?g = "add_modules ms registry_new"
  have step: "add_modules (ms @ [m]) registry_new = add_module m ?g" by (simp add: add_modules_def)
  have "mset (map wm_owner ms) = mset (registry_owners ?g) + mset (mr_ignored_duplicates ?g)"
    using snoc by (simp add: Let_def)
  from arg_cong [OF this, of set_mset] have owners: "set (registry_owners ?g) \<subseteq> set (map wm_owner ms)"
    by auto
  have snoc_find: "find P (ms @ [m]) = opt_or (find P ms) (if P m then Some m else None)" for P
    by (induction ms) simp_all
  then have found: "find P (ms @ [m]) = Some x" if "find P ms = Some x" for P x
    using that by simp
  show ?case
  proof (cases "wm_owner m \<in> mr_registered_owners ?g")
    case True
    then show ?thesis using snoc found
      by (auto simp: step add_module_def Let_def registry_owners_def)
  next
    case False
    then have "wm_owner m \<notin> wm_owner ` set ms" using snoc by (simp add: Let_def)
    then have "find (\<lambda>m'. wm_owner m' = wm_owner m) ms = None"
      unfolding find_None_iff by (metis imageI)
    then have new: "find (\<lambda>m'. wm_owner m' = wm_owner m) (ms @ [m]) = Some m"
      by (simp add: snoc_find)
    show ?thesis using False snoc found new owners
      by (auto simp: step add_module_def Let_def registry_owners_def)
  qed
qed

theorem first_registration_wins_witness:
  "let g = add_modules [module_new ''a'' ''first'', module_new ''b'' ''other'', module_new ''a'' ''again'']
       (registry_new :: (nat, nat, nat) module_registry)
   in registry_owners g = [''a'', ''b''] \<and> mr_ignored_duplicates g = [''a''] \<and>
      find (\<lambda>m'. wm_owner m' = ''a'')
        [module_new ''a'' ''first'', module_new ''b'' ''other'', module_new ''a'' ''again''] =
        Some (module_new ''a'' ''first'' :: (nat, nat, nat) web_module)"
proof -
  let ?ms = "[module_new ''a'' ''first'', module_new ''b'' ''other'', module_new ''a'' ''again'']
      :: (nat, nat, nat) web_module list"
  let ?g = "add_modules ?ms registry_new"
  have modules: "mr_modules ?g = [module_new ''a'' ''first'', module_new ''b'' ''other'']"
    "mr_ignored_duplicates ?g = [''a'']"
    by (simp_all add: add_modules_def add_module_def registry_new_def module_new_def)
  then have "module_new ''a'' ''first'' \<in> set (mr_modules ?g)" by simp
  then have "find (\<lambda>m'. wm_owner m' = wm_owner (module_new ''a'' ''first'' :: (nat, nat, nat) web_module)) ?ms
      = Some (module_new ''a'' ''first'')"
    using first_registration_wins [of ?ms] unfolding Let_def by blast
  with modules show ?thesis by (simp add: Let_def registry_owners_def module_new_def)
qed

text \<open>The registry is documented to mount a contribution whose owner a module exposes twice on
  purpose. The composition refuses it.\<close>

lemma repeated_owner_rejected:
  assumes "wm_contributions m = [c, c']" and "ac_owner c = ac_owner c'"
  shows "registry_try_compose parse json_text merge_router empty_router title
      (add_module m registry_new) \<noteq> Inr a"
proof
  assume "registry_try_compose parse json_text merge_router empty_router title
      (add_module m registry_new) = Inr a"
  then have "compose_contributions parse json_text merge_router empty_router title [c, c'] = Inr a"
    by (simp add: registry_try_compose_def add_module_def registry_new_def assms)
  then obtain owners router where "res_fold (select_contribution parse merge_router) [c, c']
      ([], empty_router) = Inr (owners, router)"
    by (auto simp: compose_contributions_def res_bind_eq_Inr split: if_splits)
  from select_contributions_ok [OF this] assms(2) show False by auto
qed

text \<open>The inventory of a document leaves out the methods head, options and trace: a contribution may
  publish such an operation without a route for it, and the composed document keeps it.\<close>

definition head_contribution :: "api_error + (nat, nat, nat) api_contribution" where
  "head_contribution =
     contribution_try_new (\<lambda>_. None) ''sdkwork-a'' 0
       [route_dual_token Get ''/app/v3/api/users'' ''Users'' ''users.list'']
       (json_obj [(''openapi'', JString ''3.1.0''), (''info'', json_obj [(''title'', JString ''Users''), (''version'', JString ''1'')]),
         (''paths'', json_obj [(''/app/v3/api/users'', json_obj [
            (''get'', json_obj [(''operationId'', JString ''users.list'')]),
            (''head'', json_obj [(''operationId'', JString ''users.head'')])])])])
       [] [7] always_ready"

lemma head_operation_without_route:
  "\<exists>c a. head_contribution = Inr c
    \<and> compose_contributions (\<lambda>_. None) (\<lambda>_. []) (\<lambda>x y. Some (x + y)) 0 ''All'' [c] = Inr a
    \<and> json_get ''head'' (the (Option.bind (json_get ''paths'' (ca_openapi a)) (json_get ''/app/v3/api/users''))) \<noteq> None"
proof -
  have c: "is_ok head_contribution" by code_simp
  then obtain c where c: "head_contribution = Inr c" by (auto simp: is_ok_iff)
  have "case head_contribution of Inr c \<Rightarrow>
      (case compose_contributions (\<lambda>_. None) (\<lambda>_. []) (\<lambda>x y. Some (x + y)) 0 ''All'' [c] of
        Inr a \<Rightarrow> json_get ''head'' (the (Option.bind (json_get ''paths'' (ca_openapi a))
          (json_get ''/app/v3/api/users''))) \<noteq> None
      | Inl _ \<Rightarrow> False)
    | Inl _ \<Rightarrow> False" by code_simp
  with c show ?thesis by (auto split: sum.splits)
qed

end
