(* ===== verification/Sqlx_Stores.thy ===== *)
theory Sqlx_Stores
  imports Admission Idempotency_Store
begin

section \<open>Stores in a data base\<close>

text \<open>
  Models \<open>idempotency.rs\<close>, \<open>rate_limit.rs\<close> and \<open>purge.rs\<close> of the crate
  \<open>sdkwork-web-store-sqlx\<close>. A table is the function from its primary key to the row. The
  statements of the crate address one row each, or delete the expired ones; each is modelled as
  a function on the table, and a statement that fails is not modelled. The SQLite and the
  PostgreSQL variants differ in the syntax of their statements only. Columns are 64-bit
  integers, times whole seconds since the epoch.
\<close>

subsection \<open>Throttled deletion of expired rows\<close>

definition default_purge_interval_secs :: int where
  "default_purge_interval_secs = 60"

text \<open>\<open>last_purge\<close> is the shared counter; without contention its exchange succeeds.\<close>

definition maybe_purge :: "(int \<Rightarrow> 't \<Rightarrow> 't) \<Rightarrow> int \<Rightarrow> int \<times> 't \<Rightarrow> int \<times> 't" where
  "maybe_purge delete_expired now st =
     (case st of (last_purge, rows) \<Rightarrow>
        if now - last_purge < default_purge_interval_secs then (last_purge, rows)
        else (now, delete_expired now rows))"

definition ttl_epoch_secs :: "int \<Rightarrow> nat \<Rightarrow> int" where
  "ttl_epoch_secs now ttl = now + int (max (as_secs ttl) 1)"

subsection \<open>Idempotency records\<close>

record idem_row =
  dr_fingerprint :: string
  dr_response_status :: "int option"
  dr_response_body :: "string option"
  dr_content_type :: "string option"
  dr_created_at :: int
  dr_expires_at :: int

type_synonym idem_table = "string \<Rightarrow> idem_row option"

definition delete_expired_records :: "int \<Rightarrow> idem_table \<Rightarrow> idem_table" where
  "delete_expired_records now rows =
     (\<lambda>k. opt_filter (\<lambda>row. now < dr_expires_at row) (rows k))"

text \<open>The response a row holds; \<open>as u16\<close> keeps the low 16 bits of the status.\<close>

definition row_response :: "idem_row \<Rightarrow> idempotency_record option" where
  "row_response row = map_option (\<lambda>status. \<lparr>ir_status_code = nat (status mod 65536),
     ir_body = unwrap_or (dr_response_body row) [], ir_content_type = dr_content_type row\<rparr>)
     (dr_response_status row)"

text \<open>\<open>begin\<close> reads the row first; \<^const>\<open>None\<close> is to go on and insert it.\<close>

definition begin_read ::
  "string \<Rightarrow> string \<Rightarrow> idem_table \<Rightarrow> (web_error + begin_outcome) option" where
  "begin_read key fingerprint rows =
     map_option (\<lambda>row.
       if dr_fingerprint row \<noteq> fingerprint
       then Inl (conflict ''idempotency key was already used with a different request fingerprint'')
       else (case row_response row of
               Some r \<Rightarrow> Inr (Replay r)
             | None \<Rightarrow> Inl (conflict ''idempotency key is already in progress''))) (rows key)"

definition begin_insert ::
  "int \<Rightarrow> nat \<Rightarrow> string \<Rightarrow> string \<Rightarrow> idem_table \<Rightarrow> idem_table \<times> (web_error + begin_outcome)" where
  "begin_insert now ttl key fingerprint rows =
     (case rows key of
        Some _ \<Rightarrow> (rows, Inl (conflict ''idempotency key race condition - please retry''))
      | None \<Rightarrow> (rows(key \<mapsto> \<lparr>dr_fingerprint = fingerprint, dr_response_status = None,
            dr_response_body = None, dr_content_type = None, dr_created_at = now,
            dr_expires_at = ttl_epoch_secs now ttl\<rparr>), Inr Leader))"

definition begin_rows ::
  "int \<Rightarrow> nat \<Rightarrow> string \<Rightarrow> string \<Rightarrow> idem_table \<Rightarrow> idem_table \<times> (web_error + begin_outcome)" where
  "begin_rows now ttl key fingerprint rows =
     (case begin_read key fingerprint rows of
        Some outcome \<Rightarrow> (rows, outcome)
      | None \<Rightarrow> begin_insert now ttl key fingerprint rows)"

definition sqlx_begin ::
  "int \<Rightarrow> nat \<Rightarrow> string \<Rightarrow> string \<Rightarrow> int \<times> idem_table
     \<Rightarrow> (int \<times> idem_table) \<times> (web_error + begin_outcome)" where
  "sqlx_begin now ttl key fingerprint st =
     (case maybe_purge delete_expired_records now st of (last_purge, rows) \<Rightarrow>
        (case begin_rows now ttl key fingerprint rows of
           (rows, outcome) \<Rightarrow> ((last_purge, rows), outcome)))"

definition in_progress :: "string \<Rightarrow> idem_row \<Rightarrow> bool" where
  "in_progress fingerprint row \<longleftrightarrow> dr_fingerprint row = fingerprint \<and> dr_response_status row = None"

definition complete_rows ::
  "int \<Rightarrow> nat \<Rightarrow> string \<Rightarrow> string \<Rightarrow> idempotency_record \<Rightarrow> idem_table \<Rightarrow> idem_table \<times> (web_error + unit)"
where
  "complete_rows now ttl key fingerprint r rows =
     (case rows key of
        None \<Rightarrow> (rows, Inl (bad_request ''idempotency key was not reserved''))
      | Some row \<Rightarrow>
          if in_progress fingerprint row
          then (rows(key \<mapsto> row\<lparr>dr_response_status := Some (int (ir_status_code r)),
                  dr_response_body := Some (ir_body r), dr_content_type := ir_content_type r,
                  dr_expires_at := ttl_epoch_secs now ttl\<rparr>), Inr ())
          else (rows, if dr_fingerprint row \<noteq> fingerprint
            then Inl (conflict ''idempotency key fingerprint mismatch while completing response'')
            else Inr ()))"

definition sqlx_complete ::
  "int \<Rightarrow> nat \<Rightarrow> string \<Rightarrow> string \<Rightarrow> idempotency_record \<Rightarrow> int \<times> idem_table
     \<Rightarrow> (int \<times> idem_table) \<times> (web_error + unit)" where
  "sqlx_complete now ttl key fingerprint r st =
     (case st of (last_purge, rows) \<Rightarrow>
        (case complete_rows now ttl key fingerprint r rows of
           (rows, result) \<Rightarrow> ((last_purge, rows), result)))"

definition release_rows :: "string \<Rightarrow> string \<Rightarrow> idem_table \<Rightarrow> idem_table" where
  "release_rows key fingerprint rows =
     (case rows key of
        Some row \<Rightarrow> if in_progress fingerprint row then rows(key := None) else rows
      | None \<Rightarrow> rows)"

definition sqlx_release :: "string \<Rightarrow> string \<Rightarrow> int \<times> idem_table \<Rightarrow> int \<times> idem_table" where
  "sqlx_release key fingerprint st =
     (case st of (last_purge, rows) \<Rightarrow> (last_purge, release_rows key fingerprint rows))"

subsection \<open>The table keeps the contract\<close>

definition row_view :: "int \<times> idem_table \<Rightarrow> string \<Rightarrow> (string \<times> idempotency_record option) option" where
  "row_view st k = map_option (\<lambda>row. (dr_fingerprint row, row_response row)) (snd st k)"

definition stored_record :: "idempotency_record \<Rightarrow> idempotency_record" where
  "stored_record r = r\<lparr>ir_status_code := ir_status_code r mod 65536\<rparr>"

lemma row_response_None [simp]: "row_response row = None \<longleftrightarrow> dr_response_status row = None"
  by (simp add: row_response_def)

lemma purge_view: "row_view (maybe_purge delete_expired_records now st) \<subseteq>\<^sub>m row_view st"
  by (cases st) (auto simp: maybe_purge_def delete_expired_records_def row_view_def map_le_def
      opt_filter_def split: option.splits if_splits)

lemma purge_row:
  "snd (maybe_purge delete_expired_records now st) k = Some row \<Longrightarrow> snd st k = Some row"
  by (cases st) (auto simp: maybe_purge_def delete_expired_records_def opt_filter_def
      split: option.splits if_splits)

lemma sqlx_begin_view:
  assumes "sqlx_begin now ttl k f st = (st', out)"
  shows "case out of
      Inr Leader \<Rightarrow> row_view st' \<subseteq>\<^sub>m (row_view st)(k \<mapsto> (f, None)) \<and> row_view st' k = Some (f, None)
    | Inr (Replay r) \<Rightarrow> row_view st' \<subseteq>\<^sub>m row_view st \<and> row_view st k = Some (f, Some r)
    | Inl e \<Rightarrow> row_view st' \<subseteq>\<^sub>m row_view st \<and>
        (\<exists>f' r. row_view st k = Some (f', r) \<and> (f' \<noteq> f \<or> r = None))"
proof -
  obtain last_purge rows where p: "maybe_purge delete_expired_records now st = (last_purge, rows)"
    by fastforce
  have le: "row_view (last_purge, rows) \<subseteq>\<^sub>m row_view st" using purge_view [of now st] by (simp add: p)
  show ?thesis
  proof (cases "rows k")
    case None
    then have st': "out = Inr Leader"
      "row_view st' = (row_view (last_purge, rows))(k \<mapsto> (f, None))"
      using assms by (auto simp: sqlx_begin_def begin_rows_def p begin_read_def begin_insert_def row_view_def
          row_response_def fun_eq_iff)
    then show ?thesis using le by (auto intro: map_le_upd)
  next
    case (Some row)
    then have st': "st' = (last_purge, rows)" "begin_read k f rows = Some out"
      using assms by (auto simp: sqlx_begin_def begin_rows_def p begin_read_def)
    have "row_view st k = Some (dr_fingerprint row, row_response row)"
      using purge_row [of now st k row] Some by (simp add: p row_view_def)
    then show ?thesis using st' le Some
      by (auto simp: begin_read_def split: option.splits if_splits)
  qed
qed

lemma sqlx_complete_view:
  assumes "sqlx_complete now ttl k f r st = (st', out)"
  shows "case out of
      Inr _ \<Rightarrow> (row_view st' = (row_view st)(k \<mapsto> (f, Some (stored_record r))) \<or> st' = st)
        \<and> (\<exists>r'. row_view st k = Some (f, r'))
    | Inl _ \<Rightarrow> st' = st"
proof -
  obtain last_purge rows where st: "st = (last_purge, rows)" by (cases st)
  have status: "nat (int n mod 65536) = n mod 65536" for n
    by (metis nat_int of_nat_mod of_nat_numeral)
  show ?thesis
  proof (cases "rows k")
    case None
    then show ?thesis using assms by (auto simp: st sqlx_complete_def complete_rows_def)
  next
    case (Some row)
    then show ?thesis using assms
      by (auto simp: st sqlx_complete_def complete_rows_def in_progress_def row_view_def
          row_response_def stored_record_def fun_eq_iff unwrap_or_def status split: if_splits)
  qed
qed

interpretation sqlx_idem: idempotency_store
  "\<lambda>k f t. sqlx_begin (fst t) (snd t) k f" "\<lambda>k f r t. sqlx_complete (fst t) (snd t) k f r"
  "\<lambda>k f _. sqlx_release k f" row_view "\<lambda>_. True" stored_record
proof
  fix s s' :: "int \<times> idem_table" and k f r and t :: "int \<times> nat" and e
  show "sqlx_begin (fst t) (snd t) k f s = (s', Inr Leader) \<Longrightarrow>
      row_view s' \<subseteq>\<^sub>m (row_view s)(k \<mapsto> (f, None)) \<and> row_view s' k = Some (f, None)"
    using sqlx_begin_view [of "fst t" "snd t" k f s s' "Inr Leader"] by simp
  show "sqlx_begin (fst t) (snd t) k f s = (s', Inr (Replay r)) \<Longrightarrow>
      row_view s' \<subseteq>\<^sub>m row_view s \<and> row_view s k = Some (f, Some r)"
    using sqlx_begin_view [of "fst t" "snd t" k f s s' "Inr (Replay r)"] by simp
  show "sqlx_begin (fst t) (snd t) k f s = (s', Inl e) \<Longrightarrow>
      row_view s' \<subseteq>\<^sub>m row_view s \<and> (\<exists>f' r. row_view s k = Some (f', r) \<and> (f' \<noteq> f \<or> r = None))"
    using sqlx_begin_view [of "fst t" "snd t" k f s s' "Inl e"] by simp
  show "sqlx_complete (fst t) (snd t) k f r s = (s', Inr ()) \<Longrightarrow>
      (row_view s' \<subseteq>\<^sub>m (row_view s)(k \<mapsto> (f, Some (stored_record r))) \<or> row_view s' \<subseteq>\<^sub>m row_view s)
        \<and> (\<exists>r'. row_view s k = Some (f, r'))"
    using sqlx_complete_view [of "fst t" "snd t" k f r s s' "Inr ()"] by auto
  show "sqlx_complete (fst t) (snd t) k f r s = (s', Inl e) \<Longrightarrow> row_view s' \<subseteq>\<^sub>m row_view s"
    using sqlx_complete_view [of "fst t" "snd t" k f r s s' "Inl e"] by simp
  have release: "row_view (sqlx_release k f s) =
      (if row_view s k = Some (f, None) then (row_view s)(k := None) else row_view s)"
    by (cases s) (auto simp: sqlx_release_def release_rows_def in_progress_def row_view_def fun_eq_iff
        split: option.splits)
  show "row_view (sqlx_release k f s) \<subseteq>\<^sub>m row_view s" by (simp add: release map_le_def)
  show "row_view s k = Some (f, None) \<Longrightarrow> row_view (sqlx_release k f s) k = None"
    by (simp add: release)
qed simp_all

text \<open>Between two purges an expired row still counts: a reservation whose time to live has passed
  refuses its key, and an expired response is replayed.\<close>

lemma expired_row_still_used:
  assumes "rows k = Some row" and "dr_fingerprint row = f" and "dr_expires_at row \<le> now"
    and "now - last_purge < default_purge_interval_secs"
  shows "sqlx_begin now ttl k f (last_purge, rows) = ((last_purge, rows),
    (case row_response row of
       Some r \<Rightarrow> Inr (Replay r)
     | None \<Rightarrow> Inl (conflict ''idempotency key is already in progress'')))"
  using assms by (simp add: sqlx_begin_def begin_rows_def maybe_purge_def begin_read_def)

subsection \<open>Replicas that share the table\<close>

text \<open>
  The two statements of \<open>begin\<close> are no transaction, so requests of other replicas come between
  them. A state holds the table, the requests that have read no row and are about to insert,
  and the leaders at work, each with the time at which its reservation expires. A purge, by
  the clock of any replica, deletes every expired row, whoever works under it; its time
  labels the step. That the purges of one replica are throttled only leaves out steps.
\<close>

type_synonym replica_state =
  "idem_table \<times> (string \<times> string) multiset \<times> (string \<times> string \<times> int) multiset"

inductive replica_step :: "replica_state \<Rightarrow> int option \<Rightarrow> replica_state \<Rightarrow> bool" where
  reads: "begin_read k f rows = None \<Longrightarrow>
    replica_step (rows, W, L) None (rows, add_mset (k, f) W, L)"
| leads: "begin_insert now ttl k f rows = (rows', Inr Leader) \<Longrightarrow>
    replica_step (rows, add_mset (k, f) W, L) None (rows', W, add_mset (k, f, ttl_epoch_secs now ttl) L)"
| loses: "begin_insert now ttl k f rows = (rows', Inl e) \<Longrightarrow>
    replica_step (rows, add_mset (k, f) W, L) None (rows', W, L)"
| completes: "complete_rows now ttl k f r rows = (rows', res) \<Longrightarrow>
    replica_step (rows, W, add_mset (k, f, d) L) None (rows', W, L)"
| releases: "replica_step (rows, W, add_mset (k, f, d) L) None (release_rows k f rows, W, L)"
| purges: "replica_step (rows, W, L) (Some now) (delete_expired_records now rows, W, L)"

inductive_cases replica_stepE: "replica_step s label s'"

text \<open>A step is timely unless it is a purge at or past the expiry of a reservation whose leader
  is still at work.\<close>

definition timely :: "replica_state \<Rightarrow> replica_state \<Rightarrow> bool" where
  "timely s s' \<longleftrightarrow> (\<exists>label. replica_step s label s'
     \<and> (\<forall>now. label = Some now \<longrightarrow> (\<forall>(k, f, d) \<in># snd (snd s). now < d)))"

definition led :: "idem_table \<Rightarrow> (string \<times> string \<times> int) multiset \<Rightarrow> bool" where
  "led rows L \<longleftrightarrow> (\<forall>k f d. (k, f, d) \<in># L \<longrightarrow>
     (\<exists>row. rows k = Some row \<and> in_progress f row \<and> dr_expires_at row = d) \<and> count (image_mset fst L) k = 1)"

lemma led_key: "led rows L \<Longrightarrow> k \<in> fst ` set_mset L \<Longrightarrow> rows k \<noteq> None"
  unfolding led_def by fastforce

lemma led_add:
  assumes "led rows L" and "rows k = None" and "in_progress f row" and "dr_expires_at row = d"
  shows "led (rows(k \<mapsto> row)) (add_mset (k, f, d) L)"
proof -
  have k: "k \<notin> fst ` set_mset L" using led_key [OF assms(1), of k] assms(2) by auto
  then have "count (image_mset fst L) k = 0"
    by (metis count_eq_zero_iff set_image_mset)
  moreover have "\<forall>k' f' d'. (k', f', d') \<in># L \<longrightarrow> k' \<noteq> k" using k by force
  ultimately show ?thesis using assms(1,3,4) by (auto simp: led_def)
qed

lemma led_remove:
  assumes "led rows (add_mset (k, f, d) L)" and "\<And>k'. k' \<noteq> k \<Longrightarrow> rows' k' = rows k'"
  shows "led rows' L"
proof -
  have "count (image_mset fst (add_mset (k, f, d) L)) k = 1" using assms(1) by (auto simp: led_def)
  then have "count (image_mset fst L) k = 0" by simp
  then have "k \<notin># image_mset fst L" unfolding count_eq_zero_iff .
  then have other: "k' \<noteq> k" if "(k', f', d') \<in># L" for k' f' d'
    using that by (metis fst_conv imageI set_image_mset)
  show ?thesis unfolding led_def
  proof (intro allI impI)
    fix k' f' d' assume m: "(k', f', d') \<in># L"
    then have "(k', f', d') \<in># add_mset (k, f, d) L" by simp
    with assms(1) have "(\<exists>row. rows k' = Some row \<and> in_progress f' row \<and> dr_expires_at row = d')
        \<and> count (image_mset fst (add_mset (k, f, d) L)) k' = 1" unfolding led_def by blast
    then show "(\<exists>row. rows' k' = Some row \<and> in_progress f' row \<and> dr_expires_at row = d')
        \<and> count (image_mset fst L) k' = 1"
      using other [OF m] assms(2) [of k'] by simp
  qed
qed

lemma led_purge:
  assumes "led rows L" and "\<forall>(k, f, d) \<in># L. now < d"
  shows "led (delete_expired_records now rows) L"
  unfolding led_def
proof (intro allI impI)
  fix k f d assume m: "(k, f, d) \<in># L"
  with assms(1) obtain row where r: "rows k = Some row" "in_progress f row" "dr_expires_at row = d"
    and c: "count (image_mset fst L) k = 1" unfolding led_def by blast
  have "now < d" using assms(2) m by auto
  then have "delete_expired_records now rows k = Some row"
    using r by (simp add: delete_expired_records_def opt_filter_def)
  with r c show "(\<exists>row. delete_expired_records now rows k = Some row \<and> in_progress f row \<and> dr_expires_at row = d)
      \<and> count (image_mset fst L) k = 1" by blast
qed

lemma led_step: "timely (rows, W, L) (rows', W', L') \<Longrightarrow> led rows L \<Longrightarrow> led rows' L'"
  unfolding timely_def
proof (elim exE conjE replica_stepE, goal_cases)
  case (2 label now ttl k f rows1 rows2 W1 L1)
  then show ?case
    by (auto simp: begin_insert_def in_progress_def intro!: led_add split: option.splits)
next
  case (3 label now ttl k f rows1 rows2 e W1 L1)
  then show ?case by (auto simp: begin_insert_def split: option.splits)
next
  case (4 label now ttl k f r rows1 rows2 res W1 d L1)
  then have "led rows (add_mset (k, f, d) L')" by simp
  then show ?case
    by (rule led_remove) (use 4 in \<open>auto simp: complete_rows_def split: option.splits if_splits\<close>)
next
  case (5 label rows1 W1 k f d L1)
  then have "led rows (add_mset (k, f, d) L')" by simp
  then show ?case
    by (rule led_remove) (use 5 in \<open>auto simp: release_rows_def split: option.splits if_splits\<close>)
next
  case (6 label rows1 W1 L1 now)
  then show ?case by (auto intro: led_purge)
qed auto

lemma led_single:
  assumes "led rows L"
  shows "count (image_mset fst L) k \<le> 1"
proof (cases "k \<in># image_mset fst L")
  case True
  then obtain f d where "(k, f, d) \<in># L" by auto
  with assms show ?thesis by (auto simp: led_def)
next
  case False
  then show ?thesis by (simp only: count_eq_zero_iff [symmetric])
qed

text \<open>C17: However requests of several replicas interleave the two statements of \<open>begin\<close> with
  insertions, completions and releases of other requests and with purges, from whatever the
  table holds at the start, a key never has two leaders at work, and the row of a leader is
  its own reservation, still in progress and with the expiry it was made with. This assumes
  that no purge is made at or past the expiry of a reservation whose leader is still at
  work, that is, that requests end within the time to live of their reservation; the purge
  itself deletes every expired row and leaves every other.\<close>

theorem sqlx_single_leader:
  assumes "timely\<^sup>*\<^sup>* (rows\<^sub>0, {#}, {#}) (rows, W, L)"
  shows "count (image_mset fst L) k \<le> 1
    \<and> (\<forall>f d. (k, f, d) \<in># L \<longrightarrow>
        (\<exists>row. rows k = Some row \<and> in_progress f row \<and> dr_expires_at row = d))"
proof -
  have "led rows L" using assms
  proof (induction "(rows, W, L)" arbitrary: rows W L rule: rtranclp_induct)
    case base
    then show ?case by (simp add: led_def)
  next
    case (step y)
    obtain rows' W' L' where y: "y = (rows', W', L')" by (cases y)
    from step.hyps(3) [OF y] step.hyps(2) show ?case unfolding y by (rule led_step [rotated])
  qed
  then show ?thesis using led_single [of rows L k] by (auto simp: led_def)
qed

text \<open>Two requests have read no row; one leads, the other loses, and a purge in time leaves the
  leader its row.\<close>

lemma timely_plain: "replica_step s None s' \<Longrightarrow> timely s s'"
  by (auto simp: timely_def)

lemma race_for_key:
  defines "rows \<equiv> fst (begin_insert 7 0 ''k'' ''f'' Map.empty)"
  shows "timely\<^sup>*\<^sup>* (Map.empty, {#}, {#}) (rows, {#}, {#(''k'', ''f'', 8)#})"
    and "delete_expired_records 7 rows = rows" and "delete_expired_records 8 rows = Map.empty"
proof -
  have lead: "begin_insert 7 0 ''k'' ''f'' Map.empty = (rows, Inr Leader)"
    by (simp add: begin_insert_def rows_def)
  have d: "ttl_epoch_secs 7 0 = 8" by (simp add: ttl_epoch_secs_def as_secs_def)
  have lose: "begin_insert 8 0 ''k'' ''g'' rows = (rows, Inl (conflict ''idempotency key race condition - please retry''))"
    by (simp add: begin_insert_def rows_def)
  have free: "begin_read ''k'' f Map.empty = None" for f by (simp add: begin_read_def)
  have "timely\<^sup>*\<^sup>* (Map.empty, {#}, {#}) (Map.empty, {#(''k'', ''f''), (''k'', ''g'')#}, {#})"
    using replica_step.reads [OF free, of "{#}" "{#}" "''g''"]
      replica_step.reads [OF free, of "{#(''k'', ''g'')#}" "{#}" "''f''"]
    by (blast intro: timely_plain rtranclp.rtrancl_into_rtrancl)
  moreover have "timely\<^sup>*\<^sup>* (Map.empty, {#(''k'', ''f''), (''k'', ''g'')#}, {#}) (rows, {#}, {#(''k'', ''f'', 8)#})"
    using replica_step.leads [OF lead, of "{#(''k'', ''g'')#}" "{#}"]
      replica_step.loses [OF lose, of "{#}" "{#(''k'', ''f'', 8)#}"] unfolding d
    by (blast intro: timely_plain rtranclp.rtrancl_into_rtrancl)
  ultimately show "timely\<^sup>*\<^sup>* (Map.empty, {#}, {#}) (rows, {#}, {#(''k'', ''f'', 8)#})" by simp
  show "delete_expired_records 7 rows = rows" "delete_expired_records 8 rows = Map.empty"
    by (auto simp: delete_expired_records_def rows_def begin_insert_def d opt_filter_def fun_eq_iff)
qed

theorem sqlx_single_leader_witness:
  "\<exists>rows. timely\<^sup>*\<^sup>* (Map.empty, {#}, {#}) (rows, {#}, {#(''k'', ''f'', 8)#})
     \<and> (\<exists>row. rows ''k'' = Some row \<and> in_progress ''f'' row \<and> dr_expires_at row = 8)"
proof -
  let ?rows = "fst (begin_insert 7 0 ''k'' ''f'' Map.empty)"
  have "timely (?rows, {#}, {#(''k'', ''f'', 8)#}) (delete_expired_records 7 ?rows, {#}, {#(''k'', ''f'', 8)#})"
    unfolding timely_def by (intro exI [of _ "Some 7"]) (auto intro: replica_step.purges)
  with race_for_key(1) have run: "timely\<^sup>*\<^sup>* (Map.empty, {#}, {#}) (?rows, {#}, {#(''k'', ''f'', 8)#})"
    unfolding race_for_key(2) by (rule rtranclp.rtrancl_into_rtrancl)
  from sqlx_single_leader [OF run, of "''k''"] run show ?thesis by auto
qed

text \<open>The proviso is needed: nothing renews a reservation, so a purge at its expiry lets a second
  leader in while the first is still at work.\<close>

lemma overdue_leader_shares_key:
  "\<exists>rows L. (\<lambda>s s'. \<exists>label. replica_step s label s')\<^sup>*\<^sup>* (Map.empty, {#}, {#}) (rows, {#}, L)
     \<and> count (image_mset fst L) ''k'' = 2"
proof -
  note r = rtranclp.rtrancl_into_rtrancl
  let ?step = "\<lambda>s s'. \<exists>label. replica_step s label s'"
  let ?rows = "fst (begin_insert 7 0 ''k'' ''f'' Map.empty)"
  have lead: "begin_insert 8 0 ''k'' ''f'' Map.empty
      = (fst (begin_insert 8 0 ''k'' ''f'' Map.empty), Inr Leader)"
    by (simp add: begin_insert_def)
  have free: "begin_read ''k'' ''f'' Map.empty = None" by (simp add: begin_read_def)
  have a: "?step\<^sup>*\<^sup>* (Map.empty, {#}, {#}) (?rows, {#}, {#(''k'', ''f'', 8)#})"
    using race_for_key(1) by (rule rtranclp_mono [THEN predicate2D, rotated]) (auto simp: timely_def)
  have b: "?step (?rows, {#}, {#(''k'', ''f'', 8)#}) (Map.empty, {#}, {#(''k'', ''f'', 8)#})"
    using replica_step.purges [of ?rows "{#}" "{#(''k'', ''f'', 8)#}" 8] unfolding race_for_key(3) by blast
  have c: "?step (Map.empty, {#}, {#(''k'', ''f'', 8)#}) (Map.empty, {#(''k'', ''f'')#}, {#(''k'', ''f'', 8)#})"
    using replica_step.reads [OF free, of "{#}" "{#(''k'', ''f'', 8)#}"] by blast
  have d: "?step (Map.empty, {#(''k'', ''f'')#}, {#(''k'', ''f'', 8)#})
      (fst (begin_insert 8 0 ''k'' ''f'' Map.empty), {#},
       add_mset (''k'', ''f'', ttl_epoch_secs 8 0) {#(''k'', ''f'', 8)#})"
    using replica_step.leads [OF lead, of "{#}" "{#(''k'', ''f'', 8)#}"] by blast
  have "?step\<^sup>*\<^sup>* (Map.empty, {#}, {#}) (fst (begin_insert 8 0 ''k'' ''f'' Map.empty), {#},
       add_mset (''k'', ''f'', ttl_epoch_secs 8 0) {#(''k'', ''f'', 8)#})"
    by (rule r [where r = ?step, OF r [where r = ?step, OF r [where r = ?step, OF a b] c] d])
  then show ?thesis by (intro exI conjI) (assumption, simp)
qed

subsection \<open>Rate limits\<close>

record bucket_row =
  br_request_count :: int
  br_window_start :: int
  br_expires_at :: int

type_synonym bucket_table = "string \<Rightarrow> bucket_row option"

definition delete_expired_buckets :: "int \<Rightarrow> bucket_table \<Rightarrow> bucket_table" where
  "delete_expired_buckets now rows = (\<lambda>k. opt_filter (\<lambda>row. now < br_expires_at row) (rows k))"

text \<open>What a transaction decides on the row it has read: count and start of the window to write,
  \<^const>\<open>None\<close> to roll back.\<close>

definition rate_decide :: "nat \<Rightarrow> int \<Rightarrow> int \<Rightarrow> bucket_row option \<Rightarrow> (int \<times> int) option" where
  "rate_decide max_requests window_secs now row =
     Option.bind
       (case row of
          None \<Rightarrow> Some (1, now)
        | Some row \<Rightarrow>
            if window_secs \<le> now - br_window_start row then Some (1, now)
            else if int max_requests \<le> br_request_count row then None
            else Some (br_request_count row + 1, br_window_start row))
       (\<lambda>(next_count, window_start).
          if int max_requests < next_count then None else Some (next_count, window_start))"

definition rate_write :: "string \<Rightarrow> int \<times> int \<Rightarrow> int \<Rightarrow> bucket_table \<Rightarrow> bucket_table" where
  "rate_write key decision expires_at rows =
     rows(key \<mapsto> \<lparr>br_request_count = fst decision, br_window_start = snd decision,
       br_expires_at = expires_at\<rparr>)"

definition check_and_record_rows ::
  "int \<Rightarrow> string \<Rightarrow> nat \<Rightarrow> nat \<Rightarrow> bucket_table \<Rightarrow> bucket_table \<times> (web_error + unit)" where
  "check_and_record_rows now key max_requests window rows =
     (let window_secs = int (max (as_secs window) 1) in
      case rate_decide max_requests window_secs now (rows key) of
        None \<Rightarrow> (rows, Inl (rate_limit_exceeded ''rate limit exceeded'' (nat window_secs)))
      | Some decision \<Rightarrow> (rate_write key decision (ttl_epoch_secs now window) rows, Inr ()))"

definition sqlx_check_and_record ::
  "int \<Rightarrow> string \<Rightarrow> nat \<Rightarrow> nat \<Rightarrow> int \<times> bucket_table \<Rightarrow> (int \<times> bucket_table) \<times> (web_error + unit)"
where
  "sqlx_check_and_record now key max_requests window st =
     (case maybe_purge delete_expired_buckets now st of (last_purge, rows) \<Rightarrow>
        (case check_and_record_rows now key max_requests window rows of
           (rows, result) \<Rightarrow> ((last_purge, rows), result)))"

text \<open>When a table stands for the buckets of the in-memory store at a time: each row for the bucket
  of its key, with an expiry no earlier than the end of its window, and a missing row for a
  missing bucket or one whose window is over.\<close>

definition second :: nat where
  "second = 1000000000"

definition row_stands_for :: "nat \<Rightarrow> nat \<Rightarrow> bucket_row option \<Rightarrow> rate_bucket option \<Rightarrow> bool" where
  "row_stands_for window_secs now row bucket \<longleftrightarrow> (case row of
     Some row \<Rightarrow> \<exists>c s. br_request_count row = int c \<and> br_window_start row = int s
       \<and> bucket = Some \<lparr>rb_count = c, rb_window_start = s * second\<rparr>
       \<and> s \<le> now \<and> int (s + window_secs) \<le> br_expires_at row
   | None \<Rightarrow> (case bucket of
       None \<Rightarrow> True
     | Some b \<Rightarrow> window_secs * second \<le> now * second - rb_window_start b))"

definition stands_for :: "(string \<Rightarrow> nat) \<Rightarrow> nat \<Rightarrow> bucket_table \<Rightarrow> rate_state \<Rightarrow> bool" where
  "stands_for window_of now rows buckets \<longleftrightarrow> (\<forall>k. row_stands_for (window_of k) now (rows k) (buckets k))"

lemma stands_for_later:
  assumes "stands_for window_of now rows buckets" and "now \<le> later"
  shows "stands_for window_of later rows buckets"
  unfolding stands_for_def
proof
  fix k
  have "w * second \<le> later * second - b" if "w * second \<le> now * second - b" for w b
    using that assms(2) by (meson diff_le_mono le_trans mult_le_mono1)
  moreover have "row_stands_for (window_of k) now (rows k) (buckets k)"
    using assms(1) by (simp add: stands_for_def)
  ultimately show "row_stands_for (window_of k) later (rows k) (buckets k)"
    using assms(2) by (cases "rows k"; cases "buckets k") (auto simp: row_stands_for_def)
qed

lemma window_over:
  "w * second \<le> now * second - start * second \<longleftrightarrow> w \<le> now - start"
  by (simp add: second_def flip: diff_mult_distrib)

text \<open>A purge removes rows of windows that are over and no other.\<close>

lemma purge_stands_for:
  assumes "stands_for window_of now rows buckets"
    and "maybe_purge delete_expired_buckets (int now) (last_purge, rows) = (last_purge', rows')"
  shows "stands_for window_of now rows' buckets"
  unfolding stands_for_def
proof
  fix k
  have k: "row_stands_for (window_of k) now (rows k) (buckets k)"
    using assms(1) by (simp add: stands_for_def)
  have "rows' k = rows k \<or> (\<exists>row. rows k = Some row \<and> br_expires_at row \<le> int now \<and> rows' k = None)"
    using assms(2) by (cases "rows k")
      (auto simp: maybe_purge_def delete_expired_buckets_def opt_filter_def split: if_splits)
  then show "row_stands_for (window_of k) now (rows' k) (buckets k)"
  proof (elim disjE exE conjE)
    assume "rows' k = rows k"
    with k show ?thesis by simp
  next
    fix row assume r: "rows k = Some row" "br_expires_at row \<le> int now" "rows' k = None"
    from k r(1) obtain c s where b: "buckets k = Some \<lparr>rb_count = c, rb_window_start = s * second\<rparr>"
      and "int (s + window_of k) \<le> br_expires_at row"
      by (auto simp: row_stands_for_def)
    then have "window_of k \<le> now - s" using r(2) by linarith
    with b r(3) show ?thesis by (simp add: row_stands_for_def window_over)
  qed
qed

text \<open>One call on the table decides as the call on the buckets, and the results stand for each other.\<close>

lemma call_stands_for:
  assumes "stands_for window_of now rows buckets" and "0 < max_requests" and "0 < window_of key"
    and "check_and_record_rows (int now) key max_requests (window_of key * second) rows = (rows', res)"
  shows "\<exists>buckets'. mem_check_and_record (now * second) key max_requests (window_of key * second) buckets
      = (buckets', res) \<and> stands_for window_of now rows' buckets'"
proof -
  let ?w = "window_of key"
  have w: "max (as_secs (?w * second)) 1 = ?w" using assms(3) by (simp add: as_secs_def second_def)
  have k: "row_stands_for ?w now (rows key) (buckets key)" using assms(1) by (simp add: stands_for_def)
  have upd: "stands_for window_of now (rows(key \<mapsto> row)) (buckets(key \<mapsto> b))"
    if "row_stands_for ?w now (Some row) (Some b)" for row b
    using assms(1) that by (simp add: stands_for_def)
  have same: "stands_for window_of now rows (buckets(key \<mapsto> b))" if "buckets key = Some b" for b
    using assms(1) that by (simp add: map_upd_triv)
  consider (fresh) "rows key = None \<or> (\<exists>row. rows key = Some row \<and> int ?w \<le> int now - br_window_start row)"
    | (running) row where "rows key = Some row" "\<not> int ?w \<le> int now - br_window_start row"
    by (cases "rows key") auto
  then show ?thesis
  proof cases
    case fresh
    then have "rows' = rows(key \<mapsto> \<lparr>br_request_count = 1, br_window_start = int now,
        br_expires_at = int (now + ?w)\<rparr>)" "res = Inr ()"
      using assms(2,4) w
      by (auto simp: check_and_record_rows_def Let_def rate_decide_def rate_write_def ttl_epoch_secs_def)
    moreover have "mem_check_and_record (now * second) key max_requests (?w * second) buckets
        = (buckets(key \<mapsto> \<lparr>rb_count = 1, rb_window_start = now * second\<rparr>), Inr ())"
    proof (cases "buckets key")
      case None
      then show ?thesis using assms(2,3)
        by (simp add: mem_check_and_record_def Let_def unwrap_or_def second_def)
    next
      case (Some b)
      have "?w * second \<le> now * second - rb_window_start b"
        using fresh k Some assms(3) by (auto simp: row_stands_for_def window_over)
      with Some assms(2) show ?thesis
        by (simp add: mem_check_and_record_def Let_def unwrap_or_def)
    qed
    ultimately show ?thesis by (auto simp: row_stands_for_def intro!: upd)
  next
    case running
    with k obtain c s where row: "br_request_count row = int c" "br_window_start row = int s"
      "buckets key = Some \<lparr>rb_count = c, rb_window_start = s * second\<rparr>" "s \<le> now" "int (s + ?w) \<le> br_expires_at row"
      by (auto simp: row_stands_for_def)
    have n: "\<not> ?w \<le> now - s" using running(2) row(2) assms(3) by linarith
    show ?thesis
    proof (cases "max_requests \<le> c")
      case True
      then have "rows' = rows" "res = Inl (rate_limit_exceeded ''rate limit exceeded'' ?w)"
        using assms(4) w running row
        by (auto simp: check_and_record_rows_def Let_def rate_decide_def)
      moreover have "mem_check_and_record (now * second) key max_requests (?w * second) buckets
          = (buckets(key \<mapsto> \<lparr>rb_count = c, rb_window_start = s * second\<rparr>),
             Inl (rate_limit_exceeded ''rate limit exceeded'' ?w))"
        using True n w by (simp add: mem_check_and_record_def Let_def row(3) unwrap_or_def window_over)
      ultimately show ?thesis using same [OF row(3)] by simp
    next
      case False
      then have "rows' = rows(key \<mapsto> \<lparr>br_request_count = int (c + 1), br_window_start = int s,
          br_expires_at = int (now + ?w)\<rparr>)" "res = Inr ()"
        using assms(4) w running row
        by (auto simp: check_and_record_rows_def Let_def rate_decide_def rate_write_def ttl_epoch_secs_def)
      moreover have "mem_check_and_record (now * second) key max_requests (?w * second) buckets
          = (buckets(key \<mapsto> \<lparr>rb_count = c + 1, rb_window_start = s * second\<rparr>), Inr ())"
        using False n w by (simp add: mem_check_and_record_def Let_def row(3) unwrap_or_def window_over)
      ultimately show ?thesis using row(4) by (auto simp: row_stands_for_def intro!: upd)
    qed
  qed
qed

text \<open>A sequence of calls, one after the other, on the table with its purges and on the buckets.\<close>

fun sqlx_rate_run ::
  "(string \<Rightarrow> nat) \<Rightarrow> int \<times> bucket_table \<Rightarrow> (nat \<times> string \<times> nat) list \<Rightarrow> (web_error + unit) list" where
  "sqlx_rate_run window_of st [] = []"
| "sqlx_rate_run window_of st ((now, key, max_requests) # calls) =
     (case sqlx_check_and_record (int now) key max_requests (window_of key * second) st of
        (st', res) \<Rightarrow> res # sqlx_rate_run window_of st' calls)"

fun mem_rate_run ::
  "(string \<Rightarrow> nat) \<Rightarrow> rate_state \<Rightarrow> (nat \<times> string \<times> nat) list \<Rightarrow> (web_error + unit) list" where
  "mem_rate_run window_of buckets [] = []"
| "mem_rate_run window_of buckets ((now, key, max_requests) # calls) =
     (case mem_check_and_record (now * second) key max_requests (window_of key * second) buckets of
        (buckets', res) \<Rightarrow> res # mem_rate_run window_of buckets' calls)"

lemma runs_agree:
  assumes "stands_for window_of start rows buckets" and "sorted (start # map fst calls)"
    and "\<forall>(now, key, max_requests) \<in> set calls. 0 < max_requests" and "\<forall>key. 0 < window_of key"
  shows "sqlx_rate_run window_of (last_purge, rows) calls = mem_rate_run window_of buckets calls"
  using assms(1-3)
proof (induction calls arbitrary: start last_purge rows buckets)
  case (Cons call calls)
  obtain now key m where call: "call = (now, key, m)" by (cases call)
  obtain last_purge' rows1 where p:
    "maybe_purge delete_expired_buckets (int now) (last_purge, rows) = (last_purge', rows1)"
    by fastforce
  obtain rows2 res where c: "check_and_record_rows (int now) key m (window_of key * second) rows1 = (rows2, res)"
    by fastforce
  have "stands_for window_of now rows1 buckets"
    using purge_stands_for [OF stands_for_later [OF Cons.prems(1)] p] Cons.prems(2) call by simp
  from call_stands_for [OF this _ _ c] Cons.prems(3) assms(4) obtain buckets' where
    b: "mem_check_and_record (now * second) key m (window_of key * second) buckets = (buckets', res)"
    and st: "stands_for window_of now rows2 buckets'" by (auto simp: call)
  have "sqlx_rate_run window_of (last_purge', rows2) calls = mem_rate_run window_of buckets' calls"
    by (rule Cons.IH [OF st]) (use Cons.prems call in auto)
  then show ?case by (simp add: call sqlx_check_and_record_def p c b)
qed simp

text \<open>C18: Refinement: the fixed-window limiter in the data base takes the decisions of the
  in-memory limiter. From an empty table, any sequence of calls, each with its purge of
  expired rows, gets the answers, refusals with their retry times included, that the
  in-memory store gives to the same calls. This is for calls whose transactions follow each
  other and do not overlap, at whole seconds of one clock that does not run backwards, with
  positive limits and one positive window per key.\<close>

theorem sqlx_rate_limit_refines_memory:
  assumes "sorted (map fst calls)" and "\<forall>(now, key, max_requests) \<in> set calls. 0 < max_requests"
    and "\<forall>key. 0 < window_of key"
  shows "sqlx_rate_run window_of (last_purge, Map.empty) calls = mem_rate_run window_of Map.empty calls"
proof (cases calls)
  case (Cons call rest)
  have "stands_for window_of (fst call) Map.empty Map.empty"
    by (simp add: stands_for_def row_stands_for_def)
  then show ?thesis by (rule runs_agree [OF _ _ assms(2,3)]) (use assms(1) Cons in auto)
qed simp

text \<open>The second window opens at second 61, after a purge has removed the row of the first.\<close>

theorem sqlx_rate_limit_refines_memory_witness:
  "sqlx_rate_run (\<lambda>_. 60) (0, Map.empty) [(1, ''k'', 1), (2, ''k'', 1), (61, ''k'', 1)]
     = mem_rate_run (\<lambda>_. 60) Map.empty [(1, ''k'', 1), (2, ''k'', 1), (61, ''k'', 1)]
   \<and> mem_rate_run (\<lambda>_. 60) Map.empty [(1, ''k'', 1), (2, ''k'', 1), (61, ''k'', 1)]
     = [Inr (), Inl (rate_limit_exceeded ''rate limit exceeded'' 60), Inr ()]"
proof
  show "sqlx_rate_run (\<lambda>_. 60) (0, Map.empty) [(1, ''k'', 1), (2, ''k'', 1), (61, ''k'', 1)]
      = mem_rate_run (\<lambda>_. 60) Map.empty [(1, ''k'', 1), (2, ''k'', 1), (61, ''k'', 1)]"
    by (rule sqlx_rate_limit_refines_memory) simp_all
  show "mem_rate_run (\<lambda>_. 60) Map.empty [(1, ''k'', 1), (2, ''k'', 1), (61, ''k'', 1)]
      = [Inr (), Inl (rate_limit_exceeded ''rate limit exceeded'' 60), Inr ()]"
    by (simp add: mem_check_and_record_def Let_def unwrap_or_def second_def as_secs_def)
qed

text \<open>Deleting an expired bucket changes no decision: the next call would have reset it.\<close>

lemma purged_bucket_was_over:
  assumes "br_window_start row + window_secs \<le> br_expires_at row" and "br_expires_at row \<le> now"
  shows "rate_decide m window_secs now (Some row) = rate_decide m window_secs now None"
  using assms by (simp add: rate_decide_def)

text \<open>Transactions at the isolation level PostgreSQL starts with may both read the bucket before
  either writes it. Both are admitted and one of them is not counted.\<close>

lemma concurrent_calls_lose_an_update:
  assumes "rows k = Some row" and "now - br_window_start row < w"
    and "br_request_count row + 1 = int m"
  shows "\<exists>d. rate_decide m w now (rows k) = Some d \<and>
    (let rows1 = rate_write k d e rows; rows2 = rate_write k d e rows1 in
       rows2 k = rows1 k \<and> br_request_count (the (rows2 k)) = int m)"
  using assms by (simp add: rate_decide_def rate_write_def Let_def)

end
