(* ===== verification/Redis_Stores.thy ===== *)
theory Redis_Stores
  imports Admission Idempotency_Store
begin

section \<open>Stores in Redis\<close>

text \<open>
  Models the scripts and the stores of \<open>lib.rs\<close> of the crate \<open>sdkwork-web-store-redis\<close>. The
  server runs a script as one step on the keys it is given, so a script is a function on the
  key space: for every key a value and the time at which the key expires. Times are
  milliseconds since the epoch. A call whose connection fails is not modelled.
\<close>

type_synonym 'v keyspace = "string \<Rightarrow> ('v \<times> int) option"

text \<open>What the server answers about a key at a time.\<close>

definition live :: "int \<Rightarrow> 'v keyspace \<Rightarrow> string \<Rightarrow> ('v \<times> int) option" where
  "live now ks key = opt_filter (\<lambda>(_, expires). now < expires) (ks key)"

definition redis_get :: "int \<Rightarrow> 'v keyspace \<Rightarrow> string \<Rightarrow> 'v option" where
  "redis_get now ks key = map_option fst (live now ks key)"

definition secs_at_least_one :: "nat \<Rightarrow> int" where
  "secs_at_least_one d = int (max (as_secs d) 1)"

lemma redis_get_None: "redis_get now ks key = None \<longleftrightarrow> live now ks key = None"
  by (simp add: redis_get_def)

subsection \<open>Concurrent admission\<close>

definition concurrent_admission_key_ttl_secs :: int where
  "concurrent_admission_key_ttl_secs = 7200"

definition redis_concurrency_key :: "string \<Rightarrow> string \<Rightarrow> string" where
  "redis_concurrency_key pfx k = pfx @ '':conc:'' @ k"

text \<open>The acquire script. Only the first slot of a key starts its time to live; incrementing
  keeps the one it has.\<close>

definition acquire_script :: "int \<Rightarrow> string \<Rightarrow> nat \<Rightarrow> int \<Rightarrow> nat keyspace \<Rightarrow> nat keyspace \<times> int" where
  "acquire_script now key limit ttl_secs ks =
     (case live now ks key of
        Some (current, expires) \<Rightarrow>
          if limit \<le> current then (ks, - 1)
          else (ks(key \<mapsto> (current + 1, if current + 1 = 1 then now + ttl_secs * 1000 else expires)),
            int current + 1)
      | None \<Rightarrow> (ks(key \<mapsto> (1, now + ttl_secs * 1000)), 1))"

text \<open>The release script: a missing counter is decremented to -1 and deleted again.\<close>

definition release_script :: "int \<Rightarrow> string \<Rightarrow> nat keyspace \<Rightarrow> nat keyspace \<times> int" where
  "release_script now key ks =
     (let count = int (unwrap_or (redis_get now ks key) 0) - 1 in
      if count \<le> 0 then (ks(key := None), 0)
      else (ks(key := map_option (\<lambda>(n, expires). (n - 1, expires)) (ks key)), count))"

definition redis_try_acquire ::
  "string \<Rightarrow> string \<Rightarrow> nat \<Rightarrow> int \<times> nat keyspace \<Rightarrow> (int \<times> nat keyspace) \<times> (web_error + unit)" where
  "redis_try_acquire pfx key limit st =
     (if limit = 0 then (st, Inr ())
      else (case acquire_script (fst st) (redis_concurrency_key pfx key) limit
                   concurrent_admission_key_ttl_secs (snd st) of
        (ks, result) \<Rightarrow> ((fst st, ks), if result < 0 then Inl concurrency_error else Inr ())))"

definition redis_release :: "string \<Rightarrow> string \<Rightarrow> int \<times> nat keyspace \<Rightarrow> int \<times> nat keyspace" where
  "redis_release pfx key st =
     (fst st, fst (release_script (fst st) (redis_concurrency_key pfx key) (snd st)))"

definition redis_held :: "string \<Rightarrow> int \<times> nat keyspace \<Rightarrow> string \<Rightarrow> nat" where
  "redis_held pfx st k =
     unwrap_or (redis_get (fst st) (snd st) (redis_concurrency_key pfx k)) 0"

lemma redis_concurrency_key_inj [simp]:
  "redis_concurrency_key p k = redis_concurrency_key p k' \<longleftrightarrow> k = k'"
  by (simp add: redis_concurrency_key_def)

lemmas redis_admission_defs = redis_try_acquire_def acquire_script_def redis_release_def
  release_script_def redis_held_def redis_get_def live_def opt_filter_def
  concurrent_admission_key_ttl_secs_def

interpretation redis_admission: admission_store "redis_try_acquire pfx" "redis_release pfx"
  "redis_held pfx" for pfx
proof
  fix k limit and s s' :: "int \<times> nat keyspace" and e
  show "0 < limit \<Longrightarrow> redis_try_acquire pfx k limit s = (s', Inr ()) \<Longrightarrow>
      redis_held pfx s k < limit \<and> redis_held pfx s' = (redis_held pfx s)(k := redis_held pfx s k + 1)"
    by (auto simp: redis_admission_defs fun_eq_iff split: option.splits if_splits)
  show "redis_try_acquire pfx k limit s = (s', Inl e) \<Longrightarrow> redis_held pfx s' = redis_held pfx s"
    by (auto simp: redis_admission_defs fun_eq_iff split: option.splits if_splits)
  show "0 < limit \<Longrightarrow> redis_held pfx s k < limit \<Longrightarrow> \<exists>s'. redis_try_acquire pfx k limit s = (s', Inr ())"
    by (auto simp: redis_admission_defs split: option.splits if_splits)
  show "redis_try_acquire pfx k 0 s = (s, Inr ())" by (simp add: redis_try_acquire_def)
  show "redis_held pfx (redis_release pfx k s) = (redis_held pfx s)(k := redis_held pfx s k - 1)"
    by (cases s) (auto simp: redis_admission_defs Let_def fun_eq_iff split: option.splits if_splits)
qed

text \<open>Time passes without effect on what is held as long as no counter reaches its end.\<close>

lemma redis_held_until_expiry:
  assumes "\<And>k n d. ks k = Some (n, d) \<Longrightarrow> now' < d" and "now \<le> now'"
  shows "redis_held pfx (now', ks) = redis_held pfx (now, ks)"
  using assms by (fastforce simp: redis_admission_defs fun_eq_iff split: option.splits)

text \<open>A key that is never idle loses its counter two hours after its first slot, whatever is in
  flight then: the full limit is handed out a second time.\<close>

lemma busy_key_loses_its_slots:
  "\<exists>s. redis_try_acquire p k 1 (0, Map.empty) = (s, Inr ()) \<and>
     snd (redis_try_acquire p k 1 (7199999, snd s)) = Inl concurrency_error \<and>
     snd (redis_try_acquire p k 1 (7200000, snd s)) = Inr ()"
  by (simp add: redis_admission_defs)

subsection \<open>Sliding-window rate limits\<close>

text \<open>A sorted set as its members with their scores. A set that becomes empty is deleted with its
  time to live.\<close>

type_synonym zset = "(string \<times> int) list"

definition zset_at :: "int \<Rightarrow> zset keyspace \<Rightarrow> string \<Rightarrow> zset" where
  "zset_at now ks key = unwrap_or (redis_get now ks key) []"

definition zremrangebyscore :: "int \<Rightarrow> zset \<Rightarrow> zset" where
  "zremrangebyscore max_score zs = filter (\<lambda>(_, score). max_score < score) zs"

definition zset_keep :: "string \<Rightarrow> zset \<Rightarrow> zset keyspace \<Rightarrow> zset keyspace" where
  "zset_keep key zs ks =
     (if zs = [] then ks(key := None) else ks(key := map_option (\<lambda>(_, expires). (zs, expires)) (ks key)))"

definition rate_limit_script ::
  "int \<Rightarrow> string \<Rightarrow> nat \<Rightarrow> int \<Rightarrow> int \<Rightarrow> string \<Rightarrow> zset keyspace \<Rightarrow> zset keyspace \<times> int" where
  "rate_limit_script now key max_requests window_secs now_ms member ks =
     (let window_start = now_ms - window_secs * 1000;
          zs = zremrangebyscore window_start (zset_at now ks key);
          ks = zset_keep key zs ks;
          current_count = length zs
      in if max_requests \<le> current_count then (ks, - 1)
         else if member \<in> fst ` set zs then (ks, - 2)
         else (ks(key \<mapsto> ((member, now_ms) # zs, now + window_secs * 1000)), int current_count + 1))"

definition redis_rate_key :: "string \<Rightarrow> string \<Rightarrow> string" where
  "redis_rate_key pfx k = pfx @ '':rl:'' @ k"

definition check_and_record_at ::
  "string \<Rightarrow> int \<Rightarrow> string \<Rightarrow> nat \<Rightarrow> nat \<Rightarrow> int \<Rightarrow> string \<Rightarrow> zset keyspace
     \<Rightarrow> zset keyspace \<times> (web_error + unit)" where
  "check_and_record_at pfx now key max_requests window now_ms member ks =
     (case rate_limit_script now (redis_rate_key pfx key) max_requests (secs_at_least_one window)
             now_ms member ks of
        (ks, result) \<Rightarrow> (ks,
          if result = - 1
          then Inl (rate_limit_exceeded ''rate limit exceeded'' (max (as_secs window) 1))
          else if result = - 2
          then Inl (dependency_unavailable ''redis rate-limit request member collision'')
          else Inr ()))"

text \<open>The nonce of a call: 16 random bytes in hexadecimal. Different bytes give different nonces.\<close>

definition new_rate_limit_request_member :: "8 word list \<Rightarrow> string" where
  "new_rate_limit_request_member bytes =
     concat (map (\<lambda>b. [hex_digit (unat (drop_bit 4 b)), hex_digit (unat (take_bit 4 b))]) bytes)"

definition redis_check_and_record ::
  "string \<Rightarrow> int \<Rightarrow> string \<Rightarrow> nat \<Rightarrow> nat \<Rightarrow> string + 8 word list \<Rightarrow> zset keyspace
     \<Rightarrow> zset keyspace \<times> (web_error + unit)" where
  "redis_check_and_record pfx now key max_requests window random ks =
     (case random of
        Inl e \<Rightarrow> (ks, Inl (dependency_unavailable
          (''secure random source unavailable for Redis rate limiting: '' @ e)))
      | Inr bytes \<Rightarrow> check_and_record_at pfx now key max_requests window now
          (new_rate_limit_request_member bytes) ks)"

lemma nibbles_inj:
  fixes a b :: "8 word"
  assumes "drop_bit 4 a = drop_bit 4 b" and "take_bit 4 a = take_bit 4 b"
  shows "a = b"
  using bits_ident [of 4 a] bits_ident [of 4 b] assms by metis

lemma nibble_bounds: "unat (drop_bit 4 b) < 16" "unat (take_bit 4 b) < 16" for b :: "8 word"
proof -
  have "unat b < 256" using unsigned_less [of b, where ?'a = nat] by simp
  then show "unat (drop_bit 4 b) < 16" by (simp add: drop_bit_eq_div unat_div)
  show "unat (take_bit 4 b) < 16" by (simp add: take_bit_eq_mod unat_mod)
qed

lemma request_member_inj:
  "length as = length bs \<Longrightarrow>
     new_rate_limit_request_member as = new_rate_limit_request_member bs \<longleftrightarrow> as = bs"
proof (induction as bs rule: list_induct2)
  case (Cons a as b bs)
  then show ?case
    using nibbles_inj [of a b] hex_digit_inj nibble_bounds [of a] nibble_bounds [of b]
    by (auto simp: new_rate_limit_request_member_def dest!: hex_digit_inj [rotated 2] intro: word_unat_eq_iff [THEN iffD2])
qed simp

text \<open>The calls of a run in the order in which the server takes them: the time of the server and
  the timestamp of the caller, the key and the nonce. The result lists the calls let through with
  their timestamps, the last one first.\<close>

type_synonym rate_limit_call = "(int \<times> int) \<times> string \<times> string"

definition rate_call ::
  "string \<Rightarrow> (string \<Rightarrow> nat) \<Rightarrow> (string \<Rightarrow> nat) \<Rightarrow> rate_limit_call
     \<Rightarrow> zset keyspace \<times> (string \<times> int) list \<Rightarrow> zset keyspace \<times> (string \<times> int) list" where
  "rate_call pfx limit_of window_of call st =
     (case call of ((now, t), k, member) \<Rightarrow>
        (case check_and_record_at pfx now k (limit_of k) (window_of k) t member (fst st) of
           (ks, Inr _) \<Rightarrow> (ks, (k, t) # snd st)
         | (ks, Inl _) \<Rightarrow> (ks, snd st)))"

definition within :: "(string \<times> int) list \<Rightarrow> string \<Rightarrow> int \<Rightarrow> int \<Rightarrow> nat" where
  "within log k a b = length (filter (\<lambda>(k', t). k' = k \<and> a < t \<and> t \<le> b) log)"

lemma redis_rate_key_inj [simp]: "redis_rate_key p k = redis_rate_key p k' \<longleftrightarrow> k = k'"
  by (simp add: redis_rate_key_def)

text \<open>One call comes later than another: by the clock of the server and by the timestamps, and no
  more time has passed by the former than by the latter. This is so when the callers share a
  clock that differs from the server's by a constant.\<close>

definition in_order :: "int \<times> int \<Rightarrow> int \<times> int \<Rightarrow> bool" where
  "in_order a b \<longleftrightarrow> fst a \<le> fst b \<and> snd a \<le> snd b \<and> fst b - fst a \<le> snd b - snd a"

lemma in_order_refl: "in_order a a"
  by (simp add: in_order_def)

lemma in_order_trans: "in_order a b \<Longrightarrow> in_order b c \<Longrightarrow> in_order a c"
  by (simp add: in_order_def)

lemma in_order_snd: "in_order a b \<Longrightarrow> snd a \<le> snd b"
  by (simp add: in_order_def)

text \<open>The sets account for the calls let through: from now on there are as many of them in a
  window as members whose scores are in it, and no set expires before its members leave.\<close>

definition window_ms :: "(string \<Rightarrow> nat) \<Rightarrow> string \<Rightarrow> int" where
  "window_ms window_of k = secs_at_least_one (window_of k) * 1000"

definition zset_fits :: "int \<times> int \<Rightarrow> int \<Rightarrow> zset \<times> int \<Rightarrow> bool" where
  "zset_fits now w e \<longleftrightarrow>
     (\<forall>x \<in> set (fst e). snd x \<le> snd now \<and> snd x + w - snd now \<le> snd e - fst now)"

definition zset_accounts ::
  "string \<Rightarrow> (string \<Rightarrow> nat) \<Rightarrow> int \<times> int \<Rightarrow> zset keyspace \<times> (string \<times> int) list \<Rightarrow> bool" where
  "zset_accounts pfx window_of now st \<longleftrightarrow>
     (\<forall>x \<in> set (snd st). snd x \<le> snd now) \<and>
     (\<forall>k. case fst st (redis_rate_key pfx k) of None \<Rightarrow> True | Some e \<Rightarrow> zset_fits now (window_ms window_of k) e) \<and>
     (\<forall>k u. in_order now u \<longrightarrow> within (snd st) k (snd u - window_ms window_of k) (snd u)
        = length (zremrangebyscore (snd u - window_ms window_of k)
            (zset_at (fst u) (fst st) (redis_rate_key pfx k))))"

lemma zset_accountsD:
  assumes "zset_accounts pfx window_of now (ks, log)"
  shows "x \<in> set log \<Longrightarrow> snd x \<le> snd now"
    and "ks (redis_rate_key pfx k) = Some e \<Longrightarrow> zset_fits now (window_ms window_of k) e"
    and "in_order now u \<Longrightarrow> within log k (snd u - window_ms window_of k) (snd u)
        = length (zremrangebyscore (snd u - window_ms window_of k) (zset_at (fst u) ks (redis_rate_key pfx k)))"
  using assms unfolding zset_accounts_def fst_conv snd_conv by (cases e; auto split: option.splits)+

lemma zset_accountsI:
  assumes "\<And>x. x \<in> set log \<Longrightarrow> snd x \<le> snd now"
    and "\<And>k e. ks (redis_rate_key pfx k) = Some e \<Longrightarrow> zset_fits now (window_ms window_of k) e"
    and "\<And>k u. in_order now u \<Longrightarrow> within log k (snd u - window_ms window_of k) (snd u)
        = length (zremrangebyscore (snd u - window_ms window_of k) (zset_at (fst u) ks (redis_rate_key pfx k)))"
  shows "zset_accounts pfx window_of now (ks, log)"
  using assms unfolding zset_accounts_def fst_conv snd_conv by (simp split: option.splits)

lemma zset_fits_later: "zset_fits now w e \<Longrightarrow> in_order now t \<Longrightarrow> zset_fits t w e"
  by (fastforce simp: zset_fits_def in_order_def)

lemma zremrange_twice:
  "a \<le> b \<Longrightarrow> zremrangebyscore b (zremrangebyscore a zs) = zremrangebyscore b zs"
  unfolding zremrangebyscore_def filter_filter by (intro filter_cong) auto

lemma zset_keep_at:
  assumes "zs = zremrangebyscore a (zset_at now ks key)" and "now \<le> u" and "a \<le> b"
  shows "zremrangebyscore b (zset_at u (zset_keep key zs ks) key) = zremrangebyscore b (zset_at u ks key)"
proof (cases "ks key")
  case None
  then show ?thesis using assms(1)
    by (simp add: zset_at_def redis_get_def live_def zset_keep_def)
next
  case (Some e)
  obtain v d where e: "e = (v, d)" by (cases e)
  show ?thesis
  proof (cases "u < d")
    case True
    then have at: "zset_at now ks key = v" "zset_at u ks key = v"
      using assms(2) Some e by (auto simp: zset_at_def redis_get_def live_def)
    have "zset_at u (zset_keep key zs ks) key = zs"
      using True Some e by (simp add: zset_keep_def zset_at_def redis_get_def live_def)
    then show ?thesis using assms(1,3) at by (simp add: zremrange_twice)
  next
    case False
    then show ?thesis using Some e
      by (simp add: zset_keep_def zset_at_def redis_get_def live_def)
  qed
qed

lemma zset_keep_other: "key' \<noteq> key \<Longrightarrow> zset_at u (zset_keep key zs ks) key' = zset_at u ks key'"
  by (simp add: zset_keep_def zset_at_def redis_get_def live_def)

lemma zset_at_upd:
  "zset_at u (ks(key \<mapsto> (zs, d))) key' =
     (if key' = key then if u < d then zs else [] else zset_at u ks key')"
  by (simp add: zset_at_def redis_get_def live_def)

lemma within_Cons:
  "within ((k', t) # log) k a b = (if k' = k \<and> a < t \<and> t \<le> b then Suc (within log k a b) else within log k a b)"
  by (simp add: within_def)

text \<open>The two effects of a call, on the key space and on the calls let through.\<close>

lemma rate_call_cases:
  assumes "rate_call pfx limit_of window_of (t, k, member) (ks, log) = st'"
  defines "key \<equiv> redis_rate_key pfx k"
  defines "zs \<equiv> zremrangebyscore (snd t - window_ms window_of k) (zset_at (fst t) ks key)"
  obtains (refused) "st' = (zset_keep key zs ks, log)"
  | (let_through) "length zs < limit_of k"
      "st' = ((zset_keep key zs ks)(key \<mapsto> ((member, snd t) # zs, fst t + window_ms window_of k)), (k, snd t) # log)"
proof -
  obtain now c where t: "t = (now, c)" by (cases t)
  have "zs = zremrangebyscore (c - window_ms window_of k) (zset_at now ks key)" by (simp add: zs_def t)
  then show ?thesis
    using assms(1) that unfolding t
    by (auto simp: rate_call_def check_and_record_at_def rate_limit_script_def Let_def
        window_ms_def [symmetric] key_def [symmetric] split: if_splits)
qed

lemma zset_keep_Some:
  assumes "zset_keep key (zremrangebyscore a (zset_at now ks key)) ks key' = Some (zs', d)"
  obtains v where "ks key' = Some (v, d)" and "set zs' \<subseteq> set v"
  using assms
  by (auto simp: zset_keep_def zremrangebyscore_def zset_at_def redis_get_def live_def opt_filter_def
      split: if_splits option.splits)

lemma zset_accounts_keep:
  fixes k :: string
  assumes acc: "zset_accounts pfx window_of now (ks, log)" and le: "in_order now t"
  defines "key \<equiv> redis_rate_key pfx k"
  defines "zs \<equiv> zremrangebyscore (snd t - window_ms window_of k) (zset_at (fst t) ks key)"
  shows "zset_accounts pfx window_of t (zset_keep key zs ks, log)"
proof (rule zset_accountsI)
  show "x \<in> set log \<Longrightarrow> snd x \<le> snd t" for x
    using zset_accountsD(1) [OF acc, of x] in_order_snd [OF le] by simp
  show "zset_fits t (window_ms window_of k') e"
    if e: "zset_keep key zs ks (redis_rate_key pfx k') = Some e" for k' e
  proof -
    obtain zs' d where zs': "e = (zs', d)" by (cases e)
    from zset_keep_Some [OF e [unfolded zs' zs_def]] obtain v where
      v: "ks (redis_rate_key pfx k') = Some (v, d)" "set zs' \<subseteq> set v" .
    from zset_fits_later [OF zset_accountsD(2) [OF acc v(1)] le] show ?thesis
      using v(2) unfolding zs' zset_fits_def by auto
  qed
  fix k' u
  assume u: "in_order t u"
  have "zremrangebyscore (snd u - window_ms window_of k') (zset_at (fst u) (zset_keep key zs ks) (redis_rate_key pfx k'))
    = zremrangebyscore (snd u - window_ms window_of k') (zset_at (fst u) ks (redis_rate_key pfx k'))"
  proof (cases "k' = k")
    case True
    then show ?thesis
      using zset_keep_at [OF zs_def [THEN meta_eq_to_obj_eq], of "fst u" "snd u - window_ms window_of k"] u
      by (simp add: key_def in_order_def)
  qed (simp add: zset_keep_other key_def)
  then show "within log k' (snd u - window_ms window_of k') (snd u) = length (zremrangebyscore
      (snd u - window_ms window_of k') (zset_at (fst u) (zset_keep key zs ks) (redis_rate_key pfx k')))"
    using zset_accountsD(3) [OF acc in_order_trans [OF le u]] by simp
qed

lemma zset_fits_window:
  assumes "zset_fits now w (zs, d)" and "ks key = Some (zs, d)" and "in_order now u"
  shows "zremrangebyscore (snd u - w) (zset_at (fst u) ks key) = zremrangebyscore (snd u - w) zs"
proof (cases "fst u < d")
  case False
  then have "zremrangebyscore (snd u - w) zs = []"
    using assms(1,3) by (force simp: zset_fits_def in_order_def zremrangebyscore_def filter_empty_conv)
  then show ?thesis using False assms(2)
    by (simp add: zset_at_def redis_get_def live_def zremrangebyscore_def)
qed (simp add: zset_at_def redis_get_def live_def assms(2))

lemma zset_accounts_insert:
  fixes k :: string
  assumes acc: "zset_accounts pfx window_of t (ks, log)"
  defines "key \<equiv> redis_rate_key pfx k"
  assumes keep: "ks key = None \<and> zs = [] \<or> (\<exists>d. ks key = Some (zs, d))"
  shows "zset_accounts pfx window_of t
    (ks(key \<mapsto> ((member, snd t) # zs, fst t + window_ms window_of k)), (k, snd t) # log)"
proof (rule zset_accountsI)
  show "x \<in> set ((k, snd t) # log) \<Longrightarrow> snd x \<le> snd t" for x using zset_accountsD(1) [OF acc, of x] by auto
  have fits: "zset_fits t (window_ms window_of k) ((member, snd t) # zs, fst t + window_ms window_of k)"
    using keep zset_accountsD(2) [OF acc, of k] by (force simp: key_def zset_fits_def)
  then show "zset_fits t (window_ms window_of k') e"
    if "(ks(key \<mapsto> ((member, snd t) # zs, fst t + window_ms window_of k))) (redis_rate_key pfx k') = Some e" for k' e
    using that zset_accountsD(2) [OF acc] by (auto simp: key_def split: if_splits)
  fix k' u
  assume u: "in_order t u"
  let ?ks = "ks(key \<mapsto> ((member, snd t) # zs, fst t + window_ms window_of k))"
  show "within ((k, snd t) # log) k' (snd u - window_ms window_of k') (snd u) = length (zremrangebyscore
      (snd u - window_ms window_of k') (zset_at (fst u) ?ks (redis_rate_key pfx k')))"
  proof (cases "k' = k")
    case False
    then show ?thesis using zset_accountsD(3) [OF acc u, of k']
      by (simp add: zset_at_upd within_Cons key_def)
  next
    case True
    have "zremrangebyscore (snd u - window_ms window_of k) (zset_at (fst u) ks key)
        = zremrangebyscore (snd u - window_ms window_of k) zs"
      using keep
    proof
      assume "ks key = None \<and> zs = []"
      then show ?thesis by (simp add: zset_at_def redis_get_def live_def)
    next
      assume "\<exists>d. ks key = Some (zs, d)"
      then obtain d where d: "ks key = Some (zs, d)" by blast
      have "zset_fits t (window_ms window_of k) (zs, d)"
        using zset_accountsD(2) [OF acc] d by (simp add: key_def)
      then show ?thesis using d u by (rule zset_fits_window)
    qed
    moreover have "zremrangebyscore (snd u - window_ms window_of k) (zset_at (fst u) ?ks key)
        = zremrangebyscore (snd u - window_ms window_of k) ((member, snd t) # zs)"
      by (rule zset_fits_window [OF fits _ u]) simp
    ultimately show ?thesis using True in_order_snd [OF u] zset_accountsD(3) [OF acc u, of k]
      by (simp add: within_Cons key_def zremrangebyscore_def)
  qed
qed

lemma zset_accounts_call:
  assumes "zset_accounts pfx window_of now st" and "in_order now t"
  shows "zset_accounts pfx window_of t (rate_call pfx limit_of window_of (t, k, member) st)"
proof -
  obtain ks log where st: "st = (ks, log)" by (cases st)
  let ?key = "redis_rate_key pfx k"
  let ?zs = "zremrangebyscore (snd t - window_ms window_of k) (zset_at (fst t) ks ?key)"
  have kept: "zset_accounts pfx window_of t (zset_keep ?key ?zs ks, log)"
    using zset_accounts_keep assms unfolding st by blast
  have "zset_keep ?key ?zs ks ?key = None \<and> ?zs = [] \<or> (\<exists>d. zset_keep ?key ?zs ks ?key = Some (?zs, d))"
    by (auto simp: zset_keep_def zset_at_def redis_get_def live_def opt_filter_def zremrangebyscore_def
        split: option.splits)
  from zset_accounts_insert [OF kept this] kept show ?thesis
    unfolding st by (cases rule: rate_call_cases [OF refl, of pfx limit_of window_of t k member ks log]) simp_all
qed

text \<open>A run of calls, and the bound it keeps.\<close>

definition rate_run ::
  "string \<Rightarrow> (string \<Rightarrow> nat) \<Rightarrow> (string \<Rightarrow> nat) \<Rightarrow> rate_limit_call list
     \<Rightarrow> zset keyspace \<times> (string \<times> int) list" where
  "rate_run pfx limit_of window_of calls = fold (rate_call pfx limit_of window_of) calls (Map.empty, [])"

lemma rate_run_snoc:
  "rate_run pfx limit_of window_of (calls @ [c]) =
     rate_call pfx limit_of window_of c (rate_run pfx limit_of window_of calls)"
  by (simp add: rate_run_def)

lemma zset_accounts_later:
  assumes "zset_accounts pfx window_of t (ks, log)" and "in_order t now"
  shows "zset_accounts pfx window_of now (ks, log)"
proof (rule zset_accountsI)
  show "x \<in> set log \<Longrightarrow> snd x \<le> snd now" for x
    using zset_accountsD(1) [OF assms(1), of x] in_order_snd [OF assms(2)] by simp
  show "ks (redis_rate_key pfx k) = Some e \<Longrightarrow> zset_fits now (window_ms window_of k) e" for k e
    by (rule zset_fits_later [OF zset_accountsD(2) [OF assms(1)] assms(2)])
qed (rule zset_accountsD(3) [OF assms(1) in_order_trans [OF assms(2)]])

lemma rate_run_accounts:
  "sorted_wrt in_order (map fst calls @ [now]) \<Longrightarrow>
     zset_accounts pfx window_of now (rate_run pfx limit_of window_of calls)"
proof (induction calls arbitrary: now rule: rev_induct)
  case Nil
  then show ?case
    by (simp add: rate_run_def zset_accounts_def within_def zremrangebyscore_def zset_at_def redis_get_def live_def)
next
  case (snoc c calls)
  obtain t k m where c: "c = (t, k, m)" by (cases c) auto
  have now: "in_order t now" and "sorted_wrt in_order (map fst calls @ [t])"
    using snoc.prems by (auto simp: c sorted_wrt_append)
  from snoc.IH [OF this(2)] have "zset_accounts pfx window_of t (rate_run pfx limit_of window_of calls)" .
  from zset_accounts_call [OF this in_order_refl, of limit_of k m]
  have "zset_accounts pfx window_of t (rate_run pfx limit_of window_of (calls @ [c]))"
    by (simp add: c rate_run_snoc)
  then show ?case using zset_accounts_later [OF _ now] by (metis prod.collapse)
qed

lemma within_mono:
  "a' \<le> a \<Longrightarrow> \<forall>x \<in> set log. snd x \<le> b' \<Longrightarrow> within log k a b \<le> within log k a' b'"
  unfolding within_def by (induction log) auto

lemma rate_run_bounded:
  "sorted_wrt in_order (map fst calls) \<Longrightarrow>
     within (snd (rate_run pfx limit_of window_of calls)) k a (a + window_ms window_of k) \<le> limit_of k"
proof (induction calls rule: rev_induct)
  case Nil
  then show ?case by (simp add: rate_run_def within_def)
next
  case (snoc c calls)
  obtain t k' m where c: "c = (t, k', m)" by (cases c) auto
  obtain ks log where st: "rate_run pfx limit_of window_of calls = (ks, log)" by (cases "rate_run pfx limit_of window_of calls")
  have acc: "zset_accounts pfx window_of t (ks, log)"
    using rate_run_accounts [of calls t pfx window_of limit_of] snoc.prems
    by (simp add: c st)
  have ih: "within log k a (a + window_ms window_of k) \<le> limit_of k"
    using snoc by (simp add: sorted_wrt_append st)
  have run: "rate_run pfx limit_of window_of (calls @ [c]) = rate_call pfx limit_of window_of (t, k', m) (ks, log)"
    by (simp add: rate_run_snoc st c)
  show ?case
  proof (cases rule: rate_call_cases [OF run [symmetric]])
    case 1
    then show ?thesis using ih by simp
  next
    case 2
    have "within log k a (a + window_ms window_of k) < limit_of k" if "k' = k" "snd t \<le> a + window_ms window_of k"
    proof -
      have "within log k a (a + window_ms window_of k) \<le> within log k (snd t - window_ms window_of k) (snd t)"
        using that(2) zset_accountsD(1) [OF acc] by (intro within_mono) auto
      also have "\<dots> < limit_of k"
        using zset_accountsD(3) [OF acc in_order_refl] 2(1) that(1) by simp
      finally show ?thesis .
    qed
    then show ?thesis using 2(2) ih by (auto simp: within_Cons Suc_le_eq)
  qed
qed



text \<open>The order is needed: a replica whose clock runs ahead removes members that are still in the
  window of the others, which then let through more calls than the limit.\<close>

lemma fast_replica_exceeds_limit:
  "snd (rate_run ''p'' (\<lambda>_. 2) (\<lambda>_. 10000000000)
     [((0, 0), ''k'', ''n1''), ((1, 1), ''k'', ''n2''), ((2, 12000), ''k'', ''n3''), ((3, 9000), ''k'', ''n4'')])
   = [(''k'', 9000), (''k'', 12000), (''k'', 1), (''k'', 0)]"
  by (simp add: rate_run_def rate_call_def check_and_record_at_def rate_limit_script_def Let_def
      zremrangebyscore_def zset_at_def redis_get_def live_def zset_keep_def opt_filter_def
      secs_at_least_one_def as_secs_def unwrap_or_def)

subsection \<open>Idempotency reservations\<close>

text \<open>The payload under a key. The store writes it as JSON and the scripts decode it again; keys of
  this kind hold nothing else, so the decoding does not fail.\<close>

record redis_payload =
  rp_fingerprint :: string
  rp_response :: "idempotency_record option"

definition redis_idem_key :: "string \<Rightarrow> string \<Rightarrow> string" where
  "redis_idem_key pfx k = pfx @ '':idem:'' @ k"

definition begin_script ::
  "int \<Rightarrow> string \<Rightarrow> redis_payload \<Rightarrow> int \<Rightarrow> string \<Rightarrow> redis_payload keyspace
     \<Rightarrow> redis_payload keyspace \<times> int" where
  "begin_script now key payload ttl_secs fingerprint ks =
     (case redis_get now ks key of
        None \<Rightarrow> (ks(key \<mapsto> (payload, now + ttl_secs * 1000)), 1)
      | Some stored \<Rightarrow>
          (ks, if rp_fingerprint stored \<noteq> fingerprint then - 1
               else if rp_response stored \<noteq> None then 2 else 0))"

definition idem_release_script ::
  "int \<Rightarrow> string \<Rightarrow> string \<Rightarrow> redis_payload keyspace \<Rightarrow> redis_payload keyspace \<times> int" where
  "idem_release_script now key fingerprint ks =
     (case redis_get now ks key of
        None \<Rightarrow> (ks, 0)
      | Some stored \<Rightarrow>
          if rp_fingerprint stored \<noteq> fingerprint then (ks, 0)
          else (if rp_response stored = None then ks(key := None) else ks, 1))"

definition complete_script ::
  "int \<Rightarrow> string \<Rightarrow> string \<Rightarrow> redis_payload \<Rightarrow> int \<Rightarrow> redis_payload keyspace
     \<Rightarrow> redis_payload keyspace \<times> int" where
  "complete_script now key fingerprint payload ttl_secs ks =
     (case redis_get now ks key of
        None \<Rightarrow> (ks, 0)
      | Some stored \<Rightarrow>
          if rp_fingerprint stored \<noteq> fingerprint then (ks, - 1)
          else if rp_response stored \<noteq> None then (ks, 1)
          else (ks(key \<mapsto> (payload, now + ttl_secs * 1000)), 1))"

text \<open>\<open>begin\<close> runs its script at \<open>now\<close>; to replay, it reads the payload once more at \<open>later\<close>. A
  payload gone by then is an error of the client library.\<close>

definition redis_begin ::
  "string \<Rightarrow> string \<Rightarrow> int \<Rightarrow> int \<Rightarrow> nat \<Rightarrow> string \<Rightarrow> string \<Rightarrow> redis_payload keyspace
     \<Rightarrow> redis_payload keyspace \<times> (web_error + begin_outcome)" where
  "redis_begin pfx nil_error now later ttl k fingerprint ks =
     (let key = redis_idem_key pfx k in
      case begin_script now key \<lparr>rp_fingerprint = fingerprint, rp_response = None\<rparr>
             (secs_at_least_one ttl) fingerprint ks of
        (ks, result) \<Rightarrow> (ks,
          if result = 1 then Inr Leader
          else if result = 2 then
            (case redis_get later ks key of
               None \<Rightarrow> Inl (dependency_unavailable (''redis store error: '' @ nil_error))
             | Some stored \<Rightarrow> (case rp_response stored of
                 Some response \<Rightarrow> Inr (Replay response)
               | None \<Rightarrow> Inl (conflict ''idempotency key is already in progress'')))
          else if result = - 1
          then Inl (conflict ''idempotency key was already used with a different request fingerprint'')
          else Inl (conflict ''idempotency key is already in progress'')))"

definition redis_complete ::
  "string \<Rightarrow> int \<Rightarrow> nat \<Rightarrow> string \<Rightarrow> string \<Rightarrow> idempotency_record \<Rightarrow> redis_payload keyspace
     \<Rightarrow> redis_payload keyspace \<times> (web_error + unit)" where
  "redis_complete pfx now ttl k fingerprint r ks =
     (case complete_script now (redis_idem_key pfx k) fingerprint
             \<lparr>rp_fingerprint = fingerprint, rp_response = Some r\<rparr> (secs_at_least_one ttl) ks of
        (ks, result) \<Rightarrow> (ks,
          if result = 0 then Inl (bad_request ''idempotency key was not reserved'')
          else if result = - 1
          then Inl (conflict ''idempotency key fingerprint mismatch while completing response'')
          else Inr ()))"

definition redis_idem_release ::
  "string \<Rightarrow> int \<Rightarrow> string \<Rightarrow> string \<Rightarrow> redis_payload keyspace \<Rightarrow> redis_payload keyspace" where
  "redis_idem_release pfx now k fingerprint ks =
     fst (idem_release_script now (redis_idem_key pfx k) fingerprint ks)"

text \<open>What is left in the key space when keys that have expired are forgotten.\<close>

definition redis_view ::
  "string \<Rightarrow> int \<times> redis_payload keyspace \<Rightarrow> string \<Rightarrow> (string \<times> idempotency_record option) option" where
  "redis_view pfx st k =
     map_option (\<lambda>p. (rp_fingerprint p, rp_response p)) (redis_get (fst st) (snd st) (redis_idem_key pfx k))"

text \<open>The store with its clock, which each operation first sets forward to its own time.\<close>

definition tick :: "nat \<Rightarrow> int \<times> 'v keyspace \<Rightarrow> int \<times> 'v keyspace" where
  "tick d st = (fst st + int d, snd st)"

definition at_clock :: "(int \<Rightarrow> 'v keyspace \<Rightarrow> 'v keyspace \<times> 'a) \<Rightarrow> int \<times> 'v keyspace \<Rightarrow> (int \<times> 'v keyspace) \<times> 'a"
where
  "at_clock f st = (case f (fst st) (snd st) of (ks, r) \<Rightarrow> ((fst st, ks), r))"

lemma redis_idem_key_inj [simp]: "redis_idem_key p k = redis_idem_key p k' \<longleftrightarrow> k = k'"
  by (simp add: redis_idem_key_def)

lemma tick_view: "redis_view pfx (tick d st) \<subseteq>\<^sub>m redis_view pfx st"
  by (auto simp: map_le_def redis_view_def tick_def redis_get_def live_def opt_filter_def
      split: option.splits if_splits)

lemma redis_get_upd:
  "redis_get now (ks(key \<mapsto> (p, d))) key' =
     (if key' = key then if now < d then Some p else None else redis_get now ks key')"
  "redis_get now (ks(key := None)) key' = (if key' = key then None else redis_get now ks key')"
  by (simp_all add: redis_get_def live_def)

lemma secs_at_least_one_pos [simp]: "0 < secs_at_least_one d"
  by (simp add: secs_at_least_one_def)

lemma begin_view:
  assumes "at_clock (\<lambda>now. redis_begin pfx nil_error now now ttl k f) st = (st', out)"
  shows "case out of
      Inr Leader \<Rightarrow> redis_view pfx st' = (redis_view pfx st)(k \<mapsto> (f, None))
    | Inr (Replay r) \<Rightarrow> st' = st \<and> redis_view pfx st k = Some (f, Some r)
    | Inl e \<Rightarrow> st' = st \<and> (\<exists>f' r. redis_view pfx st k = Some (f', r) \<and> (f' \<noteq> f \<or> r = None))"
  using assms
  by (cases st) (auto simp: at_clock_def redis_begin_def begin_script_def Let_def redis_view_def
      redis_get_upd fun_eq_iff split: option.splits if_splits)

lemma complete_view:
  assumes "at_clock (\<lambda>now. redis_complete pfx now ttl k f r) st = (st', out)"
  shows "case out of
      Inr _ \<Rightarrow> (redis_view pfx st' = (redis_view pfx st)(k \<mapsto> (f, Some r)) \<or> st' = st)
        \<and> (\<exists>r'. redis_view pfx st k = Some (f, r'))
    | Inl e \<Rightarrow> st' = st"
  using assms
  by (cases st) (auto simp: at_clock_def redis_complete_def complete_script_def Let_def redis_view_def
      redis_get_upd fun_eq_iff split: option.splits if_splits)

definition redis_released ::
  "string \<Rightarrow> string \<Rightarrow> string \<Rightarrow> int \<times> redis_payload keyspace \<Rightarrow> int \<times> redis_payload keyspace" where
  "redis_released pfx k f st = (fst st, redis_idem_release pfx (fst st) k f (snd st))"

lemma released_view:
  "redis_view pfx (redis_released pfx k f st) =
     (if redis_view pfx st k = Some (f, None) then (redis_view pfx st)(k := None) else redis_view pfx st)"
  by (cases st) (auto simp: redis_released_def redis_idem_release_def idem_release_script_def redis_view_def
      redis_get_upd fun_eq_iff split: option.splits)

interpretation redis_idem: idempotency_store
  "\<lambda>k f t s. at_clock (\<lambda>now. redis_begin pfx nil_error now now (snd t) k f) (tick (fst t) s)"
  "\<lambda>k f r t s. at_clock (\<lambda>now. redis_complete pfx now (snd t) k f r) (tick (fst t) s)"
  "\<lambda>k f t s. redis_released pfx k f (tick (fst t) s)"
  "redis_view pfx" "\<lambda>_. True" "\<lambda>r. r" for pfx nil_error
proof
  fix s s' :: "int \<times> redis_payload keyspace" and k f r and t :: "nat \<times> nat" and e
  let ?s = "tick (fst t) s"
  have le: "redis_view pfx ?s \<subseteq>\<^sub>m redis_view pfx s" by (rule tick_view)
  have known: "redis_view pfx s k = Some x" if "redis_view pfx ?s k = Some x" for x
    using le that by (metis domI map_le_def)
  show "at_clock (\<lambda>now. redis_begin pfx nil_error now now (snd t) k f) ?s = (s', Inr Leader) \<Longrightarrow>
      redis_view pfx s' \<subseteq>\<^sub>m (redis_view pfx s)(k \<mapsto> (f, None)) \<and> redis_view pfx s' k = Some (f, None)"
    using begin_view [of pfx nil_error "snd t" k f ?s s' "Inr Leader"] le by (simp add: map_le_upd)
  show "at_clock (\<lambda>now. redis_begin pfx nil_error now now (snd t) k f) ?s = (s', Inr (Replay r)) \<Longrightarrow>
      redis_view pfx s' \<subseteq>\<^sub>m redis_view pfx s \<and> redis_view pfx s k = Some (f, Some r)"
    using begin_view [of pfx nil_error "snd t" k f ?s s' "Inr (Replay r)"] le known by simp
  show "at_clock (\<lambda>now. redis_begin pfx nil_error now now (snd t) k f) ?s = (s', Inl e) \<Longrightarrow>
      redis_view pfx s' \<subseteq>\<^sub>m redis_view pfx s \<and>
      (\<exists>f' r. redis_view pfx s k = Some (f', r) \<and> (f' \<noteq> f \<or> r = None))"
    using begin_view [of pfx nil_error "snd t" k f ?s s' "Inl e"] le known by auto
  show "at_clock (\<lambda>now. redis_complete pfx now (snd t) k f r) ?s = (s', Inr ()) \<Longrightarrow>
      (redis_view pfx s' \<subseteq>\<^sub>m (redis_view pfx s)(k \<mapsto> (f, Some r)) \<or> redis_view pfx s' \<subseteq>\<^sub>m redis_view pfx s)
        \<and> (\<exists>r'. redis_view pfx s k = Some (f, r'))"
    using complete_view [of pfx "snd t" k f r ?s s' "Inr ()"] le known by (auto simp: map_le_upd)
  show "at_clock (\<lambda>now. redis_complete pfx now (snd t) k f r) ?s = (s', Inl e) \<Longrightarrow>
      redis_view pfx s' \<subseteq>\<^sub>m redis_view pfx s"
    using complete_view [of pfx "snd t" k f r ?s s' "Inl e"] le by simp
  show "redis_view pfx (redis_released pfx k f ?s) \<subseteq>\<^sub>m redis_view pfx s"
    using le by (auto simp: released_view map_le_def)
  show "redis_view pfx s k = Some (f, None) \<Longrightarrow> redis_view pfx (redis_released pfx k f ?s) k = None"
    using known by (cases "redis_view pfx ?s k") (auto simp: released_view)
qed simp_all

text \<open>The response a run of the store replays was recorded for the same key and fingerprint,
  although keys expire at any time.\<close>

lemma redis_replay_was_recorded:
  assumes "(redis_idem.runs pfx nil_error)\<^sup>*\<^sup>* ((0, Map.empty), []) (st, log)"
    and "at_clock (\<lambda>now. redis_begin pfx nil_error now now ttl k f) st = (st', Inr (Replay r))"
  shows "(k, f, r) \<in> set log"
  by (rule redis_idem.replay_was_recorded [OF assms(1), where t = "(0, ttl)"])
    (use assms(2) in \<open>simp_all add: redis_view_def redis_get_def live_def tick_def\<close>)

text \<open>A payload that expires between the script and the second read is reported as a failure of
  the dependency, although the key is free again.\<close>

lemma replay_expires_between_reads:
  assumes "ks (redis_idem_key pfx k) = Some (\<lparr>rp_fingerprint = f, rp_response = Some r\<rparr>, d)"
    and "now < d" and "d \<le> later"
  shows "redis_begin pfx nil_error now later ttl k f ks = (ks, Inl (dependency_unavailable (''redis store error: '' @ nil_error)))
    \<and> snd (redis_begin pfx nil_error later later ttl k f ks) = Inr Leader"
  using assms by (simp add: redis_begin_def begin_script_def Let_def redis_get_def live_def)

end
