(* ===== verification/Admin_Repository.thy ===== *)
theory Admin_Repository
  imports Sqlx_Policies "HOL-Library.AList" "HOL-Library.Product_Lexorder"
begin

section \<open>The repository of the control plane\<close>

text \<open>
  Models \<open>models.rs\<close>, \<open>pagination.rs\<close> and \<open>repository.rs\<close> of the crate
  \<open>sdkwork-web-framework-admin-repository-sqlx\<close>: the statements that list and change the
  policies of the tenants, the recorded events and the control nodes. A table with a primary key
  is an association list with distinct keys; a statement that fails is not modelled. The columns
  are those the policy sources of the framework read, so the records of \<open>Sqlx_Policies\<close> are
  used for them. \<open>coll\<close> stands for the collation of the data base, \<open>encode\<close> and \<open>decode\<close>
  for the JSON text of a list of strings.
\<close>

datatype repository_error = Database string | StoredJson string

subsection \<open>Pages\<close>

text \<open>The window of a list request, computed by the utilities crate.\<close>

record offset_params =
  op_page_size :: int
  op_offset :: int

record 'r offset_page =
  of_items :: "'r list"
  of_total_items :: int

record 'r keyset_page =
  kp_items :: "'r list"
  kp_has_more :: bool

definition from_limit_plus_one :: "'r list \<Rightarrow> nat \<Rightarrow> 'r keyset_page" where
  "from_limit_plus_one items page_size =
     (let has_more = page_size < length items in
      \<lparr>kp_items = (if has_more then take page_size items else items), kp_has_more = has_more\<rparr>)"

definition next_cursor_from_last_id :: "('r \<Rightarrow> int) \<Rightarrow> 'r keyset_page \<Rightarrow> string option" where
  "next_cursor_from_last_id keyset_id page =
     (if \<not> kp_has_more page then None
      else if kp_items page = [] then None
      else Some (show_int (keyset_id (last (kp_items page)))))"

text \<open>\<open>WHERE .. ORDER BY .. LIMIT .. OFFSET\<close> with its count, and
  \<open>WHERE .. AND id < before ORDER BY id DESC LIMIT page_size + 1\<close>.\<close>

definition offset_window ::
  "offset_params \<Rightarrow> ('r \<Rightarrow> bool) \<Rightarrow> ('r \<Rightarrow> 'o::linorder) \<Rightarrow> 'r list \<Rightarrow> 'r offset_page" where
  "offset_window params P order_by rows =
     \<lparr>of_items = take (nat (op_page_size params))
        (drop (nat (op_offset params)) (sort_key order_by (filter P rows))),
      of_total_items = int (length (filter P rows))\<rparr>"

definition keyset_rows ::
  "('r \<Rightarrow> bool) \<Rightarrow> ('r \<Rightarrow> int) \<Rightarrow> int option \<Rightarrow> nat \<Rightarrow> 'r list \<Rightarrow> 'r list" where
  "keyset_rows P row_id before_id fetch_limit rows =
     take fetch_limit (sort_key (\<lambda>r. - row_id r)
       (filter (\<lambda>r. P r \<and> (case before_id of None \<Rightarrow> True | Some before \<Rightarrow> row_id r < before)) rows))"

definition environment_matches :: "string option \<Rightarrow> string \<Rightarrow> bool" where
  "environment_matches environment e \<longleftrightarrow> environment = None \<or> environment = Some e"

subsection \<open>Policies of the tenants\<close>

text \<open>A row is found by its key and carries its columns and the version counter.\<close>

type_synonym ('k, 'c) versioned = "('k \<times> 'c \<times> int) list"

text \<open>\<open>INSERT .. ON CONFLICT DO UPDATE SET .., version = version + 1 RETURNING version\<close>.\<close>

definition upsert_row :: "'k \<Rightarrow> 'c \<Rightarrow> ('k, 'c) versioned \<Rightarrow> ('k, 'c) versioned \<times> int" where
  "upsert_row k columns rows =
     (let version = (case map_of rows k of None \<Rightarrow> 1 | Some (_, version) \<Rightarrow> version + 1) in
      (AList.update k (columns, version) rows, version))"

record upsert_cors =
  uc_tenant_id :: string
  uc_environment :: string
  uc_allow_all_origins :: bool
  uc_allowed_origins :: "string list"
  uc_allow_credentials :: bool

record cors_record = upsert_cors +
  uc_version :: int

record upsert_rate_limit =
  ul_tenant_id :: string
  ul_environment :: string
  ul_tier_key :: string
  ul_max_requests :: nat
  ul_window_secs :: nat
  ul_enabled :: bool

record rate_limit_record = upsert_rate_limit +
  ul_version :: int

record upsert_profile =
  up_tenant_id :: string
  up_environment :: string
  up_rate_limit_enabled :: "bool option"
  up_max_content_length :: "int option"
  up_max_concurrent_requests :: "nat option"

record profile_record = upsert_profile +
  up_version :: int

type_synonym cors_table = "(string \<times> string, cors_policy_row) versioned"
type_synonym rate_limit_table = "(string \<times> string \<times> string, rate_limit_policy_row) versioned"
type_synonym profile_table = "(string \<times> string, tenant_profile_row) versioned"

definition stored_json_error :: repository_error where
  "stored_json_error = StoredJson ''stored configuration payload is corrupt''"

definition parse_allowed_origins_json ::
  "(string \<Rightarrow> string + string list) \<Rightarrow> string \<Rightarrow> repository_error + string list" where
  "parse_allowed_origins_json decode json = map_err (\<lambda>_. stored_json_error) (decode json)"

definition cors_record_of_row ::
  "(string \<Rightarrow> string + string list) \<Rightarrow> (string \<times> string) \<times> cors_policy_row \<times> int
     \<Rightarrow> repository_error + cors_record" where
  "cors_record_of_row decode row =
     (case row of ((tenant, env), c, version) \<Rightarrow>
        res_bind (parse_allowed_origins_json decode (cw_allowed_origins c)) (\<lambda>origins. Inr
          \<lparr>uc_tenant_id = tenant, uc_environment = env,
           uc_allow_all_origins = (cw_allow_all_origins c \<noteq> 0), uc_allowed_origins = origins,
           uc_allow_credentials = (cw_allow_credentials c \<noteq> 0), uc_version = version\<rparr>))"

definition list_cors_policies_rows ::
  "(string \<Rightarrow> 'o::linorder) \<Rightarrow> (string \<Rightarrow> string + string list) \<Rightarrow> string \<Rightarrow> string option
     \<Rightarrow> offset_params \<Rightarrow> cors_table \<Rightarrow> repository_error + cors_record offset_page" where
  "list_cors_policies_rows coll decode tenant_id environment params rows =
     (let page = offset_window params
            (\<lambda>((t, e), _). environment_matches environment e \<and> t = tenant_id)
            (\<lambda>((t, e), _). (coll t, coll e)) rows
      in res_bind (res_map (cors_record_of_row decode) (of_items page))
           (\<lambda>items. Inr \<lparr>of_items = items, of_total_items = of_total_items page\<rparr>))"

definition bool_int :: "bool \<Rightarrow> int" where
  "bool_int b = (if b then 1 else 0)"

definition upsert_cors_policy_rows ::
  "(string list \<Rightarrow> string) \<Rightarrow> upsert_cors \<Rightarrow> cors_table \<Rightarrow> cors_table \<times> cors_record" where
  "upsert_cors_policy_rows encode body rows =
     (case upsert_row (uc_tenant_id body, uc_environment body)
             \<lparr>cw_allow_all_origins = bool_int (uc_allow_all_origins body),
              cw_allowed_origins = encode (uc_allowed_origins body),
              cw_allow_credentials = bool_int (uc_allow_credentials body)\<rparr> rows of
        (rows, version) \<Rightarrow> (rows,
          \<lparr>uc_tenant_id = uc_tenant_id body, uc_environment = uc_environment body,
           uc_allow_all_origins = uc_allow_all_origins body,
           uc_allowed_origins = uc_allowed_origins body,
           uc_allow_credentials = uc_allow_credentials body, uc_version = version\<rparr>))"

text \<open>\<open>row.3.max(0) as u32\<close> keeps the low 32 bits.\<close>

definition rate_limit_record_of_row ::
  "(string \<times> string \<times> string) \<times> rate_limit_policy_row \<times> int \<Rightarrow> rate_limit_record" where
  "rate_limit_record_of_row row =
     (case row of ((tenant, env, tier), c, version) \<Rightarrow>
        \<lparr>ul_tenant_id = tenant, ul_environment = env, ul_tier_key = tier,
         ul_max_requests = nat (max (rw_max_requests c) 0 mod 2 ^ 32),
         ul_window_secs = nat (max (rw_window_secs c) 1), ul_enabled = (rw_enabled c \<noteq> 0),
         ul_version = version\<rparr>)"

definition list_rate_limit_policies_rows ::
  "(string \<Rightarrow> 'o::linorder) \<Rightarrow> string \<Rightarrow> string option \<Rightarrow> offset_params \<Rightarrow> rate_limit_table
     \<Rightarrow> rate_limit_record offset_page" where
  "list_rate_limit_policies_rows coll tenant_id environment params rows =
     (let page = offset_window params
            (\<lambda>((t, e, _), _). environment_matches environment e \<and> t = tenant_id)
            (\<lambda>((t, e, tier), _). (coll t, coll e, coll tier)) rows
      in \<lparr>of_items = map rate_limit_record_of_row (of_items page),
          of_total_items = of_total_items page\<rparr>)"

text \<open>\<open>window_secs as i64\<close> wraps at the sign bit.\<close>

definition as_i64 :: "nat \<Rightarrow> int" where
  "as_i64 n = sint (word_of_nat n :: 64 word)"

definition upsert_rate_limit_policy_rows ::
  "upsert_rate_limit \<Rightarrow> rate_limit_table \<Rightarrow> rate_limit_table \<times> rate_limit_record" where
  "upsert_rate_limit_policy_rows body rows =
     (case upsert_row (ul_tenant_id body, ul_environment body, ul_tier_key body)
             \<lparr>rw_max_requests = int (ul_max_requests body),
              rw_window_secs = as_i64 (ul_window_secs body),
              rw_enabled = bool_int (ul_enabled body)\<rparr> rows of
        (rows, version) \<Rightarrow> (rows,
          \<lparr>ul_tenant_id = ul_tenant_id body, ul_environment = ul_environment body,
           ul_tier_key = ul_tier_key body, ul_max_requests = ul_max_requests body,
           ul_window_secs = ul_window_secs body, ul_enabled = ul_enabled body,
           ul_version = version\<rparr>))"

definition profile_record_of_row ::
  "(string \<times> string) \<times> tenant_profile_row \<times> int \<Rightarrow> profile_record" where
  "profile_record_of_row row =
     (case row of ((tenant, env), c, version) \<Rightarrow>
        \<lparr>up_tenant_id = tenant, up_environment = env,
         up_rate_limit_enabled = map_option (\<lambda>v. v \<noteq> 0) (tw_rate_limit_enabled c),
         up_max_content_length = tw_max_content_length c,
         up_max_concurrent_requests = Option.bind (tw_max_concurrent_requests c)
           (\<lambda>v. if max v 0 < 2 ^ 32 then Some (nat (max v 0)) else None),
         up_version = version\<rparr>)"

definition list_tenant_runtime_profiles_rows ::
  "(string \<Rightarrow> 'o::linorder) \<Rightarrow> string \<Rightarrow> string option \<Rightarrow> offset_params \<Rightarrow> profile_table
     \<Rightarrow> profile_record offset_page" where
  "list_tenant_runtime_profiles_rows coll tenant_id environment params rows =
     (let page = offset_window params
            (\<lambda>((t, e), _). environment_matches environment e \<and> t = tenant_id)
            (\<lambda>((t, e), _). (coll t, coll e)) rows
      in \<lparr>of_items = map profile_record_of_row (of_items page),
          of_total_items = of_total_items page\<rparr>)"

definition upsert_tenant_runtime_profile_rows ::
  "upsert_profile \<Rightarrow> profile_table \<Rightarrow> profile_table \<times> profile_record" where
  "upsert_tenant_runtime_profile_rows body rows =
     (case upsert_row (up_tenant_id body, up_environment body)
             \<lparr>tw_rate_limit_enabled = map_option bool_int (up_rate_limit_enabled body),
              tw_max_content_length = up_max_content_length body,
              tw_max_concurrent_requests = map_option int (up_max_concurrent_requests body)\<rparr> rows of
        (rows, version) \<Rightarrow> (rows,
          \<lparr>up_tenant_id = up_tenant_id body, up_environment = up_environment body,
           up_rate_limit_enabled = up_rate_limit_enabled body,
           up_max_content_length = up_max_content_length body,
           up_max_concurrent_requests = up_max_concurrent_requests body, up_version = version\<rparr>))"

subsection \<open>Recorded events\<close>

datatype event_list_scope = OfTenant string | OfPlatformTenant string | OfPlatformAll

record security_event_record =
  sv_id :: int
  sv_kind :: string
  sv_request_id :: "string option"
  sv_tenant_id :: "string option"
  sv_path :: string
  sv_method :: string
  sv_api_surface :: string
  sv_origin :: "string option"
  sv_detail :: string
  sv_created_at :: int

record audit_event_record =
  ae_id :: int
  ae_request_id :: string
  ae_tenant_id :: "string option"
  ae_user_id :: "string option"
  ae_api_surface :: string
  ae_path :: string
  ae_method :: string
  ae_operation_id :: "string option"
  ae_status_code :: "int option"
  ae_duration_ms :: "int option"
  ae_created_at :: int

text \<open>\<open>tenant_id = $1\<close> holds for no row whose tenant is missing.\<close>

fun in_scope :: "event_list_scope \<Rightarrow> string option \<Rightarrow> bool" where
  "in_scope (OfTenant t) tenant \<longleftrightarrow> tenant = Some t"
| "in_scope (OfPlatformTenant t) tenant \<longleftrightarrow> tenant = Some t"
| "in_scope OfPlatformAll tenant \<longleftrightarrow> True"

definition list_security_events_rows ::
  "event_list_scope \<Rightarrow> int option \<Rightarrow> nat \<Rightarrow> security_event_record list \<Rightarrow> security_event_record keyset_page"
where
  "list_security_events_rows scope before_id page_size rows =
     from_limit_plus_one
       (keyset_rows (\<lambda>r. in_scope scope (sv_tenant_id r)) sv_id before_id (page_size + 1) rows) page_size"

definition list_audit_events_rows ::
  "event_list_scope \<Rightarrow> int option \<Rightarrow> nat \<Rightarrow> audit_event_record list \<Rightarrow> audit_event_record keyset_page"
where
  "list_audit_events_rows scope before_id page_size rows =
     from_limit_plus_one
       (keyset_rows (\<lambda>r. in_scope scope (ae_tenant_id r)) ae_id before_id (page_size + 1) rows) page_size"

subsection \<open>Control nodes\<close>

record register_node =
  nd_node_id :: string
  nd_region :: string
  nd_base_url :: string
  nd_environment :: string

record control_node = register_node +
  nd_status :: string
  nd_last_heartbeat_at :: "int option"
  nd_created_at :: int
  nd_updated_at :: int

type_synonym node_table = "(string \<times> control_node) list"

definition list_control_nodes_rows ::
  "(string \<Rightarrow> 'o::linorder) \<Rightarrow> string option \<Rightarrow> offset_params \<Rightarrow> node_table \<Rightarrow> control_node offset_page"
where
  "list_control_nodes_rows coll environment params rows =
     (let page = offset_window params (\<lambda>(_, n). environment_matches environment (nd_environment n))
            (\<lambda>(node_id, n). (coll (nd_region n), coll node_id)) rows
      in \<lparr>of_items = map snd (of_items page), of_total_items = of_total_items page\<rparr>)"

definition control_node_exists_rows :: "string \<Rightarrow> node_table \<Rightarrow> bool" where
  "control_node_exists_rows node_id rows \<longleftrightarrow> 0 < length (filter (\<lambda>(k, _). k = node_id) rows)"

text \<open>Registering inserts the node unless its key exists, and refreshes it otherwise; \<^const>\<open>None\<close>
  is that a statement touched no row.\<close>

definition insert_control_node :: "register_node \<Rightarrow> int \<Rightarrow> node_table \<Rightarrow> (node_table \<times> control_node) option" where
  "insert_control_node body now rows =
     (if map_of rows (nd_node_id body) \<noteq> None then None
      else (let row = \<lparr>nd_node_id = nd_node_id body, nd_region = nd_region body,
                  nd_base_url = nd_base_url body, nd_environment = nd_environment body,
                  nd_status = ''registered'', nd_last_heartbeat_at = Some now,
                  nd_created_at = now, nd_updated_at = now\<rparr>
            in Some (AList.update (nd_node_id body) row rows, row)))"

definition refresh_control_node :: "register_node \<Rightarrow> int \<Rightarrow> node_table \<Rightarrow> (node_table \<times> control_node) option" where
  "refresh_control_node body now rows =
     map_option (\<lambda>old.
       let row = old\<lparr>nd_region := nd_region body, nd_base_url := nd_base_url body,
             nd_environment := nd_environment body, nd_status := ''registered'',
             nd_last_heartbeat_at := Some now, nd_updated_at := now\<rparr>
       in (AList.update (nd_node_id body) row rows, row)) (map_of rows (nd_node_id body))"

definition register_control_node_rows ::
  "register_node \<Rightarrow> int \<Rightarrow> node_table \<Rightarrow> node_table \<times> (repository_error + control_node \<times> bool)" where
  "register_control_node_rows body now rows =
     (case insert_control_node body now rows of
        Some (rows, row) \<Rightarrow> (rows, Inr (row, True))
      | None \<Rightarrow> (case refresh_control_node body now rows of
          Some (rows, row) \<Rightarrow> (rows, Inr (row, False))
        | None \<Rightarrow> (rows, Inl (Database ''control node missing after register update''))))"

definition node_not_found :: "string \<Rightarrow> repository_error" where
  "node_not_found node_id = Database (''control node '' @ node_id @ '' not found'')"

definition heartbeat_control_node_rows ::
  "string \<Rightarrow> int \<Rightarrow> node_table \<Rightarrow> node_table \<times> (repository_error + control_node)" where
  "heartbeat_control_node_rows node_id now rows =
     (case map_of rows node_id of
        None \<Rightarrow> (rows, Inl (node_not_found node_id))
      | Some old \<Rightarrow>
          (let row = old\<lparr>nd_status := ''online'', nd_last_heartbeat_at := Some now, nd_updated_at := now\<rparr>
           in (AList.update node_id row rows, Inr row)))"

definition delete_control_node_rows ::
  "string \<Rightarrow> node_table \<Rightarrow> node_table \<times> (repository_error + unit)" where
  "delete_control_node_rows node_id rows =
     (case map_of rows node_id of
        None \<Rightarrow> (rows, Inl (node_not_found node_id))
      | Some _ \<Rightarrow> (AList.delete node_id rows, Inr ()))"

subsection \<open>Paging by cursors\<close>

text \<open>\<open>parse_keyset_id_cursor\<close> of \<open>pagination.rs\<close> of the route crate; the error is the title of
  the result code for an invalid parameter.\<close>

definition parse_keyset_id_cursor :: "string \<Rightarrow> string option \<Rightarrow> string + int option" where
  "parse_keyset_id_cursor invalid_parameter cursor =
     (case opt_filter (\<lambda>value. value \<noteq> []) (map_option trim cursor) of
        None \<Rightarrow> Inr None
      | Some value \<Rightarrow> (case parse_signed i64_max value of
          None \<Rightarrow> Inl invalid_parameter
        | Some before_id \<Rightarrow> Inr (Some before_id)))"

text \<open>A client that follows the cursors from page to page.\<close>

fun follow_cursors ::
  "(int option \<Rightarrow> 'r keyset_page) \<Rightarrow> ('r \<Rightarrow> int) \<Rightarrow> nat \<Rightarrow> string option \<Rightarrow> 'r list option" where
  "follow_cursors list_page row_id 0 cursor = None"
| "follow_cursors list_page row_id (Suc fuel) cursor =
     (case parse_keyset_id_cursor [] cursor of
        Inl _ \<Rightarrow> None
      | Inr before_id \<Rightarrow>
          (let page = list_page before_id in
           case next_cursor_from_last_id row_id page of
             None \<Rightarrow> Some (kp_items page)
           | Some next_cursor \<Rightarrow>
               map_option (append (kp_items page))
                 (follow_cursors list_page row_id fuel (Some next_cursor))))"

lemma parse_signed_show_int:
  assumes "- int m - 1 \<le> i" and "i \<le> int m"
  shows "parse_signed m (show_int i) = Some i"
proof (cases "i < 0")
  case True
  then have "parse_digits (m + 1) (show_nat (nat (- i))) = Some (nat (- i))"
    using assms by (intro parse_digits_show_nat) linarith
  with True show ?thesis by (simp add: show_int_def)
next
  case False
  obtain c s where cs: "show_nat (nat i) = c # s" by (metis show_nat_not_Nil list.exhaust)
  then have "is_ascii_digit c" using show_nat_digits [of c "nat i"] by simp
  then have "c \<noteq> CHR ''+''" "c \<noteq> CHR ''-''" by (auto simp: is_ascii_digit_def)
  moreover have "parse_digits m (c # s) = Some (nat i)"
    using parse_digits_show_nat [of "nat i" m] assms(2) False unfolding cs by simp
  ultimately show ?thesis using False by (simp add: show_int_def cs)
qed

definition id_in_range :: "int \<Rightarrow> bool" where
  "id_in_range i \<longleftrightarrow> - int i64_max - 1 \<le> i \<and> i \<le> int i64_max"

lemma cursor_roundtrip:
  assumes "id_in_range i"
  shows "parse_keyset_id_cursor e (Some (show_int i)) = Inr (Some i)"
proof -
  have ne: "show_int i \<noteq> []" by (simp add: show_int_def)
  have "\<forall>c \<in> set (show_int i). plain_byte c"
    by (auto simp: show_int_def dest!: show_nat_digits) (auto simp: plain_byte_def is_ascii_digit_def ascii_ws_def)
  then have "trim (show_int i) = show_int i"
    using ne by (intro trim_plain_edges) auto
  moreover have "show_int i \<noteq> []" by (simp add: show_int_def)
  moreover have "parse_signed i64_max (show_int i) = Some i"
    using assms by (intro parse_signed_show_int) (auto simp: id_in_range_def)
  ultimately show ?thesis by (simp add: parse_keyset_id_cursor_def)
qed

text \<open>What a page leaves: the rows in scope below an id, in descending order.\<close>

definition below :: "('r \<Rightarrow> bool) \<Rightarrow> ('r \<Rightarrow> int) \<Rightarrow> int option \<Rightarrow> 'r list \<Rightarrow> 'r list" where
  "below P row_id before_id rows = sort_key (\<lambda>r. - row_id r)
     (filter (\<lambda>r. P r \<and> (case before_id of None \<Rightarrow> True | Some before \<Rightarrow> row_id r < before)) rows)"

lemma sorted_filter_below:
  fixes row_id :: "'r \<Rightarrow> int"
  assumes "sorted (map (\<lambda>r. - row_id r) ys)" and "distinct (map row_id ys)" and "n < length ys"
  shows "filter (\<lambda>r. row_id r < row_id (ys ! n)) ys = drop (Suc n) ys"
proof -
  have split: "ys = take n ys @ ys ! n # drop (Suc n) ys" by (simp add: assms(3) id_take_nth_drop)
  have "sorted (map (\<lambda>r. - row_id r) (take n ys @ ys ! n # drop (Suc n) ys))"
    and d: "distinct (map row_id (take n ys @ ys ! n # drop (Suc n) ys))"
    using assms(1,2) split by simp_all
  then have "\<forall>r \<in> set (take n ys). row_id (ys ! n) \<le> row_id r"
    and le: "\<forall>r \<in> set (drop (Suc n) ys). row_id r \<le> row_id (ys ! n)"
    by (auto simp: sorted_append)
  then have "filter (\<lambda>r. row_id r < row_id (ys ! n)) (take n ys) = []"
    by (auto simp: filter_empty_conv)
  moreover have "filter (\<lambda>r. row_id r < row_id (ys ! n)) (drop (Suc n) ys) = drop (Suc n) ys"
  proof (intro filter_True ballI)
    fix r assume r: "r \<in> set (drop (Suc n) ys)"
    moreover have "row_id (ys ! n) \<notin> row_id ` set (drop (Suc n) ys)" using d by simp
    ultimately have "row_id r \<noteq> row_id (ys ! n)" by (metis imageI)
    with le r show "row_id r < row_id (ys ! n)" by (simp add: order_less_le)
  qed
  ultimately show ?thesis by (subst split) simp
qed

lemma below_step:
  assumes "distinct (map row_id rows)" and "n < length (below P row_id before_id rows)"
  shows "below P row_id (Some (row_id (below P row_id before_id rows ! n))) rows
    = drop (Suc n) (below P row_id before_id rows)"
proof -
  let ?ys = "below P row_id before_id rows" and ?i = "row_id (below P row_id before_id rows ! n)"
  have sorted: "sorted (map (\<lambda>r. - row_id r) ?ys)" by (simp add: below_def)
  have distinct: "distinct (map row_id ?ys)"
    using assms(1) by (simp add: below_def distinct_map_filter distinct_map inj_on_def distinct_sort)
  have "?ys ! n \<in> set ?ys" using assms(2) by simp
  then have "case before_id of None \<Rightarrow> True | Some before \<Rightarrow> ?i < before"
    unfolding below_def by (simp only: set_sort set_filter mem_Collect_eq)
  then have "filter (\<lambda>r. P r \<and> row_id r < ?i) rows = filter (\<lambda>r. row_id r < ?i)
      (filter (\<lambda>r. P r \<and> (case before_id of None \<Rightarrow> True | Some before \<Rightarrow> row_id r < before)) rows)"
    by (auto intro!: filter_cong split: option.splits)
  then have "below P row_id (Some ?i) rows = filter (\<lambda>r. row_id r < ?i) ?ys"
    by (simp add: below_def filter_sort)
  then show ?thesis using sorted_filter_below [OF sorted distinct assms(2)] by simp
qed

definition keyset_page_of ::
  "('r \<Rightarrow> bool) \<Rightarrow> ('r \<Rightarrow> int) \<Rightarrow> nat \<Rightarrow> 'r list \<Rightarrow> int option \<Rightarrow> 'r keyset_page" where
  "keyset_page_of P row_id page_size rows before_id =
     from_limit_plus_one (keyset_rows P row_id before_id (page_size + 1) rows) page_size"

lemma keyset_page_of_below:
  "keyset_page_of P row_id page_size rows before_id =
     \<lparr>kp_items = take page_size (below P row_id before_id rows),
      kp_has_more = (page_size < length (below P row_id before_id rows))\<rparr>"
  by (auto simp: keyset_page_of_def from_limit_plus_one_def keyset_rows_def below_def Let_def)

lemma follow_cursors_complete:
  assumes "distinct (map row_id rows)" and "\<forall>r \<in> set rows. id_in_range (row_id r)" and "0 < page_size"
    and "parse_keyset_id_cursor [] cursor = Inr before_id"
    and "length (below P row_id before_id rows) < fuel"
  shows "follow_cursors (keyset_page_of P row_id page_size rows) row_id fuel cursor
    = Some (below P row_id before_id rows)"
  using assms(4,5)
proof (induction fuel arbitrary: cursor before_id)
  case (Suc fuel)
  let ?ys = "below P row_id before_id rows"
  note page = keyset_page_of_below [of P row_id page_size rows before_id]
  show ?case
  proof (cases "page_size < length ?ys")
    case False
    then show ?thesis using Suc.prems(1)
      by (simp add: keyset_page_of_below next_cursor_from_last_id_def Let_def)
  next
    case True
    let ?i = "row_id (?ys ! (page_size - 1))"
    have n: "page_size - 1 < length ?ys" "Suc (page_size - 1) = page_size" using True assms(3) by simp_all
    have ne: "take page_size ?ys \<noteq> []" using True assms(3) by auto
    have last: "last (take page_size ?ys) = ?ys ! (page_size - 1)"
      using True assms(3) by (simp add: last_conv_nth [OF ne] min_absorb2)
    have "?ys ! (page_size - 1) \<in> set rows"
      using nth_mem [OF n(1)] by (auto simp: below_def)
    then have range: "id_in_range ?i" using assms(2) by blast
    have rest: "below P row_id (Some ?i) rows = drop page_size ?ys"
      using below_step [OF assms(1) n(1)] n(2) by simp
    have "length (below P row_id (Some ?i) rows) < fuel"
      unfolding rest using Suc.prems(2) assms(3) True by simp
    from Suc.IH [OF cursor_roundtrip [OF range] this]
    have "follow_cursors (keyset_page_of P row_id page_size rows) row_id fuel (Some (show_int ?i))
        = Some (drop page_size ?ys)"
      unfolding rest .
    then show ?thesis using Suc.prems(1) True ne last
      by (simp add: page next_cursor_from_last_id_def Let_def)
  qed
qed simp

text \<open>C14: A client that starts without a cursor and follows the one of every page receives, for any
  page size, each recorded event of its scope exactly once and the newest first.\<close>

theorem audit_paging_complete:
  assumes "distinct (map ae_id rows)" and "\<forall>r \<in> set rows. id_in_range (ae_id r)"
    and "0 < page_size" and "length rows < fuel"
  shows "follow_cursors (\<lambda>before_id. list_audit_events_rows scope before_id page_size rows) ae_id fuel None
    = Some (sort_key (\<lambda>r. - ae_id r) (filter (\<lambda>r. in_scope scope (ae_tenant_id r)) rows))"
proof -
  let ?P = "\<lambda>r. in_scope scope (ae_tenant_id r)"
  have "length (below ?P ae_id None rows) < fuel"
    using le_less_trans [OF length_filter_le assms(4), of ?P] by (simp add: below_def)
  from follow_cursors_complete [OF assms(1-3) _ this, of None]
  moreover have "(\<lambda>before_id. list_audit_events_rows scope before_id page_size rows)
      = keyset_page_of ?P ae_id page_size rows"
    by (simp add: fun_eq_iff keyset_page_of_def list_audit_events_rows_def)
  ultimately show ?thesis by (simp add: parse_keyset_id_cursor_def below_def)
qed

definition sample_event :: "int \<Rightarrow> string \<Rightarrow> audit_event_record" where
  "sample_event i t = \<lparr>ae_id = i, ae_request_id = ''r'', ae_tenant_id = Some t, ae_user_id = None,
     ae_api_surface = ''app'', ae_path = ''/p'', ae_method = ''GET'', ae_operation_id = None,
     ae_status_code = Some 200, ae_duration_ms = None, ae_created_at = 0\<rparr>"

theorem audit_paging_complete_witness:
  "follow_cursors (\<lambda>before_id. list_audit_events_rows (OfTenant ''7'') before_id 1
      [sample_event 1 ''7'', sample_event 2 ''8'', sample_event 3 ''7'']) ae_id 4 None
    = Some [sample_event 3 ''7'', sample_event 1 ''7'']"
  using audit_paging_complete
    [of "[sample_event 1 ''7'', sample_event 2 ''8'', sample_event 3 ''7'']" 1 4 "OfTenant ''7''"]
  by (simp add: sample_event_def id_in_range_def i64_max_def)

text \<open>The same holds of the security events.\<close>

lemma security_paging_complete:
  assumes "distinct (map sv_id rows)" and "\<forall>r \<in> set rows. id_in_range (sv_id r)"
    and "0 < page_size" and "length rows < fuel"
  shows "follow_cursors (\<lambda>before_id. list_security_events_rows scope before_id page_size rows) sv_id fuel None
    = Some (sort_key (\<lambda>r. - sv_id r) (filter (\<lambda>r. in_scope scope (sv_tenant_id r)) rows))"
proof -
  let ?P = "\<lambda>r. in_scope scope (sv_tenant_id r)"
  have "length (below ?P sv_id None rows) < fuel"
    using le_less_trans [OF length_filter_le assms(4), of ?P] by (simp add: below_def)
  from follow_cursors_complete [OF assms(1-3) _ this, of None]
  moreover have "(\<lambda>before_id. list_security_events_rows scope before_id page_size rows)
      = keyset_page_of ?P sv_id page_size rows"
    by (simp add: fun_eq_iff keyset_page_of_def list_security_events_rows_def)
  ultimately show ?thesis by (simp add: parse_keyset_id_cursor_def below_def)
qed

end
