(* ===== verification/Admin_Api.thy ===== *)
theory Admin_Api
  imports Admin_Repository
begin

section \<open>The backend API of the control plane\<close>

text \<open>
  Models the crate \<open>sdkwork-routes-web-framework-backend-api\<close>: who may read and change which
  tenant's policies (\<open>tenant_scope.rs\<close>), the validation of what is written
  (\<open>services/validation.rs\<close>), the use cases (\<open>services/admin_service.rs\<close>) and the handlers
  (\<open>handlers.rs\<close>) over the tables of \<open>Admin_Repository\<close> and the policy caches. A result is a
  problem or the data a response carries; how it is written as JSON is left to the serialisers.
\<close>

subsection \<open>Problems\<close>

record api_problem =
  ap_message :: string
  ap_status :: nat

definition ap_bad_request :: "string \<Rightarrow> api_problem" where
  "ap_bad_request m = \<lparr>ap_message = m, ap_status = 400\<rparr>"

definition ap_forbidden :: "string \<Rightarrow> api_problem" where
  "ap_forbidden m = \<lparr>ap_message = m, ap_status = 403\<rparr>"

definition ap_not_found :: "string \<Rightarrow> api_problem" where
  "ap_not_found m = \<lparr>ap_message = m, ap_status = 404\<rparr>"

definition ap_dependency_unavailable :: "string \<Rightarrow> api_problem" where
  "ap_dependency_unavailable m = \<lparr>ap_message = m, ap_status = 503\<rparr>"

definition from_web_framework :: "web_error \<Rightarrow> api_problem" where
  "from_web_framework e = \<lparr>ap_message = message e, ap_status = error_status e\<rparr>"

definition framework_error_kind :: "nat \<Rightarrow> error_kind" where
  "framework_error_kind status =
     (if status = 400 then BadRequest
      else if status = 422 then UnprocessableEntity
      else if status = 403 then Forbidden
      else if status = 404 then NotFound
      else if status = 409 then Conflict
      else if status = 413 then PayloadTooLarge
      else if status = 429 then RateLimitExceeded
      else if status = 503 then DependencyUnavailable
      else if status = 408 then RequestTimeout
      else if status = 405 then MethodNotAllowed
      else if status = 401 then MissingCredentials
      else InternalServerError)"

definition framework_error :: "api_problem \<Rightarrow> web_error" where
  "framework_error p = err_new (framework_error_kind (ap_status p)) (ap_message p)"

fun map_repository_error :: "repository_error \<Rightarrow> api_problem" where
  "map_repository_error (Database m) =
     (if str_contains m ''not found'' then ap_not_found m else ap_dependency_unavailable m)"
| "map_repository_error (StoredJson m) = ap_dependency_unavailable m"

subsection \<open>Tenant scope\<close>

definition perm_tenant_admin :: string where
  "perm_tenant_admin = ''web-framework.tenant.admin''"

definition perm_platform_read :: string where
  "perm_platform_read = ''web-framework.platform.read''"

definition perm_control_plane :: string where
  "perm_control_plane = ''web-framework.control-plane''"

definition require_control_plane :: "request_context \<Rightarrow> api_problem + unit" where
  "require_control_plane ctx =
     (if has_permission ctx perm_control_plane then Inr ()
      else Inl (ap_forbidden (''missing required permission: '' @ perm_control_plane)))"

definition ctx_tenant :: "request_context \<Rightarrow> api_problem + string" where
  "ctx_tenant ctx = map_err from_web_framework (require_tenant_id ctx)"

definition tenant_query_mismatch :: api_problem where
  "tenant_query_mismatch =
     ap_forbidden ''tenant_id query parameter does not match authenticated tenant''"

definition resolve_list_tenant_id :: "request_context \<Rightarrow> string option \<Rightarrow> api_problem + string" where
  "resolve_list_tenant_id ctx query_tenant_id =
     (let requested = opt_filter (\<lambda>value. value \<noteq> []) query_tenant_id in
      if has_permission ctx perm_platform_read then
        (case requested of Some t \<Rightarrow> Inr t | None \<Rightarrow> ctx_tenant ctx)
      else res_bind (ctx_tenant ctx) (\<lambda>tenant.
        case requested of
          Some t \<Rightarrow> if t \<noteq> tenant then Inl tenant_query_mismatch else Inr tenant
        | None \<Rightarrow> Inr tenant))"

definition require_upsert_tenant_id :: "request_context \<Rightarrow> string \<Rightarrow> api_problem + unit" where
  "require_upsert_tenant_id ctx body_tenant_id =
     (if trim body_tenant_id = [] then Inl (ap_bad_request ''tenant_id must not be empty'')
      else if has_permission ctx perm_platform_read then Inr ()
      else res_bind (ctx_tenant ctx) (\<lambda>tenant.
        if body_tenant_id \<noteq> tenant
        then Inl (ap_forbidden ''request tenant_id does not match authenticated tenant'')
        else Inr ()))"

definition require_tenant_admin :: "request_context \<Rightarrow> api_problem + unit" where
  "require_tenant_admin ctx =
     res_bind (ctx_tenant ctx) (\<lambda>_.
     res_bind (map_err from_web_framework (require_app_id ctx)) (\<lambda>_.
       if has_permission ctx perm_tenant_admin then Inr ()
       else Inl (ap_forbidden (''missing required permission: '' @ perm_tenant_admin))))"

definition resolve_audit_event_list_scope ::
  "request_context \<Rightarrow> string option \<Rightarrow> api_problem + event_list_scope" where
  "resolve_audit_event_list_scope ctx query_tenant_id =
     (let requested = opt_filter (\<lambda>value. value \<noteq> []) query_tenant_id in
      res_bind (require_tenant_admin ctx) (\<lambda>_.
        if has_permission ctx perm_platform_read then
          (case requested of Some t \<Rightarrow> Inr (OfPlatformTenant t) | None \<Rightarrow> Inr OfPlatformAll)
        else res_bind (ctx_tenant ctx) (\<lambda>tenant.
          case requested of
            Some t \<Rightarrow> if t \<noteq> tenant then Inl tenant_query_mismatch else Inr (OfTenant tenant)
          | None \<Rightarrow> Inr (OfTenant tenant))))"

definition resolve_security_event_list_scope ::
  "request_context \<Rightarrow> string option \<Rightarrow> api_problem + event_list_scope" where
  "resolve_security_event_list_scope ctx query_tenant_id =
     res_bind (require_control_plane ctx) (\<lambda>_.
       case opt_filter (\<lambda>value. value \<noteq> []) query_tenant_id of
         Some t \<Rightarrow> Inr (OfTenant t)
       | None \<Rightarrow> Inr OfPlatformAll)"

subsection \<open>Validation\<close>

text \<open>\<open>cors_message\<close> is the text of an error of the CORS policy.\<close>

definition check :: "bool \<Rightarrow> string \<Rightarrow> api_problem + unit" where
  "check ok m = (if ok then Inr () else Inl (ap_bad_request m))"

fun checks :: "(bool \<times> string) list \<Rightarrow> api_problem + unit" where
  "checks [] = Inr ()"
| "checks ((ok, m) # rest) = res_bind (check ok m) (\<lambda>_. checks rest)"

definition validate_allowed_origin :: "string \<Rightarrow> api_problem + unit" where
  "validate_allowed_origin origin =
     (let trimmed = trim origin in
      checks [(trimmed \<noteq> [], ''allowed_origins must not contain empty entries''),
        (length trimmed \<le> 2048,
         ''allowed_origins entry exceeds supported maximum length of 2048 characters'')])"

definition validate_cors_upsert :: "(cors_error \<Rightarrow> string) \<Rightarrow> upsert_cors \<Rightarrow> api_problem + unit" where
  "validate_cors_upsert cors_message body =
     res_bind (checks [(trim (uc_environment body) \<noteq> [], ''environment must not be empty''),
       (trim (uc_tenant_id body) \<noteq> [], ''tenant_id must not be empty'')]) (\<lambda>_.
     res_bind
       (if uc_allow_all_origins body then Inr ()
        else res_bind (check (length (uc_allowed_origins body) \<le> 256)
            ''allowed_origins exceeds supported maximum of 256 entries'')
          (\<lambda>_. res_forall validate_allowed_origin (uc_allowed_origins body))) (\<lambda>_.
     if eq_ignore_case (uc_environment body) ''prod'' \<or> eq_ignore_case (uc_environment body) ''staging''
     then map_err (\<lambda>e. ap_bad_request (cors_message e)) (cors_validate_for_production
       \<lparr>co_allow_all_origins = uc_allow_all_origins body, co_allowed_origins = uc_allowed_origins body,
        co_registered_console_hosts = None, co_allowed_methods = [], co_allowed_headers = [],
        co_expose_headers = [], co_allow_credentials = uc_allow_credentials body\<rparr>)
     else Inr ()))"

definition validate_rate_limit_upsert :: "upsert_rate_limit \<Rightarrow> api_problem + unit" where
  "validate_rate_limit_upsert body =
     checks [(trim (ul_tenant_id body) \<noteq> [], ''tenant_id must not be empty''),
       (trim (ul_tier_key body) \<noteq> [], ''tier_key must not be empty''),
       (trim (ul_environment body) \<noteq> [], ''environment must not be empty''),
       (ul_window_secs body \<noteq> 0, ''window_secs must be greater than zero''),
       (ul_window_secs body \<le> 86400, ''window_secs exceeds supported maximum of 86400 seconds''),
       (ul_max_requests body \<le> 1000000, ''max_requests exceeds supported maximum of 1000000''),
       (\<not> (ul_enabled body \<and> ul_max_requests body = 0),
        ''max_requests must be greater than zero when rate limiting is enabled'')]"

definition validate_tenant_runtime_profile_upsert :: "upsert_profile \<Rightarrow> api_problem + unit" where
  "validate_tenant_runtime_profile_upsert body =
     res_bind (checks [(trim (up_tenant_id body) \<noteq> [], ''tenant_id must not be empty''),
       (trim (up_environment body) \<noteq> [], ''environment must not be empty'')]) (\<lambda>_.
     res_bind (case up_max_content_length body of None \<Rightarrow> Inr ()
       | Some max_len \<Rightarrow> checks
           [(max_len \<noteq> 0, ''max_content_length must be greater than zero when set''),
            (max_len \<le> 268435456,
             ''max_content_length exceeds supported maximum of 268435456 bytes'')]) (\<lambda>_.
     case up_max_concurrent_requests body of None \<Rightarrow> Inr ()
     | Some max_concurrent \<Rightarrow> checks
         [(max_concurrent \<noteq> 0, ''max_concurrent_requests must be greater than zero when set''),
          (max_concurrent \<le> 10000,
           ''max_concurrent_requests exceeds supported maximum of 10000'')]))"

definition validate_control_node_id :: "string \<Rightarrow> api_problem + unit" where
  "validate_control_node_id node_id =
     (let trimmed = trim node_id in
      checks [(trimmed \<noteq> [], ''node_id must not be empty''),
        (length trimmed \<le> 128, ''node_id exceeds supported maximum length of 128 characters''),
        (CHR ''/'' \<notin> set trimmed \<and> CHR 0x5C \<notin> set trimmed \<and> \<not> str_contains trimmed ''..'',
         ''node_id contains invalid path characters'')])"

definition validate_control_node_register ::
  "string \<Rightarrow> string \<Rightarrow> string \<Rightarrow> api_problem + unit" where
  "validate_control_node_register node_id base_url environment =
     res_bind (validate_control_node_id node_id) (\<lambda>_.
       checks [(trim base_url \<noteq> [], ''base_url must not be empty''),
         (trim environment \<noteq> [], ''environment must not be empty''),
         (starts_with (trim base_url) ''http://'' \<or> starts_with (trim base_url) ''https://'',
          ''base_url must be an absolute http or https URL'')])"

subsection \<open>The state and what the handlers are given\<close>

record admin_state =
  as_cors :: cors_table
  as_rate_limits :: rate_limit_table
  as_profiles :: profile_table
  as_security_events :: "security_event_record list"
  as_audit_events :: "audit_event_record list"
  as_nodes :: node_table
  as_caches :: "policy_caches option"

text \<open>The data base's collation and the functions of other crates: the JSON text of a list, the
  window of a list request and the title of its error, the bounds of a page, the text of an
  error of the CORS policy.\<close>

record 'o admin_deps =
  dp_coll :: "string \<Rightarrow> 'o"
  dp_encode :: "string list \<Rightarrow> string"
  dp_decode :: "string \<Rightarrow> string + string list"
  dp_validated_offset_list_params :: "int option \<Rightarrow> int option \<Rightarrow> string + offset_params"
  dp_invalid_parameter :: string
  dp_default_list_page_size :: int
  dp_max_list_page_size :: int
  dp_cors_message :: "cors_error \<Rightarrow> string"

record offset_query =
  oq_environment :: "string option"
  oq_tenant_id :: "string option"
  oq_page :: "int option"
  oq_page_size :: "int option"
  oq_limit :: "int option"

record keyset_query =
  kq_tenant_id :: "string option"
  kq_cursor :: "string option"
  kq_page_size :: "int option"
  kq_limit :: "int option"

record register_request =
  rq_node_id :: string
  rq_region :: "string option"
  rq_base_url :: string
  rq_environment :: string

definition validated_offset_params ::
  "'o admin_deps \<Rightarrow> int option \<Rightarrow> int option \<Rightarrow> int option \<Rightarrow> string + offset_params" where
  "validated_offset_params d page page_size legacy_limit =
     (let merged = opt_or page_size legacy_limit in
      if merged = Some 0 then Inl (dp_invalid_parameter d)
      else dp_validated_offset_list_params d page merged)"

definition validated_keyset_page_size ::
  "'o admin_deps \<Rightarrow> int option \<Rightarrow> int option \<Rightarrow> string + nat" where
  "validated_keyset_page_size d page_size legacy_limit =
     (case opt_or page_size legacy_limit of
        None \<Rightarrow> Inr (nat (dp_default_list_page_size d))
      | Some value \<Rightarrow>
          if value = 0 \<or> value < 0 \<or> dp_max_list_page_size d < value
          then Inl (dp_invalid_parameter d) else Inr (nat value))"

definition invalidate_policy_cache :: "string \<Rightarrow> string \<Rightarrow> admin_state \<Rightarrow> admin_state" where
  "invalidate_policy_cache tenant_id environment s =
     s\<lparr>as_caches := map_option (invalidate_tenant_environment tenant_id environment) (as_caches s)\<rparr>"

subsection \<open>Use cases\<close>

definition service_upsert_cors ::
  "'o admin_deps \<Rightarrow> upsert_cors \<Rightarrow> admin_state \<Rightarrow> admin_state \<times> (api_problem + cors_record)" where
  "service_upsert_cors d body s =
     (case validate_cors_upsert (dp_cors_message d) body of
        Inl p \<Rightarrow> (s, Inl p)
      | Inr _ \<Rightarrow> (case upsert_cors_policy_rows (dp_encode d) body (as_cors s) of
          (rows, r) \<Rightarrow> (invalidate_policy_cache (uc_tenant_id body) (uc_environment body)
            (s\<lparr>as_cors := rows\<rparr>), Inr r)))"

definition service_upsert_rate_limit ::
  "upsert_rate_limit \<Rightarrow> admin_state \<Rightarrow> admin_state \<times> (api_problem + rate_limit_record)" where
  "service_upsert_rate_limit body s =
     (case validate_rate_limit_upsert body of
        Inl p \<Rightarrow> (s, Inl p)
      | Inr _ \<Rightarrow> (case upsert_rate_limit_policy_rows body (as_rate_limits s) of
          (rows, r) \<Rightarrow> (invalidate_policy_cache (ul_tenant_id body) (ul_environment body)
            (s\<lparr>as_rate_limits := rows\<rparr>), Inr r)))"

definition service_upsert_profile ::
  "upsert_profile \<Rightarrow> admin_state \<Rightarrow> admin_state \<times> (api_problem + profile_record)" where
  "service_upsert_profile body s =
     (case validate_tenant_runtime_profile_upsert body of
        Inl p \<Rightarrow> (s, Inl p)
      | Inr _ \<Rightarrow> (case upsert_tenant_runtime_profile_rows body (as_profiles s) of
          (rows, r) \<Rightarrow> (invalidate_policy_cache (up_tenant_id body) (up_environment body)
            (s\<lparr>as_profiles := rows\<rparr>), Inr r)))"

definition service_list_cors ::
  "'o::linorder admin_deps \<Rightarrow> string \<Rightarrow> string option \<Rightarrow> offset_params \<Rightarrow> admin_state
     \<Rightarrow> api_problem + cors_record offset_page" where
  "service_list_cors d tenant_id environment params s =
     map_err map_repository_error (list_cors_policies_rows (dp_coll d) (dp_decode d)
       tenant_id environment params (as_cors s))"

definition service_list_rate_limits ::
  "'o::linorder admin_deps \<Rightarrow> string \<Rightarrow> string option \<Rightarrow> offset_params \<Rightarrow> admin_state
     \<Rightarrow> rate_limit_record offset_page" where
  "service_list_rate_limits d tenant_id environment params s =
     list_rate_limit_policies_rows (dp_coll d) tenant_id environment params (as_rate_limits s)"

definition service_list_profiles ::
  "'o::linorder admin_deps \<Rightarrow> string \<Rightarrow> string option \<Rightarrow> offset_params \<Rightarrow> admin_state
     \<Rightarrow> profile_record offset_page" where
  "service_list_profiles d tenant_id environment params s =
     list_tenant_runtime_profiles_rows (dp_coll d) tenant_id environment params (as_profiles s)"

definition service_list_security_events ::
  "event_list_scope \<Rightarrow> int option \<Rightarrow> nat \<Rightarrow> admin_state
     \<Rightarrow> security_event_record keyset_page \<times> string option" where
  "service_list_security_events scope before_id page_size s =
     (let page = list_security_events_rows scope before_id page_size (as_security_events s)
      in (page, next_cursor_from_last_id sv_id page))"

definition service_list_audit_events ::
  "event_list_scope \<Rightarrow> int option \<Rightarrow> nat \<Rightarrow> admin_state
     \<Rightarrow> audit_event_record keyset_page \<times> string option" where
  "service_list_audit_events scope before_id page_size s =
     (let page = list_audit_events_rows scope before_id page_size (as_audit_events s)
      in (page, next_cursor_from_last_id ae_id page))"

definition service_list_nodes ::
  "'o::linorder admin_deps \<Rightarrow> string option \<Rightarrow> offset_params \<Rightarrow> admin_state \<Rightarrow> control_node offset_page" where
  "service_list_nodes d environment params s =
     list_control_nodes_rows (dp_coll d) environment params (as_nodes s)"

definition service_heartbeat_node ::
  "string \<Rightarrow> int \<Rightarrow> admin_state \<Rightarrow> admin_state \<times> (api_problem + control_node)" where
  "service_heartbeat_node node_id now s =
     (case heartbeat_control_node_rows node_id now (as_nodes s) of
        (rows, r) \<Rightarrow> (s\<lparr>as_nodes := rows\<rparr>, map_err map_repository_error r))"

definition service_delete_node :: "string \<Rightarrow> admin_state \<Rightarrow> admin_state \<times> (api_problem + unit)" where
  "service_delete_node node_id s =
     (case delete_control_node_rows node_id (as_nodes s) of
        (rows, r) \<Rightarrow> (s\<lparr>as_nodes := rows\<rparr>, map_err map_repository_error r))"

definition service_register_node ::
  "register_request \<Rightarrow> int \<Rightarrow> admin_state \<Rightarrow> admin_state \<times> (api_problem + control_node \<times> bool)" where
  "service_register_node body now s =
     (case validate_control_node_register (rq_node_id body) (rq_base_url body) (rq_environment body) of
        Inl p \<Rightarrow> (s, Inl p)
      | Inr _ \<Rightarrow>
          (case register_control_node_rows
                  \<lparr>nd_node_id = rq_node_id body, nd_region = unwrap_or (rq_region body) ''default'',
                   nd_base_url = rq_base_url body, nd_environment = rq_environment body\<rparr> now (as_nodes s) of
             (rows, r) \<Rightarrow> (s\<lparr>as_nodes := rows\<rparr>, map_err map_repository_error r)))"

definition runtime_defaults :: "(bool \<times> nat \<times> bool \<times> bool \<times> bool) \<times> (bool \<times> nat \<times> bool \<times> bool) \<times> optional_features" where
  "runtime_defaults =
     ((rl_enabled (sp_rate_limit security_production),
       rl_max_requests_per_window (sp_rate_limit security_production),
       jc_enabled (sp_json_content_type security_production),
       co_allow_all_origins (sp_cors security_production),
       hs_strict_transport_security (sp_header_security security_production) \<noteq> None),
      (rl_enabled (sp_rate_limit security_default),
       rl_max_requests_per_window (sp_rate_limit security_default),
       jc_enabled (sp_json_content_type security_default),
       co_allow_all_origins (sp_cors security_default)),
      features_production_sqlx)"

subsection \<open>Handlers\<close>

text \<open>The routes with their handlers: a request, and the data of its answer. The pages carry what
  is passed to the utilities crate, which builds the envelope.\<close>

datatype admin_request =
    ListCors offset_query
  | UpsertCors upsert_cors
  | ListRateLimits offset_query
  | UpsertRateLimit upsert_rate_limit
  | ListProfiles offset_query
  | UpsertProfile upsert_profile
  | ListSecurityEvents keyset_query
  | ListAuditEvents keyset_query
  | ListNodes offset_query
  | RegisterNode register_request
  | HeartbeatNode string
  | DeleteNode string
  | RuntimeDefaults
  | OptionalFeatures

datatype admin_response =
    CorsPage "cors_record offset_page"
  | CorsWritten cors_record
  | RateLimitPage "rate_limit_record offset_page"
  | RateLimitWritten rate_limit_record
  | ProfilePage "profile_record offset_page"
  | ProfileWritten profile_record
  | SecurityEventPage "security_event_record keyset_page" "string option"
  | AuditEventPage "audit_event_record keyset_page" "string option"
  | NodePage "control_node offset_page"
  | NodeCreated control_node
  | NodeWritten control_node
  | NoContent
  | RuntimeDefaultsSnapshot "(bool \<times> nat \<times> bool \<times> bool \<times> bool) \<times> (bool \<times> nat \<times> bool \<times> bool) \<times> optional_features"
  | OptionalFeaturesSnapshot optional_features optional_features

text \<open>The part the three policy lists share: permission, tenant and window.\<close>

definition tenant_list ::
  "'o admin_deps \<Rightarrow> request_context \<Rightarrow> offset_query \<Rightarrow> (string \<Rightarrow> offset_params \<Rightarrow> api_problem + 'a)
     \<Rightarrow> api_problem + 'a" where
  "tenant_list d ctx query list_rows =
     res_bind (require_tenant_admin ctx) (\<lambda>_.
     res_bind (resolve_list_tenant_id ctx (oq_tenant_id query)) (\<lambda>tenant_id.
     res_bind (map_err ap_bad_request
       (validated_offset_params d (oq_page query) (oq_page_size query) (oq_limit query)))
       (list_rows tenant_id)))"

definition event_list ::
  "'o admin_deps \<Rightarrow> keyset_query \<Rightarrow> (int option \<Rightarrow> nat \<Rightarrow> 'a) \<Rightarrow> api_problem + 'a" where
  "event_list d query list_rows =
     res_bind (map_err ap_bad_request
       (validated_keyset_page_size d (kq_page_size query) (kq_limit query))) (\<lambda>page_size.
     res_bind (map_err ap_bad_request
       (parse_keyset_id_cursor (dp_invalid_parameter d) (kq_cursor query))) (\<lambda>before_id.
     Inr (list_rows before_id page_size)))"

definition guarded :: "api_problem + unit \<Rightarrow> ('s \<Rightarrow> 's \<times> (api_problem + 'a)) \<Rightarrow> 's \<Rightarrow> 's \<times> (api_problem + 'a)"
where
  "guarded allowed f s = (case allowed of Inl p \<Rightarrow> (s, Inl p) | Inr _ \<Rightarrow> f s)"

definition respond :: "('a \<Rightarrow> 'b) \<Rightarrow> 's \<times> ('e + 'a) \<Rightarrow> 's \<times> ('e + 'b)" where
  "respond f sr = (case sr of (s, Inl e) \<Rightarrow> (s, Inl e) | (s, Inr a) \<Rightarrow> (s, Inr (f a)))"

definition list_cors_policies ::
  "'o::linorder admin_deps \<Rightarrow> request_context \<Rightarrow> offset_query \<Rightarrow> admin_state
     \<Rightarrow> admin_state \<times> (api_problem + admin_response)" where
  "list_cors_policies d ctx query s =
     (s, tenant_list d ctx query (\<lambda>tenant_id params.
        res_bind (service_list_cors d tenant_id (oq_environment query) params s)
          (\<lambda>page. Inr (CorsPage page))))"

definition upsert_cors_policy ::
  "'o admin_deps \<Rightarrow> request_context \<Rightarrow> upsert_cors \<Rightarrow> admin_state
     \<Rightarrow> admin_state \<times> (api_problem + admin_response)" where
  "upsert_cors_policy d ctx body s =
     guarded (res_bind (require_tenant_admin ctx) (\<lambda>_. require_upsert_tenant_id ctx (uc_tenant_id body)))
       (\<lambda>s. respond CorsWritten (service_upsert_cors d body s)) s"

definition list_rate_limit_policies ::
  "'o::linorder admin_deps \<Rightarrow> request_context \<Rightarrow> offset_query \<Rightarrow> admin_state
     \<Rightarrow> admin_state \<times> (api_problem + admin_response)" where
  "list_rate_limit_policies d ctx query s =
     (s, tenant_list d ctx query (\<lambda>tenant_id params. Inr (RateLimitPage
        (service_list_rate_limits d tenant_id (oq_environment query) params s))))"

definition upsert_rate_limit_policy ::
  "request_context \<Rightarrow> upsert_rate_limit \<Rightarrow> admin_state
     \<Rightarrow> admin_state \<times> (api_problem + admin_response)" where
  "upsert_rate_limit_policy ctx body s =
     guarded (res_bind (require_tenant_admin ctx) (\<lambda>_. require_upsert_tenant_id ctx (ul_tenant_id body)))
       (\<lambda>s. respond RateLimitWritten (service_upsert_rate_limit body s)) s"

definition list_tenant_runtime_profiles ::
  "'o::linorder admin_deps \<Rightarrow> request_context \<Rightarrow> offset_query \<Rightarrow> admin_state
     \<Rightarrow> admin_state \<times> (api_problem + admin_response)" where
  "list_tenant_runtime_profiles d ctx query s =
     (s, tenant_list d ctx query (\<lambda>tenant_id params. Inr (ProfilePage
        (service_list_profiles d tenant_id (oq_environment query) params s))))"

definition upsert_tenant_runtime_profile ::
  "request_context \<Rightarrow> upsert_profile \<Rightarrow> admin_state
     \<Rightarrow> admin_state \<times> (api_problem + admin_response)" where
  "upsert_tenant_runtime_profile ctx body s =
     guarded (res_bind (require_tenant_admin ctx) (\<lambda>_. require_upsert_tenant_id ctx (up_tenant_id body)))
       (\<lambda>s. respond ProfileWritten (service_upsert_profile body s)) s"

definition list_security_events ::
  "'o admin_deps \<Rightarrow> request_context \<Rightarrow> keyset_query \<Rightarrow> admin_state
     \<Rightarrow> admin_state \<times> (api_problem + admin_response)" where
  "list_security_events d ctx query s =
     (s, res_bind (resolve_security_event_list_scope ctx (kq_tenant_id query)) (\<lambda>scope.
        event_list d query (\<lambda>before_id page_size.
          case service_list_security_events scope before_id page_size s of
            (page, next_cursor) \<Rightarrow> SecurityEventPage page next_cursor)))"

definition list_audit_events ::
  "'o admin_deps \<Rightarrow> request_context \<Rightarrow> keyset_query \<Rightarrow> admin_state
     \<Rightarrow> admin_state \<times> (api_problem + admin_response)" where
  "list_audit_events d ctx query s =
     (s, res_bind (resolve_audit_event_list_scope ctx (kq_tenant_id query)) (\<lambda>scope.
        event_list d query (\<lambda>before_id page_size.
          case service_list_audit_events scope before_id page_size s of
            (page, next_cursor) \<Rightarrow> AuditEventPage page next_cursor)))"

definition list_control_nodes ::
  "'o::linorder admin_deps \<Rightarrow> request_context \<Rightarrow> offset_query \<Rightarrow> admin_state
     \<Rightarrow> admin_state \<times> (api_problem + admin_response)" where
  "list_control_nodes d ctx query s =
     (s, res_bind (require_control_plane ctx) (\<lambda>_.
        res_bind (map_err ap_bad_request
          (validated_offset_params d (oq_page query) (oq_page_size query) (oq_limit query))) (\<lambda>params.
        Inr (NodePage (service_list_nodes d (oq_environment query) params s)))))"

definition register_control_node ::
  "int \<Rightarrow> request_context \<Rightarrow> register_request \<Rightarrow> admin_state
     \<Rightarrow> admin_state \<times> (api_problem + admin_response)" where
  "register_control_node now ctx body s =
     guarded (require_control_plane ctx)
       (\<lambda>s. respond (\<lambda>(node, created). if created then NodeCreated node else NodeWritten node)
          (service_register_node body now s)) s"

definition heartbeat_control_node ::
  "int \<Rightarrow> request_context \<Rightarrow> string \<Rightarrow> admin_state
     \<Rightarrow> admin_state \<times> (api_problem + admin_response)" where
  "heartbeat_control_node now ctx node_id s =
     guarded (res_bind (require_control_plane ctx) (\<lambda>_. validate_control_node_id node_id))
       (\<lambda>s. respond NodeWritten (service_heartbeat_node node_id now s)) s"

definition delete_control_node ::
  "request_context \<Rightarrow> string \<Rightarrow> admin_state
     \<Rightarrow> admin_state \<times> (api_problem + admin_response)" where
  "delete_control_node ctx node_id s =
     guarded (res_bind (require_control_plane ctx) (\<lambda>_. validate_control_node_id node_id))
       (\<lambda>s. respond (\<lambda>_. NoContent) (service_delete_node node_id s)) s"

definition runtime_defaults_snapshot ::
  "request_context \<Rightarrow> admin_state
     \<Rightarrow> admin_state \<times> (api_problem + admin_response)" where
  "runtime_defaults_snapshot ctx s =
     (s, res_bind (require_tenant_admin ctx) (\<lambda>_. Inr (RuntimeDefaultsSnapshot runtime_defaults)))"

definition optional_features_snapshot ::
  "request_context \<Rightarrow> admin_state
     \<Rightarrow> admin_state \<times> (api_problem + admin_response)" where
  "optional_features_snapshot ctx s =
     (s, res_bind (require_tenant_admin ctx) (\<lambda>_.
        Inr (OptionalFeaturesSnapshot features_production_sqlx features_default)))"

text \<open>The router of \<open>routes.rs\<close>.\<close>

fun admin_handle ::
  "'o::linorder admin_deps \<Rightarrow> int \<Rightarrow> request_context \<Rightarrow> admin_request \<Rightarrow> admin_state
     \<Rightarrow> admin_state \<times> (api_problem + admin_response)"
where
  "admin_handle d now ctx (ListCors query) s = list_cors_policies d ctx query s"
| "admin_handle d now ctx (UpsertCors body) s = upsert_cors_policy d ctx body s"
| "admin_handle d now ctx (ListRateLimits query) s = list_rate_limit_policies d ctx query s"
| "admin_handle d now ctx (UpsertRateLimit body) s = upsert_rate_limit_policy ctx body s"
| "admin_handle d now ctx (ListProfiles query) s = list_tenant_runtime_profiles d ctx query s"
| "admin_handle d now ctx (UpsertProfile body) s = upsert_tenant_runtime_profile ctx body s"
| "admin_handle d now ctx (ListSecurityEvents query) s = list_security_events d ctx query s"
| "admin_handle d now ctx (ListAuditEvents query) s = list_audit_events d ctx query s"
| "admin_handle d now ctx (ListNodes query) s = list_control_nodes d ctx query s"
| "admin_handle d now ctx (RegisterNode body) s = register_control_node now ctx body s"
| "admin_handle d now ctx (HeartbeatNode node_id) s = heartbeat_control_node now ctx node_id s"
| "admin_handle d now ctx (DeleteNode node_id) s = delete_control_node ctx node_id s"
| "admin_handle d now ctx RuntimeDefaults s = runtime_defaults_snapshot ctx s"
| "admin_handle d now ctx OptionalFeatures s = optional_features_snapshot ctx s"

lemmas admin_handler_defs = list_cors_policies_def upsert_cors_policy_def list_rate_limit_policies_def
  upsert_rate_limit_policy_def list_tenant_runtime_profiles_def upsert_tenant_runtime_profile_def
  list_security_events_def list_audit_events_def list_control_nodes_def register_control_node_def
  heartbeat_control_node_def delete_control_node_def runtime_defaults_snapshot_def
  optional_features_snapshot_def

subsection \<open>A tenant's administrator stays with the tenant\<close>

text \<open>Whose rows an answer shows, and what a state holds of everybody but one tenant.\<close>

fun response_tenants :: "admin_response \<Rightarrow> string option list" where
  "response_tenants (CorsPage p) = map (\<lambda>r. Some (uc_tenant_id r)) (of_items p)"
| "response_tenants (CorsWritten r) = [Some (uc_tenant_id r)]"
| "response_tenants (RateLimitPage p) = map (\<lambda>r. Some (ul_tenant_id r)) (of_items p)"
| "response_tenants (RateLimitWritten r) = [Some (ul_tenant_id r)]"
| "response_tenants (ProfilePage p) = map (\<lambda>r. Some (up_tenant_id r)) (of_items p)"
| "response_tenants (ProfileWritten r) = [Some (up_tenant_id r)]"
| "response_tenants (SecurityEventPage p _) = map sv_tenant_id (kp_items p)"
| "response_tenants (AuditEventPage p _) = map ae_tenant_id (kp_items p)"
| "response_tenants _ = []"

definition rows_of_others ::
  "string \<Rightarrow> admin_state \<Rightarrow> cors_table \<times> rate_limit_table \<times> profile_table \<times> node_table" where
  "rows_of_others t s =
     (filter (\<lambda>((t', _), _). t' \<noteq> t) (as_cors s), filter (\<lambda>((t', _), _). t' \<noteq> t) (as_rate_limits s),
      filter (\<lambda>((t', _), _). t' \<noteq> t) (as_profiles s), as_nodes s)"

lemma filter_update_other: "\<not> P k \<Longrightarrow> filter (\<lambda>(k, _). P k) (AList.update k v rows) = filter (\<lambda>(k, _). P k) rows"
  by (induction rows) auto

lemma upsert_row_others:
  assumes "upsert_row k c rows = (rows', v)" and "\<not> P k"
  shows "filter (\<lambda>(k, _). P k) rows' = filter (\<lambda>(k, _). P k) rows"
  using assms by (auto simp: upsert_row_def Let_def filter_update_other)

lemma offset_window_items: "r \<in> set (of_items (offset_window params P f rows)) \<Longrightarrow> P r"
  by (auto simp: offset_window_def dest!: in_set_takeD in_set_dropD)

lemma list_cors_tenant:
  assumes "list_cors_policies_rows coll decode t e params rows = Inr page" and "r \<in> set (of_items page)"
  shows "uc_tenant_id r = t"
  using assms
  by (auto simp: list_cors_policies_rows_def Let_def res_bind_eq_Inr cors_record_of_row_def
      dest!: res_map_set offset_window_items split: prod.splits)

lemma list_rate_limit_tenant:
  "r \<in> set (of_items (list_rate_limit_policies_rows coll t e params rows)) \<Longrightarrow> ul_tenant_id r = t"
  by (auto simp: list_rate_limit_policies_rows_def Let_def rate_limit_record_of_row_def
      dest!: offset_window_items split: prod.splits)

lemma list_profile_tenant:
  "r \<in> set (of_items (list_tenant_runtime_profiles_rows coll t e params rows)) \<Longrightarrow> up_tenant_id r = t"
  by (auto simp: list_tenant_runtime_profiles_rows_def Let_def profile_record_of_row_def
      dest!: offset_window_items split: prod.splits)

lemma list_audit_scope:
  "r \<in> set (kp_items (list_audit_events_rows scope before n rows)) \<Longrightarrow> in_scope scope (ae_tenant_id r)"
  by (auto simp: list_audit_events_rows_def from_limit_plus_one_def keyset_rows_def Let_def
      dest!: in_set_takeD split: if_splits)

lemma list_audit_scope_all:
  "\<forall>r \<in> set (kp_items (list_audit_events_rows scope before n rows)). in_scope scope (ae_tenant_id r)"
  using list_audit_scope by blast

lemma tenant_list_Inr:
  assumes "tenant_list d ctx query f = Inr resp" and "\<not> has_permission ctx perm_platform_read"
  obtains tenant params where "ctx_tenant ctx = Inr tenant" and "f tenant params = Inr resp"
  using assms
  by (auto simp: tenant_list_def resolve_list_tenant_id_def Let_def res_bind_eq_Inr split: option.splits if_splits)

lemma upsert_allowed:
  assumes "require_upsert_tenant_id ctx t = Inr u" and "\<not> has_permission ctx perm_platform_read"
  shows "ctx_tenant ctx = Inr t"
  using assms by (auto simp: require_upsert_tenant_id_def res_bind_eq_Inr split: if_splits)

lemma audit_scope_own:
  assumes "resolve_audit_event_list_scope ctx q = Inr scope" and "\<not> has_permission ctx perm_platform_read"
  obtains tenant where "ctx_tenant ctx = Inr tenant" and "scope = OfTenant tenant"
  using assms
  by (auto simp: resolve_audit_event_list_scope_def Let_def res_bind_eq_Inr split: option.splits if_splits)

lemma guarded_cases:
  assumes "guarded allowed f s = (s', r)"
  obtains (refused) p where "allowed = Inl p" "s' = s" "r = Inl p"
  | (allowed) "is_ok allowed" "f s = (s', r)"
  using assms by (cases allowed) (auto simp: guarded_def is_ok_def)

definition confined :: "request_context \<Rightarrow> admin_state \<Rightarrow> admin_state \<times> (api_problem + admin_response) \<Rightarrow> bool" where
  "confined ctx s sr \<longleftrightarrow>
     (case snd sr of
        Inl _ \<Rightarrow> fst sr = s
      | Inr resp \<Rightarrow> (\<exists>tenant. ctx_tenant ctx = Inr tenant \<and> set (response_tenants resp) \<subseteq> {Some tenant}
          \<and> rows_of_others tenant (fst sr) = rows_of_others tenant s))"

lemma confined_list:
  assumes "\<not> has_permission ctx perm_platform_read"
    and "\<And>tenant params resp. f tenant params = Inr resp \<Longrightarrow> set (response_tenants resp) \<subseteq> {Some tenant}"
  shows "confined ctx s (s, tenant_list d ctx query f)"
proof (cases "tenant_list d ctx query f")
  case (Inr resp)
  from tenant_list_Inr [OF this assms(1)] obtain tenant params where
    "ctx_tenant ctx = Inr tenant" "f tenant params = Inr resp" .
  with assms(2) show ?thesis by (simp add: confined_def Inr)
qed (simp add: confined_def)

lemma confined_write:
  assumes "\<not> has_permission ctx perm_platform_read"
    and "guarded (res_bind (require_tenant_admin ctx) (\<lambda>_. require_upsert_tenant_id ctx t)) f s = sr"
    and "\<And>s' resp. f s = (s', Inr resp) \<Longrightarrow>
      response_tenants resp = [Some t] \<and> rows_of_others t s' = rows_of_others t s"
    and "\<And>s' p. f s = (s', Inl p) \<Longrightarrow> s' = s"
  shows "confined ctx s sr"
proof -
  obtain s' r where sr: "sr = (s', r)" by (cases sr)
  from guarded_cases [OF assms(2) [unfolded sr]] show ?thesis
  proof cases
    case 1
    then show ?thesis by (simp add: confined_def sr)
  next
    case 2
    from 2(1) have "\<exists>u. require_upsert_tenant_id ctx t = Inr u"
      by (auto simp: res_bind_def is_ok_def split: sum.splits)
    then have tenant: "ctx_tenant ctx = Inr t" using upsert_allowed assms(1) by blast
    show ?thesis
    proof (cases r)
      case (Inl p)
      then show ?thesis using assms(4) 2(2) by (simp add: confined_def sr)
    next
      case (Inr resp)
      then show ?thesis using assms(3) [of s' resp] 2(2) tenant by (simp add: confined_def sr)
    qed
  qed
qed

lemma respond_Inr: "respond g sr = (s', Inr b) \<longleftrightarrow> (\<exists>a. sr = (s', Inr a) \<and> b = g a)"
  and respond_Inl: "respond g sr = (s', Inl e) \<longleftrightarrow> sr = (s', Inl e)"
  by (cases sr; cases "snd sr"; auto simp: respond_def split: sum.splits)+

lemma rows_of_others_invalidate [simp]:
  "rows_of_others t (invalidate_policy_cache t' e s) = rows_of_others t s"
  by (simp add: rows_of_others_def invalidate_policy_cache_def)

lemma upsert_others:
  fixes rows :: "(('t \<times> 'k) \<times> 'c \<times> int) list"
  assumes "upsert_row (t, e) c rows = (rows', v)"
  shows "filter (\<lambda>((t', _), _). t' \<noteq> t) rows' = filter (\<lambda>((t', _), _). t' \<noteq> t) rows"
proof -
  have "filter (\<lambda>((t', _), _). t' \<noteq> t) xs = filter (\<lambda>(k, _). fst k \<noteq> t) xs"
    for xs :: "(('t \<times> 'k) \<times> 'c \<times> int) list" by (rule filter_cong) auto
  then show ?thesis using upsert_row_others [OF assms, of "\<lambda>k. fst k \<noteq> t"] by simp
qed

lemma service_upsert_cors_others:
  "service_upsert_cors d body s = (s', Inr r) \<Longrightarrow> uc_tenant_id r = uc_tenant_id body
     \<and> rows_of_others (uc_tenant_id body) s' = rows_of_others (uc_tenant_id body) s"
  "service_upsert_cors d body s = (s', Inl p) \<Longrightarrow> s' = s"
  by (auto simp: service_upsert_cors_def upsert_cors_policy_rows_def rows_of_others_def
      invalidate_policy_cache_def dest!: upsert_others split: sum.splits prod.splits)

lemma service_upsert_rate_limit_others:
  "service_upsert_rate_limit body s = (s', Inr r) \<Longrightarrow> ul_tenant_id r = ul_tenant_id body
     \<and> rows_of_others (ul_tenant_id body) s' = rows_of_others (ul_tenant_id body) s"
  "service_upsert_rate_limit body s = (s', Inl p) \<Longrightarrow> s' = s"
  by (auto simp: service_upsert_rate_limit_def upsert_rate_limit_policy_rows_def rows_of_others_def
      invalidate_policy_cache_def dest!: upsert_others split: sum.splits prod.splits)

lemma service_upsert_profile_others:
  "service_upsert_profile body s = (s', Inr r) \<Longrightarrow> up_tenant_id r = up_tenant_id body
     \<and> rows_of_others (up_tenant_id body) s' = rows_of_others (up_tenant_id body) s"
  "service_upsert_profile body s = (s', Inl p) \<Longrightarrow> s' = s"
  by (auto simp: service_upsert_profile_def upsert_tenant_runtime_profile_rows_def rows_of_others_def
      invalidate_policy_cache_def dest!: upsert_others split: sum.splits prod.splits)

text \<open>C13: A caller with neither of the two platform permissions never leaves its tenant: whatever it
  asks of the control plane, either it is refused and nothing has changed, or every row of the
  answer belongs to the tenant of its principal, and the policies of all other tenants and the
  control nodes are as before.\<close>

theorem tenant_admin_confined:
  assumes "\<not> has_permission ctx perm_platform_read" and "\<not> has_permission ctx perm_control_plane"
  shows "confined ctx s (admin_handle d now ctx request s)"
proof (cases request)
  case (ListCors query)
  show ?thesis
    unfolding ListCors admin_handle.simps list_cors_policies_def
    by (rule confined_list [OF assms(1)]) (auto simp: service_list_cors_def res_bind_eq_Inr map_err_Inr dest: list_cors_tenant)
next
  case (UpsertCors body)
  show ?thesis
    unfolding UpsertCors admin_handle.simps
    by (rule confined_write [OF assms(1) upsert_cors_policy_def [symmetric]])
      (auto simp: respond_Inr respond_Inl dest: service_upsert_cors_others)
next
  case (ListRateLimits query)
  show ?thesis
    unfolding ListRateLimits admin_handle.simps list_rate_limit_policies_def
    by (rule confined_list [OF assms(1)]) (auto simp: service_list_rate_limits_def dest: list_rate_limit_tenant)
next
  case (UpsertRateLimit body)
  show ?thesis
    unfolding UpsertRateLimit admin_handle.simps
    by (rule confined_write [OF assms(1) upsert_rate_limit_policy_def [symmetric]])
      (auto simp: respond_Inr respond_Inl dest: service_upsert_rate_limit_others)
next
  case (ListProfiles query)
  show ?thesis
    unfolding ListProfiles admin_handle.simps list_tenant_runtime_profiles_def
    by (rule confined_list [OF assms(1)]) (auto simp: service_list_profiles_def dest: list_profile_tenant)
next
  case (UpsertProfile body)
  show ?thesis
    unfolding UpsertProfile admin_handle.simps
    by (rule confined_write [OF assms(1) upsert_tenant_runtime_profile_def [symmetric]])
      (auto simp: respond_Inr respond_Inl dest: service_upsert_profile_others)
next
  case (ListAuditEvents query)
  show ?thesis
  proof (cases "snd (list_audit_events d ctx query s)")
    case (Inr resp)
    then obtain scope where "resolve_audit_event_list_scope ctx (kq_tenant_id query) = Inr scope"
      and resp: "set (response_tenants resp) \<subseteq> {t. in_scope scope t}"
      by (auto simp: list_audit_events_def service_list_audit_events_def event_list_def res_bind_eq_Inr Let_def image_subset_iff
          list_audit_scope_all)
    moreover from this(1) obtain tenant where "ctx_tenant ctx = Inr tenant" "scope = OfTenant tenant"
      using audit_scope_own assms(1) by blast
    moreover have "fst (list_audit_events d ctx query s) = s" by (simp add: list_audit_events_def)
    ultimately show ?thesis using Inr by (auto simp: ListAuditEvents confined_def)
  qed (simp add: ListAuditEvents confined_def list_audit_events_def)
qed (use assms(2) in \<open>auto simp: confined_def admin_handler_defs guarded_def res_bind_eq_Inr
    require_control_plane_def resolve_security_event_list_scope_def require_tenant_admin_def
    split: sum.splits\<close>)

definition admin_context :: "string list \<Rightarrow> request_context" where
  "admin_context permissions = (example_context ''/backend/v3/api/web-framework/cors_policies'' ''7'')
     \<lparr>rc_principal := Some (build_principal (builder_default\<lparr>pb_tenant_id := Some ''7'',
       pb_app_id := Some ''console'', pb_permission_scope := permissions\<rparr>))\<rparr>"

definition sample_deps :: "unit list admin_deps" where
  "sample_deps = \<lparr>dp_coll = map (\<lambda>_. ()), dp_encode = concat, dp_decode = (\<lambda>s. Inr [s]),
     dp_validated_offset_list_params = (\<lambda>_ _. Inr \<lparr>op_page_size = 20, op_offset = 0\<rparr>),
     dp_invalid_parameter = ''invalid parameter'', dp_default_list_page_size = 20,
     dp_max_list_page_size = 200, dp_cors_message = (\<lambda>_. ''unsafe'')\<rparr>"

definition sample_state :: admin_state where
  "sample_state = \<lparr>as_cors = [], as_rate_limits =
       [((''7'', ''prod'', ''default''), \<lparr>rw_max_requests = 5, rw_window_secs = 60, rw_enabled = 1\<rparr>, 1),
        ((''8'', ''prod'', ''default''), \<lparr>rw_max_requests = 9, rw_window_secs = 60, rw_enabled = 1\<rparr>, 1)],
     as_profiles = [], as_security_events = [], as_audit_events = [], as_nodes = [], as_caches = None\<rparr>"

definition sample_limit :: "string \<Rightarrow> upsert_rate_limit" where
  "sample_limit tenant = \<lparr>ul_tenant_id = tenant, ul_environment = ''prod'', ul_tier_key = ''default'',
     ul_max_requests = 50, ul_window_secs = 60, ul_enabled = True\<rparr>"

lemma admin_context_permissions:
  "has_permission (admin_context [perm_tenant_admin]) perm_tenant_admin"
  "\<not> has_permission (admin_context [perm_tenant_admin]) perm_platform_read"
  "\<not> has_permission (admin_context [perm_tenant_admin]) perm_control_plane"
  "has_permission (admin_context [perm_tenant_admin, perm_platform_read]) perm_platform_read"
  "\<not> has_permission (admin_context [perm_platform_read]) perm_tenant_admin"
  by code_simp+

theorem tenant_admin_confined_witness:
  "confined (admin_context [perm_tenant_admin]) sample_state
     (admin_handle sample_deps 0 (admin_context [perm_tenant_admin]) (UpsertRateLimit (sample_limit ''7'')) sample_state)
   \<and> is_ok (snd (admin_handle sample_deps 0 (admin_context [perm_tenant_admin])
       (UpsertRateLimit (sample_limit ''7'')) sample_state))"
proof
  show "confined (admin_context [perm_tenant_admin]) sample_state
     (admin_handle sample_deps 0 (admin_context [perm_tenant_admin]) (UpsertRateLimit (sample_limit ''7'')) sample_state)"
    by (rule tenant_admin_confined) (rule admin_context_permissions)+
  show "is_ok (snd (admin_handle sample_deps 0 (admin_context [perm_tenant_admin])
       (UpsertRateLimit (sample_limit ''7'')) sample_state))"
    by code_simp
qed

text \<open>The permission to read across tenants also lets its holder write the policies of another
  tenant, and the permission to read alone, which the routes accept for lists, does not list.\<close>

lemma platform_read_writes_others:
  "is_ok (snd (admin_handle sample_deps 0 (admin_context [perm_tenant_admin, perm_platform_read])
     (UpsertRateLimit (sample_limit ''8'')) sample_state))"
  by code_simp

lemma platform_read_alone_lists_nothing:
  assumes "\<not> has_permission ctx perm_tenant_admin"
  shows "\<not> is_ok (snd (admin_handle d now ctx (ListCors query) s))"
  using assms
  by (auto simp: list_cors_policies_def tenant_list_def require_tenant_admin_def res_bind_def is_ok_def
      split: sum.splits)

subsection \<open>What is written takes effect\<close>

text \<open>The tables as the sources of the framework read them.\<close>

definition rate_limit_source :: "rate_limit_table \<Rightarrow> string \<Rightarrow> string \<Rightarrow> string \<Rightarrow> rate_limit_policy_row option" where
  "rate_limit_source rows t e tier = map_option fst (map_of rows (t, e, tier))"

definition profile_source :: "profile_table \<Rightarrow> string \<Rightarrow> string \<Rightarrow> tenant_profile_row option" where
  "profile_source rows t e = map_option fst (map_of rows (t, e))"

lemma map_of_upsert:
  "upsert_row k c rows = (rows', v) \<Longrightarrow> map_of rows' = (map_of rows)(k \<mapsto> (c, v))"
  by (auto simp: upsert_row_def Let_def AList.update_conv')

lemma checks_ok: "checks cs = Inr u \<longleftrightarrow> (\<forall>c \<in> set cs. fst c)"
  by (induction cs) (auto simp: check_def res_bind_eq_Inr split: if_splits)

lemma guarded_respond_Inr:
  assumes "guarded allowed (\<lambda>s. respond g (f s)) s = (s', Inr resp)"
  obtains r where "f s = (s', Inr r)" and "resp = g r"
  using assms by (cases allowed) (auto simp: guarded_def respond_Inr)

lemma as_i64_small: "n < 2 ^ 63 \<Longrightarrow> as_i64 n = int n"
  by (simp add: as_i64_def signed_of_nat signed_take_bit_int_eq_self)

lemma rate_limit_written:
  assumes "admin_handle d now ctx (UpsertRateLimit body) s = (s', Inr resp)"
  shows "ul_tenant_id body \<noteq> []"
    and "rate_limit_source (as_rate_limits s') (ul_tenant_id body) (ul_environment body) (ul_tier_key body)
      = Some \<lparr>rw_max_requests = int (ul_max_requests body), rw_window_secs = int (ul_window_secs body),
          rw_enabled = bool_int (ul_enabled body)\<rparr>"
    and "(t, e, k) \<noteq> (ul_tenant_id body, ul_environment body, ul_tier_key body) \<Longrightarrow>
      rate_limit_source (as_rate_limits s') t e k = rate_limit_source (as_rate_limits s) t e k"
    and "as_caches s' = map_option (invalidate_tenant_environment (ul_tenant_id body) (ul_environment body)) (as_caches s)"
    and "ul_window_secs body \<noteq> 0" and "ul_max_requests body \<le> 1000000"
proof -
  from assms(1) obtain r where written: "service_upsert_rate_limit body s = (s', Inr r)"
    by (auto simp: upsert_rate_limit_policy_def elim: guarded_respond_Inr)
  then have valid: "validate_rate_limit_upsert body = Inr ()"
    by (auto simp: service_upsert_rate_limit_def split: sum.splits)
  then have bounds: "trim (ul_tenant_id body) \<noteq> []" "ul_window_secs body \<noteq> 0" "ul_window_secs body \<le> 86400"
    "ul_max_requests body \<le> 1000000"
    unfolding validate_rate_limit_upsert_def checks_ok by simp_all
  let ?k = "(ul_tenant_id body, ul_environment body, ul_tier_key body)"
  let ?row = "\<lparr>rw_max_requests = int (ul_max_requests body), rw_window_secs = as_i64 (ul_window_secs body),
    rw_enabled = bool_int (ul_enabled body)\<rparr>"
  have secs: "as_i64 (ul_window_secs body) = int (ul_window_secs body)"
    using bounds(3) by (intro as_i64_small) simp
  obtain rows v where up: "upsert_row ?k ?row (as_rate_limits s) = (rows, v)" by fastforce
  have s': "as_rate_limits s' = rows"
    "as_caches s' = map_option (invalidate_tenant_environment (ul_tenant_id body) (ul_environment body)) (as_caches s)"
    using written valid up
    by (auto simp: service_upsert_rate_limit_def upsert_rate_limit_policy_rows_def invalidate_policy_cache_def)
  show "ul_tenant_id body \<noteq> []" using bounds(1) by auto
  show "rate_limit_source (as_rate_limits s') (ul_tenant_id body) (ul_environment body) (ul_tier_key body)
      = Some \<lparr>rw_max_requests = int (ul_max_requests body), rw_window_secs = int (ul_window_secs body),
          rw_enabled = bool_int (ul_enabled body)\<rparr>"
    using map_of_upsert [OF up] by (simp add: rate_limit_source_def s'(1) secs)
  show "rate_limit_source (as_rate_limits s') t e k = rate_limit_source (as_rate_limits s) t e k"
    if "(t, e, k) \<noteq> ?k"
    using map_of_upsert [OF up] that by (auto simp: rate_limit_source_def s'(1))
  show "as_caches s' = map_option (invalidate_tenant_environment (ul_tenant_id body) (ul_environment body)) (as_caches s)"
    by (rule s'(2))
  show "ul_window_secs body \<noteq> 0" "ul_max_requests body \<le> 1000000" by (rule bounds)+
qed

lemma written_policy:
  assumes "window \<noteq> 0" and "limit \<le> 1000000"
  shows "policy_from_row \<lparr>rw_max_requests = int limit, rw_window_secs = int window, rw_enabled = bool_int enabled\<rparr>
    = \<lparr>rr_max_requests = (if enabled then limit else 0), rr_window_secs = window\<rparr>"
proof -
  have "unat (word_of_int (int limit) :: 32 word) = limit"
    using assms(2) by (simp add: unsigned_of_nat take_bit_nat_eq_self)
  then show ?thesis using assms(1) by (simp add: policy_from_row_def bool_int_def)
qed

text \<open>A run of the rate-limit cache that shares table and cache with the control plane.\<close>

type_synonym rate_limit_run =
  "(string \<Rightarrow> string \<Rightarrow> string \<Rightarrow> rate_limit_policy_row option, rate_limit_policy_context,
    resolved_rate_limit option) cache_run"

definition shares_policies :: "admin_state \<Rightarrow> rate_limit_run \<Rightarrow> bool" where
  "shares_policies s run \<longleftrightarrow> map_option pc_rate_limit (as_caches s) = Some (cu_cache run)
     \<and> cu_db run = rate_limit_source (as_rate_limits s)"

text \<open>Changes that leave one row as it is, under the same proviso as before.\<close>

definition quiet_elsewhere ::
  "string \<Rightarrow> string \<Rightarrow> string \<Rightarrow> rate_limit_run \<Rightarrow>
     (string \<Rightarrow> string \<Rightarrow> string \<Rightarrow> rate_limit_policy_row option) \<Rightarrow> string \<Rightarrow> bool" where
  "quiet_elsewhere t e k run db p \<longleftrightarrow> rate_limit_cache.quiet run db p \<and> db t e k = cu_db run t e k"

lemma elsewhere_keeps_row:
  assumes "(rate_limit_cache.cache_step (quiet_elsewhere t e k))\<^sup>*\<^sup>* run later"
  shows "cu_db later t e k = cu_db run t e k" and "(rate_limit_cache.cache_step rate_limit_cache.quiet)\<^sup>*\<^sup>* run later"
proof -
  have step: "rate_limit_cache.cache_step rate_limit_cache.quiet a b \<and> cu_db b t e k = cu_db a t e k"
    if "rate_limit_cache.cache_step (quiet_elsewhere t e k) a b" for a b
    using that by cases (auto simp: quiet_elsewhere_def intro: rate_limit_cache.cache_step.intros)
  from assms show "cu_db later t e k = cu_db run t e k"
    by (induction rule: rtranclp_induct) (auto dest: step)
  from assms show "(rate_limit_cache.cache_step rate_limit_cache.quiet)\<^sup>*\<^sup>* run later"
    by (induction rule: rtranclp_induct) (auto dest: step intro: rtranclp.rtrancl_into_rtrancl)
qed

text \<open>C15: A rate limit that an administrator has written for a tenant is what the caching source
  of the framework answers from then on to the requests of that tenant, environment and tier,
  although the cache may have held an older answer: its window and its limit come back
  unchanged, and a disabled limit as none. This holds however lookups, reads, insertions,
  expiry and other changes follow, until the row is changed again. It assumes that the
  control plane was given the cache of the framework and writes to its table, that the run
  before the write and the changes after it kept the cache current (each change comes with
  the invalidation of all keys whose answer it changes and hits no read under way), that no
  read for this tenant and environment was under way at the write, and that the row is none
  of the platform tenant 0, whose change does not reach the other tenants' cached answers.\<close>

theorem written_rate_limit_takes_effect:
  assumes "admin_handle d now ctx (UpsertRateLimit body) s = (s', Inr resp)"
    and "ul_tenant_id body \<noteq> ''0''"
    and "(rate_limit_cache.cache_step rate_limit_cache.quiet)\<^sup>*\<^sup>* (rate_limit_start ttl table) before"
    and "shares_policies s before" and "shares_policies s' after"
    and "cu_now after = cu_now before" and "cu_pending after = cu_pending before"
    and "\<forall>(q, v) \<in> set (cu_pending before). tenant_scope (rx_tenant_id q) \<noteq> ul_tenant_id body
      \<or> environment_label (rx_environment q) \<noteq> ul_environment body"
    and "(rate_limit_cache.cache_step
      (quiet_elsewhere (ul_tenant_id body) (ul_environment body) (ul_tier_key body)))\<^sup>*\<^sup>* after later"
    and "rx_tenant_id c = Some (ul_tenant_id body)" and "environment_label (rx_environment c) = ul_environment body"
    and "rate_limit_tier_key (rx_rate_limit_tier c) = ul_tier_key body"
    and "clock w = cu_now later"
  shows "snd (caching_rate_limit_source clock (\<lambda>ctx w. (w, sqlx_rate_limit_resolve (cu_db later) ctx)) c
      (cu_cache later, w)) = Inr (Some
     \<lparr>rr_max_requests = (if ul_enabled body then ul_max_requests body else 0),
      rr_window_secs = ul_window_secs body\<rparr>)"
proof -
  note w = rate_limit_written [OF assms(1)]
  let ?p = "tenant_environment_prefix (ul_tenant_id body) (ul_environment body)"
  let ?db = "rate_limit_source (as_rate_limits s')"
  have db: "cu_db before = rate_limit_source (as_rate_limits s)"
    using assms(4) by (simp add: shares_policies_def)
  have others: "?db t e k = rate_limit_source (as_rate_limits s) t e k"
    if "(t, e) \<noteq> (ul_tenant_id body, ul_environment body)" for t e k
    using w(3) [of t e k] that by auto
  have after: "after = before\<lparr>cu_db := ?db, cu_cache := invalidate_prefix ?p (cu_cache before)\<rparr>"
    using assms(4-7) w(4)
    by (auto simp: shares_policies_def invalidate_tenant_environment_def Let_def)
  have "rate_limit_cache.covering before ?db ?p"
    by (rule rate_limit_write_covered [OF others assms(2) db])
  moreover have "sqlx_rate_limit_resolve ?db q = sqlx_rate_limit_resolve (cu_db before) q"
    if "(q, v) \<in> set (cu_pending before)" for q v
  proof (rule ccontr)
    assume ne: "sqlx_rate_limit_resolve ?db q \<noteq> sqlx_rate_limit_resolve (cu_db before) q"
    have "tenant_scope (rx_tenant_id q) = ul_tenant_id body" "environment_label (rx_environment q) = ul_environment body"
      by (rule rate_limit_write_answers [where tenant = "ul_tenant_id body" and env = "ul_environment body",
            OF others assms(2) ne [unfolded db]]; assumption)+
    with assms(8) that show False by auto
  qed
  ultimately have "rate_limit_cache.quiet before ?db ?p"
    by (auto simp: rate_limit_cache.quiet_def)
  then have "rate_limit_cache.cache_step rate_limit_cache.quiet before after"
    unfolding after by (rule rate_limit_cache.change)
  with assms(3) elsewhere_keeps_row(2) [OF assms(9)]
  have run: "(rate_limit_cache.cache_step rate_limit_cache.quiet)\<^sup>*\<^sup>* (rate_limit_start ttl table) later"
    by (meson rtranclp.rtrancl_into_rtrancl rtranclp_trans)
  have "tenant_scope (rx_tenant_id c) = ul_tenant_id body"
    using w(1) assms(10) by (simp add: tenant_scope_def unwrap_or_def)
  then have "sqlx_rate_limit_resolve (cu_db later) c = Inr (Some
     \<lparr>rr_max_requests = (if ul_enabled body then ul_max_requests body else 0),
      rr_window_secs = ul_window_secs body\<rparr>)"
    using elsewhere_keeps_row(1) [OF assms(9)] w(2) written_policy [OF w(5,6)]
    by (simp add: sqlx_rate_limit_resolve_def rate_limit_candidates_def assms(11,12) after)
  with rate_limit_cache.caching_resolve_is_source [where now = clock and w = w, OF run TrueI assms(13), of c]
  show ?thesis unfolding caching_rate_limit_source_def by (rule trans)
qed

text \<open>A control plane over a table with one row, whose old value the cache still holds.\<close>

definition stale_state :: admin_state where
  "stale_state = sample_state\<lparr>
     as_rate_limits := [((''t1'', ''prod'', ''default''), \<lparr>rw_max_requests = 10, rw_window_secs = 60, rw_enabled = 1\<rparr>, 1)],
     as_caches := Some ((policy_caches_new 30)\<lparr>pc_rate_limit := cu_cache (filled 10 0 (tenant_row 10))\<rparr>)\<rparr>"

lemma stale_state_shared: "shares_policies stale_state (filled 10 0 (tenant_row 10))"
  by (auto simp: shares_policies_def stale_state_def filled_def rate_limit_source_def tenant_row_def fun_eq_iff)

theorem written_rate_limit_takes_effect_witness:
  "\<exists>s' resp later. admin_handle sample_deps 0 (admin_context [perm_tenant_admin, perm_platform_read])
       (UpsertRateLimit (sample_limit ''t1'')) stale_state = (s', Inr resp)
     \<and> shares_policies s' later
     \<and> snd (caching_rate_limit_source (\<lambda>_. 0) (\<lambda>ctx w. (w, sqlx_rate_limit_resolve (cu_db later) ctx)) tenant_call
         (cu_cache later, ())) = Inr (Some \<lparr>rr_max_requests = 50, rr_window_secs = 60\<rparr>)"
proof -
  let ?before = "filled 10 0 (tenant_row 10)"
  let ?body = "sample_limit ''t1''"
  let ?run = "admin_handle sample_deps 0 (admin_context [perm_tenant_admin, perm_platform_read])
    (UpsertRateLimit ?body) stale_state"
  have "is_ok (snd ?run)" by code_simp
  then obtain s' resp where w: "?run = (s', Inr resp)"
    by (cases ?run; cases "snd ?run") (auto simp: is_ok_def split: sum.splits)
  obtain cs where cs: "as_caches s' = Some cs"
    using rate_limit_written(4) [OF w] by (simp add: stale_state_def)
  let ?after = "?before\<lparr>cu_db := rate_limit_source (as_rate_limits s'), cu_cache := pc_rate_limit cs\<rparr>"
  have after: "shares_policies s' ?after" by (simp add: shares_policies_def cs)
  have start: "rate_limit_cache.cache_step ok (rate_limit_start 30 (tenant_row 10)) (reading 0 (tenant_row 10) 10)" for ok
    by (rule reading_started) simp
  have run: "(rate_limit_cache.cache_step rate_limit_cache.quiet)\<^sup>*\<^sup>* (rate_limit_start 30 (tenant_row 10)) ?before"
    using start reading_filled by (meson r_into_rtranclp rtranclp_trans)
  have "snd (caching_rate_limit_source (\<lambda>_. 0) (\<lambda>ctx w. (w, sqlx_rate_limit_resolve (cu_db ?after) ctx)) tenant_call
      (cu_cache ?after, ())) = Inr (Some \<lparr>rr_max_requests = (if ul_enabled ?body then ul_max_requests ?body else 0),
        rr_window_secs = ul_window_secs ?body\<rparr>)"
    by (rule written_rate_limit_takes_effect [OF w _ run stale_state_shared after])
      (simp_all add: sample_limit_def filled_def tenant_call_def)
  then show ?thesis using w after by (auto simp: sample_limit_def)
qed

text \<open>A negative size limit passes the validation, although zero does not, and is read back as a
  limit of zero bytes.\<close>

lemma negative_limit_accepted:
  assumes "trim t \<noteq> []" and "trim e \<noteq> []" and "m < 0"
  defines "body \<equiv> \<lparr>up_tenant_id = t, up_environment = e, up_rate_limit_enabled = None,
    up_max_content_length = Some m, up_max_concurrent_requests = None\<rparr>"
  shows "validate_tenant_runtime_profile_upsert body = Inr ()"
    and "map_option tr_max_content_length (row_to_profile (profile_source
      (fst (upsert_tenant_runtime_profile_rows body rows)) t e)) = Some (Some 0)"
proof -
  show "validate_tenant_runtime_profile_upsert body = Inr ()"
    using assms(1-3) by (simp add: body_def validate_tenant_runtime_profile_upsert_def check_def)
  show "map_option tr_max_content_length (row_to_profile (profile_source
      (fst (upsert_tenant_runtime_profile_rows body rows)) t e)) = Some (Some 0)"
    using assms(3) by (simp add: body_def upsert_tenant_runtime_profile_rows_def upsert_row_def Let_def
        profile_source_def row_to_profile_def AList.update_conv' split: prod.splits)
qed

end
