(* ===== verification/Websocket.thy ===== *)
theory Websocket
  imports Admission Security Context_Guard
begin

section \<open>WebSocket sessions\<close>

text \<open>
  Models \<open>websocket.rs\<close> and \<open>ws_interceptors.rs\<close> of the core crate and \<open>websocket.rs\<close> of the
  axum crate: the interceptors of a session, the standard chain, the upgrade and the echo loop.
  Log lines are left out. Times are nanoseconds; a socket is the list of what it delivers.
\<close>

record ws_session =
  wn_connection_id :: string
  wn_request_context :: request_context

definition ws_session_new :: "request_context \<Rightarrow> ws_session" where
  "ws_session_new ctx = \<lparr>wn_connection_id = rc_request_id ctx, wn_request_context = ctx\<rparr>"

record ws_state =
  wt_session :: ws_session
  wt_message_index :: nat
  wt_window_started :: "nat option"
  wt_window_count :: nat

record ws_frame =
  wf_index :: nat
  wf_byte_len :: nat

datatype ws_call_stage = WsConnect | WsMessage | WsClose

datatype ws_interceptor =
    ConnectLogging
  | MessageLogging
  | PrincipalRequired
  | MessageSizeLimit
  | MessageRateLimit

fun ws_name :: "ws_interceptor \<Rightarrow> string" where
  "ws_name ConnectLogging = ''ws_connect_logging''"
| "ws_name MessageLogging = ''ws_message_logging''"
| "ws_name PrincipalRequired = ''ws_principal_required''"
| "ws_name MessageSizeLimit = ''ws_message_size_limit''"
| "ws_name MessageRateLimit = ''ws_message_rate_limit''"

fun ws_stage :: "ws_interceptor \<Rightarrow> ws_call_stage" where
  "ws_stage ConnectLogging = WsConnect"
| "ws_stage PrincipalRequired = WsConnect"
| "ws_stage MessageLogging = WsMessage"
| "ws_stage MessageSizeLimit = WsMessage"
| "ws_stage MessageRateLimit = WsMessage"

fun on_connect :: "ws_interceptor \<Rightarrow> ws_state \<Rightarrow> web_error + unit" where
  "on_connect PrincipalRequired st =
     (if rc_principal (wn_request_context (wt_session st)) = None
      then Inl (websocket_rejected ''websocket connection requires authenticated principal'')
      else Inr ())"
| "on_connect _ st = Inr ()"

definition count_message :: "nat \<Rightarrow> websocket_policy \<Rightarrow> ws_state \<Rightarrow> ws_state \<times> (web_error + unit)" where
  "count_message now policy st =
     (let window = wp_message_window_secs policy * 1000000000;
          window_expired = (case wt_window_started st of None \<Rightarrow> True | Some started \<Rightarrow> window < now - started)
      in if window_expired then (st\<lparr>wt_window_started := Some now, wt_window_count := 1\<rparr>, Inr ())
         else (let st = st\<lparr>wt_window_count := wt_window_count st + 1\<rparr> in
           if wp_max_messages_per_window policy < wt_window_count st
           then (st, Inl (rate_limit_exceeded ''websocket message rate limit exceeded''
             (wp_message_window_secs policy)))
           else (st, Inr ())))"

fun on_message ::
  "nat \<Rightarrow> websocket_policy \<Rightarrow> ws_interceptor \<Rightarrow> ws_frame \<Rightarrow> ws_state \<Rightarrow> ws_state \<times> (web_error + unit)"
where
  "on_message now policy MessageSizeLimit frame st =
     (st, case wp_max_message_bytes policy of
        None \<Rightarrow> Inr ()
      | Some max_bytes \<Rightarrow>
          if max_bytes < wf_byte_len frame
          then Inl (payload_too_large (''websocket message exceeds limit of '' @ show_nat max_bytes @ '' bytes''))
          else Inr ())"
| "on_message now policy MessageRateLimit frame st =
     (if \<not> wp_message_rate_limit_enabled policy then (st, Inr ()) else count_message now policy st)"
| "on_message now policy _ frame st = (st, Inr ())"

definition standard_ws_chain :: "ws_interceptor list" where
  "standard_ws_chain =
     [PrincipalRequired, ConnectLogging, MessageSizeLimit, MessageRateLimit, MessageLogging]"

definition ws_connect :: "ws_interceptor list \<Rightarrow> ws_state \<Rightarrow> web_error + unit" where
  "ws_connect chain st = res_forall (\<lambda>i. on_connect i st) chain"

fun ws_message ::
  "nat \<Rightarrow> websocket_policy \<Rightarrow> ws_interceptor list \<Rightarrow> ws_frame \<Rightarrow> ws_state \<Rightarrow> ws_state \<times> (web_error + unit)"
where
  "ws_message now policy [] frame st = (st, Inr ())"
| "ws_message now policy (i # chain) frame st =
     (case on_message now policy i frame st of
        (st, Inl e) \<Rightarrow> (st, Inl e)
      | (st, Inr _) \<Rightarrow> ws_message now policy chain frame st)"

subsection \<open>A session after the upgrade\<close>

text \<open>The handler of the application is given the session and the socket, no state.\<close>

definition run_websocket_session ::
  "ws_interceptor list \<Rightarrow> request_context \<Rightarrow> (ws_session \<Rightarrow> 'w \<Rightarrow> 'w) \<Rightarrow> 'w \<Rightarrow> 'w" where
  "run_websocket_session chain ctx handler w =
     (let session = ws_session_new ctx;
          st = \<lparr>wt_session = session, wt_message_index = 0, wt_window_started = None, wt_window_count = 0\<rparr>
      in case ws_connect chain st of Inl _ \<Rightarrow> w | Inr _ \<Rightarrow> handler session w)"

datatype ws_data = Text string | Binary string | Ping string | Pong string | CloseFrame

fun message_byte_len :: "ws_data \<Rightarrow> nat" where
  "message_byte_len (Text text) = length text"
| "message_byte_len (Binary bytes) = length bytes"
| "message_byte_len (Ping bytes) = length bytes"
| "message_byte_len (Pong bytes) = length bytes"
| "message_byte_len CloseFrame = 0"

text \<open>The echo loop, over the messages the socket delivers with the time of each and whether
  sending it back succeeds; the result is what was sent and the last state.\<close>

fun echo_with_interceptors ::
  "websocket_policy \<Rightarrow> ws_interceptor list \<Rightarrow> (nat \<times> ws_data \<times> bool) list \<Rightarrow> ws_state
     \<Rightarrow> (nat \<times> ws_data) list \<times> ws_state"
where
  "echo_with_interceptors policy chain [] st = ([], st)"
| "echo_with_interceptors policy chain ((now, m, sends) # rest) st =
     (let st = st\<lparr>wt_message_index := wt_message_index st + 1\<rparr> in
      case ws_message now policy chain
             \<lparr>wf_index = wt_message_index st, wf_byte_len = message_byte_len m\<rparr> st of
        (st, Inl _) \<Rightarrow> ([], st)
      | (st, Inr _) \<Rightarrow>
          if m = CloseFrame then ([], st)
          else if \<not> sends then ([], st)
          else (case echo_with_interceptors policy chain rest st of (sent, st) \<Rightarrow> ((now, m) # sent, st)))"

subsection \<open>What the standard chain guarantees\<close>

text \<open>The handler of a session runs only for an authenticated principal.\<close>

lemma session_needs_principal:
  assumes "rc_principal ctx = None"
  shows "run_websocket_session standard_ws_chain ctx handler w = w"
  using assms
  by (simp add: run_websocket_session_def ws_connect_def standard_ws_chain_def ws_session_new_def)

lemma standard_message:
  "ws_message now policy standard_ws_chain frame st =
     (case on_message now policy MessageSizeLimit frame st of
        (_, Inl e) \<Rightarrow> (st, Inl e)
      | (_, Inr _) \<Rightarrow> on_message now policy MessageRateLimit frame st)"
  by (auto simp: standard_ws_chain_def count_message_def Let_def split: option.splits prod.splits sum.splits)

lemma echo_standard:
  "echo_with_interceptors policy standard_ws_chain ((now, m, sends) # rest) st =
     (let st = st\<lparr>wt_message_index := wt_message_index st + 1\<rparr> in
      if (case wp_max_message_bytes policy of None \<Rightarrow> False | Some b \<Rightarrow> b < message_byte_len m) then ([], st)
      else (case (if wp_message_rate_limit_enabled policy then count_message now policy st else (st, Inr ())) of
        (st, Inl _) \<Rightarrow> ([], st)
      | (st, Inr _) \<Rightarrow>
          if m = CloseFrame \<or> \<not> sends then ([], st)
          else (case echo_with_interceptors policy standard_ws_chain rest st of
            (sent, st) \<Rightarrow> ((now, m) # sent, st))))"
  by (simp add: standard_message Let_def split: option.splits prod.splits sum.splits)

lemma echoed_small:
  assumes "wp_max_message_bytes policy = Some max_bytes"
  shows "(t, m) \<in> set (fst (echo_with_interceptors policy standard_ws_chain ms st)) \<Longrightarrow>
    message_byte_len m \<le> max_bytes"
proof (induction ms arbitrary: st)
  case (Cons x ms)
  obtain now m' sends where x: "x = (now, m', sends)" by (cases x)
  from Cons.prems show ?case
    unfolding x echo_standard
    using Cons.IH
    by (auto simp: Let_def assms split: if_splits prod.splits sum.splits) (metis fst_conv)+
qed simp

text \<open>The counter is the bucket of the fixed-window limiter, whose windows are longer by one tick
  because a window ends only after its length has passed.\<close>

lemma echoed_in_bucket:
  assumes "wp_message_rate_limit_enabled policy" and "0 < wp_max_messages_per_window policy"
  defines "m \<equiv> wp_max_messages_per_window policy"
    and "w \<equiv> wp_message_window_secs policy * 1000000000 + 1"
  shows "wt_window_started st = Some b \<Longrightarrow>
    prefix (map fst (fst (echo_with_interceptors policy standard_ws_chain ms st)))
      (bucket_times m w (wt_window_count st) b (map fst ms))"
proof (induction ms arbitrary: st b)
  case (Cons x ms)
  obtain t msg sends where x: "x = (t, msg, sends)" by (cases x)
  let ?st = "st\<lparr>wt_message_index := wt_message_index st + 1\<rparr>"
  show ?case
  proof (cases "w \<le> t - b")
    case True
    then have count: "count_message t policy ?st = (?st\<lparr>wt_window_started := Some t, wt_window_count := 1\<rparr>, Inr ())"
      using Cons.prems by (simp add: count_message_def Let_def w_def)
    show ?thesis
      unfolding x echo_standard
      using True assms(1,2) Cons.IH [of "?st\<lparr>wt_window_started := Some t, wt_window_count := 1\<rparr>" t]
      by (auto simp: Let_def count [simplified] m_def split: prod.splits option.splits)
  next
    case False
    then have count: "count_message t policy ?st = (let st' = ?st\<lparr>wt_window_count := wt_window_count st + 1\<rparr> in
        if m < wt_window_count st + 1 then (st', Inl (rate_limit_exceeded
          ''websocket message rate limit exceeded'' (wp_message_window_secs policy)))
        else (st', Inr ()))"
      using Cons.prems by (simp add: count_message_def Let_def w_def m_def)
    show ?thesis
      unfolding x echo_standard
      using False assms(1) Cons.prems Cons.IH [of "?st\<lparr>wt_window_count := wt_window_count st + 1\<rparr>" b]
      by (auto simp: Let_def count [simplified] split: prod.splits option.splits)
  qed
qed simp

lemma prefix_filter_length: "prefix xs ys \<Longrightarrow> length (filter P xs) \<le> length (filter P ys)"
  by (auto simp: prefix_def)

text \<open>A limit of zero messages lets as many through as the limit one: the first message of a window
  is never refused.\<close>

definition at_least_one :: "websocket_policy \<Rightarrow> websocket_policy" where
  "at_least_one policy = policy\<lparr>wp_max_messages_per_window := max 1 (wp_max_messages_per_window policy)\<rparr>"

lemma at_least_one_facts [simp]:
  "wp_max_message_bytes (at_least_one policy) = wp_max_message_bytes policy"
  "wp_message_rate_limit_enabled (at_least_one policy) = wp_message_rate_limit_enabled policy"
  "wp_message_window_secs (at_least_one policy) = wp_message_window_secs policy"
  "wp_max_messages_per_window (at_least_one policy) = max 1 (wp_max_messages_per_window policy)"
  by (simp_all add: at_least_one_def)

lemma count_at_least_one:
  assumes "wt_window_started st = None \<or> 0 < wt_window_count st"
  shows "count_message now (at_least_one policy) st = count_message now policy st"
    and "count_message now policy st = (st', r) \<Longrightarrow> 0 < wt_window_count st'"
  using assms by (auto simp: count_message_def Let_def split: option.splits if_splits)

lemma echo_at_least_one:
  "wt_window_started st = None \<or> 0 < wt_window_count st \<Longrightarrow>
   echo_with_interceptors (at_least_one policy) standard_ws_chain ms st
     = echo_with_interceptors policy standard_ws_chain ms st"
proof (induction ms arbitrary: st)
  case (Cons x ms)
  obtain now m sends where x: "x = (now, m, sends)" by (cases x)
  let ?st = "st\<lparr>wt_message_index := wt_message_index st + 1\<rparr>"
  have st: "wt_window_started ?st = None \<or> 0 < wt_window_count ?st" using Cons.prems by simp
  show ?case
  proof (cases "wp_message_rate_limit_enabled policy")
    case True
    obtain st' r where c: "count_message now policy ?st = (st', r)" by force
    show ?thesis
      unfolding x echo_standard
      using Cons.IH [of st'] count_at_least_one(2) [OF st c] True
      by (simp add: Let_def count_at_least_one(1) [OF st, simplified] c [simplified] split: sum.split)
  next
    case False
    then show ?thesis
      unfolding x echo_standard using Cons.IH [OF st] by (simp add: Let_def)
  qed
qed simp

lemma echoed_rate:
  assumes "wp_message_rate_limit_enabled policy" and "sorted (map fst ms)"
    and "fst (echo_with_interceptors policy standard_ws_chain ms st) = sent"
    and "0 < wp_max_messages_per_window policy" and "wt_window_started st = None"
  shows "length (filter (\<lambda>t. a \<le> t \<and> t \<le> a + wp_message_window_secs policy * 1000000000) (map fst sent))
    \<le> 2 * wp_max_messages_per_window policy"
proof -
  let ?m = "wp_max_messages_per_window policy" and ?w = "wp_message_window_secs policy * 1000000000 + 1"
  have period: "(\<lambda>t. a \<le> t \<and> t \<le> a + wp_message_window_secs policy * 1000000000) = (\<lambda>t. a \<le> t \<and> t < a + ?w)"
    by auto
  show "length (filter (\<lambda>t. a \<le> t \<and> t \<le> a + wp_message_window_secs policy * 1000000000) (map fst sent)) \<le> 2 * ?m"
  proof (cases ms)
    case Nil
    then show ?thesis using assms(3) by simp
  next
    case (Cons x rest)
    let ?t = "fst x"
    obtain m sends where x: "x = (?t, m, sends)" by (cases x) simp
    have "fst (echo_with_interceptors policy standard_ws_chain ms st)
        = fst (echo_with_interceptors policy standard_ws_chain ms
            (st\<lparr>wt_window_started := Some ?t, wt_window_count := 0\<rparr>))"
      using assms(4,5) unfolding Cons
      by (subst (1 2) x, cases st) (simp only: echo_standard, auto simp: assms(1) count_message_def Let_def split: option.splits prod.splits)
    moreover
    from echoed_in_bucket [OF assms(1,4), of "st\<lparr>wt_window_started := Some ?t, wt_window_count := 0\<rparr>" ?t ms]
    have "prefix (map fst (fst (echo_with_interceptors policy standard_ws_chain ms
        (st\<lparr>wt_window_started := Some ?t, wt_window_count := 0\<rparr>)))) (bucket_times ?m ?w 0 ?t (map fst ms))"
      by simp
    ultimately have "prefix (map fst sent) (bucket_times ?m ?w 0 ?t (map fst ms))"
      using assms(3) by simp
    from prefix_filter_length [OF this]
    show ?thesis
      unfolding period
      using bucket_times_any_period [of "map fst ms" ?t 0 ?m a ?w] assms(2) Cons
      by (fastforce intro: le_trans)
  qed
qed

text \<open>C27: The echo loop of a session under the standard chain, over messages delivered in the
  order of their times, sends back no message above the size limit, when the policy sets one;
  and a session that has counted no message yet, under a policy that limits the rate, sends back
  in any period as long as the window at most twice the messages the policy allows in a window,
  where the limit zero allows one.\<close>

theorem echo_respects_policy:
  assumes "sorted (map fst ms)"
    and "fst (echo_with_interceptors policy standard_ws_chain ms st) = sent"
  shows "(\<forall>max_bytes. wp_max_message_bytes policy = Some max_bytes \<longrightarrow>
      (\<forall>(t, m) \<in> set sent. message_byte_len m \<le> max_bytes))
    \<and> (wp_message_rate_limit_enabled policy \<and> wt_window_started st = None \<longrightarrow>
      length (filter (\<lambda>t. a \<le> t \<and> t \<le> a + wp_message_window_secs policy * 1000000000) (map fst sent))
        \<le> 2 * max 1 (wp_max_messages_per_window policy))"
  using assms echoed_small [of policy _ _ _ ms st] echoed_rate [of "at_least_one policy" ms st sent a]
  by (auto simp: echo_at_least_one)

definition chat_policy :: websocket_policy where
  "chat_policy = \<lparr>wp_max_message_bytes = Some 4, wp_message_rate_limit_enabled = True,
     wp_max_messages_per_window = 2, wp_message_window_secs = 60\<rparr>"

definition chat_state :: ws_state where
  "chat_state = \<lparr>wt_session = ws_session_new (example_context ''/ws'' ''t1''), wt_message_index = 0,
     wt_window_started = None, wt_window_count = 0\<rparr>"

theorem echo_respects_policy_witness:
  "length (filter (\<lambda>t. 0 \<le> t \<and> t \<le> 0 + 60 * 1000000000) (map fst (fst (echo_with_interceptors chat_policy
      standard_ws_chain [(0, Text ''hey'', True), (1, Text ''you'', True), (2, Text ''there'', True)]
      chat_state)))) \<le> 2 * 2"
  using echo_respects_policy [of
    "[(0, Text ''hey'', True), (1, Text ''you'', True), (2, Text ''there'', True)]" chat_policy chat_state _ 0]
  by (simp add: chat_policy_def chat_state_def)

text \<open>The messages an application's handler reads from its socket pass no interceptor: they reach it
  whatever their size and number.\<close>

lemma handler_reads_unchecked:
  assumes "rc_principal ctx = Some p"
  shows "run_websocket_session standard_ws_chain ctx handler w = handler (ws_session_new ctx) w"
  using assms
  by (simp add: run_websocket_session_def ws_connect_def standard_ws_chain_def ws_session_new_def)

text \<open>A limit of zero messages still lets the first message of every window through.\<close>

lemma zero_limit_lets_one_through:
  assumes "wp_max_messages_per_window policy = 0" and "wt_window_started st = None"
  shows "snd (count_message now policy st) = Inr ()"
  using assms by (simp add: count_message_def Let_def)

end
