(* ===== verification/Route_Build.thy ===== *)
theory Route_Build
  imports Openapi
begin

section \<open>Route tables generated from an OpenAPI document\<close>

text \<open>
  Models the crate \<open>sdkwork-web-build\<close>: the source text of a Rust route table for the
  operations of a document, with the authentication each route gets. \<open>debug\<close> is the
  \<open>Debug\<close> form of a string. Reading and writing the files is left out.
\<close>

definition http_methods :: "(string \<times> string) list" where
  "http_methods = [(''delete'', ''HttpMethod::Delete''), (''get'', ''HttpMethod::Get''),
     (''patch'', ''HttpMethod::Patch''), (''post'', ''HttpMethod::Post''), (''put'', ''HttpMethod::Put'')]"

definition auth_modes :: "(string \<times> string) list" where
  "auth_modes = [(''anonymous'', ''RouteAuth::Public''), (''public'', ''RouteAuth::Public''),
     (''bootstrap-body'', ''RouteAuth::BootstrapBody''),
     (''credential-entry-bootstrap'', ''RouteAuth::CredentialEntryBootstrap''),
     (''dual-token'', ''RouteAuth::DualToken''), (''api-key'', ''RouteAuth::ApiKey''),
     (''ingress-token'', ''RouteAuth::IngressToken''), (''oauth'', ''RouteAuth::OAuth''),
     (''open-api-flexible'', ''RouteAuth::OpenApiFlexible''),
     (''open-api-bearer-flexible'', ''RouteAuth::OpenApiBearerFlexible''),
     (''api-key-or-dual-token'', ''RouteAuth::ApiKeyOrDualToken''),
     (''refresh-token'', ''RouteAuth::RefreshToken''), (''agent-token'', ''RouteAuth::AgentToken'')]"

definition build_auth_mode :: "(string \<Rightarrow> string) \<Rightarrow> string \<Rightarrow> string + string" where
  "build_auth_mode debug mode =
     (let m = to_lower (trim mode) in
      ok_or (map_of auth_modes m) (''unsupported x-sdkwork-auth-mode '' @ debug m))"

definition requirement_names :: "json list \<Rightarrow> string list" where
  "requirement_names reqs =
     map to_lower (concat (map (\<lambda>r. case as_object r of None \<Rightarrow> [] | Some kvs \<Rightarrow> map fst kvs) reqs))"

definition names_contain :: "string list \<Rightarrow> string \<Rightarrow> bool" where
  "names_contain names part \<longleftrightarrow> list_ex (\<lambda>name. str_contains name part) names"

definition build_route_auth :: "(string \<Rightarrow> string) \<Rightarrow> json \<Rightarrow> json option \<Rightarrow> string + string" where
  "build_route_auth debug operation root_security =
     (case Option.bind (json_get ''x-sdkwork-auth-mode'' operation) as_str of
        Some mode \<Rightarrow> build_auth_mode debug mode
      | None \<Rightarrow>
          (case Option.bind (opt_or (json_get ''security'' operation) root_security) as_array of
             None \<Rightarrow> Inr ''RouteAuth::Public''
           | Some reqs \<Rightarrow>
               if reqs = [] then Inr ''RouteAuth::Public''
               else (let names = requirement_names reqs in
                 if names_contain names ''auth'' \<and> names_contain names ''access''
                 then Inr ''RouteAuth::DualToken''
                 else if list_ex (\<lambda>n. str_contains n ''apikey'' \<or> str_contains n ''api_key'') names
                 then Inr ''RouteAuth::ApiKey''
                 else if list_ex (\<lambda>n. str_contains n ''oauth'' \<or> str_contains n ''bearer'') names
                 then Inr ''RouteAuth::OAuth''
                 else Inl (''unsupported OpenAPI security requirement: '' @ str_join '', '' names))))"

definition validate_constant_name :: "string \<Rightarrow> string + unit" where
  "validate_constant_name n =
     (if n = [] \<or> \<not> list_all (\<lambda>c. is_ascii_upper c \<or> is_ascii_digit c \<or> c = CHR ''_'') n
      then Inl ''route manifest constant name must be SCREAMING_SNAKE_CASE'' else Inr ())"

definition required_string :: "json \<Rightarrow> string \<Rightarrow> string \<Rightarrow> string \<Rightarrow> string + string" where
  "required_string operation field_name method path =
     ok_or (opt_filter (\<lambda>v. trim v \<noteq> []) (Option.bind (json_get field_name operation) as_str))
       (''OpenAPI operation '' @ to_upper method @ '' '' @ path @ '' must declare '' @ field_name)"

fun as_bool :: "json \<Rightarrow> bool option" where
  "as_bool (JBool b) = Some b"
| "as_bool _ = None"

record generated_route =
  gr_method :: string
  gr_path :: string
  gr_tag :: string
  gr_operation_id :: string
  gr_auth :: string
  gr_idempotent :: bool
  gr_permission :: "string option"
  gr_forbid_credential_headers :: bool
  gr_log_retention :: "string option"

definition generate_route ::
  "(string \<Rightarrow> string) \<Rightarrow> json option \<Rightarrow> string \<Rightarrow> string \<times> string \<Rightarrow> json \<Rightarrow> string + generated_route" where
  "generate_route debug root_security path methods operation =
     (case methods of (method, rust_method) \<Rightarrow>
        if \<not> is_object operation
        then Inl (''OpenAPI operation '' @ to_upper method @ '' '' @ path @ '' must be an object'')
        else res_bind (required_string operation ''operationId'' method path) (\<lambda>operation_id.
          res_bind (build_route_auth debug operation root_security) (\<lambda>auth. Inr
            \<lparr>gr_method = rust_method, gr_path = path,
             gr_tag = (case Option.bind (json_get ''tags'' operation) as_array of
                Some (JString t # _) \<Rightarrow> t | _ \<Rightarrow> ''default''),
             gr_operation_id = operation_id, gr_auth = auth,
             gr_idempotent = (Option.bind (json_get ''x-sdkwork-idempotent'' operation) as_bool = Some True),
             gr_permission = opt_filter (\<lambda>v. trim v \<noteq> [])
               (Option.bind (json_get ''x-sdkwork-permission'' operation) as_str),
             gr_forbid_credential_headers = 
               (Option.bind (json_get ''x-sdkwork-forbid-credential-headers'' operation) as_bool = Some True),
             gr_log_retention = opt_filter (\<lambda>v. trim v \<noteq> [])
               (Option.bind (json_get ''x-sdkwork-log-retention'' operation) as_str)\<rparr>)))"

definition route_text :: "(string \<Rightarrow> string) \<Rightarrow> generated_route \<Rightarrow> string" where
  "route_text debug r =
     ''    HttpRoute::new('' @ gr_method r @ '', '' @ debug (gr_path r) @ '', '' @ debug (gr_tag r) @ '', ''
       @ debug (gr_operation_id r) @ '', '' @ gr_auth r @ '')''
     @ (if gr_idempotent r then ''.with_idempotent(true)'' else [])
     @ (case gr_permission r of None \<Rightarrow> [] | Some p \<Rightarrow> ''.with_required_permission('' @ debug p @ '')'')
     @ (if gr_forbid_credential_headers r then ''.with_forbid_credential_headers(true)'' else [])
     @ (case gr_log_retention r of None \<Rightarrow> [] | Some t \<Rightarrow> ''.with_log_retention('' @ debug t @ '')'')
     @ '',\<newline>''"

definition path_routes ::
  "(string \<Rightarrow> string) \<Rightarrow> json option \<Rightarrow> string \<times> json \<Rightarrow> string + generated_route list" where
  "path_routes debug root_security pi =
     (case pi of (path, item) \<Rightarrow>
        (case as_object item of
           None \<Rightarrow> Inl (''OpenAPI path '' @ path @ '' must be an object'')
         | Some entries \<Rightarrow>
             res_map (\<lambda>mo. generate_route debug root_security path (fst mo) (snd mo))
               (List.map_filter (\<lambda>m. map_option (\<lambda>operation. (m, operation)) (map_of entries (fst m))) http_methods)))"

definition document_routes :: "(string \<Rightarrow> string) \<Rightarrow> json \<Rightarrow> string + generated_route list" where
  "document_routes debug document =
     (case Option.bind (json_get ''paths'' document) as_object of
        None \<Rightarrow> Inl ''OpenAPI document must contain a paths object''
      | Some paths \<Rightarrow> res_bind (res_map (path_routes debug (json_get ''security'' document)) paths)
          (\<lambda>rss. Inr (concat rss)))"

definition render_http_route_manifest :: "(string \<Rightarrow> string) \<Rightarrow> json \<Rightarrow> string \<Rightarrow> string + string" where
  "render_http_route_manifest debug document constant_name =
     res_bind (validate_constant_name constant_name) (\<lambda>_.
     res_bind (document_routes debug document) (\<lambda>routes. Inr
       (''// @generated by sdkwork-web-build from the route crate's OpenAPI authority; do not edit.\<newline>use sdkwork_web_core::{HttpMethod, HttpRoute, RouteAuth};\<newline>\<newline>''
        @ ''pub const '' @ constant_name @ '': &[HttpRoute] = &[\<newline>''
        @ concat (map (route_text debug) routes) @ ''];\<newline>'')))"

subsection \<open>What the generator keeps of a route\<close>

fun route_auth_constructor :: "route_auth \<Rightarrow> string" where
  "route_auth_constructor Public = ''RouteAuth::Public''"
| "route_auth_constructor BootstrapBody = ''RouteAuth::BootstrapBody''"
| "route_auth_constructor CredentialEntryBootstrap = ''RouteAuth::CredentialEntryBootstrap''"
| "route_auth_constructor DualToken = ''RouteAuth::DualToken''"
| "route_auth_constructor DualTokenOrAnonymous = ''RouteAuth::DualTokenOrAnonymous''"
| "route_auth_constructor ApiKey = ''RouteAuth::ApiKey''"
| "route_auth_constructor IngressToken = ''RouteAuth::IngressToken''"
| "route_auth_constructor OAuth = ''RouteAuth::OAuth''"
| "route_auth_constructor OpenApiFlexible = ''RouteAuth::OpenApiFlexible''"
| "route_auth_constructor ApiKeyOrDualToken = ''RouteAuth::ApiKeyOrDualToken''"
| "route_auth_constructor OpenApiBearerFlexible = ''RouteAuth::OpenApiBearerFlexible''"
| "route_auth_constructor RefreshToken = ''RouteAuth::RefreshToken''"
| "route_auth_constructor AgentToken = ''RouteAuth::AgentToken''"
| "route_auth_constructor Compatibility = ''RouteAuth::Compatibility''"

text \<open>The mode a published operation carries is read back as the authentication of its route; two of
  the modes are refused.\<close>

lemma published_auth_mode_read_back:
  "build_auth_mode debug (auth_mode_label a) =
     (if a \<in> {DualTokenOrAnonymous, Compatibility}
      then Inl (''unsupported x-sdkwork-auth-mode '' @ debug (auth_mode_label a))
      else Inr (route_auth_constructor a))"
proof -
  have labels: "to_lower (trim (auth_mode_label a)) = auth_mode_label a"
    by (cases a; hypsubst; code_simp)
  have "map_of auth_modes (auth_mode_label a) =
      (if a \<in> {DualTokenOrAnonymous, Compatibility} then None else Some (route_auth_constructor a))"
    by (cases a; hypsubst; code_simp)
  then show ?thesis by (simp add: build_auth_mode_def labels ok_or_def)
qed

text \<open>A route whose requirements are a list with an entry is never made public by them.\<close>

lemma listed_requirements_never_public:
  assumes "Option.bind (json_get ''x-sdkwork-auth-mode'' operation) as_str = None"
    and "Option.bind (opt_or (json_get ''security'' operation) root_security) as_array = Some (r # rs)"
  shows "build_route_auth debug operation root_security \<noteq> Inr ''RouteAuth::Public''"
  using assms by (simp add: build_route_auth_def Let_def)

text \<open>A security field that is no list makes the route public.\<close>

lemma malformed_security_is_public:
  "build_route_auth debug (JObject [(''operationId'', JString ''orders.delete''),
     (''security'', JObject [(''AuthToken'', JArray [])])]) (Some (JArray [JObject [(''AuthToken'', JArray []), (''AccessToken'', JArray [])]]))
   = Inr ''RouteAuth::Public''"
  by (simp add: build_route_auth_def opt_or_def)

end
