(* ===== verification/Metrics.thy ===== *)
theory Metrics
  imports Call_State "HOL-Library.AList"
begin

section \<open>Metrics of the pipeline\<close>

text \<open>
  Models \<open>metrics.rs\<close>: the registry of request and stage series with its bounds, the labels of
  a request and the Prometheus text. Durations are nanoseconds; comparing them with the bucket
  bounds as \<open>f64\<close> seconds gives what comparing the nanoseconds gives, for every bound of the
  table is a whole number of them. A shard is an association list whose order stands for the
  iteration order of its \<open>HashMap\<close>; \<open>hash\<close> is the \<open>DefaultHasher\<close>. A call is one step on the
  shard whose lock it holds.
\<close>

subsection \<open>Labels\<close>

record metrics_dimensions =
  md_service :: string
  md_environment :: string
  md_deployment_profile :: string
  md_runtime_target :: string
  md_runtime_profile :: string

fun environment_metric_label :: "environment \<Rightarrow> string" where
  "environment_metric_label Dev = ''development''"
| "environment_metric_label Test = ''test''"
| "environment_metric_label Prod = ''production''"

text \<open>The argument is the environment variable \<open>OTEL_SERVICE_NAME\<close>.\<close>

definition dimensions_default :: "string option \<Rightarrow> metrics_dimensions" where
  "dimensions_default otel_service_name =
     \<lparr>md_service = (case opt_filter (\<lambda>v. trim v \<noteq> []) otel_service_name of
        None \<Rightarrow> ''sdkwork-web-framework'' | Some v \<Rightarrow> v),
      md_environment = environment_metric_label Dev, md_deployment_profile = ''standalone'',
      md_runtime_target = ''server'', md_runtime_profile = []\<rparr>"

definition from_profile_environment :: "string option \<Rightarrow> environment \<Rightarrow> metrics_dimensions" where
  "from_profile_environment otel_service_name e =
     (dimensions_default otel_service_name)\<lparr>md_environment := environment_metric_label e\<rparr>"

record request_labels =
  rl_dimensions :: metrics_dimensions
  rl_api_surface :: string
  rl_route :: string
  rl_method :: string
  rl_status :: nat
  rl_operation_id :: "string option"
  rl_backend_layer :: string

definition escape_prometheus_label :: "string \<Rightarrow> string" where
  "escape_prometheus_label v = concat (map (\<lambda>c. if c = CHR 0x5C then [CHR 0x5C, CHR 0x5C]
     else if c = CHR 0x22 then [CHR 0x5C, CHR 0x22] else [c]) v)"

definition label_pair :: "string \<Rightarrow> string \<Rightarrow> string" where
  "label_pair name v = name @ [CHR ''='', CHR 0x22] @ v @ [CHR 0x22]"

definition or_dash :: "string \<Rightarrow> string" where
  "or_dash v = (if v = [] then ''-'' else v)"

definition dimensions_prometheus_key :: "metrics_dimensions \<Rightarrow> string" where
  "dimensions_prometheus_key d = str_join '',''
     [label_pair ''service'' (escape_prometheus_label (md_service d)),
      label_pair ''environment'' (escape_prometheus_label (md_environment d)),
      label_pair ''deployment_profile'' (escape_prometheus_label (md_deployment_profile d)),
      label_pair ''runtime_target'' (escape_prometheus_label (md_runtime_target d)),
      label_pair ''runtime_profile'' (escape_prometheus_label (or_dash (md_runtime_profile d)))]"

definition prometheus_key :: "request_labels \<Rightarrow> string" where
  "prometheus_key l =
     (let operation_id = (case opt_filter (\<lambda>v. v \<noteq> []) (rl_operation_id l) of
            None \<Rightarrow> ''-'' | Some v \<Rightarrow> v);
          d = rl_dimensions l
      in str_join '',''
        [label_pair ''service'' (escape_prometheus_label (md_service d)),
         label_pair ''environment'' (escape_prometheus_label (md_environment d)),
         label_pair ''deployment_profile'' (escape_prometheus_label (md_deployment_profile d)),
         label_pair ''runtime_target'' (escape_prometheus_label (md_runtime_target d)),
         label_pair ''runtime_profile'' (escape_prometheus_label (or_dash (md_runtime_profile d))),
         label_pair ''api_surface'' (escape_prometheus_label (rl_api_surface l)),
         label_pair ''route'' (escape_prometheus_label (rl_route l)),
         label_pair ''method'' (escape_prometheus_label (rl_method l)),
         label_pair ''status'' (show_nat (rl_status l)),
         label_pair ''operation_id'' operation_id,
         label_pair ''backend_layer'' (escape_prometheus_label (rl_backend_layer l))])"

definition request_labels_from_state ::
  "call_state \<Rightarrow> metrics_dimensions \<Rightarrow> nat \<Rightarrow> request_labels" where
  "request_labels_from_state s d status =
     \<lparr>rl_dimensions = d, rl_api_surface = api_surface_contract_label (cs_api_surface s),
      rl_route = (case opt_filter (\<lambda>v. v \<noteq> []) (cs_route_template s) of
        None \<Rightarrow> ''unmatched'' | Some v \<Rightarrow> v),
      rl_method = cs_method s, rl_status = status, rl_operation_id = cs_operation_id s,
      rl_backend_layer = ''handler''\<rparr>"

definition should_record_path :: "string \<Rightarrow> bool" where
  "should_record_path path =
     (let normalized = trim path;
          normalized = (if normalized = [] then ''/'' else trim_end_char (CHR ''/'') normalized)
      in normalized \<notin> {''/health'', ''/healthz'', ''/livez'', ''/readyz'', ''/metrics''})"

subsection \<open>Series\<close>

definition saturating_add :: "nat \<Rightarrow> nat \<Rightarrow> nat" where
  "saturating_add a b = min (a + b) u64_max"

definition duration_bounds :: "(nat \<times> string) list" where
  "duration_bounds = [(5000000, ''0.005''), (10000000, ''0.01''), (25000000, ''0.025''),
     (50000000, ''0.05''), (100000000, ''0.1''), (250000000, ''0.25''), (500000000, ''0.5''),
     (1000000000, ''1''), (2500000000, ''2.5''), (5000000000, ''5''), (10000000000, ''10''),
     (30000000000, ''30'')]"

definition duration_bucket :: "nat \<Rightarrow> nat" where
  "duration_bucket elapsed = length (takeWhile (\<lambda>(upper, _). upper < elapsed) duration_bounds)"

record request_series_stats =
  qs_count :: nat
  qs_duration_count :: nat
  qs_duration_sum_micros :: nat
  qs_duration_bucket_counts :: "nat list"

record stage_duration_stats =
  sd_count :: nat
  sd_sum_micros :: nat
  sd_duration_bucket_counts :: "nat list"

definition no_buckets :: "nat list" where
  "no_buckets = replicate (length duration_bounds + 1) 0"

definition count_bucket :: "nat \<Rightarrow> nat list \<Rightarrow> nat list" where
  "count_bucket elapsed counts =
     (let b = duration_bucket elapsed in counts[b := saturating_add (counts ! b) 1])"

definition request_stats_default :: request_series_stats where
  "request_stats_default = \<lparr>qs_count = 0, qs_duration_count = 0, qs_duration_sum_micros = 0,
     qs_duration_bucket_counts = no_buckets\<rparr>"

definition stage_stats_default :: stage_duration_stats where
  "stage_stats_default = \<lparr>sd_count = 0, sd_sum_micros = 0, sd_duration_bucket_counts = no_buckets\<rparr>"

definition micros_u64 :: "nat \<Rightarrow> nat" where
  "micros_u64 elapsed = min (elapsed div 1000) u64_max"

definition record_stats :: "nat option \<Rightarrow> request_series_stats \<Rightarrow> request_series_stats" where
  "record_stats elapsed st =
     (let st = st\<lparr>qs_count := saturating_add (qs_count st) 1\<rparr> in
      case elapsed of None \<Rightarrow> st
      | Some t \<Rightarrow> st\<lparr>qs_duration_count := saturating_add (qs_duration_count st) 1,
          qs_duration_sum_micros := saturating_add (qs_duration_sum_micros st) (micros_u64 t),
          qs_duration_bucket_counts := count_bucket t (qs_duration_bucket_counts st)\<rparr>)"

subsection \<open>The registry\<close>

record metrics_registry =
  mr_dimensions :: metrics_dimensions
  mr_requests_total :: nat
  mr_request_series_shards :: "(string \<times> request_series_stats) list list"
  mr_request_series_count :: nat
  mr_stage_durations :: "(string \<times> stage_duration_stats) list"
  mr_max_labeled_request_series :: nat
  mr_max_stage_series :: nat
  mr_dropped_request_series :: nat
  mr_dropped_stage_series :: nat

definition max_request_series :: nat where "max_request_series = 4096"
definition max_stage_series :: nat where "max_stage_series = 128"
definition max_series_key_bytes :: nat where "max_series_key_bytes = 2048"
definition max_stage_label_bytes :: nat where "max_stage_label_bytes = 128"
definition request_series_shards :: nat where "request_series_shards = 64"

definition metrics_registry_new :: "metrics_dimensions \<Rightarrow> nat \<Rightarrow> nat \<Rightarrow> metrics_registry" where
  "metrics_registry_new d max_request max_stage =
     \<lparr>mr_dimensions = d, mr_requests_total = 0,
      mr_request_series_shards = replicate request_series_shards [], mr_request_series_count = 0,
      mr_stage_durations = [], mr_max_labeled_request_series = max_request,
      mr_max_stage_series = max_stage, mr_dropped_request_series = 0, mr_dropped_stage_series = 0\<rparr>"

definition with_series_limits :: "metrics_dimensions \<Rightarrow> nat \<Rightarrow> nat \<Rightarrow> metrics_registry" where
  "with_series_limits d max_request max_stage =
     metrics_registry_new d (min max_request max_request_series) (min max_stage max_stage_series)"

definition set_dimensions :: "metrics_dimensions \<Rightarrow> metrics_registry \<Rightarrow> metrics_registry" where
  "set_dimensions d r = r\<lparr>mr_dimensions := d\<rparr>"

definition inc_requests :: "metrics_registry \<Rightarrow> metrics_registry" where
  "inc_requests r = r\<lparr>mr_requests_total := saturating_add (mr_requests_total r) 1\<rparr>"

definition drop_request :: "metrics_registry \<Rightarrow> metrics_registry" where
  "drop_request r = r\<lparr>mr_dropped_request_series := saturating_add (mr_dropped_request_series r) 1\<rparr>"

definition request_series_shard :: "(string \<Rightarrow> nat) \<Rightarrow> string \<Rightarrow> nat" where
  "request_series_shard hash key = hash key mod request_series_shards"

text \<open>What follows \<^const>\<open>inc_requests\<close>, under the lock of the shard of the key.\<close>

definition observe_request ::
  "(string \<Rightarrow> nat) \<Rightarrow> string \<Rightarrow> nat option \<Rightarrow> metrics_registry \<Rightarrow> metrics_registry" where
  "observe_request hash key elapsed r =
     (if length key > max_series_key_bytes then drop_request r
      else
        (let i = request_series_shard hash key; shard = mr_request_series_shards r ! i in
         case map_of shard key of
           Some stats \<Rightarrow> r\<lparr>mr_request_series_shards := (mr_request_series_shards r)
             [i := AList.update key (record_stats elapsed stats) shard]\<rparr>
         | None \<Rightarrow>
             if mr_request_series_count r < mr_max_labeled_request_series r
             then r\<lparr>mr_request_series_count := mr_request_series_count r + 1,
                mr_request_series_shards := (mr_request_series_shards r)
                  [i := AList.update key (record_stats elapsed request_stats_default) shard]\<rparr>
             else drop_request r))"

definition record_request_observation ::
  "(string \<Rightarrow> nat) \<Rightarrow> request_labels \<Rightarrow> nat option \<Rightarrow> metrics_registry \<Rightarrow> metrics_registry" where
  "record_request_observation hash labels elapsed r =
     observe_request hash (prometheus_key labels) elapsed (inc_requests r)"

definition drop_stage :: "metrics_registry \<Rightarrow> metrics_registry" where
  "drop_stage r = r\<lparr>mr_dropped_stage_series := saturating_add (mr_dropped_stage_series r) 1\<rparr>"

definition record_pipeline_stage_duration ::
  "string \<Rightarrow> nat \<Rightarrow> metrics_registry \<Rightarrow> metrics_registry" where
  "record_pipeline_stage_duration stage elapsed r =
     (if length stage > max_stage_label_bytes then drop_stage r
      else if map_of (mr_stage_durations r) stage = None
        \<and> length (mr_stage_durations r) \<ge> mr_max_stage_series r then drop_stage r
      else
        (let e = (case map_of (mr_stage_durations r) stage of
               None \<Rightarrow> stage_stats_default | Some e \<Rightarrow> e);
             e = e\<lparr>sd_count := saturating_add (sd_count e) 1,
               sd_sum_micros := saturating_add (sd_sum_micros e) (micros_u64 elapsed),
               sd_duration_bucket_counts := count_bucket elapsed (sd_duration_bucket_counts e)\<rparr>
         in r\<lparr>mr_stage_durations := AList.update stage e (mr_stage_durations r)\<rparr>))"

text \<open>The end of \<open>finalize_response\<close> in the middleware: every answer of the pipeline is recorded
  under the labels of its call state.\<close>

definition record_answer ::
  "(string \<Rightarrow> nat) \<Rightarrow> call_state \<Rightarrow> nat \<Rightarrow> nat \<Rightarrow> metrics_registry \<Rightarrow> metrics_registry" where
  "record_answer hash s status elapsed r =
     (if should_record_path (cs_path s)
      then record_request_observation hash (request_labels_from_state s (mr_dimensions r) status)
        (Some elapsed) r
      else r)"

subsection \<open>The Prometheus text\<close>

definition braces :: "string \<Rightarrow> string" where
  "braces labels = ''{'' @ labels @ ''}''"

definition pad_zeros :: "nat \<Rightarrow> string \<Rightarrow> string" where
  "pad_zeros w v = replicate (w - length v) (CHR ''0'') @ v"

definition seconds_from_micros :: "nat \<Rightarrow> string" where
  "seconds_from_micros micros =
     show_nat (micros div 1000000) @ ''.'' @ pad_zeros 6 (show_nat (micros mod 1000000))"

text \<open>The cumulative counts of the buckets, the one without a bound last.\<close>

fun cumulative :: "nat \<Rightarrow> nat list \<Rightarrow> nat list" where
  "cumulative acc [] = []"
| "cumulative acc (c # cs) = (let acc = saturating_add acc c in acc # cumulative acc cs)"

definition bucket_lines :: "string \<Rightarrow> string \<Rightarrow> nat list \<Rightarrow> string" where
  "bucket_lines metric labels counts = concat (map2
     (\<lambda>upper c. metric @ ''_bucket'' @ braces (labels @ '','' @ label_pair ''le'' upper) @ '' ''
        @ show_nat c @ ''\<newline>'')
     (map snd duration_bounds @ [''+Inf'']) (cumulative 0 counts))"

definition histogram_lines :: "string \<Rightarrow> string \<Rightarrow> nat list \<Rightarrow> nat \<Rightarrow> nat \<Rightarrow> string" where
  "histogram_lines metric labels counts sum_micros n =
     bucket_lines metric labels counts
     @ metric @ ''_sum'' @ braces labels @ '' '' @ seconds_from_micros sum_micros @ ''\<newline>''
     @ metric @ ''_count'' @ braces labels @ '' '' @ show_nat n @ ''\<newline>''"

definition render_request_series :: "string \<Rightarrow> request_series_stats \<Rightarrow> string" where
  "render_request_series labels st =
     ''sdkwork_http_requests_labeled_total'' @ braces labels @ '' '' @ show_nat (qs_count st) @ ''\<newline>''
     @ histogram_lines ''sdkwork_http_request_duration_seconds'' labels (qs_duration_bucket_counts st)
         (qs_duration_sum_micros st) (qs_duration_count st)"

definition render_stage_series :: "string \<Rightarrow> string \<Rightarrow> stage_duration_stats \<Rightarrow> string" where
  "render_stage_series dimension_labels stage st =
     histogram_lines ''sdkwork_pipeline_stage_duration_seconds''
       (dimension_labels @ '','' @ label_pair ''stage'' (escape_prometheus_label stage) @ '',''
          @ label_pair ''backend_layer'' ''router'')
       (sd_duration_bucket_counts st) (sd_sum_micros st) (sd_count st)"

definition help_lines :: "string \<Rightarrow> string \<Rightarrow> string \<Rightarrow> string" where
  "help_lines metric help metric_type = ''# HELP '' @ metric @ '' '' @ help @ ''\<newline># TYPE '' @ metric @ '' '' @ metric_type @ ''\<newline>''"

definition render_prometheus :: "metrics_registry \<Rightarrow> string" where
  "render_prometheus r =
     (let d = dimensions_prometheus_key (mr_dimensions r);
          total = ''sdkwork_http_requests_total'';
          dropped = ''sdkwork_http_metric_series_dropped_total''
      in help_lines total ''Total HTTP requests observed by the web framework.'' ''counter''
         @ total @ braces d @ '' '' @ show_nat (mr_requests_total r) @ ''\<newline>''
         @ help_lines ''sdkwork_health_status'' ''Service health status (1 = serving).'' ''gauge''
         @ ''sdkwork_health_status'' @ braces d @ '' 1\<newline>''
         @ help_lines dropped ''Metric observations dropped because the bounded series registry was full or a label key exceeded its byte limit.'' ''counter''
         @ dropped @ braces (d @ '','' @ label_pair ''kind'' ''request'') @ '' ''
             @ show_nat (mr_dropped_request_series r) @ ''\<newline>''
         @ dropped @ braces (d @ '','' @ label_pair ''kind'' ''pipeline_stage'') @ '' ''
             @ show_nat (mr_dropped_stage_series r) @ ''\<newline>''
         @ (if mr_request_series_count r > 0
            then help_lines ''sdkwork_http_requests_labeled_total''
                   ''HTTP requests by route/surface/status.'' ''counter''
                 @ help_lines ''sdkwork_http_request_duration_seconds''
                     ''HTTP request latency in seconds by route/surface/status.'' ''histogram''
                 @ concat (map (\<lambda>(labels, st). render_request_series labels st)
                     (concat (mr_request_series_shards r)))
            else [])
         @ (if mr_stage_durations r \<noteq> []
            then help_lines ''sdkwork_pipeline_stage_duration_seconds''
                   ''Interceptor before-stage time in seconds.'' ''histogram''
                 @ concat (map (\<lambda>(stage, st). render_stage_series d stage st) (mr_stage_durations r))
            else []))"

subsection \<open>What a registry holds\<close>

text \<open>An observation is the key and the duration of a recorded request. The registry of a list of
  observations is compared with the list: the first \<open>n\<close> distinct keys that are not too long
  have a series.\<close>

definition short_keys :: "(string \<times> nat option) list \<Rightarrow> string list" where
  "short_keys obs = filter (\<lambda>k. length k \<le> max_series_key_bytes) (map fst obs)"

definition first_keys :: "nat \<Rightarrow> string list \<Rightarrow> string list" where
  "first_keys n ks = take n (rev (remdups (rev ks)))"

definition admitted_keys :: "nat \<Rightarrow> (string \<times> nat option) list \<Rightarrow> string list" where
  "admitted_keys n obs = first_keys n (short_keys obs)"

definition series_of :: "string \<Rightarrow> (string \<times> nat option) list \<Rightarrow> request_series_stats" where
  "series_of key obs =
     fold (\<lambda>(_, elapsed). record_stats elapsed) (filter (\<lambda>(k, _). k = key) obs) request_stats_default"

definition observe_all ::
  "(string \<Rightarrow> nat) \<Rightarrow> (string \<times> nat option) list \<Rightarrow> metrics_registry \<Rightarrow> metrics_registry" where
  "observe_all hash obs r =
     fold (\<lambda>(key, elapsed) r. observe_request hash key elapsed (inc_requests r)) obs r"

definition lookup_series :: "(string \<Rightarrow> nat) \<Rightarrow> metrics_registry \<Rightarrow> string \<Rightarrow> request_series_stats option" where
  "lookup_series hash r key =
     map_of (mr_request_series_shards r ! request_series_shard hash key) key"

lemma first_keys_snoc:
  "first_keys n (ks @ [k]) =
     (if k \<in> set ks \<or> n \<le> length (remdups ks) then first_keys n ks else first_keys n ks @ [k])"
proof -
  have "length (remdups (rev ks)) = length (remdups ks)" by (simp add: length_remdups_card_conv)
  then show ?thesis by (auto simp: first_keys_def)
qed

lemma first_keys_length: "length (first_keys n ks) = min n (length (remdups ks))"
proof -
  have "length (remdups (rev ks)) = length (remdups ks)" by (simp add: length_remdups_card_conv)
  then show ?thesis by (simp add: first_keys_def min.commute)
qed

lemma first_keys_not_full:
  assumes "length (first_keys n ks) < n"
  shows "set (first_keys n ks) = set ks"
proof -
  have "length (remdups (rev ks)) = length (remdups ks)" by (simp add: length_remdups_card_conv)
  with assms show ?thesis by (simp add: first_keys_length) (simp add: first_keys_def)
qed

lemma first_keys_subset: "set (first_keys n ks) \<subseteq> set ks"
  by (auto simp: first_keys_def dest: in_set_takeD)

lemma series_of_snoc:
  "series_of key (obs @ [(k, elapsed)]) =
     (if k = key then record_stats elapsed (series_of key obs) else series_of key obs)"
  by (simp add: series_of_def)

lemma series_of_unseen: "key \<notin> fst ` set obs \<Longrightarrow> series_of key obs = request_stats_default"
  by (subgoal_tac "filter (\<lambda>(k, _). k = key) obs = []")
    (force simp: series_of_def filter_empty_conv)+

text \<open>The relation of a registry with the observations it was made from.\<close>

definition registry_reflects ::
  "(string \<Rightarrow> nat) \<Rightarrow> nat \<Rightarrow> (string \<times> nat option) list \<Rightarrow> metrics_registry \<Rightarrow> bool" where
  "registry_reflects hash n obs r \<longleftrightarrow>
     length (mr_request_series_shards r) = request_series_shards
     \<and> mr_max_labeled_request_series r = n
     \<and> mr_request_series_count r = length (admitted_keys n obs)
     \<and> mr_requests_total r = min (length obs) u64_max
     \<and> mr_dropped_request_series r
         = min (length (filter (\<lambda>(k, _). k \<notin> set (admitted_keys n obs)) obs)) u64_max
     \<and> (\<forall>key. lookup_series hash r key =
          (if key \<in> set (admitted_keys n obs) then Some (series_of key obs) else None))"

lemma shard_in_range [simp]: "request_series_shard hash key < request_series_shards"
  by (simp add: request_series_shard_def request_series_shards_def)

lemma min_saturating: "saturating_add (min a u64_max) (Suc 0) = min (Suc a) u64_max"
  by (auto simp: saturating_add_def)

lemma observe_reflects:
  assumes "registry_reflects hash n obs r"
  shows "registry_reflects hash n (obs @ [(k, elapsed)]) (observe_request hash k elapsed (inc_requests r))"
proof -
  let ?adm = "admitted_keys n obs"
  let ?adm' = "admitted_keys n (obs @ [(k, elapsed)])"
  let ?i = "request_series_shard hash k"
  note I = assms [unfolded registry_reflects_def]
  have range: "?i < length (mr_request_series_shards r)" using I by simp
  have unchanged: ?thesis
    if same: "?adm' = ?adm" and out: "k \<notin> set ?adm"
      and result: "observe_request hash k elapsed (inc_requests r) = drop_request (inc_requests r)"
  proof -
    have "series_of key (obs @ [(k, elapsed)]) = series_of key obs" if "key \<in> set ?adm" for key
      using that out by (auto simp: series_of_snoc)
    then have "registry_reflects hash n (obs @ [(k, elapsed)]) (drop_request (inc_requests r))"
      using I same out
      by (simp add: registry_reflects_def drop_request_def inc_requests_def min_saturating
          lookup_series_def)
    with result show ?thesis by simp
  qed
  show ?thesis
  proof (cases "length k > max_series_key_bytes")
    case True
    then have "?adm' = ?adm" by (simp add: admitted_keys_def short_keys_def)
    moreover have "k \<notin> set ?adm"
      using True first_keys_subset by (fastforce simp: admitted_keys_def short_keys_def)
    ultimately show ?thesis using unchanged True by (simp add: observe_request_def)
  next
    case short: False
    then have adm': "?adm' = (if k \<in> set (short_keys obs) \<or> n \<le> length (remdups (short_keys obs))
        then ?adm else ?adm @ [k])"
      by (simp add: admitted_keys_def short_keys_def first_keys_snoc)
    have look: "map_of (mr_request_series_shards r ! ?i) k
        = (if k \<in> set ?adm then Some (series_of k obs) else None)"
      using I by (simp add: lookup_series_def)
    show ?thesis
    proof (cases "k \<in> set ?adm")
      case True
      then have same: "?adm' = ?adm"
        using adm' first_keys_subset by (auto simp: admitted_keys_def)
      show ?thesis using I True range
        by (auto simp: registry_reflects_def observe_request_def short same look Let_def inc_requests_def
            min_saturating lookup_series_def nth_list_update update_conv' series_of_snoc)
    next
      case out: False
      show ?thesis
      proof (cases "length ?adm < n")
        case True
        then have all: "set ?adm = set (short_keys obs)"
          by (simp add: admitted_keys_def first_keys_not_full)
        have "length (remdups (short_keys obs)) < n"
          using True by (simp add: admitted_keys_def first_keys_length)
        with out all have grown: "?adm' = ?adm @ [k]" by (simp add: adm')
        have unseen: "k \<notin> fst ` set obs" using out all short by (auto simp: short_keys_def)
        then have drops: "filter (\<lambda>(k', _). k' \<noteq> k \<and> k' \<notin> set (admitted_keys m obs)) obs
            = filter (\<lambda>(k', _). k' \<notin> set (admitted_keys m obs)) obs" for m
          by (intro filter_cong) (auto simp: image_iff)
        show ?thesis using I out True range
          by (auto simp: registry_reflects_def observe_request_def short look Let_def inc_requests_def
              min_saturating lookup_series_def nth_list_update update_conv' series_of_snoc
              series_of_unseen [OF unseen] drops grown)
      next
        case False
        then have "n \<le> length (remdups (short_keys obs))"
          by (simp add: admitted_keys_def first_keys_length)
        then have "?adm' = ?adm" by (simp add: adm')
        moreover have "observe_request hash k elapsed (inc_requests r) = drop_request (inc_requests r)"
          using I False out by (simp add: observe_request_def short look Let_def inc_requests_def)
        ultimately show ?thesis using unchanged out by simp
      qed
    qed
  qed
qed

lemma observed_reflects:
  "registry_reflects hash (min m max_request_series) obs
     (observe_all hash obs (with_series_limits d m max_stage))"
proof (induction obs rule: rev_induct)
  case Nil
  have "(replicate request_series_shards [] :: (string \<times> request_series_stats) list list)
      ! request_series_shard hash key = []" for key
    by simp
  then show ?case
    by (simp add: registry_reflects_def observe_all_def with_series_limits_def metrics_registry_new_def
        admitted_keys_def short_keys_def first_keys_def lookup_series_def)
next
  case (snoc o1 obs)
  obtain k t where o1: "o1 = (k, t)" by (cases o1)
  show ?case using observe_reflects [OF snoc, of k t] by (simp add: o1 observe_all_def)
qed

text \<open>The requests of a key, the durations of those that were timed, and the series they make up.\<close>

definition requests_of :: "string \<Rightarrow> (string \<times> nat option) list \<Rightarrow> nat" where
  "requests_of key obs = length (filter (\<lambda>(k, _). k = key) obs)"

definition durations_of :: "string \<Rightarrow> (string \<times> nat option) list \<Rightarrow> nat list" where
  "durations_of key obs = map (\<lambda>(_, t). the t) (filter (\<lambda>(k, t). k = key \<and> t \<noteq> None) obs)"

definition counts_own :: "string \<Rightarrow> (string \<times> nat option) list \<Rightarrow> request_series_stats \<Rightarrow> bool" where
  "counts_own key obs st \<longleftrightarrow>
     qs_count st = min (requests_of key obs) u64_max
     \<and> qs_duration_count st = min (length (durations_of key obs)) u64_max
     \<and> qs_duration_sum_micros st = min (\<Sum>t \<leftarrow> durations_of key obs. micros_u64 t) u64_max
     \<and> qs_duration_bucket_counts st = map (\<lambda>b. min (length (filter (\<lambda>t. duration_bucket t = b)
          (durations_of key obs))) u64_max) [0..<length no_buckets]"

lemma duration_bucket_in_range: "duration_bucket t < length no_buckets"
  using length_takeWhile_le [of "\<lambda>(upper, _). upper < t" duration_bounds]
  by (simp add: duration_bucket_def no_buckets_def)

lemma min_add_saturating: "saturating_add (min a u64_max) b = min (a + b) u64_max"
  by (auto simp: saturating_add_def)

lemma count_bucket_counts:
  "count_bucket t (map (\<lambda>b. min (f b) u64_max) [0..<length no_buckets])
     = map (\<lambda>b. min (f b + (if duration_bucket t = b then 1 else 0)) u64_max) [0..<length no_buckets]"
  using duration_bucket_in_range [of t]
  by (intro nth_equalityI) (auto simp: count_bucket_def Let_def nth_list_update min_saturating)

lemma requests_of_snoc: "requests_of key (obs @ [(k, t)]) = requests_of key obs + (if k = key then 1 else 0)"
  by (simp add: requests_of_def)

lemma durations_of_snoc: "durations_of key (obs @ [(k, t)]) =
    durations_of key obs @ (case t of None \<Rightarrow> [] | Some d \<Rightarrow> if k = key then [d] else [])"
  by (simp add: durations_of_def split: option.split)

lemma record_own:
  assumes "counts_own key obs st"
  shows "counts_own key (obs @ [(key, t)]) (record_stats t st)"
proof (cases t)
  case None
  with assms show ?thesis
    by (simp add: counts_own_def requests_of_snoc durations_of_snoc record_stats_def min_saturating)
next
  case (Some d)
  let ?f = "\<lambda>b. length (filter (\<lambda>t. duration_bucket t = b) (durations_of key obs))"
  note own = assms [unfolded counts_own_def]
  have "count_bucket d (qs_duration_bucket_counts st)
      = map (\<lambda>b. min (?f b + (if duration_bucket d = b then 1 else 0)) u64_max) [0..<length no_buckets]"
    using own by (simp only: count_bucket_counts)
  also have "\<dots> = map (\<lambda>b. min (length (filter (\<lambda>t. duration_bucket t = b)
      (durations_of key obs @ [d]))) u64_max) [0..<length no_buckets]"
    by (intro map_cong refl) simp
  finally have b: "count_bucket d (qs_duration_bucket_counts st)
      = map (\<lambda>b. min (length (filter (\<lambda>t. duration_bucket t = b)
          (durations_of key obs @ [d]))) u64_max) [0..<length no_buckets]" .
  have "record_stats t st = st\<lparr>qs_count := saturating_add (qs_count st) 1,
      qs_duration_count := saturating_add (qs_duration_count st) 1,
      qs_duration_sum_micros := saturating_add (qs_duration_sum_micros st) (micros_u64 d),
      qs_duration_bucket_counts := count_bucket d (qs_duration_bucket_counts st)\<rparr>"
    by (simp add: record_stats_def Some Let_def)
  moreover have "durations_of key (obs @ [(key, t)]) = durations_of key obs @ [d]"
    by (simp add: durations_of_snoc Some)
  moreover have "requests_of key (obs @ [(key, t)]) = requests_of key obs + 1"
    by (simp add: requests_of_snoc)
  ultimately show ?thesis
    using own unfolding counts_own_def b
    by (simp del: filter_append upt_Suc add: min_saturating min_add_saturating)
qed

lemma series_counts_own: "counts_own key obs (series_of key obs)"
proof (induction obs rule: rev_induct)
  case Nil
  have "no_buckets = map (\<lambda>b. 0) [0..<length no_buckets]"
    by (simp only: no_buckets_def map_replicate_const length_replicate length_upt) simp
  then show ?case
    by (simp add: counts_own_def series_of_def request_stats_default_def requests_of_def durations_of_def)
next
  case (snoc o1 obs)
  obtain k t where o1: "o1 = (k, t)" by (cases o1)
  show ?case
  proof (cases "k = key")
    case True
    with record_own [OF snoc] show ?thesis by (simp add: o1 series_of_snoc)
  next
    case False
    then have "requests_of key (obs @ [o1]) = requests_of key obs"
      "durations_of key (obs @ [o1]) = durations_of key obs"
      by (simp_all add: o1 requests_of_snoc durations_of_snoc split: option.split)
    with snoc False show ?thesis by (simp only: o1 series_of_snoc counts_own_def if_False)
  qed
qed

text \<open>C12: However many requests a fresh registry has recorded, it holds exactly one series for each of
  the distinct keys of admissible length that came first, as many as its limit allows and never
  more than 4096; each of these series counts exactly the requests of its key, and of those that
  were timed the number, the sum of their microseconds and the number in each bucket; a later or
  overlong key has no series and its requests are counted as dropped; and the total counts every
  request. All counters saturate at 64 bits. The requests of concurrent callers are listed in the
  order in which they get at the lock of their shard; the increments of the total commute.\<close>

theorem series_exact:
  "registry_reflects hash (min m max_request_series) obs
     (observe_all hash obs (with_series_limits d m max_stage))
   \<and> (\<forall>key. case lookup_series hash (observe_all hash obs (with_series_limits d m max_stage)) key of
        None \<Rightarrow> key \<notin> set (admitted_keys (min m max_request_series) obs)
      | Some st \<Rightarrow> counts_own key obs st)"
  using observed_reflects [of hash m obs d max_stage] series_counts_own
  by (auto simp: registry_reflects_def)

corollary series_bounded:
  "mr_request_series_count (observe_all hash obs (with_series_limits d m max_stage)) \<le> 4096"
  using observed_reflects [of hash m obs d max_stage]
  by (simp add: registry_reflects_def admitted_keys_def first_keys_length max_request_series_def)

text \<open>A full registry keeps the series it has: a route that is first called later is never counted.\<close>

lemma first_keys_full:
  assumes "n \<le> length (remdups ks)"
  shows "first_keys n (ks @ ks') = first_keys n ks"
proof (induction ks' rule: rev_induct)
  case (snoc k ks')
  have "card (set ks) \<le> card (set ks \<union> set ks')" by (intro card_mono) auto
  then have "n \<le> length (remdups (ks @ ks'))"
    using assms by (simp add: length_remdups_card_conv)
  then show ?case using snoc first_keys_snoc [of n "ks @ ks'" k] by simp
qed simp

lemma late_series_never_counted:
  assumes "registry_reflects hash n (obs @ later) r"
    and "n \<le> length (remdups (short_keys obs))" and "key \<notin> fst ` set obs"
  shows "lookup_series hash r key = None"
proof -
  have "admitted_keys n (obs @ later) = admitted_keys n obs"
    using assms(2) by (simp add: admitted_keys_def short_keys_def first_keys_full)
  moreover have "key \<notin> set (admitted_keys n obs)"
    using assms(3) first_keys_subset by (fastforce simp: admitted_keys_def short_keys_def)
  ultimately show ?thesis using assms(1) by (simp add: registry_reflects_def)
qed

text \<open>The operation in the key is the one of the call state without escapes, and the call state of a
  request starts with the operation its client names in a header.\<close>

lemma operation_label_is_raw:
  assumes "cs_operation_id s = Some v" and "v \<noteq> []"
  shows "suffix (''operation_id='' @ CHR 0x22 # v @ [CHR 0x22] @ '',backend_layer='' @ [CHR 0x22]
      @ ''handler'' @ [CHR 0x22])
    (prometheus_key (request_labels_from_state s d status))"
  using assms
  by (simp add: prometheus_key_def request_labels_from_state_def Let_def label_pair_def opt_filter_def
      escape_prometheus_label_def suffix_def)

lemma operation_label_from_client:
  "cs_operation_id (call_state_from_request collapse rq)
     = header_string (rq_headers rq) ''X-Sdkwork-Operation-Id''"
  by (simp add: call_state_from_request_def Let_def)

subsection \<open>Histograms\<close>

lemma cumulative_last:
  "cs \<noteq> [] \<Longrightarrow> acc \<le> u64_max \<Longrightarrow> last (cumulative acc cs) = min (acc + sum_list cs) u64_max"
proof (induction cs arbitrary: acc)
  case (Cons c cs)
  then show ?case by (cases cs) (auto simp: Let_def saturating_add_def min_def)
qed simp

lemma cumulative_sorted: "acc \<le> u64_max \<Longrightarrow> sorted (cumulative acc cs) \<and> (\<forall>c \<in> set (cumulative acc cs). acc \<le> c)"
proof (induction cs arbitrary: acc)
  case (Cons c cs)
  have "saturating_add acc c \<le> u64_max" and "acc \<le> saturating_add acc c"
    using Cons.prems by (auto simp: saturating_add_def)
  with Cons.IH [of "saturating_add acc c"] show ?case by (fastforce simp: Let_def)
qed simp

lemma count_bucket_sum:
  assumes "length counts = length no_buckets" and "sum_list counts < u64_max"
  shows "sum_list (count_bucket t counts) = sum_list counts + 1"
proof -
  have b: "duration_bucket t < length counts" using assms(1) duration_bucket_in_range by simp
  then have "counts ! duration_bucket t \<le> sum_list counts" by (simp add: elem_le_sum_list)
  then have "saturating_add (counts ! duration_bucket t) 1 = counts ! duration_bucket t + 1"
    using assms(2) by (simp add: saturating_add_def)
  then show ?thesis using b
    by (simp add: count_bucket_def Let_def sum_list_update elem_le_sum_list)
qed

text \<open>Below the bound of the counters, the bucket without a limit holds the number of timed requests
  and the cumulative counts never fall.\<close>

lemma series_buckets:
  assumes "length obs \<le> u64_max"
  shows "length (qs_duration_bucket_counts (series_of key obs)) = length no_buckets \<and>
    sum_list (qs_duration_bucket_counts (series_of key obs)) = qs_duration_count (series_of key obs) \<and>
    qs_duration_count (series_of key obs) \<le> length obs"
  using assms
proof (induction obs rule: rev_induct)
  case (snoc o1 obs)
  obtain k t where o1: "o1 = (k, t)" by (cases o1)
  have IH: "length (qs_duration_bucket_counts (series_of key obs)) = length no_buckets"
    "sum_list (qs_duration_bucket_counts (series_of key obs)) = qs_duration_count (series_of key obs)"
    "qs_duration_count (series_of key obs) \<le> length obs" "length obs < u64_max"
    using snoc by simp_all
  then have below: "sum_list (qs_duration_bucket_counts (series_of key obs)) < u64_max" by simp
  show ?case
    using IH count_bucket_sum [OF IH(1) below]
    by (cases t) (auto simp: o1 series_of_snoc record_stats_def Let_def saturating_add_def count_bucket_def)
qed (simp add: series_of_def request_stats_default_def no_buckets_def)

theorem histogram_consistent:
  assumes "length obs \<le> u64_max" and "st = series_of key obs"
  shows "sorted (cumulative 0 (qs_duration_bucket_counts st))"
    and "last (cumulative 0 (qs_duration_bucket_counts st)) = qs_duration_count st"
proof -
  show "sorted (cumulative 0 (qs_duration_bucket_counts st))" by (simp add: cumulative_sorted)
  have "qs_duration_bucket_counts st \<noteq> []"
    using series_buckets [OF assms(1), of key] by (auto simp: assms(2) no_buckets_def)
  then show "last (cumulative 0 (qs_duration_bucket_counts st)) = qs_duration_count st"
    using series_buckets [OF assms(1), of key] assms by (simp add: cumulative_last)
qed

end
