(* ===== verification/Hosting.thy ===== *)
theory Hosting
  imports Assembly Api_Assembly Middleware Metrics
begin

section \<open>Running a service\<close>

text \<open>
  Models \<open>lifecycle.rs\<close>, \<open>serve.rs\<close>, \<open>router.rs\<close>, \<open>fallback.rs\<close> and \<open>observability.rs\<close> of the
  bootstrap crate and \<open>WebFramework::run\<close>: start-up and shutdown hooks, the infrastructure
  routes, the answer to what no route takes, and how long a server runs. Times are nanoseconds
  after it began to serve; when the signal of the operating system arrives and how long open
  connections then take are inputs, \<^const>\<open>None\<close> where they never do.
\<close>

subsection \<open>Lifecycle\<close>

type_synonym 'w lifecycle_hook = "'w \<Rightarrow> 'w \<times> (string + unit)"

record 'w lifecycle =
  lc_on_startup :: "'w lifecycle_hook"
  lc_on_shutdown :: "'w lifecycle_hook"

definition no_op_lifecycle :: "'w lifecycle" where
  "no_op_lifecycle = \<lparr>lc_on_startup = (\<lambda>w. (w, Inr ())), lc_on_shutdown = (\<lambda>w. (w, Inr ()))\<rparr>"

fun run_hooks :: "'w lifecycle_hook list \<Rightarrow> 'w lifecycle_hook" where
  "run_hooks [] w = (w, Inr ())"
| "run_hooks (h # hs) w = (case h w of (w, Inl e) \<Rightarrow> (w, Inl e) | (w, Inr _) \<Rightarrow> run_hooks hs w)"

definition composite_lifecycle :: "'w lifecycle list \<Rightarrow> 'w lifecycle" where
  "composite_lifecycle hooks =
     \<lparr>lc_on_startup = run_hooks (map lc_on_startup hooks), lc_on_shutdown = run_hooks (map lc_on_shutdown hooks)\<rparr>"

subsection \<open>Serving\<close>

datatype serve_end = BindFailed string | StartupFailed string | ReturnedOk nat | StillServing

text \<open>The flag tells whether the shutdown hooks were spawned. Nothing waits for them.\<close>

definition graceful_serve :: "nat option \<Rightarrow> nat option \<Rightarrow> nat option" where
  "graceful_serve os_signal drain_time =
     Option.bind os_signal (\<lambda>s. map_option (\<lambda>d. s + d) drain_time)"

definition serve_with_lifecycle ::
  "string option \<Rightarrow> 'w lifecycle \<Rightarrow> nat option \<Rightarrow> nat option \<Rightarrow> nat option \<Rightarrow> 'w \<Rightarrow> 'w \<times> serve_end \<times> bool" where
  "serve_with_lifecycle bind_error lifecycle grace_period os_signal drain_time w =
     (case bind_error of
        Some e \<Rightarrow> (w, BindFailed e, False)
      | None \<Rightarrow>
          (case lc_on_startup lifecycle w of
             (w, Inl detail) \<Rightarrow>
               (w, StartupFailed (''WebFrameworkLifecycle startup hook failed: '' @ detail), False)
           | (w, Inr _) \<Rightarrow>
               (case grace_period of
                  None \<Rightarrow>
                    (w, case graceful_serve os_signal drain_time of
                          None \<Rightarrow> StillServing | Some t \<Rightarrow> ReturnedOk t, os_signal \<noteq> None)
                | Some grace \<Rightarrow>
                    (w, case graceful_serve os_signal drain_time of
                          None \<Rightarrow> ReturnedOk grace | Some t \<Rightarrow> ReturnedOk (min t grace),
                     case os_signal of None \<Rightarrow> False | Some s \<Rightarrow> s \<le> grace))))"

definition framework_run ::
  "string option \<Rightarrow> 'w lifecycle \<Rightarrow> ('w, 'c) framework \<Rightarrow> nat option \<Rightarrow> nat option \<Rightarrow> 'w \<Rightarrow> 'w \<times> serve_end \<times> bool" where
  "framework_run bind_error lifecycle fw os_signal drain_time w =
     serve_with_lifecycle bind_error lifecycle (fw_shutdown_grace_period fw) os_signal drain_time w"

subsection \<open>What no route takes\<close>

definition fallback_from_routes :: "http_route list \<Rightarrow> string list" where
  "fallback_from_routes routes = map (\<lambda>r. http_method_label (rt_method r) @ '' '' @ rt_path r) routes"

definition fallback_contains :: "string list \<Rightarrow> string \<Rightarrow> string \<Rightarrow> bool" where
  "fallback_contains manifest_paths method_name path \<longleftrightarrow>
     list_ex (\<lambda>route. case split_once (CHR '' '') route of
         None \<Rightarrow> False
       | Some (manifest_method, manifest_path) \<Rightarrow>
           manifest_method = method_name \<and> route_path_matches manifest_path path) manifest_paths"

definition contract_fallback_error :: "string list \<Rightarrow> string \<Rightarrow> string \<Rightarrow> web_error" where
  "contract_fallback_error manifest_paths method_name path =
     (if fallback_contains manifest_paths method_name path
      then not_implemented ''route is declared in contract manifest but handler is not mounted''
      else not_found ''route is not registered'')"

definition contract_fallback_handler ::
  "libs \<Rightarrow> 'w runtime \<Rightarrow> string list \<Rightarrow> 'w inbound \<Rightarrow> 'w \<times> response" where
  "contract_fallback_handler lib rn manifest_paths ib =
     (case correlation_from_request rn ib of (w, c) \<Rightarrow>
        (w, problem_response lib (contract_fallback_error manifest_paths
          (rq_method (ib_request ib)) (rq_path (ib_request ib))) c))"

subsection \<open>Infrastructure routes\<close>

record 'w service_router_config =
  src_readiness :: "'w readiness_check option"
  src_metrics :: "metrics_registry option"
  src_skip_metrics :: bool
  src_contract_fallback :: "string list option"

text \<open>A handler is the answer it gives: status, content type and the readiness probe's or the
  registry's text. Registering a route is left to the router, which may panic.\<close>

datatype 'w infra_handler =
    HealthzHandler | LivezHandler | ReadyzHandler "'w readiness_check option"
  | MetricsHandler metrics_registry

definition metrics_handler :: "metrics_registry \<Rightarrow> nat \<times> string \<times> string" where
  "metrics_handler registry =
     (200, ''text/plain; version=0.0.4; charset=utf-8'', render_prometheus registry)"

definition infra_routes :: "metrics_registry \<Rightarrow> 'w service_router_config \<Rightarrow> (string \<times> 'w infra_handler) list" where
  "infra_routes new_registry config =
     [(''/healthz'', HealthzHandler), (''/livez'', LivezHandler),
      (''/readyz'', ReadyzHandler (src_readiness config))]
     @ (if src_skip_metrics config then []
        else [(''/metrics'', MetricsHandler (case src_metrics config of
            Some m \<Rightarrow> m | None \<Rightarrow> new_registry))])"

definition mount_infra_routes ::
  "('r \<Rightarrow> string \<Rightarrow> 'w infra_handler \<Rightarrow> 'r option) \<Rightarrow> ('r \<Rightarrow> string list \<Rightarrow> 'r) \<Rightarrow> metrics_registry \<Rightarrow>
     'w service_router_config \<Rightarrow> 'r \<Rightarrow> 'r option" where
  "mount_infra_routes add_route set_fallback new_registry config router =
     map_option (\<lambda>r. case src_contract_fallback config of None \<Rightarrow> r | Some f \<Rightarrow> set_fallback r f)
       (fold (\<lambda>(path, handler) r. Option.bind r (\<lambda>r. add_route r path handler))
         (infra_routes new_registry config) (Some router))"

definition assemble_multi_surface_router ::
  "('r \<Rightarrow> 'r \<Rightarrow> 'r option) \<Rightarrow> 'r \<Rightarrow> ('r \<Rightarrow> string \<Rightarrow> 'w infra_handler \<Rightarrow> 'r option) \<Rightarrow>
     ('r \<Rightarrow> string list \<Rightarrow> 'r) \<Rightarrow> metrics_registry \<Rightarrow> 'w service_router_config \<Rightarrow> 'r list \<Rightarrow> 'r option" where
  "assemble_multi_surface_router merge_router empty_router add_route set_fallback new_registry config business =
     Option.bind (fold (\<lambda>b r. Option.bind r (\<lambda>r. merge_router r b)) business (Some empty_router))
       (mount_infra_routes add_route set_fallback new_registry config)"

definition framework_router_config ::
  "('w, 'c) framework \<Rightarrow> 'w readiness_check option \<Rightarrow> metrics_registry option \<Rightarrow> 'w service_router_config" where
  "framework_router_config fw readiness metrics =
     \<lparr>src_readiness = readiness, src_metrics = metrics, src_skip_metrics = fw_skip_infra_metrics fw,
      src_contract_fallback = map_option fallback_from_routes (fw_contract_fallback fw)\<rparr>"

subsection \<open>Facts\<close>

text \<open>Hooks run in order and the first that fails is the last that runs, at start-up and at shutdown
  alike; nothing takes back what the hooks before it did.\<close>

lemma run_hooks_append:
  "run_hooks (hs @ hs') w = (case run_hooks hs w of (w, Inl e) \<Rightarrow> (w, Inl e) | (w, Inr _) \<Rightarrow> run_hooks hs' w)"
  by (induction hs arbitrary: w) (auto split: prod.splits sum.splits)

lemma failing_hook_is_last:
  assumes "run_hooks (map f before) w = (w1, Inr ())" and "f c w1 = (w2, Inl e)"
  shows "run_hooks (map f (before @ c # later)) w = (w2, Inl e)"
  using assms by (simp add: run_hooks_append)

lemma failed_startup_never_shuts_down:
  assumes "lc_on_startup lifecycle w = (w', Inl e)"
  shows "snd (snd (serve_with_lifecycle None lifecycle grace os_signal drain_time w)) = False"
    and "fst (serve_with_lifecycle None lifecycle grace os_signal drain_time w) = w'"
  using assms by (simp_all add: serve_with_lifecycle_def)

lemma build_grace:
  assumes "build parse_operation env fresh b region = (region', Inr fw)"
  shows "fw_shutdown_grace_period fw = wb_shutdown_grace_period b"
  using assms by (auto simp: build_def Let_def split: sum.splits prod.splits)

lemma production_defaults_grace:
  assumes "wb_shutdown_grace_period b = None"
  shows "wb_shutdown_grace_period (production_defaults b) = Some 30000000000"
  using assms by (simp add: production_defaults_def Let_def features_production_sqlx_def some_or_def
      production_default_grace_secs_def)

text \<open>A server of a framework built with a shutdown grace period, which the production defaults set to
  thirty seconds, returns without an error at most that long after it began to serve, however
  long the operating system lets it run; without a signal it returns when the period is over
  and the shutdown hooks never run. A framework without the period serves until the signal.\<close>

theorem grace_period_ends_serving:
  assumes "build parse_operation env fresh b region = (region', Inr fw)"
    and "lc_on_startup lifecycle w = (w1, Inr ())"
  shows "case wb_shutdown_grace_period b of
      Some grace \<Rightarrow> \<exists>t \<le> grace. fst (snd (framework_run None lifecycle fw os_signal drain_time w)) = ReturnedOk t
        \<and> framework_run None lifecycle fw None drain_time w = (w1, ReturnedOk grace, False)
    | None \<Rightarrow> framework_run None lifecycle fw None drain_time w = (w1, StillServing, False)
        \<and> framework_run None lifecycle fw (Some s) (Some d) w = (w1, ReturnedOk (s + d), True)"
  using assms(2)
  by (auto simp: framework_run_def serve_with_lifecycle_def build_grace [OF assms(1)] graceful_serve_def
      split: option.splits)

theorem grace_period_ends_serving_witness:
  "\<exists>fw. build (\<lambda>_. None) (\<lambda>_. None) runtime_development (saas_builder deny_all_object) None = (Some ''global'', Inr fw)
     \<and> (\<forall>w. framework_run None no_op_lifecycle fw None None w = (w, ReturnedOk 30000000000, False))"
proof -
  obtain fw where fw: "build (\<lambda>_. None) (\<lambda>_. None) runtime_development (saas_builder deny_all_object) None
      = (Some ''global'', Inr fw)"
    using saas_builder_builds by blast
  have "wb_shutdown_grace_period (saas_builder deny_all_object) = Some 30000000000"
    by (simp add: saas_builder_def production_defaults_def builder_new_def Let_def features_production_sqlx_def
        some_or_def production_default_grace_secs_def)
  then have "framework_run None no_op_lifecycle fw None None w = (w, ReturnedOk 30000000000, False)" for w
    using grace_period_ends_serving [OF fw, where lifecycle = no_op_lifecycle and w = w and os_signal = None
        and drain_time = None]
    by (auto simp: no_op_lifecycle_def)
  with fw show ?thesis by blast
qed

text \<open>The fallback knows a method and path exactly when a route of the manifest takes them.\<close>

lemma method_label_splits:
  "split_once (CHR '' '') (http_method_label m @ '' '' @ path) = Some (http_method_label m, path)"
  by (cases m) simp_all

lemma contract_fallback_exact:
  "contract_fallback_error (fallback_from_routes routes) method_name path =
     (if \<exists>r \<in> set routes. http_method_label (rt_method r) = method_name \<and> route_path_matches (rt_path r) path
      then not_implemented ''route is declared in contract manifest but handler is not mounted''
      else not_found ''route is not registered'')"
  by (simp add: contract_fallback_error_def fallback_contains_def fallback_from_routes_def list_ex_iff
      method_label_splits [simplified])

text \<open>The infrastructure routes are those the composition of assemblies keeps for itself.\<close>

lemma infra_routes_reserved:
  "distinct (map fst (infra_routes registry config)) \<and>
   set (map fst (infra_routes registry config)) \<subseteq> set infrastructure_paths \<and>
   (\<not> src_skip_metrics config \<longrightarrow> set (map fst (infra_routes registry config)) = set infrastructure_paths)"
  by (auto simp: infra_routes_def infrastructure_paths_def)

end
