(* ===== verification/Event_Rows.thy ===== *)
theory Event_Rows
  imports Admin_Repository Sqlx_Stores
begin

section \<open>Audit and security events in the data base\<close>

text \<open>
  Models \<open>audit.rs\<close> and \<open>security_events.rs\<close> of \<open>sdkwork-web-store-sqlx\<close> on the tables the
  control plane lists: a row is what a list returns and when it expires. The data base numbers
  the rows; \<open>row_id\<close> is the number it gives the new one. \<open>failure\<close> is the text of the error of
  the statement where it fails. The table of rows is in no order.
\<close>

definition event_ttl_secs :: int where
  "event_ttl_secs = 90 * 24 * 60 * 60"

text \<open>\<open>as i64\<close> of a \<open>u64\<close>.\<close>

definition duration_as_i64 :: "nat \<Rightarrow> int" where
  "duration_as_i64 n = (if n \<le> i64_max then int n else int n - 18446744073709551616)"

definition delete_expired_events :: "int \<Rightarrow> ('r \<times> int option) list \<Rightarrow> ('r \<times> int option) list" where
  "delete_expired_events now rows =
     filter (\<lambda>(_, expires_at). case expires_at of None \<Rightarrow> True | Some t \<Rightarrow> now < t) rows"

definition audit_row :: "int \<Rightarrow> int \<Rightarrow> audit_fact \<Rightarrow> audit_event_record" where
  "audit_row row_id now aud =
     \<lparr>ae_id = row_id, ae_request_id = af_request_id aud, ae_tenant_id = af_tenant_id aud,
      ae_user_id = af_user_id aud, ae_api_surface = surface_debug (af_api_surface aud),
      ae_path = af_path aud, ae_method = af_method aud, ae_operation_id = af_operation_id aud,
      ae_status_code = map_option int (af_status_code aud),
      ae_duration_ms = map_option duration_as_i64 (af_duration_ms aud), ae_created_at = now\<rparr>"

type_synonym 'r event_store = "int \<times> ('r \<times> int option) list"

definition emit_audit ::
  "string option \<Rightarrow> int \<Rightarrow> int \<Rightarrow> audit_fact \<Rightarrow> audit_event_record event_store
     \<Rightarrow> audit_event_record event_store \<times> (web_error + unit)" where
  "emit_audit failure row_id now aud st =
     (case maybe_purge delete_expired_events now st of (last_purge, rows) \<Rightarrow>
        (case failure of
           Some e \<Rightarrow> ((last_purge, rows), Inl (dependency_unavailable (''sqlx audit store error: '' @ e)))
         | None \<Rightarrow> ((last_purge, (audit_row row_id now aud, Some (now + event_ttl_secs)) # rows), Inr ())))"

fun security_event_kind_label :: "security_event_kind \<Rightarrow> string" where
  "security_event_kind_label CorsDenied = ''cors_denied''"
| "security_event_kind_label RateLimitExceededEvent = ''rate_limit_exceeded''"
| "security_event_kind_label AuthenticationFailed = ''authentication_failed''"
| "security_event_kind_label AuthorizationDenied = ''authorization_denied''"
| "security_event_kind_label TenantIsolationDenied = ''tenant_isolation_denied''"

definition security_row :: "int \<Rightarrow> int \<Rightarrow> security_event \<Rightarrow> security_event_record" where
  "security_row row_id now event =
     \<lparr>sv_id = row_id, sv_kind = security_event_kind_label (se_kind event),
      sv_request_id = se_request_id event,
      sv_tenant_id = Some (case se_tenant_id event of None \<Rightarrow> ''0'' | Some t \<Rightarrow> t),
      sv_path = se_path event, sv_method = se_method event,
      sv_api_surface = surface_debug (se_api_surface event), sv_origin = se_origin event,
      sv_detail = se_detail event, sv_created_at = now\<rparr>"

text \<open>A failing statement is logged and the event lost.\<close>

definition emit_security ::
  "string option \<Rightarrow> int \<Rightarrow> int \<Rightarrow> security_event \<Rightarrow> security_event_record event_store
     \<Rightarrow> security_event_record event_store \<times> (web_error + unit)" where
  "emit_security failure row_id now event st =
     (case maybe_purge delete_expired_events now st of (last_purge, rows) \<Rightarrow>
        (case failure of
           Some _ \<Rightarrow> ((last_purge, rows), Inr ())
         | None \<Rightarrow> ((last_purge, (security_row row_id now event, Some (now + event_ttl_secs)) # rows), Inr ())))"

subsection \<open>What a list shows of what was emitted\<close>

lemma purge_keeps:
  assumes "(r, Some t) \<in> set (snd st)" and "now < t"
  shows "(r, Some t) \<in> set (snd (maybe_purge delete_expired_events now st))"
  using assms by (cases st) (auto simp: maybe_purge_def delete_expired_events_def)

lemma purge_subset: "set (snd (maybe_purge delete_expired_events now st)) \<subseteq> set (snd st)"
  by (cases st) (auto simp: maybe_purge_def delete_expired_events_def)

lemma insort_first: "\<forall>y \<in> set ys. k x \<le> k y \<Longrightarrow> insort_key k x ys = x # ys"
  by (cases ys) auto

lemma newest_row_first:
  assumes "\<forall>r \<in> set rows. row_of r \<le> row_of x" and "P x" and "0 < fetch_limit"
  shows "\<exists>rest. keyset_rows P row_of None fetch_limit (x # rows) = x # rest"
proof -
  have "insort_key (\<lambda>r. - row_of r) x (sort_key (\<lambda>r. - row_of r) (filter P rows))
      = x # sort_key (\<lambda>r. - row_of r) (filter P rows)"
    using assms(1) by (intro insort_first) auto
  then show ?thesis using assms(2,3) by (cases fetch_limit) (simp_all add: keyset_rows_def)
qed

lemma listed_in_scope:
  "set (kp_items (list_audit_events_rows scope before_id page_size rows))
     \<subseteq> {r \<in> set rows. in_scope scope (ae_tenant_id r)}"
  by (auto simp: list_audit_events_rows_def from_limit_plus_one_def Let_def keyset_rows_def
      dest!: in_set_takeD)

text \<open>An audit fact that was stored heads the first page of every list whose scope holds its tenant,
  and is on no page of another tenant.\<close>

theorem stored_audit_is_listed:
  assumes "emit_audit None row_id now aud st = (st', r)"
    and "\<forall>(row, _) \<in> set (snd st). ae_id row < row_id" and "0 < page_size"
  shows "r = Inr ()"
    and "in_scope scope (af_tenant_id aud) \<Longrightarrow> \<exists>rest. kp_items (list_audit_events_rows scope None page_size
      (map fst (snd st'))) = audit_row row_id now aud # rest"
    and "\<not> in_scope scope (af_tenant_id aud) \<Longrightarrow> row_id \<notin> ae_id ` set (kp_items
      (list_audit_events_rows scope before_id page_size (map fst (snd st'))))"
proof -
  obtain last_purge rows where p: "maybe_purge delete_expired_events now st = (last_purge, rows)"
    by (cases "maybe_purge delete_expired_events now st")
  have st': "st' = (last_purge, (audit_row row_id now aud, Some (now + event_ttl_secs)) # rows)" and r: "r = Inr ()"
    using assms(1) by (auto simp: emit_audit_def p)
  show "r = Inr ()" by (rule r)
  have older: "\<forall>row \<in> set (map fst rows). ae_id row < row_id"
    using purge_subset [of now st] assms(2) by (fastforce simp: p)
  let ?x = "audit_row row_id now aud"
  have id: "ae_id ?x = row_id" and tenant: "ae_tenant_id ?x = af_tenant_id aud"
    by (simp_all add: audit_row_def)
  show "\<exists>rest. kp_items (list_audit_events_rows scope None page_size (map fst (snd st'))) = ?x # rest"
    if "in_scope scope (af_tenant_id aud)"
  proof -
    have "\<exists>rest. keyset_rows (\<lambda>r. in_scope scope (ae_tenant_id r)) ae_id None (page_size + 1)
        (?x # map fst rows) = ?x # rest"
      using older that by (intro newest_row_first) (auto simp: id tenant less_imp_le)
    then obtain rest where "keyset_rows (\<lambda>r. in_scope scope (ae_tenant_id r)) ae_id None (page_size + 1)
        (?x # map fst rows) = ?x # rest" by blast
    then show ?thesis using assms(3)
      by (cases page_size) (auto simp: st' list_audit_events_rows_def from_limit_plus_one_def Let_def)
  qed
  show "row_id \<notin> ae_id ` set (kp_items (list_audit_events_rows scope before_id page_size (map fst (snd st'))))"
    if "\<not> in_scope scope (af_tenant_id aud)"
    using that older listed_in_scope [of scope before_id page_size "map fst (snd st')"] tenant
    by (fastforce simp: st')
qed

text \<open>A row stays for ninety days, whatever is emitted in between.\<close>

lemma event_kept:
  assumes "(row, Some t) \<in> set (snd st)" and "now < t"
  shows "(row, Some t) \<in> set (snd (fst (emit_audit failure row_id now aud st)))"
  using purge_keeps [OF assms] by (auto simp: emit_audit_def split: prod.splits option.splits)

lemma security_event_kept:
  assumes "(row, Some t) \<in> set (snd st)" and "now < t"
  shows "(row, Some t) \<in> set (snd (fst (emit_security failure row_id now event st)))"
  using purge_keeps [OF assms] by (auto simp: emit_security_def split: prod.splits option.splits)

text \<open>A security event of no tenant becomes one of the tenant \<open>0\<close>, whose administrators see it; an
  audit fact of no tenant is seen on the platform scope only.\<close>

lemma tenantless_events:
  assumes "se_tenant_id event = None" and "af_tenant_id aud = None"
  shows "in_scope (OfTenant ''0'') (sv_tenant_id (security_row row_id now event))"
    and "\<not> in_scope (OfTenant t) (ae_tenant_id (audit_row row_id now aud))"
  using assms by (simp_all add: security_row_def audit_row_def)

text \<open>A security event never fails the request that caused it.\<close>

lemma security_events_fail_open: "snd (emit_security failure row_id now event st) = Inr ()"
  by (simp add: emit_security_def split: prod.splits option.splits)

end
