(* ===== verification/Extractors.thy ===== *)
theory Extractors
  imports Middleware
begin

section \<open>What handlers and routers take from the pipeline\<close>

text \<open>
  Models \<open>axum_integration.rs\<close>, \<open>tenant_app_context.rs\<close>, \<open>surface_bridge.rs\<close> and the rejection of
  \<open>error.rs\<close>: the extractors a handler declares, with the problem response they answer when the
  context does not fit; and \<open>timeout.rs\<close> and \<open>cors.rs\<close> of the axum crate, layers around routes.
\<close>

subsection \<open>Rejections\<close>

record rejection =
  rj_error :: web_error
  rj_request_id :: string
  rj_trace_id :: "string option"
  rj_method :: string
  rj_path :: string

definition correlation_from_parts :: "'w runtime \<Rightarrow> 'w inbound \<Rightarrow> 'w \<times> string \<times> string option" where
  "correlation_from_parts rn ib =
     (case ib_ext_context ib of
        Some ctx \<Rightarrow> (ib_world ib, rc_request_id ctx, rc_trace_id ctx)
      | None \<Rightarrow>
          (let hs = rq_headers (ib_request ib);
               trace_id = Option.bind (hdr_trimmed hs ''traceparent'') trace_id_from_traceparent
           in case hdr_trimmed hs ''X-Request-Id'' of
                Some request_id \<Rightarrow> (ib_world ib, request_id, trace_id)
              | None \<Rightarrow> (case random_request_id rn (ib_world ib) of (w, request_id) \<Rightarrow>
                  (w, request_id, trace_id))))"

definition rejection_new :: "'w runtime \<Rightarrow> web_error \<Rightarrow> 'w inbound \<Rightarrow> 'w \<times> rejection" where
  "rejection_new rn e ib =
     (case correlation_from_parts rn ib of (w, request_id, trace_id) \<Rightarrow>
        (w, \<lparr>rj_error = e, rj_request_id = request_id, rj_trace_id = trace_id,
             rj_method = rq_method (ib_request ib), rj_path = rq_path (ib_request ib)\<rparr>))"

definition rejection_response :: "libs \<Rightarrow> rejection \<Rightarrow> response" where
  "rejection_response lib rj =
     problem_response lib (rj_error rj)
       (with_routing (Some (rj_method rj)) None (Some (rj_path rj)) None
         (correlation_new (Some (rj_request_id rj)) (rj_trace_id rj)))"

subsection \<open>Tenant and application\<close>

record tenant_app_context =
  ta_tenant_id :: string
  ta_organization_id :: "string option"
  ta_app_id :: string
  ta_user_id :: string
  ta_session_id :: "string option"
  ta_environment :: environment
  ta_login_scope :: login_scope

definition tenant_app_from_context :: "request_context \<Rightarrow> web_error + tenant_app_context" where
  "tenant_app_from_context ctx =
     res_bind (require_principal ctx) (\<lambda>p. Inr
       \<lparr>ta_tenant_id = principal_tenant_id p, ta_organization_id = tn_organization_id (pr_tenancy p),
        ta_app_id = principal_app_id p, ta_user_id = principal_user_id p,
        ta_session_id = sc_session_id (pr_subject p), ta_environment = ac_environment (pr_app p),
        ta_login_scope = tn_login_scope (pr_tenancy p)\<rparr>)"

subsection \<open>Extractors\<close>

text \<open>An extractor reads the context the pipeline left with the request and checks it.\<close>

type_synonym ('w, 'a) extractor = "'w runtime \<Rightarrow> 'w inbound \<Rightarrow> 'w \<times> (rejection + 'a)"

definition extract_context :: "('w, request_context) extractor" where
  "extract_context rn ib =
     (case ib_ext_context ib of
        Some ctx \<Rightarrow> (ib_world ib, Inr ctx)
      | None \<Rightarrow> (case rejection_new rn context_not_injected ib of (w, rj) \<Rightarrow> (w, Inl rj)))"

definition extract_checked :: "(request_context \<Rightarrow> web_error + 'a) \<Rightarrow> ('w, 'a) extractor" where
  "extract_checked check rn ib =
     (case extract_context rn ib of
        (w, Inl rj) \<Rightarrow> (w, Inl rj)
      | (w, Inr ctx) \<Rightarrow>
          (case check ctx of
             Inl e \<Rightarrow> (case rejection_new rn e (ib\<lparr>ib_world := w\<rparr>) of (w, rj) \<Rightarrow> (w, Inl rj))
           | Inr a \<Rightarrow> (w, Inr a)))"

definition dual_token_check :: "request_context \<Rightarrow> web_error + request_context" where
  "dual_token_check ctx =
     (if rc_auth_mode ctx \<noteq> ModeDualToken
      then Inl (missing_credentials ''handler requires dual-token authenticated context'')
      else res_bind (require_principal ctx) (\<lambda>_. Inr ctx))"

definition app_api_check :: "request_context \<Rightarrow> web_error + request_context" where
  "app_api_check ctx =
     (if rc_api_surface ctx \<noteq> AppApi then Inl (forbidden ''handler requires app-api surface'') else Inr ctx)"

definition open_api_check :: "request_context \<Rightarrow> web_error + request_context" where
  "open_api_check ctx =
     (if rc_api_surface ctx \<noteq> OpenApi then Inl (forbidden ''handler requires open-api surface'')
      else if rc_auth_mode ctx \<notin> {ModeApiKey, ModeOAuth}
      then Inl (missing_credentials ''handler requires open-api API key or OAuth bearer authentication'')
      else res_bind (require_principal ctx) (\<lambda>_. Inr ctx))"

definition internal_api_check :: "request_context \<Rightarrow> web_error + request_context" where
  "internal_api_check ctx =
     (if rc_api_surface ctx \<noteq> InternalApi then Inl (forbidden ''handler requires internal-api surface'')
      else if rc_auth_mode ctx \<noteq> ModeIngressToken
      then Inl (missing_credentials ''handler requires ingress-token authenticated context'')
      else res_bind (require_principal ctx) (\<lambda>_. Inr ctx))"

definition require_principal_extractor :: "('w, principal) extractor" where
  "require_principal_extractor = extract_checked require_principal"

definition require_tenant_app :: "('w, tenant_app_context) extractor" where
  "require_tenant_app = extract_checked tenant_app_from_context"

definition require_dual_token :: "('w, request_context) extractor" where
  "require_dual_token = extract_checked dual_token_check"

definition require_app_api :: "('w, request_context) extractor" where
  "require_app_api = extract_checked app_api_check"

definition require_open_api :: "('w, request_context) extractor" where
  "require_open_api = extract_checked open_api_check"

definition require_internal_api :: "('w, request_context) extractor" where
  "require_internal_api = extract_checked internal_api_check"

subsection \<open>Layers around routes\<close>

definition request_timeout_middleware ::
  "libs \<Rightarrow> 'w runtime \<Rightarrow> 'w handler \<Rightarrow> nat \<Rightarrow> 'w inbound \<Rightarrow> 'w \<times> handler_end" where
  "request_timeout_middleware lib rn h timeout ib =
     (case correlation_from_request rn ib of (w, c) \<Rightarrow>
        (case hd_run_until h timeout (ib\<lparr>ib_world := w\<rparr>) of
           (w, Some e) \<Rightarrow> (w, e)
         | (w, None) \<Rightarrow> (w, Responded (problem_response lib (request_timeout ''request timed out'') c))))"

text \<open>What \<open>cors_layer_from_policy\<close> gives the CORS layer of \<open>tower-http\<close>. \<open>parse_name\<close> parses a header
  name.\<close>

record cors_layer =
  cl_allows_origin :: "string \<Rightarrow> bool"
  cl_methods :: "string list"
  cl_headers :: "string list"
  cl_allow_credentials :: bool

definition some_values :: "('a \<Rightarrow> 'b option) \<Rightarrow> 'a list \<Rightarrow> 'b list" where
  "some_values f xs = concat (map (\<lambda>x. case f x of None \<Rightarrow> [] | Some y \<Rightarrow> [y]) xs)"

definition cors_layer_from_policy ::
  "(string \<Rightarrow> uri_view option) \<Rightarrow> (string \<Rightarrow> string option) \<Rightarrow> cors_policy \<Rightarrow> cors_layer" where
  "cors_layer_from_policy parse_uri parse_name policy =
     (let allowed = some_values parse_name (filter (\<lambda>h. h \<noteq> ''*'') (co_allowed_headers policy));
          allowed = (if list_ex (\<lambda>h. h = ''*'') (co_allowed_headers policy)
            then fold (\<lambda>h acc. case parse_name h of None \<Rightarrow> acc
                   | Some n \<Rightarrow> if n \<in> set acc then acc else acc @ [n])
                 (co_allowed_headers cors_default) allowed
            else allowed)
      in \<lparr>cl_allows_origin = allows_origin parse_uri policy, cl_methods = co_allowed_methods policy,
          cl_headers = allowed, cl_allow_credentials = co_allow_credentials policy\<rparr>)"

subsection \<open>Facts\<close>

lemma extract_checked_ok:
  "(\<exists>w. extract_checked check rn ib = (w, Inr a)) \<longleftrightarrow>
     (\<exists>ctx. ib_ext_context ib = Some ctx \<and> check ctx = Inr a)"
  by (auto simp: extract_checked_def extract_context_def split: option.splits prod.splits sum.splits)

text \<open>The checks accept exactly the contexts of their surface and authentication.\<close>

lemma open_api_check_exact:
  "open_api_check ctx = Inr c \<longleftrightarrow> c = ctx \<and> rc_api_surface ctx = OpenApi
     \<and> rc_auth_mode ctx \<in> {ModeApiKey, ModeOAuth} \<and> rc_principal ctx \<noteq> None"
  by (auto simp: open_api_check_def require_principal_def ok_or_def res_bind_def split: option.splits)

lemma internal_api_check_exact:
  "internal_api_check ctx = Inr c \<longleftrightarrow> c = ctx \<and> rc_api_surface ctx = InternalApi
     \<and> rc_auth_mode ctx = ModeIngressToken \<and> rc_principal ctx \<noteq> None"
  by (auto simp: internal_api_check_def require_principal_def ok_or_def res_bind_def split: option.splits)

lemma dual_token_check_exact:
  "dual_token_check ctx = Inr c \<longleftrightarrow> c = ctx \<and> rc_auth_mode ctx = ModeDualToken \<and> rc_principal ctx \<noteq> None"
  by (auto simp: dual_token_check_def require_principal_def ok_or_def res_bind_def split: option.splits)

text \<open>After the pipeline has injected a context, a handler that asks for tenant and application gets
  those of the principal of its call state, and one without a principal is not reached.\<close>

theorem injected_tenant_is_principals:
  assumes "before_context_injection rn e = (f, Inr u)"
    and "\<forall>inject \<in> set (rn_domain_injectors rn). \<forall>ctx ev. ev_ext_context (inject ctx ev) = ev_ext_context ev"
    and "require_tenant_app rn (inbound_of f) = (w, Inr t)"
  shows "\<exists>p. cs_principal (ev_state f) = Some p \<and> ta_tenant_id t = principal_tenant_id p
    \<and> ta_user_id t = principal_user_id p \<and> ta_app_id t = principal_app_id p"
proof -
  obtain ctx where c: "to_context (ev_state f) = Inr ctx" and x: "ev_ext_context f = Some ctx"
    using injected_context [OF assms(1,2)] by blast
  from assms(3) have "tenant_app_from_context ctx = Inr t"
    using extract_checked_ok [of tenant_app_from_context rn "inbound_of f" t]
    by (auto simp: require_tenant_app_def inbound_of_def x)
  then obtain p where p: "rc_principal ctx = Some p" and t: "ta_tenant_id t = principal_tenant_id p"
      "ta_user_id t = principal_user_id p" "ta_app_id t = principal_app_id p"
    by (auto simp: tenant_app_from_context_def require_principal_def res_bind_def ok_or_def
        split: option.splits)
  have "rc_principal ctx = cs_principal (ev_state f)"
    using c by (auto simp: to_context_def res_bind_def ok_or_def split: option.splits)
  with p t show ?thesis by auto
qed

text \<open>The layer answers like the timeout of the middleware.\<close>

lemma timeout_layer_agrees:
  "rn_request_timeout rn = Some timeout \<Longrightarrow>
     run_handler_with_timeout lib rn h ib = request_timeout_middleware lib rn h timeout ib"
  by (simp add: run_handler_with_timeout_def request_timeout_middleware_def)

text \<open>The layer never allows the wildcard header, which \<open>tower-http\<close> refuses together with
  credentials.\<close>

lemma fold_names_subset:
  "set (fold (\<lambda>h acc. case f h of None \<Rightarrow> acc | Some n \<Rightarrow> if n \<in> set acc then acc else acc @ [n]) hs acc)
     \<subseteq> set acc \<union> {n. \<exists>h \<in> set hs. f h = Some n}"
proof (induction hs arbitrary: acc)
  case (Cons h hs)
  show ?case
  proof (cases "f h")
    case (Some n)
    show ?thesis
      by (cases "n \<in> set acc") (use Cons.IH [of acc] Cons.IH [of "acc @ [n]"] Some in auto)
  qed (use Cons.IH [of acc] in auto)
qed simp

theorem layer_has_no_wildcard:
  assumes "\<forall>v. parse_name v = Some ''*'' \<longrightarrow> v = ''*''"
  shows "''*'' \<notin> set (cl_headers (cors_layer_from_policy parse_uri parse_name policy))"
proof -
  have default: "''*'' \<notin> set (co_allowed_headers cors_default)" by code_simp
  have some: "''*'' \<notin> set (some_values parse_name (filter (\<lambda>h. h \<noteq> ''*'') (co_allowed_headers policy)))"
    using assms by (auto simp: some_values_def split: option.splits)
  show ?thesis
    using some fold_names_subset [of parse_name "co_allowed_headers cors_default"
        "some_values parse_name (filter (\<lambda>h. h \<noteq> ''*'') (co_allowed_headers policy))"] assms default
    by (auto simp: cors_layer_from_policy_def Let_def)
qed

end
