(* ===== verification/Redaction.thy ===== *)
theory Redaction
  imports Request_Keys
begin

section \<open>Redaction of log fields and headers\<close>

text \<open>
  Models \<open>redact.rs\<close> and the field formatter of \<open>tracing_init.rs\<close>: which header and field names
  hide their value, and the text of the fields of a log event. A field is its name and the text
  of its value. Installing the subscriber is left out.
\<close>

definition redacted :: string where
  "redacted = ''[REDACTED]''"

definition is_sensitive_header_name :: "string \<Rightarrow> bool" where
  "is_sensitive_header_name normalized \<longleftrightarrow> normalized \<in>
     {''authorization'', ''x-api-key'', ''api-key'', ''access-token'', ''x-access-token'',
      ''x-sdkwork-access-token'', ''cookie'', ''set-cookie'', ''x-idempotency-key'', ''idempotency-key''}"

definition is_sensitive_log_field_name :: "string \<Rightarrow> bool" where
  "is_sensitive_log_field_name normalized \<longleftrightarrow> is_sensitive_header_name normalized
     \<or> normalized \<in> {''password'', ''passwd'', ''secret'', ''api_key'', ''apikey'', ''token'', ''auth_token'',
         ''access_token'', ''refresh_token'', ''bearer'', ''credential'', ''credentials''}
     \<or> str_contains normalized ''password'' \<or> str_contains normalized ''secret''
     \<or> str_contains normalized ''token'' \<or> str_contains normalized ''api_key''
     \<or> str_contains normalized ''apikey''"

definition redact_sensitive_header :: "string \<Rightarrow> string \<Rightarrow> string" where
  "redact_sensitive_header name v =
     (if is_sensitive_header_name (to_lower (trim name)) then redacted else v)"

definition is_redacted_log_field :: "string \<Rightarrow> bool" where
  "is_redacted_log_field field_name = is_sensitive_log_field_name (to_lower (trim field_name))"

definition redact_sensitive_log_value :: "string \<Rightarrow> string \<Rightarrow> string" where
  "redact_sensitive_log_value field_name v =
     (if is_sensitive_log_field_name (to_lower (trim field_name)) then redacted else v)"

definition write_field :: "string \<times> string \<Rightarrow> string \<times> bool \<Rightarrow> string \<times> bool" where
  "write_field nv st =
     (case (nv, st) of ((name, v), (text, wrote_field)) \<Rightarrow>
        (text @ (if wrote_field then '' '' else []) @ name @ ''='' @ redact_sensitive_log_value name v, True))"

definition format_fields :: "(string \<times> string) list \<Rightarrow> string" where
  "format_fields fs = fst (fold write_field fs ([], False))"

subsection \<open>Facts\<close>

text \<open>What is logged does not depend on the values of the redacted fields.\<close>

definition same_but_redacted :: "(string \<times> string) list \<Rightarrow> (string \<times> string) list \<Rightarrow> bool" where
  "same_but_redacted = list_all2 (\<lambda>(n, v) (n', v'). n = n' \<and> (is_redacted_log_field n \<or> v = v'))"

lemma write_same:
  "same_but_redacted xs ys \<Longrightarrow> fold write_field xs st = fold write_field ys st"
proof (induction xs arbitrary: ys st)
  case (Cons x xs)
  then obtain y ys' where y: "ys = y # ys'" "same_but_redacted xs ys'"
      "fst x = fst y" "is_redacted_log_field (fst x) \<or> snd x = snd y"
    by (cases ys) (auto simp: same_but_redacted_def split: prod.splits)
  then have "write_field x st = write_field y st"
    by (auto simp: write_field_def redact_sensitive_log_value_def is_redacted_log_field_def split: prod.splits)
  with y Cons.IH show ?case by simp
qed (simp add: same_but_redacted_def)

theorem redacted_fields_do_not_leak:
  "same_but_redacted xs ys \<Longrightarrow> format_fields xs = format_fields ys"
  by (simp add: format_fields_def write_same)

text \<open>Every field whose name holds \<open>token\<close> is redacted.\<close>

lemma token_fields_redacted:
  "str_contains (to_lower (trim name)) ''token'' \<Longrightarrow> is_redacted_log_field name"
  by (simp add: is_redacted_log_field_def is_sensitive_log_field_name_def)

text \<open>Of the headers the pipeline reads credentials from, two are not
  redacted.\<close>

lemma credential_headers_redacted:
  "redact_sensitive_header ''Authorization'' v = redacted"
  "redact_sensitive_header ''Access-Token'' v = redacted"
  "redact_sensitive_header ''X-Api-Key'' v = redacted"
  "redact_sensitive_header ''X-SDKWork-Access-Token'' v = redacted"
  by code_simp+

lemma ingress_and_agent_tokens_shown:
  "redact_sensitive_header ''X-SDKWork-Ingress-Token'' v = v"
  "redact_sensitive_header ''X-SDKWork-Agent-Token'' v = v"
  by code_simp+

end
