(* ===== verification/Request_Locale.thy ===== *)
theory Request_Locale
  imports Token_Claims
begin

section \<open>Locales and the message catalogue\<close>

text \<open>
  Models \<open>locale.rs\<close>: the locale policy from the environment, the locale of a request and the
  messages of the platform errors. Normalising a tag and choosing among preferences are
  functions of the utilities crate and parameters here. Chinese texts are given by their UTF-8 bytes.
\<close>

record web_locale =
  lo_tag :: string
  lo_raw_accept_language :: "string option"

definition locale_new :: "string \<Rightarrow> web_locale" where
  "locale_new tag = \<lparr>lo_tag = tag, lo_raw_accept_language = None\<rparr>"

record locale_policy =
  lp_default_locale :: web_locale
  lp_fallback_locale :: web_locale
  lp_supported_locales :: "web_locale list"

definition locale_policy_default :: locale_policy where
  "locale_policy_default = \<lparr>lp_default_locale = locale_new ''zh-CN'',
     lp_fallback_locale = locale_new ''en-US'',
     lp_supported_locales = map locale_new
       [''zh-CN'', ''en-US'', ''ja-JP'', ''de-DE'', ''fr-FR'', ''ru-RU'', ''ko-KR'']\<rparr>"

definition supported_tags :: "locale_policy \<Rightarrow> string list" where
  "supported_tags policy = map lo_tag (lp_supported_locales policy)"

definition locale_policy_from_env ::
  "(string \<Rightarrow> string option) \<Rightarrow> string option \<Rightarrow> string option \<Rightarrow> string option \<Rightarrow> locale_policy" where
  "locale_policy_from_env normalize_tag default_tag supported fallback_tag =
     (let policy = locale_policy_default;
          policy = (case Option.bind default_tag normalize_tag of None \<Rightarrow> policy
            | Some tag \<Rightarrow> policy\<lparr>lp_default_locale := locale_new tag\<rparr>);
          policy = (case Option.bind fallback_tag normalize_tag of None \<Rightarrow> policy
            | Some tag \<Rightarrow> policy\<lparr>lp_fallback_locale := locale_new tag\<rparr>);
          parsed = (case supported of None \<Rightarrow> []
            | Some v \<Rightarrow> map locale_new (List.map_filter normalize_tag (split_on (CHR '','') v)))
      in if parsed = [] then policy else policy\<lparr>lp_supported_locales := parsed\<rparr>)"

definition locale_policy_from_application_env ::
  "(string \<Rightarrow> string option) \<Rightarrow> (string \<Rightarrow> string option) \<Rightarrow> string \<Rightarrow> locale_policy" where
  "locale_policy_from_application_env normalize_tag env application_code =
     (let key = ''SDKWORK_'' @ to_upper application_code @ ''_''
      in locale_policy_from_env normalize_tag (env (key @ ''DEFAULT_LOCALE''))
           (env (key @ ''SUPPORTED_LOCALES'')) (env (key @ ''FALLBACK_LOCALE'')))"

text \<open>\<open>resolve_preference\<close> gets the header, the explicit choices in their order, the supported tags, the
  default and the fallback.\<close>

definition resolve_request_locale ::
  "(string option \<Rightarrow> string list \<Rightarrow> string list \<Rightarrow> string \<Rightarrow> string \<Rightarrow> string) \<Rightarrow> locale_policy
     \<Rightarrow> string option \<Rightarrow> string option \<Rightarrow> string option \<Rightarrow> web_locale" where
  "resolve_request_locale resolve_preference policy accept_language jwt_locale tenant_default =
     \<lparr>lo_tag = resolve_preference accept_language (List.map_filter (\<lambda>x. x) [jwt_locale, tenant_default])
        (supported_tags policy) (lo_tag (lp_default_locale policy)) (lo_tag (lp_fallback_locale policy)),
      lo_raw_accept_language = accept_language\<rparr>"

definition extract_locale_claim ::
  "libs \<Rightarrow> (string \<Rightarrow> string option) \<Rightarrow> string option \<Rightarrow> string option" where
  "extract_locale_claim lib normalize_tag raw_token =
     Option.bind raw_token (\<lambda>raw.
       case parse_claims lib raw of
         Inl _ \<Rightarrow> None
       | Inr claims \<Rightarrow> Option.bind (map_of claims ''locale'') normalize_tag)"

subsection \<open>Messages\<close>

definition utf8 :: "nat list \<Rightarrow> string" where
  "utf8 = map char_of"

definition message_table :: "(int \<times> string \<times> string) list" where
  "message_table = [
     (40001, (utf8 [232, 175, 183, 230, 177, 130, 229, 143, 130, 230, 149, 176, 230, 151, 160, 230,
         149, 136],
        ''One or more request fields are invalid'')),
     (40101, (utf8 [233, 156, 128, 232, 166, 129, 232, 186, 171, 228, 187, 189, 232, 174, 164, 232,
         175, 129],
        ''Authentication is required'')),
     (40103, (utf8 [229, 135, 173, 232, 175, 129, 230, 151, 160, 230, 149, 136],
        ''The provided credential is invalid'')),
     (40301, (utf8 [230, 157, 131, 233, 153, 144, 228, 184, 141, 232, 182, 179],
        ''Permission is required for this operation'')),
     (40401, (utf8 [232, 181, 132, 230, 186, 144, 228, 184, 141, 229, 173, 152, 229, 156, 168],
        ''The requested resource was not found'')),
     (40501, (utf8 [72, 84, 84, 80, 32, 230, 150, 185, 230, 179, 149, 228, 184, 141, 232, 162, 171,
         229, 133, 129, 232, 174, 184],
        ''The HTTP method is not allowed for this route'')),
     (40801, (utf8 [232, 175, 183, 230, 177, 130, 232, 182, 133, 230, 151, 182],
        ''The request timed out'')),
     (40901, (utf8 [232, 181, 132, 230, 186, 144, 231, 138, 182, 230, 128, 129, 229, 134, 178, 231,
         170, 129],
        ''The request conflicts with the current resource state'')),
     (41301, (utf8 [232, 175, 183, 230, 177, 130, 228, 189, 147, 232, 191, 135, 229, 164, 167],
        ''The request payload is too large'')),
     (42901, (utf8 [232, 175, 183, 230, 177, 130, 232, 191, 135, 228, 186, 142, 233, 162, 145, 231,
         185, 129],
        ''Rate limit exceeded'')),
     (50101, (utf8 [230, 142, 165, 229, 143, 163, 229, 176, 154, 230, 156, 170, 229, 174, 158, 231,
         142, 176],
        ''The requested operation is not implemented'')),
     (50301, (utf8 [228, 190, 157, 232, 181, 150, 230, 156, 141, 229, 138, 161, 230, 154, 130, 230,
         151, 182, 228, 184, 141, 229, 143, 175, 231, 148, 168],
        ''A required dependency is temporarily unavailable'')),
     (50001, (utf8 [230, 156, 141, 229, 138, 161, 229, 153, 168, 229, 134, 133, 233, 131, 168, 233,
         148, 153, 232, 175, 175],
        ''An internal error occurred''))]"

definition framework_message_for :: "string \<Rightarrow> int \<Rightarrow> string option" where
  "framework_message_for tag code_number =
     map_option (\<lambda>(zh, en). if starts_with tag ''zh'' then zh else en) (map_of message_table code_number)"

subsection \<open>Facts\<close>

text \<open>Every message of the table is one line of text in both languages.\<close>

lemma messages_one_line:
  "list_all (\<lambda>(_, zh, en). zh \<noteq> [] \<and> en \<noteq> [] \<and> CHR 0x0A \<notin> set zh \<and> CHR 0x0A \<notin> set en) message_table"
  by code_simp

text \<open>A policy from the environment always supports a locale, whatever the variables hold.\<close>

lemma policy_supports_some: "supported_tags (locale_policy_from_env normalize_tag d s f) \<noteq> []"
  by (auto simp: locale_policy_from_env_def supported_tags_def locale_policy_default_def Let_def
      split: option.splits)

text \<open>Settings that do not parse leave the default policy.\<close>

lemma malformed_settings_ignored:
  assumes "normalize_tag = (\<lambda>_. None)"
  shows "locale_policy_from_env normalize_tag d s f = locale_policy_default"
proof -
  have "List.map_filter normalize_tag xs = []" for xs by (simp add: assms map_filter_def)
  then show ?thesis
    by (cases s; cases d; cases f) (simp_all add: locale_policy_from_env_def Let_def assms)
qed

text \<open>The catalogue has a text in both languages for the same codes, and none is empty.\<close>

lemma catalogue_complete:
  "(framework_message_for tag code_number = None) = (framework_message_for tag' code_number = None)"
  by (auto simp: framework_message_for_def)

lemma catalogue_not_empty:
  assumes "framework_message_for tag code_number = Some m"
  shows "m \<noteq> []"
proof -
  have table: "list_all (\<lambda>(_, zh, en). zh \<noteq> [] \<and> en \<noteq> []) message_table" by code_simp
  obtain zh en where "map_of message_table code_number = Some (zh, en)"
      "m = (if starts_with tag ''zh'' then zh else en)"
    using assms by (auto simp: framework_message_for_def)
  with table show ?thesis by (auto simp: list_all_iff dest!: map_of_SomeD)
qed

end
