(* ===== verification/Schema_Registry.thy ===== *)
theory Schema_Registry
  imports Json "HOL-Library.Product_Lexorder"
begin

section \<open>The schema registry\<close>

text \<open>
  Models the library of the crate \<open>sdkwork-web-schema-registry\<close>: the tables of an application,
  its fragments and the modules it depends on are composed into one registry, and the fragments
  of a frontend contract into one contract. The file system is a function from paths to what
  lies there; parsing YAML and the manifest are parameters. A path is the list of its
  components, the root being the component \<open>/\<close>. A mapping is the list of its entries, whose
  order is left open where \<open>serde_yaml\<close> swaps them; tagged values are left out.
\<close>

subsection \<open>YAML values and files\<close>

datatype yaml =
    YNull
  | YBool bool
  | YInt int
  | YFloat string
  | YString string
  | YSeq "yaml list"
  | YMap "(yaml \<times> yaml) list"

type_synonym yaml_mapping = "(yaml \<times> yaml) list"

fun yaml_get :: "string \<Rightarrow> yaml \<Rightarrow> yaml option" where
  "yaml_get k (YMap m) = map_of m (YString k)"
| "yaml_get k _ = None"

fun yaml_str :: "yaml \<Rightarrow> string option" where
  "yaml_str (YString s) = Some s"
| "yaml_str _ = None"

fun yaml_bool :: "yaml \<Rightarrow> bool option" where
  "yaml_bool (YBool b) = Some b"
| "yaml_bool _ = None"

fun yaml_i64 :: "yaml \<Rightarrow> int option" where
  "yaml_i64 (YInt n) = (if - 9223372036854775808 \<le> n \<and> n \<le> 9223372036854775807 then Some n else None)"
| "yaml_i64 _ = None"

fun yaml_seq :: "yaml \<Rightarrow> yaml list option" where
  "yaml_seq (YSeq xs) = Some xs"
| "yaml_seq _ = None"

fun yaml_map :: "yaml \<Rightarrow> yaml_mapping option" where
  "yaml_map (YMap m) = Some m"
| "yaml_map _ = None"

type_synonym path = "string list"

definition path_of :: "string \<Rightarrow> path" where
  "path_of s = (if starts_with s ''/'' then [''/''] else [])
     @ filter (\<lambda>c. c \<noteq> [] \<and> c \<noteq> ''.'') (split_on (CHR ''/'') s)"

definition is_absolute :: "path \<Rightarrow> bool" where
  "is_absolute p \<longleftrightarrow> p \<noteq> [] \<and> hd p = ''/''"

definition path_join :: "path \<Rightarrow> path \<Rightarrow> path" where
  "path_join p q = (if is_absolute q then q else p @ q)"

definition path_parent :: "path \<Rightarrow> path option" where
  "path_parent p = (if p = [] \<or> p = [''/''] then None else Some (butlast p))"

datatype file_state = NotAFile | Unreadable string | Contents string

record 'j file_system =
  fs_file :: "path \<Rightarrow> file_state"
  fs_canonicalize :: "path \<Rightarrow> path option"
  fs_parse_yaml :: "string \<Rightarrow> string + yaml"
  fs_parse_manifest :: "string \<Rightarrow> string + 'j"

datatype registry_error =
    RegistryNotFound path
  | DependencyRegistryNotFound string path
  | InvalidShape path string
  | DuplicateTable string string
  | MissingSourceRefs string string
  | FragmentEscape string
  | FragmentNotFound path
  | RegistryIo path string
  | RegistryYaml path string
  | RegistryJson path string
  | FrontendError string
  | FragmentDuplicate path
  | FragmentShape string path
  | FragmentDuplicateKey yaml path
  | FragmentDuplicateSection string path
  | StaleSnapshot path

text \<open>The constructors that start with \<open>Fragment\<close> and hold a path are the messages of \<open>Frontend\<close> that
  show one, but for \<open>FragmentNotFound\<close>.\<close>

definition parse_mapping :: "'j file_system \<Rightarrow> path \<Rightarrow> string \<Rightarrow> registry_error + yaml_mapping" where
  "parse_mapping fs p raw =
     (case fs_parse_yaml fs raw of
        Inl e \<Rightarrow> Inl (RegistryYaml p e)
      | Inr v \<Rightarrow> ok_or (yaml_map v) (InvalidShape p ''root must be a mapping''))"

definition read_yaml_mapping :: "'j file_system \<Rightarrow> path \<Rightarrow> registry_error + yaml_mapping" where
  "read_yaml_mapping fs p =
     (case fs_file fs p of
        NotAFile \<Rightarrow> Inl (RegistryNotFound p)
      | Unreadable e \<Rightarrow> Inl (RegistryIo p e)
      | Contents raw \<Rightarrow> parse_mapping fs p raw)"

definition is_file :: "'j file_system \<Rightarrow> path \<Rightarrow> bool" where
  "is_file fs p \<longleftrightarrow> fs_file fs p \<noteq> NotAFile"

subsection \<open>Dependencies\<close>

record registry_dependency =
  rd_module_id :: string
  rd_locator :: path
  rd_registry_path :: path
  rd_order :: int
  rd_ownership :: string

definition resolve_registry_file :: "path \<Rightarrow> registry_dependency \<Rightarrow> path" where
  "resolve_registry_file app_root d = path_join (path_join app_root (rd_locator d)) (rd_registry_path d)"

record database_module =
  dm_module_id :: string
  dm_locator :: path
  dm_order :: "int option"

definition default_registry_path :: "string \<Rightarrow> path" where
  "default_registry_path module_id = path_of (''docs/schema-registry/'' @ module_id @ ''.tables.yaml'')"

definition sort_dependencies :: "registry_dependency list \<Rightarrow> registry_dependency list" where
  "sort_dependencies = sort_key (\<lambda>d. (rd_order d, rd_module_id d))"

text \<open>The database manifest is parsed to its optional list of modules.\<close>

type_synonym registry_fs = "database_module list option file_system"

definition dependency_of_module :: "database_module \<Rightarrow> registry_dependency" where
  "dependency_of_module m = \<lparr>rd_module_id = dm_module_id m, rd_locator = dm_locator m,
     rd_registry_path = default_registry_path (dm_module_id m),
     rd_order = (case dm_order m of None \<Rightarrow> 0 | Some n \<Rightarrow> n), rd_ownership = ''read_only''\<rparr>"

definition resolve_registry_dependencies ::
  "registry_fs \<Rightarrow> path \<Rightarrow> registry_dependency list option \<Rightarrow> registry_error + registry_dependency list" where
  "resolve_registry_dependencies fs app_root explicit =
     (case explicit of
        Some (d # ds) \<Rightarrow> Inr (d # ds)
      | _ \<Rightarrow>
          (let manifest_path = path_join app_root [''database'', ''database.manifest.json''] in
           case fs_file fs manifest_path of
             NotAFile \<Rightarrow> Inr []
           | Unreadable e \<Rightarrow> Inl (RegistryIo manifest_path e)
           | Contents raw \<Rightarrow>
               (case fs_parse_manifest fs raw of
                  Inl e \<Rightarrow> Inl (RegistryJson manifest_path e)
                | Inr modules \<Rightarrow> Inr (sort_dependencies (map dependency_of_module
                    (case modules of None \<Rightarrow> [] | Some ms \<Rightarrow> ms))))))"

text \<open>\<open>as i32\<close>.\<close>

definition wrap_i32 :: "int \<Rightarrow> int" where
  "wrap_i32 n = (n + 2147483648) mod 4294967296 - 2147483648"

definition parse_registry_dependency :: "yaml \<Rightarrow> registry_error + registry_dependency" where
  "parse_registry_dependency item =
     res_bind (ok_or (yaml_map item) (InvalidShape [''registry_dependencies''] ''entries must be mappings'')) (\<lambda>_.
     res_bind (ok_or (Option.bind (yaml_get ''module_id'' item) yaml_str)
       (InvalidShape [''registry_dependencies''] ''module_id is required'')) (\<lambda>module_id.
     res_bind (ok_or (Option.bind (yaml_get ''locator'' item) yaml_str)
       (InvalidShape [''registry_dependencies''] ''locator is required'')) (\<lambda>locator. Inr
       \<lparr>rd_module_id = module_id, rd_locator = path_of locator,
        rd_registry_path = (case Option.bind (yaml_get ''registry_path'' item) yaml_str of
           None \<Rightarrow> default_registry_path module_id | Some p \<Rightarrow> path_of p),
        rd_order = wrap_i32 (case Option.bind (yaml_get ''order'' item) yaml_i64 of
           None \<Rightarrow> 0 | Some n \<Rightarrow> n),
        rd_ownership = (case Option.bind (yaml_get ''ownership'' item) yaml_str of
           None \<Rightarrow> ''read_only'' | Some s \<Rightarrow> s)\<rparr>)))"

definition parse_registry_dependencies :: "yaml \<Rightarrow> registry_error + registry_dependency list" where
  "parse_registry_dependencies v =
     res_bind (ok_or (yaml_seq v) (InvalidShape [''registry_dependencies''] ''must be a list'')) (\<lambda>items.
     res_bind (res_map parse_registry_dependency items) (\<lambda>deps. Inr (sort_dependencies deps)))"

definition load_dependencies ::
  "registry_fs \<Rightarrow> path \<Rightarrow> yaml_mapping \<Rightarrow> registry_error + registry_dependency list" where
  "load_dependencies fs app_root entry =
     (case map_of entry (YString ''registry_dependencies'') of
        None \<Rightarrow> resolve_registry_dependencies fs app_root None
      | Some v \<Rightarrow> res_bind (parse_registry_dependencies v)
          (\<lambda>deps. resolve_registry_dependencies fs app_root (Some deps)))"

subsection \<open>Tables\<close>

definition fragment_path :: "'j file_system \<Rightarrow> path \<Rightarrow> yaml \<Rightarrow> registry_error + path" where
  "fragment_path fs registry_dir item =
     res_bind (ok_or (opt_filter (\<lambda>s. s \<noteq> []) (yaml_str item))
       (InvalidShape [''table_fragments''] ''entries must be non-empty strings'')) (\<lambda>fragment.
     res_bind (ok_or (fs_canonicalize fs (path_join registry_dir (path_of fragment)))
       (FragmentNotFound (path_join registry_dir (path_of fragment)))) (\<lambda>p.
     if prefix (case fs_canonicalize fs registry_dir of None \<Rightarrow> registry_dir | Some d \<Rightarrow> d) p
     then Inr p else Inl (FragmentEscape fragment)))"

definition fragment_paths :: "'j file_system \<Rightarrow> path \<Rightarrow> yaml_mapping \<Rightarrow> registry_error + path list" where
  "fragment_paths fs registry_path entry =
     (case map_of entry (YString ''table_fragments'') of
        None \<Rightarrow> Inr []
      | Some v \<Rightarrow>
          res_bind (ok_or (yaml_seq v) (InvalidShape [''table_fragments''] ''must be a list'')) (\<lambda>items.
          res_bind (ok_or (path_parent registry_path)
            (InvalidShape registry_path ''registry path must have a parent directory'')) (\<lambda>registry_dir.
          res_map (fragment_path fs registry_dir) items)))"

definition inline_tables :: "yaml_mapping \<Rightarrow> registry_error + yaml list" where
  "inline_tables entry =
     (case map_of entry (YString ''tables'') of
        None \<Rightarrow> Inr []
      | Some v \<Rightarrow> ok_or (yaml_seq v) (InvalidShape [''tables''] ''must be a list''))"

definition collect_local_tables :: "'j file_system \<Rightarrow> path \<Rightarrow> yaml_mapping \<Rightarrow> registry_error + yaml list" where
  "collect_local_tables fs registry_path entry =
     res_bind (inline_tables entry) (\<lambda>tables.
     res_bind (fragment_paths fs registry_path entry) (\<lambda>fragments.
     res_fold (\<lambda>p tables. res_bind (read_yaml_mapping fs p) (\<lambda>fragment.
         res_bind (inline_tables fragment) (\<lambda>more_tables. Inr (tables @ more_tables))))
       fragments tables))"

definition table_name :: "yaml \<Rightarrow> registry_error + string" where
  "table_name table = ok_or (Option.bind (yaml_get ''table'' table) yaml_str)
     (InvalidShape [''tables''] ''each table entry must declare table'')"

fun annotate_table :: "bool \<Rightarrow> string option \<Rightarrow> yaml \<Rightarrow> yaml" where
  "annotate_table imported dependency_module (YMap m) =
     (let m = AList.update (YString ''imported'') (YBool imported) m;
          m = (if imported
            then (let m = AList.update (YString ''generated_by_this_project'') (YBool False) m in
              case dependency_module of None \<Rightarrow> m
              | Some module_id \<Rightarrow> AList.update (YString ''imported_from_module'') (YString module_id) m)
            else m)
      in YMap m)"
| "annotate_table imported dependency_module table = table"

text \<open>\<open>debug_key\<close> is the \<open>Debug\<close> form of a key.\<close>

definition normalize_table :: "(yaml \<Rightarrow> string) \<Rightarrow> yaml \<Rightarrow> string set" where
  "normalize_table debug_key table =
     (case yaml_map table of
        None \<Rightarrow> {}
      | Some m \<Rightarrow> debug_key ` set (filter
          (\<lambda>k. yaml_str k \<noteq> Some ''imported'' \<and> yaml_str k \<noteq> Some ''imported_from_module'') (map fst m)))"

definition table_matches :: "(yaml \<Rightarrow> string) \<Rightarrow> yaml \<Rightarrow> yaml \<Rightarrow> bool" where
  "table_matches debug_key a b \<longleftrightarrow> normalize_table debug_key a = normalize_table debug_key b"

definition table_name_or_default :: "yaml \<Rightarrow> string" where
  "table_name_or_default t = (case table_name t of Inl _ \<Rightarrow> [] | Inr n \<Rightarrow> n)"

definition sort_tables :: "yaml list \<Rightarrow> yaml list" where
  "sort_tables = sort_key table_name_or_default"

definition add_dependency_table ::
  "string \<Rightarrow> yaml \<Rightarrow> yaml btree \<Rightarrow> registry_error + yaml btree" where
  "add_dependency_table module_id table tables =
     res_bind (table_name table) (\<lambda>name.
     if bt_get tables name \<noteq> None
     then Inl (DuplicateTable name ''dependency modules declare the same table'')
     else Inr (bt_insert name (annotate_table True (Some module_id) table) tables))"

definition load_dependency ::
  "registry_fs \<Rightarrow> path \<Rightarrow> bool \<Rightarrow> registry_dependency \<Rightarrow> yaml btree \<Rightarrow> registry_error + yaml btree" where
  "load_dependency fs app_root require_registries d tables =
     (let p = resolve_registry_file app_root d in
      if \<not> is_file fs p
      then (if require_registries then Inl (DependencyRegistryNotFound (rd_module_id d) p) else Inr tables)
      else res_bind (read_yaml_mapping fs p) (\<lambda>entry.
        res_bind (collect_local_tables fs p entry) (\<lambda>local.
        res_fold (add_dependency_table (rd_module_id d)) local tables)))"

definition load_dependency_tables ::
  "registry_fs \<Rightarrow> path \<Rightarrow> yaml_mapping \<Rightarrow> bool \<Rightarrow> registry_error + yaml btree" where
  "load_dependency_tables fs app_root entry require_registries =
     res_bind (load_dependencies fs app_root entry) (\<lambda>deps.
     res_fold (load_dependency fs app_root require_registries) deps [])"

definition validate_assembly_table :: "yaml btree \<Rightarrow> yaml \<Rightarrow> registry_error + unit" where
  "validate_assembly_table dependency_tables table =
     res_bind (table_name table) (\<lambda>name.
     if bt_get dependency_tables name = None then Inr ()
     else
       (let flag = (\<lambda>key default_value. case Option.bind (yaml_get key table) yaml_bool of
              None \<Rightarrow> default_value | Some b \<Rightarrow> b);
            has_source_refs = (case Option.bind (yaml_get ''source_refs'' table) yaml_seq of
              None \<Rightarrow> False | Some items \<Rightarrow> items \<noteq> [])
        in if flag ''imported'' False
             \<or> (\<not> flag ''generated_by_this_project'' True \<and> \<not> flag ''system_of_record'' True)
             \<or> has_source_refs
           then Inr () else Inl (MissingSourceRefs name name)))"

definition add_assembly_table ::
  "(yaml \<Rightarrow> string) \<Rightarrow> yaml \<Rightarrow> yaml btree \<Rightarrow> registry_error + yaml btree" where
  "add_assembly_table debug_key table tables =
     res_bind (table_name table) (\<lambda>name.
     case bt_get tables name of
       Some existing \<Rightarrow>
         if table_matches debug_key existing table then Inr tables
         else Inl (DuplicateTable name ''assembly registry conflicts with dependency table definition'')
     | None \<Rightarrow> Inr (bt_insert name (annotate_table False None table) tables))"

definition remove_entry :: "string \<Rightarrow> yaml_mapping \<Rightarrow> yaml_mapping" where
  "remove_entry k m = filter (\<lambda>(k', _). k' \<noteq> YString k) m"

definition compose_schema_registry ::
  "registry_fs \<Rightarrow> (yaml \<Rightarrow> string) \<Rightarrow> path \<Rightarrow> path \<Rightarrow> bool \<Rightarrow> registry_error + yaml" where
  "compose_schema_registry fs debug_key app_root registry_path require_registries =
     res_bind (read_yaml_mapping fs registry_path) (\<lambda>entry.
     res_bind (load_dependency_tables fs app_root entry require_registries) (\<lambda>dependency_tables.
     res_bind (collect_local_tables fs registry_path entry) (\<lambda>assembly_tables.
     res_bind (res_forall (validate_assembly_table dependency_tables) assembly_tables) (\<lambda>_.
     res_bind (res_fold (add_assembly_table debug_key) assembly_tables dependency_tables) (\<lambda>effective.
     Inr (YMap (remove_entry ''registry_dependencies'' (remove_entry ''table_fragments''
       (AList.update (YString ''tables'') (YSeq (sort_tables (bt_values effective))) entry)))))))))"

text \<open>The files a composition reads.\<close>

definition dependency_source_paths ::
  "registry_fs \<Rightarrow> path \<Rightarrow> bool \<Rightarrow> registry_dependency \<Rightarrow> path list \<Rightarrow> registry_error + path list" where
  "dependency_source_paths fs app_root require_registries d paths =
     (let p = resolve_registry_file app_root d in
      if is_file fs p
      then res_bind (read_yaml_mapping fs p) (\<lambda>entry.
        res_bind (fragment_paths fs p entry) (\<lambda>fragments. Inr (paths @ p # fragments)))
      else if require_registries then Inl (DependencyRegistryNotFound (rd_module_id d) p)
      else Inr paths)"

definition schema_registry_source_paths ::
  "registry_fs \<Rightarrow> path \<Rightarrow> path \<Rightarrow> bool \<Rightarrow> registry_error + path list" where
  "schema_registry_source_paths fs app_root registry_path require_registries =
     res_bind (read_yaml_mapping fs registry_path) (\<lambda>entry.
     res_bind (fragment_paths fs registry_path entry) (\<lambda>fragments.
     res_bind (load_dependencies fs app_root entry) (\<lambda>deps.
     res_fold (dependency_source_paths fs app_root require_registries) deps (registry_path # fragments))))"

subsection \<open>Frontend contracts\<close>

definition metadata_keys :: "string list" where
  "metadata_keys = [''schema'', ''version'', ''source'', ''rule'']"

definition list_sections :: "string list" where
  "list_sections = [''frontend_models'', ''frontend_operations'', ''routes'']"

definition mapping_sections :: "string list" where
  "mapping_sections = [''x_response_entities'']"

definition read_optional_mapping :: "'j file_system \<Rightarrow> path \<Rightarrow> registry_error + yaml_mapping" where
  "read_optional_mapping fs p =
     (case fs_file fs p of
        NotAFile \<Rightarrow> Inr []
      | Unreadable e \<Rightarrow> Inl (RegistryIo p e)
      | Contents raw \<Rightarrow> parse_mapping fs p raw)"

definition contract_fragment_path :: "path \<Rightarrow> yaml \<Rightarrow> registry_error + path" where
  "contract_fragment_path index_path fragment_ref =
     res_bind (case yaml_str fragment_ref of
         Some p \<Rightarrow> Inr p
       | None \<Rightarrow>
           (case yaml_map fragment_ref of
              Some _ \<Rightarrow> ok_or (Option.bind (yaml_get ''path'' fragment_ref) yaml_str)
                (FrontendError ''fragment mappings must declare path'')
            | None \<Rightarrow> Inl (FrontendError
                ''frontend field contract fragment entries must be strings or mappings with path'')))
     (\<lambda>raw_path.
       let candidate = path_of raw_path in
       if is_absolute candidate \<or> ''..'' \<in> set candidate
       then Inl (FrontendError
         (''frontend field contract fragment path must stay inside the contract directory: '' @ raw_path))
       else Inr (path_join (case path_parent index_path of None \<Rightarrow> path_of ''.'' | Some d \<Rightarrow> d) candidate))"

definition merge_mapping_entry ::
  "path \<Rightarrow> yaml \<times> yaml \<Rightarrow> yaml_mapping \<Rightarrow> registry_error + yaml_mapping" where
  "merge_mapping_entry file_path kv m =
     (case kv of (k, v) \<Rightarrow>
        if map_of m k \<noteq> None then Inl (FragmentDuplicateKey k file_path)
        else Inr (AList.update k v m))"

definition merge_fragment_entry ::
  "path \<Rightarrow> yaml \<times> yaml \<Rightarrow> yaml_mapping \<Rightarrow> registry_error + yaml_mapping" where
  "merge_fragment_entry file_path kv compiled =
     (case kv of (key, v) \<Rightarrow>
        let key_name = (case yaml_str key of None \<Rightarrow> [] | Some s \<Rightarrow> s) in
        if key_name \<in> set metadata_keys then Inr compiled
        else if key_name \<in> set list_sections then
          (let target = (case map_of compiled key of None \<Rightarrow> YSeq [] | Some t \<Rightarrow> t) in
           res_bind (ok_or (yaml_seq v) (FragmentShape (key_name @ '' must be a list'') file_path)) (\<lambda>items.
           res_bind (ok_or (yaml_seq target) (FrontendError (''compiled '' @ key_name @ '' must be a list'')))
             (\<lambda>target_items. Inr (AList.update key (YSeq (target_items @ items)) compiled))))
        else if key_name \<in> set mapping_sections then
          (let target = (case map_of compiled key of None \<Rightarrow> YMap [] | Some t \<Rightarrow> t) in
           res_bind (ok_or (yaml_map v) (FragmentShape (key_name @ '' must be a mapping'') file_path)) (\<lambda>source.
           res_bind (ok_or (yaml_map target) (FrontendError (''compiled '' @ key_name @ '' must be a mapping'')))
             (\<lambda>target_map. res_bind (res_fold (merge_mapping_entry file_path) source target_map)
               (\<lambda>m. Inr (AList.update key (YMap m) compiled)))))
        else if map_of compiled key \<noteq> None then Inl (FragmentDuplicateSection key_name file_path)
        else Inr (AList.update key v compiled))"

definition merge_fragment :: "path \<Rightarrow> yaml_mapping \<Rightarrow> yaml_mapping \<Rightarrow> registry_error + yaml_mapping" where
  "merge_fragment file_path fragment compiled =
     res_fold (merge_fragment_entry file_path) fragment compiled"

definition add_contract_fragment ::
  "'j file_system \<Rightarrow> path \<Rightarrow> yaml \<Rightarrow> path list \<times> yaml_mapping \<Rightarrow> registry_error + path list \<times> yaml_mapping" where
  "add_contract_fragment fs index_path fragment_ref st =
     (case st of (seen, compiled) \<Rightarrow>
        res_bind (contract_fragment_path index_path fragment_ref) (\<lambda>p.
        if p \<in> set seen then Inl (FragmentDuplicate p)
        else res_bind (read_optional_mapping fs p) (\<lambda>fragment.
          res_bind (merge_fragment p fragment compiled) (\<lambda>compiled. Inr (p # seen, compiled)))))"

definition section_or_insert :: "yaml \<Rightarrow> string \<Rightarrow> yaml_mapping \<Rightarrow> yaml_mapping" where
  "section_or_insert v key m = (if map_of m (YString key) = None then AList.update (YString key) v m else m)"

definition compose_frontend_field_contract :: "'j file_system \<Rightarrow> path \<Rightarrow> registry_error + yaml" where
  "compose_frontend_field_contract fs index_path =
     res_bind (read_optional_mapping fs index_path) (\<lambda>index.
     case Option.bind (map_of index (YString ''fragments'')) yaml_seq of
       None \<Rightarrow> Inr (YMap index)
     | Some fragments \<Rightarrow>
         if fragments = []
         then Inl (FrontendError ''frontend field contract index fragments must be a non-empty list'')
         else
           (let compiled = fold (\<lambda>k m. case map_of index (YString k) of None \<Rightarrow> m
                  | Some v \<Rightarrow> AList.update (YString k) v m) metadata_keys []
            in res_bind (res_fold (add_contract_fragment fs index_path) fragments ([], compiled))
              (\<lambda>(_, compiled). Inr (YMap (fold (section_or_insert (YMap [])) mapping_sections
                (fold (section_or_insert (YSeq [])) list_sections compiled))))))"

text \<open>\<open>same\<close> is the equality of mappings, which does not depend on the order of their entries.\<close>

definition check_stale ::
  "(yaml_mapping \<Rightarrow> yaml_mapping \<Rightarrow> bool) \<Rightarrow> 'j file_system \<Rightarrow> path \<Rightarrow> path \<Rightarrow> registry_error + unit" where
  "check_stale same fs index_path snapshot_path =
     (if \<not> is_file fs index_path then Inr ()
      else res_bind (compose_frontend_field_contract fs index_path) (\<lambda>compiled.
        res_bind (read_optional_mapping fs snapshot_path) (\<lambda>snapshot.
        if same snapshot (case yaml_map compiled of None \<Rightarrow> [] | Some m \<Rightarrow> m) then Inr ()
        else Inl (StaleSnapshot snapshot_path))))"

subsection \<open>Facts\<close>

text \<open>A fragment of a registry lies below the directory of the registry, links resolved.\<close>

theorem fragments_stay_below:
  assumes "fragment_paths fs registry_path entry = Inr ps" and "p \<in> set ps"
  shows "\<exists>dir. path_parent registry_path = Some dir \<and>
    prefix (case fs_canonicalize fs dir of None \<Rightarrow> dir | Some d \<Rightarrow> d) p"
proof -
  obtain v where v: "map_of entry (YString ''table_fragments'') = Some v"
    using assms by (auto simp: fragment_paths_def split: option.splits)
  then obtain items dir where d: "path_parent registry_path = Some dir"
      and m: "res_map (fragment_path fs dir) items = Inr ps"
    using assms(1) by (auto simp: fragment_paths_def res_bind_def ok_or_def split: option.splits)
  from res_map_set [OF m assms(2)] obtain item where "fragment_path fs dir item = Inr p" by blast
  then show ?thesis using d
    by (auto simp: fragment_path_def res_bind_def ok_or_def split: option.splits if_splits)
qed

lemma annotated_name: "table_name (annotate_table imported m t) = table_name t"
  by (cases t; cases m)
    (auto simp: table_name_def Let_def update_conv')

text \<open>The effective tables are keyed by their names.\<close>

definition named_tables :: "yaml btree \<Rightarrow> bool" where
  "named_tables m \<longleftrightarrow> bt_ok m \<and> (\<forall>(n, t) \<in> set m. table_name t = Inr n)"

lemma bt_insert_set: "set (bt_insert k v m) \<subseteq> insert (k, v) (set m)"
  by (induction k v m rule: bt_insert.induct) auto

lemma insert_named:
  "named_tables m \<Longrightarrow> table_name t = Inr n \<Longrightarrow> named_tables (bt_insert n t m)"
  using bt_insert_set [of n t m] by (fastforce simp: named_tables_def bt_insert_ok)

lemma add_assembly_named:
  assumes "res_fold (add_assembly_table debug_key) ts m = Inr m'" and "named_tables m"
  shows "named_tables m' \<and> set (bt_keys m') = set (bt_keys m) \<union> {n. \<exists>t \<in> set ts. table_name t = Inr n}"
  using assms
proof (induction ts arbitrary: m)
  case (Cons t ts)
  then obtain m1 where m1: "add_assembly_table debug_key t m = Inr m1"
      and r: "res_fold (add_assembly_table debug_key) ts m1 = Inr m'"
    by (auto simp: res_bind_def split: sum.splits)
  then obtain n where n: "table_name t = Inr n"
    by (auto simp: add_assembly_table_def res_bind_def split: sum.splits)
  have "named_tables m1 \<and> set (bt_keys m1) = insert n (set (bt_keys m))"
  proof (cases "bt_get m n")
    case None
    then have "m1 = bt_insert n (annotate_table False None t) m"
      using m1 by (simp add: add_assembly_table_def n res_bind_def)
    then show ?thesis
      using insert_named [OF Cons.prems(2)] by (simp add: bt_insert_keys annotated_name n)
  next
    case (Some e)
    then have "n \<in> set (bt_keys m)" by (force simp: bt_keys_def dest: map_of_SomeD)
    moreover have "m1 = m"
      using m1 Some by (auto simp: add_assembly_table_def n res_bind_def split: if_splits)
    ultimately show ?thesis using Cons.prems(2) by auto
  qed
  with Cons.IH [OF r] n show ?case by auto
qed simp

lemma add_dependency_named:
  assumes "res_fold (add_dependency_table module_id) ts m = Inr m'" and "named_tables m"
  shows "named_tables m'"
  using assms
proof (induction ts arbitrary: m)
  case (Cons t ts)
  then obtain m1 where m1: "add_dependency_table module_id t m = Inr m1"
      and r: "res_fold (add_dependency_table module_id) ts m1 = Inr m'"
    by (auto simp: res_bind_def split: sum.splits)
  then have "named_tables m1"
    using insert_named [OF Cons.prems(2)]
    by (auto simp: add_dependency_table_def res_bind_def annotated_name split: sum.splits if_splits)
  with Cons.IH [OF r] show ?case .
qed simp

lemma sort_key_sorted: "sorted (map f xs) \<Longrightarrow> sort_key f xs = xs"
  by (induction xs) (auto intro: insort_is_Cons)

lemma load_named:
  assumes "res_fold (load_dependency fs app_root require_registries) deps m = Inr m'" and "named_tables m"
  shows "named_tables m'"
  using assms
proof (induction deps arbitrary: m)
  case (Cons d deps)
  then obtain m1 where m1: "load_dependency fs app_root require_registries d m = Inr m1"
      and r: "res_fold (load_dependency fs app_root require_registries) deps m1 = Inr m'"
    by (auto simp: res_bind_def split: sum.splits)
  have "named_tables m1"
    using m1 Cons.prems(2) add_dependency_named
    by (auto simp: load_dependency_def Let_def res_bind_def split: if_splits sum.splits)
  with Cons.IH [OF r] show ?case .
qed simp

lemma sorted_names:
  assumes "named_tables m"
  shows "sort_tables (bt_values m) = bt_values m"
    and "map table_name (bt_values m) = map Inr (bt_keys m)"
proof -
  show names: "map table_name (bt_values m) = map Inr (bt_keys m)"
    using assms by (auto simp: named_tables_def bt_values_def bt_keys_def)
  have "map table_name_or_default (bt_values m) = bt_keys m"
    using assms by (auto simp: named_tables_def bt_values_def bt_keys_def table_name_or_default_def
        intro!: map_idI)
  then show "sort_tables (bt_values m) = bt_values m"
    using assms by (simp add: sort_tables_def sort_key_sorted named_tables_def bt_ok_def)
qed

lemma remove_entry_get: "map_of (remove_entry k m) k' = (if k' = YString k then None else map_of m k')"
  by (induction m) (auto simp: remove_entry_def)

text \<open>A composed registry has one table per name, in the order of the names, and its names are those of
  the modules it depends on and those of the application.\<close>

theorem composed_tables:
  assumes "compose_schema_registry fs debug_key app_root registry_path require_registries = Inr v"
  shows "\<exists>ts names deps local_tables. yaml_get ''tables'' v = Some (YSeq ts)
    \<and> map table_name ts = map Inr names \<and> sorted names \<and> distinct names
    \<and> res_bind (read_yaml_mapping fs registry_path)
        (\<lambda>entry. load_dependency_tables fs app_root entry require_registries) = Inr deps
    \<and> res_bind (read_yaml_mapping fs registry_path) (collect_local_tables fs registry_path) = Inr local_tables
    \<and> set names = set (bt_keys deps) \<union> {n. \<exists>t \<in> set local_tables. table_name t = Inr n}"
proof -
  obtain entry deps local_tables effective where e: "read_yaml_mapping fs registry_path = Inr entry"
      and d: "load_dependency_tables fs app_root entry require_registries = Inr deps"
      and l: "collect_local_tables fs registry_path entry = Inr local_tables"
      and f: "res_fold (add_assembly_table debug_key) local_tables deps = Inr effective"
      and v: "v = YMap (remove_entry ''registry_dependencies'' (remove_entry ''table_fragments''
         (AList.update (YString ''tables'') (YSeq (sort_tables (bt_values effective))) entry)))"
    using assms by (auto simp: compose_schema_registry_def res_bind_def split: sum.splits)
  have "named_tables deps"
    using d load_named [of fs app_root require_registries _ "[]" deps]
    by (auto simp: load_dependency_tables_def res_bind_def named_tables_def split: sum.splits)
  from add_assembly_named [OF f this] have named: "named_tables effective"
    and keys: "set (bt_keys effective) = set (bt_keys deps) \<union> {n. \<exists>t \<in> set local_tables. table_name t = Inr n}"
    by simp_all
  have "yaml_get ''tables'' v = Some (YSeq (bt_values effective))"
    by (simp add: v remove_entry_get update_conv' sorted_names(1) [OF named])
  moreover have "sorted (bt_keys effective)" "distinct (bt_keys effective)"
    using named by (simp_all add: named_tables_def bt_ok_def)
  ultimately show ?thesis
    using sorted_names(2) [OF named] keys d l by (intro exI conjI) (simp_all add: e res_bind_def)
qed

text \<open>Two definitions of a table agree when they have the same keys, whatever they say: a second
  definition with other columns is dropped without an error.\<close>

lemma redefinition_dropped:
  assumes "yaml_map a = Some m" and "yaml_map b = Some m'" and "map fst m = map fst m'"
    and "table_name b = Inr n" and "bt_get tables n = Some a"
  shows "add_assembly_table debug_key b tables = Inr tables"
  using assms by (simp add: add_assembly_table_def res_bind_def table_matches_def normalize_table_def)

lemma yaml_str_Some: "yaml_str k = Some s \<longleftrightarrow> k = YString s"
  by (cases k) auto

lemma normalize_dom:
  "normalize_table debug_key (YMap m) =
     debug_key ` (dom (map_of m) - {YString ''imported'', YString ''imported_from_module''})"
proof -
  have "set (filter (\<lambda>k. yaml_str k \<noteq> Some ''imported'' \<and> yaml_str k \<noteq> Some ''imported_from_module'') (map fst m))
      = dom (map_of m) - {YString ''imported'', YString ''imported_from_module''}"
    by (auto simp: yaml_str_Some dom_map_of_conv_image_fst)
  then show ?thesis by (simp add: normalize_table_def del: set_filter)
qed

text \<open>A dependency's table is given a key its projection in the application then needs: a faithful
  projection without it is refused.\<close>

lemma faithful_projection_refused:
  assumes "inj debug_key" and "map_of m (YString ''generated_by_this_project'') = None"
    and "table_name (YMap m) = Inr n"
    and "bt_get tables n = Some (annotate_table True (Some module_id) (YMap m))"
  shows "add_assembly_table debug_key (YMap (AList.update (YString ''imported'') (YBool True) m)) tables
    = Inl (DuplicateTable n ''assembly registry conflicts with dependency table definition'')"
proof -
  let ?t = "annotate_table True (Some module_id) (YMap m)"
  let ?p = "YMap (AList.update (YString ''imported'') (YBool True) m)"
  let ?k = "debug_key (YString ''generated_by_this_project'')"
  have "?k \<in> normalize_table debug_key ?t"
    by (simp add: Let_def normalize_dom update_conv')
  moreover have "?k \<notin> normalize_table debug_key ?p"
    using assms(1,2) by (auto simp: normalize_dom update_conv' inj_eq)
  ultimately have "\<not> table_matches debug_key ?t ?p" by (auto simp: table_matches_def)
  moreover have "table_name ?p = Inr n"
    using assms(3) by (simp add: table_name_def update_conv')
  ultimately show ?thesis using assms(4) by (simp add: add_assembly_table_def res_bind_def)
qed

text \<open>Merging a fragment only adds to a contract: a section stays as it is, a list keeps its items in front.\<close>

lemma merge_entry_extends:
  assumes "merge_fragment_entry file_path kv c = Inr c'"
  shows "map_of c key = Some (YSeq xs) \<Longrightarrow> \<exists>ys. map_of c' key = Some (YSeq (xs @ ys))"
    and "map_of c key = Some v \<Longrightarrow> \<forall>k. key = YString k \<longrightarrow> k \<notin> set list_sections \<union> set mapping_sections
      \<Longrightarrow> map_of c' key = Some v"
  using assms
  by (cases kv;
      auto simp: merge_fragment_entry_def Let_def res_bind_def ok_or_def update_conv' yaml_str_Some
        list_sections_def mapping_sections_def split: if_splits option.splits sum.splits)+

theorem merge_fragment_extends:
  assumes "merge_fragment file_path fragment c = Inr c'"
  shows "map_of c key = Some (YSeq xs) \<Longrightarrow> \<exists>ys. map_of c' key = Some (YSeq (xs @ ys))"
    and "map_of c key = Some v \<Longrightarrow> \<forall>k. key = YString k \<longrightarrow> k \<notin> set list_sections \<union> set mapping_sections
      \<Longrightarrow> map_of c' key = Some v"
proof -
  note run = assms [unfolded merge_fragment_def]
  show "\<exists>ys. map_of c' key = Some (YSeq (xs @ ys))" if "map_of c key = Some (YSeq xs)"
  proof (rule res_fold_invariant [OF run, where P = "\<lambda>c. \<exists>ys. map_of c key = Some (YSeq (xs @ ys))"])
    show "\<exists>ys. map_of c key = Some (YSeq (xs @ ys))" using that by simp
    show "\<exists>ys. map_of c2 key = Some (YSeq (xs @ ys))"
      if "\<exists>ys. map_of c1 key = Some (YSeq (xs @ ys))"
        and step: "merge_fragment_entry file_path kv c1 = Inr c2" for kv c1 c2
      using that(1) merge_entry_extends(1) [OF step] by fastforce
  qed
  show "map_of c' key = Some v"
    if "map_of c key = Some v" and "\<forall>k. key = YString k \<longrightarrow> k \<notin> set list_sections \<union> set mapping_sections"
    by (rule res_fold_invariant [OF run, where P = "\<lambda>c. map_of c key = Some v", OF that(1)])
      (rule merge_entry_extends(2) [OF _ _ that(2)])
qed

end
