(* ===== verification/Control_Plane.thy ===== *)
theory Control_Plane
  imports Hosting Admin_Api
begin

section \<open>The control plane server\<close>

text \<open>
  Models \<open>manifest.rs\<close> and \<open>paths.rs\<close> of the backend API crate and \<open>lib.rs\<close> and \<open>main.rs\<close> of
  \<open>sdkwork-web-admin-server\<close>: the route table of the control plane and the framework its server
  is assembled from. What connects to the data base and to Redis is a parameter.
\<close>

subsection \<open>Routes\<close>

definition framework_path :: "string \<Rightarrow> string" where
  "framework_path s = ''/backend/v3/api/web-framework'' @ s"

definition readable :: "http_route \<Rightarrow> http_route" where
  "readable r = with_alternate_permissions [perm_platform_read] (with_required_permission perm_tenant_admin r)"

definition control_plane_route :: "http_method \<Rightarrow> string \<Rightarrow> string \<Rightarrow> http_route" where
  "control_plane_route m p op_id = route_dual_token m (framework_path p) ''WebFramework'' (''webFramework.'' @ op_id)"

definition control_plane_routes :: manifest where
  "control_plane_routes =
     [readable (control_plane_route Get ''/cors_policies'' ''corsPolicies.list''),
      with_required_permission perm_tenant_admin
        (control_plane_route Put ''/cors_policies'' ''corsPolicies.upsert''),
      readable (control_plane_route Get ''/rate_limit_policies'' ''rateLimitPolicies.list''),
      with_required_permission perm_tenant_admin
        (control_plane_route Put ''/rate_limit_policies'' ''rateLimitPolicies.upsert''),
      readable (control_plane_route Get ''/tenant_runtime_profiles'' ''tenantRuntimeProfiles.list''),
      with_required_permission perm_tenant_admin
        (control_plane_route Put ''/tenant_runtime_profiles'' ''tenantRuntimeProfiles.upsert''),
      with_required_permission perm_control_plane
        (control_plane_route Get ''/security_events'' ''securityEvents.list''),
      readable (control_plane_route Get ''/audit_events'' ''auditEvents.list''),
      with_required_permission perm_control_plane
        (control_plane_route Get ''/control_nodes'' ''controlNodes.list''),
      with_required_permission perm_control_plane
        (control_plane_route Post ''/control_nodes'' ''controlNodes.register''),
      with_required_permission perm_control_plane
        (control_plane_route Post ''/control_nodes/{nodeId}/heartbeat'' ''controlNodes.heartbeat''),
      with_required_permission perm_control_plane
        (control_plane_route Delete ''/control_nodes/{nodeId}'' ''controlNodes.delete''),
      with_required_permission perm_tenant_admin
        (control_plane_route Get ''/runtime_defaults'' ''runtimeDefaults.snapshot''),
      with_required_permission perm_tenant_admin
        (control_plane_route Get ''/optional_features'' ''optionalFeatures.snapshot'')]"

subsection \<open>Assembly\<close>

record 'w control_plane_parts =
  kp_connect :: "string \<Rightarrow> nat \<Rightarrow> string option"
  kp_sqlx_rate :: "'w rate_store"
  kp_sqlx_idem :: "'w idem_store"
  kp_redis_stores :: "string \<Rightarrow> string \<Rightarrow> string + 'w rate_store \<times> 'w idem_store \<times> 'w admission_store"
  kp_redis_readiness :: "string \<Rightarrow> string + unit"
  kp_audit_emitter :: "(audit_fact \<Rightarrow> ('w, unit) action) typed_object"
  kp_security_emitter :: "(security_event \<Rightarrow> ('w, unit) action) typed_object"
  kp_cors_source :: "cors_policy_context \<Rightarrow> ('w, cors_policy option) action"
  kp_rate_limit_source :: "rate_limit_policy_context \<Rightarrow> ('w, resolved_rate_limit option) action"
  kp_tenant_source :: "tenant_runtime_context \<Rightarrow> ('w, tenant_runtime_profile option) action"

definition not_blank :: "string option \<Rightarrow> string option" where
  "not_blank v = opt_filter (\<lambda>s. trim s \<noteq> []) v"

definition control_plane_builder ::
  "'w described_resolver \<Rightarrow> 'w control_plane_parts \<Rightarrow> 'w rate_store \<Rightarrow> 'w idem_store \<Rightarrow> 'w admission_store option
     \<Rightarrow> ('w, 'c) builder" where
  "control_plane_builder resolver parts rate idem admission =
     (production_defaults (builder_new resolver ''TenantBoundProductionWebRequestResolver''))
       \<lparr>wb_features := features_control_plane_standalone features_production_sqlx,
        wb_authorization := Some \<lparr>ob_type = ''ManifestAuthorizationPolicy'',
          ob_call = manifest_authorize control_plane_routes\<rparr>,
        wb_rate_limit_store := Some rate, wb_idempotency_store := Some idem, wb_admission_store := admission,
        wb_audit_emitter := Some (kp_audit_emitter parts),
        wb_security_emitter := Some (kp_security_emitter parts),
        wb_cors_source := Some (kp_cors_source parts),
        wb_rate_limit_source := Some (kp_rate_limit_source parts),
        wb_tenant_source := Some (kp_tenant_source parts),
        wb_has_readiness_check := True, wb_admin_routes := Some control_plane_routes\<rparr>"

text \<open>What the assembly connects to and wires before it builds: \<open>Inl\<close> is the error it returns.\<close>

definition control_plane_wiring ::
  "(string \<Rightarrow> string \<Rightarrow> string \<Rightarrow> 'w described_resolver) \<Rightarrow> 'w control_plane_parts \<Rightarrow> web_framework_env
     \<Rightarrow> string + ('w, 'c) builder" where
  "control_plane_wiring bootstrap_resolver parts env =
     (let database_url = unwrap_or (not_blank (we_store_url env)) ''postgres://localhost:5432/web_framework'' in
     res_bind (ok_or (not_blank (we_jwt_hs256_secret env))
       ''SDKWORK_WEB_FRAMEWORK_JWT_HS256_SECRET is required for production admin-server assembly'') (\<lambda>secret.
     let tenant_id = unwrap_or (not_blank (we_jwt_bootstrap_tenant_id env)) ''bootstrap'';
         key_id = unwrap_or (not_blank (we_jwt_bootstrap_key_id env)) ''bootstrap'';
         resolver = bootstrap_resolver tenant_id key_id secret
     in case kp_connect parts database_url (unwrap_or (we_store_pool_size env) 8) of
          Some e \<Rightarrow> Inl e
        | None \<Rightarrow>
            (case not_blank (we_redis_url env) of
               None \<Rightarrow> Inr (control_plane_builder resolver parts (kp_sqlx_rate parts) (kp_sqlx_idem parts) None)
             | Some url \<Rightarrow>
                 res_bind (kp_redis_stores parts url ''sdkwork:admin'') (\<lambda>(rate, idem, admission).
                 res_bind (kp_redis_readiness parts url) (\<lambda>_.
                 Inr (control_plane_builder resolver parts rate idem (Some admission)))))))"

text \<open>The resolver of the bootstrap tenant with its signing key and no API keys.\<close>

definition control_plane_resolver ::
  "crypto \<Rightarrow> libs \<Rightarrow> ('w \<Rightarrow> int) \<Rightarrow> string \<Rightarrow> string \<Rightarrow> string \<Rightarrow> 'w described_resolver" where
  "control_plane_resolver C L now tenant_id key_id secret =
     tenant_bound_verifying_resolver C L now (env_bootstrap_lookup tenant_id key_id secret)
       disabled_api_key_service production_claim_policy"

definition assemble_control_plane ::
  "crypto \<Rightarrow> libs \<Rightarrow> ('w \<Rightarrow> int) \<Rightarrow> (string \<Rightarrow> operation_view option) \<Rightarrow> (string \<Rightarrow> string option) \<Rightarrow>
     ('w resolver \<Rightarrow> 'w runtime) \<Rightarrow> 'w control_plane_parts \<Rightarrow> web_framework_env \<Rightarrow> string option
     \<Rightarrow> string + (string option \<times> (build_panic + ('w, 'c) framework))" where
  "assemble_control_plane C L now parse_operation process_env fresh parts env region =
     res_bind (control_plane_wiring (control_plane_resolver C L now) parts env)
       (\<lambda>b. Inr (build parse_operation process_env fresh b region))"

definition admin_bind :: "web_framework_env \<Rightarrow> string" where
  "admin_bind env = unwrap_or (we_admin_bind env) ''127.0.0.1:3920''"

subsection \<open>Facts\<close>

lemma control_plane_manifest_valid:
  "validate_builder_manifest parse_operation control_plane_routes (profile_default\<lparr>pf_environment := Prod\<rparr>) = Inr ()"
  by code_simp

lemma control_plane_builder_fields:
  fixes b :: "('w, 'c) builder"
  assumes "b = control_plane_builder resolver parts rate idem admission"
  shows "wb_resolver b = resolver" and "wb_resolver_type b = ''TenantBoundProductionWebRequestResolver''"
    and "wb_profile b = profile_default\<lparr>pf_environment := Prod\<rparr>"
    and "wb_security_policy b = security_production"
    and "wb_features b = features_control_plane_standalone features_production_sqlx"
    and "wb_authorization b = Some \<lparr>ob_type = ''ManifestAuthorizationPolicy'',
      ob_call = manifest_authorize control_plane_routes\<rparr>"
    and "wb_tenant_isolation b = Some principal_isolation_object"
    and "wb_audit_emitter b = Some (kp_audit_emitter parts)"
    and "wb_security_emitter b = Some (kp_security_emitter parts)"
    and "wb_admin_routes b = Some control_plane_routes" and "wb_route_manifest b = None"
    and "wb_region_env_keys b = []" and "wb_shutdown_grace_period b = Some 30000000000"
  by (simp_all add: assms control_plane_builder_def production_defaults_def builder_new_def Let_def
      features_production_sqlx_def some_or_def production_default_grace_secs_def)

lemma control_plane_assembly_valid:
  assumes "dr_profile resolver = ProfileBootstrap"
  shows "validate_production_assembly (control_plane_builder resolver parts rate idem admission) = Inr ()"
proof -
  have cors: "cors_validate_for_production (sp_cors security_production) = Inr ()" by code_simp
  have limit: "rl_enabled (sp_rate_limit security_production)" by code_simp
  show ?thesis
    by (simp add: validate_production_assembly_def control_plane_builder_fields [OF refl] cors limit Let_def assms
        features_control_plane_standalone_def is_noop_audit_emitter_def is_noop_security_event_emitter_def
        object_type_id_def is_allow_all_authorization_def is_pass_through_tenant_isolation_def
        dev_only_resolver_types_def shared_verifier_resolver_types_def is_tenant_bound_verifying_resolver_def
        requires_production_assembly_def)
qed

lemma control_plane_wiring_builder:
  assumes "control_plane_wiring bootstrap_resolver parts env = Inr b"
  obtains tenant_id key_id secret rate idem admission
  where "b = control_plane_builder (bootstrap_resolver tenant_id key_id secret) parts rate idem admission"
  using assms
  by (auto simp: control_plane_wiring_def Let_def res_bind_def ok_or_def split: option.splits sum.splits)

text \<open>Once the data base and Redis are there and a secret is given, the assembly always yields a
  framework: no check of the builder refuses the route table or the wiring, whatever the
  environment. Its calls are authorised by the route table, and its server runs for thirty
  seconds.\<close>

theorem control_plane_builds:
  assumes "assemble_control_plane C L now parse_operation process_env fresh parts env None = Inr (region', r)"
    and "region_code_from_env process_env [] = Inr region_code"
    and "register_runtime_region region_code None = (Some region, Inr registered)"
  shows "\<exists>fw. r = Inr fw \<and> rn_manifest (fw_runtime fw) = Some control_plane_routes
    \<and> rn_authorize (fw_runtime fw) = manifest_authorize control_plane_routes
    \<and> (\<forall>w. framework_run None no_op_lifecycle fw None drain_time w = (w, ReturnedOk 30000000000, False))"
proof -
  obtain b where b: "control_plane_wiring (control_plane_resolver C L now) parts env = Inr b"
      and built: "build parse_operation process_env fresh b None = (region', r)"
    using assms(1) by (auto simp: assemble_control_plane_def res_bind_def split: sum.splits)
  obtain tenant_id key_id secret rate idem admission where
    b': "b = control_plane_builder (control_plane_resolver C L now tenant_id key_id secret) parts rate idem admission"
    using control_plane_wiring_builder [OF b] by blast
  note f = control_plane_builder_fields [OF b']
  have valid: "validate_production_assembly b = Inr ()"
    unfolding b' by (rule control_plane_assembly_valid)
      (simp add: control_plane_resolver_def tenant_bound_verifying_resolver_def tenant_bound_production_def)
  have env: "validate_deployment_environment process_env (pf_environment (wb_profile b))
      (of_production_security_defaults (wb_features b)) = Inr ()"
    by (auto simp: f validate_deployment_environment_def requires_production_assembly_def Let_def
        split: option.splits)
  have manifest: "validate_builder_manifest parse_operation control_plane_routes (wb_profile b) = Inr ()"
    unfolding f by (rule control_plane_manifest_valid)
  obtain fw where r: "r = Inr fw" and fw: "fw_runtime fw = builder_runtime fresh b"
      "fw_shutdown_grace_period fw = wb_shutdown_grace_period b"
    using built
    by (auto simp: build_def Let_def f(10,11,12) opt_or_def manifest env valid assms(2,3) map_err_def)
  have grace: "fw_shutdown_grace_period fw = Some 30000000000" by (simp add: fw(2) f)
  have "framework_run None no_op_lifecycle fw None drain_time w = (w, ReturnedOk 30000000000, False)" for w
    by (simp add: framework_run_def serve_with_lifecycle_def grace no_op_lifecycle_def graceful_serve_def)
  moreover have "rn_manifest (fw_runtime fw) = Some control_plane_routes"
      and "rn_authorize (fw_runtime fw) = manifest_authorize control_plane_routes"
    by (simp_all add: fw builder_runtime_def Let_def f opt_or_def)
  ultimately show ?thesis using r by blast
qed

end
