(* ===== verification/Spec2Isabelle.thy ===== *)
theory Spec2Isabelle
  imports Prelude Web_Error Contract Request_Context Surface Route_Manifest Http Net_Addr Cors
    Security Context_Guard Request_Keys Admission Idempotency_Store Effects Open_Api_Auth Trace
    Problem Call_State Runtime Memory_Runtime Resolution Stages
    Chain Middleware Admission_Slots Policy_Cache Sqlx_Policies Authz_Scope
    Base64url Token_Claims Jwt Token_Resolvers Env_Config Assembly Call_Chain Api_Assembly Sqlx_Stores Redis_Stores
    Admin_Repository Admin_Api Websocket Route_Build Metrics Hosting
    Event_Rows Extractors Redaction Request_Locale Schema_Registry Control_Plane
begin

text \<open>
  \<^bold>\<open>SDKWork web framework: a model of the request pipeline and of the contracts around it.\<close>

  The repository is a framework of Rust crates under \<open>src/crates\<close> on top of \<open>axum\<close>. A service
  declares its routes in a manifest, wires resolvers, policies and stores with a builder, and
  serves its router behind a middleware that takes every request through a chain of
  interceptors: correlation, CORS, client context guards, surface classification, rate limit,
  authentication, authorization, tenant isolation, context injection, idempotency, audit. The
  manifest is also published as an OpenAPI document that host and dependencies compare.

  \<^bold>\<open>Theories and the code they model.\<close> All paths are relative to \<open>src/crates\<close>.

  \<^item> Vocabulary. \<open>Prelude\<close>: results as sums, the part of Rust's string library that is used,
    decimal numbers. \<open>Json\<close>: \<open>serde_json::Value\<close>, \<open>BTreeMap\<close>, loops with early returns.
    \<open>Http\<close>, \<open>Net_Addr\<close>: what is used of \<open>http\<close> and \<open>std::net\<close>. \<open>Effects\<close>: an \<open>async fn\<close> of a
    trait object as an action on the state of the outside world, with error short-cuts.
  \<^item> Contract (\<open>sdkwork-web-contract\<close>). \<open>Contract\<close>: routes, authentication profiles, the checks of
    \<open>lib.rs\<close>. \<open>Openapi\<close>, \<open>Openapi_Selectors\<close>, \<open>Openapi_Document\<close>: \<open>openapi.rs\<close>, the operation and
    the document of a route table, the context selector checks, ownership; \<open>inventory.rs\<close>.
    \<open>Openapi_Inventory\<close>: documents list their routes. \<open>Openapi_Merge\<close>: \<open>openapi_merge.rs\<close>.
    \<open>Route_Build\<close>: \<open>sdkwork-web-build\<close>, route tables generated from a document.
  \<^item> Core data (\<open>sdkwork-web-core/src\<close>). \<open>Web_Error\<close>: \<open>error.rs\<close>. \<open>Request_Context\<close>:
    \<open>request_context.rs\<close>, \<open>client_kind.rs\<close>. \<open>Surface\<close>, \<open>Route_Manifest\<close>: \<open>surface.rs\<close>,
    \<open>route_manifest.rs\<close>. \<open>Request_Keys\<close>: \<open>extractors.rs\<close>, \<open>hashing.rs\<close>, \<open>idempotency.rs\<close>.
    \<open>Trace\<close>: \<open>trace.rs\<close>, \<open>request_identity.rs\<close>. \<open>Problem\<close>: \<open>problem.rs\<close>.
  \<^item> Guards. \<open>Cors\<close> and \<open>Security\<close>: \<open>security.rs\<close>, \<open>registered_console_hosts.rs\<close>,
    \<open>registered_client_origins.rs\<close>. \<open>Context_Guard\<close>: \<open>client_context_guard.rs\<close>,
    \<open>path_resource_guard.rs\<close>.
  \<^item> Stores. \<open>Admission\<close>, \<open>Idempotency_Store\<close>: \<open>stores.rs\<close>, \<open>rate_limit.rs\<close>. \<open>Policy_Cache\<close>:
    \<open>policy_cache.rs\<close>. \<open>Sqlx_Policies\<close>: the policy sources of \<open>sdkwork-web-store-sqlx\<close>;
    \<open>Sqlx_Stores\<close>: its idempotency and rate-limit tables and \<open>purge.rs\<close>; \<open>Event_Rows\<close>: \<open>audit.rs\<close> and
    \<open>security_events.rs\<close>. \<open>Redis_Stores\<close>: \<open>sdkwork-web-store-redis\<close>.
  \<^item> Credentials. \<open>Base64url\<close>, \<open>Token_Claims\<close>, \<open>Jwt\<close>: \<open>jwt.rs\<close>, \<open>jwt_tenant.rs\<close>, \<open>jwt_claims.rs\<close>,
    \<open>parsers.rs\<close>, \<open>token_version.rs\<close>, the encoder of \<open>jwt_fixtures.rs\<close>. \<open>Token_Resolvers\<close>,
    \<open>Open_Api_Auth\<close>: \<open>resolvers.rs\<close>, \<open>open_api_auth.rs\<close>. \<open>Authz_Scope\<close>: \<open>authz_scope.rs\<close>.
  \<^item> Pipeline. \<open>Call_State\<close>, \<open>Runtime\<close>, \<open>Memory_Runtime\<close>, \<open>Chain\<close>: \<open>api_chain.rs\<close> with
    \<open>policies.rs\<close> and the policy modules. \<open>Resolution\<close>, \<open>Stages\<close>: \<open>interceptors.rs\<close>,
    \<open>context_injection.rs\<close>. \<open>Middleware\<close>: \<open>middleware.rs\<close>, \<open>correlation.rs\<close> of
    \<open>sdkwork-web-axum\<close>. \<open>Admission_Slots\<close>: the concurrency slots over a whole request.
    \<open>Extractors\<close>: \<open>axum_integration.rs\<close>, \<open>tenant_app_context.rs\<close>, \<open>timeout.rs\<close>, \<open>cors.rs\<close>. \<open>Websocket\<close>:
    \<open>websocket.rs\<close>, \<open>ws_interceptors.rs\<close>. \<open>Metrics\<close>: \<open>metrics.rs\<close>. \<open>Redaction\<close>: \<open>redact.rs\<close>,
    \<open>tracing_init.rs\<close>. \<open>Request_Locale\<close>: \<open>locale.rs\<close>.
  \<^item> Deployment. \<open>Env_Config\<close>, \<open>Assembly\<close>: \<open>env_config.rs\<close>, \<open>framework.rs\<close> of
    \<open>sdkwork-web-bootstrap\<close>, \<open>production_assembly.rs\<close>, \<open>runtime_region.rs\<close>. \<open>Api_Assembly\<close>:
    \<open>api_assembly.rs\<close>, \<open>health.rs\<close>. \<open>Hosting\<close>: \<open>lifecycle.rs\<close>, \<open>serve.rs\<close>, \<open>router.rs\<close>,
    \<open>fallback.rs\<close>, \<open>observability.rs\<close>.
  \<^item> Control plane. \<open>Admin_Repository\<close>: \<open>sdkwork-web-framework-admin-repository-sqlx\<close>. \<open>Admin_Api\<close>:
    \<open>sdkwork-routes-web-framework-backend-api\<close>. \<open>Control_Plane\<close>: its route table and
    \<open>sdkwork-web-admin-server\<close>. \<open>Schema_Registry\<close>: \<open>sdkwork-web-schema-registry\<close>.
  \<^item> Call chain (\<open>sdkwork-web-chain\<close>). \<open>Call_Policy\<close>, \<open>Call_Chain\<close>.

  \<^bold>\<open>How state corresponds.\<close> A struct is a \<open>record\<close> with a field for each of its fields, prefixed
  to keep names apart; an enum is a \<open>datatype\<close>; \<open>Result\<close> is a sum, an error message is the
  constructor of its format string with the inserted values; a panic is \<open>None\<close> or an error
  value where the text of a theory says so. Strings are lists of UTF-8 bytes. A \<open>HashMap\<close> is a
  map or an association list whose order stands for the iteration order; a \<open>BTreeMap\<close> is a
  sorted list of entries. Counters that can wrap are words (\<open>Request_Keys\<close>, \<open>Base64url\<close>,
  \<open>Token_Claims\<close>), times are numbers of nanoseconds. The request pipeline threads the world
  \<open>'w\<close> behind the stores and services, the call state and the request through every stage.

  \<^bold>\<open>What the lemmas show.\<close>
  \<^item> Route table: matching, template segments, public paths, surfaces and profiles, merged
    manifests (\<open>Surface\<close>, \<open>Route_Manifest\<close>).
  \<^item> Guards: what a request that passes satisfies, and exactly which requests are refused
    (\<open>Security\<close>, \<open>Cors\<close>, \<open>Context_Guard\<close>).
  \<^item> Stores: counting, window bounds, single flight and replays over arbitrary sequences of
    operations, the purge of expired rows included; the caches refine the source they cache over
    interleaved steps. What a store cannot promise is a lemma with a run that shows it
    (\<open>lost_invalidation\<close>, \<open>concurrent_calls_lose_an_update\<close>, \<open>fast_replica_exceeds_limit\<close>).
  \<^item> Credentials: an accepted principal carries the claims of tokens that verify for its tenant;
    base64url and trace identifiers round trip.
  \<^item> Pipeline: the handler runs only for requests that every stage admitted, audit precedes
    every answer, slots are accounted for, keys separate callers, errors do not leak details.
  \<^item> Deployment: a production build satisfies its checks; health probes are answered; a composed
    profile agrees with its contributions; how long a server runs; the control plane builds.
  \<^item> Control plane: tenant administrators stay inside their tenant, a written limit takes effect
    behind the policy cache, paging visits every row once, a stored audit fact is listed.
  \<^item> Around the pipeline: bounded metric series that count exactly, redacted fields that do not
    leak, message limits of echo sessions, composed schema registries.
  \<^item> OpenAPI: the merged document holds exactly what its parts contribute; a generated document
    lists exactly its routes; the schema check accepts exactly the schemas from which no context
    selector can be reached.

  \<^bold>\<open>Interfaces.\<close> \<open>admission_store\<close> and \<open>idempotency_store\<close> are the contracts of the store traits,
  interpreted on the in-memory stores, \<open>idempotency_store\<close> also on the SQL table and both on Redis. \<open>keyed_source\<close> is what a cache needs of its source,
  interpreted on the three SQLx sources and on the authorization scope provider.
  \<open>slot_accounting\<close> and \<open>slot_service\<close> are what the pipeline and the call chain need of an
  admission service, interpreted on the runtimes the crates assemble in memory.

  \<^bold>\<open>Bounds and fuel.\<close> Loops are structural recursions over what they traverse, or come with a
  measure. The only recursion of the code with fuel is the schema check of \<open>Openapi_Selectors\<close>; the depth of
  the schema suffices (\<open>schema_check_ends\<close>), and the document builder passes the depth of the
  document. A client that follows the cursors of \<open>Admin_Repository\<close> has as many calls as the
  table has rows and one more (\<open>audit_paging_complete\<close>).

  \<^bold>\<open>Parameters.\<close> Third-party code is an argument: HMAC and RSA, JSON parsing and printing, URI,
  method and header parsing, percent decoding, CIDR blocks, the random source, result codes and
  the platform problem detail. Hypotheses about them state what their documentation says.

  The statements of the SQL stores are functions on tables, those of the Redis scripts on a key
  space with expiry, as their documentation describes them; a statement that fails is modelled
  where the code does more than return the error. File systems, sockets and signals are inputs.

  \<^bold>\<open>Not modelled.\<close>
  \<^item> The OpenTelemetry exporter, connection pools, migrations and readiness queries: calls of
    libraries without logic of their own.
  \<^item> The registration of routes, layers and handlers with \<open>axum\<close> and \<open>tower\<close>, and the WebSocket upgrade.
  \<^item> \<open>Serialize\<close> and \<open>Deserialize\<close> of request and answer bodies, derived or left to the utilities crate.
  \<^item> The command line of the schema registry, module declarations, tests and test utilities.
\<close>

end
